(* ===== verification/Prelude.thy ===== *)
theory Prelude
  imports "HOL-Library.AList"
begin

text \<open>
  What every component shares: the exceptions of \<^verbatim>\<open>vsm/errors.py\<close> as values of a
  sum type, Python dictionaries as association lists in insertion order, and the
  string predicates the field annotations use.
  \<^item> A Python \<^verbatim>\<open>str\<close> is a list of characters that holds its UTF-8 bytes;
    \<open>py_len\<close> counts code points, as \<^verbatim>\<open>len\<close> does.
  \<^item> A \<^verbatim>\<open>datetime\<close> is an instant in microseconds, its resolution.
  \<^item> \<^verbatim>\<open>raise\<close> is the left side of the sum; nothing after it runs.
\<close>

section \<open>Exceptions and results\<close>

datatype error =
    InvariantViolation string
  | StreamConflict string nat nat
  | ReconciliationRequired string
  | ValidationError string
  | ValueError string
  | KeyError string
  | TypeError string
  | OverflowError

type_synonym 'a result = "error + 'a"
type_synonym time = int

text \<open>\<^verbatim>\<open>raise InvariantViolation(message)\<close>, the exception nearly every guard raises.\<close>

definition raise_violation :: "string \<Rightarrow> 'a result" where
  "raise_violation m = Inl (InvariantViolation m)"

text \<open>Sequencing: the first exception ends the operation.\<close>

definition bind_result :: "'a result \<Rightarrow> ('a \<Rightarrow> 'b result) \<Rightarrow> 'b result" where
  "bind_result r f = (case r of Inl e \<Rightarrow> Inl e | Inr x \<Rightarrow> f x)"

abbreviation succeeds :: "'a result \<Rightarrow> bool" where
  "succeeds r \<equiv> \<exists>x. r = Inr x"

lemma raise_violation_simps [simp]:
  "raise_violation m \<noteq> Inr x"
  "Inr x \<noteq> raise_violation m"
  "Inl e = raise_violation m \<longleftrightarrow> e = InvariantViolation m"
  "raise_violation m = Inl e \<longleftrightarrow> e = InvariantViolation m"
  by (auto simp: raise_violation_def)

text \<open>The simplifier need not look into messages.\<close>

lemma raise_violation_cong [cong]: "raise_violation m = raise_violation m"
  by (rule refl)

lemma bind_result_simps [simp]:
  "bind_result (Inl e) f = Inl e"
  "bind_result (Inr x) f = f x"
  "bind_result (raise_violation m) f = raise_violation m"
  by (simp_all add: bind_result_def raise_violation_def)

lemma bind_result_Inr [simp]:
  "bind_result r f = Inr y \<longleftrightarrow> (\<exists>x. r = Inr x \<and> f x = Inr y)"
  by (cases r) auto

lemma bind_result_InrE:
  assumes "bind_result r f = Inr y"
  obtains x where "r = Inr x" and "f x = Inr y"
  using assms by auto

lemma bind_result_assoc: "bind_result (bind_result r f) g = bind_result r (\<lambda>x. bind_result (f x) g)"
  by (cases r) auto

lemma case_result_Inr [simp]:
  "(case r of Inl e \<Rightarrow> Inl e | Inr x \<Rightarrow> f x) = Inr y \<longleftrightarrow> (\<exists>x. r = Inr x \<and> f x = Inr y)"
  by (cases r) auto

text \<open>
  \<open>ensures P r\<close>: if the operation returns, its value satisfies \<open>P\<close>. The rules take a chain of
  guards apart branch by branch; a raised exception has nothing to show.
\<close>

definition ensures :: "('a \<Rightarrow> bool) \<Rightarrow> 'a result \<Rightarrow> bool" where
  "ensures P r \<longleftrightarrow> (\<forall>x. r = Inr x \<longrightarrow> P x)"

lemma ensures_simps [simp]:
  "ensures P (Inl e)"
  "ensures P (raise_violation m)"
  "ensures P (Inr x) \<longleftrightarrow> P x"
  "ensures P (bind_result r f) \<longleftrightarrow> (\<forall>x. r = Inr x \<longrightarrow> ensures P (f x))"
  by (cases r; simp add: ensures_def)+

lemma ensuresD: "ensures P r \<Longrightarrow> r = Inr x \<Longrightarrow> P x"
  by (simp add: ensures_def)

lemmas ensures_splits = if_split option.split sum.split prod.split

section \<open>Dictionaries\<close>

text \<open>
  \<^verbatim>\<open>d[k] = v\<close> keeps the place of an existing key and appends a new one, which is what
  iteration over \<^verbatim>\<open>d.values()\<close> shows.
\<close>

type_synonym ('k, 'v) dict = "('k \<times> 'v) list"

definition dict_set :: "('k, 'v) dict \<Rightarrow> 'k \<Rightarrow> 'v \<Rightarrow> ('k, 'v) dict" where
  "dict_set d k v = AList.update k v d"

abbreviation dict_get :: "('k, 'v) dict \<Rightarrow> 'k \<Rightarrow> 'v option" where
  "dict_get d k \<equiv> map_of d k"

definition dict_mem :: "'k \<Rightarrow> ('k, 'v) dict \<Rightarrow> bool" where
  "dict_mem k d \<longleftrightarrow> k \<in> set (map fst d)"

definition dict_values :: "('k, 'v) dict \<Rightarrow> 'v list" where
  "dict_values d = map snd d"

text \<open>\<^verbatim>\<open>d.update({key(x): x for x in xs})\<close>.\<close>

definition dict_set_all :: "('v \<Rightarrow> 'k) \<Rightarrow> ('k, 'v) dict \<Rightarrow> 'v list \<Rightarrow> ('k, 'v) dict" where
  "dict_set_all key d xs = foldl (\<lambda>d x. dict_set d (key x) x) d xs"

text \<open>\<^verbatim>\<open>for k, v in tuple(d.items()): if p(v): d[k] = f(v)\<close>: every key exists.\<close>

definition dict_map_if :: "('v \<Rightarrow> bool) \<Rightarrow> ('v \<Rightarrow> 'v) \<Rightarrow> ('k, 'v) dict \<Rightarrow> ('k, 'v) dict" where
  "dict_map_if p f d = map (\<lambda>(k, v). (k, if p v then f v else v)) d"

text \<open>A dictionary is \<open>keyed\<close> when each value is stored under its own identity.\<close>

definition keyed :: "('v \<Rightarrow> 'k) \<Rightarrow> ('k, 'v) dict \<Rightarrow> bool" where
  "keyed key d \<longleftrightarrow> distinct (map fst d) \<and> (\<forall>(k, v) \<in> set d. k = key v)"

named_theorems dict_simps

lemma dict_get_set [simp, dict_simps]: "dict_get (dict_set d k v) k' = (if k' = k then Some v else dict_get d k')"
  by (simp add: dict_set_def update_conv')

lemma dict_mem_get [dict_simps]: "dict_mem k d \<longleftrightarrow> dict_get d k \<noteq> None"
  by (simp add: dict_mem_def map_of_eq_None_iff)

lemma dict_get_None_mem: "dict_get d k = None \<longleftrightarrow> \<not> dict_mem k d"
  by (simp add: dict_mem_get)

lemma dict_get_Some_mem: "dict_get d k = Some v \<Longrightarrow> dict_mem k d"
  by (simp add: dict_mem_get)

lemma dict_mem_set [simp, dict_simps]: "dict_mem k (dict_set d k' v) \<longleftrightarrow> k = k' \<or> dict_mem k d"
  by (auto simp: dict_mem_get)

lemma dict_mem_Nil [simp]: "\<not> dict_mem k []"
  by (simp add: dict_mem_def)

lemma distinct_dict_set [simp]: "distinct (map fst (dict_set d k v)) \<longleftrightarrow> distinct (map fst d)"
proof -
  have "distinct (map fst (AList.update k v d)) \<longleftrightarrow> distinct (map fst d)"
    by (induction d) (auto simp: dom_update image_iff)
  then show ?thesis by (simp add: dict_set_def)
qed

lemma set_dict_set: "set (dict_set d k v) \<subseteq> insert (k, v) (set d)"
  unfolding dict_set_def by (induction d) auto

lemma set_dict_set_distinct:
  "distinct (map fst d) \<Longrightarrow> set (dict_set d k v) = insert (k, v) {p \<in> set d. fst p \<noteq> k}"
  unfolding dict_set_def by (induction d) (auto simp: image_iff)

lemma dict_values_Nil [simp]: "dict_values [] = []"
  by (simp add: dict_values_def)

lemma dict_get_values: "dict_get d k = Some v \<Longrightarrow> v \<in> set (dict_values d)"
  by (force simp: dict_values_def dest: map_of_SomeD)

lemma values_dict_set: "set (dict_values (dict_set d k v)) \<subseteq> insert v (set (dict_values d))"
  using set_dict_set [of d k v] by (auto simp: dict_values_def)

lemma keyed_Nil [simp, intro]: "keyed key []"
  by (simp add: keyed_def)

lemma keyed_set [simp, intro]: "keyed key d \<Longrightarrow> key v = k \<Longrightarrow> keyed key (dict_set d k v)"
  using set_dict_set [of d k v] by (auto simp: keyed_def)

lemma keyed_get: "keyed key d \<Longrightarrow> dict_get d k = Some v \<Longrightarrow> key v = k"
  by (auto simp: keyed_def dest!: map_of_SomeD)

lemma keyed_get_iff: "keyed key d \<Longrightarrow> dict_get d k = Some v \<longleftrightarrow> v \<in> set (dict_values d) \<and> key v = k"
  by (force simp: keyed_def dict_values_def)

lemma keyed_values_get: "keyed key d \<Longrightarrow> v \<in> set (dict_values d) \<Longrightarrow> dict_get d (key v) = Some v"
  by (simp add: keyed_get_iff)

lemma keyed_values_set:
  assumes "keyed key d" and "key v = k"
  shows "set (dict_values (dict_set d k v)) = insert v {w \<in> set (dict_values d). key w \<noteq> k}"
proof -
  have "w \<in> set (dict_values (dict_set d k v)) \<longleftrightarrow> dict_get (dict_set d k v) (key w) = Some w" for w
    using keyed_get_iff [of key "dict_set d k v" "key w" w] assms by simp
  moreover have "w \<in> set (dict_values d) \<longleftrightarrow> dict_get d (key w) = Some w" for w
    using keyed_get_iff [of key d "key w" w] assms by simp
  ultimately show ?thesis using assms(2) by (auto split: if_splits)
qed

lemma dict_set_all_Nil [simp]: "dict_set_all key d [] = d"
  by (simp add: dict_set_all_def)

lemma dict_set_all_Cons [simp]:
  "dict_set_all key d (x # xs) = dict_set_all key (dict_set d (key x) x) xs"
  by (simp add: dict_set_all_def)

lemma keyed_set_all [simp, intro]: "keyed key d \<Longrightarrow> keyed key (dict_set_all key d xs)"
  by (induction xs arbitrary: d) auto

lemma dict_mem_set_all [simp]: "dict_mem k (dict_set_all key d xs) \<longleftrightarrow> k \<in> key ` set xs \<or> dict_mem k d"
  by (induction xs arbitrary: d) auto

lemma values_dict_set_all:
  "set (dict_values (dict_set_all key d xs)) \<subseteq> set xs \<union> set (dict_values d)"
proof (induction xs arbitrary: d)
  case (Cons x xs)
  from Cons.IH [of "dict_set d (key x) x"] values_dict_set [of d "key x" x]
  show ?case by auto
qed simp

lemma dict_get_set_all_notin:
  "k \<notin> key ` set xs \<Longrightarrow> dict_get (dict_set_all key d xs) k = dict_get d k"
  by (induction xs arbitrary: d) auto

lemma dict_get_map_if [simp]:
  "dict_get (dict_map_if p f d) k = map_option (\<lambda>v. if p v then f v else v) (dict_get d k)"
  by (induction d) (auto simp: dict_map_if_def)

lemma dict_mem_map_if [simp]: "dict_mem k (dict_map_if p f d) \<longleftrightarrow> dict_mem k d"
proof -
  have "map fst (dict_map_if p f d) = map fst d"
    by (simp add: dict_map_if_def comp_def case_prod_unfold)
  then show ?thesis by (simp add: dict_mem_def)
qed

lemma keyed_map_if [simp, intro]:
  "keyed key d \<Longrightarrow> (\<And>v. key (f v) = key v) \<Longrightarrow> keyed key (dict_map_if p f d)"
  by (auto simp: keyed_def dict_map_if_def comp_def case_prod_unfold)

lemma values_map_if [simp]:
  "dict_values (dict_map_if p f d) = map (\<lambda>v. if p v then f v else v) (dict_values d)"
  by (induction d) (auto simp: dict_map_if_def dict_values_def)

text \<open>\<^verbatim>\<open>next((x for x in xs if p(x)), None)\<close> is \<open>find p xs\<close>.\<close>

lemma find_SomeD: "find p xs = Some x \<Longrightarrow> x \<in> set xs \<and> p x"
  by (induction xs) (auto split: if_splits)

lemma find_NoneD: "find p xs = None \<Longrightarrow> x \<in> set xs \<Longrightarrow> \<not> p x"
  by (induction xs) (auto split: if_splits)

section \<open>Strings\<close>

text \<open>Code points of a UTF-8 byte string: the bytes that do not continue one.\<close>

definition py_len :: "string \<Rightarrow> nat" where
  "py_len s = length (filter (\<lambda>c. let b = (of_char c :: nat) in b < 128 \<or> 192 \<le> b) s)"

text \<open>\<^verbatim>\<open>NonBlank = Annotated[str, Field(min_length=1, max_length=512)]\<close>.\<close>

definition non_blank :: "string \<Rightarrow> bool" where
  "non_blank s \<longleftrightarrow> 1 \<le> py_len s \<and> py_len s \<le> 512"

definition char_between :: "char \<Rightarrow> char \<Rightarrow> char \<Rightarrow> bool" where
  "char_between lo hi c \<longleftrightarrow> (of_char lo :: nat) \<le> of_char c \<and> (of_char c :: nat) \<le> of_char hi"

definition is_lower :: "char \<Rightarrow> bool" where "is_lower = char_between (CHR ''a'') (CHR ''z'')"
definition is_upper :: "char \<Rightarrow> bool" where "is_upper = char_between (CHR ''A'') (CHR ''Z'')"
definition is_digit :: "char \<Rightarrow> bool" where "is_digit = char_between (CHR ''0'') (CHR ''9'')"
definition is_hex :: "char \<Rightarrow> bool" where
  "is_hex c \<longleftrightarrow> is_digit c \<or> char_between (CHR ''a'') (CHR ''f'') c"

text \<open>\<^verbatim>\<open>Field(pattern=r"^[0-9a-f]{64}$")\<close>.\<close>

definition is_sha256 :: "string \<Rightarrow> bool" where
  "is_sha256 s \<longleftrightarrow> length s = 64 \<and> list_all is_hex s"

definition option_all :: "('a \<Rightarrow> bool) \<Rightarrow> 'a option \<Rightarrow> bool" where
  "option_all p x \<longleftrightarrow> (case x of None \<Rightarrow> True | Some y \<Rightarrow> p y)"

lemma option_all_simps [simp]: "option_all p None" "option_all p (Some y) \<longleftrightarrow> p y"
  by (simp_all add: option_all_def)

text \<open>\<^verbatim>\<open>str.strip\<close> and \<^verbatim>\<open>str.lower\<close> on ASCII text, and \<^verbatim>\<open>needle in text\<close>.\<close>

definition is_space :: "char \<Rightarrow> bool" where
  "is_space c \<longleftrightarrow> (let b = (of_char c :: nat) in 9 \<le> b \<and> b \<le> 13 \<or> 28 \<le> b \<and> b \<le> 32)"

definition py_strip :: "string \<Rightarrow> string" where
  "py_strip s = rev (dropWhile is_space (rev (dropWhile is_space s)))"

definition py_lower :: "string \<Rightarrow> string" where
  "py_lower s = map (\<lambda>c. if is_upper c then char_of ((of_char c :: nat) + 32) else c) s"

fun contains :: "string \<Rightarrow> string \<Rightarrow> bool" where
  "contains needle [] \<longleftrightarrow> needle = []"
| "contains needle (c # s) \<longleftrightarrow> take (length needle) (c # s) = needle \<or> contains needle s"

definition starts_with :: "string \<Rightarrow> string \<Rightarrow> bool" where
  "starts_with pre s \<longleftrightarrow> take (length pre) s = pre"

text \<open>\<^verbatim>\<open>s.split(sep)\<close> at a single character.\<close>

fun split_on :: "char \<Rightarrow> string \<Rightarrow> string list" where
  "split_on sep [] = [[]]"
| "split_on sep (c # s) =
     (if c = sep then [] # split_on sep s
      else (case split_on sep s of [] \<Rightarrow> [[c]] | w # ws \<Rightarrow> (c # w) # ws))"

text \<open>Decimal digits of a number, as an f-string prints it.\<close>

fun decimal :: "nat \<Rightarrow> string" where
  "decimal n = (if n < 10 then [char_of (48 + n)] else decimal (n div 10) @ [char_of (48 + n mod 10)])"

declare decimal.simps [simp del]

definition digits_value :: "string \<Rightarrow> nat" where
  "digits_value s = foldl (\<lambda>a c. 10 * a + (of_char c - 48)) 0 s"

lemma digits_value_decimal: "digits_value (decimal n) = n"
proof (induction n rule: decimal.induct)
  case (1 n)
  show ?case
  proof (cases "n < 10")
    case True
    then show ?thesis by (subst decimal.simps) (simp add: digits_value_def)
  next
    case False
    with "1.IH" show ?thesis
      by (subst decimal.simps) (simp add: digits_value_def take_bit_eq_mod)
  qed
qed

lemma decimal_inject [simp]: "decimal m = decimal n \<longleftrightarrow> m = n"
  by (metis digits_value_decimal)

lemma decimal_nonempty [simp]: "decimal n \<noteq> []"
  by (subst decimal.simps) simp

end
