(* ===== verification/Ids.thy ===== *)
theory Ids
  imports Prelude
begin

text \<open>
  \<^verbatim>\<open>vsm/ids.py\<close>: the shape of a Nanihold identifier, and the event identity that is
  the SHA-256 of the canonical JSON of data space, stream and idempotency key. The
  hash itself (\<^verbatim>\<open>hashlib\<close>) and the snapshot digest's serialiser are parameters,
  collected in \<open>hashing\<close>; the canonical JSON text is computed as \<^verbatim>\<open>json.dumps\<close>
  does with \<^verbatim>\<open>ensure_ascii\<close>.
\<close>

section \<open>Identifiers\<close>

text \<open>\<^verbatim>\<open>^[a-z][a-z0-9_-]{1,31}:[A-Za-z0-9._~-]{1,160}$\<close>: neither part holds a colon.\<close>

definition is_kind_char :: "char \<Rightarrow> bool" where
  "is_kind_char c \<longleftrightarrow> is_lower c \<or> is_digit c \<or> c = CHR ''_'' \<or> c = CHR ''-''"

definition is_body_char :: "char \<Rightarrow> bool" where
  "is_body_char c \<longleftrightarrow> is_lower c \<or> is_upper c \<or> is_digit c
     \<or> c = CHR ''.'' \<or> c = CHR ''_'' \<or> c = CHR ''~'' \<or> c = CHR ''-''"

definition id_kind :: "string \<Rightarrow> string" where
  "id_kind s = takeWhile (\<lambda>c. c \<noteq> CHR '':'') s"

definition id_rest :: "string \<Rightarrow> string" where
  "id_rest s = dropWhile (\<lambda>c. c \<noteq> CHR '':'') s"

definition valid_identifier :: "string \<Rightarrow> bool" where
  "valid_identifier s \<longleftrightarrow>
     (case id_kind s of [] \<Rightarrow> False
      | c # cs \<Rightarrow> is_lower c \<and> list_all is_kind_char cs \<and> 1 \<le> length cs \<and> length cs \<le> 31) \<and>
     (case id_rest s of [] \<Rightarrow> False
      | _ # body \<Rightarrow> list_all is_body_char body \<and> 1 \<le> length body \<and> length body \<le> 160)"

definition validate_id :: "string \<Rightarrow> string result" where
  "validate_id v =
     (if \<not> valid_identifier v then raise_violation (''invalid Nanihold identifier: '' @ v) else Inr v)"

text \<open>\<^verbatim>\<open>new_id\<close>: the UUID is an input (it is read from the operating system).\<close>

definition new_id :: "string \<Rightarrow> string \<Rightarrow> string result" where
  "new_id kind uuid = validate_id (kind @ '':'' @ uuid)"

text \<open>\<^verbatim>\<open>BlobRef\<close>: \<^verbatim>\<open>^blob:sha256:[0-9a-f]{64}$\<close>.\<close>

definition valid_blob_ref :: "string \<Rightarrow> bool" where
  "valid_blob_ref s \<longleftrightarrow> take 12 s = ''blob:sha256:'' \<and> is_sha256 (drop 12 s)"

section \<open>Canonical JSON of strings\<close>

definition hex_digit :: "nat \<Rightarrow> char" where
  "hex_digit n = (if n < 10 then char_of (48 + n) else char_of (87 + n))"

definition json_u :: "nat \<Rightarrow> string" where
  "json_u n = [CHR 0x5C, CHR ''u'', hex_digit (n div 4096 mod 16), hex_digit (n div 256 mod 16),
     hex_digit (n div 16 mod 16), hex_digit (n mod 16)]"

definition json_escape :: "nat \<Rightarrow> string" where
  "json_escape n =
     (if n = 34 then [CHR 0x5C, CHR 0x22]
      else if n = 92 then [CHR 0x5C, CHR 0x5C]
      else if n = 10 then [CHR 0x5C, CHR ''n'']
      else if n = 13 then [CHR 0x5C, CHR ''r'']
      else if n = 9 then [CHR 0x5C, CHR ''t'']
      else if n = 12 then [CHR 0x5C, CHR ''f'']
      else if n = 8 then [CHR 0x5C, CHR ''b'']
      else if 32 \<le> n \<and> n \<le> 126 then [char_of n]
      else if n < 65536 then json_u n
      else json_u (55296 + (n - 65536) div 1024) @ json_u (56320 + (n - 65536) mod 1024))"

text \<open>Code points of UTF-8 bytes.\<close>

fun code_points :: "nat list \<Rightarrow> nat list" where
  "code_points [] = []"
| "code_points (a # bs) =
     (if a < 128 then a # code_points bs
      else case bs of
        b # cs \<Rightarrow>
          (if a < 224 then ((a - 192) * 64 + (b - 128)) # code_points cs
           else case cs of
             c # ds \<Rightarrow>
               (if a < 240 then ((a - 224) * 4096 + (b - 128) * 64 + (c - 128)) # code_points ds
                else case ds of
                  d # es \<Rightarrow> ((a - 240) * 262144 + (b - 128) * 4096 + (c - 128) * 64 + (d - 128)) # code_points es
                | [] \<Rightarrow> [])
           | [] \<Rightarrow> [])
      | [] \<Rightarrow> [])"

definition json_string :: "string \<Rightarrow> string" where
  "json_string s = CHR 0x22 # concat (map json_escape (code_points (map of_char s))) @ [CHR 0x22]"

definition event_canonical :: "string \<Rightarrow> string \<Rightarrow> string \<Rightarrow> string" where
  "event_canonical data_space_id stream_id idempotency_key =
     ''{'' @ json_string ''data_space_id'' @ '':'' @ json_string data_space_id
     @ '','' @ json_string ''idempotency_key'' @ '':'' @ json_string idempotency_key
     @ '','' @ json_string ''stream_id'' @ '':'' @ json_string stream_id @ ''}''"

definition deterministic_event_id :: "(string \<Rightarrow> string) \<Rightarrow> string \<Rightarrow> string \<Rightarrow> string \<Rightarrow> string result" where
  "deterministic_event_id sha256 data_space_id stream_id idempotency_key =
     validate_id (''event:'' @ sha256 (event_canonical data_space_id stream_id idempotency_key))"

section \<open>Lemmas\<close>

lemma validate_id_Inr [simp]: "validate_id v = Inr w \<longleftrightarrow> w = v \<and> valid_identifier v"
  by (auto simp: validate_id_def)

lemma valid_identifier_colon:
  assumes "valid_identifier s"
  shows "CHR '':'' \<in> set s"
proof (rule ccontr)
  assume "CHR '':'' \<notin> set s"
  then have "id_rest s = []" by (auto simp: id_rest_def dropWhile_eq_Nil_conv)
  with assms show False by (simp add: valid_identifier_def)
qed

lemma valid_identifier_nonempty: "valid_identifier s \<Longrightarrow> s \<noteq> []"
  by (auto dest: valid_identifier_colon)

lemma is_hex_body: "is_hex c \<Longrightarrow> is_body_char c"
  by (auto simp: is_hex_def is_body_char_def is_lower_def char_between_def)

lemma is_hex_not_colon: "is_hex c \<Longrightarrow> c \<noteq> CHR '':''"
  by (auto simp: is_hex_def is_digit_def char_between_def)

text \<open>An \<^verbatim>\<open>event:\<close> prefix on a digest is always an identifier, so the check at the end of
  \<^verbatim>\<open>deterministic_event_id\<close> never fails on a digest.\<close>

lemma valid_event_id: "is_sha256 d \<Longrightarrow> valid_identifier (''event:'' @ d)"
  by (auto simp: valid_identifier_def id_kind_def id_rest_def is_sha256_def is_lower_def
      is_kind_char_def char_between_def list_all_iff intro: is_hex_body)

lemma deterministic_event_id_total:
  assumes "is_sha256 (sha256 (event_canonical ds sid key))"
  shows "deterministic_event_id sha256 ds sid key = Inr (''event:'' @ sha256 (event_canonical ds sid key))"
  using valid_event_id [OF assms] by (simp only: deterministic_event_id_def validate_id_def) simp

lemma deterministic_event_id_Inr:
  "deterministic_event_id sha256 ds sid key = Inr e \<longleftrightarrow>
     e = ''event:'' @ sha256 (event_canonical ds sid key) \<and> valid_identifier e"
  by (auto simp only: deterministic_event_id_def validate_id_Inr)

text \<open>
  A reader for one escaped code point, used only to show that the escapes of a string
  can be told apart: \<open>unescape\<close> undoes \<open>json_escape\<close> and returns the rest of the text.
\<close>

definition unhex :: "char \<Rightarrow> nat" where
  "unhex c = (let n = of_char c in if n < 58 then n - 48 else n - 87)"

fun unescape :: "string \<Rightarrow> (nat \<times> string) option" where
  "unescape [] = None"
| "unescape (c # r) =
     (if c \<noteq> CHR 0x5C then Some (of_char c, r)
      else case r of [] \<Rightarrow> None
        | e # r' \<Rightarrow>
          (if e = CHR ''n'' then Some (10, r')
           else if e = CHR ''r'' then Some (13, r')
           else if e = CHR ''t'' then Some (9, r')
           else if e = CHR ''f'' then Some (12, r')
           else if e = CHR ''b'' then Some (8, r')
           else if e = CHR ''u'' then
             Some (unhex (r' ! 0) * 4096 + unhex (r' ! 1) * 256 + unhex (r' ! 2) * 16 + unhex (r' ! 3), drop 4 r')
           else Some (of_char e, r')))"

lemma unhex_hex_digit: "n < 16 \<Longrightarrow> unhex (hex_digit n) = n"
  by (simp add: unhex_def hex_digit_def)

lemma unescape_json_u:
  assumes "n < 65536"
  shows "unescape (json_u n @ r) = Some (n, r)"
proof -
  define a b c where "a = n div 16" and "b = a div 16" and "c = b div 16"
  have digits: "n div 16 mod 16 = a mod 16" "n div 256 mod 16 = b mod 16" "n div 4096 mod 16 = c mod 16"
    by (simp_all add: a_def b_def c_def flip: div_mult2_eq)
  have "c < 16" using assms by (simp add: a_def b_def c_def flip: div_mult2_eq)
  moreover have "n = a * 16 + n mod 16" "a = b * 16 + a mod 16" "b = c * 16 + b mod 16"
    by (simp_all add: a_def b_def c_def)
  ultimately have "n = c mod 16 * 4096 + b mod 16 * 256 + a mod 16 * 16 + n mod 16"
    by (simp only: mod_less)
  then show ?thesis by (simp add: json_u_def unhex_hex_digit digits)
qed

lemma char_of_eq_backslash: "(n :: nat) < 128 \<Longrightarrow> char_of n = CHR 0x5C \<longleftrightarrow> n = 92"
  by (simp add: char_of_eq_iff take_bit_eq_mod)

lemma char_of_eq_quote: "(n :: nat) < 128 \<Longrightarrow> char_of n = CHR 0x22 \<longleftrightarrow> n = 34"
  by (simp add: char_of_eq_iff take_bit_eq_mod)

lemma unescape_json_escape: "n < 128 \<Longrightarrow> unescape (json_escape n @ r) = Some (n, r)"
  using unescape_json_u [of n r] by (simp add: json_escape_def char_of_eq_backslash)

lemma code_points_ascii: "list_all (\<lambda>c. (of_char c :: nat) < 128) s \<Longrightarrow> code_points (map of_char s) = map of_char s"
  by (induction s) auto

definition ascii :: "string \<Rightarrow> bool" where
  "ascii s \<longleftrightarrow> list_all (\<lambda>c. (of_char c :: nat) < 128) s"

lemma json_escape_not_quote: "n < 128 \<Longrightarrow> json_escape n \<noteq> [] \<and> hd (json_escape n) \<noteq> CHR 0x22"
  by (auto simp: json_escape_def json_u_def char_of_eq_quote)

lemma json_body_inj:
  assumes "list_all (\<lambda>n. n < 128) xs" and "list_all (\<lambda>n. n < 128) ys"
    and "concat (map json_escape xs) @ CHR 0x22 # r = concat (map json_escape ys) @ CHR 0x22 # r'"
  shows "xs = ys \<and> r = r'"
  using assms
proof (induction xs arbitrary: ys)
  case Nil
  show ?case
  proof (cases ys)
    case (Cons y zs)
    with Nil.prems json_escape_not_quote [of y] show ?thesis
      by (cases "json_escape y") auto
  qed (use Nil.prems in simp)
next
  case (Cons x xs)
  note prems = Cons.prems
  show ?case
  proof (cases ys)
    case Nil
    with prems json_escape_not_quote [of x] show ?thesis
      by (cases "json_escape x") auto
  next
    case (Cons y zs)
    from prems(3) Cons have eq: "json_escape x @ concat (map json_escape xs) @ CHR 0x22 # r
        = json_escape y @ concat (map json_escape zs) @ CHR 0x22 # r'"
      by simp
    from arg_cong [OF eq, of unescape] prems(1,2) Cons
    have "x = y" and rest: "concat (map json_escape xs) @ CHR 0x22 # r = concat (map json_escape zs) @ CHR 0x22 # r'"
      by (simp_all add: unescape_json_escape)
    with Cons.IH [of zs] prems(1,2) Cons show ?thesis by simp
  qed
qed

lemma json_string_inj:
  assumes "ascii s" and "ascii t" and "json_string s @ r = json_string t @ r'"
  shows "s = t \<and> r = r'"
proof -
  have "map of_char s = (map of_char t :: nat list) \<and> r = r'"
    using assms by (intro json_body_inj) (auto simp: ascii_def json_string_def code_points_ascii list_all_iff)
  then show ?thesis by (metis inj_map_eq_map inj_of_char)
qed

lemma event_canonical_inj:
  assumes "ascii ds" "ascii ds'" "ascii sid" "ascii sid'" "ascii key" "ascii key'"
    and "event_canonical ds sid key = event_canonical ds' sid' key'"
  shows "ds = ds' \<and> sid = sid' \<and> key = key'"
proof -
  from assms(7) have "json_string ds @ '','' @ json_string ''idempotency_key'' @ '':'' @ json_string key
      @ '','' @ json_string ''stream_id'' @ '':'' @ json_string sid @ ''}''
    = json_string ds' @ '','' @ json_string ''idempotency_key'' @ '':'' @ json_string key'
      @ '','' @ json_string ''stream_id'' @ '':'' @ json_string sid' @ ''}''"
    unfolding event_canonical_def by (simp only: append_assoc same_append_eq)
  from json_string_inj [OF assms(1,2) this] have "ds = ds'"
    and 1: "json_string key @ '','' @ json_string ''stream_id'' @ '':'' @ json_string sid @ ''}''
      = json_string key' @ '','' @ json_string ''stream_id'' @ '':'' @ json_string sid' @ ''}''"
    by (simp_all only: same_append_eq)
  from json_string_inj [OF assms(5,6) 1] have "key = key'" and 2: "json_string sid @ ''}'' = json_string sid' @ ''}''"
    by (simp_all only: same_append_eq)
  from json_string_inj [OF assms(3,4) 2] \<open>ds = ds'\<close> \<open>key = key'\<close> show ?thesis by simp
qed

end
