(* ===== verification/Kernel_Models.thy ===== *)
theory Kernel_Models
  imports Complex_Main Ids
begin

text \<open>
  \<^verbatim>\<open>vsm/kernel/models.py\<close>: the Kernel's frozen pydantic models. A class is a record, a
  \<^verbatim>\<open>StrEnum\<close> a datatype with its string values, and the annotations with the
  \<^verbatim>\<open>model_validator\<close>s are one predicate per class (\<open>valid_...\<close>): what constructing or
  \<^verbatim>\<open>model_validate\<close> accepts. \<^verbatim>\<open>model_copy\<close> is a record update and checks nothing.
\<close>

section \<open>DataSpace and UVSMNode\<close>

datatype data_space_kind = Personal | Company | Sandbox

record data_space =
  data_space_id :: string
  owner_id :: string
  ds_kind :: data_space_kind
  lethe_location :: string

definition valid_data_space :: "data_space \<Rightarrow> bool" where
  "valid_data_space d \<longleftrightarrow> valid_identifier (data_space_id d) \<and> valid_identifier (owner_id d)
     \<and> non_blank (lethe_location d)"

datatype vsm_function = S1 | S2 | S3 | S3_STAR | S4 | S5

datatype node_kind = Organization | Unit | Interface | Experiment

datatype node_status = NodeActive | NodePaused | NodeRetired

record uvsm_node =
  node_id :: string
  node_data_space_id :: string
  node_owner_id :: string
  node_name :: string
  node_kind :: node_kind
  node_parent_id :: "string option"
  resident_functions :: "vsm_function set"
  resident_s3_parent_function :: vsm_function
  node_status :: node_status
  memory_stream_id :: string

definition viable_and_interface_owned :: "uvsm_node \<Rightarrow> bool" where
  "viable_and_interface_owned n \<longleftrightarrow>
     resident_functions n = {S1, S2, S3, S3_STAR, S4, S5} \<and>
     \<not> (node_kind n = Interface \<and> node_parent_id n \<noteq> None)"

definition valid_uvsm_node :: "uvsm_node \<Rightarrow> bool" where
  "valid_uvsm_node n \<longleftrightarrow> valid_identifier (node_id n) \<and> valid_identifier (node_data_space_id n)
     \<and> valid_identifier (node_owner_id n) \<and> non_blank (node_name n)
     \<and> option_all valid_identifier (node_parent_id n) \<and> resident_s3_parent_function n = S5
     \<and> valid_identifier (memory_stream_id n) \<and> viable_and_interface_owned n"

section \<open>Work\<close>

datatype work_state = Proposed | Ready | WorkActive | WorkPaused | Blocked | Completed | WorkCancelled

fun work_state_value :: "work_state \<Rightarrow> string" where
  "work_state_value Proposed = ''proposed''"
| "work_state_value Ready = ''ready''"
| "work_state_value WorkActive = ''active''"
| "work_state_value WorkPaused = ''paused''"
| "work_state_value Blocked = ''blocked''"
| "work_state_value Completed = ''completed''"
| "work_state_value WorkCancelled = ''cancelled''"

datatype work_edge_kind = DelegatedTo | DependsOn | IntegratedBy

record work_edge =
  source_work_item_id :: string
  target_work_item_id :: string
  edge_kind :: work_edge_kind

definition valid_work_edge :: "work_edge \<Rightarrow> bool" where
  "valid_work_edge e \<longleftrightarrow> valid_identifier (source_work_item_id e) \<and> valid_identifier (target_work_item_id e)"

record completion_evidence =
  acceptance_satisfied :: bool
  required_tests_passed :: bool
  blocking_deviations :: "string list"
  independent_s3_star_gate :: bool
  integration_branch_merged :: bool
  remote_push_succeeded :: bool

definition valid_completion_evidence :: "completion_evidence \<Rightarrow> bool" where
  "valid_completion_evidence e \<longleftrightarrow> list_all non_blank (blocking_deviations e)"

record work_item =
  work_item_id :: string
  work_data_space_id :: string
  work_title :: string
  work_description :: string
  owner_node_id :: string
  delegated_to_node_id :: string
  integration_owner_node_id :: string
  parent_work_item_id :: "string option"
  acceptance_criteria :: "string list"
  work_route_key :: string
  work_state :: work_state
  blocking_s3_star_finding_ids :: "string list"
  completion_evidence :: "completion_evidence option"

definition valid_work_item :: "work_item \<Rightarrow> bool" where
  "valid_work_item w \<longleftrightarrow> valid_identifier (work_item_id w) \<and> valid_identifier (work_data_space_id w)
     \<and> non_blank (work_title w) \<and> non_blank (work_description w)
     \<and> valid_identifier (owner_node_id w) \<and> valid_identifier (delegated_to_node_id w)
     \<and> valid_identifier (integration_owner_node_id w)
     \<and> option_all valid_identifier (parent_work_item_id w)
     \<and> list_all non_blank (acceptance_criteria w) \<and> non_blank (work_route_key w)
     \<and> list_all valid_identifier (blocking_s3_star_finding_ids w)
     \<and> option_all valid_completion_evidence (completion_evidence w)"

section \<open>Execution\<close>

datatype execution_state = Requested | ExecActive | ExecPaused | ExecSucceeded | ExecFailed | ExecCancelled

fun execution_state_value :: "execution_state \<Rightarrow> string" where
  "execution_state_value Requested = ''requested''"
| "execution_state_value ExecActive = ''active''"
| "execution_state_value ExecPaused = ''paused''"
| "execution_state_value ExecSucceeded = ''succeeded''"
| "execution_state_value ExecFailed = ''failed''"
| "execution_state_value ExecCancelled = ''cancelled''"

definition execution_states :: "execution_state list" where
  "execution_states = [Requested, ExecActive, ExecPaused, ExecSucceeded, ExecFailed, ExecCancelled]"

record execution =
  execution_id :: string
  exec_data_space_id :: string
  exec_node_id :: string
  exec_work_item_id :: string
  exec_pilot_id :: string
  model_candidate_key :: string
  exec_state :: execution_state
  provider_session_id :: "string option"
  pilot_host_id :: string
  pause_reason :: "string option"
  exec_agent_name :: "string option"

definition valid_execution :: "execution \<Rightarrow> bool" where
  "valid_execution e \<longleftrightarrow> valid_identifier (execution_id e) \<and> valid_identifier (exec_data_space_id e)
     \<and> valid_identifier (exec_node_id e) \<and> valid_identifier (exec_work_item_id e)
     \<and> valid_identifier (exec_pilot_id e) \<and> non_blank (model_candidate_key e)
     \<and> option_all non_blank (provider_session_id e) \<and> valid_identifier (pilot_host_id e)
     \<and> option_all non_blank (pause_reason e) \<and> option_all non_blank (exec_agent_name e)"

section \<open>Grants, leases, budget\<close>

datatype grant_state = GrantActive | GrantRevoked | GrantExpired

record capability_grant =
  grant_id :: string
  grant_data_space_id :: string
  grantor_node_id :: string
  grantee_node_id :: string
  capabilities :: "string set"
  grant_purpose :: string
  valid_from :: time
  grant_expires_at :: time
  grant_state :: grant_state

definition valid_capability_grant :: "capability_grant \<Rightarrow> bool" where
  "valid_capability_grant g \<longleftrightarrow> valid_identifier (grant_id g) \<and> valid_identifier (grant_data_space_id g)
     \<and> valid_identifier (grantor_node_id g) \<and> valid_identifier (grantee_node_id g)
     \<and> (\<forall>c \<in> capabilities g. non_blank c) \<and> non_blank (grant_purpose g)
     \<and> valid_from g < grant_expires_at g"

datatype effect_lease_state = Planned | LeaseActive | LeaseSucceeded | LeaseFailed | LeaseUnknown | LeaseRevoked

fun effect_lease_state_value :: "effect_lease_state \<Rightarrow> string" where
  "effect_lease_state_value Planned = ''planned''"
| "effect_lease_state_value LeaseActive = ''active''"
| "effect_lease_state_value LeaseSucceeded = ''succeeded''"
| "effect_lease_state_value LeaseFailed = ''failed''"
| "effect_lease_state_value LeaseUnknown = ''unknown''"
| "effect_lease_state_value LeaseRevoked = ''revoked''"

definition effect_lease_states :: "effect_lease_state list" where
  "effect_lease_states = [Planned, LeaseActive, LeaseSucceeded, LeaseFailed, LeaseUnknown, LeaseRevoked]"

record effect_lease =
  lease_id :: string
  lease_data_space_id :: string
  lease_work_item_id :: string
  lease_execution_id :: string
  effect_kind :: string
  effect_target :: string
  lease_idempotency_key :: string
  plan_sha256 :: string
  lease_state :: effect_lease_state
  lease_expires_at :: time

definition valid_effect_lease :: "effect_lease \<Rightarrow> bool" where
  "valid_effect_lease l \<longleftrightarrow> valid_identifier (lease_id l) \<and> valid_identifier (lease_data_space_id l)
     \<and> valid_identifier (lease_work_item_id l) \<and> valid_identifier (lease_execution_id l)
     \<and> non_blank (effect_kind l) \<and> non_blank (effect_target l)
     \<and> non_blank (lease_idempotency_key l) \<and> is_sha256 (plan_sha256 l)"

record effect_approval =
  approval_lease_id :: string
  approved_by :: string
  approval_approved_at :: time

definition valid_effect_approval :: "effect_approval \<Rightarrow> bool" where
  "valid_effect_approval a \<longleftrightarrow> valid_identifier (approval_lease_id a) \<and> valid_identifier (approved_by a)"

record reference_grant =
  rg_grant_id :: string
  source_data_space_id :: string
  target_data_space_id :: string
  granted_by :: string
  rg_purpose :: string
  subject_refs :: "string list"
  rg_valid_from :: time
  rg_expires_at :: time
  rg_state :: grant_state

definition valid_reference_grant :: "reference_grant \<Rightarrow> bool" where
  "valid_reference_grant g \<longleftrightarrow> valid_identifier (rg_grant_id g)
     \<and> valid_identifier (source_data_space_id g) \<and> valid_identifier (target_data_space_id g)
     \<and> valid_identifier (granted_by g) \<and> non_blank (rg_purpose g)
     \<and> list_all valid_identifier (subject_refs g)
     \<and> source_data_space_id g \<noteq> target_data_space_id g \<and> subject_refs g \<noteq> []
     \<and> rg_valid_from g < rg_expires_at g"

datatype budget_reservation_state = Reserved | Consumed | Released

record budget_reservation =
  reservation_id :: string
  budget_data_space_id :: string
  budget_work_item_id :: string
  currency :: string
  amount :: rat
  token_limit :: int
  budget_state :: budget_reservation_state

definition valid_budget_reservation :: "budget_reservation \<Rightarrow> bool" where
  "valid_budget_reservation b \<longleftrightarrow> valid_identifier (reservation_id b)
     \<and> valid_identifier (budget_data_space_id b) \<and> valid_identifier (budget_work_item_id b)
     \<and> non_blank (currency b) \<and> 0 < amount b \<and> 0 < token_limit b"

record audit_policy =
  audit_policy_id :: string
  audit_data_space_id :: string
  retention_days :: int

definition valid_audit_policy :: "audit_policy \<Rightarrow> bool" where
  "valid_audit_policy p \<longleftrightarrow> valid_identifier (audit_policy_id p) \<and> valid_identifier (audit_data_space_id p)
     \<and> 0 < retention_days p"

record control_policy =
  control_policy_id :: string
  control_data_space_id :: string

definition valid_control_policy :: "control_policy \<Rightarrow> bool" where
  "valid_control_policy p \<longleftrightarrow> valid_identifier (control_policy_id p) \<and> valid_identifier (control_data_space_id p)"

section \<open>Findings and RouteSnapshots\<close>

datatype s3_star_severity = Advisory | Severe

record s3_star_finding =
  finding_id :: string
  finding_data_space_id :: string
  finding_work_item_id :: string
  finding_node_id :: string
  severity :: s3_star_severity
  finding_statement :: string
  evidence_refs :: "string list"
  accepted_by_s5 :: bool

definition valid_s3_star_finding :: "s3_star_finding \<Rightarrow> bool" where
  "valid_s3_star_finding f \<longleftrightarrow> valid_identifier (finding_id f) \<and> valid_identifier (finding_data_space_id f)
     \<and> valid_identifier (finding_work_item_id f) \<and> valid_identifier (finding_node_id f)
     \<and> non_blank (finding_statement f) \<and> list_all valid_identifier (evidence_refs f)"

datatype route_snapshot_state = Draft | S3StarApproved | OwnerApproved | Published | Retired

fun route_snapshot_state_value :: "route_snapshot_state \<Rightarrow> string" where
  "route_snapshot_state_value Draft = ''draft''"
| "route_snapshot_state_value S3StarApproved = ''s3_star_approved''"
| "route_snapshot_state_value OwnerApproved = ''owner_approved''"
| "route_snapshot_state_value Published = ''published''"
| "route_snapshot_state_value Retired = ''retired''"

definition route_snapshot_states :: "route_snapshot_state list" where
  "route_snapshot_states = [Draft, S3StarApproved, OwnerApproved, Published, Retired]"

datatype retirement_reason = SupersededByApprovedSnapshot | RouteDecommissioned

fun retirement_reason_value :: "retirement_reason \<Rightarrow> string" where
  "retirement_reason_value SupersededByApprovedSnapshot = ''superseded_by_approved_snapshot''"
| "retirement_reason_value RouteDecommissioned = ''route_decommissioned''"

definition retirement_reasons :: "retirement_reason list" where
  "retirement_reasons = [SupersededByApprovedSnapshot, RouteDecommissioned]"

datatype production_objective = ReliabilityThenCost | ExpectedUtility | QualityMax

record route_snapshot =
  snapshot_id :: string
  route_data_space_id :: string
  route_key :: string
  evidence_cursor :: nat
  candidate_keys :: "string list"
  production_objective :: production_objective
  route_state :: route_snapshot_state
  s3_star_approval_event_id :: "string option"
  owner_approval_event_id :: "string option"

definition candidates_and_approvals_are_consistent :: "route_snapshot \<Rightarrow> bool" where
  "candidates_and_approvals_are_consistent s \<longleftrightarrow>
     candidate_keys s \<noteq> [] \<and> distinct (candidate_keys s) \<and>
     (case route_state s of
        Draft \<Rightarrow> s3_star_approval_event_id s = None \<and> owner_approval_event_id s = None
      | S3StarApproved \<Rightarrow> s3_star_approval_event_id s \<noteq> None \<and> owner_approval_event_id s = None
      | _ \<Rightarrow> s3_star_approval_event_id s \<noteq> None \<and> owner_approval_event_id s \<noteq> None)"

definition valid_route_snapshot :: "route_snapshot \<Rightarrow> bool" where
  "valid_route_snapshot s \<longleftrightarrow> valid_identifier (snapshot_id s) \<and> valid_identifier (route_data_space_id s)
     \<and> non_blank (route_key s) \<and> list_all non_blank (candidate_keys s)
     \<and> option_all valid_identifier (s3_star_approval_event_id s)
     \<and> option_all valid_identifier (owner_approval_event_id s)
     \<and> candidates_and_approvals_are_consistent s"

section \<open>Events\<close>

datatype actor_type = Human | KernelActor | PilotActor | SystemActor

record 'p event_envelope =
  event_id :: string
  event_data_space_id :: string
  stream_id :: string
  stream_version :: nat
  event_type :: string
  occurred_at :: time
  actor_type :: actor_type
  actor_id :: "string option"
  correlation_id :: "string option"
  causation_id :: "string option"
  idempotency_key :: string
  payload :: 'p

definition valid_event_envelope :: "'p event_envelope \<Rightarrow> bool" where
  "valid_event_envelope e \<longleftrightarrow> valid_identifier (event_id e) \<and> valid_identifier (event_data_space_id e)
     \<and> valid_identifier (stream_id e) \<and> 0 < stream_version e \<and> non_blank (event_type e)
     \<and> option_all valid_identifier (actor_id e) \<and> option_all valid_identifier (correlation_id e)
     \<and> option_all valid_identifier (causation_id e) \<and> non_blank (idempotency_key e)"

datatype append_outcome = Appended | Duplicate

record append_result =
  outcome :: append_outcome
  result_cursor :: nat
  result_stream_version :: nat

record 'p stored_event =
  cursor :: nat
  stored :: "'p event_envelope"

section \<open>Enumeration values\<close>

text \<open>\<^verbatim>\<open>SomeEnum(value)\<close>: the member with that value, or \<^verbatim>\<open>ValueError\<close>.\<close>

definition enum_of_value :: "('e \<Rightarrow> string) \<Rightarrow> 'e list \<Rightarrow> string \<Rightarrow> 'e result" where
  "enum_of_value value members s =
     (case find (\<lambda>m. value m = s) members of None \<Rightarrow> Inl (ValueError s) | Some m \<Rightarrow> Inr m)"

lemma execution_state_roundtrip [simp]:
  "enum_of_value execution_state_value execution_states (execution_state_value s) = Inr s"
  by (cases s) (simp_all add: enum_of_value_def execution_states_def)

lemma effect_lease_state_roundtrip [simp]:
  "enum_of_value effect_lease_state_value effect_lease_states (effect_lease_state_value s) = Inr s"
  by (cases s) (simp_all add: enum_of_value_def effect_lease_states_def)

lemma route_snapshot_state_roundtrip [simp]:
  "enum_of_value route_snapshot_state_value route_snapshot_states (route_snapshot_state_value s) = Inr s"
  by (cases s) (simp_all add: enum_of_value_def route_snapshot_states_def)

lemma retirement_reason_roundtrip [simp]:
  "enum_of_value retirement_reason_value retirement_reasons (retirement_reason_value s) = Inr s"
  by (cases s) (simp_all add: enum_of_value_def retirement_reasons_def)

end
