(* ===== verification/Activation_Models.thy ===== *)
theory Activation_Models
  imports Kernel_Models
begin

text \<open>
  \<^verbatim>\<open>vsm/activation/models.py\<close>: the commissioning states, the history handoff receipt, the
  work graph snapshot and the reorientation assessment, each with its validator. The
  digest of a snapshot (\<^verbatim>\<open>calculated_sha256\<close>: pydantic's JSON dump, sorted, hashed) is a
  parameter of the operations that check it.
\<close>

datatype activation_state =
    Uncommissioned | HistoryImported | ReorientationOnly | AwaitingOwnerConfirmation | Active

fun activation_state_value :: "activation_state \<Rightarrow> string" where
  "activation_state_value Uncommissioned = ''UNCOMMISSIONED''"
| "activation_state_value HistoryImported = ''HISTORY_IMPORTED''"
| "activation_state_value ReorientationOnly = ''REORIENTATION_ONLY''"
| "activation_state_value AwaitingOwnerConfirmation = ''AWAITING_OWNER_CONFIRMATION''"
| "activation_state_value Active = ''ACTIVE''"

text \<open>The order of the basic path \<^verbatim>\<open>UNCOMMISSIONED\<close> to \<^verbatim>\<open>ACTIVE\<close>.\<close>

fun activation_rank :: "activation_state \<Rightarrow> nat" where
  "activation_rank Uncommissioned = 0"
| "activation_rank HistoryImported = 1"
| "activation_rank ReorientationOnly = 2"
| "activation_rank AwaitingOwnerConfirmation = 3"
| "activation_rank Active = 4"

lemma activation_rank_inj: "activation_rank a = activation_rank b \<Longrightarrow> a = b"
  by (cases a; cases b) simp_all

instantiation activation_state :: linorder
begin

definition less_eq_activation_state :: "activation_state \<Rightarrow> activation_state \<Rightarrow> bool" where
  "less_eq_activation_state a b \<longleftrightarrow> activation_rank a \<le> activation_rank b"

definition less_activation_state :: "activation_state \<Rightarrow> activation_state \<Rightarrow> bool" where
  "less_activation_state a b \<longleftrightarrow> activation_rank a < activation_rank b"

instance
  by standard (auto simp: less_eq_activation_state_def less_activation_state_def intro: activation_rank_inj)

end

lemma Active_greatest [simp]: "a \<le> Active"
  by (cases a) (simp_all add: less_eq_activation_state_def)

datatype revision_reason = MissingResumeWorkItem | OwnerCorrection

fun revision_reason_value :: "revision_reason \<Rightarrow> string" where
  "revision_reason_value MissingResumeWorkItem = ''missing_resume_work_item''"
| "revision_reason_value OwnerCorrection = ''owner_correction''"

definition revision_reasons :: "revision_reason list" where
  "revision_reasons = [MissingResumeWorkItem, OwnerCorrection]"

datatype interruption_reason = ProcessRestartInterruptedAttempt

fun interruption_reason_value :: "interruption_reason \<Rightarrow> string" where
  "interruption_reason_value ProcessRestartInterruptedAttempt = ''process_restart_interrupted_attempt''"

definition interruption_reasons :: "interruption_reason list" where
  "interruption_reasons = [ProcessRestartInterruptedAttempt]"

lemma revision_reason_roundtrip [simp]:
  "enum_of_value revision_reason_value revision_reasons (revision_reason_value s) = Inr s"
  by (cases s) (simp_all add: enum_of_value_def revision_reasons_def)

lemma interruption_reason_roundtrip [simp]:
  "enum_of_value interruption_reason_value interruption_reasons (interruption_reason_value s) = Inr s"
  by (cases s) (simp_all add: enum_of_value_def interruption_reasons_def)

lemma enum_of_value_Inr: "enum_of_value f ms s = Inr m \<Longrightarrow> f m = s"
  by (auto simp: enum_of_value_def find_Some_iff split: option.splits)

datatype history_source_kind =
    ClaudeCode | ClaudeAi | Codex | Intercom | Lethe | NaniholdLegacy | SystemSnapshot

definition required_history_source_kinds :: "history_source_kind set" where
  "required_history_source_kinds =
     {ClaudeCode, ClaudeAi, Codex, Intercom, Lethe, NaniholdLegacy, SystemSnapshot}"

record history_session =
  session_ref :: string
  source_session_id :: string
  session_source_kind :: history_source_kind
  session_source_id :: string
  message_count :: int
  first_message_at :: time
  last_message_at :: time

definition valid_history_session :: "history_session \<Rightarrow> bool" where
  "valid_history_session s \<longleftrightarrow> non_blank (session_ref s) \<and> non_blank (source_session_id s)
     \<and> non_blank (session_source_id s) \<and> 0 < message_count s
     \<and> first_message_at s \<le> last_message_at s"

record history_source_manifest =
  source_id :: string
  source_kind :: history_source_kind
  manifest_owner_id :: string
  source_record_count :: nat
  source_raw_bytes :: nat
  digest_sha256 :: string
  cutover_cursor :: string

definition valid_history_source_manifest :: "history_source_manifest \<Rightarrow> bool" where
  "valid_history_source_manifest m \<longleftrightarrow> non_blank (source_id m) \<and> non_blank (manifest_owner_id m)
     \<and> is_sha256 (digest_sha256 m) \<and> non_blank (cutover_cursor m)"

record history_import_receipt =
  inventory_id :: string
  receipt_data_space_id :: string
  manifest_digest :: string
  record_count :: nat
  raw_bytes :: nat
  cross_source_overlap_identities :: nat
  sources :: "history_source_manifest list"
  session_count :: nat
  receipt_sessions :: "history_session list"
  session_index_ref :: string
  open_commitments_ref :: string
  current_state_ref :: string

definition totals_and_coverage_are_consistent :: "history_import_receipt \<Rightarrow> bool" where
  "totals_and_coverage_are_consistent r \<longleftrightarrow>
     distinct (map source_id (sources r)) \<and>
     source_kind ` set (sources r) = required_history_source_kinds \<and>
     sum_list (map source_record_count (sources r)) = record_count r \<and>
     sum_list (map source_raw_bytes (sources r)) = raw_bytes r \<and>
     length (receipt_sessions r) = session_count r \<and>
     distinct (map session_ref (receipt_sessions r)) \<and>
     (\<forall>s \<in> set (receipt_sessions r).
        map_option source_kind (find (\<lambda>m. source_id m = session_source_id s) (sources r))
          = Some (session_source_kind s))"

definition valid_history_import_receipt :: "history_import_receipt \<Rightarrow> bool" where
  "valid_history_import_receipt r \<longleftrightarrow> non_blank (inventory_id r) \<and> valid_identifier (receipt_data_space_id r)
     \<and> is_sha256 (manifest_digest r) \<and> list_all valid_history_source_manifest (sources r)
     \<and> list_all valid_history_session (receipt_sessions r) \<and> non_blank (session_index_ref r)
     \<and> non_blank (open_commitments_ref r) \<and> non_blank (current_state_ref r)
     \<and> totals_and_coverage_are_consistent r"

record current_work_graph_snapshot =
  graph_snapshot_id :: string
  graph_data_space_id :: string
  captured_at :: time
  graph_nodes :: "uvsm_node list"
  graph_work_items :: "work_item list"
  graph_edges :: "work_edge list"
  snapshot_sha256 :: string

definition identities_and_real_work_are_valid :: "current_work_graph_snapshot \<Rightarrow> bool" where
  "identities_and_real_work_are_valid s \<longleftrightarrow>
     distinct (map node_id (graph_nodes s)) \<and>
     distinct (map work_item_id (graph_work_items s)) \<and>
     (\<exists>w \<in> set (graph_work_items s). work_state w \<notin> {Completed, WorkCancelled}) \<and>
     distinct (graph_edges s)"

definition valid_current_work_graph_snapshot :: "current_work_graph_snapshot \<Rightarrow> bool" where
  "valid_current_work_graph_snapshot s \<longleftrightarrow> valid_identifier (graph_snapshot_id s)
     \<and> valid_identifier (graph_data_space_id s) \<and> list_all valid_uvsm_node (graph_nodes s)
     \<and> list_all valid_work_item (graph_work_items s) \<and> list_all valid_work_edge (graph_edges s)
     \<and> is_sha256 (snapshot_sha256 s) \<and> identities_and_real_work_are_valid s"

record evidence_citation =
  claim_ref :: string
  evidence_ref :: string

record reorientation_assessment =
  assessment_id :: string
  import_id :: string
  assessment_conversation_id :: string
  generated_at :: time
  understanding :: string
  active_missions :: "string list"
  decisions_and_constraints :: "string list"
  open_commitment_ids :: "string list"
  unknowns :: "string list"
  resume_work_item_ids :: "string list"
  covered_session_index_ref :: string
  covered_session_count :: nat
  history_cursor :: nat
  current_state_cursor :: nat
  citations :: "evidence_citation list"

definition valid_reorientation_assessment :: "reorientation_assessment \<Rightarrow> bool" where
  "valid_reorientation_assessment a \<longleftrightarrow>
     valid_identifier (assessment_id a) \<and> valid_identifier (import_id a)
     \<and> valid_identifier (assessment_conversation_id a)
     \<and> 1 \<le> py_len (understanding a) \<and> py_len (understanding a) \<le> 1200
     \<and> (let item = \<lambda>s. 1 \<le> py_len s \<and> py_len s \<le> 500
        in list_all item (active_missions a) \<and> length (active_missions a) \<le> 8
           \<and> list_all item (decisions_and_constraints a) \<and> length (decisions_and_constraints a) \<le> 12
           \<and> list_all item (unknowns a) \<and> length (unknowns a) \<le> 8)
     \<and> list_all valid_identifier (open_commitment_ids a)
     \<and> list_all valid_identifier (resume_work_item_ids a)
     \<and> non_blank (covered_session_index_ref a)
     \<and> list_all (\<lambda>c. non_blank (claim_ref c) \<and> valid_identifier (evidence_ref c)) (citations a)
     \<and> length (citations a) \<le> 32"

end
