(* ===== verification/Agent_Models.thy ===== *)
theory Agent_Models
  imports Activation_Models
begin

text \<open>
  The records of \<^verbatim>\<open>vsm/agent_naming.py\<close>, \<^verbatim>\<open>vsm/notifications.py\<close>, \<^verbatim>\<open>vsm/auth.py\<close> and the
  \<^verbatim>\<open>ModelCandidate\<close> of \<^verbatim>\<open>vsm/pilot/models.py\<close>, with their validators.
\<close>

section \<open>Names\<close>

text \<open>The name columns of the CSV: Japanese, English, Latin.\<close>

datatype name_column = Japanese | English | Latin

fun name_column_value :: "name_column \<Rightarrow> string" where
  "name_column_value Japanese = [CHR 0xE6, CHR 0x97, CHR 0xA5]"
| "name_column_value English = [CHR 0xE8, CHR 0x8B, CHR 0xB1]"
| "name_column_value Latin = [CHR 0xE7, CHR 0xBE, CHR 0x85]"

definition reserved_agent_name :: string where
  "reserved_agent_name = ''Nagi''"

definition reserved_coordinate :: string where
  "reserved_coordinate = [CHR 0xE5, CHR 0x87, CHR 0xAA]"

record agent_name_row =
  category :: string
  row_scale :: nat
  semantic_coordinate :: string
  japanese_name :: string
  english_name :: string
  latin_name :: string
  likes :: string

definition valid_agent_name_row :: "agent_name_row \<Rightarrow> bool" where
  "valid_agent_name_row r \<longleftrightarrow> non_blank (category r) \<and> row_scale r \<in> {1, 2, 3}
     \<and> non_blank (semantic_coordinate r) \<and> non_blank (japanese_name r) \<and> non_blank (english_name r)
     \<and> non_blank (latin_name r) \<and> likes r \<in> {'''', ''0'', ''1''}"

definition is_eligible :: "agent_name_row \<Rightarrow> bool" where
  "is_eligible r \<longleftrightarrow> likes r \<noteq> ''0''"

definition is_reserved :: "agent_name_row \<Rightarrow> bool" where
  "is_reserved r \<longleftrightarrow> japanese_name r = reserved_agent_name \<or> semantic_coordinate r = reserved_coordinate"

fun name_for :: "agent_name_row \<Rightarrow> name_column \<Rightarrow> string" where
  "name_for r Japanese = japanese_name r"
| "name_for r English = english_name r"
| "name_for r Latin = latin_name r"

text \<open>\<^verbatim>\<open>base_name if suffix == 1 else f"{base_name}{suffix}"\<close>.\<close>

definition suffixed :: "string \<Rightarrow> nat \<Rightarrow> string" where
  "suffixed base_name suffix = (if suffix = 1 then base_name else base_name @ decimal suffix)"

record agent_name_assignment =
  assignment_id :: string
  assignment_data_space_id :: string
  assignment_work_item_id :: string
  assignment_execution_id :: string
  assignment_node_id :: string
  assignment_pilot_id :: string
  assignment_agent_name :: string
  assignment_base_name :: string
  assignment_suffix :: nat
  assignment_name_column :: name_column
  assignment_scale :: nat
  assignment_provider :: string
  assignment_candidate_key :: string

definition valid_agent_name_assignment :: "agent_name_assignment \<Rightarrow> bool" where
  "valid_agent_name_assignment a \<longleftrightarrow>
     valid_identifier (assignment_id a) \<and> valid_identifier (assignment_data_space_id a)
     \<and> valid_identifier (assignment_work_item_id a) \<and> valid_identifier (assignment_execution_id a)
     \<and> valid_identifier (assignment_node_id a) \<and> valid_identifier (assignment_pilot_id a)
     \<and> non_blank (assignment_agent_name a) \<and> non_blank (assignment_base_name a)
     \<and> 1 \<le> assignment_suffix a \<and> assignment_scale a \<in> {1, 2, 3}
     \<and> non_blank (assignment_provider a) \<and> non_blank (assignment_candidate_key a)
     \<and> assignment_agent_name a = suffixed (assignment_base_name a) (assignment_suffix a)"

record agent_identity_registration =
  registration_id :: string
  registration_data_space_id :: string
  registration_node_id :: string
  registration_pilot_id :: string
  registration_agent_name :: string
  registration_base_name :: string
  registration_suffix :: nat
  registration_name_column :: name_column
  registration_scale :: nat
  registration_provider :: string
  registration_candidate_key :: string

definition valid_agent_identity_registration :: "agent_identity_registration \<Rightarrow> bool" where
  "valid_agent_identity_registration a \<longleftrightarrow>
     valid_identifier (registration_id a) \<and> valid_identifier (registration_data_space_id a)
     \<and> valid_identifier (registration_node_id a) \<and> valid_identifier (registration_pilot_id a)
     \<and> non_blank (registration_agent_name a) \<and> non_blank (registration_base_name a)
     \<and> 1 \<le> registration_suffix a \<and> registration_scale a \<in> {1, 2, 3}
     \<and> non_blank (registration_provider a) \<and> non_blank (registration_candidate_key a)
     \<and> registration_agent_name a = suffixed (registration_base_name a) (registration_suffix a)"

text \<open>The candidate's \<^verbatim>\<open>key\<close> is a digest of its fields: here it is carried as a field.\<close>

record model_candidate =
  candidate_provider :: string
  candidate_selection_exact :: bool
  candidate_model_snapshot :: "string option"
  candidate_effort :: string
  candidate_key :: string

section \<open>Notifications\<close>

datatype notification_source_kind = ChannelInbound | AgentToAgent

datatype notification_platform = Discord | Slack | Internal

datatype notification_resolution_kind = ExplicitMention | BotReply | ThreadInheritance | AgentAddress

record agent_notification =
  notification_id :: string
  notification_data_space_id :: string
  notification_source_kind :: notification_source_kind
  source_platform :: notification_platform
  source_instance_id :: string
  source_channel :: string
  source_message_id :: string
  source_observation_subject :: "string option"
  sender_actor_id :: string
  sender_agent_name :: "string option"
  recipient_agent_name :: string
  body :: string
  resolution_kind :: notification_resolution_kind
  requires_work_item :: bool
  related_work_item_id :: "string option"
  related_execution_id :: "string option"
  promoted_work_item_id :: "string option"

definition validate_source_contract :: "agent_notification \<Rightarrow> bool" where
  "validate_source_contract n \<longleftrightarrow>
     (if notification_source_kind n = ChannelInbound
      then source_platform n \<in> {Discord, Slack} \<and> source_observation_subject n \<noteq> None
      else source_platform n = Internal) \<and>
     (notification_source_kind n = AgentToAgent \<longrightarrow>
        sender_agent_name n \<noteq> None \<and> resolution_kind n = AgentAddress
        \<and> related_work_item_id n \<noteq> None \<and> related_execution_id n \<noteq> None) \<and>
     \<not> (promoted_work_item_id n \<noteq> None \<and> \<not> requires_work_item n)"

definition valid_agent_notification :: "agent_notification \<Rightarrow> bool" where
  "valid_agent_notification n \<longleftrightarrow>
     valid_identifier (notification_id n) \<and> valid_identifier (notification_data_space_id n)
     \<and> non_blank (source_instance_id n) \<and> non_blank (source_channel n) \<and> non_blank (source_message_id n)
     \<and> option_all non_blank (source_observation_subject n) \<and> non_blank (sender_actor_id n)
     \<and> option_all non_blank (sender_agent_name n) \<and> non_blank (recipient_agent_name n)
     \<and> 1 \<le> py_len (body n) \<and> py_len (body n) \<le> 262144
     \<and> option_all valid_identifier (related_work_item_id n)
     \<and> option_all valid_identifier (related_execution_id n)
     \<and> option_all valid_identifier (promoted_work_item_id n)
     \<and> validate_source_contract n"

section \<open>Owner authentication\<close>

record bootstrap_code_record =
  bootstrap_id :: string
  code_owner_id :: string
  code_sha256 :: string
  code_issued_at :: time
  code_expires_at :: time
  used_at :: "time option"

definition valid_bootstrap_code_record :: "bootstrap_code_record \<Rightarrow> bool" where
  "valid_bootstrap_code_record r \<longleftrightarrow> valid_identifier (bootstrap_id r) \<and> valid_identifier (code_owner_id r)
     \<and> is_sha256 (code_sha256 r)"

record browser_session_record =
  session_id :: string
  session_owner_id :: string
  session_device_id :: string
  token_sha256 :: string
  session_issued_at :: time
  session_expires_at :: time
  session_active :: bool

definition valid_browser_session_record :: "browser_session_record \<Rightarrow> bool" where
  "valid_browser_session_record s \<longleftrightarrow> valid_identifier (session_id s) \<and> valid_identifier (session_owner_id s)
     \<and> non_blank (session_device_id s) \<and> is_sha256 (token_sha256 s)"

end
