(* ===== verification/Interface_Models.thy ===== *)
theory Interface_Models
  imports Activation_Models
begin

text \<open>
  The records of \<^verbatim>\<open>vsm/interface/models.py\<close> and the interface part of
  \<^verbatim>\<open>vsm/pilot/models.py\<close>, with their validators. \<open>interface_action\<close> is the discriminated
  union \<^verbatim>\<open>InterfaceAction\<close>; a constructor's first argument is the action's identity. The
  resume pack holds the models themselves where the code holds their JSON.
\<close>

section \<open>Conversations\<close>

datatype surface = OnWeb | OnTui | OnClaudeNative | OnSlack | OnDiscord | OnIntercom | OnCodex

record conversation =
  conv_id :: string
  conv_data_space_id :: string
  conv_node_id :: string
  conv_owner_id :: string
  conv_title :: string

definition valid_conversation :: "conversation \<Rightarrow> bool" where
  "valid_conversation c \<longleftrightarrow> valid_identifier (conv_id c) \<and> valid_identifier (conv_data_space_id c)
     \<and> valid_identifier (conv_node_id c) \<and> valid_identifier (conv_owner_id c) \<and> non_blank (conv_title c)"

record surface_binding =
  binding_id :: string
  binding_conversation_id :: string
  binding_surface :: surface
  binding_session_id :: string
  binding_channel_id :: string
  binding_device_id :: string

definition valid_surface_binding :: "surface_binding \<Rightarrow> bool" where
  "valid_surface_binding b \<longleftrightarrow> valid_identifier (binding_id b) \<and> valid_identifier (binding_conversation_id b)
     \<and> non_blank (binding_session_id b) \<and> non_blank (binding_channel_id b) \<and> non_blank (binding_device_id b)"

record pilot_session =
  pilot_session_id :: string
  ps_conversation_id :: string
  ps_pilot_id :: string
  root_provider_session_id :: string
  ps_provider_session_id :: string
  last_event_cursor :: nat

definition valid_pilot_session :: "pilot_session \<Rightarrow> bool" where
  "valid_pilot_session s \<longleftrightarrow> valid_identifier (pilot_session_id s) \<and> valid_identifier (ps_conversation_id s)
     \<and> valid_identifier (ps_pilot_id s) \<and> non_blank (root_provider_session_id s)
     \<and> non_blank (ps_provider_session_id s)"

record message_source =
  src_surface :: surface
  src_session_id :: string
  src_message_id :: string
  src_author_id :: string
  src_channel_id :: string
  src_occurred_at :: time

definition valid_message_source :: "message_source \<Rightarrow> bool" where
  "valid_message_source s \<longleftrightarrow> non_blank (src_session_id s) \<and> non_blank (src_message_id s)
     \<and> non_blank (src_author_id s) \<and> non_blank (src_channel_id s)"

record owner_message_action =
  oa_action_id :: string
  oa_idempotency_key :: string
  oa_text :: string
  oa_source :: message_source

definition valid_owner_message_action :: "owner_message_action \<Rightarrow> bool" where
  "valid_owner_message_action a \<longleftrightarrow> valid_identifier (oa_action_id a) \<and> non_blank (oa_idempotency_key a)
     \<and> non_blank (oa_text a) \<and> valid_message_source (oa_source a)"

datatype message_role = OwnerRole | InterfaceRole

record conversation_message =
  msg_id :: string
  msg_conversation_id :: string
  msg_role :: message_role
  msg_display_text :: "string option"
  msg_blob_ref :: "string option"
  msg_occurred_at :: time
  msg_source :: "message_source option"

definition valid_conversation_message :: "conversation_message \<Rightarrow> bool" where
  "valid_conversation_message m \<longleftrightarrow> valid_identifier (msg_id m) \<and> valid_identifier (msg_conversation_id m)
     \<and> option_all (\<lambda>s. 1 \<le> py_len s \<and> py_len s \<le> 1200) (msg_display_text m)
     \<and> option_all valid_blob_ref (msg_blob_ref m) \<and> option_all valid_message_source (msg_source m)"

datatype action_status = Accepted | ActionCompleted | ActionFailed

record conversation_action_receipt =
  ar_action_id :: string
  ar_conversation_id :: string
  ar_status :: action_status
  ar_owner_message_id :: string
  ar_interface_message :: "conversation_message option"
  ar_event_cursor :: nat
  ar_error :: "string option"

definition valid_action_receipt :: "conversation_action_receipt \<Rightarrow> bool" where
  "valid_action_receipt r \<longleftrightarrow> valid_identifier (ar_action_id r) \<and> valid_identifier (ar_conversation_id r)
     \<and> valid_identifier (ar_owner_message_id r) \<and> option_all valid_conversation_message (ar_interface_message r)
     \<and> 0 < ar_event_cursor r"

record conversation_created_receipt =
  cr_conversation_id :: string
  cr_surface_binding_id :: string
  cr_event_cursor :: nat

definition valid_created_receipt :: "conversation_created_receipt \<Rightarrow> bool" where
  "valid_created_receipt r \<longleftrightarrow> valid_identifier (cr_conversation_id r) \<and> valid_identifier (cr_surface_binding_id r)
     \<and> 0 < cr_event_cursor r"

section \<open>Memory of a conversation\<close>

datatype commitment_state = CommitmentOpen | CommitmentSatisfied | CommitmentWithdrawn

record commitment =
  commitment_id :: string
  com_conversation_id :: string
  com_statement :: string
  com_work_item_id :: "string option"
  com_state :: commitment_state

definition valid_commitment :: "commitment \<Rightarrow> bool" where
  "valid_commitment c \<longleftrightarrow> valid_identifier (commitment_id c) \<and> valid_identifier (com_conversation_id c)
     \<and> non_blank (com_statement c) \<and> option_all valid_identifier (com_work_item_id c)"

record decision =
  decision_id :: string
  dec_conversation_id :: string
  dec_statement :: string
  supersedes_decision_id :: "string option"

definition valid_decision :: "decision \<Rightarrow> bool" where
  "valid_decision d \<longleftrightarrow> valid_identifier (decision_id d) \<and> valid_identifier (dec_conversation_id d)
     \<and> non_blank (dec_statement d) \<and> option_all valid_identifier (supersedes_decision_id d)"

record node_memory =
  memory_id :: string
  mem_node_id :: string
  mem_statement :: string
  source_blob_ref :: string

definition valid_node_memory :: "node_memory \<Rightarrow> bool" where
  "valid_node_memory m \<longleftrightarrow> valid_identifier (memory_id m) \<and> valid_identifier (mem_node_id m)
     \<and> non_blank (mem_statement m) \<and> valid_blob_ref (source_blob_ref m)"

section \<open>Actions of the interface\<close>

record read_history_action =
  action_id :: string
  operation :: string
  argument :: "string option"
  page_cursor :: "string option"

definition history_operations :: "string list" where
  "history_operations = [''list_sessions'', ''read_timeline'', ''read_raw'', ''search'', ''resolve_reference'',
     ''list_open_commitments'', ''get_current_state'']"

definition valid_read_history_action :: "read_history_action \<Rightarrow> bool" where
  "valid_read_history_action x \<longleftrightarrow> valid_identifier (action_id x) \<and> operation x \<in> set history_operations
     \<and> option_all non_blank (argument x) \<and> option_all non_blank (page_cursor x)"

datatype interface_action =
    CreateWorkItem string work_item "string list"
  | DelegateWorkItem string string string
  | RecordDecision string string "string option"
  | UpdateCommitment string string string "string option" commitment_state
  | ReadHistory read_history_action
  | SubmitReorientation string reorientation_assessment
  | SelectPilot string string string
  | PlanEffect string effect_lease
  | ProposeCompletion string string completion_evidence

fun interface_action_id :: "interface_action \<Rightarrow> string" where
  "interface_action_id (CreateWorkItem i _ _) = i"
| "interface_action_id (DelegateWorkItem i _ _) = i"
| "interface_action_id (RecordDecision i _ _) = i"
| "interface_action_id (UpdateCommitment i _ _ _ _) = i"
| "interface_action_id (ReadHistory x) = action_id x"
| "interface_action_id (SubmitReorientation i _) = i"
| "interface_action_id (SelectPilot i _ _) = i"
| "interface_action_id (PlanEffect i _) = i"
| "interface_action_id (ProposeCompletion i _ _) = i"

fun interface_action_kind :: "interface_action \<Rightarrow> string" where
  "interface_action_kind (CreateWorkItem _ _ _) = ''work_item.create''"
| "interface_action_kind (DelegateWorkItem _ _ _) = ''work_item.delegate''"
| "interface_action_kind (RecordDecision _ _ _) = ''decision.record''"
| "interface_action_kind (UpdateCommitment _ _ _ _ _) = ''commitment.update''"
| "interface_action_kind (ReadHistory _) = ''history.read''"
| "interface_action_kind (SubmitReorientation _ _) = ''reorientation.submit''"
| "interface_action_kind (SelectPilot _ _ _) = ''pilot.select''"
| "interface_action_kind (PlanEffect _ _) = ''effect.plan''"
| "interface_action_kind (ProposeCompletion _ _ _) = ''completion.propose''"

fun valid_interface_action :: "interface_action \<Rightarrow> bool" where
  "valid_interface_action (CreateWorkItem i w ds) \<longleftrightarrow>
     valid_identifier i \<and> valid_work_item w \<and> list_all valid_identifier ds"
| "valid_interface_action (DelegateWorkItem i w n) \<longleftrightarrow> valid_identifier i \<and> valid_identifier w \<and> valid_identifier n"
| "valid_interface_action (RecordDecision i s p) \<longleftrightarrow>
     valid_identifier i \<and> non_blank s \<and> option_all valid_identifier p"
| "valid_interface_action (UpdateCommitment i c s w st) \<longleftrightarrow>
     valid_identifier i \<and> valid_identifier c \<and> non_blank s \<and> option_all valid_identifier w"
| "valid_interface_action (ReadHistory x) \<longleftrightarrow> valid_read_history_action x"
| "valid_interface_action (SubmitReorientation i a) \<longleftrightarrow> valid_identifier i \<and> valid_reorientation_assessment a"
| "valid_interface_action (SelectPilot i w r) \<longleftrightarrow> valid_identifier i \<and> valid_identifier w \<and> non_blank r"
| "valid_interface_action (PlanEffect i l) \<longleftrightarrow> valid_identifier i \<and> valid_effect_lease l"
| "valid_interface_action (ProposeCompletion i w ev) \<longleftrightarrow>
     valid_identifier i \<and> valid_identifier w \<and> valid_completion_evidence ev"

section \<open>A turn of the interface pilot\<close>

record event_delta_summary =
  after_cursor :: nat
  through_cursor :: nat
  event_count :: nat
  event_type_counts :: "(string, nat) dict"
  changed_stream_ids :: "string list"

record interface_resume_pack =
  pack_node_memory :: "node_memory list"
  unfinished_work_items :: "work_item list"
  pack_open_commitments :: "commitment list"
  active_decisions :: "decision list"

record interface_turn =
  owner_message_blob_ref :: string
  event_delta :: event_delta_summary
  turn_resume_pack :: "interface_resume_pack option"
  turn_provider_session_id :: "string option"

end
