(* ===== verification/Evidence_Models.thy ===== *)
theory Evidence_Models
  imports Interface_Models Complex_Main
begin

text \<open>
  The records with measured quantities: the judge's observations and verified outcomes of
  \<^verbatim>\<open>vsm/pilot/models.py\<close> and \<^verbatim>\<open>vsm/routing/bayesian.py\<close>, a pilot's usage, and the
  observations, baselines and triggers of \<^verbatim>\<open>vsm/token_lab/lab.py\<close>. A finite Python \<^verbatim>\<open>float\<close> is the
  real number it denotes.
\<close>

section \<open>Verified outcomes\<close>

datatype judge_kind = Deterministic | CheapAi | HumanJudge

record judge_observation =
  judge_candidate_key :: string
  judge_kind :: judge_kind
  predicted_success :: bool
  verified_success :: "bool option"
  judge_model :: "string option"
  judge_effort :: "string option"

definition cheap_judge_is_restricted :: "judge_observation \<Rightarrow> bool" where
  "cheap_judge_is_restricted j \<longleftrightarrow>
     (if judge_kind j = CheapAi
      then (case judge_model j of None \<Rightarrow> False
            | Some m \<Rightarrow> judge_effort j = Some ''low'' \<and> \<not> contains ''opus'' (py_lower m))
      else judge_model j = None \<and> judge_effort j = None)"

definition valid_judge_observation :: "judge_observation \<Rightarrow> bool" where
  "valid_judge_observation j \<longleftrightarrow> non_blank (judge_candidate_key j) \<and> option_all non_blank (judge_model j)
     \<and> judge_effort j \<in> {None, Some ''low''} \<and> cheap_judge_is_restricted j"

record verified_route_outcome =
  outcome_id :: string
  outcome_candidate_key :: string
  outcome_occurred_at :: time
  outcome_success :: bool
  outcome_tokens :: int
  outcome_cost :: real
  outcome_latency_ms :: int
  outcome_judge :: "judge_observation option"

text \<open>\<^verbatim>\<open>^outcome:[A-Za-z0-9._~-]{1,160}$\<close>.\<close>

definition valid_outcome_id :: "string \<Rightarrow> bool" where
  "valid_outcome_id s \<longleftrightarrow> take 8 s = ''outcome:'' \<and> list_all is_body_char (drop 8 s)
     \<and> 1 \<le> length (drop 8 s) \<and> length (drop 8 s) \<le> 160"

definition valid_verified_route_outcome :: "verified_route_outcome \<Rightarrow> bool" where
  "valid_verified_route_outcome v \<longleftrightarrow> valid_outcome_id (outcome_id v) \<and> 1 \<le> py_len (outcome_candidate_key v)
     \<and> 0 < outcome_tokens v \<and> 0 < outcome_cost v \<and> 0 < outcome_latency_ms v
     \<and> option_all valid_judge_observation (outcome_judge v)"

section \<open>Pilot usage\<close>

record interface_pilot_usage =
  usage_candidate_key :: string
  actual_provider :: string
  actual_model_snapshot :: string
  usage_input_tokens :: int
  cache_creation_input_tokens :: int
  cache_read_input_tokens :: int
  usage_output_tokens :: int
  cost_usd :: real
  duration_ms :: int
  classifier_triggered :: bool
  model_substitution :: bool
  usage_full_history_resent :: bool
  polling_call :: bool
  false_complete :: bool
  reedited_tokens :: int

definition valid_interface_pilot_usage :: "interface_pilot_usage \<Rightarrow> bool" where
  "valid_interface_pilot_usage u \<longleftrightarrow> non_blank (usage_candidate_key u) \<and> non_blank (actual_provider u)
     \<and> non_blank (actual_model_snapshot u) \<and> 0 \<le> usage_input_tokens u \<and> 0 \<le> cache_creation_input_tokens u
     \<and> 0 \<le> cache_read_input_tokens u \<and> 0 \<le> usage_output_tokens u \<and> 0 \<le> cost_usd u \<and> 0 \<le> duration_ms u
     \<and> 0 \<le> reedited_tokens u"

record structured_interface_response =
  response_display_text :: string
  response_actions :: "interface_action list"
  response_provider_session_id :: string
  pilot_usage :: interface_pilot_usage

definition valid_structured_interface_response :: "structured_interface_response \<Rightarrow> bool" where
  "valid_structured_interface_response r \<longleftrightarrow> 1 \<le> py_len (response_display_text r)
     \<and> py_len (response_display_text r) \<le> 1200 \<and> list_all valid_interface_action (response_actions r)
     \<and> non_blank (response_provider_session_id r) \<and> valid_interface_pilot_usage (pilot_usage r)"

section \<open>Token observations\<close>

datatype token_incident_kind =
  CallDensity | ContextReload | ModelCallPolling | PermissionClassifier | ModelSubstitution | Reedit | FalseComplete

fun token_incident_kind_value :: "token_incident_kind \<Rightarrow> string" where
  "token_incident_kind_value CallDensity = ''call_density''"
| "token_incident_kind_value ContextReload = ''context_reload''"
| "token_incident_kind_value ModelCallPolling = ''model_call_polling''"
| "token_incident_kind_value PermissionClassifier = ''permission_classifier''"
| "token_incident_kind_value ModelSubstitution = ''model_substitution''"
| "token_incident_kind_value Reedit = ''reedit''"
| "token_incident_kind_value FalseComplete = ''false_complete''"

text \<open>The members in the order of their values, which is the order of \<^verbatim>\<open>sorted\<close>.\<close>

definition sorted_incident_kinds :: "token_incident_kind list" where
  "sorted_incident_kinds =
     [CallDensity, ContextReload, FalseComplete, ModelCallPolling, ModelSubstitution, PermissionClassifier, Reedit]"

record token_observation =
  observation_id :: string
  obs_work_type :: string
  obs_occurred_at :: time
  total_input_tokens :: nat
  interface_input_tokens :: nat
  incident_kinds :: "token_incident_kind set"
  full_history_resent :: bool
  expensive_interface_calls :: nat
  verified_complete :: bool

definition valid_token_observation :: "token_observation \<Rightarrow> bool" where
  "valid_token_observation x \<longleftrightarrow> 1 \<le> py_len (observation_id x) \<and> 1 \<le> py_len (obs_work_type x)"

record token_baseline =
  baseline_work_type :: string
  approved_mean_input_tokens :: real
  approved_mean_interface_tokens :: real
  baseline_approved_at :: time

definition valid_token_baseline :: "token_baseline \<Rightarrow> bool" where
  "valid_token_baseline b \<longleftrightarrow> 1 \<le> py_len (baseline_work_type b) \<and> 0 < approved_mean_input_tokens b
     \<and> 0 < approved_mean_interface_tokens b"

record investigation_trigger =
  trigger_reason :: string
  trigger_work_type :: string
  trigger_observation_ids :: "string list"
  logic_only :: bool
  allowed_model :: "string option"
  allowed_effort :: "string option"

end
