(* ===== verification/Json.thy ===== *)
theory Json
  imports Ids
begin

text \<open>
  The JSON values the program reads from files and from other services, as \<^verbatim>\<open>json.loads\<close>
  gives them: an object is its members in order, each key once; a float is kept as its text.
\<close>

datatype json =
    JNull
  | JBool bool
  | JInt int
  | JFloat string
  | JStr string
  | JList "json list"
  | JObj "(string \<times> json) list"

fun as_jobj :: "json \<Rightarrow> (string, json) dict option" where "as_jobj (JObj d) = Some d" | "as_jobj _ = None"
fun as_jlist :: "json \<Rightarrow> json list option" where "as_jlist (JList xs) = Some xs" | "as_jlist _ = None"
fun as_jstr :: "json \<Rightarrow> string option" where "as_jstr (JStr s) = Some s" | "as_jstr _ = None"
fun as_jbool :: "json \<Rightarrow> bool option" where "as_jbool (JBool b) = Some b" | "as_jbool _ = None"
fun as_jint :: "json \<Rightarrow> int option" where "as_jint (JInt n) = Some n" | "as_jint _ = None"

text \<open>\<^verbatim>\<open>mapping.get(key)\<close> and \<^verbatim>\<open>mapping.get(key, default)\<close>: a missing key reads as null.\<close>

definition jget :: "(string, json) dict \<Rightarrow> string \<Rightarrow> json" where
  "jget d key = (case dict_get d key of None \<Rightarrow> JNull | Some v \<Rightarrow> v)"

definition jget_or :: "(string, json) dict \<Rightarrow> string \<Rightarrow> json \<Rightarrow> json" where
  "jget_or d key v = (case dict_get d key of None \<Rightarrow> v | Some w \<Rightarrow> w)"

lemma jget_Cons [simp]: "jget ((k, v) # d) key = (if k = key then v else jget d key)"
  by (simp add: jget_def)

lemma jget_Nil [simp]: "jget [] key = JNull"
  by (simp add: jget_def)

lemma jget_or_Cons [simp]: "jget_or ((k, v) # d) key w = (if k = key then v else jget_or d key w)"
  by (simp add: jget_or_def)

lemma jget_or_Nil [simp]: "jget_or [] key w = w"
  by (simp add: jget_or_def)

text \<open>All strings of a list of JSON values, when each of them is one.\<close>

fun jstrings :: "json list \<Rightarrow> string list option" where
  "jstrings [] = Some []"
| "jstrings (JStr s # xs) = map_option ((#) s) (jstrings xs)"
| "jstrings (_ # xs) = None"

lemma jstrings_map [simp]: "jstrings (map JStr ss) = Some ss"
  by (induction ss) simp_all

section \<open>The text of a string\<close>

text \<open>
  How \<^verbatim>\<open>json.dumps\<close> with \<^verbatim>\<open>ensure_ascii=False\<close> writes a string: every byte from 127 on is kept.
  The text of one string can be told apart from any other, whatever follows.
\<close>

definition json_escape_byte :: "char \<Rightarrow> string" where
  "json_escape_byte c = (if 127 \<le> (of_char c :: nat) then [c] else json_escape (of_char c))"

definition json_raw :: "string \<Rightarrow> string" where
  "json_raw s = CHR 0x22 # concat (map json_escape_byte s) @ [CHR 0x22]"

definition json_raw_opt :: "string option \<Rightarrow> string" where
  "json_raw_opt x = (case x of None \<Rightarrow> ''null'' | Some s \<Rightarrow> json_raw s)"

lemma unescape_json_escape_byte: "unescape (json_escape_byte c @ r) = Some (of_char c, r)"
proof (cases "127 \<le> (of_char c :: nat)")
  case True
  then have "c \<noteq> CHR 0x5C" by auto
  with True show ?thesis by (simp add: json_escape_byte_def)
qed (simp add: json_escape_byte_def unescape_json_escape)

lemma json_escape_byte_not_quote: "json_escape_byte c \<noteq> [] \<and> hd (json_escape_byte c) \<noteq> CHR 0x22"
proof (cases "127 \<le> (of_char c :: nat)")
  case True
  then have "c \<noteq> CHR 0x22" by auto
  with True show ?thesis by (simp add: json_escape_byte_def)
qed (simp add: json_escape_byte_def json_escape_not_quote)

lemma json_bytes_inj:
  assumes "concat (map json_escape_byte s) @ CHR 0x22 # r = concat (map json_escape_byte t) @ CHR 0x22 # r'"
  shows "s = t \<and> r = r'"
  using assms
proof (induction s arbitrary: t)
  case Nil
  then show ?case using json_escape_byte_not_quote [of "hd t"]
    by (cases t; cases "json_escape_byte (hd t)") auto
next
  case (Cons c s)
  note eq = Cons.prems
  show ?case
  proof (cases t)
    case Nil
    then show ?thesis using eq json_escape_byte_not_quote [of c] by (cases "json_escape_byte c") auto
  next
    case (Cons d t')
    from eq Cons have eq': "json_escape_byte c @ concat (map json_escape_byte s) @ CHR 0x22 # r
        = json_escape_byte d @ concat (map json_escape_byte t') @ CHR 0x22 # r'"
      by simp
    from arg_cong [OF eq', of unescape]
    have "(of_char c :: nat) = of_char d"
      and rest: "concat (map json_escape_byte s) @ CHR 0x22 # r = concat (map json_escape_byte t') @ CHR 0x22 # r'"
      by (simp_all add: unescape_json_escape_byte)
    with Cons.IH [OF rest] Cons show ?thesis by simp
  qed
qed

lemma json_raw_inj: "json_raw s @ r = json_raw t @ r' \<Longrightarrow> s = t \<and> r = r'"
  using json_bytes_inj [of s r t r'] by (simp add: json_raw_def)

lemma json_raw_opt_inj: "json_raw_opt x @ r = json_raw_opt y @ r' \<Longrightarrow> x = y \<and> r = r'"
proof (cases x; cases y)
  fix s t assume "json_raw_opt x @ r = json_raw_opt y @ r'" "x = Some s" "y = Some t"
  then show "x = y \<and> r = r'" using json_raw_inj [of s r t r'] by (simp add: json_raw_opt_def)
qed (simp_all add: json_raw_opt_def json_raw_def)

end
