(* ===== verification/Environment_Models.thy ===== *)
theory Environment_Models
  imports Json
begin

text \<open>
  The pydantic models of \<^verbatim>\<open>vsm/environment/contracts.py\<close>, \<^verbatim>\<open>approval.py\<close>, \<^verbatim>\<open>artifacts.py\<close> and
  \<^verbatim>\<open>vsm/environment_instance.py\<close>, and the dataclasses of \<^verbatim>\<open>vsm/preflight.py\<close>, as records. Their
  validators are in \<open>Environment_Contracts\<close>. Capabilities and the JSON form of an evidence are
  \<open>json\<close> values.
\<close>

section \<open>Contracts\<close>

datatype sandbox_mode = SandboxReadOnly | SandboxWorkspaceWrite

fun sandbox_value :: "sandbox_mode \<Rightarrow> string" where
  "sandbox_value SandboxReadOnly = ''read-only''"
| "sandbox_value SandboxWorkspaceWrite = ''workspace-write''"

record adapter_requirement =
  required_endpoints :: "string list"
  minimum_cli_version :: "string option"

record environment_contract =
  supported_shells :: "string list"
  workspace_writable :: bool
  minimum_memory_mb :: int
  supported_sandboxes :: "sandbox_mode list"
  required_sandbox :: sandbox_mode
  path_mapping_names :: "string list"
  adapters :: "(string, adapter_requirement) dict"

section \<open>The owner's approval\<close>

text \<open>A finite \<^verbatim>\<open>Decimal\<close>: a coefficient times a power of ten.\<close>

datatype py_decimal = PyDecimal (coefficient: int) (exponent: int)

record procurement_policy_boundary =
  allowed_resources :: "string list"
  allowed_networks :: "string list"
  budget_currency :: string
  maximum_budget :: py_decimal

datatype approval_target_kind = TargetEnvironmentContract | TargetProcurementPolicyBoundary

record owner_approval_target =
  target_contract :: environment_contract
  target_boundary :: procurement_policy_boundary

record owner_approval_request =
  approval_target :: owner_approval_target

section \<open>Artifacts\<close>

record contract_artifact =
  artifact_type :: string
  artifact_key :: string
  artifact_version :: int
  artifact_schema_version :: string
  artifact_fingerprint :: string
  artifact_contract :: environment_contract

section \<open>Instances\<close>

datatype instance_state = InstanceCandidate | InstanceVerified | InstanceActive | InstanceRetired

fun instance_state_value :: "instance_state \<Rightarrow> string" where
  "instance_state_value InstanceCandidate = ''candidate''"
| "instance_state_value InstanceVerified = ''verified''"
| "instance_state_value InstanceActive = ''active''"
| "instance_state_value InstanceRetired = ''retired''"

record environment_instance =
  env_instance_id :: string
  instance_data_space_id :: string
  instance_environment_fingerprint :: string
  logical_path_bindings :: "(string, string) dict"
  cli_executable_path :: string
  codex_home :: string
  environment_variables :: "(string, string) dict"
  machine_identity :: "(string, string) dict"
  instance_fingerprint :: string
  instance_state :: instance_state

section \<open>Preflight\<close>

record cli_version_reading =
  read_version :: string
  read_version_file :: string
  read_mtime_ns :: int

record verification_tuple =
  vt_adapter :: string
  vt_cli_version :: string
  vt_sandbox_mode :: string
  vt_environment_fingerprint :: string

record preflight_observation =
  sandbox_policy :: string
  obs_capabilities :: "(string, json) dict"
  obs_rollout_ref :: "string option"
  obs_bridged :: bool

record preflight_evidence =
  evidence_tuple :: verification_tuple
  measured_sandbox_policy :: string
  measured_capabilities :: "(string, json) dict"
  evidence_instance_fingerprint :: string
  checked_at :: string
  evidence_rollout_ref :: "string option"
  version_file :: string
  version_file_mtime_ns :: int
  evidence_bridged :: bool

record declaration_update_event =
  update_field :: string
  update_occurred_at :: string
  from_value :: "string option"
  to_value :: string
  update_source :: string
  update_reason :: string

text \<open>\<^verbatim>\<open>asdict\<close> of the tuple and \<^verbatim>\<open>PreflightEvidence.to_dict\<close>.\<close>

definition opt_jstr :: "string option \<Rightarrow> json" where
  "opt_jstr x = (case x of None \<Rightarrow> JNull | Some s \<Rightarrow> JStr s)"

definition tuple_dict :: "verification_tuple \<Rightarrow> (string, json) dict" where
  "tuple_dict v = [(''adapter'', JStr (vt_adapter v)), (''cli_version'', JStr (vt_cli_version v)),
     (''sandbox_mode'', JStr (vt_sandbox_mode v)),
     (''environment_fingerprint'', JStr (vt_environment_fingerprint v))]"

definition evidence_dict :: "preflight_evidence \<Rightarrow> (string, json) dict" where
  "evidence_dict e = [
     (''verification_tuple'', JObj (tuple_dict (evidence_tuple e))),
     (''measured_sandbox_policy'', JStr (measured_sandbox_policy e)),
     (''measured_capabilities'', JObj (measured_capabilities e)),
     (''instance_fingerprint'', JStr (evidence_instance_fingerprint e)),
     (''checked_at'', JStr (checked_at e)),
     (''rollout_ref'', opt_jstr (evidence_rollout_ref e)),
     (''version_file'', JStr (version_file e)),
     (''version_file_mtime_ns'', JInt (version_file_mtime_ns e)),
     (''bridged'', JBool (evidence_bridged e))]"

definition update_event_dict :: "declaration_update_event \<Rightarrow> (string, json) dict" where
  "update_event_dict u = [(''field'', JStr (update_field u)), (''occurred_at'', JStr (update_occurred_at u)),
     (''from_value'', opt_jstr (from_value u)), (''to_value'', JStr (to_value u)),
     (''source'', JStr (update_source u)), (''reason'', JStr (update_reason u))]"

end
