(* ===== verification/Ledger.thy ===== *)
theory Ledger
  imports Kernel_Models "HOL-Library.Sublist"
begin

text \<open>
  \<^verbatim>\<open>vsm/kernel/ledger.py\<close>: the in-memory event ledger, the contract double of LETHE. Its
  state is the class's six attributes; the operations keep the code's checks in the
  code's order. Two events have the same canonical JSON iff they are equal.
  The locale \<open>event_ledger\<close> is the \<^verbatim>\<open>OperationalLedger\<close> protocol with the laws its clients
  rely on; it is interpreted on the in-memory ledger at the end.
\<close>

section \<open>State and operations\<close>

record 'p ledger =
  ledger_data_space_id :: string
  l_events :: "'p stored_event list"
  l_streams :: "(string, 'p stored_event list) dict"
  l_idempotency :: "(string, 'p stored_event) dict"
  l_event_ids :: "(string, 'p stored_event) dict"
  l_blobs :: "(string, string) dict"

definition empty_ledger :: "string \<Rightarrow> 'p ledger" where
  "empty_ledger ds = \<lparr>ledger_data_space_id = ds, l_events = [], l_streams = [], l_idempotency = [],
     l_event_ids = [], l_blobs = []\<rparr>"

text \<open>\<^verbatim>\<open>self._streams[stream_id]\<close> on a \<^verbatim>\<open>defaultdict(list)\<close>.\<close>

definition stream_of :: "'p ledger \<Rightarrow> string \<Rightarrow> 'p stored_event list" where
  "stream_of L sid = (case dict_get (l_streams L) sid of None \<Rightarrow> [] | Some xs \<Rightarrow> xs)"

definition duplicate_of :: "'p stored_event \<Rightarrow> append_result" where
  "duplicate_of d = \<lparr>outcome = Duplicate, result_cursor = cursor d,
     result_stream_version = stream_version (stored d)\<rparr>"

definition ledger_append ::
  "'p ledger \<Rightarrow> 'p event_envelope \<Rightarrow> nat \<Rightarrow> (append_result \<times> 'p ledger) result" where
  "ledger_append L e expected =
     (if event_data_space_id e \<noteq> ledger_data_space_id L
      then raise_violation (''event DataSpace '' @ event_data_space_id e @ '' does not match '' @ ledger_data_space_id L)
      else case dict_get (l_idempotency L) (idempotency_key e) of
        Some d \<Rightarrow>
          (if stored d \<noteq> e then raise_violation (''idempotency collision: '' @ idempotency_key e)
           else Inr (duplicate_of d, L))
      | None \<Rightarrow>
        (case dict_get (l_event_ids L) (event_id e) of
          Some d \<Rightarrow>
            (if stored d \<noteq> e then raise_violation (''event id collision: '' @ event_id e)
             else Inr (duplicate_of d, L))
        | None \<Rightarrow>
          (let actual = length (stream_of L (stream_id e)) in
           if actual \<noteq> expected then Inl (StreamConflict (stream_id e) expected actual)
           else if stream_version e \<noteq> actual + 1
           then raise_violation (''event stream version '' @ decimal (stream_version e)
                  @ '' does not follow '' @ decimal actual)
           else
             (let st = \<lparr>cursor = length (l_events L) + 1, stored = e\<rparr> in
              Inr (\<lparr>outcome = Appended, result_cursor = cursor st, result_stream_version = stream_version e\<rparr>,
                L\<lparr>l_events := l_events L @ [st],
                  l_streams := dict_set (l_streams L) (stream_id e) (stream_of L (stream_id e) @ [st]),
                  l_idempotency := dict_set (l_idempotency L) (idempotency_key e) st,
                  l_event_ids := dict_set (l_event_ids L) (event_id e) st\<rparr>)))))"

definition ledger_page :: "'p ledger \<Rightarrow> int \<Rightarrow> int \<Rightarrow> 'p stored_event list result" where
  "ledger_page L after limit =
     (if after < 0 \<or> limit \<le> 0 then raise_violation ''cursor must be non-negative and limit positive''
      else Inr (take (nat limit) (drop (nat after) (l_events L))))"

definition ledger_stream :: "'p ledger \<Rightarrow> string \<Rightarrow> int \<Rightarrow> int \<Rightarrow> 'p stored_event list result" where
  "ledger_stream L sid after limit =
     (if after < 0 \<or> limit \<le> 0 then raise_violation ''version must be non-negative and limit positive''
      else Inr (take (nat limit) (drop (nat after) (stream_of L sid))))"

definition put_blob :: "(string \<Rightarrow> string) \<Rightarrow> 'p ledger \<Rightarrow> string \<Rightarrow> string \<times> 'p ledger" where
  "put_blob sha256 L data =
     (let blob_ref = ''blob:sha256:'' @ sha256 data
      in (blob_ref, L\<lparr>l_blobs := dict_set (l_blobs L) blob_ref data\<rparr>))"

definition get_blob :: "'p ledger \<Rightarrow> string \<Rightarrow> string result" where
  "get_blob L blob_ref =
     (case dict_get (l_blobs L) blob_ref of
        None \<Rightarrow> raise_violation (''blob not found: '' @ blob_ref)
      | Some data \<Rightarrow> Inr data)"

section \<open>The abstract ledger: a list of events\<close>

text \<open>
  What the five attributes mean together: one list of events, numbered from one overall
  and within each stream, with no idempotency key and no event id twice.
\<close>

definition ledger_events :: "'p ledger \<Rightarrow> 'p event_envelope list" where
  "ledger_events L = map stored (l_events L)"

definition stream_events :: "'p event_envelope list \<Rightarrow> string \<Rightarrow> 'p event_envelope list" where
  "stream_events es sid = filter (\<lambda>e. stream_id e = sid) es"

definition spec_append :: "'p event_envelope list \<Rightarrow> 'p event_envelope \<Rightarrow> nat \<Rightarrow> ('p event_envelope list) option" where
  "spec_append es e expected =
     (if \<exists>d \<in> set es. idempotency_key d = idempotency_key e \<or> event_id d = event_id e
      then (if e \<in> set es then Some es else None)
      else if length (stream_events es (stream_id e)) = expected \<and> stream_version e = expected + 1
      then Some (es @ [e]) else None)"

definition ledger_inv :: "'p ledger \<Rightarrow> bool" where
  "ledger_inv L \<longleftrightarrow>
     map cursor (l_events L) = [1..<length (l_events L) + 1] \<and>
     (\<forall>sid. stream_of L sid = filter (\<lambda>s. stream_id (stored s) = sid) (l_events L)) \<and>
     (\<forall>sid. map (stream_version \<circ> stored) (stream_of L sid) = [1..<length (stream_of L sid) + 1]) \<and>
     (\<forall>k s. dict_get (l_idempotency L) k = Some s \<longleftrightarrow> s \<in> set (l_events L) \<and> idempotency_key (stored s) = k) \<and>
     (\<forall>k s. dict_get (l_event_ids L) k = Some s \<longleftrightarrow> s \<in> set (l_events L) \<and> event_id (stored s) = k) \<and>
     (\<forall>s \<in> set (l_events L). event_data_space_id (stored s) = ledger_data_space_id L)"

lemma stream_of_empty [simp]: "stream_of (empty_ledger ds) sid = []"
  by (simp add: stream_of_def empty_ledger_def)

lemma ledger_events_empty [simp]: "ledger_events (empty_ledger ds) = []"
  by (simp add: ledger_events_def empty_ledger_def)

lemma ledger_inv_empty [simp]: "ledger_inv (empty_ledger ds)"
  by (simp add: ledger_inv_def) (simp add: empty_ledger_def)

declare upt_Suc [simp del]

lemma ledger_invD:
  assumes "ledger_inv L"
  shows ledger_inv_cursors: "map cursor (l_events L) = [1..<length (l_events L) + 1]"
    and ledger_inv_streams: "stream_of L sid = filter (\<lambda>s. stream_id (stored s) = sid) (l_events L)"
    and ledger_inv_versions: "map (stream_version \<circ> stored) (stream_of L sid) = [1..<length (stream_of L sid) + 1]"
    and ledger_inv_idempotency: "dict_get (l_idempotency L) k = Some s \<longleftrightarrow> s \<in> set (l_events L) \<and> idempotency_key (stored s) = k"
    and ledger_inv_event_ids: "dict_get (l_event_ids L) k = Some s \<longleftrightarrow> s \<in> set (l_events L) \<and> event_id (stored s) = k"
    and ledger_inv_data_space: "s \<in> set (l_events L) \<Longrightarrow> event_data_space_id (stored s) = ledger_data_space_id L"
  using assms unfolding ledger_inv_def by blast+

lemma ledger_inv_stream_events: "ledger_inv L \<Longrightarrow> map stored (stream_of L sid) = stream_events (ledger_events L) sid"
  by (simp add: ledger_inv_streams stream_events_def ledger_events_def filter_map comp_def)

lemma length_stream_of: "ledger_inv L \<Longrightarrow> length (stream_of L sid) = length (stream_events (ledger_events L) sid)"
  by (metis ledger_inv_stream_events length_map)

text \<open>The two ways an append succeeds.\<close>

lemma ledger_append_cases:
  assumes "ledger_append L e expected = Inr (r, L')"
  obtains
    (duplicate) d where "L' = L" "r = duplicate_of d" "stored d = e"
      "dict_get (l_idempotency L) (idempotency_key e) = Some d \<or> dict_get (l_event_ids L) (event_id e) = Some d"
  | (appended) st where "st = \<lparr>cursor = length (l_events L) + 1, stored = e\<rparr>"
      "r = \<lparr>outcome = Appended, result_cursor = length (l_events L) + 1, result_stream_version = expected + 1\<rparr>"
      "L' = L\<lparr>l_events := l_events L @ [st],
                  l_streams := dict_set (l_streams L) (stream_id e) (stream_of L (stream_id e) @ [st]),
                  l_idempotency := dict_set (l_idempotency L) (idempotency_key e) st,
                  l_event_ids := dict_set (l_event_ids L) (event_id e) st\<rparr>"
      "length (stream_of L (stream_id e)) = expected" "stream_version e = expected + 1"
      "event_data_space_id e = ledger_data_space_id L"
      "dict_get (l_idempotency L) (idempotency_key e) = None" "dict_get (l_event_ids L) (event_id e) = None"
  using assms
  by (auto simp: ledger_append_def Let_def duplicate_of_def
      split: if_splits option.splits)

section \<open>Invariant\<close>

lemma stream_of_append:
  "stream_of (L\<lparr>l_events := x, l_streams := dict_set (l_streams L) sid xs, l_idempotency := y, l_event_ids := z\<rparr>) sid'
    = (if sid' = sid then xs else stream_of L sid')"
  by (simp add: stream_of_def)

lemma ledger_append_inv:
  assumes inv: "ledger_inv L" and step: "ledger_append L e expected = Inr (r, L')"
  shows "ledger_inv L'"
  using step
proof (cases rule: ledger_append_cases)
  case duplicate
  then show ?thesis using inv by simp
next
  case (appended st)
  note L' = appended(3)
  have key: "\<And>s. s \<in> set (l_events L) \<Longrightarrow> idempotency_key (stored s) \<noteq> idempotency_key e"
    and eid: "\<And>s. s \<in> set (l_events L) \<Longrightarrow> event_id (stored s) \<noteq> event_id e"
    using appended(7,8) ledger_inv_idempotency [OF inv, of "idempotency_key e"]
      ledger_inv_event_ids [OF inv, of "event_id e"] by auto
  show ?thesis
    unfolding ledger_inv_def
  proof (intro conjI allI ballI)
    show "map cursor (l_events L') = [1..<length (l_events L') + 1]"
      using ledger_inv_cursors [OF inv] appended(1) by (simp add: L' upt_Suc_append)
  next
    fix sid show "stream_of L' sid = filter (\<lambda>s. stream_id (stored s) = sid) (l_events L')"
      using ledger_inv_streams [OF inv] appended(1) by (simp add: L' stream_of_append)
  next
    fix sid show "map (stream_version \<circ> stored) (stream_of L' sid) = [1..<length (stream_of L' sid) + 1]"
      using ledger_inv_versions [OF inv] appended(1,4,5) by (simp add: L' stream_of_append upt_Suc_append)
  next
    fix k s show "(dict_get (l_idempotency L') k = Some s) = (s \<in> set (l_events L') \<and> idempotency_key (stored s) = k)"
      using ledger_inv_idempotency [OF inv] appended(1) key by (auto simp: L')
  next
    fix k s show "(dict_get (l_event_ids L') k = Some s) = (s \<in> set (l_events L') \<and> event_id (stored s) = k)"
      using ledger_inv_event_ids [OF inv] appended(1) eid by (auto simp: L')
  next
    fix s assume "s \<in> set (l_events L')"
    then show "event_data_space_id (stored s) = ledger_data_space_id L'"
      using ledger_inv_data_space [OF inv] appended(1,6) by (auto simp: L')
  qed
qed

lemma ledger_append_data_space:
  "ledger_append L e expected = Inr (r, L') \<Longrightarrow> ledger_data_space_id L' = ledger_data_space_id L"
  by (erule ledger_append_cases) simp_all

lemma ledger_append_events:
  assumes "ledger_inv L" and "ledger_append L e expected = Inr (r, L')"
  shows "(outcome r = Duplicate \<and> L' = L \<and> e \<in> set (ledger_events L)) \<or>
    (outcome r = Appended \<and> ledger_events L' = ledger_events L @ [e]
      \<and> result_cursor r = length (ledger_events L) + 1 \<and> result_stream_version r = expected + 1
      \<and> stream_version e = expected + 1 \<and> expected = length (stream_events (ledger_events L) (stream_id e)))"
  using assms(2)
proof (cases rule: ledger_append_cases)
  case (duplicate d)
  then have "d \<in> set (l_events L)"
    using ledger_inv_idempotency [OF assms(1)] ledger_inv_event_ids [OF assms(1)] by blast
  with duplicate show ?thesis by (auto simp: duplicate_of_def ledger_events_def)
next
  case (appended st)
  then show ?thesis using length_stream_of [OF assms(1), of "stream_id e"] by (simp add: ledger_events_def)
qed

text \<open>A stream's events carry the versions one, two, three and so on.\<close>

lemma stream_versions:
  assumes "ledger_inv L"
  shows "map stream_version (stream_events (ledger_events L) sid) = [1..<length (stream_events (ledger_events L) sid) + 1]"
  using ledger_inv_versions [OF assms, of sid]
  by (simp flip: ledger_inv_stream_events [OF assms])

lemma stream_version_le:
  assumes "ledger_inv L" and "e \<in> set (ledger_events L)"
  shows "0 < stream_version e" and "stream_version e \<le> length (stream_events (ledger_events L) (stream_id e))"
proof -
  have "e \<in> set (stream_events (ledger_events L) (stream_id e))"
    using assms(2) by (simp add: stream_events_def)
  then have "stream_version e \<in> set (map stream_version (stream_events (ledger_events L) (stream_id e)))"
    by simp
  then have "stream_version e \<in> {1..<length (stream_events (ledger_events L) (stream_id e)) + 1}"
    by (simp only: stream_versions [OF assms(1)] set_upt)
  then show "0 < stream_version e" and "stream_version e \<le> length (stream_events (ledger_events L) (stream_id e))"
    by simp_all
qed

section \<open>Refinement of the abstract ledger\<close>

lemma ledger_append_refines_spec:
  assumes inv: "ledger_inv L" and ds: "event_data_space_id e = ledger_data_space_id L"
  shows "spec_append (ledger_events L) e expected
    = (case ledger_append L e expected of Inl _ \<Rightarrow> None | Inr (_, L') \<Rightarrow> Some (ledger_events L'))"
proof (cases "dict_get (l_idempotency L) (idempotency_key e)")
  case (Some d)
  then have d: "d \<in> set (l_events L)" "idempotency_key (stored d) = idempotency_key e"
    using ledger_inv_idempotency [OF inv] by blast+
  have "e \<in> set (ledger_events L) \<longleftrightarrow> stored d = e"
  proof
    assume "e \<in> set (ledger_events L)"
    then obtain s where "s \<in> set (l_events L)" "stored s = e" by (auto simp: ledger_events_def)
    then have "dict_get (l_idempotency L) (idempotency_key e) = Some s"
      using ledger_inv_idempotency [OF inv] by blast
    with Some \<open>stored s = e\<close> show "stored d = e" by simp
  qed (use d in \<open>auto simp: ledger_events_def\<close>)
  then show ?thesis using Some d ds
    by (auto simp: spec_append_def ledger_append_def ledger_events_def raise_violation_def)
next
  case None
  have nokey: "\<And>s. s \<in> set (l_events L) \<Longrightarrow> idempotency_key (stored s) \<noteq> idempotency_key e"
    using None ledger_inv_idempotency [OF inv] by (metis option.distinct(1))
  then have notin: "e \<notin> set (ledger_events L)" by (auto simp: ledger_events_def)
  show ?thesis
  proof (cases "dict_get (l_event_ids L) (event_id e)")
    case (Some d)
    then have "d \<in> set (l_events L)" "event_id (stored d) = event_id e"
      using ledger_inv_event_ids [OF inv] by blast+
    moreover from this have "stored d \<noteq> e" using notin by (auto simp: ledger_events_def)
    ultimately show ?thesis using None Some ds notin
      by (auto simp: spec_append_def ledger_append_def ledger_events_def raise_violation_def)
  next
    case None2: None
    have "\<And>s. s \<in> set (l_events L) \<Longrightarrow> event_id (stored s) \<noteq> event_id e"
      using None2 ledger_inv_event_ids [OF inv] by (metis option.distinct(1))
    then have fresh: "\<not> (\<exists>d \<in> set (ledger_events L). idempotency_key d = idempotency_key e \<or> event_id d = event_id e)"
      using nokey by (auto simp: ledger_events_def)
    have len: "length (stream_events (ledger_events L) (stream_id e)) = length (stream_of L (stream_id e))"
      by (simp add: length_stream_of [OF inv])
    show ?thesis
      unfolding spec_append_def len if_not_P [OF fresh]
      by (auto simp: ledger_append_def None None2 ds Let_def ledger_events_def raise_violation_def)
  qed
qed

section \<open>The protocol and its laws\<close>

locale event_ledger =
  fixes append :: "'l \<Rightarrow> 'p event_envelope \<Rightarrow> nat \<Rightarrow> (append_result \<times> 'l) result"
    and page :: "'l \<Rightarrow> int \<Rightarrow> int \<Rightarrow> 'p stored_event list result"
    and events :: "'l \<Rightarrow> 'p event_envelope list"
    and inv :: "'l \<Rightarrow> bool"
  assumes append_inv: "inv L \<Longrightarrow> append L e n = Inr (r, L') \<Longrightarrow> inv L'"
    and append_law: "inv L \<Longrightarrow> append L e n = Inr (r, L') \<Longrightarrow>
      (outcome r = Duplicate \<and> L' = L \<and> e \<in> set (events L)) \<or>
      (outcome r = Appended \<and> events L' = events L @ [e] \<and> result_cursor r = length (events L) + 1
        \<and> result_stream_version r = n + 1 \<and> stream_version e = n + 1
        \<and> n = length (stream_events (events L) (stream_id e)))"
    and append_again: "inv L \<Longrightarrow> e \<in> set (events L) \<Longrightarrow> \<exists>r. append L e n = Inr (r, L) \<and> outcome r = Duplicate
        \<and> result_stream_version r = stream_version e"
    and page_law: "inv L \<Longrightarrow> 0 \<le> a \<Longrightarrow> 0 < k \<Longrightarrow> \<exists>ss. page L a k = Inr ss
        \<and> map stored ss = take (nat k) (drop (nat a) (events L))
        \<and> map cursor ss = [nat a + 1..<nat a + 1 + length ss]"
    and page_refuses: "a < 0 \<or> k \<le> 0 \<Longrightarrow> \<exists>m. page L a k = Inl (InvariantViolation m)"
begin

text \<open>An append never loses or reorders what was there.\<close>

lemma append_prefix: "inv L \<Longrightarrow> append L e n = Inr (r, L') \<Longrightarrow> prefix (events L) (events L')"
  by (drule (1) append_law) auto

lemma append_mem: "inv L \<Longrightarrow> append L e n = Inr (r, L') \<Longrightarrow> e \<in> set (events L')"
  by (drule (1) append_law) auto

text \<open>A client may repeat an append whose answer was lost.\<close>

lemma append_retry:
  assumes "inv L" and "append L e n = Inr (r, L')"
  shows "\<exists>r'. append L' e m = Inr (r', L') \<and> outcome r' = Duplicate \<and> result_stream_version r' = stream_version e"
  using append_again [OF append_inv [OF assms] append_mem [OF assms]] .

lemma page_end: "inv L \<Longrightarrow> 0 < k \<Longrightarrow> page L (int (length (events L))) k = Inr []"
  using page_law [of L "int (length (events L))" k] by auto

end

lemma ledger_append_again:
  assumes "ledger_inv L" and "e \<in> set (ledger_events L)"
  shows "\<exists>r. ledger_append L e n = Inr (r, L) \<and> outcome r = Duplicate \<and> result_stream_version r = stream_version e"
proof -
  from assms(2) obtain s where s: "s \<in> set (l_events L)" "stored s = e" by (auto simp: ledger_events_def)
  with assms(1) have "dict_get (l_idempotency L) (idempotency_key e) = Some s"
    and "event_data_space_id e = ledger_data_space_id L"
    by (auto simp: ledger_inv_idempotency ledger_inv_data_space)
  with s show ?thesis by (simp add: ledger_append_def duplicate_of_def)
qed

lemma ledger_page_law:
  assumes "ledger_inv L" and "0 \<le> a" and "0 < k"
  shows "\<exists>ss. ledger_page L a k = Inr ss \<and> map stored ss = take (nat k) (drop (nat a) (ledger_events L))
    \<and> map cursor ss = [nat a + 1..<nat a + 1 + length ss]"
proof -
  let ?ss = "take (nat k) (drop (nat a) (l_events L))"
  have "map cursor ?ss = take (nat k) (drop (nat a) [1..<length (l_events L) + 1])"
    using ledger_inv_cursors [OF assms(1)] by (simp flip: drop_map take_map)
  also have "\<dots> = [nat a + 1..<nat a + 1 + length ?ss]"
  proof (cases "nat a + nat k \<le> length (l_events L)")
    case True
    moreover from True have "length ?ss = nat k" by simp
    ultimately show ?thesis by (simp add: take_upt)
  next
    case False
    then show ?thesis by (cases "nat a \<le> length (l_events L)") (simp_all add: min_def)
  qed
  finally show ?thesis using assms(2,3)
    by (intro exI [of _ ?ss]) (simp add: ledger_page_def ledger_events_def take_map drop_map)
qed

interpretation memory: event_ledger ledger_append ledger_page ledger_events ledger_inv
proof
  show "\<exists>m. ledger_page L a k = Inl (InvariantViolation m)" if "a < 0 \<or> k \<le> 0" for L :: "'a ledger" and a k
    using that by (auto simp: ledger_page_def)
qed (fact ledger_append_inv ledger_append_events ledger_append_again ledger_page_law)+

section \<open>Blobs\<close>

lemma get_put_blob: "put_blob h L data = (ref, L') \<Longrightarrow> get_blob L' ref = Inr data"
  by (auto simp: put_blob_def get_blob_def Let_def)

lemma get_put_blob_other: "put_blob h L data = (ref, L') \<Longrightarrow> ref' \<noteq> ref \<Longrightarrow> get_blob L' ref' = get_blob L ref'"
  by (auto simp: put_blob_def get_blob_def Let_def)

end
