(* ===== verification/Events.thy ===== *)
theory Events
  imports Agent_Models Evidence_Models Environment_Models Ledger
begin

text \<open>
  The payloads of the events and the way every service writes one. A payload is the
  code's \<^verbatim>\<open>dict[str, Any]\<close>: string keys with JSON values. The JSON of a pydantic model
  (\<^verbatim>\<open>model_dump\<close>, third-party) is the model itself under a constructor of \<open>pval\<close>, and
  \<^verbatim>\<open>model_validate\<close> gives it back when the class's validator accepts it.
\<close>

section \<open>Payload values\<close>

datatype pval =
    PNull
  | PStr string
  | PNat nat
  | PTime time
  | PBool bool
  | PJson string
  | PNode uvsm_node
  | PGrant capability_grant
  | PWork work_item
  | PEdge work_edge
  | PExecution execution
  | PNotification agent_notification
  | PAssignment agent_name_assignment
  | PRegistration agent_identity_registration
  | PReservation budget_reservation
  | PLease effect_lease
  | PApproval effect_approval
  | PFinding s3_star_finding
  | PEvidence completion_evidence
  | PReferenceGrant reference_grant
  | PRoute route_snapshot
  | PGraph current_work_graph_snapshot
  | PReceipt history_import_receipt
  | PAssessment reorientation_assessment
  | PBootstrapCode bootstrap_code_record
  | PBrowserSession browser_session_record
  | POutcome verified_route_outcome
  | PBaseline token_baseline
  | PObservation token_observation
  | PTriggers "investigation_trigger list"
  | PConversation conversation
  | PBinding surface_binding
  | PMessage conversation_message
  | PActions "interface_action list"
  | PUsage interface_pilot_usage
  | PDecision decision
  | PDecisions "decision list"
  | PCommitment commitment
  | PCommitments "commitment list"
  | PMemory node_memory
  | PStrs "string list"
  | PInstance environment_instance
  | PDoc json

type_synonym payload_dict = "(string, pval) dict"
type_synonym kevent = "payload_dict event_envelope"
type_synonym kledger = "payload_dict ledger"

definition opt_str :: "string option \<Rightarrow> pval" where
  "opt_str x = (case x of None \<Rightarrow> PNull | Some s \<Rightarrow> PStr s)"

definition opt_json :: "string option \<Rightarrow> pval" where
  "opt_json x = (case x of None \<Rightarrow> PNull | Some s \<Rightarrow> PJson s)"

text \<open>\<^verbatim>\<open>payload[key]\<close>.\<close>

definition payload_get :: "payload_dict \<Rightarrow> string \<Rightarrow> pval result" where
  "payload_get p key = (case dict_get p key of None \<Rightarrow> Inl (KeyError key) | Some v \<Rightarrow> Inr v)"

text \<open>\<^verbatim>\<open>SomeModel.model_validate(value)\<close>: the right JSON shape, and the validators hold.\<close>

definition model_validate :: "string \<Rightarrow> (pval \<Rightarrow> 'a option) \<Rightarrow> ('a \<Rightarrow> bool) \<Rightarrow> pval \<Rightarrow> 'a result" where
  "model_validate name shape valid v =
     (case shape v of None \<Rightarrow> Inl (ValidationError name)
      | Some x \<Rightarrow> if valid x then Inr x else Inl (ValidationError name))"

fun as_str :: "pval \<Rightarrow> string option" where "as_str (PStr s) = Some s" | "as_str _ = None"
fun as_nat :: "pval \<Rightarrow> nat option" where "as_nat (PNat n) = Some n" | "as_nat _ = None"
fun as_time :: "pval \<Rightarrow> time option" where "as_time (PTime t) = Some t" | "as_time _ = None"
fun as_node :: "pval \<Rightarrow> uvsm_node option" where "as_node (PNode n) = Some n" | "as_node _ = None"
fun as_grant :: "pval \<Rightarrow> capability_grant option" where "as_grant (PGrant n) = Some n" | "as_grant _ = None"
fun as_work :: "pval \<Rightarrow> work_item option" where "as_work (PWork n) = Some n" | "as_work _ = None"
fun as_edge :: "pval \<Rightarrow> work_edge option" where "as_edge (PEdge n) = Some n" | "as_edge _ = None"
fun as_execution :: "pval \<Rightarrow> execution option" where "as_execution (PExecution n) = Some n" | "as_execution _ = None"
fun as_notification :: "pval \<Rightarrow> agent_notification option" where
  "as_notification (PNotification n) = Some n" | "as_notification _ = None"
fun as_assignment :: "pval \<Rightarrow> agent_name_assignment option" where
  "as_assignment (PAssignment n) = Some n" | "as_assignment _ = None"
fun as_registration :: "pval \<Rightarrow> agent_identity_registration option" where
  "as_registration (PRegistration n) = Some n" | "as_registration _ = None"
fun as_reservation :: "pval \<Rightarrow> budget_reservation option" where
  "as_reservation (PReservation n) = Some n" | "as_reservation _ = None"
fun as_lease :: "pval \<Rightarrow> effect_lease option" where "as_lease (PLease n) = Some n" | "as_lease _ = None"
fun as_approval :: "pval \<Rightarrow> effect_approval option" where "as_approval (PApproval n) = Some n" | "as_approval _ = None"
fun as_finding :: "pval \<Rightarrow> s3_star_finding option" where "as_finding (PFinding n) = Some n" | "as_finding _ = None"
fun as_evidence :: "pval \<Rightarrow> completion_evidence option" where
  "as_evidence (PEvidence n) = Some n" | "as_evidence _ = None"
fun as_reference_grant :: "pval \<Rightarrow> reference_grant option" where
  "as_reference_grant (PReferenceGrant n) = Some n" | "as_reference_grant _ = None"
fun as_route :: "pval \<Rightarrow> route_snapshot option" where "as_route (PRoute n) = Some n" | "as_route _ = None"
fun as_graph :: "pval \<Rightarrow> current_work_graph_snapshot option" where "as_graph (PGraph n) = Some n" | "as_graph _ = None"
fun as_receipt :: "pval \<Rightarrow> history_import_receipt option" where "as_receipt (PReceipt n) = Some n" | "as_receipt _ = None"
fun as_assessment :: "pval \<Rightarrow> reorientation_assessment option" where
  "as_assessment (PAssessment n) = Some n" | "as_assessment _ = None"
fun as_bootstrap_code :: "pval \<Rightarrow> bootstrap_code_record option" where
  "as_bootstrap_code (PBootstrapCode n) = Some n" | "as_bootstrap_code _ = None"
fun as_browser_session :: "pval \<Rightarrow> browser_session_record option" where
  "as_browser_session (PBrowserSession n) = Some n" | "as_browser_session _ = None"

fun as_outcome :: "pval \<Rightarrow> verified_route_outcome option" where "as_outcome (POutcome n) = Some n" | "as_outcome _ = None"
fun as_baseline :: "pval \<Rightarrow> token_baseline option" where "as_baseline (PBaseline n) = Some n" | "as_baseline _ = None"
fun as_observation :: "pval \<Rightarrow> token_observation option" where "as_observation (PObservation n) = Some n" | "as_observation _ = None"
fun as_conversation :: "pval \<Rightarrow> conversation option" where "as_conversation (PConversation n) = Some n" | "as_conversation _ = None"
fun as_binding :: "pval \<Rightarrow> surface_binding option" where "as_binding (PBinding n) = Some n" | "as_binding _ = None"
fun as_message :: "pval \<Rightarrow> conversation_message option" where "as_message (PMessage n) = Some n" | "as_message _ = None"
fun as_actions :: "pval \<Rightarrow> (interface_action list) option" where "as_actions (PActions n) = Some n" | "as_actions _ = None"
fun as_decision :: "pval \<Rightarrow> decision option" where "as_decision (PDecision n) = Some n" | "as_decision _ = None"
fun as_decisions :: "pval \<Rightarrow> (decision list) option" where "as_decisions (PDecisions n) = Some n" | "as_decisions _ = None"
fun as_commitment :: "pval \<Rightarrow> commitment option" where "as_commitment (PCommitment n) = Some n" | "as_commitment _ = None"
fun as_commitments :: "pval \<Rightarrow> (commitment list) option" where "as_commitments (PCommitments n) = Some n" | "as_commitments _ = None"
fun as_memory :: "pval \<Rightarrow> node_memory option" where "as_memory (PMemory n) = Some n" | "as_memory _ = None"

lemma payload_get_Cons [simp]:
  "payload_get ((k, v) # p) key = (if k = key then Inr v else payload_get p key)"
  by (simp add: payload_get_def)

lemma model_validate_simps [simp]:
  "shape v = Some x \<Longrightarrow> valid x \<Longrightarrow> model_validate name shape valid v = Inr x"
  by (simp add: model_validate_def)

lemma model_validate_InrD: "model_validate name shape valid v = Inr x \<Longrightarrow> shape v = Some x \<and> valid x"
  by (auto simp: model_validate_def split: option.splits if_splits)

lemma model_validate_mem: "model_validate name shape valid v = Inr x \<Longrightarrow> valid x"
  by (drule model_validate_InrD) simp

section \<open>Stream versions\<close>

text \<open>\<^verbatim>\<open>self._versions.get(stream_id, 0)\<close>.\<close>

definition version_of :: "(string, nat) dict \<Rightarrow> string \<Rightarrow> nat" where
  "version_of vs sid = (case dict_get vs sid of None \<Rightarrow> 0 | Some n \<Rightarrow> n)"

lemma version_of_set [simp]: "version_of (dict_set vs sid n) sid' = (if sid' = sid then n else version_of vs sid')"
  by (simp add: version_of_def)

section \<open>Writing an event\<close>

text \<open>
  The two digests the services compute: SHA-256 as \<^verbatim>\<open>hexdigest\<close> and
  \<^verbatim>\<open>CurrentWorkGraphSnapshot.calculated_sha256\<close>.
\<close>

record hashing =
  sha256 :: "string \<Rightarrow> string"
  graph_sha256 :: "current_work_graph_snapshot \<Rightarrow> string"

text \<open>\<^verbatim>\<open>EventEnvelope(event_id=deterministic_event_id(...), ...)\<close>, with the fields' validation.\<close>

definition make_event ::
  "hashing \<Rightarrow> string \<Rightarrow> string \<Rightarrow> nat \<Rightarrow> string \<Rightarrow> payload_dict \<Rightarrow> time \<Rightarrow> actor_type \<Rightarrow> string option
    \<Rightarrow> string option \<Rightarrow> string option \<Rightarrow> string \<Rightarrow> kevent result" where
  "make_event h ds sid expected ty p t act aid corr caus key =
     bind_result (deterministic_event_id (sha256 h) ds sid key) (\<lambda>eid.
       let e = \<lparr>event_id = eid, event_data_space_id = ds, stream_id = sid, stream_version = expected + 1,
                event_type = ty, occurred_at = t, actor_type = act, actor_id = aid, correlation_id = corr,
                causation_id = caus, idempotency_key = key, payload = p\<rparr>
       in if valid_event_envelope e then Inr e else Inl (ValidationError ''EventEnvelope''))"

text \<open>
  What every service's \<^verbatim>\<open>_record\<close> does: build the envelope at the version the service
  knows, append it expecting that version.
\<close>

definition append_event ::
  "hashing \<Rightarrow> kledger \<Rightarrow> string \<Rightarrow> string \<Rightarrow> nat \<Rightarrow> string \<Rightarrow> payload_dict \<Rightarrow> time \<Rightarrow> actor_type \<Rightarrow> string option
    \<Rightarrow> string option \<Rightarrow> string option \<Rightarrow> string \<Rightarrow> (kevent \<times> append_result \<times> kledger) result" where
  "append_event h L ds sid expected ty p t act aid corr caus key =
     bind_result (make_event h ds sid expected ty p t act aid corr caus key) (\<lambda>e.
       bind_result (ledger_append L e expected) (\<lambda>(r, L'). Inr (e, r, L')))"

lemma make_event_Inr:
  assumes "make_event h ds sid expected ty p t act aid corr caus key = Inr e"
  shows "event_data_space_id e = ds" "stream_id e = sid" "stream_version e = expected + 1" "event_type e = ty"
    "payload e = p" "occurred_at e = t" "actor_type e = act" "actor_id e = aid" "idempotency_key e = key"
    "valid_event_envelope e" "event_id e = ''event:'' @ sha256 h (event_canonical ds sid key)"
  using assms by (auto simp: make_event_def Let_def deterministic_event_id_Inr split: if_splits)

lemma append_event_Inr:
  assumes "append_event h L ds sid expected ty p t act aid corr caus key = Inr (e, r, L')"
  shows "ledger_append L e expected = Inr (r, L')"
    and "make_event h ds sid expected ty p t act aid corr caus key = Inr e"
  using assms by (auto simp: append_event_def)

end
