(* ===== verification/Activation_Service.thy ===== *)
theory Activation_Service
  imports Events
begin

text \<open>
  \<^verbatim>\<open>vsm/activation/service.py\<close>: the fail-closed commissioning state machine of the owner
  Interface Node. The ledger the service shares with the Kernel is passed in and
  returned; each clock reading is an argument. An operation returns the new service
  state and ledger, or the exception, before which nothing has changed.
\<close>

record activation =
  a_data_space_id :: string
  a_state :: activation_state
  import_receipt :: "history_import_receipt option"
  sessions :: "(string, history_session) dict"
  assessment :: "reorientation_assessment option"
  approved_at :: "time option"
  a_stream_id :: string
  a_version :: nat
  import_event_cursor :: nat
  history_query_operations :: "string set"
  history_query_event_ids :: "string set"
  reorientation_pilot_calls :: nat
  reorientation_input_tokens :: int
  reorientation_output_tokens :: int
  reorientation_error :: "string option"
  attempt_in_progress :: bool
  attempt_started_stream_version :: "nat option"
  pending_revision_reason :: "revision_reason option"
  work_graph_snapshot_id :: "string option"
  reorientation_conversation_id :: "string option"
  reorientation_provider_session_id :: "string option"

text \<open>\<^verbatim>\<open>data_space_id.split(':', 1)[-1]\<close>.\<close>

definition after_colon :: "string \<Rightarrow> string" where
  "after_colon s = (case id_rest s of [] \<Rightarrow> s | _ # r \<Rightarrow> r)"

definition init_activation :: "string \<Rightarrow> activation" where
  "init_activation ds = \<lparr>a_data_space_id = ds, a_state = Uncommissioned, import_receipt = None,
     sessions = [], assessment = None, approved_at = None, a_stream_id = ''activation:'' @ after_colon ds,
     a_version = 0, import_event_cursor = 0, history_query_operations = {}, history_query_event_ids = {},
     reorientation_pilot_calls = 0, reorientation_input_tokens = 0, reorientation_output_tokens = 0,
     reorientation_error = None, attempt_in_progress = False, attempt_started_stream_version = None,
     pending_revision_reason = None, work_graph_snapshot_id = None, reorientation_conversation_id = None,
     reorientation_provider_session_id = None\<rparr>"

definition activation_record ::
  "hashing \<Rightarrow> activation \<Rightarrow> kledger \<Rightarrow> time \<Rightarrow> string \<Rightarrow> payload_dict \<Rightarrow> actor_type \<Rightarrow> string option \<Rightarrow> string
    \<Rightarrow> (kevent \<times> nat \<times> activation \<times> kledger) result" where
  "activation_record h a L t ty p act aid key =
     bind_result (append_event h L (a_data_space_id a) (a_stream_id a) (a_version a) ty p t act aid
         (Some (a_stream_id a)) None key) (\<lambda>(e, r, L').
       Inr (e, result_cursor r, a\<lparr>a_version := result_stream_version r\<rparr>, L'))"

definition register_history_import ::
  "hashing \<Rightarrow> activation \<Rightarrow> kledger \<Rightarrow> time \<Rightarrow> history_import_receipt \<Rightarrow> string \<Rightarrow> string \<Rightarrow> string
    \<Rightarrow> (activation \<times> kledger) result" where
  "register_history_import h a L t receipt conversation_id aid key =
     (if \<not> valid_history_import_receipt receipt
      then raise_violation ''HistoryImportReceipt violates the LETHE handoff contract''
      else if a_state a \<noteq> Uncommissioned
      then (if Some receipt = import_receipt a then Inr (a, L)
            else raise_violation ''history import is accepted only while uncommissioned'')
      else if work_graph_snapshot_id a = None
      then raise_violation ''current Work Graph must be imported before history''
      else if conversation_id = [] then raise_violation ''reorientation requires a canonical Conversation''
      else if receipt_data_space_id receipt \<noteq> a_data_space_id a
      then raise_violation ''history import DataSpace mismatch''
      else if source_kind ` set (sources receipt) \<noteq> required_history_source_kinds
      then raise_violation ''history source coverage mismatch''
      else
        (let ss = dict_set_all session_ref [] (receipt_sessions receipt) in
         if length ss \<noteq> session_count receipt
         then raise_violation ''history session identities must be globally unique''
         else bind_result
           (activation_record h a L t ''history_import_verified''
              [(''receipt'', PReceipt receipt), (''reorientation_conversation_id'', PStr conversation_id),
               (''state'', PStr (activation_state_value HistoryImported))] Human (Some aid) key)
           (\<lambda>(_, cur, a', L'). Inr (a'\<lparr>import_receipt := Some receipt,
              reorientation_conversation_id := Some conversation_id, sessions := ss,
              a_state := HistoryImported, import_event_cursor := cur\<rparr>, L'))))"

definition start_event :: "activation \<Rightarrow> (string \<times> payload_dict) result" where
  "start_event a =
     (if attempt_in_progress a then raise_violation ''a reorientation attempt is already in progress''
      else if a_state a = HistoryImported
      then Inr (''reorientation_started'', [(''state'', PStr (activation_state_value ReorientationOnly))])
      else case (a_state a, reorientation_error a, pending_revision_reason a) of
        (ReorientationOnly, Some err, _) \<Rightarrow>
          Inr (''reorientation_retry_started'',
            [(''state'', PStr (activation_state_value ReorientationOnly)), (''retry_reason'', PStr ''failure''),
             (''prior_error_code'', PStr err)])
      | (ReorientationOnly, None, Some reason) \<Rightarrow>
          Inr (''reorientation_revision_retry_started'',
            [(''state'', PStr (activation_state_value ReorientationOnly)),
             (''retry_reason'', PStr ''assessment_revision''),
             (''revision_reason_code'', PStr (revision_reason_value reason))])
      | _ \<Rightarrow> raise_violation ''reorientation requires a verified history import'')"

definition start_reorientation ::
  "hashing \<Rightarrow> activation \<Rightarrow> kledger \<Rightarrow> time \<Rightarrow> string \<Rightarrow> string \<Rightarrow> (activation \<times> kledger) result" where
  "start_reorientation h a L t aid key =
     bind_result (start_event a) (\<lambda>(ty, p).
     bind_result (activation_record h a L t ty p PilotActor (Some aid) key) (\<lambda>(e, _, a', L').
       Inr (a'\<lparr>a_state := ReorientationOnly, reorientation_error := None, pending_revision_reason := None,
              attempt_in_progress := True, attempt_started_stream_version := Some (stream_version e)\<rparr>, L')))"

definition end_attempt :: "activation \<Rightarrow> activation" where
  "end_attempt a = a\<lparr>pending_revision_reason := None, attempt_in_progress := False,
     attempt_started_stream_version := None\<rparr>"

definition record_reorientation_failure ::
  "hashing \<Rightarrow> activation \<Rightarrow> kledger \<Rightarrow> time \<Rightarrow> string \<Rightarrow> string \<Rightarrow> string \<Rightarrow> (activation \<times> kledger) result" where
  "record_reorientation_failure h a L t error_code aid key =
     (if a_state a \<noteq> ReorientationOnly
      then raise_violation ''reorientation failure requires reorientation-only state''
      else if \<not> attempt_in_progress a
      then raise_violation ''reorientation failure requires an attempt in progress''
      else bind_result
        (activation_record h a L t ''reorientation_failed'' [(''error_code'', PStr error_code)] SystemActor (Some aid) key)
        (\<lambda>(_, _, a', L'). Inr (end_attempt (a'\<lparr>reorientation_error := Some error_code\<rparr>), L')))"

definition interrupt_reorientation_attempt ::
  "hashing \<Rightarrow> activation \<Rightarrow> kledger \<Rightarrow> time \<Rightarrow> string \<Rightarrow> string \<Rightarrow> string \<Rightarrow> (activation \<times> kledger) result" where
  "interrupt_reorientation_attempt h a L t reason_code aid key =
     (if a_state a \<noteq> ReorientationOnly
      then raise_violation ''reorientation interruption requires reorientation-only state''
      else if \<not> attempt_in_progress a
      then raise_violation ''reorientation interruption requires an attempt in progress''
      else case enum_of_value interruption_reason_value interruption_reasons reason_code of
        Inl _ \<Rightarrow> raise_violation ''reorientation interruption reason code is not allowed''
      | Inr reason \<Rightarrow> bind_result
        (activation_record h a L t ''reorientation_attempt_interrupted''
           [(''reason_code'', PStr (interruption_reason_value reason))] SystemActor (Some aid) key)
        (\<lambda>(_, _, a', L').
          Inr (end_attempt (a'\<lparr>reorientation_error := Some (interruption_reason_value reason)\<rparr>), L')))"

definition record_reorientation_session_checkpoint ::
  "hashing \<Rightarrow> activation \<Rightarrow> kledger \<Rightarrow> time \<Rightarrow> string \<Rightarrow> string \<Rightarrow> string \<Rightarrow> (activation \<times> kledger) result" where
  "record_reorientation_session_checkpoint h a L t session aid key =
     (if a_state a \<noteq> ReorientationOnly
      then raise_violation ''reorientation session checkpoint requires reorientation-only state''
      else if \<not> attempt_in_progress a
      then raise_violation ''reorientation session checkpoint requires an attempt in progress''
      else if session = []
      then raise_violation ''reorientation session checkpoint requires a provider session''
      else bind_result
        (activation_record h a L t ''reorientation_session_checkpointed''
           [(''provider_session_id'', PStr session)] PilotActor (Some aid) key)
        (\<lambda>(_, _, a', L'). Inr (a'\<lparr>reorientation_provider_session_id := Some session\<rparr>, L')))"

text \<open>The claims an assessment must cite: the understanding, each mission, each decision.\<close>

definition required_claims :: "reorientation_assessment \<Rightarrow> string list" where
  "required_claims s = ''understanding''
     # map (\<lambda>i. ''active_missions:'' @ decimal i) [0..<length (active_missions s)]
     @ map (\<lambda>i. ''decisions_and_constraints:'' @ decimal i) [0..<length (decisions_and_constraints s)]"

definition check_assessment ::
  "activation \<Rightarrow> reorientation_assessment \<Rightarrow> string list \<Rightarrow> string list \<Rightarrow> bool \<Rightarrow> unit result" where
  "check_assessment a s commitment_ids existing_work_item_ids listed_to_end =
     (if a_state a \<noteq> ReorientationOnly then raise_violation ''assessment requires reorientation-only state''
      else if \<not> attempt_in_progress a
      then raise_violation ''assessment requires a reorientation attempt in progress''
      else case import_receipt a of
        None \<Rightarrow> raise_violation ''assessment does not reference the verified import''
      | Some receipt \<Rightarrow>
        (if import_id s \<noteq> inventory_id receipt
         then raise_violation ''assessment does not reference the verified import''
         else if Some (assessment_conversation_id s) \<noteq> reorientation_conversation_id a
         then raise_violation ''assessment does not reference the imported canonical Conversation''
         else if covered_session_index_ref s \<noteq> session_index_ref receipt
         then raise_violation ''assessment session index differs from verified import''
         else if covered_session_count s \<noteq> session_count receipt
         then raise_violation ''assessment session count differs from verified import''
         else if \<not> listed_to_end
         then raise_violation ''assessment requires a complete list_sessions traversal''
         else if set (open_commitment_ids s) \<noteq> set commitment_ids
         then raise_violation ''assessment open commitments are incomplete or stale''
         else if existing_work_item_ids \<noteq> [] \<and> resume_work_item_ids s = []
         then raise_violation ''assessment must select at least one current WorkItem for resume''
         else if \<not> set (resume_work_item_ids s) \<subseteq> set existing_work_item_ids
         then raise_violation ''assessment references an unknown resume WorkItem''
         else if history_cursor s < import_event_cursor a
         then raise_violation ''assessment history cursor predates verified import''
         else if current_state_cursor s < history_cursor s
         then raise_violation ''current state must be read after history''
         else if ''get_current_state'' \<notin> history_query_operations a
         then raise_violation ''assessment requires a current-state history query''
         else if \<not> set (required_claims s) \<subseteq> claim_ref ` set (citations s)
         then raise_violation ''assessment contains claims without evidence citations''
         else if \<exists>c \<in> set (citations s). evidence_ref c \<notin> history_query_event_ids a
         then raise_violation ''assessment citations must reference audited history query results''
         else Inr ()))"

definition submit_assessment ::
  "hashing \<Rightarrow> activation \<Rightarrow> kledger \<Rightarrow> time \<Rightarrow> reorientation_assessment \<Rightarrow> string list \<Rightarrow> string list \<Rightarrow> bool
    \<Rightarrow> string \<Rightarrow> string \<Rightarrow> (activation \<times> kledger) result" where
  "submit_assessment h a L t s commitment_ids existing_work_item_ids listed_to_end aid key =
     bind_result (check_assessment a s commitment_ids existing_work_item_ids listed_to_end) (\<lambda>_.
     bind_result
       (activation_record h a L t ''reorientation_assessment_accepted''
          [(''assessment'', PAssessment s), (''state'', PStr (activation_state_value AwaitingOwnerConfirmation))]
          PilotActor (Some aid) key)
       (\<lambda>(_, _, a', L').
         Inr (end_attempt (a'\<lparr>assessment := Some s, a_state := AwaitingOwnerConfirmation\<rparr>), L')))"

definition request_assessment_revision ::
  "hashing \<Rightarrow> activation \<Rightarrow> kledger \<Rightarrow> time \<Rightarrow> string \<Rightarrow> string \<Rightarrow> string \<Rightarrow> string \<Rightarrow> (activation \<times> kledger) result" where
  "request_assessment_revision h a L t reason_code requested_by aid key =
     (if a_state a \<noteq> AwaitingOwnerConfirmation
      then raise_violation ''assessment revision requires awaiting-owner-confirmation state''
      else case assessment a of
        None \<Rightarrow> raise_violation ''assessment revision requires an accepted assessment''
      | Some s \<Rightarrow>
        (case enum_of_value revision_reason_value revision_reasons reason_code of
           Inl _ \<Rightarrow> raise_violation ''assessment revision reason code is not allowed''
         | Inr reason \<Rightarrow>
           (if requested_by \<notin> {''owner'', ''system''}
            then raise_violation ''assessment revision requester must be owner or system''
            else bind_result
              (activation_record h a L t ''reorientation_assessment_revision_requested''
                 [(''prior_assessment_id'', PStr (assessment_id s)),
                  (''reason_code'', PStr (revision_reason_value reason)),
                  (''state'', PStr (activation_state_value ReorientationOnly))]
                 (if requested_by = ''owner'' then Human else SystemActor) (Some aid) key)
              (\<lambda>(_, _, a', L'). Inr (a'\<lparr>assessment := None, reorientation_error := None,
                 pending_revision_reason := Some reason, attempt_in_progress := False,
                 attempt_started_stream_version := None, a_state := ReorientationOnly\<rparr>, L')))))"

definition approve_activation ::
  "hashing \<Rightarrow> activation \<Rightarrow> kledger \<Rightarrow> time \<Rightarrow> time \<Rightarrow> string \<Rightarrow> string \<Rightarrow> string \<Rightarrow> (activation \<times> kledger) result" where
  "approve_activation h a L approved t aid_assessment aid key =
     (if a_state a \<noteq> AwaitingOwnerConfirmation
      then raise_violation ''activation requires owner confirmation''
      else if map_option assessment_id (assessment a) \<noteq> Some aid_assessment
      then raise_violation ''owner confirmation references unknown assessment''
      else bind_result
        (activation_record h a L t ''activation_approved''
           [(''assessment_id'', PStr aid_assessment), (''approved_at'', PTime approved),
            (''state'', PStr (activation_state_value Active))] Human (Some aid) key)
        (\<lambda>(_, _, a', L'). Inr (a'\<lparr>approved_at := Some approved, a_state := Active\<rparr>, L')))"

definition require_active :: "activation \<Rightarrow> string \<Rightarrow> unit result" where
  "require_active a attempted =
     (if a_state a \<noteq> Active
      then raise_violation (attempted @ '' is forbidden before owner-confirmed activation (state=''
             @ activation_state_value (a_state a) @ '')'')
      else Inr ())"

record activation_status =
  status_state :: activation_state
  status_import_receipt :: "history_import_receipt option"
  status_assessment :: "reorientation_assessment option"
  status_approved_at :: "time option"
  status_model_calls :: nat
  status_attempt_in_progress :: bool
  status_pending_revision_reason :: "revision_reason option"
  status_pilot_calls :: nat
  status_input_tokens :: int
  status_output_tokens :: int
  status_error :: "string option"
  status_work_graph_snapshot_id :: "string option"
  status_conversation_id :: "string option"

definition status :: "activation \<Rightarrow> activation_status" where
  "status a = \<lparr>status_state = a_state a, status_import_receipt = import_receipt a,
     status_assessment = assessment a, status_approved_at = approved_at a, status_model_calls = 0,
     status_attempt_in_progress = attempt_in_progress a,
     status_pending_revision_reason = pending_revision_reason a,
     status_pilot_calls = reorientation_pilot_calls a, status_input_tokens = reorientation_input_tokens a,
     status_output_tokens = reorientation_output_tokens a, status_error = reorientation_error a,
     status_work_graph_snapshot_id = work_graph_snapshot_id a,
     status_conversation_id = reorientation_conversation_id a\<rparr>"

definition record_reorientation_usage ::
  "hashing \<Rightarrow> activation \<Rightarrow> kledger \<Rightarrow> time \<Rightarrow> int \<Rightarrow> int \<Rightarrow> string \<Rightarrow> string \<Rightarrow> (activation \<times> kledger) result" where
  "record_reorientation_usage h a L t input_tokens output_tokens aid key =
     (if input_tokens < 0 \<or> output_tokens < 0
      then raise_violation ''reorientation token usage cannot be negative''
      else if a_state a \<noteq> ReorientationOnly \<or> \<not> attempt_in_progress a
      then raise_violation ''reorientation usage requires an attempt in progress''
      else bind_result
        (activation_record h a L t ''reorientation_pilot_usage_recorded''
           [(''input_tokens'', PNat (nat input_tokens)), (''output_tokens'', PNat (nat output_tokens))]
           PilotActor (Some aid) key)
        (\<lambda>(_, _, a', L'). Inr (a'\<lparr>reorientation_pilot_calls := reorientation_pilot_calls a' + 1,
           reorientation_input_tokens := reorientation_input_tokens a' + input_tokens,
           reorientation_output_tokens := reorientation_output_tokens a' + output_tokens\<rparr>, L')))"

end
