(* ===== verification/Owner_Auth.thy ===== *)
theory Owner_Auth
  imports Events
begin

text \<open>
  \<^verbatim>\<open>vsm/auth.py\<close>: one-time owner bootstrap. Random tokens and UUIDs are arguments, as are
  the clock readings; only their digests enter an event. The grant returned to the
  caller is validated after the event is written, so \<open>issue\<close> and \<open>exchange\<close> return the
  new state together with the grant or the late exception.
\<close>

record owner_bootstrap =
  b_data_space_id :: string
  b_owner_id :: string
  codes :: "(string, bootstrap_code_record) dict"
  browser_sessions :: "(string, browser_session_record) dict"
  b_stream_id :: string
  b_version :: nat

definition init_owner_bootstrap :: "string \<Rightarrow> string \<Rightarrow> owner_bootstrap" where
  "init_owner_bootstrap ds owner = \<lparr>b_data_space_id = ds, b_owner_id = owner, codes = [],
     browser_sessions = [],
     b_stream_id = ''owner-auth:'' @ (case id_rest ds of [] \<Rightarrow> ds | _ # r \<Rightarrow> r), b_version = 0\<rparr>"

record owner_bootstrap_grant =
  grant_bootstrap_id :: string
  grant_code :: string
  grant_link :: string
  bootstrap_grant_expires_at :: time

record owner_session_grant =
  session_token :: string
  grant_device_id :: string
  session_grant_expires_at :: time

definition commissioned :: "activation_state \<Rightarrow> bool \<Rightarrow> unit result" where
  "commissioned state owner_node_exists =
     (if state = Uncommissioned \<or> \<not> owner_node_exists
      then raise_violation ''owner bootstrap requires commissioned history and owner node''
      else Inr ())"

definition auth_record ::
  "hashing \<Rightarrow> owner_bootstrap \<Rightarrow> kledger \<Rightarrow> time \<Rightarrow> string \<Rightarrow> payload_dict \<Rightarrow> string
    \<Rightarrow> (owner_bootstrap \<times> kledger) result" where
  "auth_record h b L t ty p key =
     bind_result (append_event h L (b_data_space_id b) (b_stream_id b) (b_version b) ty p t SystemActor None
         (Some (b_stream_id b)) None key) (\<lambda>(_, r, L').
       Inr (b\<lparr>b_version := result_stream_version r\<rparr>, L'))"

text \<open>\<^verbatim>\<open>f"{base_url.rstrip('/')}/owner-bootstrap?code={code}"\<close>.\<close>

definition bootstrap_link :: "string \<Rightarrow> string \<Rightarrow> string" where
  "bootstrap_link base_url code =
     rev (dropWhile (\<lambda>c. c = CHR ''/'') (rev base_url)) @ ''/owner-bootstrap?code='' @ code"

definition issue ::
  "hashing \<Rightarrow> owner_bootstrap \<Rightarrow> kledger \<Rightarrow> activation_state \<Rightarrow> bool \<Rightarrow> string \<Rightarrow> int \<Rightarrow> string
    \<Rightarrow> string \<Rightarrow> string \<Rightarrow> time \<Rightarrow> time \<Rightarrow> (owner_bootstrap_grant result \<times> owner_bootstrap \<times> kledger) result" where
  "issue h b L state owner_node_exists base_url lifetime key code uuid now t =
     bind_result (commissioned state owner_node_exists) (\<lambda>_.
     if lifetime \<le> 0 \<or> 900 < lifetime then raise_violation ''bootstrap lifetime must be 1..900 seconds''
     else bind_result (new_id ''bootstrap'' uuid) (\<lambda>bid.
       let r = \<lparr>bootstrap_id = bid, code_owner_id = b_owner_id b, code_sha256 = sha256 h code,
                code_issued_at = now, code_expires_at = now + lifetime * 1000000, used_at = None\<rparr> in
       if \<not> valid_bootstrap_code_record r then Inl (ValidationError ''BootstrapCodeRecord'')
       else bind_result (auth_record h b L t ''owner_bootstrap_issued'' [(''record'', PBootstrapCode r)] key)
         (\<lambda>(b', L').
           (let b'' = b'\<lparr>codes := dict_set (codes b') bid r\<rparr>;
                link = bootstrap_link base_url code
            in Inr (if non_blank code \<and> non_blank link
                    then Inr \<lparr>grant_bootstrap_id = bid, grant_code = code, grant_link = link,
                             bootstrap_grant_expires_at = code_expires_at r\<rparr>
                    else Inl (ValidationError ''OwnerBootstrapGrant''), b'', L')))))"

definition exchange ::
  "hashing \<Rightarrow> owner_bootstrap \<Rightarrow> kledger \<Rightarrow> activation_state \<Rightarrow> bool \<Rightarrow> string \<Rightarrow> string \<Rightarrow> int \<Rightarrow> string
    \<Rightarrow> string \<Rightarrow> string \<Rightarrow> time \<Rightarrow> time \<Rightarrow> (owner_session_grant result \<times> owner_bootstrap \<times> kledger) result" where
  "exchange h b L state owner_node_exists code device_id lifetime key token uuid now t =
     bind_result (commissioned state owner_node_exists) (\<lambda>_.
     if py_strip device_id = [] then raise_violation ''owner browser device_id is required''
     else if lifetime \<le> 0 then raise_violation ''owner session lifetime must be positive''
     else case find (\<lambda>r. code_sha256 r = sha256 h code) (dict_values (codes b)) of
       None \<Rightarrow> raise_violation ''owner bootstrap code is invalid''
     | Some r \<Rightarrow>
       (if code_owner_id r \<noteq> b_owner_id b then raise_violation ''owner bootstrap code is invalid''
        else if used_at r \<noteq> None then raise_violation ''owner bootstrap code was already used''
        else if code_expires_at r \<le> now then raise_violation ''owner bootstrap code expired''
        else bind_result (new_id ''owner-session'' uuid) (\<lambda>sid.
          let s = \<lparr>session_id = sid, session_owner_id = b_owner_id b, session_device_id = device_id,
                   token_sha256 = sha256 h token, session_issued_at = now,
                   session_expires_at = now + lifetime * 1000000, session_active = True\<rparr> in
          if \<not> valid_browser_session_record s then Inl (ValidationError ''BrowserSessionRecord'')
          else bind_result
            (auth_record h b L t ''owner_bootstrap_exchanged''
               [(''bootstrap_id'', PStr (bootstrap_id r)), (''used_at'', PTime now), (''session'', PBrowserSession s)] key)
            (\<lambda>(b', L').
              Inr (if non_blank token
                   then Inr \<lparr>session_token = token, grant_device_id = device_id,
                            session_grant_expires_at = session_expires_at s\<rparr>
                   else Inl (ValidationError ''OwnerSessionGrant''),
                b'\<lparr>codes := dict_set (codes b') (bootstrap_id r) (r\<lparr>used_at := Some now\<rparr>),
                   browser_sessions := dict_set (browser_sessions b') sid s\<rparr>, L')))))"

definition authenticate :: "hashing \<Rightarrow> owner_bootstrap \<Rightarrow> string \<Rightarrow> time \<Rightarrow> string result" where
  "authenticate h b token now =
     (case find (\<lambda>s. token_sha256 s = sha256 h token) (dict_values (browser_sessions b)) of
        None \<Rightarrow> raise_violation ''owner browser session is invalid or expired''
      | Some s \<Rightarrow>
        (if session_owner_id s \<noteq> b_owner_id b \<or> \<not> session_active s \<or> session_expires_at s \<le> now
         then raise_violation ''owner browser session is invalid or expired''
         else Inr (session_device_id s)))"

end
