(* ===== verification/Kernel_State.thy ===== *)
theory Kernel_State
  imports Activation_Service Owner_Auth
begin

text \<open>
  The state of \<^verbatim>\<open>Kernel\<close> (\<^verbatim>\<open>vsm/kernel/service.py\<close>): its dictionaries, the stream versions
  it knows, the ledger it writes to and the two services it owns. The Kernel, the
  activation service and the owner bootstrap share one ledger object, here the field
  \<open>k_ledger\<close>. \<open>kernel_record\<close> is \<^verbatim>\<open>Kernel._record\<close>.
\<close>

record kernel =
  k_data_space :: data_space
  k_ledger :: kledger
  k_audit_policy :: audit_policy
  k_control_policy :: control_policy
  k_activation :: activation
  k_owner_bootstrap :: owner_bootstrap
  k_nodes :: "(string, uvsm_node) dict"
  k_work_items :: "(string, work_item) dict"
  k_work_edges :: "work_edge list"
  k_executions :: "(string, execution) dict"
  k_assignments :: "(string, agent_name_assignment) dict"
  k_registrations :: "(string, agent_identity_registration) dict"
  k_notifications :: "(string, agent_notification) dict"
  k_capability_grants :: "(string, capability_grant) dict"
  k_effect_leases :: "(string, effect_lease) dict"
  k_effect_approvals :: "(string, effect_approval) dict"
  k_reference_grants :: "(string, reference_grant) dict"
  k_budget_reservations :: "(string, budget_reservation) dict"
  k_findings :: "(string, s3_star_finding) dict"
  k_route_snapshots :: "(string, route_snapshot) dict"
  k_versions :: "(string, nat) dict"

definition fresh_kernel :: "data_space \<Rightarrow> kledger \<Rightarrow> audit_policy \<Rightarrow> control_policy \<Rightarrow> kernel" where
  "fresh_kernel ds L ap cp = \<lparr>k_data_space = ds, k_ledger = L, k_audit_policy = ap, k_control_policy = cp,
     k_activation = init_activation (data_space_id ds),
     k_owner_bootstrap = init_owner_bootstrap (data_space_id ds) (owner_id ds),
     k_nodes = [], k_work_items = [], k_work_edges = [], k_executions = [], k_assignments = [],
     k_registrations = [], k_notifications = [], k_capability_grants = [], k_effect_leases = [],
     k_effect_approvals = [], k_reference_grants = [], k_budget_reservations = [], k_findings = [],
     k_route_snapshots = [], k_versions = []\<rparr>"

definition init_kernel :: "data_space \<Rightarrow> kledger \<Rightarrow> audit_policy \<Rightarrow> control_policy \<Rightarrow> kernel result" where
  "init_kernel ds L ap cp =
     (if audit_data_space_id ap \<noteq> data_space_id ds then raise_violation ''AuditPolicy DataSpace mismatch''
      else if control_data_space_id cp \<noteq> data_space_id ds then raise_violation ''ControlPolicy DataSpace mismatch''
      else Inr (fresh_kernel ds L ap cp))"

text \<open>The callback \<^verbatim>\<open>owner_node_exists\<close> the Kernel gives to the owner bootstrap.\<close>

definition owner_node_exists :: "kernel \<Rightarrow> bool" where
  "owner_node_exists k \<longleftrightarrow>
     list_ex (\<lambda>n. node_owner_id n = owner_id (k_data_space k) \<and> node_kind n = Interface) (dict_values (k_nodes k))"

definition kernel_record ::
  "hashing \<Rightarrow> kernel \<Rightarrow> time \<Rightarrow> string \<Rightarrow> string \<Rightarrow> payload_dict \<Rightarrow> actor_type \<Rightarrow> string option \<Rightarrow> string
    \<Rightarrow> string option \<Rightarrow> string option \<Rightarrow> (kevent \<times> kernel) result" where
  "kernel_record h k t sid ty p act aid key corr caus =
     bind_result (append_event h (k_ledger k) (data_space_id (k_data_space k)) sid (version_of (k_versions k) sid)
         ty p t act aid corr caus key) (\<lambda>(e, r, L').
       Inr (e, k\<lparr>k_ledger := L', k_versions := dict_set (k_versions k) sid (result_stream_version r)\<rparr>))"

text \<open>Most operations change the views after the event is in the ledger.\<close>

definition then_update :: "(kevent \<times> kernel) result \<Rightarrow> (kevent \<Rightarrow> kernel \<Rightarrow> kernel) \<Rightarrow> (kevent \<times> kernel) result" where
  "then_update r f = bind_result r (\<lambda>(e, k). Inr (e, f e k))"

lemma version_of_Nil [simp]: "version_of [] sid = 0"
  by (simp add: version_of_def)

lemma then_update_Inr [simp]:
  "then_update r f = Inr (e, k') \<longleftrightarrow> (\<exists>k. r = Inr (e, k) \<and> k' = f e k)"
  by (auto simp: then_update_def)

lemma then_update_raise [simp]: "then_update (raise_violation m) f = raise_violation m"
  by (simp add: then_update_def)

end
