(* ===== verification/Kernel_Work.thy ===== *)
theory Kernel_Work
  imports Kernel_State
begin

text \<open>
  Node tree and work graph operations of \<^verbatim>\<open>Kernel\<close>: registering nodes, creating,
  delegating, resuming, stopping and completing WorkItems, dependencies with the cycle
  search, the one-off import of a work graph, S3* findings and their acceptance. Each
  definition keeps the method's guards in order; an operation returns the event and
  the new Kernel.
\<close>

section \<open>Nodes\<close>

definition register_node ::
  "hashing \<Rightarrow> kernel \<Rightarrow> time \<Rightarrow> uvsm_node \<Rightarrow> string \<Rightarrow> string \<Rightarrow> (kevent \<times> kernel) result" where
  "register_node h k t n aid key =
     (if node_data_space_id n \<noteq> data_space_id (k_data_space k) then raise_violation ''UVSMNode DataSpace mismatch''
      else if dict_mem (node_id n) (k_nodes k) then raise_violation (''UVSMNode already exists: '' @ node_id n)
      else bind_result
        (case node_parent_id n of
           None \<Rightarrow> Inr ()
         | Some pid \<Rightarrow>
           (case dict_get (k_nodes k) pid of
              None \<Rightarrow> raise_violation (''parent UVSMNode not found: '' @ pid)
            | Some parent \<Rightarrow>
              (if node_data_space_id parent \<noteq> node_data_space_id n
               then raise_violation ''a Node Tree cannot cross a DataSpace'' else Inr ())))
        (\<lambda>_. then_update
          (kernel_record h k t (node_id n) ''node_registered'' [(''node'', PNode n)] Human (Some aid) key
             (Some (node_id n)) None)
          (\<lambda>_ k'. k'\<lparr>k_nodes := dict_set (k_nodes k') (node_id n) n\<rparr>)))"

section \<open>WorkItems\<close>

definition missing_node :: "(string, uvsm_node) dict \<Rightarrow> work_item \<Rightarrow> string option" where
  "missing_node ns w =
     find (\<lambda>nid. \<not> dict_mem nid ns) [owner_node_id w, delegated_to_node_id w, integration_owner_node_id w]"

definition check_new_work_item :: "kernel \<Rightarrow> work_item \<Rightarrow> unit result" where
  "check_new_work_item k w =
     (if work_data_space_id w \<noteq> data_space_id (k_data_space k) then raise_violation ''WorkItem DataSpace mismatch''
      else if work_state w \<notin> {Proposed, Ready} then raise_violation ''new WorkItem must start proposed or ready''
      else if completion_evidence w \<noteq> None \<or> blocking_s3_star_finding_ids w \<noteq> [] \<or> acceptance_criteria w = []
      then raise_violation ''new WorkItem requires acceptance and cannot start completed or blocked''
      else case missing_node (k_nodes k) w of
        Some nid \<Rightarrow> raise_violation (''WorkItem node not found: '' @ nid)
      | None \<Rightarrow>
        (case parent_work_item_id w of
           None \<Rightarrow> Inr ()
         | Some pid \<Rightarrow>
           (case dict_get (k_work_items k) pid of
              None \<Rightarrow> raise_violation (''parent WorkItem not found: '' @ pid)
            | Some parent \<Rightarrow>
              (if integration_owner_node_id parent \<noteq> integration_owner_node_id w
               then raise_violation ''delegated child must retain its parent's integration owner''
               else Inr ()))))"

definition parent_edges :: "work_item \<Rightarrow> work_edge list" where
  "parent_edges w =
     (case parent_work_item_id w of
        None \<Rightarrow> []
      | Some pid \<Rightarrow>
        [\<lparr>source_work_item_id = pid, target_work_item_id = work_item_id w, edge_kind = DelegatedTo\<rparr>,
         \<lparr>source_work_item_id = work_item_id w, target_work_item_id = pid, edge_kind = IntegratedBy\<rparr>])"

definition create_work_item ::
  "hashing \<Rightarrow> kernel \<Rightarrow> time \<Rightarrow> work_item \<Rightarrow> string \<Rightarrow> string \<Rightarrow> (kevent \<times> kernel) result" where
  "create_work_item h k t w aid key =
     bind_result (check_new_work_item k w) (\<lambda>_. then_update
       (kernel_record h k t (work_item_id w) ''work_item_created'' [(''work_item'', PWork w)] Human (Some aid) key
          (Some (work_item_id w)) None)
       (\<lambda>_ k'. k'\<lparr>k_work_items := dict_set (k_work_items k') (work_item_id w) w,
                 k_work_edges := k_work_edges k' @ parent_edges w\<rparr>))"

section \<open>Dependencies\<close>

definition dependency_targets :: "work_edge list \<Rightarrow> string \<Rightarrow> string list" where
  "dependency_targets es current =
     map target_work_item_id (filter (\<lambda>e. source_work_item_id e = current \<and> edge_kind e = DependsOn) es)"

text \<open>All that the search can ever hold: the measure of its termination.\<close>

definition search_universe :: "work_edge list \<Rightarrow> string list \<Rightarrow> string set" where
  "search_universe es pending = set pending \<union> target_work_item_id ` set es"

lemma dependency_targets_universe: "set (dependency_targets es c) \<subseteq> target_work_item_id ` set es"
  by (auto simp: dependency_targets_def)

lemma search_universe_step:
  assumes "pending \<noteq> []"
  shows "search_universe es (butlast pending @ dependency_targets es (last pending)) \<subseteq> search_universe es pending"
    and "search_universe es (butlast pending) \<subseteq> search_universe es pending"
    and "last pending \<in> search_universe es pending"
  using assms dependency_targets_universe [of es "last pending"]
  by (auto simp: search_universe_def dest: in_set_butlastD)

text \<open>
  The search loop: \<open>pending\<close> is used as a stack (\<^verbatim>\<open>pop\<close> takes the last element, \<^verbatim>\<open>extend\<close>
  adds at the end), \<open>visited\<close> as a set. \<^const>\<open>True\<close> is the raise.
\<close>

function dependency_search :: "work_edge list \<Rightarrow> string \<Rightarrow> string list \<Rightarrow> string list \<Rightarrow> bool" where
  "dependency_search es goal pending visited =
     (if pending = [] then False
      else if last pending = goal then True
      else if last pending \<in> set visited then dependency_search es goal (butlast pending) visited
      else dependency_search es goal (butlast pending @ dependency_targets es (last pending))
             (last pending # visited))"
  by pat_completeness auto
termination
proof (relation "measures [\<lambda>(es, goal, pending, visited). card (search_universe es pending - set visited),
                           \<lambda>(es, goal, pending, visited). length pending]")
  fix es :: "work_edge list" and goal :: string and pending visited :: "string list"
  assume p: "pending \<noteq> []"
  have fin: "finite (search_universe es pending - set visited)" by (simp add: search_universe_def)
  show "((es, goal, butlast pending, visited), es, goal, pending, visited)
      \<in> measures [\<lambda>(es, goal, pending, visited). card (search_universe es pending - set visited),
                  \<lambda>(es, goal, pending, visited). length pending]"
  proof -
    have "card (search_universe es (butlast pending) - set visited) \<le> card (search_universe es pending - set visited)"
      by (rule card_mono [OF fin]) (use search_universe_step(2) [OF p] in auto)
    with p show ?thesis by (auto simp: le_less)
  qed
  assume "last pending \<notin> set visited"
  then have "search_universe es (butlast pending @ dependency_targets es (last pending)) - set (last pending # visited)
      \<subset> search_universe es pending - set visited"
    using search_universe_step(1,3) [OF p] by auto
  from psubset_card_mono [OF fin this]
  show "((es, goal, butlast pending @ dependency_targets es (last pending), last pending # visited),
         es, goal, pending, visited)
      \<in> measures [\<lambda>(es, goal, pending, visited). card (search_universe es pending - set visited),
                  \<lambda>(es, goal, pending, visited). length pending]"
    by simp
qed simp

declare dependency_search.simps [simp del]

definition add_dependency ::
  "hashing \<Rightarrow> kernel \<Rightarrow> time \<Rightarrow> string \<Rightarrow> string \<Rightarrow> string \<Rightarrow> string \<Rightarrow> (kevent \<times> kernel) result" where
  "add_dependency h k t wid did aid key =
     (if \<not> dict_mem wid (k_work_items k) \<or> \<not> dict_mem did (k_work_items k)
      then raise_violation ''both WorkItems must exist''
      else if wid = did then raise_violation ''a WorkItem cannot depend on itself''
      else
        (let edge = \<lparr>source_work_item_id = wid, target_work_item_id = did, edge_kind = DependsOn\<rparr> in
         if \<not> valid_work_edge edge then Inl (ValidationError ''WorkEdge'')
         else if edge \<in> set (k_work_edges k) then raise_violation ''dependency already exists''
         else if dependency_search (k_work_edges k) wid [did] []
         then raise_violation ''WorkItem dependency would create a cycle''
         else then_update
           (kernel_record h k t wid ''work_dependency_added'' [(''edge'', PEdge edge)] Human (Some aid) key (Some wid) None)
           (\<lambda>_ k'. k'\<lparr>k_work_edges := k_work_edges k' @ [edge]\<rparr>)))"

section \<open>The imported work graph\<close>

fun check_graph_work_items ::
  "string \<Rightarrow> (string, uvsm_node) dict \<Rightarrow> (string, work_item) dict \<Rightarrow> work_item list \<Rightarrow> unit result" where
  "check_graph_work_items ds ns ws [] = Inr ()"
| "check_graph_work_items ds ns ws (w # rest) =
     (if work_data_space_id w \<noteq> ds then raise_violation ''Work Graph snapshot WorkItem DataSpace mismatch''
      else if missing_node ns w \<noteq> None
      then raise_violation ''Work Graph snapshot WorkItem references an unknown Node''
      else if \<not> option_all (\<lambda>pid. dict_mem pid ws) (parent_work_item_id w)
      then raise_violation ''Work Graph snapshot WorkItem parent is missing''
      else check_graph_work_items ds ns ws rest)"

definition check_work_graph :: "hashing \<Rightarrow> kernel \<Rightarrow> current_work_graph_snapshot \<Rightarrow> unit result" where
  "check_work_graph h k s =
     (let ds = data_space_id (k_data_space k);
          ns = foldl (\<lambda>d (nid, n). dict_set d nid n) (dict_set_all node_id [] (graph_nodes s)) (k_nodes k);
          ws = dict_set_all work_item_id [] (graph_work_items s) in
      if a_state (k_activation k) \<noteq> Uncommissioned
      then raise_violation ''current Work Graph import requires uncommissioned state''
      else if graph_data_space_id s \<noteq> ds then raise_violation ''Work Graph snapshot DataSpace mismatch''
      else if graph_sha256 h s \<noteq> snapshot_sha256 s then raise_violation ''Work Graph snapshot digest mismatch''
      else if \<exists>n \<in> set (graph_nodes s). node_data_space_id n \<noteq> ds
      then raise_violation ''Work Graph snapshot Node DataSpace mismatch''
      else if \<exists>n \<in> set (dict_values (dict_set_all node_id [] (graph_nodes s))).
                dict_mem (node_id n) (k_nodes k) \<and> dict_get (k_nodes k) (node_id n) \<noteq> Some n
      then raise_violation ''Work Graph snapshot Node identity collision''
      else if \<exists>wid \<in> set (map fst ws). dict_mem wid (k_work_items k)
      then raise_violation ''Work Graph snapshot WorkItem identity collision''
      else bind_result (check_graph_work_items ds ns ws (graph_work_items s)) (\<lambda>_.
        if \<exists>e \<in> set (graph_edges s). \<not> dict_mem (source_work_item_id e) ws \<or> \<not> dict_mem (target_work_item_id e) ws
        then raise_violation ''Work Graph snapshot edge references an unknown WorkItem''
        else Inr ()))"

text \<open>Importing the same snapshot again answers with the event of the first import.\<close>

definition reimport_work_graph :: "kernel \<Rightarrow> current_work_graph_snapshot \<Rightarrow> (kevent \<times> kernel) result" where
  "reimport_work_graph k s =
     bind_result (ledger_stream (k_ledger k) (graph_snapshot_id s) 0 1) (\<lambda>events.
       case events of
         [] \<Rightarrow> raise_violation ''imported Work Graph event cannot be reconciled''
       | first # _ \<Rightarrow>
         bind_result (payload_get (payload (stored first)) ''snapshot'') (\<lambda>v.
         bind_result (model_validate ''CurrentWorkGraphSnapshot'' as_graph valid_current_work_graph_snapshot v) (\<lambda>old.
           if old \<noteq> s then raise_violation ''Work Graph snapshot identity collision''
           else Inr (stored first, k))))"

definition import_current_work_graph ::
  "hashing \<Rightarrow> kernel \<Rightarrow> time \<Rightarrow> current_work_graph_snapshot \<Rightarrow> string \<Rightarrow> string \<Rightarrow> (kevent \<times> kernel) result" where
  "import_current_work_graph h k t s aid key =
     (case work_graph_snapshot_id (k_activation k) of
        Some sid \<Rightarrow>
          (if sid = graph_snapshot_id s then reimport_work_graph k s
           else raise_violation ''current Work Graph was already imported'')
      | None \<Rightarrow> bind_result (check_work_graph h k s) (\<lambda>_. then_update
          (kernel_record h k t (graph_snapshot_id s) ''current_work_graph_imported'' [(''snapshot'', PGraph s)]
             Human (Some aid) key (Some (graph_snapshot_id s)) None)
          (\<lambda>_ k'. k'\<lparr>k_nodes := dict_set_all node_id (k_nodes k') (graph_nodes s),
                    k_work_items := dict_set_all work_item_id (k_work_items k') (graph_work_items s),
                    k_work_edges := k_work_edges k' @ graph_edges s,
                    k_activation := (k_activation k')\<lparr>work_graph_snapshot_id := Some (graph_snapshot_id s)\<rparr>\<rparr>)))"

section \<open>Delegation, resume, intervention\<close>

definition set_work :: "kernel \<Rightarrow> work_item \<Rightarrow> kernel" where
  "set_work k w = k\<lparr>k_work_items := dict_set (k_work_items k) (work_item_id w) w\<rparr>"

definition delegate_work_item ::
  "hashing \<Rightarrow> kernel \<Rightarrow> time \<Rightarrow> string \<Rightarrow> string \<Rightarrow> string \<Rightarrow> string \<Rightarrow> (kevent \<times> kernel) result" where
  "delegate_work_item h k t wid nid aid key =
     (case dict_get (k_work_items k) wid of
        None \<Rightarrow> raise_violation ''WorkItem not found''
      | Some w \<Rightarrow>
        (if \<not> dict_mem nid (k_nodes k) then raise_violation ''delegated UVSMNode not found''
         else if work_state w \<notin> {Proposed, Ready}
         then raise_violation ''only proposed or ready WorkItem can be delegated''
         else if \<exists>e \<in> set (dict_values (k_executions k)). exec_work_item_id e = wid
         then raise_violation ''WorkItem with Executions cannot be redelegated''
         else then_update
           (kernel_record h k t wid ''work_item_delegated'' [(''delegated_to_node_id'', PStr nid)] Human (Some aid) key
              (Some wid) None)
           (\<lambda>_ k'. k'\<lparr>k_work_items := dict_set (k_work_items k') wid
                       (w\<lparr>delegated_to_node_id := nid, work_state := Ready\<rparr>)\<rparr>)))"

definition validate_owner_confirmed_resume :: "kernel \<Rightarrow> string \<Rightarrow> work_item result" where
  "validate_owner_confirmed_resume k wid =
     (if a_state (k_activation k) \<noteq> AwaitingOwnerConfirmation
      then raise_violation ''resume preparation requires awaiting owner confirmation''
      else if option_all (\<lambda>s. wid \<notin> set (resume_work_item_ids s)) (assessment (k_activation k))
      then raise_violation ''only assessed resume WorkItems may be prepared''
      else case dict_get (k_work_items k) wid of
        None \<Rightarrow> raise_violation ''resume WorkItem not found''
      | Some w \<Rightarrow>
        (if blocking_s3_star_finding_ids w \<noteq> [] then raise_violation ''blocking S3* finding prevents WorkItem resume''
         else if work_state w \<notin> {Proposed, Ready, WorkPaused}
         then raise_violation ''WorkItem state cannot be resumed after owner confirmation''
         else if \<not> dict_mem (delegated_to_node_id w) (k_nodes k)
         then raise_violation ''resume WorkItem delegated Node not found''
         else Inr w))"

definition prepare_owner_confirmed_resume ::
  "hashing \<Rightarrow> kernel \<Rightarrow> time \<Rightarrow> string \<Rightarrow> string \<Rightarrow> string \<Rightarrow> (kevent \<times> kernel) result" where
  "prepare_owner_confirmed_resume h k t wid aid key =
     bind_result (validate_owner_confirmed_resume k wid) (\<lambda>w. then_update
       (kernel_record h k t wid ''work_item_resume_prepared'' [(''state'', PStr (work_state_value Ready))]
          Human (Some aid) key (Some wid) None)
       (\<lambda>_ k'. k'\<lparr>k_work_items := dict_set (k_work_items k') wid (w\<lparr>work_state := Ready\<rparr>)\<rparr>))"

definition pause_executions :: "(execution \<Rightarrow> bool) \<Rightarrow> string \<Rightarrow> (string, execution) dict \<Rightarrow> (string, execution) dict" where
  "pause_executions p reason d =
     dict_map_if (\<lambda>e. p e \<and> exec_state e = ExecActive)
       (\<lambda>e. e\<lparr>exec_state := ExecPaused, pause_reason := Some reason\<rparr>) d"

definition revoke_leases :: "string \<Rightarrow> (string, effect_lease) dict \<Rightarrow> (string, effect_lease) dict" where
  "revoke_leases wid d =
     dict_map_if (\<lambda>l. lease_work_item_id l = wid \<and> lease_state l \<in> {Planned, LeaseActive})
       (\<lambda>l. l\<lparr>lease_state := LeaseRevoked\<rparr>) d"

definition intervene ::
  "hashing \<Rightarrow> kernel \<Rightarrow> time \<Rightarrow> string \<Rightarrow> string \<Rightarrow> string \<Rightarrow> string \<Rightarrow> (kevent \<times> kernel) result" where
  "intervene h k t wid aid reason key =
     (case dict_get (k_work_items k) wid of
        None \<Rightarrow> raise_violation ''WorkItem not found''
      | Some w \<Rightarrow> then_update
          (kernel_record h k t wid ''human_intervention'' [(''reason'', PStr reason)] Human (Some aid) key (Some wid) None)
          (\<lambda>_ k'. k'\<lparr>k_work_items := dict_set (k_work_items k') wid (w\<lparr>work_state := WorkPaused\<rparr>),
                    k_executions := pause_executions (\<lambda>e. exec_work_item_id e = wid) ''human_intervention'' (k_executions k'),
                    k_effect_leases := revoke_leases wid (k_effect_leases k')\<rparr>))"

section \<open>S3* findings\<close>

definition record_s3_star_finding ::
  "hashing \<Rightarrow> kernel \<Rightarrow> time \<Rightarrow> s3_star_finding \<Rightarrow> string \<Rightarrow> string \<Rightarrow> (kevent \<times> kernel) result" where
  "record_s3_star_finding h k t f aid key =
     (case dict_get (k_work_items k) (finding_work_item_id f) of
        None \<Rightarrow> raise_violation ''S3* finding target does not exist''
      | Some w \<Rightarrow>
        (if \<not> dict_mem (finding_node_id f) (k_nodes k) then raise_violation ''S3* finding target does not exist''
         else if accepted_by_s5 f then raise_violation ''a new S3* finding cannot start accepted''
         else then_update
           (kernel_record h k t (finding_work_item_id f) ''s3_star_finding_recorded'' [(''finding'', PFinding f)]
              SystemActor (Some aid) key (Some (finding_work_item_id f)) None)
           (\<lambda>_ k'. let k'' = k'\<lparr>k_findings := dict_set (k_findings k') (finding_id f) f\<rparr> in
              if severity f = Severe
              then set_work k'' (w\<lparr>work_state := Blocked,
                     blocking_s3_star_finding_ids := blocking_s3_star_finding_ids w @ [finding_id f]\<rparr>)
              else k'')))"

definition remove_blocker :: "string \<Rightarrow> work_item \<Rightarrow> work_item" where
  "remove_blocker fid w =
     (let blockers = filter (\<lambda>b. b \<noteq> fid) (blocking_s3_star_finding_ids w)
      in w\<lparr>work_state := (if blockers = [] then Ready else Blocked), blocking_s3_star_finding_ids := blockers\<rparr>)"

text \<open>
  \<^verbatim>\<open>self.work_items[finding.work_item_id]\<close> is read after the event is written; the Kernel's
  invariant shows that the \<^verbatim>\<open>KeyError\<close> cannot happen.
\<close>

definition accept_s3_star_risk ::
  "hashing \<Rightarrow> kernel \<Rightarrow> time \<Rightarrow> string \<Rightarrow> string \<Rightarrow> string \<Rightarrow> string \<Rightarrow> string \<Rightarrow> (kevent \<times> kernel) result" where
  "accept_s3_star_risk h k t fid s5_node_id aid rationale key =
     (case dict_get (k_findings k) fid of
        None \<Rightarrow> raise_violation ''S3* finding not found''
      | Some f \<Rightarrow>
        (if s5_node_id \<noteq> finding_node_id f then raise_violation ''risk acceptance must come from same-level S5''
         else bind_result
           (kernel_record h k t (finding_work_item_id f) ''s3_star_risk_accepted''
              [(''finding_id'', PStr fid), (''s5_node_id'', PStr s5_node_id), (''rationale'', PStr rationale)]
              Human (Some aid) key (Some (finding_work_item_id f)) None)
           (\<lambda>(e, k'). let k'' = k'\<lparr>k_findings := dict_set (k_findings k') fid (f\<lparr>accepted_by_s5 := True\<rparr>)\<rparr> in
              case dict_get (k_work_items k'') (finding_work_item_id f) of
                None \<Rightarrow> Inl (KeyError (finding_work_item_id f))
              | Some w \<Rightarrow> Inr (e, set_work k'' (remove_blocker fid w)))))"

section \<open>Completion\<close>

definition completion_gate :: "completion_evidence \<Rightarrow> bool" where
  "completion_gate e \<longleftrightarrow> acceptance_satisfied e \<and> required_tests_passed e \<and> blocking_deviations e = []
     \<and> independent_s3_star_gate e \<and> integration_branch_merged e \<and> remote_push_succeeded e"

text \<open>The list comprehension over the edges; a dangling target is a \<^verbatim>\<open>KeyError\<close>.\<close>

fun incomplete_dependencies :: "(string, work_item) dict \<Rightarrow> string \<Rightarrow> work_edge list \<Rightarrow> string list result" where
  "incomplete_dependencies ws wid [] = Inr []"
| "incomplete_dependencies ws wid (e # es) =
     (if source_work_item_id e = wid \<and> edge_kind e = DependsOn
      then (case dict_get ws (target_work_item_id e) of
              None \<Rightarrow> Inl (KeyError (target_work_item_id e))
            | Some d \<Rightarrow> bind_result (incomplete_dependencies ws wid es) (\<lambda>rest.
                Inr (if work_state d \<noteq> Completed then target_work_item_id e # rest else rest)))
      else incomplete_dependencies ws wid es)"

text \<open>\<^verbatim>\<open>', '.join(xs)\<close>.\<close>

fun comma_join :: "string list \<Rightarrow> string" where
  "comma_join [] = []"
| "comma_join [s] = s"
| "comma_join (s # t # ss) = s @ '', '' @ comma_join (t # ss)"

definition complete_work_item ::
  "hashing \<Rightarrow> kernel \<Rightarrow> time \<Rightarrow> string \<Rightarrow> completion_evidence \<Rightarrow> string \<Rightarrow> string \<Rightarrow> (kevent \<times> kernel) result" where
  "complete_work_item h k t wid ev aid key =
     (case dict_get (k_work_items k) wid of
        None \<Rightarrow> raise_violation ''WorkItem not found''
      | Some w \<Rightarrow>
        (if blocking_s3_star_finding_ids w \<noteq> [] then raise_violation ''blocking S3* findings prevent integration''
         else if \<not> completion_gate ev then raise_violation ''completion gate is not satisfied''
         else bind_result (incomplete_dependencies (k_work_items k) wid (k_work_edges k)) (\<lambda>missing.
           if missing \<noteq> []
           then raise_violation (''incomplete dependencies: '' @ comma_join missing)
           else then_update
             (kernel_record h k t wid ''work_item_completed'' [(''completion_evidence'', PEvidence ev)]
                Human (Some aid) key (Some wid) None)
             (\<lambda>_ k'. k'\<lparr>k_work_items := dict_set (k_work_items k') wid
                         (w\<lparr>work_state := Completed, completion_evidence := Some ev\<rparr>)\<rparr>))))"

end
