(* ===== verification/Agent_Naming.thy ===== *)
theory Agent_Naming
  imports Agent_Models
begin

text \<open>
  \<^verbatim>\<open>vsm/agent_naming.py\<close>: the deterministic, collision-free agent-name allocator. The
  Python object's lock makes each method one step; \<^verbatim>\<open>_used_names\<close> is a list read as a
  set. Constructing the assignment can fail after the rotation index has moved, so
  \<open>allocate\<close> returns the registry in either case. The CSV reader is not modelled: the
  registry starts from its rows.
\<close>

section \<open>State\<close>

record name_registry =
  rows :: "agent_name_row list"
  next_index :: "(nat \<times> name_column, nat) dict"
  used_names :: "string list"
  reg_assignments :: "(string, agent_name_assignment) dict"
  reg_registrations :: "(string, agent_identity_registration) dict"

definition init_registry :: "agent_name_row list \<Rightarrow> name_registry result" where
  "init_registry rs =
     (if rs = [] then raise_violation ''Agent_name.csv must contain at least one row''
      else Inr \<lparr>rows = rs, next_index = [], used_names = [], reg_assignments = [], reg_registrations = []\<rparr>)"

datatype provider_family = Claude | Gpt | Other

definition provider_family :: "model_candidate \<Rightarrow> provider_family" where
  "provider_family c =
     (let provider = py_lower (py_strip (candidate_provider c));
          snapshot = py_lower (py_strip (case candidate_model_snapshot c of None \<Rightarrow> [] | Some s \<Rightarrow> s)) in
      if provider \<in> {''anthropic'', ''claude''} \<or> contains ''claude'' snapshot then Claude
      else if provider \<in> {''openai'', ''gpt''} \<or> starts_with ''gpt-'' snapshot then Gpt
      else Other)"

definition scale_for :: "model_candidate \<Rightarrow> nat result" where
  "scale_for c =
     (let model = py_lower (py_strip (case candidate_model_snapshot c of None \<Rightarrow> [] | Some s \<Rightarrow> s)) in
      if model = []
      then raise_violation ''agent name assignment requires a model snapshot to determine model scale''
      else if contains ''sol'' model \<or> contains ''fable'' model then Inr 3
      else if contains ''terra'' model \<or> contains ''opus'' model then Inr 2
      else if contains ''luna'' model \<or> contains ''sonnet'' model \<or> contains ''haiku'' model then Inr 1
      else raise_violation (''agent name assignment cannot determine model scale: ''
             @ (case candidate_model_snapshot c of None \<Rightarrow> ''None'' | Some s \<Rightarrow> s)))"

fun family_column :: "provider_family \<Rightarrow> name_column" where
  "family_column Claude = Japanese"
| "family_column Gpt = English"
| "family_column Other = Latin"

definition name_column_for :: "model_candidate \<Rightarrow> name_column" where
  "name_column_for c = family_column (provider_family c)"

section \<open>Choosing a name\<close>

definition name_pool :: "name_registry \<Rightarrow> nat \<Rightarrow> agent_name_row list" where
  "name_pool R scale = filter (\<lambda>r. row_scale r = scale \<and> is_eligible r \<and> \<not> is_reserved r) (rows R)"

text \<open>\<^verbatim>\<open>while agent_name in self._used_names: suffix += 1\<close>.\<close>

lemma suffixed_inject: "suffixed b m = suffixed b n \<longleftrightarrow> m = n"
  by (auto simp: suffixed_def)

lemma finite_used_suffixes: "finite {m. n \<le> m \<and> suffixed b m \<in> set used}"
proof (rule finite_subset)
  show "{m. n \<le> m \<and> suffixed b m \<in> set used} \<subseteq> suffixed b -` set used" by auto
  show "finite (suffixed b -` set used)"
    by (rule finite_vimageI) (auto simp: inj_def suffixed_inject)
qed

function free_suffix :: "string \<Rightarrow> string list \<Rightarrow> nat \<Rightarrow> nat" where
  "free_suffix base used n = (if suffixed base n \<in> set used then free_suffix base used (n + 1) else n)"
  by pat_completeness auto
termination
proof (relation "measure (\<lambda>(base, used, n). card {m. n \<le> m \<and> suffixed base m \<in> set used})")
  fix base n and used :: "string list"
  assume used: "suffixed base n \<in> set used"
  have "{m. n + 1 \<le> m \<and> suffixed base m \<in> set used} \<subset> {m. n \<le> m \<and> suffixed base m \<in> set used}"
  proof (rule psubsetI)
    have "n \<in> {m. n \<le> m \<and> suffixed base m \<in> set used}" using used by simp
    moreover have "n \<notin> {m. n + 1 \<le> m \<and> suffixed base m \<in> set used}" by simp
    ultimately show "{m. n + 1 \<le> m \<and> suffixed base m \<in> set used} \<noteq> {m. n \<le> m \<and> suffixed base m \<in> set used}"
      by blast
  qed auto
  then show "((base, used, n + 1), base, used, n)
      \<in> measure (\<lambda>(base, used, n). card {m. n \<le> m \<and> suffixed base m \<in> set used})"
    by (simp add: psubset_card_mono finite_used_suffixes)
qed simp

declare free_suffix.simps [simp del]

definition index_of :: "name_registry \<Rightarrow> nat \<Rightarrow> name_column \<Rightarrow> nat" where
  "index_of R scale col = (case dict_get (next_index R) (scale, col) of None \<Rightarrow> 0 | Some i \<Rightarrow> i)"

definition next_name ::
  "name_registry \<Rightarrow> nat \<Rightarrow> name_column \<Rightarrow> agent_name_row list \<Rightarrow> (string \<times> nat \<times> string) \<times> name_registry" where
  "next_name R scale col pool =
     (let start = index_of R scale col mod length pool;
          candidates = map (\<lambda>offset. (start + offset) mod length pool) [0..<length pool];
          selected_index =
            (case find (\<lambda>i. name_for (pool ! i) col \<notin> set (used_names R)) candidates of
               None \<Rightarrow> start | Some i \<Rightarrow> i);
          base_name = name_for (pool ! selected_index) col;
          suffix = free_suffix base_name (used_names R) 1
      in ((base_name, suffix, suffixed base_name suffix),
          R\<lparr>next_index := dict_set (next_index R) (scale, col) (selected_index + 1)\<rparr>))"

section \<open>Allocation and restoration\<close>

definition allocate ::
  "name_registry \<Rightarrow> string \<Rightarrow> string \<Rightarrow> string \<Rightarrow> string \<Rightarrow> string \<Rightarrow> string \<Rightarrow> model_candidate
    \<Rightarrow> agent_name_assignment result \<times> name_registry" where
  "allocate R aid ds wid eid nid pid c =
     (case scale_for c of Inl e \<Rightarrow> (Inl e, R)
      | Inr scale \<Rightarrow>
        (let col = name_column_for c; pool = name_pool R scale in
         if pool = [] then (raise_violation (''Agent_name.csv has no eligible names for scale '' @ decimal scale
             @ '' and column '' @ name_column_value col), R)
         else if dict_mem aid (reg_assignments R)
         then (raise_violation (''agent-name assignment already exists: '' @ aid), R)
         else (let ((base_name, suffix, agent_name), R') = next_name R scale col pool;
                   a = \<lparr>assignment_id = aid, assignment_data_space_id = ds, assignment_work_item_id = wid,
                        assignment_execution_id = eid, assignment_node_id = nid, assignment_pilot_id = pid,
                        assignment_agent_name = agent_name, assignment_base_name = base_name,
                        assignment_suffix = suffix, assignment_name_column = col, assignment_scale = scale,
                        assignment_provider = candidate_provider c, assignment_candidate_key = candidate_key c\<rparr>
               in if \<not> valid_agent_name_assignment a then (Inl (ValidationError ''AgentNameAssignment''), R')
                  else (Inr a, R'\<lparr>reg_assignments := dict_set (reg_assignments R') aid a,
                                  used_names := agent_name # used_names R'\<rparr>))))"

definition allocate_out_of_pipeline ::
  "name_registry \<Rightarrow> string \<Rightarrow> string \<Rightarrow> string \<Rightarrow> string \<Rightarrow> model_candidate
    \<Rightarrow> agent_identity_registration result \<times> name_registry" where
  "allocate_out_of_pipeline R rid ds nid pid c =
     (case scale_for c of Inl e \<Rightarrow> (Inl e, R)
      | Inr scale \<Rightarrow>
        (let col = name_column_for c; pool = name_pool R scale in
         if pool = [] then (raise_violation (''Agent_name.csv has no eligible names for scale '' @ decimal scale
             @ '' and column '' @ name_column_value col), R)
         else if dict_mem rid (reg_registrations R)
         then (raise_violation (''agent identity registration already exists: '' @ rid), R)
         else if dict_mem rid (reg_assignments R)
         then (raise_violation (''registration id collides with an agent-name assignment: '' @ rid), R)
         else (let ((base_name, suffix, agent_name), R') = next_name R scale col pool;
                   a = \<lparr>registration_id = rid, registration_data_space_id = ds, registration_node_id = nid,
                        registration_pilot_id = pid, registration_agent_name = agent_name,
                        registration_base_name = base_name, registration_suffix = suffix,
                        registration_name_column = col, registration_scale = scale,
                        registration_provider = candidate_provider c, registration_candidate_key = candidate_key c\<rparr>
               in if \<not> valid_agent_identity_registration a
                  then (Inl (ValidationError ''AgentIdentityRegistration''), R')
                  else (Inr a, R'\<lparr>reg_registrations := dict_set (reg_registrations R') rid a,
                                  used_names := agent_name # used_names R'\<rparr>))))"

definition resolve_eligible_row ::
  "name_registry \<Rightarrow> nat \<Rightarrow> name_column \<Rightarrow> string \<Rightarrow> string \<Rightarrow> string \<Rightarrow> agent_name_row result" where
  "resolve_eligible_row R scale col base_name not_present forbidden =
     (case filter (\<lambda>r. row_scale r = scale \<and> name_for r col = base_name) (rows R) of
        [] \<Rightarrow> raise_violation (not_present @ base_name)
      | r # rs \<Rightarrow>
        (case filter (\<lambda>r. is_eligible r \<and> \<not> is_reserved r) (r # rs) of
           [] \<Rightarrow> raise_violation (forbidden @ base_name)
         | e # _ \<Rightarrow> Inr e))"

definition restore_one :: "name_registry \<Rightarrow> agent_name_assignment \<Rightarrow> name_registry result" where
  "restore_one R a =
     (case dict_get (reg_assignments R) (assignment_id a) of
        Some b \<Rightarrow>
          (if b \<noteq> a then raise_violation (''agent-name assignment collision: '' @ assignment_id a) else Inr R)
      | None \<Rightarrow>
        (if assignment_agent_name a \<in> set (used_names R)
         then raise_violation (''agent name is assigned more than once: '' @ assignment_agent_name a)
         else bind_result
           (resolve_eligible_row R (assignment_scale a) (assignment_name_column a) (assignment_base_name a)
              ''assignment base name is not present in Agent_name.csv: ''
              ''assignment uses a forbidden Agent_name.csv row: '')
           (\<lambda>_. Inr (R\<lparr>reg_assignments := dict_set (reg_assignments R) (assignment_id a) a,
                          used_names := assignment_agent_name a # used_names R\<rparr>))))"

text \<open>A failing element raises with the earlier ones already restored.\<close>

fun restore :: "name_registry \<Rightarrow> agent_name_assignment list \<Rightarrow> unit result \<times> name_registry" where
  "restore R [] = (Inr (), R)"
| "restore R (a # as) = (case restore_one R a of Inl e \<Rightarrow> (Inl e, R) | Inr R' \<Rightarrow> restore R' as)"

definition restore_registration_one :: "name_registry \<Rightarrow> agent_identity_registration \<Rightarrow> name_registry result" where
  "restore_registration_one R a =
     (case dict_get (reg_registrations R) (registration_id a) of
        Some b \<Rightarrow>
          (if b \<noteq> a then raise_violation (''agent identity registration collision: '' @ registration_id a) else Inr R)
      | None \<Rightarrow>
        (if registration_agent_name a \<in> set (used_names R)
         then raise_violation (''agent name is assigned more than once: '' @ registration_agent_name a)
         else bind_result
           (resolve_eligible_row R (registration_scale a) (registration_name_column a) (registration_base_name a)
              ''registration base name is not present in Agent_name.csv: ''
              ''registration uses a forbidden Agent_name.csv row: '')
           (\<lambda>_. Inr (R\<lparr>reg_registrations := dict_set (reg_registrations R) (registration_id a) a,
                          used_names := registration_agent_name a # used_names R\<rparr>))))"

fun restore_registrations ::
  "name_registry \<Rightarrow> agent_identity_registration list \<Rightarrow> unit result \<times> name_registry" where
  "restore_registrations R [] = (Inr (), R)"
| "restore_registrations R (a # as) =
     (case restore_registration_one R a of Inl e \<Rightarrow> (Inl e, R) | Inr R' \<Rightarrow> restore_registrations R' as)"

definition assignment_for_name :: "name_registry \<Rightarrow> string \<Rightarrow> agent_name_assignment result" where
  "assignment_for_name R name =
     (case filter (\<lambda>a. assignment_agent_name a = name) (dict_values (reg_assignments R)) of
        [a] \<Rightarrow> Inr a
      | _ \<Rightarrow> raise_violation (''agent name is not assigned: '' @ name))"

definition assignment_for_id :: "name_registry \<Rightarrow> string \<Rightarrow> agent_name_assignment result" where
  "assignment_for_id R aid =
     (case dict_get (reg_assignments R) aid of
        None \<Rightarrow> raise_violation (''agent-name assignment is not present: '' @ aid) | Some a \<Rightarrow> Inr a)"

definition registration_for_id :: "name_registry \<Rightarrow> string \<Rightarrow> agent_identity_registration result" where
  "registration_for_id R rid =
     (case dict_get (reg_registrations R) rid of
        None \<Rightarrow> raise_violation (''agent identity registration is not present: '' @ rid) | Some a \<Rightarrow> Inr a)"

definition is_name_registered :: "name_registry \<Rightarrow> string \<Rightarrow> bool" where
  "is_name_registered R name \<longleftrightarrow> name \<in> set (used_names R)"

section \<open>What the allocator promises\<close>

lemma free_suffix_free: "suffixed b (free_suffix b used n) \<notin> set used"
proof (induction b used n rule: free_suffix.induct)
  case (1 b used n)
  then show ?case by (cases "suffixed b n \<in> set used") (simp_all add: free_suffix.simps [of b used n])
qed

lemma free_suffix_ge: "n \<le> free_suffix b used n"
proof (induction b used n rule: free_suffix.induct)
  case (1 b used n)
  then show ?case by (cases "suffixed b n \<in> set used") (simp_all add: free_suffix.simps [of b used n])
qed

lemma free_suffix_least: "n \<le> m \<Longrightarrow> m < free_suffix b used n \<Longrightarrow> suffixed b m \<in> set used"
proof (induction b used n rule: free_suffix.induct)
  case (1 b used n)
  show ?case
  proof (cases "suffixed b n \<in> set used")
    case True
    with 1 show ?thesis by (cases "m = n") (simp_all add: free_suffix.simps [of b used n])
  qed (use 1 in \<open>simp add: free_suffix.simps [of b used n]\<close>)
qed

lemma next_name_fields:
  assumes "next_name R scale col pool = ((base, suffix, name), R')"
  shows "name = suffixed base suffix" "name \<notin> set (used_names R)" "1 \<le> suffix"
    "used_names R' = used_names R" "reg_assignments R' = reg_assignments R"
    "reg_registrations R' = reg_registrations R" "rows R' = rows R"
  using assms free_suffix_free free_suffix_ge by (auto simp: next_name_def Let_def)

lemma next_name_base:
  assumes "next_name R scale col pool = ((base, suffix, name), R')" and "pool \<noteq> []"
  shows "\<exists>r \<in> set pool. name_for r col = base"
proof -
  let ?cands = "map (\<lambda>offset. (index_of R scale col mod length pool + offset) mod length pool) [0..<length pool]"
  let ?pick = "find (\<lambda>i. name_for (pool ! i) col \<notin> set (used_names R)) ?cands"
  let ?i = "case ?pick of None \<Rightarrow> index_of R scale col mod length pool | Some i \<Rightarrow> i"
  have len: "0 < length pool" using assms(2) by simp
  have "i < length pool" if "?pick = Some i" for i
  proof -
    from find_SomeD [OF that] obtain d where "i = (index_of R scale col mod length pool + d) mod length pool"
      by auto
    with len show ?thesis by simp
  qed
  with len have "?i < length pool" by (cases ?pick) simp_all
  moreover have "base = name_for (pool ! ?i) col"
    using assms(1) by (auto simp: next_name_def Let_def)
  ultimately show ?thesis using nth_mem by blast
qed

text \<open>While some name of the pool is unused, the allocator gives an unused base name, so no suffix.\<close>

lemma next_name_no_suffix:
  assumes "next_name R scale col pool = ((base, suffix, name), R')"
    and "r \<in> set pool" and "name_for r col \<notin> set (used_names R)"
  shows "suffix = 1"
proof -
  let ?start = "index_of R scale col mod length pool"
  let ?cands = "map (\<lambda>offset. (?start + offset) mod length pool) [0..<length pool]"
  let ?free = "\<lambda>i. name_for (pool ! i) col \<notin> set (used_names R)"
  from assms(2) obtain j where j: "j < length pool" "pool ! j = r" by (auto simp: in_set_conv_nth)
  then have start: "?start < length pool" by (intro mod_less_divisor) linarith
  have "\<exists>d < length pool. (?start + d) mod length pool = j"
  proof (cases "?start \<le> j")
    case True
    then show ?thesis using j(1) by (intro exI [of _ "j - ?start"]) simp
  next
    case False
    then show ?thesis using j(1) start by (intro exI [of _ "j + length pool - ?start"]) auto
  qed
  then have "j \<in> set ?cands" by auto
  moreover have "?free j" using assms(3) j(2) by simp
  ultimately have "find ?free ?cands \<noteq> None" by (auto simp: find_None_iff)
  then obtain i where i: "find ?free ?cands = Some i" by blast
  then have "?free i" by (auto dest: find_SomeD)
  moreover have "base = name_for (pool ! i) col" and "suffix = free_suffix base (used_names R) 1"
    using assms(1) i by (auto simp: next_name_def Let_def)
  ultimately show ?thesis by (simp add: free_suffix.simps suffixed_def)
qed

text \<open>
  The registry's invariant: its used names are the names it has issued, each once, over
  assignments and registrations together.
\<close>

definition issued_names :: "name_registry \<Rightarrow> string list" where
  "issued_names R = map assignment_agent_name (dict_values (reg_assignments R))
     @ map registration_agent_name (dict_values (reg_registrations R))"

definition registry_inv :: "name_registry \<Rightarrow> bool" where
  "registry_inv R \<longleftrightarrow> distinct (issued_names R) \<and> set (used_names R) = set (issued_names R)
     \<and> distinct (map fst (reg_assignments R)) \<and> distinct (map fst (reg_registrations R))"

lemma dict_set_new: "\<not> dict_mem k d \<Longrightarrow> dict_set d k v = d @ [(k, v)]"
  unfolding dict_set_def dict_mem_def by (induction d) auto

lemma registry_inv_add_assignment:
  "registry_inv R \<Longrightarrow> \<not> dict_mem k (reg_assignments R) \<Longrightarrow> assignment_agent_name a \<notin> set (used_names R) \<Longrightarrow>
    registry_inv (R\<lparr>reg_assignments := dict_set (reg_assignments R) k a,
                    used_names := assignment_agent_name a # used_names R\<rparr>)"
  by (auto simp: registry_inv_def issued_names_def dict_set_new dict_values_def dict_mem_def)

lemma registry_inv_add_registration:
  "registry_inv R \<Longrightarrow> \<not> dict_mem k (reg_registrations R) \<Longrightarrow> registration_agent_name a \<notin> set (used_names R) \<Longrightarrow>
    registry_inv (R\<lparr>reg_registrations := dict_set (reg_registrations R) k a,
                    used_names := registration_agent_name a # used_names R\<rparr>)"
  by (auto simp: registry_inv_def issued_names_def dict_set_new dict_values_def dict_mem_def)

lemma registry_inv_frame:
  "used_names R' = used_names R \<Longrightarrow> reg_assignments R' = reg_assignments R \<Longrightarrow>
    reg_registrations R' = reg_registrations R \<Longrightarrow> registry_inv R' \<longleftrightarrow> registry_inv R"
  by (simp add: registry_inv_def issued_names_def)

end
