(* ===== verification/Kernel_Exec.thy ===== *)
theory Kernel_Exec
  imports Kernel_Work Agent_Naming
begin

text \<open>
  Executions, notifications and agent identities of \<^verbatim>\<open>Kernel\<close>. A registry an operation
  reads is an argument, as in the code. \<open>promote_agent_notification\<close> writes two events;
  when the second is refused the WorkItem of the first stays, so its result pairs the
  outcome of the second with the Kernel reached.
\<close>

section \<open>Executions\<close>

definition create_execution ::
  "hashing \<Rightarrow> kernel \<Rightarrow> time \<Rightarrow> execution \<Rightarrow> string \<Rightarrow> string \<Rightarrow> (kevent \<times> kernel) result" where
  "create_execution h k t e aid key =
     bind_result (require_active (k_activation k) ''Execution creation'') (\<lambda>_.
     if exec_data_space_id e \<noteq> data_space_id (k_data_space k) then raise_violation ''Execution DataSpace mismatch''
     else if exec_state e \<notin> {Requested, ExecActive}
     then raise_violation ''new Execution must start requested or active''
     else if \<not> dict_mem (exec_node_id e) (k_nodes k) then raise_violation ''Execution Node not found''
     else case dict_get (k_work_items k) (exec_work_item_id e) of
       None \<Rightarrow> raise_violation ''Execution WorkItem not found''
     | Some w \<Rightarrow>
       (if exec_node_id e \<noteq> delegated_to_node_id w
        then raise_violation ''Execution must stay with the delegated Node''
        else if dict_mem (execution_id e) (k_executions k) then raise_violation ''Execution already exists''
        else then_update
          (kernel_record h k t (execution_id e) ''execution_created'' [(''execution'', PExecution e)] Human (Some aid)
             key (Some (exec_work_item_id e)) None)
          (\<lambda>_ k'. k'\<lparr>k_executions := dict_set (k_executions k') (execution_id e) e\<rparr>)))"

text \<open>The transition table of \<^verbatim>\<open>set_execution_state\<close>.\<close>

fun allowed_transitions :: "execution_state \<Rightarrow> execution_state set" where
  "allowed_transitions Requested = {ExecActive, ExecPaused, ExecFailed, ExecCancelled}"
| "allowed_transitions ExecActive = {ExecPaused, ExecSucceeded, ExecFailed, ExecCancelled}"
| "allowed_transitions ExecPaused = {ExecActive, ExecFailed, ExecCancelled}"
| "allowed_transitions ExecSucceeded = {}"
| "allowed_transitions ExecFailed = {}"
| "allowed_transitions ExecCancelled = {}"

definition set_execution_state ::
  "hashing \<Rightarrow> kernel \<Rightarrow> time \<Rightarrow> string \<Rightarrow> execution_state \<Rightarrow> actor_type \<Rightarrow> string \<Rightarrow> string \<Rightarrow> string option
    \<Rightarrow> (kevent \<times> kernel) result" where
  "set_execution_state h k t eid s act aid key reason =
     (case dict_get (k_executions k) eid of
        None \<Rightarrow> raise_violation ''Execution not found''
      | Some e \<Rightarrow>
        (if s \<notin> allowed_transitions (exec_state e)
         then raise_violation (''invalid Execution transition: '' @ execution_state_value (exec_state e) @ '' -> ''
                @ execution_state_value s)
         else if s = ExecPaused \<and> reason \<in> {None, Some []}
         then raise_violation ''paused Execution requires a reason''
         else then_update
           (kernel_record h k t eid ''execution_state_changed''
              [(''state'', PStr (execution_state_value s)), (''pause_reason'', opt_str reason)] act (Some aid) key
              (Some (exec_work_item_id e)) None)
           (\<lambda>_ k'. k'\<lparr>k_executions := dict_set (k_executions k') eid
                       (e\<lparr>exec_state := s, pause_reason := reason\<rparr>)\<rparr>)))"

text \<open>A PilotHost's receipt; the usage, result and error objects are JSON texts.\<close>

record pilot_receipt =
  receipt_id :: string
  receipt_status :: string
  requested_model :: "string option"
  actual_model :: "string option"
  receipt_session_id :: "string option"
  receipt_usage :: "string option"
  receipt_result :: "string option"
  receipt_error :: "string option"

definition receipt_transition :: "pilot_receipt \<Rightarrow> (execution_state \<times> string option) result" where
  "receipt_transition r =
     (if receipt_status r = ''succeeded''
      then (if actual_model r = None \<or> receipt_session_id r = None \<or> receipt_usage r = None
              \<or> receipt_result r = None \<or> receipt_error r \<noteq> None
            then raise_violation ''succeeded PilotHost receipt is incomplete''
            else Inr (ExecSucceeded, None))
      else if receipt_status r = ''failed''
      then (if receipt_result r \<noteq> None \<or> receipt_error r = None
            then raise_violation ''failed PilotHost receipt is inconsistent''
            else Inr (ExecFailed, None))
      else if receipt_status r = ''transport_unknown''
      then (if receipt_result r \<noteq> None \<or> receipt_error r = None
            then raise_violation ''transport_unknown PilotHost receipt is inconsistent''
            else Inr (ExecPaused, Some ''pilot_receipt_reconciliation_required''))
      else raise_violation ''PilotHost receipt must be terminal'')"

definition execution_assignment :: "kernel \<Rightarrow> string \<Rightarrow> string option" where
  "execution_assignment k eid =
     map_option assignment_id (find (\<lambda>a. assignment_execution_id a = eid) (dict_values (k_assignments k)))"

definition receipt_payload ::
  "kernel \<Rightarrow> execution \<Rightarrow> string \<Rightarrow> pilot_receipt \<Rightarrow> execution_state \<Rightarrow> string option \<Rightarrow> payload_dict" where
  "receipt_payload k e eid r s reason =
     [(''receipt_id'', PStr (receipt_id r)), (''execution_id'', PStr eid),
      (''work_item_id'', PStr (exec_work_item_id e)), (''assignment_id'', opt_str (execution_assignment k eid)),
      (''receipt_status'', PStr (receipt_status r)), (''requested_model'', opt_str (requested_model r)),
      (''actual_model'', opt_str (actual_model r)), (''provider_session_id'', opt_str (receipt_session_id r)),
      (''usage'', opt_json (receipt_usage r)), (''result'', opt_json (receipt_result r)),
      (''error'', opt_json (receipt_error r)), (''state'', PStr (execution_state_value s)),
      (''pause_reason'', opt_str reason), (''agent_name'', opt_str (exec_agent_name e))]"

definition record_pilot_execution_receipt ::
  "hashing \<Rightarrow> kernel \<Rightarrow> time \<Rightarrow> string \<Rightarrow> pilot_receipt \<Rightarrow> string \<Rightarrow> string \<Rightarrow> (kevent \<times> kernel) result" where
  "record_pilot_execution_receipt h k t eid r aid key =
     (case dict_get (k_executions k) eid of
        None \<Rightarrow> raise_violation ''PilotHost receipt requires a requested Execution''
      | Some e \<Rightarrow>
        (if exec_state e \<noteq> Requested then raise_violation ''PilotHost receipt requires a requested Execution''
         else bind_result (receipt_transition r) (\<lambda>(s, reason). then_update
           (kernel_record h k t eid ''pilot_execution_receipt_recorded'' (receipt_payload k e eid r s reason)
              PilotActor (Some aid) key (Some (exec_work_item_id e)) None)
           (\<lambda>_ k'. k'\<lparr>k_executions := dict_set (k_executions k') eid
                       (e\<lparr>exec_state := s, provider_session_id := receipt_session_id r,
                          pause_reason := reason\<rparr>)\<rparr>))))"

definition pilot_host_disconnected ::
  "hashing \<Rightarrow> kernel \<Rightarrow> time \<Rightarrow> string \<Rightarrow> string \<Rightarrow> (kevent \<times> kernel) result" where
  "pilot_host_disconnected h k t host key = then_update
     (kernel_record h k t host ''pilot_host_disconnected'' [(''pilot_host_id'', PStr host)] SystemActor None key
        (Some host) None)
     (\<lambda>_ k'. k'\<lparr>k_executions :=
        pause_executions (\<lambda>e. pilot_host_id e = host) ''pilot_host_disconnected'' (k_executions k')\<rparr>)"

section \<open>Agent names\<close>

definition agent_name_is_registered :: "kernel \<Rightarrow> string \<Rightarrow> bool" where
  "agent_name_is_registered k name \<longleftrightarrow>
     name = reserved_agent_name
     \<or> (\<exists>a \<in> set (dict_values (k_assignments k)). assignment_agent_name a = name)
     \<or> (\<exists>r \<in> set (dict_values (k_registrations k)). registration_agent_name r = name)"

definition record_agent_name_assignment ::
  "hashing \<Rightarrow> kernel \<Rightarrow> time \<Rightarrow> name_registry \<Rightarrow> agent_name_assignment \<Rightarrow> string \<Rightarrow> string \<Rightarrow> (kevent \<times> kernel) result" where
  "record_agent_name_assignment h k t R a aid key =
     bind_result (assignment_for_id R (assignment_id a)) (\<lambda>issued.
     if issued \<noteq> a then raise_violation ''AgentNameAssignment was not issued by the configured name registry''
     else if assignment_data_space_id a \<noteq> data_space_id (k_data_space k)
     then raise_violation ''AgentNameAssignment DataSpace mismatch''
     else if dict_mem (assignment_id a) (k_assignments k)
     then raise_violation (''AgentNameAssignment already exists: '' @ assignment_id a)
     else if \<exists>b \<in> set (dict_values (k_assignments k)). assignment_agent_name b = assignment_agent_name a
     then raise_violation (''AgentNameAssignment name is already assigned: '' @ assignment_agent_name a)
     else case dict_get (k_executions k) (assignment_execution_id a) of
       None \<Rightarrow> raise_violation ''AgentNameAssignment Execution not found''
     | Some e \<Rightarrow>
       (if exec_work_item_id e \<noteq> assignment_work_item_id a
        then raise_violation ''AgentNameAssignment WorkItem does not match Execution''
        else if exec_node_id e \<noteq> assignment_node_id a
        then raise_violation ''AgentNameAssignment Node does not match Execution''
        else if exec_pilot_id e \<noteq> assignment_pilot_id a
        then raise_violation ''AgentNameAssignment Pilot does not match Execution''
        else if exec_agent_name e \<noteq> None then raise_violation ''Execution already has an agent name''
        else then_update
          (kernel_record h k t (assignment_id a) ''agent_name_assigned'' [(''assignment'', PAssignment a)] SystemActor
             (Some aid) key (Some (assignment_work_item_id a)) (Some (assignment_execution_id a)))
          (\<lambda>_ k'. k'\<lparr>k_assignments := dict_set (k_assignments k') (assignment_id a) a,
                    k_executions := dict_set (k_executions k') (assignment_execution_id a)
                      (e\<lparr>exec_agent_name := Some (assignment_agent_name a)\<rparr>)\<rparr>)))"

definition register_agent_identity ::
  "hashing \<Rightarrow> kernel \<Rightarrow> time \<Rightarrow> name_registry \<Rightarrow> agent_identity_registration \<Rightarrow> string \<Rightarrow> string
    \<Rightarrow> (kevent \<times> kernel) result" where
  "register_agent_identity h k t R a aid key =
     bind_result (registration_for_id R (registration_id a)) (\<lambda>issued.
     if issued \<noteq> a then raise_violation ''AgentIdentityRegistration was not issued by the configured name registry''
     else if registration_data_space_id a \<noteq> data_space_id (k_data_space k)
     then raise_violation ''AgentIdentityRegistration DataSpace mismatch''
     else if dict_mem (registration_id a) (k_registrations k)
     then raise_violation (''AgentIdentityRegistration already exists: '' @ registration_id a)
     else if agent_name_is_registered k (registration_agent_name a)
     then raise_violation (''AgentIdentityRegistration name is already assigned: '' @ registration_agent_name a)
     else if \<not> dict_mem (registration_node_id a) (k_nodes k)
     then raise_violation ''AgentIdentityRegistration Node does not exist''
     else then_update
       (kernel_record h k t (registration_id a) ''agent_identity_registered'' [(''registration'', PRegistration a)]
          SystemActor (Some aid) key (Some (registration_node_id a)) None)
       (\<lambda>_ k'. k'\<lparr>k_registrations := dict_set (k_registrations k') (registration_id a) a\<rparr>))"

section \<open>Notifications\<close>

definition validate_agent_message_identity :: "kernel \<Rightarrow> agent_notification \<Rightarrow> unit result" where
  "validate_agent_message_identity k n =
     (if option_all (\<lambda>sender. \<not> agent_name_is_registered k sender) (sender_agent_name n)
      then raise_violation ''agent-to-agent sender must be issued by the agent-name registry''
      else if \<not> agent_name_is_registered k (recipient_agent_name n)
      then raise_violation ''agent-to-agent recipient must be issued by the agent-name registry''
      else case (related_work_item_id n, related_execution_id n) of
        (Some wid, Some eid) \<Rightarrow>
          (case (dict_get (k_work_items k) wid, dict_get (k_executions k) eid) of
             (Some w, Some e) \<Rightarrow>
               (if exec_work_item_id e \<noteq> work_item_id w
                then raise_violation ''agent-to-agent WorkItem and Execution references do not match''
                else Inr ())
           | _ \<Rightarrow> raise_violation ''agent-to-agent references must resolve to WorkItem and Execution'')
      | _ \<Rightarrow> raise_violation ''agent-to-agent messages require WorkItem and Execution references'')"

definition record_agent_notification ::
  "hashing \<Rightarrow> kernel \<Rightarrow> time \<Rightarrow> agent_notification \<Rightarrow> string \<Rightarrow> string \<Rightarrow> (kevent \<times> kernel) result" where
  "record_agent_notification h k t n aid key =
     (if notification_data_space_id n \<noteq> data_space_id (k_data_space k)
      then raise_violation ''AgentNotification DataSpace mismatch''
      else bind_result
        (if notification_source_kind n = AgentToAgent then validate_agent_message_identity k n else Inr ()) (\<lambda>_.
        if dict_mem (notification_id n) (k_notifications k)
        then raise_violation (''AgentNotification already exists: '' @ notification_id n)
        else then_update
          (kernel_record h k t (notification_id n) ''agent_notification_delivered''
             [(''notification'', PNotification n)] SystemActor (Some aid) key
             (Some (case related_work_item_id n of
                      None \<Rightarrow> notification_id n | Some wid \<Rightarrow> if wid = [] then notification_id n else wid))
             (related_execution_id n))
          (\<lambda>_ k'. k'\<lparr>k_notifications := dict_set (k_notifications k') (notification_id n) n\<rparr>)))"

definition check_promotion :: "kernel \<Rightarrow> string \<Rightarrow> work_item \<Rightarrow> agent_notification result" where
  "check_promotion k nid w =
     (case dict_get (k_notifications k) nid of
        None \<Rightarrow> raise_violation ''AgentNotification not found''
      | Some n \<Rightarrow>
        (if \<not> requires_work_item n
         then raise_violation ''AgentNotification does not satisfy the WorkItem promotion condition''
         else if promoted_work_item_id n \<noteq> None then raise_violation ''AgentNotification is already promoted''
         else if work_data_space_id w \<noteq> data_space_id (k_data_space k)
         then raise_violation ''promoted WorkItem DataSpace mismatch''
         else if work_item_id w = notification_id n
         then raise_violation ''promoted WorkItem must have a distinct identity from its notification''
         else if dict_mem (work_item_id w) (k_work_items k) then raise_violation ''promoted WorkItem already exists''
         else Inr n))"

definition promote_agent_notification ::
  "hashing \<Rightarrow> kernel \<Rightarrow> time \<Rightarrow> time \<Rightarrow> string \<Rightarrow> work_item \<Rightarrow> string \<Rightarrow> string \<Rightarrow> (kevent result \<times> kernel) result" where
  "promote_agent_notification h k t t' nid w aid key =
     bind_result (check_promotion k nid w) (\<lambda>n.
     bind_result (create_work_item h k t w aid (key @ '':work-item'')) (\<lambda>(_, k1).
       Inr (case kernel_record h k1 t' (notification_id n) ''agent_notification_promoted''
              [(''notification_id'', PStr nid), (''work_item_id'', PStr (work_item_id w))] SystemActor (Some aid) key
              (Some (work_item_id w)) (Some (notification_id n)) of
            Inl err \<Rightarrow> (Inl err, k1)
          | Inr (e, k2) \<Rightarrow>
              (Inr e, k2\<lparr>k_notifications := dict_set (k_notifications k2) nid
                           (n\<lparr>promoted_work_item_id := Some (work_item_id w)\<rparr>)\<rparr>))))"

end
