(* ===== verification/Kernel_Effects.thy ===== *)
theory Kernel_Effects
  imports Kernel_State
begin

text \<open>
  Authority of \<^verbatim>\<open>Kernel\<close>: capability and reference grants, budget reservations, and the
  life of an EffectLease from its plan over the owner's approval to its result. \<open>now\<close> is
  the clock reading of the method's own check, \<open>t\<close> the one of \<^verbatim>\<open>_record\<close>.
\<close>

section \<open>Grants and budget\<close>

definition grant_capability ::
  "hashing \<Rightarrow> kernel \<Rightarrow> time \<Rightarrow> time \<Rightarrow> capability_grant \<Rightarrow> string \<Rightarrow> string \<Rightarrow> (kevent \<times> kernel) result" where
  "grant_capability h k now t g aid key =
     (if grant_data_space_id g \<noteq> data_space_id (k_data_space k)
      then raise_violation ''CapabilityGrant DataSpace mismatch''
      else if grant_state g \<noteq> GrantActive then raise_violation ''new CapabilityGrant must be active''
      else if \<not> (valid_from g \<le> now \<and> now < grant_expires_at g)
      then raise_violation ''CapabilityGrant is not currently valid''
      else if \<not> dict_mem (grantor_node_id g) (k_nodes k) \<or> \<not> dict_mem (grantee_node_id g) (k_nodes k)
      then raise_violation ''CapabilityGrant nodes must exist''
      else then_update
        (kernel_record h k t (grant_id g) ''capability_granted'' [(''grant'', PGrant g)] Human (Some aid) key
           (Some (grant_id g)) None)
        (\<lambda>_ k'. k'\<lparr>k_capability_grants := dict_set (k_capability_grants k') (grant_id g) g\<rparr>))"

definition register_reference_grant ::
  "hashing \<Rightarrow> kernel \<Rightarrow> time \<Rightarrow> time \<Rightarrow> reference_grant \<Rightarrow> string \<Rightarrow> string \<Rightarrow> (kevent \<times> kernel) result" where
  "register_reference_grant h k now t g aid key =
     (if target_data_space_id g \<noteq> data_space_id (k_data_space k)
      then raise_violation ''ReferenceGrant target DataSpace mismatch''
      else if rg_state g \<noteq> GrantActive then raise_violation ''new ReferenceGrant must be active''
      else if \<not> (rg_valid_from g \<le> now \<and> now < rg_expires_at g)
      then raise_violation ''ReferenceGrant is not currently valid''
      else then_update
        (kernel_record h k t (rg_grant_id g) ''reference_granted'' [(''reference_grant'', PReferenceGrant g)] Human
           (Some aid) key (Some (rg_grant_id g)) None)
        (\<lambda>_ k'. k'\<lparr>k_reference_grants := dict_set (k_reference_grants k') (rg_grant_id g) g\<rparr>))"

definition reserve_budget ::
  "hashing \<Rightarrow> kernel \<Rightarrow> time \<Rightarrow> budget_reservation \<Rightarrow> string \<Rightarrow> string \<Rightarrow> (kevent \<times> kernel) result" where
  "reserve_budget h k t r aid key =
     (if budget_data_space_id r \<noteq> data_space_id (k_data_space k)
      then raise_violation ''BudgetReservation DataSpace mismatch''
      else if \<not> dict_mem (budget_work_item_id r) (k_work_items k)
      then raise_violation ''BudgetReservation WorkItem not found''
      else then_update
        (kernel_record h k t (reservation_id r) ''budget_reserved'' [(''reservation'', PReservation r)] Human (Some aid)
           key (Some (budget_work_item_id r)) None)
        (\<lambda>_ k'. k'\<lparr>k_budget_reservations := dict_set (k_budget_reservations k') (reservation_id r) r\<rparr>))"

section \<open>Effect leases\<close>

definition plan_effect ::
  "hashing \<Rightarrow> kernel \<Rightarrow> time \<Rightarrow> time \<Rightarrow> effect_lease \<Rightarrow> string \<Rightarrow> string \<Rightarrow> (kevent \<times> kernel) result" where
  "plan_effect h k now t l aid key =
     bind_result (require_active (k_activation k) ''Effect planning'') (\<lambda>_.
     if lease_data_space_id l \<noteq> data_space_id (k_data_space k) then raise_violation ''EffectLease DataSpace mismatch''
     else if lease_state l \<noteq> Planned then raise_violation ''a new EffectLease must be planned''
     else if lease_expires_at l \<le> now then raise_violation ''EffectLease must expire in the future''
     else if map_option exec_work_item_id (dict_get (k_executions k) (lease_execution_id l))
         \<noteq> Some (lease_work_item_id l)
     then raise_violation ''EffectLease Execution/WorkItem mismatch''
     else if \<exists>other \<in> set (dict_values (k_effect_leases k)).
         lease_idempotency_key other = lease_idempotency_key l \<and> lease_id other \<noteq> lease_id l
     then raise_violation ''effect idempotency key already belongs to another lease''
     else then_update
       (kernel_record h k t (lease_id l) ''effect_planned'' [(''effect_lease'', PLease l)] PilotActor (Some aid) key
          (Some (lease_work_item_id l)) None)
       (\<lambda>_ k'. k'\<lparr>k_effect_leases := dict_set (k_effect_leases k') (lease_id l) l\<rparr>))"

definition approve_effect ::
  "hashing \<Rightarrow> kernel \<Rightarrow> time \<Rightarrow> time \<Rightarrow> string \<Rightarrow> string \<Rightarrow> string \<Rightarrow> (kevent \<times> kernel) result" where
  "approve_effect h k now t lid aid key =
     bind_result (require_active (k_activation k) ''Effect approval'') (\<lambda>_.
     case dict_get (k_effect_leases k) lid of
       None \<Rightarrow> raise_violation ''only a planned EffectLease can be approved''
     | Some l \<Rightarrow>
       (if lease_state l \<noteq> Planned then raise_violation ''only a planned EffectLease can be approved''
        else if dict_mem lid (k_effect_approvals k) then raise_violation ''EffectLease is already approved''
        else
          (let a = \<lparr>approval_lease_id = lid, approved_by = aid, approval_approved_at = now\<rparr> in
           if \<not> valid_effect_approval a then Inl (ValidationError ''EffectApproval'')
           else then_update
             (kernel_record h k t lid ''effect_approved'' [(''approval'', PApproval a)] Human (Some aid) key
                (Some (lease_work_item_id l)) None)
             (\<lambda>_ k'. k'\<lparr>k_effect_approvals := dict_set (k_effect_approvals k') lid a\<rparr>))))"

definition set_lease_state :: "string \<Rightarrow> effect_lease \<Rightarrow> effect_lease_state \<Rightarrow> kernel \<Rightarrow> kernel" where
  "set_lease_state lid l s k = k\<lparr>k_effect_leases := dict_set (k_effect_leases k) lid (l\<lparr>lease_state := s\<rparr>)\<rparr>"

definition activate_effect ::
  "hashing \<Rightarrow> kernel \<Rightarrow> time \<Rightarrow> time \<Rightarrow> string \<Rightarrow> string \<Rightarrow> string \<Rightarrow> (kevent \<times> kernel) result" where
  "activate_effect h k now t lid aid key =
     bind_result (require_active (k_activation k) ''Effect activation'') (\<lambda>_.
     case dict_get (k_effect_leases k) lid of
       None \<Rightarrow> raise_violation ''only a LETHE-confirmed planned effect can activate''
     | Some l \<Rightarrow>
       (if lease_state l \<noteq> Planned then raise_violation ''only a LETHE-confirmed planned effect can activate''
        else if lease_expires_at l \<le> now then raise_violation ''expired EffectLease cannot activate''
        else if \<not> dict_mem lid (k_effect_approvals k)
        then raise_violation ''EffectLease requires explicit owner approval''
        else then_update
          (kernel_record h k t lid ''effect_activated'' [(''state'', PStr (effect_lease_state_value LeaseActive))]
             PilotActor (Some aid) key (Some (lease_work_item_id l)) None)
          (\<lambda>_. set_lease_state lid l LeaseActive)))"

definition mark_effect_unknown ::
  "hashing \<Rightarrow> kernel \<Rightarrow> time \<Rightarrow> string \<Rightarrow> string \<Rightarrow> string \<Rightarrow> (kevent \<times> kernel) result" where
  "mark_effect_unknown h k t lid aid key =
     (case dict_get (k_effect_leases k) lid of
        None \<Rightarrow> raise_violation ''only an active effect can become unknown''
      | Some l \<Rightarrow>
        (if lease_state l \<noteq> LeaseActive then raise_violation ''only an active effect can become unknown''
         else then_update
           (kernel_record h k t lid ''effect_result_unknown''
              [(''state'', PStr (effect_lease_state_value LeaseUnknown)),
               (''effect_idempotency_key'', PStr (lease_idempotency_key l))] PilotActor (Some aid) key
              (Some (lease_work_item_id l)) None)
           (\<lambda>_. set_lease_state lid l LeaseUnknown)))"

definition require_effect_reconciliation :: "kernel \<Rightarrow> string \<Rightarrow> unit result" where
  "require_effect_reconciliation k lid =
     (case dict_get (k_effect_leases k) lid of
        None \<Rightarrow> raise_violation ''EffectLease not found''
      | Some l \<Rightarrow>
        (if lease_state l = LeaseUnknown
         then Inl (ReconciliationRequired (''reconcile effect by idempotency key '' @ lease_idempotency_key l))
         else Inr ()))"

definition reconcile_effect ::
  "hashing \<Rightarrow> kernel \<Rightarrow> time \<Rightarrow> string \<Rightarrow> effect_lease_state \<Rightarrow> string \<Rightarrow> string \<Rightarrow> (kevent \<times> kernel) result" where
  "reconcile_effect h k t lid s aid key =
     (case dict_get (k_effect_leases k) lid of
        None \<Rightarrow> raise_violation ''only an unknown effect can be reconciled''
      | Some l \<Rightarrow>
        (if lease_state l \<noteq> LeaseUnknown then raise_violation ''only an unknown effect can be reconciled''
         else if s \<notin> {LeaseSucceeded, LeaseFailed}
         then raise_violation ''reconciliation result must be succeeded or failed''
         else then_update
           (kernel_record h k t lid ''effect_reconciled''
              [(''state'', PStr (effect_lease_state_value s)),
               (''effect_idempotency_key'', PStr (lease_idempotency_key l))] Human (Some aid) key
              (Some (lease_work_item_id l)) None)
           (\<lambda>_. set_lease_state lid l s)))"

end
