(* ===== verification/Kernel_Routes.thy ===== *)
theory Kernel_Routes
  imports Kernel_State
begin

text \<open>
  The life of a RouteSnapshot in \<^verbatim>\<open>Kernel\<close>: draft, S3* approval, owner approval, published,
  retired. A retirement reason that is no member of the enumeration is \<^const>\<open>None\<close>.
\<close>

definition register_route_snapshot ::
  "hashing \<Rightarrow> kernel \<Rightarrow> time \<Rightarrow> route_snapshot \<Rightarrow> string \<Rightarrow> string \<Rightarrow> (kevent \<times> kernel) result" where
  "register_route_snapshot h k t s aid key =
     (if route_data_space_id s \<noteq> data_space_id (k_data_space k)
      then raise_violation ''RouteSnapshot DataSpace mismatch''
      else if route_state s \<noteq> Draft then raise_violation ''RouteSnapshot must start as draft''
      else then_update
        (kernel_record h k t (snapshot_id s) ''route_snapshot_registered'' [(''route_snapshot'', PRoute s)] Human
           (Some aid) key (Some (snapshot_id s)) None)
        (\<lambda>_ k'. k'\<lparr>k_route_snapshots := dict_set (k_route_snapshots k') (snapshot_id s) s\<rparr>))"

text \<open>The approval that moves a snapshot on: its next state and the field that takes the event id.\<close>

definition route_approval ::
  "string \<Rightarrow> route_snapshot \<Rightarrow> (route_snapshot_state \<times> (string \<Rightarrow> route_snapshot \<Rightarrow> route_snapshot)) result" where
  "route_approval approval s =
     (if approval = ''s3_star'' \<and> route_state s = Draft
      then Inr (S3StarApproved, \<lambda>eid s. s\<lparr>s3_star_approval_event_id := Some eid\<rparr>)
      else if approval = ''owner'' \<and> route_state s = S3StarApproved
      then Inr (OwnerApproved, \<lambda>eid s. s\<lparr>owner_approval_event_id := Some eid\<rparr>)
      else raise_violation ''RouteSnapshot approvals are ordered S3* then owner'')"

definition approve_route_snapshot ::
  "hashing \<Rightarrow> kernel \<Rightarrow> time \<Rightarrow> string \<Rightarrow> string \<Rightarrow> string \<Rightarrow> string \<Rightarrow> (kevent \<times> kernel) result" where
  "approve_route_snapshot h k t sid approval aid key =
     (case dict_get (k_route_snapshots k) sid of
        None \<Rightarrow> raise_violation ''RouteSnapshot not found''
      | Some s \<Rightarrow> bind_result (route_approval approval s) (\<lambda>(next_state, set_field). then_update
          (kernel_record h k t sid ''route_snapshot_approved''
             [(''approval'', PStr approval), (''state'', PStr (route_snapshot_state_value next_state))] Human
             (Some aid) key (Some sid) None)
          (\<lambda>e k'. k'\<lparr>k_route_snapshots := dict_set (k_route_snapshots k') sid
                       (set_field (event_id e) (s\<lparr>route_state := next_state\<rparr>))\<rparr>)))"

definition publish_route_snapshot ::
  "hashing \<Rightarrow> kernel \<Rightarrow> time \<Rightarrow> string \<Rightarrow> string \<Rightarrow> string \<Rightarrow> (kevent \<times> kernel) result" where
  "publish_route_snapshot h k t sid aid key =
     (case dict_get (k_route_snapshots k) sid of
        None \<Rightarrow> raise_violation ''only an owner-approved RouteSnapshot can publish''
      | Some s \<Rightarrow>
        (if route_state s \<noteq> OwnerApproved
         then raise_violation ''only an owner-approved RouteSnapshot can publish''
         else if \<exists>other \<in> set (dict_values (k_route_snapshots k)).
             snapshot_id other \<noteq> sid \<and> route_key other = route_key s \<and> route_state other = Published
         then raise_violation ''retire the published RouteSnapshot for this route_key before publishing''
         else then_update
           (kernel_record h k t sid ''route_snapshot_published''
              [(''state'', PStr (route_snapshot_state_value Published))] Human (Some aid) key (Some sid) None)
           (\<lambda>_ k'. k'\<lparr>k_route_snapshots := dict_set (k_route_snapshots k') sid (s\<lparr>route_state := Published\<rparr>)\<rparr>)))"

definition validate_route_snapshot_replacement :: "kernel \<Rightarrow> route_snapshot \<Rightarrow> string \<Rightarrow> unit result" where
  "validate_route_snapshot_replacement k s rid =
     (if rid = snapshot_id s
      then raise_violation ''replacement RouteSnapshot must differ from retired RouteSnapshot''
      else case dict_get (k_route_snapshots k) rid of
        None \<Rightarrow> raise_violation ''replacement RouteSnapshot not found''
      | Some r \<Rightarrow>
        (if route_key r \<noteq> route_key s
         then raise_violation ''replacement RouteSnapshot must have the same route_key''
         else if route_state r \<notin> {OwnerApproved, Published}
         then raise_violation ''replacement RouteSnapshot must be owner-approved or published''
         else Inr ()))"

definition retire_route_snapshot ::
  "hashing \<Rightarrow> kernel \<Rightarrow> time \<Rightarrow> string \<Rightarrow> retirement_reason option \<Rightarrow> string option \<Rightarrow> string \<Rightarrow> string
    \<Rightarrow> (kevent \<times> kernel) result" where
  "retire_route_snapshot h k t sid reason_code replacement_id aid key =
     (case reason_code of
        None \<Rightarrow> raise_violation ''unsupported RouteSnapshot retirement reason''
      | Some reason \<Rightarrow>
        (case dict_get (k_route_snapshots k) sid of
           None \<Rightarrow> raise_violation ''RouteSnapshot not found''
         | Some s \<Rightarrow>
           (if route_state s \<noteq> Published then raise_violation ''only a published RouteSnapshot can retire''
            else bind_result
              (if reason = RouteDecommissioned
               then (if replacement_id \<noteq> None
                     then raise_violation ''decommissioned route must not have a replacement RouteSnapshot''
                     else Inr ())
               else case replacement_id of
                 None \<Rightarrow> raise_violation ''superseded RouteSnapshot requires a replacement RouteSnapshot''
               | Some rid \<Rightarrow> validate_route_snapshot_replacement k s rid)
              (\<lambda>_. then_update
                (kernel_record h k t sid ''route_snapshot_retired''
                   [(''reason_code'', PStr (retirement_reason_value reason)),
                    (''replacement_snapshot_id'', opt_str replacement_id),
                    (''state'', PStr (route_snapshot_state_value Retired))] Human (Some aid) key (Some sid) None)
                (\<lambda>_ k'. k'\<lparr>k_route_snapshots :=
                   dict_set (k_route_snapshots k') sid (s\<lparr>route_state := Retired\<rparr>)\<rparr>)))))"

end
