(* ===== verification/Projection.thy ===== *)
theory Projection
  imports Kernel_Exec Kernel_Effects Kernel_Routes
begin

text \<open>
  \<^verbatim>\<open>OperationalProjection\<close> of \<^verbatim>\<open>vsm/projection.py\<close>: rebuilding every view of the Kernel, its
  activation service and its owner bootstrap from the event ledger. \<open>handlers\<close> is the
  table the method lookup by event type amounts to; the handlers of the event types the
  interface, routing and token services write are the argument \<open>others\<close>. Their known
  stream versions are fields of the projection, for the gap check reads them.
  A payload value that has no place in the model's field is a \<^verbatim>\<open>ValidationError\<close> here.
\<close>

section \<open>Reading payloads\<close>

definition dict_item :: "(string, 'v) dict \<Rightarrow> string \<Rightarrow> 'v result" where
  "dict_item d key = (case dict_get d key of None \<Rightarrow> Inl (KeyError key) | Some v \<Rightarrow> Inr v)"

definition payload_opt :: "payload_dict \<Rightarrow> string \<Rightarrow> pval" where
  "payload_opt p key = (case dict_get p key of None \<Rightarrow> PNull | Some v \<Rightarrow> v)"

fun as_opt_str :: "pval \<Rightarrow> string option option" where
  "as_opt_str PNull = Some None"
| "as_opt_str (PStr s) = Some (Some s)"
| "as_opt_str _ = None"

definition payload_item :: "string \<Rightarrow> (pval \<Rightarrow> 'a option) \<Rightarrow> payload_dict \<Rightarrow> 'a result" where
  "payload_item key shape p = bind_result (payload_get p key) (model_validate key shape (\<lambda>_. True))"

definition payload_model :: "string \<Rightarrow> (pval \<Rightarrow> 'a option) \<Rightarrow> ('a \<Rightarrow> bool) \<Rightarrow> payload_dict \<Rightarrow> 'a result" where
  "payload_model key shape valid p = bind_result (payload_get p key) (model_validate key shape valid)"

definition payload_enum :: "string \<Rightarrow> ('e \<Rightarrow> string) \<Rightarrow> 'e list \<Rightarrow> payload_dict \<Rightarrow> 'e result" where
  "payload_enum key value members p =
     bind_result (payload_get p key) (\<lambda>v. case as_str v of
        None \<Rightarrow> Inl (ValueError key) | Some s \<Rightarrow> enum_of_value value members s)"

lemma dict_item_Inr [simp]: "dict_item d key = Inr v \<longleftrightarrow> dict_get d key = Some v"
  by (simp add: dict_item_def split: option.split)

section \<open>Kernel views\<close>

text \<open>\<^verbatim>\<open>_kernel_version\<close>.\<close>

definition kernel_version :: "kevent \<Rightarrow> kernel \<Rightarrow> kernel" where
  "kernel_version e k = k\<lparr>k_versions := dict_set (k_versions k) (stream_id e) (stream_version e)\<rparr>"

definition on_node_registered :: "kernel \<Rightarrow> kevent \<Rightarrow> kernel result" where
  "on_node_registered k e = bind_result (payload_model ''node'' as_node valid_uvsm_node (payload e)) (\<lambda>n.
     Inr (kernel_version e (k\<lparr>k_nodes := dict_set (k_nodes k) (node_id n) n\<rparr>)))"

definition on_capability_granted :: "kernel \<Rightarrow> kevent \<Rightarrow> kernel result" where
  "on_capability_granted k e = bind_result (payload_model ''grant'' as_grant valid_capability_grant (payload e)) (\<lambda>g.
     Inr (kernel_version e (k\<lparr>k_capability_grants := dict_set (k_capability_grants k) (grant_id g) g\<rparr>)))"

definition on_work_item_created :: "kernel \<Rightarrow> kevent \<Rightarrow> kernel result" where
  "on_work_item_created k e = bind_result (payload_model ''work_item'' as_work valid_work_item (payload e)) (\<lambda>w.
     Inr (kernel_version e (k\<lparr>k_work_items := dict_set (k_work_items k) (work_item_id w) w,
       k_work_edges := k_work_edges k @ parent_edges w\<rparr>)))"

definition on_work_dependency_added :: "kernel \<Rightarrow> kevent \<Rightarrow> kernel result" where
  "on_work_dependency_added k e = bind_result (payload_model ''edge'' as_edge valid_work_edge (payload e)) (\<lambda>edge.
     Inr (kernel_version e (k\<lparr>k_work_edges := k_work_edges k @ [edge]\<rparr>)))"

definition on_current_work_graph_imported :: "kernel \<Rightarrow> kevent \<Rightarrow> kernel result" where
  "on_current_work_graph_imported k e =
     bind_result (payload_model ''snapshot'' as_graph valid_current_work_graph_snapshot (payload e)) (\<lambda>s.
     Inr (kernel_version e (k\<lparr>k_nodes := dict_set_all node_id (k_nodes k) (graph_nodes s),
       k_work_items := dict_set_all work_item_id (k_work_items k) (graph_work_items s),
       k_work_edges := k_work_edges k @ graph_edges s,
       k_activation := (k_activation k)\<lparr>work_graph_snapshot_id := Some (graph_snapshot_id s)\<rparr>\<rparr>)))"

definition on_work_item_delegated :: "kernel \<Rightarrow> kevent \<Rightarrow> kernel result" where
  "on_work_item_delegated k e =
     bind_result (dict_item (k_work_items k) (stream_id e)) (\<lambda>w.
     bind_result (payload_item ''delegated_to_node_id'' as_str (payload e)) (\<lambda>nid.
     Inr (kernel_version e (k\<lparr>k_work_items := dict_set (k_work_items k) (stream_id e)
       (w\<lparr>delegated_to_node_id := nid, work_state := Ready\<rparr>)\<rparr>))))"

definition on_work_item_resume_prepared :: "kernel \<Rightarrow> kevent \<Rightarrow> kernel result" where
  "on_work_item_resume_prepared k e =
     bind_result (dict_item (k_work_items k) (stream_id e)) (\<lambda>w.
     Inr (kernel_version e (k\<lparr>k_work_items := dict_set (k_work_items k) (stream_id e) (w\<lparr>work_state := Ready\<rparr>)\<rparr>)))"

definition on_execution_created :: "kernel \<Rightarrow> kevent \<Rightarrow> kernel result" where
  "on_execution_created k e = bind_result (payload_model ''execution'' as_execution valid_execution (payload e)) (\<lambda>x.
     Inr (kernel_version e (k\<lparr>k_executions := dict_set (k_executions k) (execution_id x) x\<rparr>)))"

definition on_agent_notification_promoted :: "kernel \<Rightarrow> kevent \<Rightarrow> kernel result" where
  "on_agent_notification_promoted k e =
     (case dict_get (k_notifications k) (stream_id e) of
        None \<Rightarrow> raise_violation ''agent notification promotion references an unknown notification''
      | Some n \<Rightarrow>
        (case as_str (payload_opt (payload e) ''work_item_id'') of
           None \<Rightarrow> raise_violation ''agent notification promotion references an unknown WorkItem''
         | Some wid \<Rightarrow>
           (if \<not> dict_mem wid (k_work_items k)
            then raise_violation ''agent notification promotion references an unknown WorkItem''
            else if \<not> requires_work_item n
            then raise_violation ''agent notification without promotion condition was promoted''
            else if promoted_work_item_id n \<notin> {None, Some wid}
            then raise_violation ''agent notification promotion identity collision''
            else Inr (kernel_version e (k\<lparr>k_notifications := dict_set (k_notifications k) (stream_id e)
              (n\<lparr>promoted_work_item_id := Some wid\<rparr>)\<rparr>)))))"

text \<open>\<^verbatim>\<open>assignment_from_payload\<close> of \<^verbatim>\<open>vsm/agent_naming.py\<close>.\<close>

definition assignment_from_payload :: "payload_dict \<Rightarrow> agent_name_assignment result" where
  "assignment_from_payload p =
     (case as_assignment (payload_opt p ''assignment'') of
        None \<Rightarrow> raise_violation ''agent-name assignment event payload is invalid''
      | Some a \<Rightarrow>
        if valid_agent_name_assignment a then Inr a else Inl (ValidationError ''AgentNameAssignment''))"

definition on_agent_name_assigned :: "kernel \<Rightarrow> kevent \<Rightarrow> kernel result" where
  "on_agent_name_assigned k e = bind_result (assignment_from_payload (payload e)) (\<lambda>a.
     if dict_get (k_assignments k) (assignment_id a) \<notin> {None, Some a}
     then raise_violation ''agent-name assignment identity collision during projection''
     else if \<exists>b \<in> set (dict_values (k_assignments k)).
         assignment_agent_name b = assignment_agent_name a \<and> assignment_id b \<noteq> assignment_id a
     then raise_violation ''agent-name assignment name collision during projection''
     else case dict_get (k_executions k) (assignment_execution_id a) of
       None \<Rightarrow> raise_violation ''agent-name assignment references an unknown Execution''
     | Some x \<Rightarrow>
       (if exec_agent_name x \<noteq> None then raise_violation ''Execution already has an agent name''
        else if exec_work_item_id x \<noteq> assignment_work_item_id a
        then raise_violation ''agent-name assignment WorkItem does not match Execution''
        else Inr (kernel_version e (k\<lparr>k_assignments := dict_set (k_assignments k) (assignment_id a) a,
          k_executions := dict_set (k_executions k) (assignment_execution_id a)
            (x\<lparr>exec_agent_name := Some (assignment_agent_name a)\<rparr>)\<rparr>))))"

definition on_agent_identity_registered :: "kernel \<Rightarrow> kevent \<Rightarrow> kernel result" where
  "on_agent_identity_registered k e =
     bind_result (payload_model ''registration'' as_registration valid_agent_identity_registration (payload e)) (\<lambda>a.
     let existing = dict_get (k_registrations k) (registration_id a) in
     if existing \<notin> {None, Some a} then raise_violation ''agent identity registration collision during projection''
     else if ((\<exists>b \<in> set (dict_values (k_registrations k)).
           registration_agent_name b = registration_agent_name a \<and> registration_id b \<noteq> registration_id a)
         \<or> agent_name_is_registered k (registration_agent_name a)) \<and> existing = None
     then raise_violation ''agent identity registration name collision during projection''
     else if \<not> dict_mem (registration_node_id a) (k_nodes k)
     then raise_violation ''agent identity registration references an unknown Node''
     else Inr (kernel_version e (k\<lparr>k_registrations := dict_set (k_registrations k) (registration_id a) a\<rparr>)))"

definition on_execution_state_changed :: "kernel \<Rightarrow> kevent \<Rightarrow> kernel result" where
  "on_execution_state_changed k e =
     bind_result (dict_item (k_executions k) (stream_id e)) (\<lambda>x.
     bind_result (payload_enum ''state'' execution_state_value execution_states (payload e)) (\<lambda>s.
     bind_result (payload_item ''pause_reason'' as_opt_str (payload e)) (\<lambda>reason.
     Inr (kernel_version e (k\<lparr>k_executions := dict_set (k_executions k) (stream_id e)
       (x\<lparr>exec_state := s, pause_reason := reason\<rparr>)\<rparr>)))))"

definition on_budget_reserved :: "kernel \<Rightarrow> kevent \<Rightarrow> kernel result" where
  "on_budget_reserved k e =
     bind_result (payload_model ''reservation'' as_reservation valid_budget_reservation (payload e)) (\<lambda>r.
     Inr (kernel_version e (k\<lparr>k_budget_reservations := dict_set (k_budget_reservations k) (reservation_id r) r\<rparr>)))"

definition on_effect_planned :: "kernel \<Rightarrow> kevent \<Rightarrow> kernel result" where
  "on_effect_planned k e =
     bind_result (payload_model ''effect_lease'' as_lease valid_effect_lease (payload e)) (\<lambda>l.
     Inr (kernel_version e (k\<lparr>k_effect_leases := dict_set (k_effect_leases k) (lease_id l) l\<rparr>)))"

text \<open>\<^verbatim>\<open>payload.get(key, default)\<close> compared with the default.\<close>

definition payload_matches :: "payload_dict \<Rightarrow> string \<Rightarrow> string \<Rightarrow> bool" where
  "payload_matches p key s \<longleftrightarrow> dict_get p key \<in> {None, Some (PStr s)}"

definition on_pilot_execution_receipt_recorded :: "kernel \<Rightarrow> kevent \<Rightarrow> kernel result" where
  "on_pilot_execution_receipt_recorded k e =
     bind_result (dict_item (k_executions k) (stream_id e)) (\<lambda>x.
     if \<not> payload_matches (payload e) ''execution_id'' (stream_id e)
     then raise_violation ''PilotHost receipt Execution does not match its stream''
     else if \<not> payload_matches (payload e) ''work_item_id'' (exec_work_item_id x)
     then raise_violation ''PilotHost receipt WorkItem does not match Execution''
     else
       (let aid = payload_opt (payload e) ''assignment_id'' in
        if aid \<noteq> PNull \<and> map_option assignment_execution_id (Option.bind (as_str aid) (dict_get (k_assignments k)))
            \<noteq> Some (stream_id e)
        then raise_violation ''PilotHost receipt assignment does not match Execution''
        else if payload_opt (payload e) ''agent_name'' \<noteq> opt_str (exec_agent_name x)
        then raise_violation ''PilotHost receipt agent name does not match Execution''
        else
          bind_result (payload_enum ''state'' execution_state_value execution_states (payload e)) (\<lambda>s.
          bind_result (payload_item ''provider_session_id'' as_opt_str (payload e)) (\<lambda>sess.
          bind_result (payload_item ''pause_reason'' as_opt_str (payload e)) (\<lambda>reason.
          Inr (kernel_version e (k\<lparr>k_executions := dict_set (k_executions k) (stream_id e)
            (x\<lparr>exec_state := s, provider_session_id := sess, pause_reason := reason\<rparr>)\<rparr>)))))))"


definition on_effect_approved :: "kernel \<Rightarrow> kevent \<Rightarrow> kernel result" where
  "on_effect_approved k e =
     bind_result (payload_model ''approval'' as_approval valid_effect_approval (payload e)) (\<lambda>a.
     Inr (kernel_version e (k\<lparr>k_effect_approvals := dict_set (k_effect_approvals k) (approval_lease_id a) a\<rparr>)))"

text \<open>\<^verbatim>\<open>_effect_state\<close>, the handler of activation, unknown result and reconciliation.\<close>

definition effect_state :: "kernel \<Rightarrow> kevent \<Rightarrow> kernel result" where
  "effect_state k e =
     bind_result (dict_item (k_effect_leases k) (stream_id e)) (\<lambda>l.
     bind_result (payload_enum ''state'' effect_lease_state_value effect_lease_states (payload e)) (\<lambda>s.
     Inr (kernel_version e (set_lease_state (stream_id e) l s k))))"

definition on_human_intervention :: "kernel \<Rightarrow> kevent \<Rightarrow> kernel result" where
  "on_human_intervention k e =
     bind_result (dict_item (k_work_items k) (stream_id e)) (\<lambda>w.
     Inr (kernel_version e (k\<lparr>k_work_items := dict_set (k_work_items k) (stream_id e) (w\<lparr>work_state := WorkPaused\<rparr>),
       k_executions := pause_executions (\<lambda>x. exec_work_item_id x = stream_id e) ''human_intervention'' (k_executions k),
       k_effect_leases := revoke_leases (stream_id e) (k_effect_leases k)\<rparr>)))"

definition on_s3_star_finding_recorded :: "kernel \<Rightarrow> kevent \<Rightarrow> kernel result" where
  "on_s3_star_finding_recorded k e =
     bind_result (payload_model ''finding'' as_finding valid_s3_star_finding (payload e)) (\<lambda>f.
     let k' = k\<lparr>k_findings := dict_set (k_findings k) (finding_id f) f\<rparr> in
     if severity f = Severe
     then bind_result (dict_item (k_work_items k') (finding_work_item_id f)) (\<lambda>w.
       Inr (kernel_version e (set_work k' (w\<lparr>work_state := Blocked,
         blocking_s3_star_finding_ids := blocking_s3_star_finding_ids w @ [finding_id f]\<rparr>))))
     else Inr (kernel_version e k'))"

definition on_s3_star_risk_accepted :: "kernel \<Rightarrow> kevent \<Rightarrow> kernel result" where
  "on_s3_star_risk_accepted k e =
     bind_result (payload_item ''finding_id'' as_str (payload e)) (\<lambda>fid.
     bind_result (dict_item (k_findings k) fid) (\<lambda>f.
     bind_result (dict_item (k_work_items k) (stream_id e)) (\<lambda>w.
     Inr (kernel_version e (k\<lparr>k_findings := dict_set (k_findings k) fid (f\<lparr>accepted_by_s5 := True\<rparr>),
       k_work_items := dict_set (k_work_items k) (stream_id e) (remove_blocker fid w)\<rparr>)))))"

definition on_work_item_completed :: "kernel \<Rightarrow> kevent \<Rightarrow> kernel result" where
  "on_work_item_completed k e =
     bind_result (dict_item (k_work_items k) (stream_id e)) (\<lambda>w.
     bind_result (payload_model ''completion_evidence'' as_evidence valid_completion_evidence (payload e)) (\<lambda>ev.
     Inr (kernel_version e (k\<lparr>k_work_items := dict_set (k_work_items k) (stream_id e)
       (w\<lparr>work_state := Completed, completion_evidence := Some ev\<rparr>)\<rparr>))))"

definition on_pilot_host_disconnected :: "kernel \<Rightarrow> kevent \<Rightarrow> kernel result" where
  "on_pilot_host_disconnected k e =
     bind_result (payload_item ''pilot_host_id'' as_str (payload e)) (\<lambda>host.
     Inr (kernel_version e (k\<lparr>k_executions :=
       pause_executions (\<lambda>x. pilot_host_id x = host) ''pilot_host_disconnected'' (k_executions k)\<rparr>)))"

definition on_reference_granted :: "kernel \<Rightarrow> kevent \<Rightarrow> kernel result" where
  "on_reference_granted k e =
     bind_result (payload_model ''reference_grant'' as_reference_grant valid_reference_grant (payload e)) (\<lambda>g.
     Inr (kernel_version e (k\<lparr>k_reference_grants := dict_set (k_reference_grants k) (rg_grant_id g) g\<rparr>)))"

definition on_route_snapshot_registered :: "kernel \<Rightarrow> kevent \<Rightarrow> kernel result" where
  "on_route_snapshot_registered k e =
     bind_result (payload_model ''route_snapshot'' as_route valid_route_snapshot (payload e)) (\<lambda>s.
     Inr (kernel_version e (k\<lparr>k_route_snapshots := dict_set (k_route_snapshots k) (snapshot_id s) s\<rparr>)))"

definition on_route_snapshot_approved :: "kernel \<Rightarrow> kevent \<Rightarrow> kernel result" where
  "on_route_snapshot_approved k e =
     bind_result (dict_item (k_route_snapshots k) (stream_id e)) (\<lambda>s.
     bind_result (payload_enum ''state'' route_snapshot_state_value route_snapshot_states (payload e)) (\<lambda>next_state.
     bind_result (payload_get (payload e) ''approval'') (\<lambda>approval.
       let s' = s\<lparr>route_state := next_state\<rparr> in
       Inr (kernel_version e (k\<lparr>k_route_snapshots := dict_set (k_route_snapshots k) (stream_id e)
         (if approval = PStr ''s3_star'' then s'\<lparr>s3_star_approval_event_id := Some (event_id e)\<rparr>
          else s'\<lparr>owner_approval_event_id := Some (event_id e)\<rparr>)\<rparr>)))))"

definition on_route_snapshot_published :: "kernel \<Rightarrow> kevent \<Rightarrow> kernel result" where
  "on_route_snapshot_published k e =
     bind_result (dict_item (k_route_snapshots k) (stream_id e)) (\<lambda>s.
     Inr (kernel_version e (k\<lparr>k_route_snapshots := dict_set (k_route_snapshots k) (stream_id e)
       (s\<lparr>route_state := Published\<rparr>)\<rparr>)))"

definition check_retirement :: "kernel \<Rightarrow> route_snapshot \<Rightarrow> retirement_reason \<Rightarrow> pval \<Rightarrow> unit result" where
  "check_retirement k s reason replacement =
     (if reason = RouteDecommissioned
      then (if replacement \<noteq> PNull then raise_violation ''decommissioned RouteSnapshot cannot have a replacement''
            else Inr ())
      else case as_str replacement of
        None \<Rightarrow> raise_violation ''RouteSnapshot retirement replacement identity is invalid''
      | Some rid \<Rightarrow>
        (if rid = snapshot_id s then raise_violation ''RouteSnapshot retirement replacement must differ from source''
         else case dict_get (k_route_snapshots k) rid of
           None \<Rightarrow> raise_violation ''RouteSnapshot retirement replacement does not exist''
         | Some r \<Rightarrow>
           (if route_key r \<noteq> route_key s then raise_violation ''RouteSnapshot retirement replacement route_key mismatch''
            else if route_state r \<notin> {OwnerApproved, Published}
            then raise_violation ''RouteSnapshot retirement replacement is not approved''
            else Inr ())))"

definition on_route_snapshot_retired :: "kernel \<Rightarrow> kevent \<Rightarrow> kernel result" where
  "on_route_snapshot_retired k e =
     (if actor_type e \<noteq> Human \<or> actor_id e = None
      then raise_violation ''RouteSnapshot retirement must be an explicit human event''
      else if set (map fst (payload e)) \<noteq> {''reason_code'', ''replacement_snapshot_id'', ''state''}
      then raise_violation ''RouteSnapshot retirement payload is invalid''
      else case bind_result (payload_enum ''reason_code'' retirement_reason_value retirement_reasons (payload e)) (\<lambda>reason.
            bind_result (payload_enum ''state'' route_snapshot_state_value route_snapshot_states (payload e)) (\<lambda>s.
            Inr (reason, s))) of
        Inl _ \<Rightarrow> raise_violation ''RouteSnapshot retirement payload has invalid enum values''
      | Inr (reason, next_state) \<Rightarrow>
        (if next_state \<noteq> Retired then raise_violation ''RouteSnapshot retirement transition is invalid''
         else case dict_get (k_route_snapshots k) (stream_id e) of
           None \<Rightarrow> raise_violation ''RouteSnapshot retirement requires a published source''
         | Some s \<Rightarrow>
           (if route_state s \<noteq> Published
            then raise_violation ''RouteSnapshot retirement requires a published source''
            else bind_result (payload_get (payload e) ''replacement_snapshot_id'') (\<lambda>replacement.
              bind_result (check_retirement k s reason replacement) (\<lambda>_.
                Inr (kernel_version e (k\<lparr>k_route_snapshots := dict_set (k_route_snapshots k) (stream_id e)
                  (s\<lparr>route_state := Retired\<rparr>)\<rparr>)))))))"

section \<open>Activation\<close>

definition attempt_over :: "activation \<Rightarrow> activation" where
  "attempt_over a = a\<lparr>pending_revision_reason := None, attempt_in_progress := False,
     attempt_started_stream_version := None\<rparr>"

definition activation_version :: "kevent \<Rightarrow> activation \<Rightarrow> activation" where
  "activation_version e a = a\<lparr>a_version := stream_version e\<rparr>"

text \<open>\<open>cur\<close> is \<^verbatim>\<open>self.cursor + 1\<close>.\<close>

definition on_history_import_verified :: "nat \<Rightarrow> activation \<Rightarrow> kevent \<Rightarrow> activation result" where
  "on_history_import_verified cur a e =
     bind_result (payload_model ''receipt'' as_receipt valid_history_import_receipt (payload e)) (\<lambda>r.
     case as_str (payload_opt (payload e) ''reorientation_conversation_id'') of
       None \<Rightarrow> raise_violation ''history import event is missing its canonical Conversation''
     | Some c \<Rightarrow>
       (if c = [] then raise_violation ''history import event is missing its canonical Conversation''
        else Inr (activation_version e (attempt_over (a\<lparr>import_receipt := Some r, reorientation_conversation_id := Some c,
          sessions := dict_set_all session_ref [] (receipt_sessions r), a_state := HistoryImported,
          import_event_cursor := cur\<rparr>)))))"

definition on_reorientation_started :: "activation \<Rightarrow> kevent \<Rightarrow> activation result" where
  "on_reorientation_started a e =
     Inr (a\<lparr>a_state := ReorientationOnly, reorientation_error := None, pending_revision_reason := None,
       attempt_in_progress := True, attempt_started_stream_version := Some (stream_version e),
       a_version := stream_version e\<rparr>)"

definition on_reorientation_failed :: "activation \<Rightarrow> kevent \<Rightarrow> activation result" where
  "on_reorientation_failed a e =
     bind_result (payload_item ''error_code'' as_opt_str (payload e)) (\<lambda>err.
     Inr (activation_version e (attempt_over (a\<lparr>reorientation_error := err\<rparr>))))"

definition on_reorientation_attempt_interrupted :: "activation \<Rightarrow> kevent \<Rightarrow> activation result" where
  "on_reorientation_attempt_interrupted a e =
     (case payload_enum ''reason_code'' interruption_reason_value interruption_reasons (payload e) of
        Inl _ \<Rightarrow> raise_violation ''reorientation interruption event has an invalid reason code''
      | Inr reason \<Rightarrow>
        Inr (activation_version e (attempt_over (a\<lparr>reorientation_error := Some (interruption_reason_value reason)\<rparr>))))"

definition on_reorientation_session_checkpointed :: "activation \<Rightarrow> kevent \<Rightarrow> activation result" where
  "on_reorientation_session_checkpointed a e =
     (case as_str (payload_opt (payload e) ''provider_session_id'') of
        None \<Rightarrow> raise_violation ''reorientation checkpoint is missing its provider session''
      | Some s \<Rightarrow>
        (if s = [] then raise_violation ''reorientation checkpoint is missing its provider session''
         else Inr (activation_version e (a\<lparr>reorientation_provider_session_id := Some s\<rparr>))))"

definition on_history_query_resolved :: "activation \<Rightarrow> kevent \<Rightarrow> activation result" where
  "on_history_query_resolved a e =
     bind_result (payload_item ''operation'' as_str (payload e)) (\<lambda>op.
     Inr (activation_version e (a\<lparr>history_query_operations := insert op (history_query_operations a),
       history_query_event_ids := insert (event_id e) (history_query_event_ids a)\<rparr>)))"

definition on_history_session_index_page_verified :: "activation \<Rightarrow> kevent \<Rightarrow> activation result" where
  "on_history_session_index_page_verified a e = Inr (activation_version e a)"

definition on_reorientation_pilot_usage_recorded :: "activation \<Rightarrow> kevent \<Rightarrow> activation result" where
  "on_reorientation_pilot_usage_recorded a e =
     bind_result (payload_item ''input_tokens'' as_nat (payload e)) (\<lambda>m.
     bind_result (payload_item ''output_tokens'' as_nat (payload e)) (\<lambda>n.
     Inr (activation_version e (a\<lparr>reorientation_pilot_calls := reorientation_pilot_calls a + 1,
       reorientation_input_tokens := reorientation_input_tokens a + int m,
       reorientation_output_tokens := reorientation_output_tokens a + int n\<rparr>))))"

definition on_reorientation_assessment_accepted :: "activation \<Rightarrow> kevent \<Rightarrow> activation result" where
  "on_reorientation_assessment_accepted a e =
     bind_result (payload_model ''assessment'' as_assessment valid_reorientation_assessment (payload e)) (\<lambda>s.
     Inr (activation_version e (attempt_over (a\<lparr>assessment := Some s, a_state := AwaitingOwnerConfirmation\<rparr>))))"

definition on_reorientation_assessment_revision_requested :: "activation \<Rightarrow> kevent \<Rightarrow> activation result" where
  "on_reorientation_assessment_revision_requested a e =
     (if map_option (PStr \<circ> assessment_id) (assessment a) \<noteq> Some (payload_opt (payload e) ''prior_assessment_id'')
      then raise_violation ''assessment revision does not reference the projected assessment''
      else case payload_enum ''reason_code'' revision_reason_value revision_reasons (payload e) of
        Inl _ \<Rightarrow> raise_violation ''assessment revision event has an invalid reason code''
      | Inr reason \<Rightarrow>
        (if payload_opt (payload e) ''state'' \<noteq> PStr (activation_state_value ReorientationOnly)
         then raise_violation ''assessment revision event has an invalid activation state''
         else Inr (a\<lparr>assessment := None, reorientation_error := None, pending_revision_reason := Some reason,
           attempt_in_progress := False, attempt_started_stream_version := None, a_state := ReorientationOnly,
           a_version := stream_version e\<rparr>)))"

definition on_activation_approved :: "activation \<Rightarrow> kevent \<Rightarrow> activation result" where
  "on_activation_approved a e =
     bind_result (payload_item ''approved_at'' as_time (payload e)) (\<lambda>t.
     Inr (activation_version e (a\<lparr>a_state := Active, approved_at := Some t\<rparr>)))"

section \<open>Owner bootstrap\<close>

definition on_owner_bootstrap_issued :: "owner_bootstrap \<Rightarrow> kevent \<Rightarrow> owner_bootstrap result" where
  "on_owner_bootstrap_issued b e =
     bind_result (payload_model ''record'' as_bootstrap_code valid_bootstrap_code_record (payload e)) (\<lambda>r.
     Inr (b\<lparr>codes := dict_set (codes b) (bootstrap_id r) r, b_version := stream_version e\<rparr>))"

definition on_owner_bootstrap_exchanged :: "owner_bootstrap \<Rightarrow> kevent \<Rightarrow> owner_bootstrap result" where
  "on_owner_bootstrap_exchanged b e =
     bind_result (payload_item ''bootstrap_id'' as_str (payload e)) (\<lambda>bid.
     case dict_get (codes b) bid of
       None \<Rightarrow> raise_violation ''owner bootstrap exchange references unknown code''
     | Some r \<Rightarrow>
       bind_result (payload_item ''used_at'' as_time (payload e)) (\<lambda>t.
       bind_result (payload_model ''session'' as_browser_session valid_browser_session_record (payload e)) (\<lambda>s.
       Inr (b\<lparr>codes := dict_set (codes b) bid (r\<lparr>used_at := Some t\<rparr>),
         browser_sessions := dict_set (browser_sessions b) (session_id s) s, b_version := stream_version e\<rparr>))))"

end
