(* ===== verification/Replay.thy ===== *)
theory Replay
  imports Projection_Rebuild
begin

text \<open>
  What \<^verbatim>\<open>rebuild\<close> computes and why: the loop over pages is the fold of one event at a time,
  it always returns, and no handler writes the ledger it reads. The locale
  \<open>event_sourced\<close> is the contract between a service that logs what it does and the
  projection that replays the log: if each step's events take the old view to the new
  one, replaying the whole log gives the service's view.
\<close>

section \<open>Folding events\<close>

fun fold_result :: "('s \<Rightarrow> 'e \<Rightarrow> 's result) \<Rightarrow> 's \<Rightarrow> 'e list \<Rightarrow> 's result" where
  "fold_result f s [] = Inr s"
| "fold_result f s (e # es) = bind_result (f s e) (\<lambda>s'. fold_result f s' es)"

lemma fold_result_append:
  "fold_result f s (xs @ ys) = bind_result (fold_result f s xs) (\<lambda>s'. fold_result f s' ys)"
  by (induction xs arbitrary: s) (simp_all add: bind_result_assoc)

locale event_sourced =
  fixes step :: "'s \<Rightarrow> 's \<Rightarrow> bool"
    and log :: "'s \<Rightarrow> 'e list"
    and view :: "'s \<Rightarrow> 'v"
    and apply_one :: "'v \<Rightarrow> 'e \<Rightarrow> 'v result"
    and good :: "'s \<Rightarrow> bool"
  assumes step_good: "good s \<Longrightarrow> step s s' \<Longrightarrow> good s'"
    and step_logged: "good s \<Longrightarrow> step s s' \<Longrightarrow>
      \<exists>es. log s' = log s @ es \<and> fold_result apply_one (view s) es = Inr (view s')"
begin

lemma reachable_good: "step\<^sup>*\<^sup>* s0 s \<Longrightarrow> good s0 \<Longrightarrow> good s"
  by (induction rule: rtranclp_induct) (auto intro: step_good)

lemma replay_suffix:
  assumes "step\<^sup>*\<^sup>* s0 s" and "good s0"
  shows "\<exists>es. log s = log s0 @ es \<and> fold_result apply_one (view s0) es = Inr (view s)"
  using assms(1)
proof (induction rule: rtranclp_induct)
  case base
  show ?case by (intro exI [of _ "[]"]) simp
next
  case (step s s')
  obtain es where es: "log s = log s0 @ es" "fold_result apply_one (view s0) es = Inr (view s)"
    using step.IH by blast
  obtain es' where es': "log s' = log s @ es'" "fold_result apply_one (view s) es' = Inr (view s')"
    using step_logged [OF reachable_good [OF step.hyps(1) assms(2)] step.hyps(2)] by blast
  show ?case using es es' by (intro exI [of _ "es @ es'"]) (simp add: fold_result_append)
qed

lemma replay_log:
  assumes "step\<^sup>*\<^sup>* s0 s" and "good s0" and "log s0 = []"
  shows "fold_result apply_one (view s0) (log s) = Inr (view s)"
  using replay_suffix [OF assms(1,2)] assms(3) by auto

end

section \<open>Pages\<close>

definition apply_next :: "other_handlers \<Rightarrow> projection \<Rightarrow> kevent \<Rightarrow> projection result" where
  "apply_next others p e = bind_result (apply_event others p e) (\<lambda>p'. Inr (p'\<lparr>p_cursor := p_cursor p + 1\<rparr>))"

lemma apply_next_Inr:
  "apply_next others p e = Inr p' \<longleftrightarrow> (\<exists>q. apply_event others p e = Inr q \<and> p' = q\<lparr>p_cursor := p_cursor p + 1\<rparr>)"
  by (auto simp: apply_next_def)

lemma apply_next_cursor: "apply_next others p e = Inr p' \<Longrightarrow> p_cursor p' = p_cursor p + 1"
  by (auto simp: apply_next_def)

lemma apply_page_fold:
  "map cursor ss = [p_cursor p + 1..<p_cursor p + 1 + length ss] \<Longrightarrow>
    apply_page others p ss = fold_result (apply_next others) p (map stored ss)"
proof (induction ss arbitrary: p)
  case (Cons s ss)
  have upt: "[p_cursor p + 1..<p_cursor p + 1 + length (s # ss)]
      = (p_cursor p + 1) # [p_cursor p + 2..<p_cursor p + 2 + length ss]"
    by (subst upt_conv_Cons) simp_all
  from Cons.prems have cs: "cursor s = p_cursor p + 1"
    and rest: "map cursor ss = [p_cursor p + 2..<p_cursor p + 2 + length ss]"
    unfolding upt by simp_all
  show ?case
  proof (cases "apply_event others p (stored s)")
    case (Inr p')
    with cs rest Cons.IH [of "p'\<lparr>p_cursor := cursor s\<rparr>"] show ?thesis by (simp add: apply_next_def)
  qed (simp_all add: apply_next_def cs)
qed simp

lemma fold_next_cursor: "fold_result (apply_next others) p es = Inr p' \<Longrightarrow> p_cursor p' = p_cursor p + length es"
  by (induction es arbitrary: p) (auto dest: apply_next_cursor)

section \<open>Handlers leave the ledger alone\<close>

definition keeps_ledger :: "(projection \<Rightarrow> kevent \<Rightarrow> projection result) \<Rightarrow> bool" where
  "keeps_ledger f \<longleftrightarrow> (\<forall>p e p'. f p e = Inr p' \<longrightarrow> k_ledger (p_kernel p') = k_ledger (p_kernel p))"

lemma kernel_version_ledger [simp]: "k_ledger (kernel_version e k) = k_ledger k"
  by (simp add: kernel_version_def)

lemma on_node_registered_ledger: "ensures (\<lambda>k'. k_ledger k' = k_ledger k) (on_node_registered k e)"
  by (simp add: on_node_registered_def Let_def set_lease_state_def set_work_def split: ensures_splits)

lemma on_capability_granted_ledger: "ensures (\<lambda>k'. k_ledger k' = k_ledger k) (on_capability_granted k e)"
  by (simp add: on_capability_granted_def Let_def set_lease_state_def set_work_def split: ensures_splits)

lemma on_work_item_created_ledger: "ensures (\<lambda>k'. k_ledger k' = k_ledger k) (on_work_item_created k e)"
  by (simp add: on_work_item_created_def Let_def set_lease_state_def set_work_def split: ensures_splits)

lemma on_work_dependency_added_ledger: "ensures (\<lambda>k'. k_ledger k' = k_ledger k) (on_work_dependency_added k e)"
  by (simp add: on_work_dependency_added_def Let_def set_lease_state_def set_work_def split: ensures_splits)

lemma on_current_work_graph_imported_ledger: "ensures (\<lambda>k'. k_ledger k' = k_ledger k) (on_current_work_graph_imported k e)"
  by (simp add: on_current_work_graph_imported_def Let_def set_lease_state_def set_work_def split: ensures_splits)

lemma on_work_item_delegated_ledger: "ensures (\<lambda>k'. k_ledger k' = k_ledger k) (on_work_item_delegated k e)"
  by (simp add: on_work_item_delegated_def Let_def set_lease_state_def set_work_def split: ensures_splits)

lemma on_work_item_resume_prepared_ledger: "ensures (\<lambda>k'. k_ledger k' = k_ledger k) (on_work_item_resume_prepared k e)"
  by (simp add: on_work_item_resume_prepared_def Let_def set_lease_state_def set_work_def split: ensures_splits)

lemma on_execution_created_ledger: "ensures (\<lambda>k'. k_ledger k' = k_ledger k) (on_execution_created k e)"
  by (simp add: on_execution_created_def Let_def set_lease_state_def set_work_def split: ensures_splits)

lemma on_agent_notification_promoted_ledger: "ensures (\<lambda>k'. k_ledger k' = k_ledger k) (on_agent_notification_promoted k e)"
  by (simp add: on_agent_notification_promoted_def Let_def set_lease_state_def set_work_def split: ensures_splits)

lemma on_agent_name_assigned_ledger: "ensures (\<lambda>k'. k_ledger k' = k_ledger k) (on_agent_name_assigned k e)"
  by (simp add: on_agent_name_assigned_def Let_def set_lease_state_def set_work_def split: ensures_splits)

lemma on_agent_identity_registered_ledger: "ensures (\<lambda>k'. k_ledger k' = k_ledger k) (on_agent_identity_registered k e)"
  by (simp add: on_agent_identity_registered_def Let_def set_lease_state_def set_work_def split: ensures_splits)

lemma on_execution_state_changed_ledger: "ensures (\<lambda>k'. k_ledger k' = k_ledger k) (on_execution_state_changed k e)"
  by (simp add: on_execution_state_changed_def Let_def set_lease_state_def set_work_def split: ensures_splits)

lemma on_budget_reserved_ledger: "ensures (\<lambda>k'. k_ledger k' = k_ledger k) (on_budget_reserved k e)"
  by (simp add: on_budget_reserved_def Let_def set_lease_state_def set_work_def split: ensures_splits)

lemma on_effect_planned_ledger: "ensures (\<lambda>k'. k_ledger k' = k_ledger k) (on_effect_planned k e)"
  by (simp add: on_effect_planned_def Let_def set_lease_state_def set_work_def split: ensures_splits)

lemma on_pilot_execution_receipt_recorded_ledger: "ensures (\<lambda>k'. k_ledger k' = k_ledger k) (on_pilot_execution_receipt_recorded k e)"
  by (simp add: on_pilot_execution_receipt_recorded_def Let_def set_lease_state_def set_work_def split: ensures_splits)

lemma on_effect_approved_ledger: "ensures (\<lambda>k'. k_ledger k' = k_ledger k) (on_effect_approved k e)"
  by (simp add: on_effect_approved_def Let_def set_lease_state_def set_work_def split: ensures_splits)

lemma effect_state_ledger: "ensures (\<lambda>k'. k_ledger k' = k_ledger k) (effect_state k e)"
  by (simp add: effect_state_def Let_def set_lease_state_def set_work_def split: ensures_splits)

lemma on_human_intervention_ledger: "ensures (\<lambda>k'. k_ledger k' = k_ledger k) (on_human_intervention k e)"
  by (simp add: on_human_intervention_def Let_def set_lease_state_def set_work_def split: ensures_splits)

lemma on_s3_star_finding_recorded_ledger: "ensures (\<lambda>k'. k_ledger k' = k_ledger k) (on_s3_star_finding_recorded k e)"
  by (simp add: on_s3_star_finding_recorded_def Let_def set_lease_state_def set_work_def split: ensures_splits)

lemma on_s3_star_risk_accepted_ledger: "ensures (\<lambda>k'. k_ledger k' = k_ledger k) (on_s3_star_risk_accepted k e)"
  by (simp add: on_s3_star_risk_accepted_def Let_def set_lease_state_def set_work_def split: ensures_splits)

lemma on_work_item_completed_ledger: "ensures (\<lambda>k'. k_ledger k' = k_ledger k) (on_work_item_completed k e)"
  by (simp add: on_work_item_completed_def Let_def set_lease_state_def set_work_def split: ensures_splits)

lemma on_pilot_host_disconnected_ledger: "ensures (\<lambda>k'. k_ledger k' = k_ledger k) (on_pilot_host_disconnected k e)"
  by (simp add: on_pilot_host_disconnected_def Let_def set_lease_state_def set_work_def split: ensures_splits)

lemma on_reference_granted_ledger: "ensures (\<lambda>k'. k_ledger k' = k_ledger k) (on_reference_granted k e)"
  by (simp add: on_reference_granted_def Let_def set_lease_state_def set_work_def split: ensures_splits)

lemma on_route_snapshot_registered_ledger: "ensures (\<lambda>k'. k_ledger k' = k_ledger k) (on_route_snapshot_registered k e)"
  by (simp add: on_route_snapshot_registered_def Let_def set_lease_state_def set_work_def split: ensures_splits)

lemma on_route_snapshot_approved_ledger: "ensures (\<lambda>k'. k_ledger k' = k_ledger k) (on_route_snapshot_approved k e)"
  by (simp add: on_route_snapshot_approved_def Let_def set_lease_state_def set_work_def split: ensures_splits)

lemma on_route_snapshot_published_ledger: "ensures (\<lambda>k'. k_ledger k' = k_ledger k) (on_route_snapshot_published k e)"
  by (simp add: on_route_snapshot_published_def Let_def set_lease_state_def set_work_def split: ensures_splits)

lemma on_route_snapshot_retired_ledger: "ensures (\<lambda>k'. k_ledger k' = k_ledger k) (on_route_snapshot_retired k e)"
  by (simp add: on_route_snapshot_retired_def Let_def set_lease_state_def set_work_def split: ensures_splits)

lemmas handlers_ledger =
  on_node_registered_ledger on_capability_granted_ledger on_work_item_created_ledger
  on_work_dependency_added_ledger on_current_work_graph_imported_ledger on_work_item_delegated_ledger
  on_work_item_resume_prepared_ledger on_execution_created_ledger on_agent_notification_promoted_ledger
  on_agent_name_assigned_ledger on_agent_identity_registered_ledger on_execution_state_changed_ledger
  on_budget_reserved_ledger on_effect_planned_ledger on_pilot_execution_receipt_recorded_ledger
  on_effect_approved_ledger effect_state_ledger on_human_intervention_ledger
  on_s3_star_finding_recorded_ledger on_s3_star_risk_accepted_ledger on_work_item_completed_ledger
  on_pilot_host_disconnected_ledger on_reference_granted_ledger on_route_snapshot_registered_ledger
  on_route_snapshot_approved_ledger on_route_snapshot_published_ledger on_route_snapshot_retired_ledger

lemma kernel_handlers_ledger:
  assumes "(ty, f) \<in> set kernel_handlers" and "f k e = Inr k'"
  shows "k_ledger k' = k_ledger k"
proof -
  have "\<forall>(ty, f) \<in> set kernel_handlers. ensures (\<lambda>k'. k_ledger k' = k_ledger k) (f k e)"
    unfolding kernel_handlers_def list.set ball_simps split_conv by (intro conjI handlers_ledger TrueI)
  then show ?thesis using assms by (auto simp: ensures_def)
qed

lemma handler_keeps_ledger:
  assumes "handler others ty = Some f" and "\<And>g. others ty = Some g \<Longrightarrow> keeps_ledger g"
  shows "keeps_ledger f"
proof -
  have "keeps_ledger on_agent_notification_delivered"
    by (auto simp: keeps_ledger_def on_agent_notification_delivered_def Let_def split: prod.splits option.splits if_splits)
  moreover have "keeps_ledger (on_kernel g)" if "map_of kernel_handlers ty = Some g" for g
    using kernel_handlers_ledger [OF map_of_SomeD [OF that]] by (auto simp: keeps_ledger_def on_kernel_def)
  moreover have "keeps_ledger (on_activation g)" for g
    by (auto simp: keeps_ledger_def on_activation_def)
  moreover have "keeps_ledger (on_auth g)" for g
    by (auto simp: keeps_ledger_def on_auth_def)
  ultimately show ?thesis
    using assms by (auto simp: handler_def split: if_splits option.splits)
qed

lemma apply_event_ledger:
  assumes "\<And>ty g. others ty = Some g \<Longrightarrow> keeps_ledger g" and "apply_event others p e = Inr p'"
  shows "k_ledger (p_kernel p') = k_ledger (p_kernel p)"
proof (cases "external_prefix (event_type e)")
  case None
  with assms(2) obtain f where f: "handler others (event_type e) = Some f" and "f p e = Inr p'"
    by (auto simp: apply_event_def split: if_splits option.splits)
  moreover have "keeps_ledger f" using handler_keeps_ledger [OF f] assms(1) by blast
  ultimately show ?thesis by (simp add: keeps_ledger_def)
next
  case (Some pre)
  with assms(2) show ?thesis by (simp add: apply_event_def split: if_splits)
qed

lemma fold_next_ledger:
  assumes "\<And>ty g. others ty = Some g \<Longrightarrow> keeps_ledger g"
  shows "fold_result (apply_next others) p es = Inr p' \<Longrightarrow> k_ledger (p_kernel p') = k_ledger (p_kernel p)"
proof (induction es arbitrary: p)
  case (Cons e es)
  from Cons.prems obtain q where q: "apply_event others p e = Inr q"
    and rest: "fold_result (apply_next others) (q\<lparr>p_cursor := p_cursor p + 1\<rparr>) es = Inr p'"
    using apply_next_Inr by auto
  from Cons.IH [OF rest] apply_event_ledger [OF assms q] show ?case by simp
qed simp

section \<open>The loop is the fold, and it returns\<close>

lemma rebuild_loop_fold:
  assumes others: "\<And>ty g. others ty = Some g \<Longrightarrow> keeps_ledger g"
    and inv: "ledger_inv L" and n: "0 < n"
  shows "k_ledger (p_kernel p) = L \<Longrightarrow> p_cursor p \<le> length (ledger_events L) \<Longrightarrow>
    rebuild_loop others n p = Some (fold_result (apply_next others) p (drop (p_cursor p) (ledger_events L)))"
proof (induction "length (ledger_events L) - p_cursor p" arbitrary: p rule: less_induct)
  case less
  let ?c = "p_cursor p"
  let ?es = "drop ?c (ledger_events L)"
  obtain ss where ss: "ledger_page L (int ?c) n = Inr ss" and st: "map stored ss = take (nat n) ?es"
    and cs: "map cursor ss = [?c + 1..<?c + 1 + length ss]"
    using memory.page_law [OF inv, of "int ?c" n] n by auto
  have step: "rebuild_loop others n p =
      (if ss = [] then Some (Inr p)
       else (case apply_page others p ss of Inl err \<Rightarrow> Some (Inl err) | Inr p' \<Rightarrow> rebuild_loop others n p'))"
    using ss less.prems(1) by (subst rebuild_loop.simps) simp
  show ?case
  proof (cases "?es = []")
    case True
    then have "ss = []" using st by simp
    with step True show ?thesis by simp
  next
    case False
    then have ne: "ss \<noteq> []" using st n by (metis list.map_disc_iff take_eq_Nil zero_less_nat_eq less_irrefl)
    have page: "apply_page others p ss = fold_result (apply_next others) p (take (nat n) ?es)"
      using apply_page_fold [OF cs] st by simp
    have split: "fold_result (apply_next others) p ?es =
        bind_result (fold_result (apply_next others) p (take (nat n) ?es))
          (\<lambda>q. fold_result (apply_next others) q (drop (nat n) ?es))"
      by (metis append_take_drop_id fold_result_append)
    show ?thesis
    proof (cases "fold_result (apply_next others) p (take (nat n) ?es)")
      case (Inl err)
      then show ?thesis using step ne page split by simp
    next
      case (Inr q)
      have qc: "p_cursor q = ?c + min (nat n) (length ?es)"
        using fold_next_cursor [OF Inr] by (simp add: min.commute)
      have ql: "k_ledger (p_kernel q) = L" using fold_next_ledger [OF others Inr] less.prems(1) by simp
      have "0 < length ?es" using False by simp
      then have lt: "length (ledger_events L) - p_cursor q < length (ledger_events L) - ?c"
        and le: "p_cursor q \<le> length (ledger_events L)"
        using qc n by auto
      have "rebuild_loop others n q = Some (fold_result (apply_next others) q (drop (p_cursor q) (ledger_events L)))"
        by (rule less.hyps [OF lt ql le])
      moreover have "drop (p_cursor q) (ledger_events L) = drop (nat n) ?es"
        using qc by (auto simp: min_def add.commute)
      ultimately show ?thesis using step ne page split Inr by simp
    qed
  qed
qed

end
