(* ===== verification/History_Tools.thy ===== *)
theory History_Tools
  imports Activation_Service
begin

text \<open>
  \<^verbatim>\<open>HistoryToolService\<close> of \<^verbatim>\<open>vsm/activation/reorientation.py\<close>: the audited history queries a
  reorientation may ask of LETHE, and the complete scan of the session index before it.
  The reader is a port (\<^verbatim>\<open>HistoryReader\<close>), a record of functions. A page's JSON value is its
  canonical text, with the session references a list page carries beside it. A page is
  stored as a blob before its event is written, so a refused event leaves the blob: an
  operation returns its outcome beside the activation and the ledger reached.
\<close>

record history_page =
  page_json :: string
  page_session_refs :: "string option list option"
  next_cursor :: "string option"
  source_cursor :: string

record history_reader =
  list_sessions :: "string option \<Rightarrow> history_page result"
  read_timeline :: "string \<Rightarrow> string option \<Rightarrow> history_page result"
  read_raw :: "string \<Rightarrow> string option \<Rightarrow> history_page result"
  search_history :: "string \<Rightarrow> string option \<Rightarrow> history_page result"
  resolve_reference :: "string \<Rightarrow> string option \<Rightarrow> history_page result"
  list_open_commitments :: "string option \<Rightarrow> history_page result"
  get_current_state :: "string option \<Rightarrow> string option \<Rightarrow> history_page result"

record history_tool_result =
  tool_action_id :: string
  tool_operation :: string
  tool_result_json :: string
  tool_result_blob_ref :: string
  tool_result_sha256 :: string
  tool_next_cursor :: "string option"
  tool_source_cursor :: string
  tool_result_event_id :: string
  tool_event_cursor :: nat

definition valid_history_tool_result :: "history_tool_result \<Rightarrow> bool" where
  "valid_history_tool_result r \<longleftrightarrow> valid_identifier (tool_action_id r) \<and> non_blank (tool_operation r)
     \<and> valid_blob_ref (tool_result_blob_ref r) \<and> is_sha256 (tool_result_sha256 r)
     \<and> option_all non_blank (tool_next_cursor r) \<and> non_blank (tool_source_cursor r)
     \<and> valid_identifier (tool_result_event_id r) \<and> 0 < tool_event_cursor r"

definition make_tool_result :: "hashing \<Rightarrow> string \<Rightarrow> string \<Rightarrow> history_page \<Rightarrow> string \<Rightarrow> string \<Rightarrow> nat \<Rightarrow> history_tool_result result" where
  "make_tool_result h aid op page blob_ref eid cur =
     (let r = \<lparr>tool_action_id = aid, tool_operation = op, tool_result_json = page_json page,
               tool_result_blob_ref = blob_ref, tool_result_sha256 = sha256 h (page_json page),
               tool_next_cursor = next_cursor page, tool_source_cursor = source_cursor page,
               tool_result_event_id = eid, tool_event_cursor = cur\<rparr>
      in if valid_history_tool_result r then Inr r else Inl (ValidationError ''HistoryToolResult''))"

section \<open>One query\<close>

definition require_argument :: "read_history_action \<Rightarrow> string result" where
  "require_argument x =
     (case argument x of None \<Rightarrow> raise_violation (operation x @ '' requires an explicit argument'') | Some s \<Rightarrow> Inr s)"

definition read_history_page :: "history_reader \<Rightarrow> read_history_action \<Rightarrow> history_page result" where
  "read_history_page rd x =
     (if operation x = ''list_sessions''
      then raise_violation ''list_sessions is a deterministic reorientation preflight, not a Pilot tool''
      else if operation x = ''read_timeline''
      then bind_result (require_argument x) (\<lambda>s. read_timeline rd s (page_cursor x))
      else if operation x = ''read_raw''
      then bind_result (require_argument x) (\<lambda>s. read_raw rd s (page_cursor x))
      else if operation x = ''search''
      then bind_result (require_argument x) (\<lambda>s. search_history rd s (page_cursor x))
      else if operation x = ''resolve_reference''
      then bind_result (require_argument x) (\<lambda>s. resolve_reference rd s (page_cursor x))
      else if operation x = ''list_open_commitments''
      then (if argument x \<noteq> None then raise_violation (operation x @ '' does not accept an argument'')
            else list_open_commitments rd (page_cursor x))
      else if operation x = ''get_current_state'' then get_current_state rd (argument x) (page_cursor x)
      else raise_violation (''unsupported history operation: '' @ operation x))"

definition resolve ::
  "hashing \<Rightarrow> activation \<Rightarrow> kledger \<Rightarrow> history_reader \<Rightarrow> nat \<Rightarrow> time \<Rightarrow> read_history_action \<Rightarrow> string \<Rightarrow> string
    \<Rightarrow> (history_tool_result result \<times> activation \<times> kledger) result" where
  "resolve h a L rd max_result_bytes t x aid key =
     (if a_state a \<noteq> ReorientationOnly then raise_violation ''history tools require reorientation-only state''
      else bind_result (read_history_page rd x) (\<lambda>page.
        if max_result_bytes < length (page_json page)
        then raise_violation ''LETHE history page exceeded max_result_bytes; implicit truncation is forbidden''
        else
          (let (blob_ref, L1) = put_blob (sha256 h) L (page_json page) in
           Inr (case activation_record h a L1 t ''history_query_resolved''
                  [(''action_id'', PStr (action_id x)), (''operation'', PStr (operation x)),
                   (''argument'', opt_str (argument x)), (''page_cursor'', opt_str (page_cursor x)),
                   (''next_cursor'', opt_str (next_cursor page)), (''source_cursor'', PStr (source_cursor page)),
                   (''result_blob_ref'', PStr blob_ref), (''result_sha256'', PStr (sha256 h (page_json page)))]
                  PilotActor (Some aid) key of
                Inl err \<Rightarrow> (Inl err, a, L1)
              | Inr (e, cur, a', L2) \<Rightarrow>
                  (make_tool_result h (action_id x) (operation x) page blob_ref (event_id e) cur,
                   a'\<lparr>history_query_operations := insert (operation x) (history_query_operations a'),
                      history_query_event_ids := insert (event_id e) (history_query_event_ids a')\<rparr>, L2)))))"

section \<open>The scan of the session index\<close>

text \<open>
  The reading loop ends when a page has no next cursor; whether it does is the reader's
  affair, so not returning is \<^const>\<open>None\<close>. \<open>observed\<close> is the set of references seen.
\<close>

definition page_refs :: "nat \<Rightarrow> history_page \<Rightarrow> string list result" where
  "page_refs max_result_bytes page =
     (case page_session_refs page of
        None \<Rightarrow> raise_violation ''LETHE list_sessions result must be a list''
      | Some items \<Rightarrow>
        (if max_result_bytes < length (page_json page)
         then raise_violation ''LETHE session index page exceeded max_result_bytes''
         else if None \<in> set items then raise_violation ''LETHE session index item is invalid''
         else Inr (map the items)))"

partial_function (option) read_index ::
  "history_reader \<Rightarrow> nat \<Rightarrow> string option \<Rightarrow> string set \<Rightarrow> (string option \<times> history_page) list
    \<Rightarrow> (string set \<times> (string option \<times> history_page) list) result option" where
  "read_index rd m c observed pages =
     (case bind_result (list_sessions rd c) (\<lambda>page. bind_result (page_refs m page) (\<lambda>refs. Inr (page, refs))) of
        Inl err \<Rightarrow> Some (Inl err)
      | Inr (page, refs) \<Rightarrow>
        (if next_cursor page = None then Some (Inr (observed \<union> set refs, pages @ [(c, page)]))
         else read_index rd m (next_cursor page) (observed \<union> set refs) (pages @ [(c, page)])))"

fun record_index_pages ::
  "hashing \<Rightarrow> activation \<Rightarrow> kledger \<Rightarrow> time \<Rightarrow> string \<Rightarrow> string \<Rightarrow> string list \<Rightarrow> (string option \<times> history_page) list
    \<Rightarrow> history_tool_result list result \<times> activation \<times> kledger" where
  "record_index_pages h a L t aid key uuids [] = (Inr [], a, L)"
| "record_index_pages h a L t aid key uuids ((c, page) # rest) =
     (let (blob_ref, L1) = put_blob (sha256 h) L (page_json page) in
      case activation_record h a L1 t ''history_session_index_page_verified''
        [(''page_cursor'', opt_str c), (''next_cursor'', opt_str (next_cursor page)),
         (''result_blob_ref'', PStr blob_ref), (''result_sha256'', PStr (sha256 h (page_json page)))]
        SystemActor (Some aid)
        (key @ '':'' @ (case c of None \<Rightarrow> ''first'' | Some s \<Rightarrow> if s = [] then ''first'' else s)) of
        Inl err \<Rightarrow> (Inl err, a, L1)
      | Inr (e, cur, a', L2) \<Rightarrow>
        (case bind_result (new_id ''action'' (hd uuids)) (\<lambda>x.
                make_tool_result h x ''list_sessions'' page blob_ref (event_id e) cur) of
           Inl err \<Rightarrow> (Inl err, a', L2)
         | Inr r \<Rightarrow>
           (case record_index_pages h a' L2 t aid key (tl uuids) rest of
              (Inl err, a'', L'') \<Rightarrow> (Inl err, a'', L'')
            | (Inr rs, a'', L'') \<Rightarrow> (Inr (r # rs), a'', L''))))"

definition scan_session_index ::
  "hashing \<Rightarrow> activation \<Rightarrow> kledger \<Rightarrow> history_reader \<Rightarrow> nat \<Rightarrow> time \<Rightarrow> history_import_receipt \<Rightarrow> string \<Rightarrow> string
    \<Rightarrow> string list \<Rightarrow> (history_tool_result list result \<times> activation \<times> kledger) option" where
  "scan_session_index h a L rd m t receipt aid key uuids =
     (case read_index rd m None {} [] of
        None \<Rightarrow> None
      | Some (Inl err) \<Rightarrow> Some (Inl err, a, L)
      | Some (Inr (observed, pages)) \<Rightarrow>
        (if observed \<noteq> set (map fst (sessions a)) \<or> card observed \<noteq> session_count receipt
         then Some (raise_violation ''LETHE session index differs from verified import receipt'', a, L)
         else Some (record_index_pages h a L t aid key uuids pages)))"

end
