(* ===== verification/Kernel_Step.thy ===== *)
theory Kernel_Step
  imports Replay History_Tools
begin

text \<open>
  The Kernel as a state machine: one step is one successful call of an operation of the
  Kernel, its activation service or its owner bootstrap, with arguments pydantic has
  validated, or an event LETHE writes to its reserved history streams. Each group of
  operations is a relation of its own, so that the invariants are proved group by group.
  \<open>versions_inv\<close> ties what the services believe about their streams to the ledger.
\<close>

section \<open>Who writes which events\<close>

definition is_kernel_type :: "string \<Rightarrow> bool" where
  "is_kernel_type ty \<longleftrightarrow> ty = ''agent_notification_delivered'' \<or> dict_mem ty kernel_handlers"

definition is_activation_type :: "string \<Rightarrow> bool" where
  "is_activation_type ty \<longleftrightarrow> dict_mem ty activation_handlers"

definition is_auth_type :: "string \<Rightarrow> bool" where
  "is_auth_type ty \<longleftrightarrow> dict_mem ty auth_handlers"

lemmas type_defs = is_kernel_type_def is_activation_type_def is_auth_type_def dict_mem_def

lemma kernel_type_disjoint:
  assumes "is_kernel_type ty"
  shows "\<not> is_activation_type ty \<and> \<not> is_auth_type ty \<and> external_prefix ty = None"
proof -
  have "\<forall>ty \<in> insert ''agent_notification_delivered'' (set (map fst kernel_handlers)).
      ty \<notin> set (map fst activation_handlers) \<and> ty \<notin> set (map fst auth_handlers) \<and> external_prefix ty = None"
    by (simp add: kernel_handlers_def activation_handlers_def auth_handlers_def external_prefix_def)
  moreover have "ty \<in> insert ''agent_notification_delivered'' (set (map fst kernel_handlers))"
    using assms by (simp only: type_defs insert_iff)
  ultimately show ?thesis unfolding type_defs by (rule bspec)
qed

lemma activation_type_disjoint:
  assumes "is_activation_type ty"
  shows "\<not> is_kernel_type ty \<and> \<not> is_auth_type ty \<and> external_prefix ty = None"
proof -
  have "\<forall>ty \<in> set (map fst activation_handlers). ty \<notin> set (map fst auth_handlers) \<and> external_prefix ty = None"
    by (simp add: activation_handlers_def auth_handlers_def external_prefix_def)
  with assms have "\<not> is_auth_type ty \<and> external_prefix ty = None" unfolding type_defs by blast
  with assms kernel_type_disjoint [of ty] show ?thesis by blast
qed

lemma auth_type_disjoint:
  assumes "is_auth_type ty"
  shows "\<not> is_kernel_type ty \<and> \<not> is_activation_type ty \<and> external_prefix ty = None"
proof -
  have "\<forall>ty \<in> set (map fst auth_handlers). external_prefix ty = None"
    by (simp add: auth_handlers_def external_prefix_def)
  with assms have "external_prefix ty = None" unfolding type_defs by blast
  with assms kernel_type_disjoint [of ty] activation_type_disjoint [of ty] show ?thesis by blast
qed

section \<open>Streams and versions\<close>

definition stream_length :: "kledger \<Rightarrow> string \<Rightarrow> nat" where
  "stream_length L sid = length (stream_events (ledger_events L) sid)"

definition versions_inv :: "kernel \<Rightarrow> bool" where
  "versions_inv k \<longleftrightarrow>
     (let L = k_ledger k; ds = data_space_id (k_data_space k); a = k_activation k; b = k_owner_bootstrap k in
      ledger_inv L \<and> ledger_data_space_id L = ds \<and> a_data_space_id a = ds \<and> b_data_space_id b = ds \<and>
      (\<forall>sid. version_of (k_versions k) sid \<le> stream_length L sid) \<and>
      a_version a \<le> stream_length L (a_stream_id a) \<and> b_version b \<le> stream_length L (b_stream_id b) \<and>
      (\<forall>e \<in> set (ledger_events L).
         (is_kernel_type (event_type e) \<longrightarrow> stream_version e \<le> version_of (k_versions k) (stream_id e)) \<and>
         (is_activation_type (event_type e) \<longrightarrow> stream_version e \<le> a_version a) \<and>
         (is_auth_type (event_type e) \<longrightarrow> stream_version e \<le> b_version b)))"

text \<open>An append by the writer that knows all events of its type on the stream is never a duplicate.\<close>

lemma append_event_new:
  assumes inv: "ledger_inv L"
    and app: "append_event h L ds sid v ty p t act aid corr caus key = Inr (e, r, L')"
    and known: "\<forall>d \<in> set (ledger_events L). event_type d = ty \<and> stream_id d = sid \<longrightarrow> stream_version d \<le> v"
  shows "ledger_events L' = ledger_events L @ [e]" and "ledger_inv L'"
    and "ledger_data_space_id L' = ledger_data_space_id L"
    and "result_stream_version r = v + 1" and "stream_version e = v + 1" and "v = stream_length L sid"
    and "result_cursor r = length (ledger_events L) + 1"
    and "event_data_space_id e = ds" and "stream_id e = sid" and "event_type e = ty" and "payload e = p"
    and "actor_type e = act" and "actor_id e = aid" and "valid_event_envelope e"
proof -
  note ev = make_event_Inr [OF append_event_Inr(2) [OF app]]
  note la = append_event_Inr(1) [OF app]
  have "e \<notin> set (ledger_events L)"
  proof
    assume "e \<in> set (ledger_events L)"
    with known ev(2,4) have "stream_version e \<le> v" by blast
    with ev(3) show False by simp
  qed
  with ledger_append_events [OF inv la] ev show "ledger_events L' = ledger_events L @ [e]"
    "result_stream_version r = v + 1" "v = stream_length L sid" "result_cursor r = length (ledger_events L) + 1"
    by (auto simp: stream_length_def)
  show "ledger_inv L'" by (rule ledger_append_inv [OF inv la])
  show "ledger_data_space_id L' = ledger_data_space_id L" by (rule ledger_append_data_space [OF la])
  show "stream_version e = v + 1" using ev(3) by simp
  show "event_data_space_id e = ds" "stream_id e = sid" "event_type e = ty" "payload e = p"
    "actor_type e = act" "actor_id e = aid" "valid_event_envelope e"
    using ev by simp_all
qed

lemma stream_length_snoc:
  "ledger_events L' = ledger_events L @ [e] \<Longrightarrow>
    stream_length L' sid = stream_length L sid + (if stream_id e = sid then 1 else 0)"
  by (simp add: stream_length_def stream_events_def)

text \<open>The invariant after one more event: versions only grow, and the event's writer knows it.\<close>

lemma versions_inv_append:
  assumes inv: "versions_inv k"
    and L: "ledger_events (k_ledger k') = ledger_events (k_ledger k) @ [e]" "ledger_inv (k_ledger k')"
      "ledger_data_space_id (k_ledger k') = ledger_data_space_id (k_ledger k)"
    and same: "k_data_space k' = k_data_space k"
      "a_data_space_id (k_activation k') = a_data_space_id (k_activation k)"
      "b_data_space_id (k_owner_bootstrap k') = b_data_space_id (k_owner_bootstrap k)"
    and grow: "\<And>sid. version_of (k_versions k) sid \<le> version_of (k_versions k') sid"
      "a_version (k_activation k) \<le> a_version (k_activation k')"
      "b_version (k_owner_bootstrap k) \<le> b_version (k_owner_bootstrap k')"
    and bound: "\<And>sid. version_of (k_versions k') sid \<le> stream_length (k_ledger k') sid"
      "a_version (k_activation k') \<le> stream_length (k_ledger k') (a_stream_id (k_activation k'))"
      "b_version (k_owner_bootstrap k') \<le> stream_length (k_ledger k') (b_stream_id (k_owner_bootstrap k'))"
    and writer: "is_kernel_type (event_type e) \<Longrightarrow> stream_version e \<le> version_of (k_versions k') (stream_id e)"
      "is_activation_type (event_type e) \<Longrightarrow> stream_version e \<le> a_version (k_activation k')"
      "is_auth_type (event_type e) \<Longrightarrow> stream_version e \<le> b_version (k_owner_bootstrap k')"
  shows "versions_inv k'"
  unfolding versions_inv_def Let_def
proof (intro conjI ballI allI impI)
  note parts = inv [unfolded versions_inv_def Let_def]
  fix d assume d: "d \<in> set (ledger_events (k_ledger k'))"
  show "stream_version d \<le> version_of (k_versions k') (stream_id d)" if "is_kernel_type (event_type d)"
  proof (cases "d = e")
    case False
    with d L(1) parts that have "stream_version d \<le> version_of (k_versions k) (stream_id d)" by simp
    then show ?thesis using grow(1) le_trans by blast
  qed (use writer(1) that in simp)
  show "stream_version d \<le> a_version (k_activation k')" if "is_activation_type (event_type d)"
  proof (cases "d = e")
    case False
    with d L(1) parts that have "stream_version d \<le> a_version (k_activation k)" by simp
    then show ?thesis using grow(2) by simp
  qed (use writer(2) that in simp)
  show "stream_version d \<le> b_version (k_owner_bootstrap k')" if "is_auth_type (event_type d)"
  proof (cases "d = e")
    case False
    with d L(1) parts that have "stream_version d \<le> b_version (k_owner_bootstrap k)" by simp
    then show ?thesis using grow(3) by simp
  qed (use writer(3) that in simp)
qed (use inv L same bound in \<open>simp_all add: versions_inv_def Let_def\<close>)

lemma versions_invD:
  assumes "versions_inv k"
  shows "ledger_inv (k_ledger k)"
    and "version_of (k_versions k) sid \<le> stream_length (k_ledger k) sid"
    and "a_version (k_activation k) \<le> stream_length (k_ledger k) (a_stream_id (k_activation k))"
    and "b_version (k_owner_bootstrap k) \<le> stream_length (k_ledger k) (b_stream_id (k_owner_bootstrap k))"
  using assms by (simp_all add: versions_inv_def Let_def)

text \<open>What \<^verbatim>\<open>Kernel._record\<close> does when it succeeds.\<close>

lemma kernel_record_step:
  assumes inv: "versions_inv k" and ty: "is_kernel_type ty"
    and rec: "kernel_record h k t sid ty p act aid key corr caus = Inr (e, k1)"
  shows "k1 = k\<lparr>k_ledger := k_ledger k1, k_versions := dict_set (k_versions k) sid (stream_version e)\<rparr>"
    and "ledger_events (k_ledger k1) = ledger_events (k_ledger k) @ [e]"
    and "versions_inv k1"
    and "version_of (k_versions k) sid = stream_length (k_ledger k) sid"
    and "stream_version e = stream_length (k_ledger k) sid + 1"
    and "event_data_space_id e = data_space_id (k_data_space k)" and "stream_id e = sid" and "event_type e = ty"
    and "payload e = p" and "actor_type e = act" and "actor_id e = aid" and "valid_event_envelope e"
proof -
  let ?v = "version_of (k_versions k) sid"
  from rec obtain r L' where app: "append_event h (k_ledger k) (data_space_id (k_data_space k)) sid ?v
      ty p t act aid corr caus key = Inr (e, r, L')"
    and k1: "k1 = k\<lparr>k_ledger := L', k_versions := dict_set (k_versions k) sid (result_stream_version r)\<rparr>"
    by (auto simp: kernel_record_def)
  have known: "\<forall>d \<in> set (ledger_events (k_ledger k)). event_type d = ty \<and> stream_id d = sid \<longrightarrow> stream_version d \<le> ?v"
    using inv ty by (auto simp: versions_inv_def Let_def)
  note new = append_event_new [OF versions_invD(1) [OF inv] app known]
  show "k1 = k\<lparr>k_ledger := k_ledger k1, k_versions := dict_set (k_versions k) sid (stream_version e)\<rparr>"
    using k1 new(4,5) by simp
  show "ledger_events (k_ledger k1) = ledger_events (k_ledger k) @ [e]" using k1 new(1) by simp
  show "?v = stream_length (k_ledger k) sid" "stream_version e = stream_length (k_ledger k) sid + 1"
    using new(5,6) by simp_all
  show "event_data_space_id e = data_space_id (k_data_space k)" "stream_id e = sid" "event_type e = ty"
    "payload e = p" "actor_type e = act" "actor_id e = aid" "valid_event_envelope e"
    using new by simp_all
  have len: "stream_length L' sid' = stream_length (k_ledger k) sid' + (if sid = sid' then 1 else 0)" for sid'
    using stream_length_snoc [OF new(1)] new(9) by simp
  show "versions_inv k1"
    by (rule versions_inv_append [OF inv, where e = e])
      (use new(1-6,9,10) len versions_invD [OF inv] kernel_type_disjoint [OF ty] in \<open>simp_all add: k1 le_SucI\<close>)
qed

text \<open>The same for \<^verbatim>\<open>ActivationService._record\<close> and \<^verbatim>\<open>OwnerBootstrapService._record\<close>.\<close>

lemma activation_record_step:
  assumes inv: "versions_inv k" and ty: "is_activation_type ty"
    and rec: "activation_record h (k_activation k) (k_ledger k) t ty p act aid key = Inr (e, cur, a1, L1)"
  shows "a1 = (k_activation k)\<lparr>a_version := stream_version e\<rparr>"
    and "ledger_events L1 = ledger_events (k_ledger k) @ [e]"
    and "versions_inv (k\<lparr>k_activation := a1, k_ledger := L1\<rparr>)"
    and "a_version (k_activation k) = stream_length (k_ledger k) (a_stream_id (k_activation k))"
    and "stream_version e = stream_length (k_ledger k) (a_stream_id (k_activation k)) + 1"
    and "event_data_space_id e = data_space_id (k_data_space k)"
    and "stream_id e = a_stream_id (k_activation k)" and "event_type e = ty"
    and "payload e = p" and "cur = length (ledger_events (k_ledger k)) + 1"
proof -
  let ?a = "k_activation k"
  from rec obtain r where app: "append_event h (k_ledger k) (a_data_space_id ?a) (a_stream_id ?a) (a_version ?a)
      ty p t act aid (Some (a_stream_id ?a)) None key = Inr (e, r, L1)"
    and a1: "a1 = ?a\<lparr>a_version := result_stream_version r\<rparr>" "cur = result_cursor r"
    by (auto simp: activation_record_def)
  have known: "\<forall>d \<in> set (ledger_events (k_ledger k)). event_type d = ty \<and> stream_id d = a_stream_id ?a \<longrightarrow>
      stream_version d \<le> a_version ?a"
    using inv ty by (auto simp: versions_inv_def Let_def)
  note new = append_event_new [OF versions_invD(1) [OF inv] app known]
  show "a1 = ?a\<lparr>a_version := stream_version e\<rparr>" using a1 new(4,5) by simp
  show "ledger_events L1 = ledger_events (k_ledger k) @ [e]" by (fact new(1))
  show "a_version ?a = stream_length (k_ledger k) (a_stream_id ?a)"
    "stream_version e = stream_length (k_ledger k) (a_stream_id ?a) + 1" using new(5,6) by simp_all
  show "event_data_space_id e = data_space_id (k_data_space k)"
    using new(8) inv by (simp add: versions_inv_def Let_def)
  show "stream_id e = a_stream_id ?a" "event_type e = ty" "payload e = p"
    "cur = length (ledger_events (k_ledger k)) + 1" using new a1 by simp_all
  have len: "stream_length L1 sid' = stream_length (k_ledger k) sid' + (if a_stream_id ?a = sid' then 1 else 0)" for sid'
    using stream_length_snoc [OF new(1)] new(9) by simp
  show "versions_inv (k\<lparr>k_activation := a1, k_ledger := L1\<rparr>)"
    by (rule versions_inv_append [OF inv, where e = e])
      (use new(1-6,9,10) len versions_invD [OF inv] activation_type_disjoint [OF ty] in
        \<open>simp_all add: a1 le_SucI\<close>)
qed

lemma auth_record_step:
  assumes inv: "versions_inv k" and ty: "is_auth_type ty"
    and rec: "auth_record h (k_owner_bootstrap k) (k_ledger k) t ty p key = Inr (b1, L1)"
  obtains e where "b1 = (k_owner_bootstrap k)\<lparr>b_version := stream_version e\<rparr>"
    and "ledger_events L1 = ledger_events (k_ledger k) @ [e]"
    and "versions_inv (k\<lparr>k_owner_bootstrap := b1, k_ledger := L1\<rparr>)"
    and "b_version (k_owner_bootstrap k) = stream_length (k_ledger k) (b_stream_id (k_owner_bootstrap k))"
    and "stream_version e = stream_length (k_ledger k) (b_stream_id (k_owner_bootstrap k)) + 1"
    and "event_data_space_id e = data_space_id (k_data_space k)"
    and "stream_id e = b_stream_id (k_owner_bootstrap k)" and "event_type e = ty" and "payload e = p"
proof -
  let ?b = "k_owner_bootstrap k"
  from rec obtain e r where app: "append_event h (k_ledger k) (b_data_space_id ?b) (b_stream_id ?b) (b_version ?b)
      ty p t SystemActor None (Some (b_stream_id ?b)) None key = Inr (e, r, L1)"
    and b1: "b1 = ?b\<lparr>b_version := result_stream_version r\<rparr>"
    by (auto simp: auth_record_def)
  have known: "\<forall>d \<in> set (ledger_events (k_ledger k)). event_type d = ty \<and> stream_id d = b_stream_id ?b \<longrightarrow>
      stream_version d \<le> b_version ?b"
    using inv ty by (auto simp: versions_inv_def Let_def)
  note new = append_event_new [OF versions_invD(1) [OF inv] app known]
  have len: "stream_length L1 sid' = stream_length (k_ledger k) sid' + (if b_stream_id ?b = sid' then 1 else 0)" for sid'
    using stream_length_snoc [OF new(1)] new(9) by simp
  have "versions_inv (k\<lparr>k_owner_bootstrap := b1, k_ledger := L1\<rparr>)"
    by (rule versions_inv_append [OF inv, where e = e])
      (use new(1-6,9,10) len versions_invD [OF inv] auth_type_disjoint [OF ty] in
        \<open>simp_all add: b1 le_SucI\<close>)
  moreover have "event_data_space_id e = data_space_id (k_data_space k)"
    using new(8) inv by (simp add: versions_inv_def Let_def)
  ultimately show thesis using new b1 by (intro that) simp_all
qed


section \<open>A step and its replay\<close>

text \<open>The projection that has seen exactly the events of \<open>k\<close>; its ledger object is \<open>L\<close>.\<close>

definition view_at :: "kledger \<Rightarrow> kernel \<Rightarrow> projection" where
  "view_at L k = \<lparr>p_kernel = k\<lparr>k_ledger := L\<rparr>, p_interface_versions = [], p_routing_versions = None,
     p_token_versions = None, p_cursor = length (ledger_events (k_ledger k)), p_legacy_flat = 0\<rparr>"

definition logged :: "other_handlers \<Rightarrow> kledger \<Rightarrow> kernel \<Rightarrow> kernel \<Rightarrow> bool" where
  "logged others L k k' \<longleftrightarrow> (\<exists>es. ledger_events (k_ledger k') = ledger_events (k_ledger k) @ es \<and>
     fold_result (apply_next others) (view_at L k) es = Inr (view_at L k'))"

lemma logged_same:
  "ledger_events (k_ledger k') = ledger_events (k_ledger k) \<Longrightarrow> k'\<lparr>k_ledger := L\<rparr> = k\<lparr>k_ledger := L\<rparr> \<Longrightarrow>
    logged others L k k'"
  unfolding logged_def by (intro exI [of _ "[]"]) (simp add: view_at_def)

lemma logged_trans:
  assumes "logged others L k k1" and "logged others L k1 k2"
  shows "logged others L k k2"
proof -
  obtain es where es: "ledger_events (k_ledger k1) = ledger_events (k_ledger k) @ es"
      "fold_result (apply_next others) (view_at L k) es = Inr (view_at L k1)"
    using assms(1) by (auto simp: logged_def)
  obtain es' where es': "ledger_events (k_ledger k2) = ledger_events (k_ledger k1) @ es'"
      "fold_result (apply_next others) (view_at L k1) es' = Inr (view_at L k2)"
    using assms(2) by (auto simp: logged_def)
  show ?thesis unfolding logged_def
    by (intro exI [of _ "es @ es'"]) (simp add: es es' fold_result_append)
qed

lemma logged_one:
  assumes "ledger_events (k_ledger k') = ledger_events (k_ledger k) @ [e]"
    and "apply_event others (view_at L k) e = Inr ((view_at L k)\<lparr>p_kernel := k'\<lparr>k_ledger := L\<rparr>\<rparr>)"
  shows "logged others L k k'"
  unfolding logged_def using assms
  by (intro exI [of _ "[e]"]) (simp add: apply_next_def view_at_def)

text \<open>The gap check passes: the writer knew the whole stream, and nobody knows more.\<close>

lemma known_version_view:
  assumes "versions_inv k"
  shows "known_version (view_at L k) sid = Max {version_of (k_versions k) sid, 0,
      (if sid = a_stream_id (k_activation k) then a_version (k_activation k) else 0),
      (if sid = b_stream_id (k_owner_bootstrap k) then b_version (k_owner_bootstrap k) else 0)}"
  by (simp add: known_version_def view_at_def Let_def insert_commute)

lemma known_version_le: "versions_inv k \<Longrightarrow> known_version (view_at L k) sid \<le> stream_length (k_ledger k) sid"
  using versions_invD [of k] by (simp add: known_version_view)

lemma known_version_kernel:
  "versions_inv k \<Longrightarrow> version_of (k_versions k) sid = stream_length (k_ledger k) sid \<Longrightarrow>
    known_version (view_at L k) sid = stream_length (k_ledger k) sid"
  using known_version_le [of k L sid] by (simp add: known_version_view le_antisym)

lemma known_version_activation:
  "versions_inv k \<Longrightarrow> a_version (k_activation k) = stream_length (k_ledger k) (a_stream_id (k_activation k)) \<Longrightarrow>
    known_version (view_at L k) (a_stream_id (k_activation k)) = stream_length (k_ledger k) (a_stream_id (k_activation k))"
  using known_version_le [of k L "a_stream_id (k_activation k)"] by (simp add: known_version_view le_antisym)

lemma known_version_auth:
  "versions_inv k \<Longrightarrow> b_version (k_owner_bootstrap k) = stream_length (k_ledger k) (b_stream_id (k_owner_bootstrap k)) \<Longrightarrow>
    known_version (view_at L k) (b_stream_id (k_owner_bootstrap k))
      = stream_length (k_ledger k) (b_stream_id (k_owner_bootstrap k))"
  using known_version_le [of k L "b_stream_id (k_owner_bootstrap k)"] by (simp add: known_version_view le_antisym)

lemma handler_kernel: "map_of kernel_handlers ty = Some f \<Longrightarrow> ty \<noteq> ''agent_notification_delivered'' \<Longrightarrow>
    handler others ty = Some (on_kernel f)"
  by (simp add: handler_def)

lemma kernel_handlers_type: "map_of kernel_handlers ty = Some f \<Longrightarrow>
    is_kernel_type ty \<and> ty \<noteq> ''agent_notification_delivered''"
proof -
  assume f: "map_of kernel_handlers ty = Some f"
  then have "ty \<in> fst ` set kernel_handlers" by (force dest: map_of_SomeD)
  moreover have "''agent_notification_delivered'' \<notin> fst ` set kernel_handlers" by (simp add: kernel_handlers_def)
  ultimately show ?thesis by (cases "ty = ''agent_notification_delivered''") (simp_all add: is_kernel_type_def dict_mem_def)
qed

text \<open>
  One recorded operation of the Kernel: what its handler makes of the old view is the new
  view, so the step is logged.
\<close>

lemma kernel_op:
  assumes inv: "versions_inv k"
    and op: "then_update (kernel_record h k t sid ty p act aid key corr caus) u = Inr (e, k')"
    and f: "map_of kernel_handlers ty = Some f"
    and run: "\<And>L1. stream_id e = sid \<Longrightarrow> payload e = p \<Longrightarrow> actor_type e = act \<Longrightarrow> actor_id e = aid \<Longrightarrow>
      f (k\<lparr>k_ledger := L\<rparr>) e
        = Inr ((u e (k\<lparr>k_ledger := L1, k_versions := dict_set (k_versions k) sid (stream_version e)\<rparr>))\<lparr>k_ledger := L\<rparr>)"
    and keep: "\<And>k1. k_ledger (u e k1) = k_ledger k1" "\<And>k1. versions_inv (u e k1) \<longleftrightarrow> versions_inv k1"
  shows "logged others L k k' \<and> versions_inv k'"
proof -
  from op obtain k1 where rec: "kernel_record h k t sid ty p act aid key corr caus = Inr (e, k1)"
    and k': "k' = u e k1" by auto
  note ty = kernel_handlers_type [OF f]
  note st = kernel_record_step [OF inv conjunct1 [OF ty] rec]
  have run': "f (k\<lparr>k_ledger := L\<rparr>) e = Inr ((u e k1)\<lparr>k_ledger := L\<rparr>)"
    using run [of "k_ledger k1"] st(7,9,10,11) unfolding st(1) [symmetric] by blast
  have "apply_event others (view_at L k) e = Inr ((view_at L k)\<lparr>p_kernel := k'\<lparr>k_ledger := L\<rparr>\<rparr>)"
  proof -
    have "p_kernel (view_at L k) = k\<lparr>k_ledger := L\<rparr>" by (simp add: view_at_def)
    then show ?thesis
      using st(5-8) kernel_type_disjoint [OF conjunct1 [OF ty]] known_version_kernel [OF inv st(4)]
        handler_kernel [OF f conjunct2 [OF ty]] run'
      by (simp add: apply_event_def on_kernel_def k')
  qed
  then have "logged others L k k'"
    by (rule logged_one [rotated]) (simp add: k' keep st(2))
  with st(3) keep(2) k' show ?thesis by simp
qed

end
