(* ===== verification/Kernel_Replay.thy ===== *)
theory Kernel_Replay
  imports Kernel_Step
begin

text \<open>
  Every operation of the Kernel against its handler in the projection: replaying the event
  it wrote takes the view before the operation to the view after it.
\<close>

definition steps_to :: "other_handlers \<Rightarrow> kledger \<Rightarrow> kernel \<Rightarrow> kevent \<times> kernel \<Rightarrow> bool" where
  "steps_to others L k = (\<lambda>(e, k'). logged others L k k' \<and> versions_inv k')"

lemma kernel_handled:
  "map_of kernel_handlers ''node_registered'' = Some on_node_registered"
  "map_of kernel_handlers ''capability_granted'' = Some on_capability_granted"
  "map_of kernel_handlers ''work_item_created'' = Some on_work_item_created"
  "map_of kernel_handlers ''work_dependency_added'' = Some on_work_dependency_added"
  "map_of kernel_handlers ''current_work_graph_imported'' = Some on_current_work_graph_imported"
  "map_of kernel_handlers ''work_item_delegated'' = Some on_work_item_delegated"
  "map_of kernel_handlers ''work_item_resume_prepared'' = Some on_work_item_resume_prepared"
  "map_of kernel_handlers ''execution_created'' = Some on_execution_created"
  "map_of kernel_handlers ''agent_notification_promoted'' = Some on_agent_notification_promoted"
  "map_of kernel_handlers ''agent_name_assigned'' = Some on_agent_name_assigned"
  "map_of kernel_handlers ''agent_identity_registered'' = Some on_agent_identity_registered"
  "map_of kernel_handlers ''execution_state_changed'' = Some on_execution_state_changed"
  "map_of kernel_handlers ''budget_reserved'' = Some on_budget_reserved"
  "map_of kernel_handlers ''effect_planned'' = Some on_effect_planned"
  "map_of kernel_handlers ''pilot_execution_receipt_recorded'' = Some on_pilot_execution_receipt_recorded"
  "map_of kernel_handlers ''effect_approved'' = Some on_effect_approved"
  "map_of kernel_handlers ''effect_activated'' = Some effect_state"
  "map_of kernel_handlers ''effect_result_unknown'' = Some effect_state"
  "map_of kernel_handlers ''effect_reconciled'' = Some effect_state"
  "map_of kernel_handlers ''human_intervention'' = Some on_human_intervention"
  "map_of kernel_handlers ''s3_star_finding_recorded'' = Some on_s3_star_finding_recorded"
  "map_of kernel_handlers ''s3_star_risk_accepted'' = Some on_s3_star_risk_accepted"
  "map_of kernel_handlers ''work_item_completed'' = Some on_work_item_completed"
  "map_of kernel_handlers ''pilot_host_disconnected'' = Some on_pilot_host_disconnected"
  "map_of kernel_handlers ''reference_granted'' = Some on_reference_granted"
  "map_of kernel_handlers ''route_snapshot_registered'' = Some on_route_snapshot_registered"
  "map_of kernel_handlers ''route_snapshot_approved'' = Some on_route_snapshot_approved"
  "map_of kernel_handlers ''route_snapshot_published'' = Some on_route_snapshot_published"
  "map_of kernel_handlers ''route_snapshot_retired'' = Some on_route_snapshot_retired"
  by (simp_all add: kernel_handlers_def)

lemma ensures_kernel_op:
  assumes "versions_inv k" and "map_of kernel_handlers ty = Some f"
    and "\<And>e L1. stream_id e = sid \<Longrightarrow> payload e = p \<Longrightarrow> actor_type e = act \<Longrightarrow> actor_id e = aid \<Longrightarrow>
      f (k\<lparr>k_ledger := L\<rparr>) e
        = Inr ((u e (k\<lparr>k_ledger := L1, k_versions := dict_set (k_versions k) sid (stream_version e)\<rparr>))\<lparr>k_ledger := L\<rparr>)"
    and "\<And>e k1. k_ledger (u e k1) = k_ledger k1" and "\<And>e k1. versions_inv (u e k1) \<longleftrightarrow> versions_inv k1"
  shows "ensures (steps_to others L k) (then_update (kernel_record h k t sid ty p act aid key corr caus) u)"
  unfolding ensures_def steps_to_def
proof (intro allI impI, clarify)
  fix e k' assume "then_update (kernel_record h k t sid ty p act aid key corr caus) u = Inr (e, k')"
  from kernel_op [OF assms(1) this assms(2,3,4,5)] show "logged others L k k' \<and> versions_inv k'" .
qed

lemma kernel_record_shape:
  "kernel_record h k t sid ty p act aid key corr caus = Inr (e, k1) \<Longrightarrow>
    \<exists>L1 V. k1 = k\<lparr>k_ledger := L1, k_versions := V\<rparr>"
  by (auto simp: kernel_record_def)

lemma versions_inv_frame [simp]:
  "versions_inv (k\<lparr>k_nodes := x\<rparr>) \<longleftrightarrow> versions_inv k"
  "versions_inv (k\<lparr>k_work_items := y\<rparr>) \<longleftrightarrow> versions_inv k"
  "versions_inv (k\<lparr>k_work_edges := z\<rparr>) \<longleftrightarrow> versions_inv k"
  "versions_inv (k\<lparr>k_executions := x1\<rparr>) \<longleftrightarrow> versions_inv k"
  "versions_inv (k\<lparr>k_assignments := x2\<rparr>) \<longleftrightarrow> versions_inv k"
  "versions_inv (k\<lparr>k_registrations := x3\<rparr>) \<longleftrightarrow> versions_inv k"
  "versions_inv (k\<lparr>k_notifications := x4\<rparr>) \<longleftrightarrow> versions_inv k"
  "versions_inv (k\<lparr>k_capability_grants := x5\<rparr>) \<longleftrightarrow> versions_inv k"
  "versions_inv (k\<lparr>k_effect_leases := x6\<rparr>) \<longleftrightarrow> versions_inv k"
  "versions_inv (k\<lparr>k_effect_approvals := x7\<rparr>) \<longleftrightarrow> versions_inv k"
  "versions_inv (k\<lparr>k_reference_grants := x8\<rparr>) \<longleftrightarrow> versions_inv k"
  "versions_inv (k\<lparr>k_budget_reservations := x9\<rparr>) \<longleftrightarrow> versions_inv k"
  "versions_inv (k\<lparr>k_findings := x10\<rparr>) \<longleftrightarrow> versions_inv k"
  "versions_inv (k\<lparr>k_route_snapshots := x11\<rparr>) \<longleftrightarrow> versions_inv k"
  "versions_inv (k\<lparr>k_activation := (k_activation k)\<lparr>work_graph_snapshot_id := g\<rparr>\<rparr>) \<longleftrightarrow> versions_inv k"
  by (simp_all add: versions_inv_def Let_def)

lemma opt_str_reads [simp]:
  "opt_str x = PNull \<longleftrightarrow> x = None" "as_str (opt_str x) = x" "as_opt_str (opt_str x) = Some x"
  by (simp_all add: opt_str_def split: option.split)

lemmas enum_literals [simp] =
  effect_lease_state_roundtrip [of LeaseActive, simplified] effect_lease_state_roundtrip [of LeaseUnknown, simplified]
  effect_lease_state_roundtrip [of LeaseSucceeded, simplified] effect_lease_state_roundtrip [of LeaseFailed, simplified]
  route_snapshot_state_roundtrip [of S3StarApproved, simplified]
  route_snapshot_state_roundtrip [of OwnerApproved, simplified]
  route_snapshot_state_roundtrip [of Retired, simplified]
  retirement_reason_roundtrip [of SupersededByApprovedSnapshot, simplified]
  retirement_reason_roundtrip [of RouteDecommissioned, simplified]

lemma agent_name_is_registered_ledger [simp]:
  "agent_name_is_registered (k\<lparr>k_ledger := L\<rparr>) = agent_name_is_registered k"
  by (simp add: agent_name_is_registered_def fun_eq_iff)

lemmas replay_defs = kernel_version_def payload_model_def payload_item_def payload_enum_def payload_opt_def

section \<open>Work\<close>

lemma register_node_logged:
  "versions_inv k \<Longrightarrow> valid_uvsm_node n \<Longrightarrow> ensures (steps_to others L k) (register_node h k t n aid key)"
  by (auto simp: register_node_def on_node_registered_def replay_defs split: ensures_splits
      intro!: ensures_kernel_op [OF _ kernel_handled(1)])

lemma create_work_item_logged:
  "versions_inv k \<Longrightarrow> valid_work_item w \<Longrightarrow> ensures (steps_to others L k) (create_work_item h k t w aid key)"
  by (auto simp: create_work_item_def on_work_item_created_def replay_defs split: ensures_splits
      intro!: ensures_kernel_op [OF _ kernel_handled(3)])

lemma delegate_work_item_logged:
  "versions_inv k \<Longrightarrow> ensures (steps_to others L k) (delegate_work_item h k t wid nid aid key)"
  by (auto simp: delegate_work_item_def on_work_item_delegated_def replay_defs split: ensures_splits
      intro!: ensures_kernel_op [OF _ kernel_handled(6)])

lemma add_dependency_logged:
  "versions_inv k \<Longrightarrow> ensures (steps_to others L k) (add_dependency h k t wid dep aid key)"
  by (auto simp: add_dependency_def Let_def on_work_dependency_added_def replay_defs split: ensures_splits
      intro!: ensures_kernel_op [OF _ kernel_handled(4)])

lemma reimport_logged: "versions_inv k \<Longrightarrow> ensures (steps_to others L k) (reimport_work_graph k s)"
  by (auto simp: reimport_work_graph_def steps_to_def logged_same split: ensures_splits list.split)

lemma versions_inv_graph [simp]:
  "k_activation k1 = a \<Longrightarrow> versions_inv (k1\<lparr>k_nodes := x, k_work_items := y, k_work_edges := z,
     k_activation := a\<lparr>work_graph_snapshot_id := g\<rparr>\<rparr>) \<longleftrightarrow> versions_inv k1"
  by (auto simp: versions_inv_def Let_def)

lemma import_current_work_graph_logged:
  "versions_inv k \<Longrightarrow> valid_current_work_graph_snapshot s \<Longrightarrow> ensures (steps_to others L k) (import_current_work_graph h k t s aid key)"
  by (auto simp: import_current_work_graph_def on_current_work_graph_imported_def replay_defs split: ensures_splits
      intro!: ensures_kernel_op [OF _ kernel_handled(5)] reimport_logged)

lemma validate_resume_get:
  "validate_owner_confirmed_resume k wid = Inr w \<Longrightarrow> dict_get (k_work_items k) wid = Some w"
  by (auto simp: validate_owner_confirmed_resume_def split: if_splits option.splits)

lemma prepare_owner_confirmed_resume_logged:
  "versions_inv k \<Longrightarrow> ensures (steps_to others L k) (prepare_owner_confirmed_resume h k t wid aid key)"
  by (auto simp: prepare_owner_confirmed_resume_def on_work_item_resume_prepared_def replay_defs split: ensures_splits
      intro!: ensures_kernel_op [OF _ kernel_handled(7)] dest: validate_resume_get)

lemma intervene_logged:
  "versions_inv k \<Longrightarrow> ensures (steps_to others L k) (intervene h k t wid aid reason key)"
  by (auto simp: intervene_def on_human_intervention_def replay_defs split: ensures_splits
      intro!: ensures_kernel_op [OF _ kernel_handled(20)])

lemma record_s3_star_finding_logged:
  "versions_inv k \<Longrightarrow> valid_s3_star_finding f \<Longrightarrow> ensures (steps_to others L k) (record_s3_star_finding h k t f aid key)"
  by (auto simp: record_s3_star_finding_def Let_def set_work_def on_s3_star_finding_recorded_def replay_defs
      split: ensures_splits if_split_asm
      intro!: ensures_kernel_op [OF _ kernel_handled(21)])

lemma complete_work_item_logged:
  "versions_inv k \<Longrightarrow> valid_completion_evidence ev \<Longrightarrow> ensures (steps_to others L k) (complete_work_item h k t wid ev aid key)"
  by (auto simp: complete_work_item_def on_work_item_completed_def replay_defs split: ensures_splits
      intro!: ensures_kernel_op [OF _ kernel_handled(23)])

lemma create_execution_logged:
  "versions_inv k \<Longrightarrow> valid_execution e \<Longrightarrow> ensures (steps_to others L k) (create_execution h k t e aid key)"
  by (auto simp: create_execution_def on_execution_created_def replay_defs split: ensures_splits
      intro!: ensures_kernel_op [OF _ kernel_handled(8)])

lemma set_execution_state_logged:
  "versions_inv k \<Longrightarrow> ensures (steps_to others L k) (set_execution_state h k t eid s act aid key reason)"
  by (auto simp: set_execution_state_def on_execution_state_changed_def replay_defs split: ensures_splits
      intro!: ensures_kernel_op [OF _ kernel_handled(12)])

lemma pilot_host_disconnected_logged:
  "versions_inv k \<Longrightarrow> ensures (steps_to others L k) (pilot_host_disconnected h k t host key)"
  by (auto simp: pilot_host_disconnected_def on_pilot_host_disconnected_def replay_defs split: ensures_splits
      intro!: ensures_kernel_op [OF _ kernel_handled(24)])

lemma record_agent_name_assignment_logged:
  "versions_inv k \<Longrightarrow> valid_agent_name_assignment a \<Longrightarrow> ensures (steps_to others L k) (record_agent_name_assignment h k t R a aid key)"
  by (auto simp: record_agent_name_assignment_def on_agent_name_assigned_def assignment_from_payload_def dict_mem_get
        replay_defs split: ensures_splits
      intro!: ensures_kernel_op [OF _ kernel_handled(10)])

lemma register_agent_identity_logged:
  "versions_inv k \<Longrightarrow> valid_agent_identity_registration a \<Longrightarrow> ensures (steps_to others L k) (register_agent_identity h k t R a aid key)"
  by (auto simp: register_agent_identity_def Let_def on_agent_identity_registered_def dict_mem_get
        agent_name_is_registered_def replay_defs split: ensures_splits
      intro!: ensures_kernel_op [OF _ kernel_handled(11)])

lemma grant_capability_logged:
  "versions_inv k \<Longrightarrow> valid_capability_grant g \<Longrightarrow> ensures (steps_to others L k) (grant_capability h k now t g aid key)"
  by (auto simp: grant_capability_def on_capability_granted_def replay_defs split: ensures_splits
      intro!: ensures_kernel_op [OF _ kernel_handled(2)])

lemma register_reference_grant_logged:
  "versions_inv k \<Longrightarrow> valid_reference_grant g \<Longrightarrow> ensures (steps_to others L k) (register_reference_grant h k now t g aid key)"
  by (auto simp: register_reference_grant_def on_reference_granted_def replay_defs split: ensures_splits
      intro!: ensures_kernel_op [OF _ kernel_handled(25)])

lemma reserve_budget_logged:
  "versions_inv k \<Longrightarrow> valid_budget_reservation r \<Longrightarrow> ensures (steps_to others L k) (reserve_budget h k t r aid key)"
  by (auto simp: reserve_budget_def on_budget_reserved_def replay_defs split: ensures_splits
      intro!: ensures_kernel_op [OF _ kernel_handled(13)])

lemma plan_effect_logged:
  "versions_inv k \<Longrightarrow> valid_effect_lease l \<Longrightarrow> ensures (steps_to others L k) (plan_effect h k now t l aid key)"
  by (auto simp: plan_effect_def on_effect_planned_def replay_defs split: ensures_splits
      intro!: ensures_kernel_op [OF _ kernel_handled(14)])

lemma approve_effect_logged:
  "versions_inv k \<Longrightarrow> ensures (steps_to others L k) (approve_effect h k now t lid aid key)"
  by (auto simp: approve_effect_def Let_def on_effect_approved_def replay_defs split: ensures_splits
      intro!: ensures_kernel_op [OF _ kernel_handled(16)])

lemma activate_effect_logged:
  "versions_inv k \<Longrightarrow> ensures (steps_to others L k) (activate_effect h k now t lid aid key)"
  by (auto simp: activate_effect_def set_lease_state_def effect_state_def replay_defs split: ensures_splits
      intro!: ensures_kernel_op [OF _ kernel_handled(17)])

lemma mark_effect_unknown_logged:
  "versions_inv k \<Longrightarrow> ensures (steps_to others L k) (mark_effect_unknown h k t lid aid key)"
  by (auto simp: mark_effect_unknown_def set_lease_state_def effect_state_def replay_defs split: ensures_splits
      intro!: ensures_kernel_op [OF _ kernel_handled(18)])

lemma reconcile_effect_logged:
  "versions_inv k \<Longrightarrow> ensures (steps_to others L k) (reconcile_effect h k t lid s aid key)"
  by (auto simp: reconcile_effect_def set_lease_state_def effect_state_def replay_defs split: ensures_splits
      intro!: ensures_kernel_op [OF _ kernel_handled(19)])

lemma register_route_snapshot_logged:
  "versions_inv k \<Longrightarrow> valid_route_snapshot s \<Longrightarrow> ensures (steps_to others L k) (register_route_snapshot h k t s aid key)"
  by (auto simp: register_route_snapshot_def on_route_snapshot_registered_def replay_defs split: ensures_splits
      intro!: ensures_kernel_op [OF _ kernel_handled(26)])

lemma route_approval_Inr:
  "route_approval approval s = Inr (next_state, f) \<Longrightarrow>
    approval = ''s3_star'' \<and> next_state = S3StarApproved \<and> f = (\<lambda>eid s. s\<lparr>s3_star_approval_event_id := Some eid\<rparr>) \<or>
    approval = ''owner'' \<and> next_state = OwnerApproved \<and> f = (\<lambda>eid s. s\<lparr>owner_approval_event_id := Some eid\<rparr>)"
  by (simp add: route_approval_def split: if_splits)

lemma approve_route_snapshot_logged:
  "versions_inv k \<Longrightarrow> ensures (steps_to others L k) (approve_route_snapshot h k t sid approval aid key)"
  by (auto simp: approve_route_snapshot_def on_route_snapshot_approved_def Let_def replay_defs
      dest!: route_approval_Inr split: ensures_splits
      intro!: ensures_kernel_op [OF _ kernel_handled(27)])

lemma publish_route_snapshot_logged:
  "versions_inv k \<Longrightarrow> ensures (steps_to others L k) (publish_route_snapshot h k t sid aid key)"
  by (auto simp: publish_route_snapshot_def on_route_snapshot_published_def replay_defs split: ensures_splits
      intro!: ensures_kernel_op [OF _ kernel_handled(28)])

lemma retire_route_snapshot_logged:
  "versions_inv k \<Longrightarrow> ensures (steps_to others L k) (retire_route_snapshot h k t sid reason_code replacement_id aid key)"
  by (auto simp: retire_route_snapshot_def on_route_snapshot_retired_def check_retirement_def
        validate_route_snapshot_replacement_def replay_defs split: ensures_splits if_split_asm option.split_asm
      intro!: ensures_kernel_op [OF _ kernel_handled(29)])

lemma accept_s3_star_risk_logged:
  assumes inv: "versions_inv k" and keys: "keyed work_item_id (k_work_items k)"
  shows "ensures (steps_to others L k) (accept_s3_star_risk h k t fid s5 aid rationale key)"
proof -
  let ?rec = "\<lambda>f. kernel_record h k t (finding_work_item_id f) ''s3_star_risk_accepted''
      [(''finding_id'', PStr fid), (''s5_node_id'', PStr s5), (''rationale'', PStr rationale)]
      Human (Some aid) key (Some (finding_work_item_id f)) None"
  have "logged others L k (set_work k'' (remove_blocker fid w)) \<and> versions_inv (set_work k'' (remove_blocker fid w))"
    if rec: "?rec f = Inr (e, k1)" and f: "dict_get (k_findings k) fid = Some f"
      and k'': "k'' = k1\<lparr>k_findings := dict_set (k_findings k1) fid (f\<lparr>accepted_by_s5 := True\<rparr>)\<rparr>"
      and w: "dict_get (k_work_items k'') (finding_work_item_id f) = Some w" for f e k1 k'' w
  proof -
    from kernel_record_shape [OF rec] obtain L1 V where "k1 = k\<lparr>k_ledger := L1, k_versions := V\<rparr>" by blast
    with w k'' have w': "dict_get (k_work_items k) (finding_work_item_id f) = Some w" by simp
    have id: "work_item_id w = finding_work_item_id f" by (rule keyed_get [OF keys w'])
    have op: "then_update (?rec f) (\<lambda>_ k1. k1\<lparr>k_findings := dict_set (k_findings k1) fid (f\<lparr>accepted_by_s5 := True\<rparr>),
        k_work_items := dict_set (k_work_items k1) (finding_work_item_id f) (remove_blocker fid w)\<rparr>)
      = Inr (e, set_work k'' (remove_blocker fid w))"
      using rec id by (simp add: k'' set_work_def remove_blocker_def Let_def)
    show ?thesis
      by (rule kernel_op [OF inv op kernel_handled(22)])
        (simp_all add: on_s3_star_risk_accepted_def replay_defs f w')
  qed
  then show ?thesis
    by (auto simp: accept_s3_star_risk_def steps_to_def Let_def split: ensures_splits)
qed

lemma record_pilot_execution_receipt_logged:
  assumes inv: "versions_inv k" and keys: "keyed assignment_id (k_assignments k)"
  shows "ensures (steps_to others L k) (record_pilot_execution_receipt h k t eid r aid key)"
proof -
  have found: "\<exists>a. dict_get (k_assignments k) s = Some a \<and> assignment_execution_id a = eid"
    if "execution_assignment k eid = Some s" for s
  proof -
    from that obtain a where "find (\<lambda>a. assignment_execution_id a = eid) (dict_values (k_assignments k)) = Some a"
      and s: "s = assignment_id a" by (auto simp: execution_assignment_def)
    from find_SomeD [OF this(1)] have "a \<in> set (dict_values (k_assignments k))" "assignment_execution_id a = eid"
      by simp_all
    with keyed_values_get [OF keys] s show ?thesis by auto
  qed
  have "opt_str (execution_assignment k eid) = PNull \<or>
      map_option assignment_execution_id (Option.bind (execution_assignment k eid) (dict_get (k_assignments k))) = Some eid"
    by (cases "execution_assignment k eid") (auto dest: found)
  then show ?thesis
    unfolding record_pilot_execution_receipt_def
    by (auto simp: on_pilot_execution_receipt_recorded_def receipt_payload_def Let_def
        payload_matches_def replay_defs simp del: opt_str_reads(1) map_option_eq_Some split: ensures_splits
        intro!: ensures_kernel_op [OF inv kernel_handled(15)])
qed

end
