(* ===== verification/Service_Replay.thy ===== *)
theory Service_Replay
  imports Kernel_Replay
begin

text \<open>
  The operations that do not fit one Kernel event: notifications and their promotion, the
  activation service, its history queries, and the owner bootstrap. Each is shown to be
  replayed by its handlers.
\<close>

section \<open>Notifications\<close>

lemma ensures_then_update: "ensures P (then_update r u) \<longleftrightarrow> ensures (\<lambda>(e, k). P (e, u e k)) r"
  by (auto simp: ensures_def)

lemma ensures_kernel_record:
  "(\<And>e L V. P (e, k\<lparr>k_ledger := L, k_versions := V\<rparr>)) \<Longrightarrow>
    ensures P (kernel_record h k t sid ty p act aid key corr caus)"
  by (auto simp: ensures_def dest!: kernel_record_shape)

lemma validate_agent_message_identity_ledger [simp]:
  "validate_agent_message_identity (k\<lparr>k_ledger := L\<rparr>) = validate_agent_message_identity k"
proof -
  have "k_work_items (k\<lparr>k_ledger := L\<rparr>) = k_work_items k" "k_executions (k\<lparr>k_ledger := L\<rparr>) = k_executions k"
    by simp_all
  then show ?thesis
    by (intro ext) (simp only: validate_agent_message_identity_def agent_name_is_registered_ledger)
qed

lemma record_agent_notification_logged:
  assumes inv: "versions_inv k" and n: "valid_agent_notification n"
  shows "ensures (steps_to others L k) (record_agent_notification h k t n aid key)"
proof -
  let ?u = "\<lambda>k1. k1\<lparr>k_notifications := dict_set (k_notifications k1) (notification_id n) n\<rparr>"
  have main: "steps_to others L k (e, ?u k1)"
    if rec: "kernel_record h k t (notification_id n) ''agent_notification_delivered''
        [(''notification'', PNotification n)] SystemActor (Some aid) key corr caus = Inr (e, k1)"
      and new: "\<not> dict_mem (notification_id n) (k_notifications k)"
      and msg: "notification_source_kind n = AgentToAgent \<Longrightarrow> validate_agent_message_identity k n = Inr ()"
    for corr caus e k1
  proof -
    have ty: "is_kernel_type ''agent_notification_delivered''" by (simp add: is_kernel_type_def)
    note st = kernel_record_step [OF inv ty rec]
    have k1: "(?u k1)\<lparr>k_ledger := L\<rparr> = k\<lparr>k_ledger := L,
        k_notifications := dict_set (k_notifications k) (notification_id n) n,
        k_versions := dict_set (k_versions k) (notification_id n) (stream_version e)\<rparr>"
    proof -
      from st(1) obtain L1 where "k1 = k\<lparr>k_ledger := L1,
          k_versions := dict_set (k_versions k) (notification_id n) (stream_version e)\<rparr>" by blast
      then show ?thesis by simp
    qed
    have "on_agent_notification_delivered (view_at L k) e = Inr ((view_at L k)\<lparr>p_kernel := (?u k1)\<lparr>k_ledger := L\<rparr>\<rparr>)"
      using n new msg st(7,9)
      unfolding k1 by (simp add: on_agent_notification_delivered_def delivered_notification_def payload_opt_def
          view_at_def kernel_version_def dict_mem_get Let_def)
    then have "apply_event others (view_at L k) e = Inr ((view_at L k)\<lparr>p_kernel := (?u k1)\<lparr>k_ledger := L\<rparr>\<rparr>)"
      using st(5-8) kernel_type_disjoint [OF ty] known_version_kernel [OF inv st(4)]
      by (simp add: apply_event_def handler_def view_at_def)
    then have "logged others L k (?u k1)" by (rule logged_one [rotated]) (simp add: st(2))
    with st(3) show ?thesis by (simp add: steps_to_def)
  qed
  show ?thesis
    by (auto simp: record_agent_notification_def ensures_then_update split: ensures_splits)
      (auto simp: ensures_def intro: main)
qed

lemma create_work_item_views:
  "ensures (\<lambda>(e, k'). k_notifications k' = k_notifications k \<and> dict_mem (work_item_id w) (k_work_items k'))
     (create_work_item h k t w aid key)"
  by (auto simp: create_work_item_def ensures_then_update split: ensures_splits intro!: ensures_kernel_record)

lemma promote_agent_notification_logged:
  assumes inv: "versions_inv k" and w: "valid_work_item w"
    and keys: "keyed notification_id (k_notifications k)"
  shows "ensures (\<lambda>(r, k'). logged others L k k' \<and> versions_inv k') (promote_agent_notification h k t t' nid w aid key)"
proof -
  let ?rec = "\<lambda>k1 n. kernel_record h k1 t' (notification_id n) ''agent_notification_promoted''
      [(''notification_id'', PStr nid), (''work_item_id'', PStr (work_item_id w))] SystemActor (Some aid) key
      (Some (work_item_id w)) (Some (notification_id n))"
  let ?u = "\<lambda>n k2. k2\<lparr>k_notifications := dict_set (k_notifications k2) nid
      (n\<lparr>promoted_work_item_id := Some (work_item_id w)\<rparr>)\<rparr>"
  have main: "logged others L k (?u n k2) \<and> versions_inv (?u n k2)"
    if n: "check_promotion k nid w = Inr n" and create: "create_work_item h k t w aid key1 = Inr (e1, k1)"
      and rec: "?rec k1 n = Inr (e2, k2)"
    for n key1 e1 k1 e2 k2
  proof -
    have get: "dict_get (k_notifications k) nid = Some n" "requires_work_item n" "promoted_work_item_id n = None"
      using n by (auto simp: check_promotion_def split: option.splits if_splits)
    have id: "notification_id n = nid" by (rule keyed_get [OF keys get(1)])
    have first: "logged others L k k1 \<and> versions_inv k1"
      using ensuresD [OF create_work_item_logged [OF inv w] create] by (simp add: steps_to_def)
    have k1: "k_notifications k1 = k_notifications k" "dict_mem (work_item_id w) (k_work_items k1)"
      using ensuresD [OF create_work_item_views create] by simp_all
    have op: "then_update (?rec k1 n) (\<lambda>_. ?u n) = Inr (e2, ?u n k2)" using rec by simp
    have "logged others L k1 (?u n k2) \<and> versions_inv (?u n k2)"
      by (rule kernel_op [OF conjunct2 [OF first] op kernel_handled(9)])
        (simp_all add: on_agent_notification_promoted_def payload_opt_def kernel_version_def get id k1)
    with first show ?thesis using logged_trans by blast
  qed
  have first: "logged others L k k1 \<and> versions_inv k1" if "create_work_item h k t w aid key1 = Inr (e1, k1)" for key1 e1 k1
    using ensuresD [OF create_work_item_logged [OF inv w] that] by (simp add: steps_to_def)
  show ?thesis
    unfolding promote_agent_notification_def
    by (auto split: sum.split simp: first simp del: versions_inv_frame dest: main)
qed

section \<open>Activation\<close>

definition activation_steps_to :: "other_handlers \<Rightarrow> kledger \<Rightarrow> kernel \<Rightarrow> activation \<times> kledger \<Rightarrow> bool" where
  "activation_steps_to others L k =
     (\<lambda>(a', L'). let k' = k\<lparr>k_activation := a', k_ledger := L'\<rparr> in logged others L k k' \<and> versions_inv k')"

lemma activation_handled:
  "map_of activation_handlers ''history_import_verified'' = Some on_history_import_verified"
  "map_of activation_handlers ''reorientation_started'' = Some (\<lambda>_. on_reorientation_started)"
  "map_of activation_handlers ''reorientation_retry_started'' = Some (\<lambda>_. on_reorientation_started)"
  "map_of activation_handlers ''reorientation_revision_retry_started'' = Some (\<lambda>_. on_reorientation_started)"
  "map_of activation_handlers ''reorientation_failed'' = Some (\<lambda>_. on_reorientation_failed)"
  "map_of activation_handlers ''reorientation_attempt_interrupted'' = Some (\<lambda>_. on_reorientation_attempt_interrupted)"
  "map_of activation_handlers ''reorientation_session_checkpointed''
     = Some (\<lambda>_. on_reorientation_session_checkpointed)"
  "map_of activation_handlers ''history_query_resolved'' = Some (\<lambda>_. on_history_query_resolved)"
  "map_of activation_handlers ''history_session_index_page_verified''
     = Some (\<lambda>_. on_history_session_index_page_verified)"
  "map_of activation_handlers ''reorientation_pilot_usage_recorded''
     = Some (\<lambda>_. on_reorientation_pilot_usage_recorded)"
  "map_of activation_handlers ''reorientation_assessment_accepted''
     = Some (\<lambda>_. on_reorientation_assessment_accepted)"
  "map_of activation_handlers ''reorientation_assessment_revision_requested''
     = Some (\<lambda>_. on_reorientation_assessment_revision_requested)"
  "map_of activation_handlers ''activation_approved'' = Some (\<lambda>_. on_activation_approved)"
  by (simp_all add: activation_handlers_def)

lemma activation_handlers_type: "map_of activation_handlers ty = Some f \<Longrightarrow>
    is_activation_type ty \<and> handler others ty = Some (on_activation f)"
proof -
  assume f: "map_of activation_handlers ty = Some f"
  then have ty: "is_activation_type ty" by (simp add: is_activation_type_def dict_mem_get)
  then have "\<not> is_kernel_type ty" using activation_type_disjoint by blast
  then have "ty \<noteq> ''agent_notification_delivered''" "map_of kernel_handlers ty = None"
    by (simp_all add: is_kernel_type_def dict_mem_get)
  with f ty show ?thesis by (simp add: handler_def)
qed

lemma activation_op:
  assumes inv: "versions_inv k"
    and rec: "activation_record h (k_activation k) (k_ledger k) t ty p act aid key = Inr (e, cur, a1, L1)"
    and f: "map_of activation_handlers ty = Some f"
    and run: "payload e = p \<Longrightarrow> a1 = (k_activation k)\<lparr>a_version := stream_version e\<rparr> \<Longrightarrow>
      f cur (k_activation k) e = Inr a2"
    and keep: "a_version a2 = a_version a1" "a_stream_id a2 = a_stream_id a1" "a_data_space_id a2 = a_data_space_id a1"
  shows "activation_steps_to others L k (a2, L1)"
proof -
  let ?k = "k\<lparr>k_activation := a2, k_ledger := L1\<rparr>"
  note ty = activation_handlers_type [OF f, of others]
  note st = activation_record_step [OF inv conjunct1 [OF ty] rec]
  have "apply_event others (view_at L k) e = Inr ((view_at L k)\<lparr>p_kernel := ?k\<lparr>k_ledger := L\<rparr>\<rparr>)"
    using st(5-8,10) activation_type_disjoint [OF conjunct1 [OF ty]] known_version_activation [OF inv st(4), of L]
      conjunct2 [OF ty] run [OF st(9,1)]
    by (simp add: apply_event_def on_activation_def view_at_def)
  then have "logged others L k ?k" by (rule logged_one [rotated]) (simp add: st(2))
  moreover have "versions_inv ?k" using st(3) keep by (simp add: versions_inv_def Let_def)
  ultimately show ?thesis by (simp add: activation_steps_to_def Let_def)
qed

lemma activation_steps_same: "versions_inv k \<Longrightarrow> activation_steps_to others L k (k_activation k, k_ledger k)"
  by (simp add: activation_steps_to_def logged_same)

lemmas activation_replay_defs = activation_version_def attempt_over_def end_attempt_def payload_model_def
  payload_item_def payload_enum_def payload_opt_def

text \<open>While uncommissioned there is no attempt and no pending revision.\<close>

definition uncommissioned_idle :: "activation \<Rightarrow> bool" where
  "uncommissioned_idle a \<longleftrightarrow> (a_state a = Uncommissioned \<longrightarrow>
     pending_revision_reason a = None \<and> \<not> attempt_in_progress a \<and> attempt_started_stream_version a = None)"

lemma register_history_import_logged:
  assumes inv: "versions_inv k" and idle: "uncommissioned_idle (k_activation k)"
  shows "ensures (activation_steps_to others L k)
    (register_history_import h (k_activation k) (k_ledger k) t r c aid key)"
  unfolding register_history_import_def
  using idle
  by (auto simp: Let_def uncommissioned_idle_def activation_steps_same [OF inv] on_history_import_verified_def
      activation_replay_defs split: ensures_splits
      intro!: activation_op [OF inv _ activation_handled(1)])

lemma record_reorientation_failure_logged:
  "versions_inv k \<Longrightarrow> ensures (activation_steps_to others L k)
    (record_reorientation_failure h (k_activation k) (k_ledger k) t code aid key)"
  by (auto simp: record_reorientation_failure_def  on_reorientation_failed_def activation_replay_defs split: ensures_splits
      intro!: activation_op [OF _ _ activation_handled(5)])

lemma interrupt_reorientation_attempt_logged:
  "versions_inv k \<Longrightarrow> ensures (activation_steps_to others L k)
    (interrupt_reorientation_attempt h (k_activation k) (k_ledger k) t code aid key)"
  by (auto simp: interrupt_reorientation_attempt_def  on_reorientation_attempt_interrupted_def activation_replay_defs split: ensures_splits
      intro!: activation_op [OF _ _ activation_handled(6)])

lemma record_reorientation_session_checkpoint_logged:
  "versions_inv k \<Longrightarrow> ensures (activation_steps_to others L k)
    (record_reorientation_session_checkpoint h (k_activation k) (k_ledger k) t s aid key)"
  by (auto simp: record_reorientation_session_checkpoint_def  on_reorientation_session_checkpointed_def activation_replay_defs split: ensures_splits
      intro!: activation_op [OF _ _ activation_handled(7)])

lemma record_reorientation_usage_logged:
  "versions_inv k \<Longrightarrow> ensures (activation_steps_to others L k)
    (record_reorientation_usage h (k_activation k) (k_ledger k) t m n aid key)"
  by (auto simp: record_reorientation_usage_def  on_reorientation_pilot_usage_recorded_def activation_replay_defs split: ensures_splits
      intro!: activation_op [OF _ _ activation_handled(10)])

lemma submit_assessment_logged:
  "versions_inv k \<Longrightarrow> valid_reorientation_assessment s \<Longrightarrow> ensures (activation_steps_to others L k)
    (submit_assessment h (k_activation k) (k_ledger k) t s ids items listed aid key)"
  by (auto simp: submit_assessment_def  on_reorientation_assessment_accepted_def activation_replay_defs split: ensures_splits
      intro!: activation_op [OF _ _ activation_handled(11)])

lemma request_assessment_revision_logged:
  "versions_inv k \<Longrightarrow> ensures (activation_steps_to others L k)
    (request_assessment_revision h (k_activation k) (k_ledger k) t code by aid key)"
  by (auto simp: request_assessment_revision_def  on_reorientation_assessment_revision_requested_def activation_replay_defs split: ensures_splits
      intro!: activation_op [OF _ _ activation_handled(12)])

lemma approve_activation_logged:
  "versions_inv k \<Longrightarrow> ensures (activation_steps_to others L k)
    (approve_activation h (k_activation k) (k_ledger k) now t sid aid key)"
  by (auto simp: approve_activation_def  on_activation_approved_def activation_replay_defs split: ensures_splits
      intro!: activation_op [OF _ _ activation_handled(13)])

lemma start_event_types:
  "ensures (\<lambda>(ty, p). ty \<in> {''reorientation_started'', ''reorientation_retry_started'',
     ''reorientation_revision_retry_started''}) (start_event a)"
  by (simp add: start_event_def split: ensures_splits activation_state.split)

lemma start_reorientation_logged:
  assumes inv: "versions_inv k"
  shows "ensures (activation_steps_to others L k) (start_reorientation h (k_activation k) (k_ledger k) t aid key)"
proof -
  have main: "activation_steps_to others L k (a1\<lparr>a_state := ReorientationOnly, reorientation_error := None,
      pending_revision_reason := None, attempt_in_progress := True,
      attempt_started_stream_version := Some (stream_version e)\<rparr>, L1)"
    if "activation_record h (k_activation k) (k_ledger k) t ty p PilotActor (Some aid) key = Inr (e, cur, a1, L1)"
      and "start_event (k_activation k) = Inr (ty, p)" for ty p e cur a1 L1
  proof -
    have ty: "map_of activation_handlers ty = Some (\<lambda>_. on_reorientation_started)"
      using ensuresD [OF start_event_types that(2)] activation_handled(2-4) by auto
    show ?thesis by (intro activation_op [OF inv that(1) ty]) (simp_all add: on_reorientation_started_def)
  qed
  show ?thesis by (auto simp: start_reorientation_def intro: main)
qed

section \<open>History queries\<close>

lemma ledger_inv_blobs [simp]: "ledger_inv (L\<lparr>l_blobs := B\<rparr>) \<longleftrightarrow> ledger_inv L"
  by (simp add: ledger_inv_def stream_of_def)

lemma put_blob_ledger:
  assumes "put_blob f L data = (ref, L1)"
  shows "ledger_events L1 = ledger_events L" and "ledger_inv L1 \<longleftrightarrow> ledger_inv L"
    and "ledger_data_space_id L1 = ledger_data_space_id L"
  using assms by (auto simp: put_blob_def Let_def ledger_events_def)

lemma versions_inv_put_blob:
  assumes "versions_inv k" and "put_blob f (k_ledger k) data = (ref, L1)"
  shows "versions_inv (k\<lparr>k_ledger := L1\<rparr>)"
  using assms(1) put_blob_ledger [OF assms(2)] by (simp add: versions_inv_def Let_def stream_length_def)

lemma activation_steps_put_blob:
  assumes "put_blob f (k_ledger k) data = (ref, L1)"
    and "activation_steps_to others L (k\<lparr>k_ledger := L1\<rparr>) x"
  shows "activation_steps_to others L k x"
proof -
  have "logged others L k (k\<lparr>k_ledger := L1\<rparr>)"
    using put_blob_ledger(1) [OF assms(1)] by (intro logged_same) simp_all
  with assms(2) show ?thesis
    by (auto simp: activation_steps_to_def Let_def intro: logged_trans split: prod.splits)
qed

lemma activation_op_after_blob:
  assumes inv: "versions_inv k" and blob: "put_blob f (k_ledger k) data = (ref, L1)"
    and rec: "activation_record h (k_activation k) L1 t ty p act aid key = Inr (e, cur, a1, L2)"
    and f: "map_of activation_handlers ty = Some g"
    and run: "payload e = p \<Longrightarrow> a1 = (k_activation k)\<lparr>a_version := stream_version e\<rparr> \<Longrightarrow>
      g cur (k_activation k) e = Inr a2"
    and keep: "a_version a2 = a_version a1" "a_stream_id a2 = a_stream_id a1" "a_data_space_id a2 = a_data_space_id a1"
  shows "activation_steps_to others L k (a2, L2)"
proof (rule activation_steps_put_blob [OF blob])
  show "activation_steps_to others L (k\<lparr>k_ledger := L1\<rparr>) (a2, L2)"
    by (rule activation_op [OF versions_inv_put_blob [OF inv blob] _ f, where e = e and cur = cur])
      (use rec run keep in simp_all)
qed

lemma activation_blob_only:
  assumes "versions_inv k" and "put_blob f (k_ledger k) data = (ref, L1)"
  shows "activation_steps_to others L k (k_activation k, L1)"
  by (rule activation_steps_put_blob [OF assms(2)])
    (use activation_steps_same [OF versions_inv_put_blob [OF assms]] in simp)

lemma resolve_logged:
  assumes inv: "versions_inv k"
  shows "ensures (\<lambda>(r, a', L'). activation_steps_to others L k (a', L'))
    (resolve h (k_activation k) (k_ledger k) rd m t x aid key)"
proof -
  have main: "activation_steps_to others L k
      (a1\<lparr>history_query_operations := insert (operation x) (history_query_operations a1),
          history_query_event_ids := insert (event_id e) (history_query_event_ids a1)\<rparr>, L2)"
    if "put_blob (sha256 h) (k_ledger k) data = (ref, L1)"
      and "activation_record h (k_activation k) L1 t ''history_query_resolved''
        ((''action_id'', v) # (''operation'', PStr (operation x)) # rest) PilotActor (Some aid) key = Inr (e, cur, a1, L2)"
    for data ref L1 v rest e cur a1 L2
    by (rule activation_op_after_blob [OF inv that activation_handled(8)])
      (simp_all add: on_history_query_resolved_def activation_replay_defs)
  show ?thesis
    by (auto simp: resolve_def split: ensures_splits intro: main activation_blob_only [OF inv])
qed

lemma record_index_pages_logged:
  assumes "versions_inv k" and "record_index_pages h (k_activation k) (k_ledger k) t aid key uuids pages = (r, a', L')"
  shows "activation_steps_to others L k (a', L')"
  using assms
proof (induction pages arbitrary: k uuids r)
  case Nil
  then show ?case using activation_steps_same by auto
next
  case (Cons cp pages)
  obtain c page where cp: "cp = (c, page)" by fastforce
  obtain ref L1 where blob: "put_blob (sha256 h) (k_ledger k) (page_json page) = (ref, L1)" by fastforce
  let ?rec = "activation_record h (k_activation k) L1 t ''history_session_index_page_verified''
        [(''page_cursor'', opt_str c), (''next_cursor'', opt_str (next_cursor page)),
         (''result_blob_ref'', PStr ref), (''result_sha256'', PStr (sha256 h (page_json page)))]
        SystemActor (Some aid) (key @ '':'' @ (case c of None \<Rightarrow> ''first'' | Some s \<Rightarrow> if s = [] then ''first'' else s))"
  show ?case
  proof (cases ?rec)
    case (Inl err)
    with Cons.prems(2) cp blob activation_blob_only [OF Cons.prems(1) blob] show ?thesis by auto
  next
    case (Inr q)
    then obtain e cur a1 L2 where rec: "?rec = Inr (e, cur, a1, L2)" by (cases q) auto
    have one: "activation_steps_to others L k (a1, L2)"
      by (rule activation_op_after_blob [OF Cons.prems(1) blob rec activation_handled(9)])
        (simp_all add: on_history_session_index_page_verified_def activation_version_def)
    let ?k1 = "k\<lparr>k_activation := a1, k_ledger := L2\<rparr>"
    have "activation_steps_to others L ?k1 (a', L') \<or> (a', L') = (a1, L2)"
      using Cons.prems(2) Cons.IH [of ?k1 "tl uuids"] one rec
      by (auto simp: cp blob activation_steps_to_def Let_def split: sum.splits prod.splits)
    with one show ?thesis
      by (auto simp: activation_steps_to_def Let_def intro: logged_trans)
  qed
qed

lemma scan_session_index_logged:
  assumes "versions_inv k"
    and "scan_session_index h (k_activation k) (k_ledger k) rd m t receipt aid key uuids = Some (r, a', L')"
  shows "activation_steps_to others L k (a', L')"
  using assms activation_steps_same [OF assms(1)] record_index_pages_logged [OF assms(1)]
  by (auto simp: scan_session_index_def split: option.splits sum.splits prod.splits if_splits)

section \<open>Owner bootstrap\<close>

definition auth_steps_to :: "other_handlers \<Rightarrow> kledger \<Rightarrow> kernel \<Rightarrow> owner_bootstrap \<times> kledger \<Rightarrow> bool" where
  "auth_steps_to others L k =
     (\<lambda>(b', L'). let k' = k\<lparr>k_owner_bootstrap := b', k_ledger := L'\<rparr> in logged others L k k' \<and> versions_inv k')"

lemma auth_handled:
  "map_of auth_handlers ''owner_bootstrap_issued'' = Some on_owner_bootstrap_issued"
  "map_of auth_handlers ''owner_bootstrap_exchanged'' = Some on_owner_bootstrap_exchanged"
  by (simp_all add: auth_handlers_def)

lemma auth_handlers_type: "map_of auth_handlers ty = Some f \<Longrightarrow>
    is_auth_type ty \<and> handler others ty = Some (on_auth f)"
proof -
  assume f: "map_of auth_handlers ty = Some f"
  then have ty: "is_auth_type ty" by (simp add: is_auth_type_def dict_mem_get)
  then have "\<not> is_kernel_type ty" "\<not> is_activation_type ty" using auth_type_disjoint by blast+
  then have "ty \<noteq> ''agent_notification_delivered''" "map_of kernel_handlers ty = None"
    "map_of activation_handlers ty = None"
    by (simp_all add: is_kernel_type_def is_activation_type_def dict_mem_get)
  with f ty show ?thesis by (simp add: handler_def)
qed

lemma auth_op:
  assumes inv: "versions_inv k"
    and rec: "auth_record h (k_owner_bootstrap k) (k_ledger k) t ty p key = Inr (b1, L1)"
    and f: "map_of auth_handlers ty = Some f"
    and run: "\<And>e. payload e = p \<Longrightarrow> b1 = (k_owner_bootstrap k)\<lparr>b_version := stream_version e\<rparr> \<Longrightarrow>
      f (k_owner_bootstrap k) e = Inr b2"
    and keep: "b_version b2 = b_version b1" "b_stream_id b2 = b_stream_id b1" "b_data_space_id b2 = b_data_space_id b1"
  shows "auth_steps_to others L k (b2, L1)"
proof -
  let ?k = "k\<lparr>k_owner_bootstrap := b2, k_ledger := L1\<rparr>"
  note ty = auth_handlers_type [OF f, of others]
  from auth_record_step [OF inv conjunct1 [OF ty] rec] obtain e where
    st: "b1 = (k_owner_bootstrap k)\<lparr>b_version := stream_version e\<rparr>"
      "ledger_events L1 = ledger_events (k_ledger k) @ [e]"
      "versions_inv (k\<lparr>k_owner_bootstrap := b1, k_ledger := L1\<rparr>)"
      "b_version (k_owner_bootstrap k) = stream_length (k_ledger k) (b_stream_id (k_owner_bootstrap k))"
      "stream_version e = stream_length (k_ledger k) (b_stream_id (k_owner_bootstrap k)) + 1"
      "event_data_space_id e = data_space_id (k_data_space k)"
      "stream_id e = b_stream_id (k_owner_bootstrap k)" "event_type e = ty" "payload e = p" by blast
  have "apply_event others (view_at L k) e = Inr ((view_at L k)\<lparr>p_kernel := ?k\<lparr>k_ledger := L\<rparr>\<rparr>)"
    using st(5-8) auth_type_disjoint [OF conjunct1 [OF ty]] known_version_auth [OF inv st(4), of L]
      conjunct2 [OF ty] run [OF st(9,1)]
    by (simp add: apply_event_def on_auth_def view_at_def)
  then have "logged others L k ?k" by (rule logged_one [rotated]) (simp add: st(2))
  moreover have "versions_inv ?k" using st(3) keep by (simp add: versions_inv_def Let_def)
  ultimately show ?thesis by (simp add: auth_steps_to_def Let_def)
qed

lemma issue_logged:
  assumes inv: "versions_inv k"
  shows "ensures (\<lambda>(g, b', L'). auth_steps_to others L k (b', L'))
    (issue h (k_owner_bootstrap k) (k_ledger k) st ex url life key code uuid now t)"
  by (auto simp: issue_def on_owner_bootstrap_issued_def payload_model_def Let_def split: ensures_splits
      intro!: auth_op [OF inv _ auth_handled(1)])

lemma exchange_logged:
  assumes inv: "versions_inv k" and keys: "keyed bootstrap_id (codes (k_owner_bootstrap k))"
  shows "ensures (\<lambda>(g, b', L'). auth_steps_to others L k (b', L'))
    (exchange h (k_owner_bootstrap k) (k_ledger k) st ex code dev life key tok uuid now t)"
proof -
  have get: "dict_get (codes (k_owner_bootstrap k)) (bootstrap_id r) = Some r"
    if "find p (dict_values (codes (k_owner_bootstrap k))) = Some r" for p r
    using find_SomeD [OF that] keyed_values_get [OF keys] by blast
  show ?thesis
    by (auto simp: exchange_def on_owner_bootstrap_exchanged_def payload_model_def payload_item_def Let_def
        split: ensures_splits intro!: auth_op [OF inv _ auth_handled(2)] dest: get)
qed

end
