(* ===== verification/Kernel_Machine.thy ===== *)
theory Kernel_Machine
  imports Service_Replay
begin

text \<open>
  The Kernel as a state machine. One relation per group of operations: a step is one
  successful call with arguments pydantic has validated. \<open>kernel_step\<close> adds the activation
  service and the owner bootstrap on the shared ledger, and the events LETHE writes to its
  history streams. The rules named \<open>_ensures\<close> reduce an invariant of a relation to one
  fact per operation. The theory ends with the Kernel as an instance of \<open>event_sourced\<close>.
\<close>

section \<open>Steps\<close>

inductive work_step :: "hashing \<Rightarrow> kernel \<Rightarrow> kernel \<Rightarrow> bool" for h where
  step_register_node:
    "valid_uvsm_node n \<Longrightarrow> register_node h k t n aid key = Inr (e, k') \<Longrightarrow> work_step h k k'"
| step_create_work_item:
    "valid_work_item w \<Longrightarrow> create_work_item h k t w aid key = Inr (e, k') \<Longrightarrow> work_step h k k'"
| step_add_dependency:
    "add_dependency h k t wid dep aid key = Inr (e, k') \<Longrightarrow> work_step h k k'"
| step_import_current_work_graph:
    "valid_current_work_graph_snapshot s \<Longrightarrow> import_current_work_graph h k t s aid key = Inr (e, k') \<Longrightarrow> work_step h k k'"
| step_delegate_work_item:
    "delegate_work_item h k t wid nid aid key = Inr (e, k') \<Longrightarrow> work_step h k k'"
| step_prepare_owner_confirmed_resume:
    "prepare_owner_confirmed_resume h k t wid aid key = Inr (e, k') \<Longrightarrow> work_step h k k'"
| step_intervene:
    "intervene h k t wid aid reason key = Inr (e, k') \<Longrightarrow> work_step h k k'"
| step_record_s3_star_finding:
    "valid_s3_star_finding f \<Longrightarrow> record_s3_star_finding h k t f aid key = Inr (e, k') \<Longrightarrow> work_step h k k'"
| step_accept_s3_star_risk:
    "accept_s3_star_risk h k t fid s5 aid rationale key = Inr (e, k') \<Longrightarrow> work_step h k k'"
| step_complete_work_item:
    "valid_completion_evidence ev \<Longrightarrow> complete_work_item h k t wid ev aid key = Inr (e, k') \<Longrightarrow> work_step h k k'"

lemma work_step_ensures:
  assumes "work_step h k k'"
    and "\<And>t n aid key. valid_uvsm_node n \<Longrightarrow> ensures (\<lambda>(e, k'). P k') (register_node h k t n aid key)"
    and "\<And>t w aid key. valid_work_item w \<Longrightarrow> ensures (\<lambda>(e, k'). P k') (create_work_item h k t w aid key)"
    and "\<And>t wid dep aid key. ensures (\<lambda>(e, k'). P k') (add_dependency h k t wid dep aid key)"
    and "\<And>t s aid key. valid_current_work_graph_snapshot s \<Longrightarrow> ensures (\<lambda>(e, k'). P k') (import_current_work_graph h k t s aid key)"
    and "\<And>t wid nid aid key. ensures (\<lambda>(e, k'). P k') (delegate_work_item h k t wid nid aid key)"
    and "\<And>t wid aid key. ensures (\<lambda>(e, k'). P k') (prepare_owner_confirmed_resume h k t wid aid key)"
    and "\<And>t wid aid reason key. ensures (\<lambda>(e, k'). P k') (intervene h k t wid aid reason key)"
    and "\<And>t f aid key. valid_s3_star_finding f \<Longrightarrow> ensures (\<lambda>(e, k'). P k') (record_s3_star_finding h k t f aid key)"
    and "\<And>t fid s5 aid rationale key. ensures (\<lambda>(e, k'). P k') (accept_s3_star_risk h k t fid s5 aid rationale key)"
    and "\<And>t wid ev aid key. valid_completion_evidence ev \<Longrightarrow> ensures (\<lambda>(e, k'). P k') (complete_work_item h k t wid ev aid key)"
  shows "P k'"
  using assms(1)
  by cases (fast dest: assms(2-)[THEN ensuresD])+

inductive execution_step :: "hashing \<Rightarrow> kernel \<Rightarrow> kernel \<Rightarrow> bool" for h where
  step_create_execution:
    "valid_execution x \<Longrightarrow> create_execution h k t x aid key = Inr (e, k') \<Longrightarrow> execution_step h k k'"
| step_set_execution_state:
    "set_execution_state h k t eid s act aid key reason = Inr (e, k') \<Longrightarrow> execution_step h k k'"
| step_record_pilot_execution_receipt:
    "record_pilot_execution_receipt h k t eid r aid key = Inr (e, k') \<Longrightarrow> execution_step h k k'"
| step_pilot_host_disconnected:
    "pilot_host_disconnected h k t host key = Inr (e, k') \<Longrightarrow> execution_step h k k'"
| step_record_agent_name_assignment:
    "valid_agent_name_assignment a \<Longrightarrow> record_agent_name_assignment h k t R a aid key = Inr (e, k') \<Longrightarrow> execution_step h k k'"
| step_register_agent_identity:
    "valid_agent_identity_registration i \<Longrightarrow> register_agent_identity h k t R i aid key = Inr (e, k') \<Longrightarrow> execution_step h k k'"
| step_record_agent_notification:
    "valid_agent_notification n \<Longrightarrow> record_agent_notification h k t n aid key = Inr (e, k') \<Longrightarrow> execution_step h k k'"
| step_promote_agent_notification:
    "valid_work_item w \<Longrightarrow> promote_agent_notification h k t t' nid w aid key = Inr (r, k') \<Longrightarrow> execution_step h k k'"

lemma execution_step_ensures:
  assumes "execution_step h k k'"
    and "\<And>t x aid key. valid_execution x \<Longrightarrow> ensures (\<lambda>(e, k'). P k') (create_execution h k t x aid key)"
    and "\<And>t eid s act aid key reason. ensures (\<lambda>(e, k'). P k') (set_execution_state h k t eid s act aid key reason)"
    and "\<And>t eid r aid key. ensures (\<lambda>(e, k'). P k') (record_pilot_execution_receipt h k t eid r aid key)"
    and "\<And>t host key. ensures (\<lambda>(e, k'). P k') (pilot_host_disconnected h k t host key)"
    and "\<And>t R a aid key. valid_agent_name_assignment a \<Longrightarrow> ensures (\<lambda>(e, k'). P k') (record_agent_name_assignment h k t R a aid key)"
    and "\<And>t R i aid key. valid_agent_identity_registration i \<Longrightarrow> ensures (\<lambda>(e, k'). P k') (register_agent_identity h k t R i aid key)"
    and "\<And>t n aid key. valid_agent_notification n \<Longrightarrow> ensures (\<lambda>(e, k'). P k') (record_agent_notification h k t n aid key)"
    and "\<And>t t' nid w aid key. valid_work_item w \<Longrightarrow> ensures (\<lambda>(r, k'). P k') (promote_agent_notification h k t t' nid w aid key)"
  shows "P k'"
  using assms(1)
  by cases (fast dest: assms(2-)[THEN ensuresD])+

inductive effect_step :: "hashing \<Rightarrow> kernel \<Rightarrow> kernel \<Rightarrow> bool" for h where
  step_grant_capability:
    "valid_capability_grant g \<Longrightarrow> grant_capability h k now t g aid key = Inr (e, k') \<Longrightarrow> effect_step h k k'"
| step_register_reference_grant:
    "valid_reference_grant rg \<Longrightarrow> register_reference_grant h k now t rg aid key = Inr (e, k') \<Longrightarrow> effect_step h k k'"
| step_reserve_budget:
    "valid_budget_reservation r \<Longrightarrow> reserve_budget h k t r aid key = Inr (e, k') \<Longrightarrow> effect_step h k k'"
| step_plan_effect:
    "valid_effect_lease l \<Longrightarrow> plan_effect h k now t l aid key = Inr (e, k') \<Longrightarrow> effect_step h k k'"
| step_approve_effect:
    "approve_effect h k now t lid aid key = Inr (e, k') \<Longrightarrow> effect_step h k k'"
| step_activate_effect:
    "activate_effect h k now t lid aid key = Inr (e, k') \<Longrightarrow> effect_step h k k'"
| step_mark_effect_unknown:
    "mark_effect_unknown h k t lid aid key = Inr (e, k') \<Longrightarrow> effect_step h k k'"
| step_reconcile_effect:
    "reconcile_effect h k t lid s aid key = Inr (e, k') \<Longrightarrow> effect_step h k k'"

lemma effect_step_ensures:
  assumes "effect_step h k k'"
    and "\<And>now t g aid key. valid_capability_grant g \<Longrightarrow> ensures (\<lambda>(e, k'). P k') (grant_capability h k now t g aid key)"
    and "\<And>now t rg aid key. valid_reference_grant rg \<Longrightarrow> ensures (\<lambda>(e, k'). P k') (register_reference_grant h k now t rg aid key)"
    and "\<And>t r aid key. valid_budget_reservation r \<Longrightarrow> ensures (\<lambda>(e, k'). P k') (reserve_budget h k t r aid key)"
    and "\<And>now t l aid key. valid_effect_lease l \<Longrightarrow> ensures (\<lambda>(e, k'). P k') (plan_effect h k now t l aid key)"
    and "\<And>now t lid aid key. ensures (\<lambda>(e, k'). P k') (approve_effect h k now t lid aid key)"
    and "\<And>now t lid aid key. ensures (\<lambda>(e, k'). P k') (activate_effect h k now t lid aid key)"
    and "\<And>t lid aid key. ensures (\<lambda>(e, k'). P k') (mark_effect_unknown h k t lid aid key)"
    and "\<And>t lid s aid key. ensures (\<lambda>(e, k'). P k') (reconcile_effect h k t lid s aid key)"
  shows "P k'"
  using assms(1)
  by cases (fast dest: assms(2-)[THEN ensuresD])+

inductive route_step :: "hashing \<Rightarrow> kernel \<Rightarrow> kernel \<Rightarrow> bool" for h where
  step_register_route_snapshot:
    "valid_route_snapshot s \<Longrightarrow> register_route_snapshot h k t s aid key = Inr (e, k') \<Longrightarrow> route_step h k k'"
| step_approve_route_snapshot:
    "approve_route_snapshot h k t sid approval aid key = Inr (e, k') \<Longrightarrow> route_step h k k'"
| step_publish_route_snapshot:
    "publish_route_snapshot h k t sid aid key = Inr (e, k') \<Longrightarrow> route_step h k k'"
| step_retire_route_snapshot:
    "retire_route_snapshot h k t sid reason replacement aid key = Inr (e, k') \<Longrightarrow> route_step h k k'"

lemma route_step_ensures:
  assumes "route_step h k k'"
    and "\<And>t s aid key. valid_route_snapshot s \<Longrightarrow> ensures (\<lambda>(e, k'). P k') (register_route_snapshot h k t s aid key)"
    and "\<And>t sid approval aid key. ensures (\<lambda>(e, k'). P k') (approve_route_snapshot h k t sid approval aid key)"
    and "\<And>t sid aid key. ensures (\<lambda>(e, k'). P k') (publish_route_snapshot h k t sid aid key)"
    and "\<And>t sid reason replacement aid key. ensures (\<lambda>(e, k'). P k') (retire_route_snapshot h k t sid reason replacement aid key)"
  shows "P k'"
  using assms(1)
  by cases (fast dest: assms(2-)[THEN ensuresD])+

inductive activation_step :: "hashing \<Rightarrow> kernel \<Rightarrow> kernel \<Rightarrow> bool" for h where
  step_register_history_import:
    "register_history_import h (k_activation k) (k_ledger k) t r c aid key = Inr (s', L') \<Longrightarrow>
      activation_step h k (k\<lparr>k_activation := s', k_ledger := L'\<rparr>)"
| step_start_reorientation:
    "start_reorientation h (k_activation k) (k_ledger k) t aid key = Inr (s', L') \<Longrightarrow>
      activation_step h k (k\<lparr>k_activation := s', k_ledger := L'\<rparr>)"
| step_record_reorientation_failure:
    "record_reorientation_failure h (k_activation k) (k_ledger k) t code aid key = Inr (s', L') \<Longrightarrow>
      activation_step h k (k\<lparr>k_activation := s', k_ledger := L'\<rparr>)"
| step_interrupt_reorientation_attempt:
    "interrupt_reorientation_attempt h (k_activation k) (k_ledger k) t code aid key = Inr (s', L') \<Longrightarrow>
      activation_step h k (k\<lparr>k_activation := s', k_ledger := L'\<rparr>)"
| step_record_reorientation_session_checkpoint:
    "record_reorientation_session_checkpoint h (k_activation k) (k_ledger k) t s aid key = Inr (s', L') \<Longrightarrow>
      activation_step h k (k\<lparr>k_activation := s', k_ledger := L'\<rparr>)"
| step_record_reorientation_usage:
    "record_reorientation_usage h (k_activation k) (k_ledger k) t m n aid key = Inr (s', L') \<Longrightarrow>
      activation_step h k (k\<lparr>k_activation := s', k_ledger := L'\<rparr>)"
| step_submit_assessment:
    "valid_reorientation_assessment s \<Longrightarrow> submit_assessment h (k_activation k) (k_ledger k) t s ids items listed aid key = Inr (s', L') \<Longrightarrow>
      activation_step h k (k\<lparr>k_activation := s', k_ledger := L'\<rparr>)"
| step_request_assessment_revision:
    "request_assessment_revision h (k_activation k) (k_ledger k) t code by aid key = Inr (s', L') \<Longrightarrow>
      activation_step h k (k\<lparr>k_activation := s', k_ledger := L'\<rparr>)"
| step_approve_activation:
    "approve_activation h (k_activation k) (k_ledger k) now t sid aid key = Inr (s', L') \<Longrightarrow>
      activation_step h k (k\<lparr>k_activation := s', k_ledger := L'\<rparr>)"
| step_resolve:
    "valid_read_history_action x \<Longrightarrow> resolve h (k_activation k) (k_ledger k) rd m t x aid key = Inr (g, s', L') \<Longrightarrow>
      activation_step h k (k\<lparr>k_activation := s', k_ledger := L'\<rparr>)"
| step_scan_session_index:
    "scan_session_index h (k_activation k) (k_ledger k) rd m t receipt aid key uuids = Some (g, s', L') \<Longrightarrow>
      activation_step h k (k\<lparr>k_activation := s', k_ledger := L'\<rparr>)"

lemma activation_step_ensures:
  assumes "activation_step h k k'"
    and "\<And>t r c aid key. ensures (\<lambda>(s', L'). P (k\<lparr>k_activation := s', k_ledger := L'\<rparr>))
      (register_history_import h (k_activation k) (k_ledger k) t r c aid key)"
    and "\<And>t aid key. ensures (\<lambda>(s', L'). P (k\<lparr>k_activation := s', k_ledger := L'\<rparr>))
      (start_reorientation h (k_activation k) (k_ledger k) t aid key)"
    and "\<And>t code aid key. ensures (\<lambda>(s', L'). P (k\<lparr>k_activation := s', k_ledger := L'\<rparr>))
      (record_reorientation_failure h (k_activation k) (k_ledger k) t code aid key)"
    and "\<And>t code aid key. ensures (\<lambda>(s', L'). P (k\<lparr>k_activation := s', k_ledger := L'\<rparr>))
      (interrupt_reorientation_attempt h (k_activation k) (k_ledger k) t code aid key)"
    and "\<And>t s aid key. ensures (\<lambda>(s', L'). P (k\<lparr>k_activation := s', k_ledger := L'\<rparr>))
      (record_reorientation_session_checkpoint h (k_activation k) (k_ledger k) t s aid key)"
    and "\<And>t m n aid key. ensures (\<lambda>(s', L'). P (k\<lparr>k_activation := s', k_ledger := L'\<rparr>))
      (record_reorientation_usage h (k_activation k) (k_ledger k) t m n aid key)"
    and "\<And>t s ids items listed aid key. valid_reorientation_assessment s \<Longrightarrow> ensures (\<lambda>(s', L'). P (k\<lparr>k_activation := s', k_ledger := L'\<rparr>))
      (submit_assessment h (k_activation k) (k_ledger k) t s ids items listed aid key)"
    and "\<And>t code by aid key. ensures (\<lambda>(s', L'). P (k\<lparr>k_activation := s', k_ledger := L'\<rparr>))
      (request_assessment_revision h (k_activation k) (k_ledger k) t code by aid key)"
    and "\<And>now t sid aid key. ensures (\<lambda>(s', L'). P (k\<lparr>k_activation := s', k_ledger := L'\<rparr>))
      (approve_activation h (k_activation k) (k_ledger k) now t sid aid key)"
    and "\<And>rd m t x aid key. valid_read_history_action x \<Longrightarrow> ensures (\<lambda>(g, s', L'). P (k\<lparr>k_activation := s', k_ledger := L'\<rparr>))
      (resolve h (k_activation k) (k_ledger k) rd m t x aid key)"
    and "\<And>rd m t receipt aid key uuids g s' L'.
      scan_session_index h (k_activation k) (k_ledger k) rd m t receipt aid key uuids = Some (g, s', L') \<Longrightarrow>
      P (k\<lparr>k_activation := s', k_ledger := L'\<rparr>)"
  shows "P k'"
  using assms(1)
  by cases (auto dest: assms(2-11)[THEN ensuresD] assms(12))

inductive auth_step :: "hashing \<Rightarrow> kernel \<Rightarrow> kernel \<Rightarrow> bool" for h where
  step_issue:
    "issue h (k_owner_bootstrap k) (k_ledger k) (a_state (k_activation k)) (owner_node_exists k)
        url life key code uuid now t = Inr (g, s', L') \<Longrightarrow>
      auth_step h k (k\<lparr>k_owner_bootstrap := s', k_ledger := L'\<rparr>)"
| step_exchange:
    "exchange h (k_owner_bootstrap k) (k_ledger k) (a_state (k_activation k)) (owner_node_exists k)
        code dev life key tok uuid now t = Inr (g, s', L') \<Longrightarrow>
      auth_step h k (k\<lparr>k_owner_bootstrap := s', k_ledger := L'\<rparr>)"

lemma auth_step_ensures:
  assumes "auth_step h k k'"
    and "\<And>url life key code uuid now t. ensures (\<lambda>(g, s', L'). P (k\<lparr>k_owner_bootstrap := s', k_ledger := L'\<rparr>))
      (issue h (k_owner_bootstrap k) (k_ledger k) (a_state (k_activation k)) (owner_node_exists k)
        url life key code uuid now t)"
    and "\<And>code dev life key tok uuid now t. ensures (\<lambda>(g, s', L'). P (k\<lparr>k_owner_bootstrap := s', k_ledger := L'\<rparr>))
      (exchange h (k_owner_bootstrap k) (k_ledger k) (a_state (k_activation k)) (owner_node_exists k)
        code dev life key tok uuid now t)"
  shows "P k'"
  using assms(1)
  by cases (auto dest: assms(2-)[THEN ensuresD] simp: assms)

inductive kernel_step :: "hashing \<Rightarrow> kernel \<Rightarrow> kernel \<Rightarrow> bool" for h where
  in_work: "work_step h k k' \<Longrightarrow> kernel_step h k k'"
| in_execution: "execution_step h k k' \<Longrightarrow> kernel_step h k k'"
| in_effect: "effect_step h k k' \<Longrightarrow> kernel_step h k k'"
| in_route: "route_step h k k' \<Longrightarrow> kernel_step h k k'"
| in_activation: "activation_step h k k' \<Longrightarrow> kernel_step h k k'"
| in_auth: "auth_step h k k' \<Longrightarrow> kernel_step h k k'"
| in_history:
    "external_prefix (event_type e) = Some pre \<Longrightarrow> starts_with pre (stream_id e) \<Longrightarrow>
      ledger_append (k_ledger k) e n = Inr (r, L') \<Longrightarrow> kernel_step h k (k\<lparr>k_ledger := L'\<rparr>)"

text \<open>The states a Kernel can reach from its construction over an empty ledger.\<close>

definition reachable :: "hashing \<Rightarrow> data_space \<Rightarrow> audit_policy \<Rightarrow> control_policy \<Rightarrow> kernel \<Rightarrow> bool" where
  "reachable h ds ap cp k \<longleftrightarrow> (\<exists>k0. init_kernel ds (empty_ledger (data_space_id ds)) ap cp = Inr k0
     \<and> (kernel_step h)\<^sup>*\<^sup>* k0 k)"

section \<open>What every reachable Kernel satisfies\<close>

text \<open>Each dictionary stores a value under its own identity.\<close>

definition keys_inv :: "kernel \<Rightarrow> bool" where
  "keys_inv k \<longleftrightarrow> keyed node_id (k_nodes k) \<and> keyed work_item_id (k_work_items k)
     \<and> keyed execution_id (k_executions k) \<and> keyed assignment_id (k_assignments k)
     \<and> keyed registration_id (k_registrations k) \<and> keyed notification_id (k_notifications k)
     \<and> keyed lease_id (k_effect_leases k) \<and> keyed approval_lease_id (k_effect_approvals k)
     \<and> keyed finding_id (k_findings k) \<and> keyed snapshot_id (k_route_snapshots k)
     \<and> keyed bootstrap_id (codes (k_owner_bootstrap k))
     \<and> keyed session_id (browser_sessions (k_owner_bootstrap k))"

lemma keys_inv_frame:
  "keys_inv (k\<lparr>k_ledger := L, k_versions := V\<rparr>) \<longleftrightarrow> keys_inv k"
  by (simp add: keys_inv_def)

lemma keyed_get_id: "keyed key d \<Longrightarrow> dict_get d k = Some v \<Longrightarrow> key v = k"
  by (rule keyed_get)

end
