(* ===== verification/Kernel_Outcomes.thy ===== *)
theory Kernel_Outcomes
  imports Kernel_Machine
begin

text \<open>
  What each operation of the Kernel has done when it returns: the guards that held and the
  views it changed, leaving out the ledger and the stream versions. The invariants and the
  safety properties rest on these facts instead of the definitions.
\<close>

definition recorded :: "kernel \<Rightarrow> kernel \<Rightarrow> bool" where
  "recorded k k' \<longleftrightarrow> k_data_space k' = k_data_space k \<and> k_audit_policy k' = k_audit_policy k
     \<and> k_control_policy k' = k_control_policy k \<and> k_activation k' = k_activation k
     \<and> k_owner_bootstrap k' = k_owner_bootstrap k \<and> k_nodes k' = k_nodes k
     \<and> k_work_items k' = k_work_items k \<and> k_work_edges k' = k_work_edges k
     \<and> k_executions k' = k_executions k \<and> k_assignments k' = k_assignments k
     \<and> k_registrations k' = k_registrations k \<and> k_notifications k' = k_notifications k
     \<and> k_capability_grants k' = k_capability_grants k \<and> k_effect_leases k' = k_effect_leases k
     \<and> k_effect_approvals k' = k_effect_approvals k \<and> k_reference_grants k' = k_reference_grants k
     \<and> k_budget_reservations k' = k_budget_reservations k \<and> k_findings k' = k_findings k
     \<and> k_route_snapshots k' = k_route_snapshots k"

lemma recorded_refl [simp]: "recorded k k"
  by (simp add: recorded_def)

lemma kernel_record_valid:
  assumes "kernel_record h k t sid ty p act aid key corr caus = Inr (e, k1)"
  shows "valid_event_envelope e"
proof -
  from assms obtain r L' where "append_event h (k_ledger k) (data_space_id (k_data_space k)) sid
      (version_of (k_versions k) sid) ty p t act aid corr caus key = Inr (e, r, L')"
    by (auto simp: kernel_record_def)
  from make_event_Inr(10) [OF append_event_Inr(2) [OF this]] show ?thesis .
qed

lemma ensures_recorded:
  "(\<And>e L V. valid_event_envelope e \<Longrightarrow> Q (e, u e (k\<lparr>k_ledger := L, k_versions := V\<rparr>))) \<Longrightarrow>
    ensures Q (then_update (kernel_record h k t sid ty p act aid key corr caus) u)"
  using kernel_record_valid [of h k t sid ty p act aid key corr caus]
    kernel_record_shape [of h k t sid ty p act aid key corr caus]
  by (fastforce simp: ensures_def)

section \<open>Work\<close>

lemma register_node_outcome: "ensures (\<lambda>(e, k').
    \<not> dict_mem (node_id n) (k_nodes k) \<and> node_data_space_id n = data_space_id (k_data_space k) \<and>
    option_all (\<lambda>pid. dict_mem pid (k_nodes k)) (node_parent_id n) \<and>
    recorded (k\<lparr>k_nodes := dict_set (k_nodes k) (node_id n) n\<rparr>) k') (register_node h k t n aid key)"
  by (auto simp: register_node_def recorded_def dict_mem_get split: ensures_splits intro!: ensures_recorded)

definition new_work_item_fits :: "kernel \<Rightarrow> work_item \<Rightarrow> bool" where
  "new_work_item_fits k w \<longleftrightarrow> work_data_space_id w = data_space_id (k_data_space k) \<and>
     work_state w \<in> {Proposed, Ready} \<and> completion_evidence w = None \<and> blocking_s3_star_finding_ids w = [] \<and>
     acceptance_criteria w \<noteq> [] \<and> missing_node (k_nodes k) w = None \<and>
     option_all (\<lambda>pid. \<exists>parent. dict_get (k_work_items k) pid = Some parent \<and>
       integration_owner_node_id parent = integration_owner_node_id w) (parent_work_item_id w)"

lemma check_new_work_item_fits: "check_new_work_item k w = Inr () \<longleftrightarrow> new_work_item_fits k w"
  by (auto simp: check_new_work_item_def new_work_item_fits_def split: option.splits)

lemma create_work_item_outcome: "ensures (\<lambda>(e, k'). new_work_item_fits k w \<and>
    recorded (k\<lparr>k_work_items := dict_set (k_work_items k) (work_item_id w) w,
                k_work_edges := k_work_edges k @ parent_edges w\<rparr>) k') (create_work_item h k t w aid key)"
  by (auto simp: create_work_item_def recorded_def check_new_work_item_fits intro!: ensures_recorded)

lemma add_dependency_outcome: "ensures (\<lambda>(e, k'). wid \<noteq> dep \<and>
    dict_mem wid (k_work_items k) \<and> dict_mem dep (k_work_items k) \<and>
    \<not> dependency_search (k_work_edges k) wid [dep] [] \<and>
    recorded (k\<lparr>k_work_edges := k_work_edges k @
      [\<lparr>source_work_item_id = wid, target_work_item_id = dep, edge_kind = DependsOn\<rparr>]\<rparr>) k')
    (add_dependency h k t wid dep aid key)"
  by (auto simp: add_dependency_def recorded_def Let_def split: ensures_splits intro!: ensures_recorded)

lemma import_current_work_graph_outcome: "ensures (\<lambda>(e, k'). k' = k \<or>
    (check_work_graph h k s = Inr () \<and> work_graph_snapshot_id (k_activation k) = None \<and>
     recorded (k\<lparr>k_nodes := dict_set_all node_id (k_nodes k) (graph_nodes s),
        k_work_items := dict_set_all work_item_id (k_work_items k) (graph_work_items s),
        k_work_edges := k_work_edges k @ graph_edges s,
        k_activation := (k_activation k)\<lparr>work_graph_snapshot_id := Some (graph_snapshot_id s)\<rparr>\<rparr>) k'))
    (import_current_work_graph h k t s aid key)"
  by (auto simp: import_current_work_graph_def reimport_work_graph_def recorded_def split: ensures_splits list.split
      intro!: ensures_recorded)

lemma delegate_work_item_outcome: "ensures (\<lambda>(e, k'). \<exists>w. dict_get (k_work_items k) wid = Some w \<and>
    dict_mem nid (k_nodes k) \<and> work_state w \<in> {Proposed, Ready} \<and>
    (\<forall>x \<in> set (dict_values (k_executions k)). exec_work_item_id x \<noteq> wid) \<and>
    recorded (k\<lparr>k_work_items := dict_set (k_work_items k) wid
      (w\<lparr>delegated_to_node_id := nid, work_state := Ready\<rparr>)\<rparr>) k') (delegate_work_item h k t wid nid aid key)"
  by (auto simp: delegate_work_item_def recorded_def split: ensures_splits intro!: ensures_recorded)

lemma validate_resume_Inr: "validate_owner_confirmed_resume k wid = Inr w \<Longrightarrow>
    dict_get (k_work_items k) wid = Some w \<and> blocking_s3_star_finding_ids w = [] \<and>
    work_state w \<in> {Proposed, Ready, WorkPaused}"
  by (auto simp: validate_owner_confirmed_resume_def split: if_splits option.splits)

lemma prepare_owner_confirmed_resume_outcome: "ensures (\<lambda>(e, k'). \<exists>w. dict_get (k_work_items k) wid = Some w \<and>
    blocking_s3_star_finding_ids w = [] \<and> work_state w \<in> {Proposed, Ready, WorkPaused} \<and>
    recorded (k\<lparr>k_work_items := dict_set (k_work_items k) wid (w\<lparr>work_state := Ready\<rparr>)\<rparr>) k')
    (prepare_owner_confirmed_resume h k t wid aid key)"
  by (auto simp: prepare_owner_confirmed_resume_def recorded_def dest!: validate_resume_Inr intro!: ensures_recorded)

lemma intervene_outcome: "ensures (\<lambda>(e, k'). \<exists>w. dict_get (k_work_items k) wid = Some w \<and>
    recorded (k\<lparr>k_work_items := dict_set (k_work_items k) wid (w\<lparr>work_state := WorkPaused\<rparr>),
      k_executions := pause_executions (\<lambda>x. exec_work_item_id x = wid) ''human_intervention'' (k_executions k),
      k_effect_leases := revoke_leases wid (k_effect_leases k)\<rparr>) k') (intervene h k t wid aid reason key)"
  by (auto simp: intervene_def recorded_def split: ensures_splits intro!: ensures_recorded)

lemma record_s3_star_finding_outcome: "ensures (\<lambda>(e, k'). \<exists>w. dict_get (k_work_items k) (finding_work_item_id f) = Some w \<and>
    dict_mem (finding_node_id f) (k_nodes k) \<and> \<not> accepted_by_s5 f \<and>
    (let k2 = k\<lparr>k_findings := dict_set (k_findings k) (finding_id f) f\<rparr> in
     recorded (if severity f = Severe then set_work k2 (w\<lparr>work_state := Blocked,
       blocking_s3_star_finding_ids := blocking_s3_star_finding_ids w @ [finding_id f]\<rparr>) else k2) k'))
    (record_s3_star_finding h k t f aid key)"
  by (auto simp: record_s3_star_finding_def recorded_def Let_def set_work_def split: ensures_splits
      intro!: ensures_recorded)

lemma accept_s3_star_risk_outcome: "ensures (\<lambda>(e, k'). \<exists>f w. dict_get (k_findings k) fid = Some f \<and>
    s5 = finding_node_id f \<and> dict_get (k_work_items k) (finding_work_item_id f) = Some w \<and>
    recorded (set_work (k\<lparr>k_findings := dict_set (k_findings k) fid (f\<lparr>accepted_by_s5 := True\<rparr>)\<rparr>)
      (remove_blocker fid w)) k') (accept_s3_star_risk h k t fid s5 aid rationale key)"
  by (auto simp: accept_s3_star_risk_def recorded_def Let_def set_work_def split: ensures_splits
      dest!: kernel_record_shape)

lemma complete_work_item_outcome: "ensures (\<lambda>(e, k'). \<exists>w. dict_get (k_work_items k) wid = Some w \<and>
    blocking_s3_star_finding_ids w = [] \<and> completion_gate ev \<and>
    incomplete_dependencies (k_work_items k) wid (k_work_edges k) = Inr [] \<and>
    recorded (k\<lparr>k_work_items := dict_set (k_work_items k) wid
      (w\<lparr>work_state := Completed, completion_evidence := Some ev\<rparr>)\<rparr>) k') (complete_work_item h k t wid ev aid key)"
  by (auto simp: complete_work_item_def recorded_def split: ensures_splits intro!: ensures_recorded)

section \<open>Executions\<close>

lemma require_active_Inr [simp]: "require_active a op = Inr () \<longleftrightarrow> a_state a = Active"
  by (simp add: require_active_def)

lemma create_execution_outcome: "ensures (\<lambda>(e, k'). \<exists>w. a_state (k_activation k) = Active \<and>
    exec_data_space_id x = data_space_id (k_data_space k) \<and> exec_state x \<in> {Requested, ExecActive} \<and>
    dict_get (k_work_items k) (exec_work_item_id x) = Some w \<and> exec_node_id x = delegated_to_node_id w \<and>
    dict_mem (exec_node_id x) (k_nodes k) \<and> \<not> dict_mem (execution_id x) (k_executions k) \<and>
    recorded (k\<lparr>k_executions := dict_set (k_executions k) (execution_id x) x\<rparr>) k') (create_execution h k t x aid key)"
  by (auto simp: create_execution_def recorded_def split: ensures_splits intro!: ensures_recorded)

lemma set_execution_state_outcome: "ensures (\<lambda>(e, k'). \<exists>x. dict_get (k_executions k) eid = Some x \<and>
    s \<in> allowed_transitions (exec_state x) \<and> (s = ExecPaused \<longrightarrow> reason \<noteq> None \<and> reason \<noteq> Some []) \<and>
    recorded (k\<lparr>k_executions := dict_set (k_executions k) eid (x\<lparr>exec_state := s, pause_reason := reason\<rparr>)\<rparr>) k')
    (set_execution_state h k t eid s act aid key reason)"
  by (auto simp: set_execution_state_def recorded_def split: ensures_splits intro!: ensures_recorded)

lemma receipt_transition_Inr: "receipt_transition r = Inr (s, reason) \<Longrightarrow>
    s \<in> {ExecSucceeded, ExecFailed, ExecPaused} \<and> (s = ExecSucceeded \<longrightarrow> receipt_error r = None) \<and>
    (s \<noteq> ExecSucceeded \<longrightarrow> receipt_result r = None)"
  by (auto simp: receipt_transition_def split: if_splits)

lemma record_pilot_execution_receipt_outcome: "ensures (\<lambda>(e, k'). \<exists>x s reason. dict_get (k_executions k) eid = Some x \<and>
    exec_state x = Requested \<and> receipt_transition r = Inr (s, reason) \<and>
    recorded (k\<lparr>k_executions := dict_set (k_executions k) eid
      (x\<lparr>exec_state := s, provider_session_id := receipt_session_id r, pause_reason := reason\<rparr>)\<rparr>) k')
    (record_pilot_execution_receipt h k t eid r aid key)"
  by (auto simp: record_pilot_execution_receipt_def recorded_def split: ensures_splits intro!: ensures_recorded)

lemma pilot_host_disconnected_outcome: "ensures (\<lambda>(e, k').
    recorded (k\<lparr>k_executions := pause_executions (\<lambda>x. pilot_host_id x = host) ''pilot_host_disconnected''
      (k_executions k)\<rparr>) k') (pilot_host_disconnected h k t host key)"
  by (auto simp: pilot_host_disconnected_def recorded_def intro!: ensures_recorded)

lemma assignment_for_id_Inr [simp]: "assignment_for_id R aid = Inr a \<longleftrightarrow> dict_get (reg_assignments R) aid = Some a"
  by (simp add: assignment_for_id_def split: option.split)

lemma registration_for_id_Inr [simp]: "registration_for_id R rid = Inr a \<longleftrightarrow> dict_get (reg_registrations R) rid = Some a"
  by (simp add: registration_for_id_def split: option.split)

lemma record_agent_name_assignment_outcome: "ensures (\<lambda>(e, k'). \<exists>x. dict_get (reg_assignments R) (assignment_id a) = Some a \<and>
    \<not> dict_mem (assignment_id a) (k_assignments k) \<and>
    (\<forall>b \<in> set (dict_values (k_assignments k)). assignment_agent_name b \<noteq> assignment_agent_name a) \<and>
    dict_get (k_executions k) (assignment_execution_id a) = Some x \<and> exec_agent_name x = None \<and>
    exec_work_item_id x = assignment_work_item_id a \<and>
    recorded (k\<lparr>k_assignments := dict_set (k_assignments k) (assignment_id a) a,
      k_executions := dict_set (k_executions k) (assignment_execution_id a)
        (x\<lparr>exec_agent_name := Some (assignment_agent_name a)\<rparr>)\<rparr>) k')
    (record_agent_name_assignment h k t R a aid key)"
  by (auto simp: record_agent_name_assignment_def recorded_def split: ensures_splits intro!: ensures_recorded)

lemma register_agent_identity_outcome: "ensures (\<lambda>(e, k'). dict_get (reg_registrations R) (registration_id i) = Some i \<and>
    \<not> dict_mem (registration_id i) (k_registrations k) \<and> \<not> agent_name_is_registered k (registration_agent_name i) \<and>
    dict_mem (registration_node_id i) (k_nodes k) \<and>
    recorded (k\<lparr>k_registrations := dict_set (k_registrations k) (registration_id i) i\<rparr>) k')
    (register_agent_identity h k t R i aid key)"
  by (auto simp: register_agent_identity_def recorded_def split: ensures_splits intro!: ensures_recorded)

lemma record_agent_notification_outcome: "ensures (\<lambda>(e, k').
    \<not> dict_mem (notification_id n) (k_notifications k) \<and>
    (notification_source_kind n = AgentToAgent \<longrightarrow> validate_agent_message_identity k n = Inr ()) \<and>
    recorded (k\<lparr>k_notifications := dict_set (k_notifications k) (notification_id n) n\<rparr>) k')
    (record_agent_notification h k t n aid key)"
  by (auto simp: record_agent_notification_def recorded_def split: ensures_splits intro!: ensures_recorded)

lemma promote_agent_notification_outcome: "ensures (\<lambda>(r, k'). \<exists>n. dict_get (k_notifications k) nid = Some n \<and>
    requires_work_item n \<and> promoted_work_item_id n = None \<and> \<not> dict_mem (work_item_id w) (k_work_items k) \<and>
    new_work_item_fits k w \<and>
    (let k2 = k\<lparr>k_work_items := dict_set (k_work_items k) (work_item_id w) w,
                k_work_edges := k_work_edges k @ parent_edges w\<rparr> in
     ((\<exists>err. r = Inl err) \<and> recorded k2 k') \<or>
     ((\<exists>e. r = Inr e) \<and> recorded (k2\<lparr>k_notifications := dict_set (k_notifications k2) nid
            (n\<lparr>promoted_work_item_id := Some (work_item_id w)\<rparr>)\<rparr>) k')))
    (promote_agent_notification h k t t' nid w aid key)"
  using create_work_item_outcome [of k w h t aid "key @ '':work-item''"]
  by (auto simp: promote_agent_notification_def check_promotion_def recorded_def Let_def
      split: ensures_splits dest!: ensuresD kernel_record_shape)

section \<open>Authority\<close>

lemma grant_capability_outcome: "ensures (\<lambda>(e, k'). grant_state g = GrantActive \<and>
    valid_from g \<le> now \<and> now < grant_expires_at g \<and>
    recorded (k\<lparr>k_capability_grants := dict_set (k_capability_grants k) (grant_id g) g\<rparr>) k')
    (grant_capability h k now t g aid key)"
  by (auto simp: grant_capability_def recorded_def split: ensures_splits intro!: ensures_recorded)

lemma register_reference_grant_outcome: "ensures (\<lambda>(e, k').
    target_data_space_id g = data_space_id (k_data_space k) \<and> rg_state g = GrantActive \<and>
    rg_valid_from g \<le> now \<and> now < rg_expires_at g \<and>
    recorded (k\<lparr>k_reference_grants := dict_set (k_reference_grants k) (rg_grant_id g) g\<rparr>) k')
    (register_reference_grant h k now t g aid key)"
  by (auto simp: register_reference_grant_def recorded_def split: ensures_splits intro!: ensures_recorded)

lemma reserve_budget_outcome: "ensures (\<lambda>(e, k'). dict_mem (budget_work_item_id r) (k_work_items k) \<and>
    recorded (k\<lparr>k_budget_reservations := dict_set (k_budget_reservations k) (reservation_id r) r\<rparr>) k')
    (reserve_budget h k t r aid key)"
  by (auto simp: reserve_budget_def recorded_def split: ensures_splits intro!: ensures_recorded)

lemma plan_effect_outcome: "ensures (\<lambda>(e, k'). a_state (k_activation k) = Active \<and>
    lease_data_space_id l = data_space_id (k_data_space k) \<and> lease_state l = Planned \<and> now < lease_expires_at l \<and>
    (\<exists>x. dict_get (k_executions k) (lease_execution_id l) = Some x \<and> exec_work_item_id x = lease_work_item_id l) \<and>
    (\<forall>other \<in> set (dict_values (k_effect_leases k)).
       lease_idempotency_key other = lease_idempotency_key l \<longrightarrow> lease_id other = lease_id l) \<and>
    recorded (k\<lparr>k_effect_leases := dict_set (k_effect_leases k) (lease_id l) l\<rparr>) k') (plan_effect h k now t l aid key)"
  by (auto simp: plan_effect_def recorded_def split: ensures_splits intro!: ensures_recorded)

lemma approve_effect_outcome: "ensures (\<lambda>(e, k'). \<exists>l. a_state (k_activation k) = Active \<and>
    dict_get (k_effect_leases k) lid = Some l \<and> lease_state l = Planned \<and> \<not> dict_mem lid (k_effect_approvals k) \<and>
    recorded (k\<lparr>k_effect_approvals := dict_set (k_effect_approvals k) lid
      \<lparr>approval_lease_id = lid, approved_by = aid, approval_approved_at = now\<rparr>\<rparr>) k')
    (approve_effect h k now t lid aid key)"
  by (auto simp: approve_effect_def recorded_def Let_def split: ensures_splits intro!: ensures_recorded)

lemma activate_effect_outcome: "ensures (\<lambda>(e, k'). \<exists>l. a_state (k_activation k) = Active \<and>
    dict_get (k_effect_leases k) lid = Some l \<and> lease_state l = Planned \<and> now < lease_expires_at l \<and>
    dict_mem lid (k_effect_approvals k) \<and> recorded (set_lease_state lid l LeaseActive k) k')
    (activate_effect h k now t lid aid key)"
  by (auto simp: activate_effect_def recorded_def set_lease_state_def split: ensures_splits intro!: ensures_recorded)

lemma mark_effect_unknown_outcome: "ensures (\<lambda>(e, k'). \<exists>l. dict_get (k_effect_leases k) lid = Some l \<and>
    lease_state l = LeaseActive \<and> recorded (set_lease_state lid l LeaseUnknown k) k')
    (mark_effect_unknown h k t lid aid key)"
  by (auto simp: mark_effect_unknown_def recorded_def set_lease_state_def split: ensures_splits intro!: ensures_recorded)

lemma reconcile_effect_outcome: "ensures (\<lambda>(e, k'). \<exists>l. dict_get (k_effect_leases k) lid = Some l \<and>
    lease_state l = LeaseUnknown \<and> s \<in> {LeaseSucceeded, LeaseFailed} \<and>
    recorded (set_lease_state lid l s k) k') (reconcile_effect h k t lid s aid key)"
  by (auto simp: reconcile_effect_def recorded_def set_lease_state_def split: ensures_splits intro!: ensures_recorded)

section \<open>RouteSnapshots\<close>

lemma register_route_snapshot_outcome: "ensures (\<lambda>(e, k'). route_state s = Draft \<and>
    recorded (k\<lparr>k_route_snapshots := dict_set (k_route_snapshots k) (snapshot_id s) s\<rparr>) k')
    (register_route_snapshot h k t s aid key)"
  by (auto simp: register_route_snapshot_def recorded_def split: ensures_splits intro!: ensures_recorded)

definition approved_route :: "route_snapshot_state \<Rightarrow> string \<Rightarrow> route_snapshot \<Rightarrow> route_snapshot option" where
  "approved_route st eid s =
     (if st = Draft then Some (s\<lparr>route_state := S3StarApproved, s3_star_approval_event_id := Some eid\<rparr>)
      else if st = S3StarApproved then Some (s\<lparr>route_state := OwnerApproved, owner_approval_event_id := Some eid\<rparr>)
      else None)"

lemma route_approval_applies: "route_approval approval s = Inr (next_state, f) \<Longrightarrow>
    approved_route (route_state s) eid s = Some (f eid (s\<lparr>route_state := next_state\<rparr>))"
  by (auto simp: route_approval_def approved_route_def split: if_splits)

lemma approve_route_snapshot_outcome: "ensures (\<lambda>(e, k'). \<exists>s s'. dict_get (k_route_snapshots k) sid = Some s \<and>
    approved_route (route_state s) (event_id e) s = Some s' \<and> valid_identifier (event_id e) \<and>
    recorded (k\<lparr>k_route_snapshots := dict_set (k_route_snapshots k) sid s'\<rparr>) k')
    (approve_route_snapshot h k t sid approval aid key)"
  by (auto simp: approve_route_snapshot_def recorded_def valid_event_envelope_def route_approval_applies
      split: ensures_splits intro!: ensures_recorded)

lemma publish_route_snapshot_outcome: "ensures (\<lambda>(e, k'). \<exists>s. dict_get (k_route_snapshots k) sid = Some s \<and>
    route_state s = OwnerApproved \<and>
    (\<forall>other \<in> set (dict_values (k_route_snapshots k)).
       snapshot_id other \<noteq> sid \<and> route_key other = route_key s \<longrightarrow> route_state other \<noteq> Published) \<and>
    recorded (k\<lparr>k_route_snapshots := dict_set (k_route_snapshots k) sid (s\<lparr>route_state := Published\<rparr>)\<rparr>) k')
    (publish_route_snapshot h k t sid aid key)"
  by (auto simp: publish_route_snapshot_def recorded_def split: ensures_splits intro!: ensures_recorded)

lemma retire_route_snapshot_outcome: "ensures (\<lambda>(e, k'). \<exists>s. dict_get (k_route_snapshots k) sid = Some s \<and>
    route_state s = Published \<and> reason \<noteq> None \<and>
    (\<forall>rid. replacement = Some rid \<longrightarrow> validate_route_snapshot_replacement k s rid = Inr ()) \<and>
    recorded (k\<lparr>k_route_snapshots := dict_set (k_route_snapshots k) sid (s\<lparr>route_state := Retired\<rparr>)\<rparr>) k')
    (retire_route_snapshot h k t sid reason replacement aid key)"
  by (auto simp: retire_route_snapshot_def recorded_def split: ensures_splits intro!: ensures_recorded)

section \<open>Activation\<close>

text \<open>Up to the stream version.\<close>

definition arecorded :: "activation \<Rightarrow> activation \<times> kledger \<Rightarrow> bool" where
  "arecorded a x \<longleftrightarrow> (fst x)\<lparr>a_version := 0\<rparr> = a\<lparr>a_version := 0\<rparr>"

lemma activation_recordD:
  "activation_record h a L t ty p act aid key = Inr (e, cur, a', L') \<Longrightarrow> \<exists>V. a' = a\<lparr>a_version := V\<rparr>"
  by (auto simp: activation_record_def)

lemma register_history_import_outcome: "ensures (\<lambda>x. fst x = a \<or>
    (valid_history_import_receipt r \<and> a_state a = Uncommissioned \<and> work_graph_snapshot_id a \<noteq> None \<and> c \<noteq> [] \<and>
    receipt_data_space_id r = a_data_space_id a \<and>
    arecorded (a\<lparr>import_receipt := Some r, reorientation_conversation_id := Some c,
      sessions := dict_set_all session_ref [] (receipt_sessions r), a_state := HistoryImported,
      import_event_cursor := import_event_cursor (fst x)\<rparr>) x)) (register_history_import h a L t r c aid key)"
  by (auto simp: register_history_import_def arecorded_def Let_def split: ensures_splits dest!: activation_recordD)

lemma start_event_guard: "start_event a = Inr x \<Longrightarrow> \<not> attempt_in_progress a \<and>
    (a_state a = HistoryImported \<or>
     a_state a = ReorientationOnly \<and> (reorientation_error a \<noteq> None \<or> pending_revision_reason a \<noteq> None))"
  by (auto simp: start_event_def split: if_splits activation_state.splits option.splits)

lemma start_reorientation_outcome: "ensures (\<lambda>x. \<not> attempt_in_progress a \<and>
    attempt_started_stream_version (fst x) \<noteq> None \<and>
    (a_state a = HistoryImported \<or>
     a_state a = ReorientationOnly \<and> (reorientation_error a \<noteq> None \<or> pending_revision_reason a \<noteq> None)) \<and>
    arecorded (a\<lparr>a_state := ReorientationOnly, reorientation_error := None, pending_revision_reason := None,
      attempt_in_progress := True, attempt_started_stream_version := attempt_started_stream_version (fst x)\<rparr>) x)
    (start_reorientation h a L t aid key)"
  by (auto simp: start_reorientation_def arecorded_def dest!: activation_recordD start_event_guard)

lemma record_reorientation_failure_outcome: "ensures (\<lambda>x. a_state a = ReorientationOnly \<and> attempt_in_progress a \<and>
    arecorded (end_attempt (a\<lparr>reorientation_error := Some code\<rparr>)) x) (record_reorientation_failure h a L t code aid key)"
  by (auto simp: record_reorientation_failure_def arecorded_def end_attempt_def split: ensures_splits
      dest!: activation_recordD)

lemma interrupt_reorientation_attempt_outcome: "ensures (\<lambda>x. a_state a = ReorientationOnly \<and> attempt_in_progress a \<and>
    arecorded (end_attempt (a\<lparr>reorientation_error := Some code\<rparr>)) x) (interrupt_reorientation_attempt h a L t code aid key)"
  by (auto simp: interrupt_reorientation_attempt_def arecorded_def end_attempt_def split: ensures_splits
      dest!: activation_recordD enum_of_value_Inr)

lemma record_reorientation_session_checkpoint_outcome: "ensures (\<lambda>x. a_state a = ReorientationOnly \<and>
    attempt_in_progress a \<and> s \<noteq> [] \<and> arecorded (a\<lparr>reorientation_provider_session_id := Some s\<rparr>) x)
    (record_reorientation_session_checkpoint h a L t s aid key)"
  by (auto simp: record_reorientation_session_checkpoint_def arecorded_def split: ensures_splits
      dest!: activation_recordD)

lemma record_reorientation_usage_outcome: "ensures (\<lambda>x. 0 \<le> m \<and> 0 \<le> n \<and> a_state a = ReorientationOnly \<and>
    attempt_in_progress a \<and> arecorded (a\<lparr>reorientation_pilot_calls := reorientation_pilot_calls a + 1,
      reorientation_input_tokens := reorientation_input_tokens a + m,
      reorientation_output_tokens := reorientation_output_tokens a + n\<rparr>) x)
    (record_reorientation_usage h a L t m n aid key)"
  by (auto simp: record_reorientation_usage_def arecorded_def split: ensures_splits dest!: activation_recordD)

lemma check_assessment_attempt: "check_assessment a s ids items listed = Inr () \<Longrightarrow>
    a_state a = ReorientationOnly \<and> attempt_in_progress a"
  by (simp add: check_assessment_def split: if_splits)

lemma submit_assessment_outcome: "ensures (\<lambda>x. check_assessment a s ids items listed = Inr () \<and>
    arecorded (end_attempt (a\<lparr>assessment := Some s, a_state := AwaitingOwnerConfirmation\<rparr>)) x)
    (submit_assessment h a L t s ids items listed aid key)"
  by (auto simp: submit_assessment_def arecorded_def end_attempt_def dest!: activation_recordD)

lemma request_assessment_revision_outcome: "ensures (\<lambda>x. a_state a = AwaitingOwnerConfirmation \<and>
    pending_revision_reason (fst x) \<noteq> None \<and>
    arecorded (a\<lparr>assessment := None, reorientation_error := None,
      pending_revision_reason := pending_revision_reason (fst x),
      attempt_in_progress := False, attempt_started_stream_version := None, a_state := ReorientationOnly\<rparr>) x)
    (request_assessment_revision h a L t code by aid key)"
  by (auto simp: request_assessment_revision_def arecorded_def split: ensures_splits dest!: activation_recordD)

lemma approve_activation_outcome: "ensures (\<lambda>x. a_state a = AwaitingOwnerConfirmation \<and>
    map_option assessment_id (assessment a) = Some sid \<and>
    arecorded (a\<lparr>approved_at := Some now, a_state := Active\<rparr>) x) (approve_activation h a L now t sid aid key)"
  by (auto simp: approve_activation_def arecorded_def split: ensures_splits dest!: activation_recordD)

lemma resolve_outcome: "ensures (\<lambda>x. a_state a = ReorientationOnly \<and> (fst (snd x) = a \<or>
    arecorded (a\<lparr>history_query_operations := insert (operation q) (history_query_operations a),
      history_query_event_ids := history_query_event_ids (fst (snd x))\<rparr>) (snd x)))
    (resolve h a L rd m t q aid key)"
  by (auto simp: resolve_def arecorded_def Let_def split: ensures_splits dest!: activation_recordD)

lemma record_index_pages_outcome:
  "record_index_pages h a L t aid key uuids pages = (r, a', L') \<Longrightarrow> \<exists>V. a' = a\<lparr>a_version := V\<rparr>"
proof (induction pages arbitrary: a L uuids r a' L')
  case Nil
  then show ?case by (auto intro: exI [of _ "a_version a"])
next
  case (Cons cp pages)
  obtain c page where cp: "cp = (c, page)" by fastforce
  obtain ref L1 where blob: "put_blob (sha256 h) L (page_json page) = (ref, L1)" by fastforce
  let ?rec = "activation_record h a L1 t ''history_session_index_page_verified''
        [(''page_cursor'', opt_str c), (''next_cursor'', opt_str (next_cursor page)),
         (''result_blob_ref'', PStr ref), (''result_sha256'', PStr (sha256 h (page_json page)))]
        SystemActor (Some aid) (key @ '':'' @ (case c of None \<Rightarrow> ''first'' | Some s \<Rightarrow> if s = [] then ''first'' else s))"
  show ?case
  proof (cases ?rec)
    case (Inl err)
    with Cons.prems cp blob have "a' = a" by simp
    then show ?thesis by (intro exI [of _ "a_version a"]) simp
  next
    case (Inr q)
    then obtain e cur a1 L2 where rec: "?rec = Inr (e, cur, a1, L2)" by (cases q) auto
    obtain V where a1: "a1 = a\<lparr>a_version := V\<rparr>" using activation_recordD [OF rec] by blast
    obtain r2 a2 L3 where rest: "record_index_pages h a1 L2 t aid key (tl uuids) pages = (r2, a2, L3)"
      by (cases "record_index_pages h a1 L2 t aid key (tl uuids) pages") auto
    have "a' = a1 \<or> a' = a2"
      using Cons.prems rec rest by (auto simp: cp blob split: sum.splits)
    with Cons.IH [OF rest] a1 show ?thesis by auto
  qed
qed

end
