(* ===== verification/Kernel_Invariants.thy ===== *)
theory Kernel_Invariants
  imports Kernel_Outcomes
begin

text \<open>
  The invariants of the Kernel, each with its preservation by every group of steps:
  \<open>keys_inv\<close> (dictionaries), \<open>graph_inv\<close> (no dangling reference), \<open>authority_inv\<close>
  (fail-closed activation, owner approval), \<open>routes_inv\<close> (published routes),
  \<open>activation_inv\<close> (the commissioning states).
\<close>

lemma ensures_mono: "ensures P r \<Longrightarrow> (\<And>x. P x \<Longrightarrow> Q x) \<Longrightarrow> ensures Q r"
  by (simp add: ensures_def)

lemmas work_outcomes = register_node_outcome create_work_item_outcome add_dependency_outcome
  import_current_work_graph_outcome delegate_work_item_outcome prepare_owner_confirmed_resume_outcome
  intervene_outcome record_s3_star_finding_outcome accept_s3_star_risk_outcome complete_work_item_outcome

lemmas execution_outcomes = create_execution_outcome set_execution_state_outcome
  record_pilot_execution_receipt_outcome pilot_host_disconnected_outcome record_agent_name_assignment_outcome
  register_agent_identity_outcome record_agent_notification_outcome promote_agent_notification_outcome

lemmas effect_outcomes = grant_capability_outcome register_reference_grant_outcome reserve_budget_outcome
  plan_effect_outcome approve_effect_outcome activate_effect_outcome mark_effect_unknown_outcome
  reconcile_effect_outcome

lemmas route_outcomes = register_route_snapshot_outcome approve_route_snapshot_outcome
  publish_route_snapshot_outcome retire_route_snapshot_outcome

lemmas view_defs = set_work_def set_lease_state_def pause_executions_def revoke_leases_def remove_blocker_def Let_def

section \<open>Dictionaries\<close>

lemma keys_inv_recorded: "recorded k k' \<Longrightarrow> keys_inv k \<Longrightarrow> keys_inv k'"
  by (simp add: recorded_def keys_inv_def)

lemma keys_inv_update [simp]:
  assumes "keys_inv k"
  shows "keys_inv (k\<lparr>k_nodes := d1\<rparr>) \<longleftrightarrow> keyed node_id d1"
    and "keys_inv (k\<lparr>k_work_items := d2\<rparr>) \<longleftrightarrow> keyed work_item_id d2"
    and "keys_inv (k\<lparr>k_executions := d3\<rparr>) \<longleftrightarrow> keyed execution_id d3"
    and "keys_inv (k\<lparr>k_assignments := d4\<rparr>) \<longleftrightarrow> keyed assignment_id d4"
    and "keys_inv (k\<lparr>k_registrations := d5\<rparr>) \<longleftrightarrow> keyed registration_id d5"
    and "keys_inv (k\<lparr>k_notifications := d6\<rparr>) \<longleftrightarrow> keyed notification_id d6"
    and "keys_inv (k\<lparr>k_effect_leases := d7\<rparr>) \<longleftrightarrow> keyed lease_id d7"
    and "keys_inv (k\<lparr>k_effect_approvals := d8\<rparr>) \<longleftrightarrow> keyed approval_lease_id d8"
    and "keys_inv (k\<lparr>k_findings := d9\<rparr>) \<longleftrightarrow> keyed finding_id d9"
    and "keys_inv (k\<lparr>k_route_snapshots := d10\<rparr>) \<longleftrightarrow> keyed snapshot_id d10"
    and "keys_inv (k\<lparr>k_work_edges := es\<rparr>)" and "keys_inv (k\<lparr>k_activation := a\<rparr>)"
    and "keys_inv (k\<lparr>k_capability_grants := g\<rparr>)" and "keys_inv (k\<lparr>k_reference_grants := rg\<rparr>)"
    and "keys_inv (k\<lparr>k_budget_reservations := br\<rparr>)" and "keys_inv (k\<lparr>k_ledger := L\<rparr>)"
    and "keys_inv (k\<lparr>k_owner_bootstrap := b\<rparr>) \<longleftrightarrow> keyed bootstrap_id (codes b) \<and> keyed session_id (browser_sessions b)"
  using assms by (simp_all add: keys_inv_def)

lemma keys_invD [simp]:
  assumes "keys_inv k"
  shows "keyed session_id (browser_sessions (k_owner_bootstrap k))" and "keyed node_id (k_nodes k)" and "keyed work_item_id (k_work_items k)" and "keyed execution_id (k_executions k)"
    and "keyed assignment_id (k_assignments k)" and "keyed registration_id (k_registrations k)"
    and "keyed notification_id (k_notifications k)" and "keyed lease_id (k_effect_leases k)"
    and "keyed approval_lease_id (k_effect_approvals k)" and "keyed finding_id (k_findings k)"
    and "keyed snapshot_id (k_route_snapshots k)" and "keyed bootstrap_id (codes (k_owner_bootstrap k))"
  using assms by (simp_all add: keys_inv_def)

lemma keyed_modify [simp]:
  "keyed key d \<Longrightarrow> dict_get d k = Some v \<Longrightarrow> key v' = key v \<Longrightarrow> keyed key (dict_set d k v')"
  using keyed_get keyed_set by metis

lemma work_step_keys: "work_step h k k' \<Longrightarrow> keys_inv k \<Longrightarrow> keys_inv k'"
  by (erule work_step_ensures [where P = keys_inv]; rule work_outcomes [THEN ensures_mono];
      auto simp: view_defs split: if_splits elim!: keys_inv_recorded)

lemma execution_step_keys: "execution_step h k k' \<Longrightarrow> keys_inv k \<Longrightarrow> keys_inv k'"
  by (erule execution_step_ensures [where P = keys_inv]; rule execution_outcomes [THEN ensures_mono];
      auto simp: view_defs elim!: keys_inv_recorded)

lemma effect_step_keys: "effect_step h k k' \<Longrightarrow> keys_inv k \<Longrightarrow> keys_inv k'"
  by (erule effect_step_ensures [where P = keys_inv]; rule effect_outcomes [THEN ensures_mono];
      auto simp: view_defs elim!: keys_inv_recorded)

lemma approved_route_id: "approved_route st eid s = Some s' \<Longrightarrow> snapshot_id s' = snapshot_id s \<and> route_key s' = route_key s"
  by (auto simp: approved_route_def split: if_splits)

lemma route_step_keys: "route_step h k k' \<Longrightarrow> keys_inv k \<Longrightarrow> keys_inv k'"
  by (erule route_step_ensures [where P = keys_inv]; rule route_outcomes [THEN ensures_mono];
      auto elim!: keys_inv_recorded dest!: approved_route_id)

lemma activation_step_views:
  assumes "activation_step h k k'"
  obtains a' L' where "k' = k\<lparr>k_activation := a', k_ledger := L'\<rparr>"
  using assms by cases (rule that, assumption)+

lemma activation_step_keys: "activation_step h k k' \<Longrightarrow> keys_inv k \<Longrightarrow> keys_inv k'"
  by (erule activation_step_views) simp

lemma auth_step_views:
  assumes "auth_step h k k'"
  obtains b' L' where "k' = k\<lparr>k_owner_bootstrap := b', k_ledger := L'\<rparr>"
  using assms by cases (rule that, assumption)+

lemma auth_record_shape:
  "auth_record h b L t ty p key = Inr (b1, L1) \<Longrightarrow> \<exists>v. b1 = b\<lparr>b_version := v\<rparr>"
  by (auto simp: auth_record_def)

lemma auth_step_keys: "auth_step h k k' \<Longrightarrow> keys_inv k \<Longrightarrow> keys_inv k'"
  by (erule auth_step_ensures [where P = keys_inv])
    (auto simp: issue_def exchange_def Let_def dest!: auth_record_shape split: ensures_splits)

section \<open>The commissioning states\<close>

text \<open>
  Which attributes the state carries: a verified import from the second state on, an
  accepted assessment exactly while it awaits or has the owner's confirmation, an attempt
  only while reorienting, and while reorienting without an attempt a reason to retry.
\<close>

definition activation_inv :: "activation \<Rightarrow> bool" where
  "activation_inv a \<longleftrightarrow>
     (a_state a \<noteq> Uncommissioned \<longrightarrow> import_receipt a \<noteq> None \<and> reorientation_conversation_id a \<noteq> None \<and>
        work_graph_snapshot_id a \<noteq> None) \<and>
     (assessment a \<noteq> None \<longleftrightarrow> a_state a = AwaitingOwnerConfirmation \<or> a_state a = Active) \<and>
     (approved_at a \<noteq> None \<longleftrightarrow> a_state a = Active) \<and>
     (attempt_in_progress a \<longrightarrow> a_state a = ReorientationOnly) \<and>
     (attempt_in_progress a \<longleftrightarrow> attempt_started_stream_version a \<noteq> None) \<and>
     (a_state a = ReorientationOnly \<and> \<not> attempt_in_progress a \<longrightarrow>
        reorientation_error a \<noteq> None \<or> pending_revision_reason a \<noteq> None) \<and>
     (pending_revision_reason a \<noteq> None \<longrightarrow> a_state a = ReorientationOnly \<and> \<not> attempt_in_progress a)"

lemma activation_inv_init [simp]: "activation_inv (init_activation ds)"
  by (simp add: activation_inv_def init_activation_def)

lemma activation_inv_idle: "activation_inv a \<Longrightarrow> uncommissioned_idle a"
  by (auto simp: activation_inv_def uncommissioned_idle_def)

lemma activation_inv_version [simp]: "activation_inv (a\<lparr>a_version := V\<rparr>) \<longleftrightarrow> activation_inv a"
  by (simp add: activation_inv_def)

lemma arecorded_inv: "arecorded a x \<Longrightarrow> activation_inv a \<Longrightarrow> activation_inv (fst x)"
  by (metis activation_inv_version arecorded_def)

lemmas activation_outcomes = register_history_import_outcome start_reorientation_outcome
  record_reorientation_failure_outcome interrupt_reorientation_attempt_outcome
  record_reorientation_session_checkpoint_outcome record_reorientation_usage_outcome submit_assessment_outcome
  request_assessment_revision_outcome approve_activation_outcome resolve_outcome

lemma activation_inv_ends: "activation_inv a \<Longrightarrow> attempt_in_progress a \<Longrightarrow>
    activation_inv (end_attempt (a\<lparr>reorientation_error := Some code\<rparr>))"
  "activation_inv a \<Longrightarrow> attempt_in_progress a \<Longrightarrow>
    activation_inv (end_attempt (a\<lparr>assessment := Some s, a_state := AwaitingOwnerConfirmation\<rparr>))"
  by (auto simp: activation_inv_def end_attempt_def)

lemma activation_inv_moves:
  "activation_inv a \<Longrightarrow> a_state a = Uncommissioned \<Longrightarrow> work_graph_snapshot_id a \<noteq> None \<Longrightarrow>
    activation_inv (a\<lparr>import_receipt := Some r, reorientation_conversation_id := Some c, sessions := ss,
      a_state := HistoryImported, import_event_cursor := cur\<rparr>)"
  "activation_inv a \<Longrightarrow> \<not> attempt_in_progress a \<Longrightarrow> a_state a = HistoryImported \<or> a_state a = ReorientationOnly \<Longrightarrow>
    v \<noteq> None \<Longrightarrow> activation_inv (a\<lparr>a_state := ReorientationOnly, reorientation_error := None,
      pending_revision_reason := None, attempt_in_progress := True, attempt_started_stream_version := v\<rparr>)"
  "activation_inv a \<Longrightarrow> a_state a = AwaitingOwnerConfirmation \<Longrightarrow>
    reason \<noteq> None \<Longrightarrow>
    activation_inv (a\<lparr>assessment := None, reorientation_error := None, pending_revision_reason := reason,
      attempt_in_progress := False, attempt_started_stream_version := None, a_state := ReorientationOnly\<rparr>)"
  "activation_inv a \<Longrightarrow> a_state a = AwaitingOwnerConfirmation \<Longrightarrow>
    activation_inv (a\<lparr>approved_at := Some now, a_state := Active\<rparr>)"
  "activation_inv (a\<lparr>reorientation_provider_session_id := p\<rparr>) \<longleftrightarrow> activation_inv a"
  "activation_inv (a\<lparr>reorientation_pilot_calls := x, reorientation_input_tokens := y,
      reorientation_output_tokens := z\<rparr>) \<longleftrightarrow> activation_inv a"
  "activation_inv (a\<lparr>history_query_operations := ops, history_query_event_ids := eids\<rparr>) \<longleftrightarrow> activation_inv a"
  by (auto simp: activation_inv_def)

lemma activation_step_inv:
  assumes step: "activation_step h k k'" and inv: "activation_inv (k_activation k)"
  shows "activation_inv (k_activation k')"
  using step
proof (rule activation_step_ensures [where P = "\<lambda>k. activation_inv (k_activation k)"])
  show "activation_inv (k_activation (k\<lparr>k_activation := s', k_ledger := L'\<rparr>))"
    if "scan_session_index h (k_activation k) (k_ledger k) rd m t receipt aid key uuids = Some (g, s', L')"
    for rd m t receipt aid key uuids g s' L'
    using that inv
    by (auto simp: scan_session_index_def split: option.splits sum.splits prod.splits if_splits
        dest!: record_index_pages_outcome)
qed (rule activation_outcomes [THEN ensures_mono];
     use inv in \<open>auto simp: activation_inv_moves activation_inv_ends dest!: arecorded_inv check_assessment_attempt\<close>)+

end
