(* ===== verification/Kernel_Rebuild.thy ===== *)
theory Kernel_Rebuild
  imports Kernel_Invariants
begin

text \<open>
  The Kernel as an instance of \<open>event_sourced\<close>: every step keeps \<open>machine_inv\<close> and its
  events replay to the state it reached. So \<^verbatim>\<open>rebuild\<close> on a fresh Kernel over the ledger of
  a running one gives the running one back.
\<close>

definition machine_inv :: "kernel \<Rightarrow> bool" where
  "machine_inv k \<longleftrightarrow> versions_inv k \<and> keys_inv k \<and> activation_inv (k_activation k)"

section \<open>Every step is logged\<close>

definition good_step :: "other_handlers \<Rightarrow> kledger \<Rightarrow> kernel \<Rightarrow> kernel \<Rightarrow> bool" where
  "good_step others L k k' \<longleftrightarrow> logged others L k k' \<and> versions_inv k'"

lemma steps_to_good: "steps_to others L k = (\<lambda>(e, k'). good_step others L k k')"
  by (simp add: steps_to_def good_step_def)

lemma work_step_logged:
  assumes "work_step h k k'" and "machine_inv k"
  shows "good_step others L k k'"
  using assms(1)
  by (rule work_step_ensures)
    (use assms(2) in \<open>simp_all add: machine_inv_def register_node_logged [unfolded steps_to_good]
      create_work_item_logged [unfolded steps_to_good] add_dependency_logged [unfolded steps_to_good]
      import_current_work_graph_logged [unfolded steps_to_good] delegate_work_item_logged [unfolded steps_to_good]
      prepare_owner_confirmed_resume_logged [unfolded steps_to_good] intervene_logged [unfolded steps_to_good]
      record_s3_star_finding_logged [unfolded steps_to_good] accept_s3_star_risk_logged [unfolded steps_to_good]
      complete_work_item_logged [unfolded steps_to_good]\<close>)

lemma execution_step_logged:
  assumes "execution_step h k k'" and "machine_inv k"
  shows "good_step others L k k'"
  using assms(1)
  by (rule execution_step_ensures)
    (use assms(2) in \<open>simp_all add: machine_inv_def create_execution_logged [unfolded steps_to_good]
      set_execution_state_logged [unfolded steps_to_good] record_pilot_execution_receipt_logged [unfolded steps_to_good]
      pilot_host_disconnected_logged [unfolded steps_to_good] record_agent_name_assignment_logged [unfolded steps_to_good]
      register_agent_identity_logged [unfolded steps_to_good] record_agent_notification_logged [unfolded steps_to_good]
      promote_agent_notification_logged [folded good_step_def]\<close>)

lemma effect_step_logged:
  assumes "effect_step h k k'" and "machine_inv k"
  shows "good_step others L k k'"
  using assms(1)
  by (rule effect_step_ensures)
    (use assms(2) in \<open>simp_all add: machine_inv_def grant_capability_logged [unfolded steps_to_good]
      register_reference_grant_logged [unfolded steps_to_good] reserve_budget_logged [unfolded steps_to_good]
      plan_effect_logged [unfolded steps_to_good] approve_effect_logged [unfolded steps_to_good]
      activate_effect_logged [unfolded steps_to_good] mark_effect_unknown_logged [unfolded steps_to_good]
      reconcile_effect_logged [unfolded steps_to_good]\<close>)

lemma route_step_logged:
  assumes "route_step h k k'" and "machine_inv k"
  shows "good_step others L k k'"
  using assms(1)
  by (rule route_step_ensures)
    (use assms(2) in \<open>simp_all add: machine_inv_def register_route_snapshot_logged [unfolded steps_to_good]
      approve_route_snapshot_logged [unfolded steps_to_good] publish_route_snapshot_logged [unfolded steps_to_good]
      retire_route_snapshot_logged [unfolded steps_to_good]\<close>)

lemma activation_steps_to_good:
  "activation_steps_to others L k = (\<lambda>(a', L'). good_step others L k (k\<lparr>k_activation := a', k_ledger := L'\<rparr>))"
  by (simp add: activation_steps_to_def good_step_def Let_def)

lemma activation_step_logged:
  assumes "activation_step h k k'" and "machine_inv k"
  shows "good_step others L k k'"
proof -
  have inv: "versions_inv k" "uncommissioned_idle (k_activation k)"
    using assms(2) activation_inv_idle by (simp_all add: machine_inv_def)
  note facts = activation_steps_to_good prod.case
  show ?thesis
    using assms(1)
    by (rule activation_step_ensures)
      (use inv scan_session_index_logged [OF inv(1), unfolded facts, of h] in
        \<open>simp_all add: register_history_import_logged [unfolded facts] start_reorientation_logged [unfolded facts]
          record_reorientation_failure_logged [unfolded facts] interrupt_reorientation_attempt_logged [unfolded facts]
          record_reorientation_session_checkpoint_logged [unfolded facts]
          record_reorientation_usage_logged [unfolded facts] submit_assessment_logged [unfolded facts]
          request_assessment_revision_logged [unfolded facts] approve_activation_logged [unfolded facts]
          resolve_logged [unfolded facts]\<close>)
qed

lemma auth_step_logged:
  assumes "auth_step h k k'" and "machine_inv k"
  shows "good_step others L k k'"
proof -
  have inv: "versions_inv k" "keyed bootstrap_id (codes (k_owner_bootstrap k))"
    using assms(2) by (simp_all add: machine_inv_def)
  have good: "auth_steps_to others L k (b', L') = good_step others L k (k\<lparr>k_owner_bootstrap := b', k_ledger := L'\<rparr>)"
    for b' L'
    by (simp add: auth_steps_to_def good_step_def Let_def)
  show ?thesis
    using assms(1)
    by (rule auth_step_ensures)
      (use inv in \<open>simp_all add:
        issue_logged [OF inv(1), where others = others and L = L, unfolded good]
        exchange_logged [OF inv, where others = others and L = L, unfolded good]\<close>)
qed

text \<open>LETHE's history events move no view and no known version.\<close>

lemma history_step_logged:
  assumes inv: "machine_inv k" and ext: "external_prefix (event_type e) = Some pre" "starts_with pre (stream_id e)"
    and app: "ledger_append (k_ledger k) e n = Inr (r, L')"
  shows "good_step others L k (k\<lparr>k_ledger := L'\<rparr>)"
proof -
  let ?k = "k\<lparr>k_ledger := L'\<rparr>"
  have v: "versions_inv k" using inv by (simp add: machine_inv_def)
  have ds: "ledger_data_space_id (k_ledger k) = data_space_id (k_data_space k)"
    using v by (simp add: versions_inv_def Let_def)
  from ledger_append_events [OF versions_invD(1) [OF v] app] show ?thesis
  proof (elim disjE conjE)
    assume "L' = k_ledger k"
    then show ?thesis using v by (simp add: good_step_def logged_same)
  next
    assume new: "ledger_events L' = ledger_events (k_ledger k) @ [e]"
    have none: "\<not> is_kernel_type (event_type e)" "\<not> is_activation_type (event_type e)" "\<not> is_auth_type (event_type e)"
      using ext(1) kernel_type_disjoint [of "event_type e"] activation_type_disjoint [of "event_type e"]
        auth_type_disjoint [of "event_type e"] option.distinct(1) by metis+
    have e: "event_data_space_id e = data_space_id (k_data_space k)"
      using app ds by (auto simp: ledger_append_def split: if_splits)
    have "apply_event others (view_at L k) e = Inr ((view_at L k)\<lparr>p_kernel := ?k\<lparr>k_ledger := L\<rparr>\<rparr>)"
      using e ext by (simp add: apply_event_def view_at_def)
    then have "logged others L k ?k" by (rule logged_one [rotated]) (simp add: new)
    moreover have "versions_inv ?k"
      using new none versions_invD [OF v] ledger_append_inv [OF versions_invD(1) [OF v] app]
        ledger_append_data_space [OF app] stream_length_snoc [OF new]
      by (intro versions_inv_append [OF v, where e = e]) (simp_all add: trans_le_add1)
    ultimately show ?thesis by (simp add: good_step_def)
  qed
qed

lemma kernel_step_logged: "kernel_step h k k' \<Longrightarrow> machine_inv k \<Longrightarrow> good_step others L k k'"
  by (cases rule: kernel_step.cases)
    (auto intro: work_step_logged execution_step_logged effect_step_logged route_step_logged activation_step_logged
      auth_step_logged history_step_logged)

section \<open>The invariant\<close>

lemma recorded_activation: "recorded k2 k' \<Longrightarrow> k_activation k' = k_activation k2"
  by (simp add: recorded_def)

lemma work_step_activation_inv:
  assumes "work_step h k k'" and "activation_inv (k_activation k)"
  shows "activation_inv (k_activation k')"
proof -
  have state: "a_state (k_activation k) = Uncommissioned" if "check_work_graph h k s = Inr ()" for s
    using that by (simp add: check_work_graph_def Let_def split: if_splits)
  have graph: "activation_inv (a\<lparr>work_graph_snapshot_id := Some g\<rparr>)"
    if "activation_inv a" and "a_state a = Uncommissioned" for a g
    using that by (auto simp: activation_inv_def)
  show ?thesis
    using assms(1)
  proof (rule work_step_ensures [where P = "\<lambda>k. activation_inv (k_activation k)"])
  qed (rule work_outcomes [THEN ensures_mono];
       use assms(2) graph in \<open>auto simp: view_defs dest!: recorded_activation state split: if_splits\<close>)+
qed

lemma other_step_activation:
  "execution_step h k k' \<Longrightarrow> k_activation k' = k_activation k"
  "effect_step h k k' \<Longrightarrow> k_activation k' = k_activation k"
  "route_step h k k' \<Longrightarrow> k_activation k' = k_activation k"
  "auth_step h k k' \<Longrightarrow> k_activation k' = k_activation k"
  subgoal
    by (rule execution_step_ensures [where P = "\<lambda>k'. k_activation k' = k_activation k"], assumption;
        rule execution_outcomes [THEN ensures_mono]; auto simp: Let_def dest!: recorded_activation)
  subgoal
    by (rule effect_step_ensures [where P = "\<lambda>k'. k_activation k' = k_activation k"], assumption;
        rule effect_outcomes [THEN ensures_mono]; auto simp: set_lease_state_def dest!: recorded_activation)
  subgoal
    by (rule route_step_ensures [where P = "\<lambda>k'. k_activation k' = k_activation k"], assumption;
        rule route_outcomes [THEN ensures_mono]; auto dest!: recorded_activation)
  subgoal by (erule auth_step_views) simp
  done

lemma machine_inv_step:
  assumes "kernel_step h k k'" and inv: "machine_inv k"
  shows "machine_inv k'"
proof -
  have "versions_inv k'"
    using kernel_step_logged [OF assms, of undefined undefined] by (simp add: good_step_def)
  moreover have "keys_inv k'"
    using assms(1) inv unfolding machine_inv_def
    by (cases rule: kernel_step.cases)
      (auto intro: work_step_keys execution_step_keys effect_step_keys route_step_keys activation_step_keys auth_step_keys)
  moreover have "activation_inv (k_activation k')"
    using assms(1) inv unfolding machine_inv_def
    by (cases rule: kernel_step.cases)
      (auto intro: work_step_activation_inv activation_step_inv simp: other_step_activation)
  ultimately show ?thesis by (simp add: machine_inv_def)
qed

lemma machine_inv_fresh: "machine_inv (fresh_kernel ds (empty_ledger (data_space_id ds)) ap cp)"
  by (simp add: machine_inv_def versions_inv_def keys_inv_def fresh_kernel_def init_owner_bootstrap_def Let_def)
    (simp add: empty_ledger_def init_activation_def)

interpretation kernel_log: event_sourced "kernel_step h" "\<lambda>k. ledger_events (k_ledger k)" "view_at L"
    "apply_next others" machine_inv for h L others
proof
  show "machine_inv k'" if "machine_inv k" and "kernel_step h k k'" for k k'
    using machine_inv_step that by blast
  show "\<exists>es. ledger_events (k_ledger k') = ledger_events (k_ledger k) @ es \<and>
      fold_result (apply_next others) (view_at L k) es = Inr (view_at L k')"
    if "machine_inv k" and "kernel_step h k k'" for k k'
    using kernel_step_logged [OF that(2,1), of others L] by (simp add: good_step_def logged_def)
qed

lemma reachable_inv: "reachable h ds ap cp k \<Longrightarrow> machine_inv k"
  using kernel_log.reachable_good [of h _ k] machine_inv_fresh
  by (auto simp: reachable_def init_kernel_def split: if_splits)

lemma reachable_replay:
  assumes "reachable h ds ap cp k"
  shows "fold_result (apply_next others) (view_at L (fresh_kernel ds (empty_ledger (data_space_id ds)) ap cp))
    (ledger_events (k_ledger k)) = Inr (view_at L k)"
proof -
  let ?k0 = "fresh_kernel ds (empty_ledger (data_space_id ds)) ap cp"
  have "(kernel_step h)\<^sup>*\<^sup>* ?k0 k" using assms by (auto simp: reachable_def init_kernel_def split: if_splits)
  moreover have "ledger_events (k_ledger ?k0) = []" by (simp add: fresh_kernel_def)
  ultimately show ?thesis by (rule kernel_log.replay_log [OF _ machine_inv_fresh])
qed

end
