(* ===== verification/Kernel_Authority.thy ===== *)
theory Kernel_Authority
  imports Kernel_Rebuild
begin

text \<open>
  Fail-closed activation and the owner's authority as invariants: before the owner has
  confirmed there is no Execution and no effect; an effect that ran has an approval; an
  idempotency key belongs to one lease.
\<close>

section \<open>An active Kernel stays active\<close>

lemma activation_step_active:
  assumes step: "activation_step h k k'" and active: "a_state (k_activation k) = Active"
  shows "a_state (k_activation k') = Active"
  using step
proof (rule activation_step_ensures [where P = "\<lambda>k. a_state (k_activation k) = Active"])
  show "a_state (k_activation (k\<lparr>k_activation := s', k_ledger := L'\<rparr>)) = Active"
    if "scan_session_index h (k_activation k) (k_ledger k) rd m t receipt aid key uuids = Some (g, s', L')"
    for rd m t receipt aid key uuids g s' L'
    using that active
    by (auto simp: scan_session_index_def split: option.splits sum.splits prod.splits if_splits
        dest!: record_index_pages_outcome)
qed (rule activation_outcomes [THEN ensures_mono];
     use active in \<open>auto simp: arecorded_def dest!: check_assessment_attempt\<close>)+

lemma work_step_active:
  "work_step h k k' \<Longrightarrow> a_state (k_activation k) = Active \<Longrightarrow> a_state (k_activation k') = Active"
  by (erule work_step_ensures [where P = "\<lambda>k. a_state (k_activation k) = Active"];
      rule work_outcomes [THEN ensures_mono]; auto simp: view_defs recorded_def split: if_splits)

lemma kernel_step_active:
  "kernel_step h k k' \<Longrightarrow> a_state (k_activation k) = Active \<Longrightarrow> a_state (k_activation k') = Active"
  by (cases rule: kernel_step.cases)
    (auto intro: work_step_active activation_step_active simp: other_step_activation)

section \<open>Nothing runs before the owner's confirmation\<close>

definition gated :: "kernel \<Rightarrow> bool" where
  "gated k \<longleftrightarrow> a_state (k_activation k) = Active \<or>
     k_executions k = [] \<and> k_effect_leases k = [] \<and> k_effect_approvals k = []"

definition idle :: "kernel \<Rightarrow> bool" where
  "idle k \<longleftrightarrow> k_executions k = [] \<and> k_effect_leases k = [] \<and> k_effect_approvals k = []"

lemma dict_map_if_Nil [simp]: "dict_map_if p f [] = []"
  by (simp add: dict_map_if_def)

lemma work_step_idle: "work_step h k k' \<Longrightarrow> idle k \<Longrightarrow> idle k'"
  by (erule work_step_ensures [where P = idle];
      rule work_outcomes [THEN ensures_mono]; auto simp: idle_def view_defs recorded_def split: if_splits)

lemma execution_step_idle:
  "execution_step h k k' \<Longrightarrow> idle k \<Longrightarrow> a_state (k_activation k) \<noteq> Active \<Longrightarrow> idle k'"
  by (erule execution_step_ensures [where P = idle];
      rule execution_outcomes [THEN ensures_mono]; auto simp: idle_def view_defs recorded_def)

lemma effect_step_idle:
  "effect_step h k k' \<Longrightarrow> idle k \<Longrightarrow> a_state (k_activation k) \<noteq> Active \<Longrightarrow> idle k'"
  by (erule effect_step_ensures [where P = idle];
      rule effect_outcomes [THEN ensures_mono]; auto simp: idle_def recorded_def)

lemma route_step_idle: "route_step h k k' \<Longrightarrow> idle k \<Longrightarrow> idle k'"
  by (erule route_step_ensures [where P = idle];
      rule route_outcomes [THEN ensures_mono]; auto simp: idle_def recorded_def)

lemma activation_step_idle: "activation_step h k k' \<Longrightarrow> idle k \<Longrightarrow> idle k'"
  by (erule activation_step_views) (simp add: idle_def)

lemma auth_step_idle: "auth_step h k k' \<Longrightarrow> idle k \<Longrightarrow> idle k'"
  by (erule auth_step_views) (simp add: idle_def)

lemma kernel_step_gated:
  assumes "kernel_step h k k'" and "gated k"
  shows "gated k'"
proof (cases "a_state (k_activation k) = Active")
  case True
  then show ?thesis using kernel_step_active [OF assms(1)] by (simp add: gated_def)
next
  case False
  then have idle: "idle k" using assms(2) by (simp add: gated_def idle_def)
  have "idle (k\<lparr>k_ledger := L\<rparr>)" for L using idle by (simp add: idle_def)
  with assms(1) False idle have "idle k'"
    by (cases rule: kernel_step.cases)
      (auto intro: work_step_idle execution_step_idle effect_step_idle route_step_idle activation_step_idle auth_step_idle)
  then show ?thesis by (simp add: gated_def idle_def)
qed

section \<open>Leases and approvals\<close>

definition lease_ran :: "effect_lease \<Rightarrow> bool" where
  "lease_ran l \<longleftrightarrow> lease_state l \<in> {LeaseActive, LeaseUnknown, LeaseSucceeded, LeaseFailed}"

definition approved_leases :: "(string, effect_lease) dict \<Rightarrow> (string, effect_approval) dict \<Rightarrow> bool" where
  "approved_leases ls as \<longleftrightarrow>
     (\<forall>lid l. dict_get ls lid = Some l \<longrightarrow> lease_ran l \<longrightarrow> dict_mem lid as) \<and>
     (\<forall>lid. dict_mem lid as \<longrightarrow> dict_mem lid ls)"

definition keys_once :: "(string, effect_lease) dict \<Rightarrow> bool" where
  "keys_once ls \<longleftrightarrow>
     (\<forall>i j l m. dict_get ls i = Some l \<longrightarrow> dict_get ls j = Some m \<longrightarrow>
        lease_idempotency_key l = lease_idempotency_key m \<longrightarrow> i = j)"

lemma lease_ran_states [simp]:
  "lease_ran (l\<lparr>lease_state := s\<rparr>) \<longleftrightarrow> s \<in> {LeaseActive, LeaseUnknown, LeaseSucceeded, LeaseFailed}"
  by (simp add: lease_ran_def)

lemma revoke_leases_get:
  assumes "dict_get (revoke_leases wid ls) lid = Some l"
  obtains x where "dict_get ls lid = Some x" and "lease_idempotency_key x = lease_idempotency_key l"
    and "lease_ran l \<Longrightarrow> lease_ran x"
proof -
  from assms obtain x where x: "dict_get ls lid = Some x"
    and l: "l = (if lease_work_item_id x = wid \<and> lease_state x \<in> {Planned, LeaseActive}
      then x\<lparr>lease_state := LeaseRevoked\<rparr> else x)"
    unfolding revoke_leases_def dict_get_map_if by blast
  show thesis by (rule that [OF x]) (simp_all add: l split: if_splits)
qed

lemma approved_leases_changes:
  assumes "approved_leases ls as"
  shows "approved_leases (revoke_leases wid ls) as"
    and "dict_mem lid ls \<Longrightarrow> approved_leases ls (dict_set as lid a)"
    and "lease_ran l \<longrightarrow> dict_mem lid as \<Longrightarrow> approved_leases (dict_set ls lid l) as"
proof -
  note inv = assms [unfolded approved_leases_def]
  show "approved_leases (revoke_leases wid ls) as"
    unfolding approved_leases_def
  proof (intro conjI allI impI)
    fix lid l
    assume "dict_get (revoke_leases wid ls) lid = Some l" and "lease_ran l"
    then show "dict_mem lid as" using inv by (metis revoke_leases_get)
  qed (use inv in \<open>simp add: revoke_leases_def\<close>)
  show "approved_leases ls (dict_set as lid a)" if "dict_mem lid ls"
    unfolding approved_leases_def using inv that by simp
  show "approved_leases (dict_set ls lid l) as" if "lease_ran l \<longrightarrow> dict_mem lid as"
    unfolding approved_leases_def using inv that by simp
qed

lemma approved_lease_mem: "approved_leases ls as \<Longrightarrow> dict_get ls lid = Some l \<Longrightarrow> lease_ran l \<Longrightarrow> dict_mem lid as"
  by (simp add: approved_leases_def)

lemma keys_once_revoke: "keys_once ls \<Longrightarrow> keys_once (revoke_leases wid ls)"
  unfolding keys_once_def by (metis revoke_leases_get)

lemma keys_once_set:
  assumes "keys_once ls" and "\<And>j m. dict_get ls j = Some m \<Longrightarrow> lease_idempotency_key m = lease_idempotency_key l \<Longrightarrow> j = lid"
  shows "keys_once (dict_set ls lid l)"
  unfolding keys_once_def
proof (intro allI impI)
  fix i j x m
  assume "dict_get (dict_set ls lid l) i = Some x" "dict_get (dict_set ls lid l) j = Some m"
    "lease_idempotency_key x = lease_idempotency_key m"
  then show "i = j" using assms unfolding keys_once_def by (auto split: if_splits)
qed

lemma keys_once_state: "keys_once ls \<Longrightarrow> dict_get ls lid = Some l \<Longrightarrow> keys_once (dict_set ls lid (l\<lparr>lease_state := s\<rparr>))"
  by (rule keys_once_set) (auto simp: keys_once_def)

definition lease_inv :: "kernel \<Rightarrow> bool" where
  "lease_inv k \<longleftrightarrow> approved_leases (k_effect_leases k) (k_effect_approvals k) \<and> keys_once (k_effect_leases k)"

lemma work_step_leases: "work_step h k k' \<Longrightarrow> lease_inv k \<Longrightarrow> lease_inv k'"
  by (erule work_step_ensures [where P = lease_inv]; rule work_outcomes [THEN ensures_mono];
      auto simp: lease_inv_def recorded_def set_work_def Let_def approved_leases_changes keys_once_revoke split: if_splits)

lemma execution_step_leases: "execution_step h k k' \<Longrightarrow> lease_inv k \<Longrightarrow> lease_inv k'"
  by (erule execution_step_ensures [where P = lease_inv]; rule execution_outcomes [THEN ensures_mono];
      auto simp: lease_inv_def recorded_def Let_def)

lemma route_step_leases: "route_step h k k' \<Longrightarrow> lease_inv k \<Longrightarrow> lease_inv k'"
  by (erule route_step_ensures [where P = lease_inv]; rule route_outcomes [THEN ensures_mono];
      auto simp: lease_inv_def recorded_def)

lemma planned_key:
  assumes "keyed lease_id ls"
    and "\<forall>other \<in> set (dict_values ls). lease_idempotency_key other = key \<longrightarrow> lease_id other = lid"
    and "dict_get ls j = Some m" and "lease_idempotency_key m = key"
  shows "j = lid"
  using assms(2,4) dict_get_values [OF assms(3)] keyed_get [OF assms(1,3)] by auto

lemma effect_step_leases:
  assumes "effect_step h k k'" and inv: "lease_inv k" and keys: "keyed lease_id (k_effect_leases k)"
  shows "lease_inv k'"
proof -
  note l = inv [unfolded lease_inv_def]
  have plan: "lease_inv (k\<lparr>k_effect_leases := dict_set (k_effect_leases k) (lease_id x) x\<rparr>)"
    if "lease_state x = Planned" and "\<forall>other \<in> set (dict_values (k_effect_leases k)).
       lease_idempotency_key other = lease_idempotency_key x \<longrightarrow> lease_id other = lease_id x" for x
    using l that keys_once_set [of "k_effect_leases k" x "lease_id x"] planned_key [OF keys that(2)]
    by (simp add: lease_inv_def approved_leases_changes lease_ran_def)
  have state: "lease_inv (set_lease_state lid x s k)"
    if "dict_get (k_effect_leases k) lid = Some x" and "dict_mem lid (k_effect_approvals k) \<or> lease_ran x" for lid x s
    using l that approved_lease_mem [of "k_effect_leases k" "k_effect_approvals k" lid x]
    by (auto simp: lease_inv_def set_lease_state_def approved_leases_changes keys_once_state)
  have rec: "lease_inv k'" if "recorded k2 k'" and "lease_inv k2" for k2 k'
    using that by (simp add: lease_inv_def recorded_def)
  have same: "lease_inv k2" if "k_effect_leases k2 = k_effect_leases k" "k_effect_approvals k2 = k_effect_approvals k" for k2
    using that inv by (simp add: lease_inv_def)
  have approve: "lease_inv (k\<lparr>k_effect_approvals := dict_set (k_effect_approvals k) lid a\<rparr>)"
    if "dict_get (k_effect_leases k) lid = Some x" for lid a x
    using l dict_get_Some_mem [OF that] by (simp add: lease_inv_def approved_leases_changes)
  show ?thesis
    by (rule effect_step_ensures [OF assms(1), where P = lease_inv]; rule effect_outcomes [THEN ensures_mono];
        auto elim!: rec intro: same plan approve state simp: lease_ran_def)
qed

definition authority_inv :: "kernel \<Rightarrow> bool" where
  "authority_inv k \<longleftrightarrow> gated k \<and> lease_inv k"

lemma kernel_step_authority:
  assumes "kernel_step h k k'" and "machine_inv k" and "authority_inv k"
  shows "authority_inv k'"
proof -
  have keys: "keyed lease_id (k_effect_leases k)" using assms(2) by (simp add: machine_inv_def)
  have views: "lease_inv (k\<lparr>k_activation := a, k_ledger := L\<rparr>)" "lease_inv (k\<lparr>k_owner_bootstrap := b, k_ledger := L\<rparr>)"
    "lease_inv (k\<lparr>k_ledger := L\<rparr>)" for a b L
    using assms(3) by (simp_all add: authority_inv_def lease_inv_def)
  have "lease_inv k'"
    using assms(1,3) keys unfolding authority_inv_def
    by (cases rule: kernel_step.cases)
      (auto intro: work_step_leases execution_step_leases effect_step_leases route_step_leases views
        elim!: activation_step_views auth_step_views)
  then show ?thesis using kernel_step_gated [OF assms(1)] assms(3) by (simp add: authority_inv_def)
qed

end
