(* ===== verification/Kernel_Refs.thy ===== *)
theory Kernel_Refs
  imports Kernel_Rebuild
begin

text \<open>
  No dangling reference: the identifiers a WorkItem, edge, Execution, EffectLease, finding
  or reservation carries are keys of the Kernel's dictionaries in every reachable state.
  The code looks some of them up without a check.
\<close>

definition work_refs :: "(string, uvsm_node) dict \<Rightarrow> (string, work_item) dict \<Rightarrow> bool" where
  "work_refs ns ws \<longleftrightarrow> (\<forall>wid w. dict_get ws wid = Some w \<longrightarrow>
     missing_node ns w = None \<and> option_all (\<lambda>p. dict_mem p ws) (parent_work_item_id w))"

definition edge_refs :: "(string, work_item) dict \<Rightarrow> work_edge list \<Rightarrow> bool" where
  "edge_refs ws es \<longleftrightarrow> (\<forall>e \<in> set es. dict_mem (source_work_item_id e) ws \<and> dict_mem (target_work_item_id e) ws)"

definition execution_refs ::
  "(string, uvsm_node) dict \<Rightarrow> (string, work_item) dict \<Rightarrow> (string, execution) dict \<Rightarrow> bool" where
  "execution_refs ns ws xs \<longleftrightarrow> (\<forall>eid x. dict_get xs eid = Some x \<longrightarrow>
     dict_mem (exec_node_id x) ns \<and> dict_mem (exec_work_item_id x) ws)"

definition lease_refs :: "(string, execution) dict \<Rightarrow> (string, effect_lease) dict \<Rightarrow> bool" where
  "lease_refs xs ls \<longleftrightarrow> (\<forall>lid l. dict_get ls lid = Some l \<longrightarrow>
     map_option exec_work_item_id (dict_get xs (lease_execution_id l)) = Some (lease_work_item_id l))"

definition finding_refs ::
  "(string, uvsm_node) dict \<Rightarrow> (string, work_item) dict \<Rightarrow> (string, s3_star_finding) dict \<Rightarrow> bool" where
  "finding_refs ns ws fs \<longleftrightarrow> (\<forall>fid f. dict_get fs fid = Some f \<longrightarrow>
     dict_mem (finding_node_id f) ns \<and> dict_mem (finding_work_item_id f) ws)"

definition budget_refs :: "(string, work_item) dict \<Rightarrow> (string, budget_reservation) dict \<Rightarrow> bool" where
  "budget_refs ws bs \<longleftrightarrow> (\<forall>rid r. dict_get bs rid = Some r \<longrightarrow> dict_mem (budget_work_item_id r) ws)"

definition refs_inv :: "kernel \<Rightarrow> bool" where
  "refs_inv k \<longleftrightarrow> work_refs (k_nodes k) (k_work_items k) \<and> edge_refs (k_work_items k) (k_work_edges k) \<and>
     execution_refs (k_nodes k) (k_work_items k) (k_executions k) \<and> lease_refs (k_executions k) (k_effect_leases k) \<and>
     finding_refs (k_nodes k) (k_work_items k) (k_findings k) \<and> budget_refs (k_work_items k) (k_budget_reservations k)"

section \<open>Growing dictionaries\<close>

definition grows :: "('k, 'v) dict \<Rightarrow> ('k, 'v) dict \<Rightarrow> bool" where
  "grows d d' \<longleftrightarrow> (\<forall>k. dict_mem k d \<longrightarrow> dict_mem k d')"

lemma grows_simps [simp]: "grows d d" "grows d (dict_set d k v)" "grows d (dict_set_all key d xs)"
  by (simp_all add: grows_def)

lemma missing_node_None:
  "missing_node ns w = None \<longleftrightarrow> dict_mem (owner_node_id w) ns \<and> dict_mem (delegated_to_node_id w) ns
     \<and> dict_mem (integration_owner_node_id w) ns"
  by (simp add: missing_node_def)

lemma refs_grow:
  assumes "grows ns ns'"
  shows "work_refs ns ws \<Longrightarrow> work_refs ns' ws"
    and "execution_refs ns ws xs \<Longrightarrow> execution_refs ns' ws xs"
    and "finding_refs ns ws fs \<Longrightarrow> finding_refs ns' ws fs"
  using assms by (simp_all add: grows_def work_refs_def execution_refs_def finding_refs_def missing_node_None)

lemma refs_grow_work:
  assumes "grows ws ws'"
  shows "edge_refs ws es \<Longrightarrow> edge_refs ws' es"
    and "execution_refs ns ws xs \<Longrightarrow> execution_refs ns ws' xs"
    and "finding_refs ns ws fs \<Longrightarrow> finding_refs ns ws' fs"
    and "budget_refs ws bs \<Longrightarrow> budget_refs ws' bs"
  using assms by (simp_all add: grows_def edge_refs_def execution_refs_def finding_refs_def budget_refs_def)

lemma dict_get_set_all:
  "dict_get (dict_set_all key d xs) k = Some v \<Longrightarrow> v \<in> set xs \<or> dict_get d k = Some v"
proof (induction xs arbitrary: d)
  case (Cons x xs)
  from Cons.IH [of "dict_set d (key x) x"] Cons.prems show ?case by (auto split: if_splits)
qed simp

lemma work_refs_set:
  assumes "work_refs ns ws" and "missing_node ns w = None"
    and "option_all (\<lambda>p. dict_mem p ws) (parent_work_item_id w)"
  shows "work_refs ns (dict_set ws wid w)"
  using assms by (auto simp: work_refs_def option_all_def split: option.splits)

lemma work_refs_set_all:
  assumes "work_refs ns ws" and "\<And>w. w \<in> set xs \<Longrightarrow> missing_node ns w = None"
    and "\<And>w. w \<in> set xs \<Longrightarrow> option_all (\<lambda>p. p \<in> work_item_id ` set xs) (parent_work_item_id w)"
  shows "work_refs ns (dict_set_all work_item_id ws xs)"
  unfolding work_refs_def
proof (intro allI impI)
  fix wid w
  assume "dict_get (dict_set_all work_item_id ws xs) wid = Some w"
  then have "w \<in> set xs \<or> dict_get ws wid = Some w" by (rule dict_get_set_all)
  then show "missing_node ns w = None \<and> option_all (\<lambda>p. dict_mem p (dict_set_all work_item_id ws xs)) (parent_work_item_id w)"
  proof
    assume "w \<in> set xs"
    from assms(2,3) [OF this] show ?thesis by (auto simp: option_all_def split: option.splits)
  next
    assume "dict_get ws wid = Some w"
    with assms(1) show ?thesis by (auto simp: work_refs_def option_all_def split: option.splits)
  qed
qed

section \<open>Changes of the views\<close>

lemma refs_recorded: "recorded k k' \<Longrightarrow> refs_inv k' \<longleftrightarrow> refs_inv k"
  by (simp add: recorded_def refs_inv_def)

lemma refs_nodes:
  "refs_inv k \<Longrightarrow> grows (k_nodes k) ns \<Longrightarrow> refs_inv (k\<lparr>k_nodes := ns\<rparr>)"
  by (simp add: refs_inv_def refs_grow [where ns = "k_nodes k"])

lemma refs_work:
  "refs_inv k \<Longrightarrow> grows (k_work_items k) ws \<Longrightarrow> work_refs (k_nodes k) ws \<Longrightarrow> refs_inv (k\<lparr>k_work_items := ws\<rparr>)"
  by (simp add: refs_inv_def refs_grow_work [where ws = "k_work_items k"])

lemma refs_work_set:
  assumes "refs_inv k" and "missing_node (k_nodes k) w = None"
    and "option_all (\<lambda>p. dict_mem p (k_work_items k)) (parent_work_item_id w)"
  shows "refs_inv (k\<lparr>k_work_items := dict_set (k_work_items k) wid w\<rparr>)"
  using assms by (intro refs_work work_refs_set) (simp_all add: refs_inv_def)

lemma refs_edges:
  "refs_inv k \<Longrightarrow> edge_refs (k_work_items k) es \<Longrightarrow> refs_inv (k\<lparr>k_work_edges := k_work_edges k @ es\<rparr>)"
  by (auto simp: refs_inv_def edge_refs_def)

lemma refs_work_get:
  assumes "refs_inv k" and "dict_get (k_work_items k) wid = Some w"
  shows "missing_node (k_nodes k) w = None" and "option_all (\<lambda>p. dict_mem p (k_work_items k)) (parent_work_item_id w)"
  using assms by (simp_all add: refs_inv_def work_refs_def)

text \<open>A WorkItem that keeps its nodes and its parent, as most operations leave it.\<close>

definition same_place :: "work_item \<Rightarrow> work_item \<Rightarrow> bool" where
  "same_place w w' \<longleftrightarrow> owner_node_id w' = owner_node_id w \<and> delegated_to_node_id w' = delegated_to_node_id w \<and>
     integration_owner_node_id w' = integration_owner_node_id w \<and> parent_work_item_id w' = parent_work_item_id w"

lemma refs_work_modify:
  assumes "refs_inv k" and "dict_get (k_work_items k) wid = Some w" and "same_place w w'"
  shows "refs_inv (k\<lparr>k_work_items := dict_set (k_work_items k) wid' w'\<rparr>)"
  using refs_work_get [OF assms(1,2)] assms(3)
  by (intro refs_work_set assms(1)) (simp_all add: same_place_def missing_node_None)

lemma refs_executions:
  assumes "refs_inv k" and "\<And>eid x. dict_get xs eid = Some x \<Longrightarrow>
      dict_mem (exec_node_id x) (k_nodes k) \<and> dict_mem (exec_work_item_id x) (k_work_items k)"
    and "\<And>eid x. dict_get (k_executions k) eid = Some x \<Longrightarrow>
      map_option exec_work_item_id (dict_get xs eid) = Some (exec_work_item_id x)"
  shows "refs_inv (k\<lparr>k_executions := xs\<rparr>)"
proof -
  have "lease_refs xs (k_effect_leases k)"
    using assms(1,3) by (fastforce simp: refs_inv_def lease_refs_def)
  then show ?thesis using assms(1,2) by (simp add: refs_inv_def execution_refs_def)
qed

lemma refs_execution_get:
  assumes "refs_inv k" and "dict_get (k_executions k) eid = Some x"
  shows "dict_mem (exec_node_id x) (k_nodes k)" and "dict_mem (exec_work_item_id x) (k_work_items k)"
  using assms by (simp_all add: refs_inv_def execution_refs_def)

lemma refs_execution_new:
  assumes "refs_inv k" and "dict_mem (exec_node_id x) (k_nodes k)" and "dict_mem (exec_work_item_id x) (k_work_items k)"
    and "\<not> dict_mem eid (k_executions k)"
  shows "refs_inv (k\<lparr>k_executions := dict_set (k_executions k) eid x\<rparr>)"
  using assms refs_execution_get [OF assms(1)]
  by (intro refs_executions) (auto simp: dict_mem_get split: if_splits)

lemma refs_execution_modify:
  assumes "refs_inv k" and "dict_get (k_executions k) eid = Some x" and "exec_node_id x' = exec_node_id x"
    and "exec_work_item_id x' = exec_work_item_id x"
  shows "refs_inv (k\<lparr>k_executions := dict_set (k_executions k) eid x'\<rparr>)"
  using assms refs_execution_get [OF assms(1)]
  by (intro refs_executions) (auto split: if_splits)

lemma refs_pause: "refs_inv k \<Longrightarrow> refs_inv (k\<lparr>k_executions := pause_executions p r (k_executions k)\<rparr>)"
  by (rule refs_executions) (auto simp: pause_executions_def dest: refs_execution_get split: if_splits)

lemma refs_lease_set:
  "refs_inv k \<Longrightarrow> map_option exec_work_item_id (dict_get (k_executions k) (lease_execution_id l)) = Some (lease_work_item_id l) \<Longrightarrow>
    refs_inv (k\<lparr>k_effect_leases := dict_set (k_effect_leases k) lid l\<rparr>)"
  by (simp add: refs_inv_def lease_refs_def)

lemma refs_lease_get:
  "refs_inv k \<Longrightarrow> dict_get (k_effect_leases k) lid = Some l \<Longrightarrow>
    map_option exec_work_item_id (dict_get (k_executions k) (lease_execution_id l)) = Some (lease_work_item_id l)"
  by (simp add: refs_inv_def lease_refs_def)

lemma refs_lease_state:
  "refs_inv k \<Longrightarrow> dict_get (k_effect_leases k) lid = Some l \<Longrightarrow> refs_inv (set_lease_state lid l s k)"
  using refs_lease_set [of k "l\<lparr>lease_state := s\<rparr>" lid] refs_lease_get [of k lid l]
  by (simp add: set_lease_state_def)

lemma refs_revoke:
  assumes "refs_inv k"
  shows "refs_inv (k\<lparr>k_effect_leases := revoke_leases wid (k_effect_leases k)\<rparr>)"
proof -
  have "lease_refs (k_executions k) (revoke_leases wid (k_effect_leases k))"
    unfolding lease_refs_def revoke_leases_def dict_get_map_if
    using refs_lease_get [OF assms] by auto
  then show ?thesis using assms by (simp add: refs_inv_def)
qed

lemma refs_findings:
  "refs_inv k \<Longrightarrow> dict_mem (finding_node_id f) (k_nodes k) \<Longrightarrow> dict_mem (finding_work_item_id f) (k_work_items k) \<Longrightarrow>
    refs_inv (k\<lparr>k_findings := dict_set (k_findings k) fid f\<rparr>)"
  by (simp add: refs_inv_def finding_refs_def)

lemma refs_finding_get:
  assumes "refs_inv k" and "dict_get (k_findings k) fid = Some f"
  shows "dict_mem (finding_node_id f) (k_nodes k)" and "dict_mem (finding_work_item_id f) (k_work_items k)"
  using assms by (simp_all add: refs_inv_def finding_refs_def)

lemma refs_budget:
  "refs_inv k \<Longrightarrow> dict_mem (budget_work_item_id r) (k_work_items k) \<Longrightarrow>
    refs_inv (k\<lparr>k_budget_reservations := dict_set (k_budget_reservations k) rid r\<rparr>)"
  by (simp add: refs_inv_def budget_refs_def)

section \<open>Every step keeps the references\<close>

lemma check_graph_work_items_Inr:
  "check_graph_work_items ds ns ws xs = Inr () \<longleftrightarrow> (\<forall>w \<in> set xs. work_data_space_id w = ds \<and>
     missing_node ns w = None \<and> option_all (\<lambda>p. dict_mem p ws) (parent_work_item_id w))"
  by (induction xs) auto

lemma dict_mem_foldl_set:
  "dict_mem k (foldl (\<lambda>d (nid, n). dict_set d nid n) d ps) \<longleftrightarrow> dict_mem k ps \<or> dict_mem k d"
proof (induction ps arbitrary: d)
  case (Cons p ps)
  have "dict_mem k (p # ps) \<longleftrightarrow> k = fst p \<or> dict_mem k ps" by (auto simp: dict_mem_def)
  then show ?case using Cons by (cases p) auto
qed simp

lemma check_work_graph_refs:
  assumes "check_work_graph h k s = Inr ()"
  defines "ns \<equiv> dict_set_all node_id (k_nodes k) (graph_nodes s)"
    and "ws \<equiv> dict_set_all work_item_id (k_work_items k) (graph_work_items s)"
  shows "\<And>w. w \<in> set (graph_work_items s) \<Longrightarrow> missing_node ns w = None"
    and "\<And>w. w \<in> set (graph_work_items s) \<Longrightarrow>
      option_all (\<lambda>p. p \<in> work_item_id ` set (graph_work_items s)) (parent_work_item_id w)"
    and "edge_refs ws (graph_edges s)"
    and "\<And>w. w \<in> set (graph_work_items s) \<Longrightarrow> \<not> dict_mem (work_item_id w) (k_work_items k)"
proof -
  let ?ws = "dict_set_all work_item_id [] (graph_work_items s)"
  from assms(1) have items: "check_graph_work_items (data_space_id (k_data_space k))
      (foldl (\<lambda>d (nid, n). dict_set d nid n) (dict_set_all node_id [] (graph_nodes s)) (k_nodes k)) ?ws
      (graph_work_items s) = Inr ()"
    and edges: "\<And>e. e \<in> set (graph_edges s) \<Longrightarrow> dict_mem (source_work_item_id e) ?ws \<and> dict_mem (target_work_item_id e) ?ws"
    and new: "\<And>wid. dict_mem wid ?ws \<Longrightarrow> \<not> dict_mem wid (k_work_items k)"
    by (auto simp: check_work_graph_def Let_def dict_mem_def split: if_splits)
  show "missing_node ns w = None" "option_all (\<lambda>p. p \<in> work_item_id ` set (graph_work_items s)) (parent_work_item_id w)"
    if "w \<in> set (graph_work_items s)" for w
    using items that unfolding check_graph_work_items_Inr
    by (auto simp: missing_node_None dict_mem_foldl_set ns_def)
  show "edge_refs ws (graph_edges s)" using edges by (auto simp: edge_refs_def ws_def)
  show "\<not> dict_mem (work_item_id w) (k_work_items k)" if "w \<in> set (graph_work_items s)" for w
    using new [of "work_item_id w"] that by simp
qed

lemma work_step_refs:
  assumes "work_step h k k'" and inv: "refs_inv k"
  shows "refs_inv k'"
proof -
  have rec: "refs_inv k'" if "recorded k2 k'" and "refs_inv k2" for k2 k'
    using that by (simp add: refs_recorded)
  have create: "refs_inv (k\<lparr>k_work_items := dict_set (k_work_items k) (work_item_id w) w,
      k_work_edges := k_work_edges k @ parent_edges w\<rparr>)" if "new_work_item_fits k w" for w
    using that refs_edges [OF refs_work_set [OF inv, of w "work_item_id w"], of "parent_edges w"]
    by (auto simp: new_work_item_fits_def edge_refs_def parent_edges_def option_all_def dict_mem_get
        split: option.splits)
  have import_graph: "refs_inv (k\<lparr>k_nodes := dict_set_all node_id (k_nodes k) (graph_nodes s),
      k_work_items := dict_set_all work_item_id (k_work_items k) (graph_work_items s),
      k_work_edges := k_work_edges k @ graph_edges s, k_activation := a\<rparr>)"
    if "check_work_graph h k s = Inr ()" for s a
  proof -
    let ?k1 = "k\<lparr>k_nodes := dict_set_all node_id (k_nodes k) (graph_nodes s)\<rparr>"
    let ?k2 = "?k1\<lparr>k_work_items := dict_set_all work_item_id (k_work_items k) (graph_work_items s)\<rparr>"
    note graph = check_work_graph_refs [OF that]
    have 1: "refs_inv ?k1" by (rule refs_nodes [OF inv]) simp
    have "refs_inv ?k2"
      by (rule refs_work [OF 1]) (use 1 graph(1,2) in \<open>simp_all add: refs_inv_def work_refs_set_all\<close>)
    from refs_edges [OF this] graph(3) have "refs_inv (?k2\<lparr>k_work_edges := k_work_edges ?k2 @ graph_edges s\<rparr>)" by simp
    then show ?thesis by (simp add: refs_inv_def)
  qed
  have modify: "refs_inv (k\<lparr>k_work_items := dict_set (k_work_items k) wid' w'\<rparr>)"
    if "dict_get (k_work_items k) wid = Some w" "same_place w w'" for wid wid' w w'
    by (rule refs_work_modify [OF inv that])
  have stop: "refs_inv (k\<lparr>k_work_items := dict_set (k_work_items k) wid (w\<lparr>work_state := WorkPaused\<rparr>),
      k_executions := pause_executions p r (k_executions k), k_effect_leases := revoke_leases wid (k_effect_leases k)\<rparr>)"
    if "dict_get (k_work_items k) wid = Some w" for wid w p r
    using refs_revoke [OF refs_pause [OF modify [OF that, of "w\<lparr>work_state := WorkPaused\<rparr>" wid], of p r]]
    by (simp add: same_place_def)
  have finding: "refs_inv (k\<lparr>k_findings := dict_set (k_findings k) fid f\<rparr>)"
    if "dict_mem (finding_node_id f) (k_nodes k)" "dict_mem (finding_work_item_id f) (k_work_items k)" for fid f
    by (rule refs_findings [OF inv that])
  have finding_work: "refs_inv (k\<lparr>k_findings := dict_set (k_findings k) fid f, k_work_items := dict_set (k_work_items k) wid' w'\<rparr>)"
    if "dict_mem (finding_node_id f) (k_nodes k)" "dict_mem (finding_work_item_id f) (k_work_items k)"
      "dict_get (k_work_items k) wid = Some w" "same_place w w'" for fid f wid wid' w w'
    using refs_work_modify [OF finding [OF that(1,2), of fid] _ that(4), of wid wid'] that(3) by simp
  have delegate: "refs_inv (k\<lparr>k_work_items := dict_set (k_work_items k) wid (w\<lparr>delegated_to_node_id := nid, work_state := s\<rparr>)\<rparr>)"
    if "dict_get (k_work_items k) wid = Some w" "dict_mem nid (k_nodes k)" for wid w nid s
    using refs_work_get [OF inv that(1)] that(2) by (intro refs_work_set inv) (simp_all add: missing_node_None)
  have edge: "refs_inv (k\<lparr>k_work_edges := k_work_edges k @ [e]\<rparr>)"
    if "dict_mem (source_work_item_id e) (k_work_items k)" "dict_mem (target_work_item_id e) (k_work_items k)" for e
    by (rule refs_edges [OF inv]) (simp add: edge_refs_def that)
  show ?thesis
    by (rule work_step_ensures [OF assms(1), where P = refs_inv]; rule work_outcomes [THEN ensures_mono];
        auto elim!: rec intro: refs_nodes inv create import_graph modify stop finding finding_work delegate edge
          simp: set_work_def remove_blocker_def Let_def same_place_def dict_get_Some_mem
          refs_finding_get [OF inv] split: if_splits)
qed

lemma execution_step_refs:
  assumes "execution_step h k k'" and inv: "refs_inv k"
  shows "refs_inv k'"
proof -
  have rec: "refs_inv k'" if "recorded k2 k'" and "refs_inv k2" for k2 k'
    using that by (simp add: refs_recorded)
  have create: "refs_inv (k\<lparr>k_work_items := dict_set (k_work_items k) (work_item_id w) w,
      k_work_edges := k_work_edges k @ parent_edges w\<rparr>)" if "new_work_item_fits k w" for w
    using that refs_edges [OF refs_work_set [OF inv, of w "work_item_id w"], of "parent_edges w"]
    by (auto simp: new_work_item_fits_def edge_refs_def parent_edges_def option_all_def dict_mem_get
        split: option.splits)
  have new: "refs_inv (k\<lparr>k_executions := dict_set (k_executions k) eid x\<rparr>)"
    if "dict_mem (exec_node_id x) (k_nodes k)" "dict_get (k_work_items k) (exec_work_item_id x) = Some w"
      "\<not> dict_mem eid (k_executions k)" for eid x w
    by (rule refs_execution_new [OF inv that(1) _ that(3)]) (rule dict_get_Some_mem [OF that(2)])
  have modify: "refs_inv (k\<lparr>k_executions := dict_set (k_executions k) eid x'\<rparr>)"
    if "dict_get (k_executions k) eid = Some x" "exec_node_id x' = exec_node_id x"
      "exec_work_item_id x' = exec_work_item_id x" for eid x x'
    by (rule refs_execution_modify [OF inv that])
  have other: "refs_inv (k\<lparr>k_notifications := ns\<rparr>)" "refs_inv (k\<lparr>k_registrations := rs\<rparr>)" for ns rs
    using inv by (simp_all add: refs_inv_def)
  have assigned: "refs_inv (k\<lparr>k_assignments := d, k_executions := dict_set (k_executions k) eid
      (x\<lparr>exec_agent_name := Some nm\<rparr>)\<rparr>)" if "dict_get (k_executions k) eid = Some x" for d eid x nm
    using modify [OF that, of "x\<lparr>exec_agent_name := Some nm\<rparr>"] by (simp add: refs_inv_def)
  have promoted: "refs_inv (k\<lparr>k_work_items := dict_set (k_work_items k) (work_item_id w) w,
      k_work_edges := k_work_edges k @ parent_edges w, k_notifications := ns\<rparr>)" if "new_work_item_fits k w" for w ns
    using create [OF that] by (simp add: refs_inv_def)
  show ?thesis
    by (rule execution_step_ensures [OF assms(1), where P = refs_inv]; rule execution_outcomes [THEN ensures_mono];
        auto elim!: rec intro: inv create new modify refs_pause other assigned promoted simp: Let_def)
qed

lemma effect_step_refs:
  assumes "effect_step h k k'" and inv: "refs_inv k"
  shows "refs_inv k'"
proof -
  have rec: "refs_inv k'" if "recorded k2 k'" and "refs_inv k2" for k2 k'
    using that by (simp add: refs_recorded)
  have other: "refs_inv (k\<lparr>k_capability_grants := gs\<rparr>)" "refs_inv (k\<lparr>k_reference_grants := rs\<rparr>)"
    "refs_inv (k\<lparr>k_effect_approvals := as\<rparr>)" for gs rs as
    using inv by (simp_all add: refs_inv_def)
  show ?thesis
    by (rule effect_step_ensures [OF assms(1), where P = refs_inv]; rule effect_outcomes [THEN ensures_mono];
        auto elim!: rec intro: inv other refs_budget refs_lease_set refs_lease_state)
qed

lemma route_step_refs: "route_step h k k' \<Longrightarrow> refs_inv k \<Longrightarrow> refs_inv k'"
  by (erule route_step_ensures [where P = refs_inv]; rule route_outcomes [THEN ensures_mono];
      auto simp: refs_inv_def recorded_def)

lemma refs_services [simp]:
  "refs_inv (k\<lparr>k_activation := a\<rparr>) \<longleftrightarrow> refs_inv k"
  "refs_inv (k\<lparr>k_owner_bootstrap := b\<rparr>) \<longleftrightarrow> refs_inv k"
  "refs_inv (k\<lparr>k_ledger := L\<rparr>) \<longleftrightarrow> refs_inv k"
  by (simp_all add: refs_inv_def)

lemma kernel_step_refs: "kernel_step h k k' \<Longrightarrow> refs_inv k \<Longrightarrow> refs_inv k'"
  by (cases rule: kernel_step.cases)
    (auto intro: work_step_refs execution_step_refs effect_step_refs route_step_refs
      elim!: activation_step_views auth_step_views)

end
