(* ===== verification/Kernel_Published.thy ===== *)
theory Kernel_Published
  imports Kernel_Rebuild
begin

text \<open>
  The RouteSnapshots: each one stored satisfies its model's validator, so an approved or
  published one carries its approvals, and a route_key has at most one published snapshot.
\<close>

definition valid_routes :: "(string, route_snapshot) dict \<Rightarrow> bool" where
  "valid_routes rs \<longleftrightarrow> (\<forall>sid s. dict_get rs sid = Some s \<longrightarrow> valid_route_snapshot s)"

definition one_published :: "(string, route_snapshot) dict \<Rightarrow> bool" where
  "one_published rs \<longleftrightarrow> (\<forall>i j s t. dict_get rs i = Some s \<longrightarrow> dict_get rs j = Some t \<longrightarrow>
     route_state s = Published \<longrightarrow> route_state t = Published \<longrightarrow> route_key s = route_key t \<longrightarrow> i = j)"

definition routes_inv :: "kernel \<Rightarrow> bool" where
  "routes_inv k \<longleftrightarrow> valid_routes (k_route_snapshots k) \<and> one_published (k_route_snapshots k)"

lemma valid_routes_set: "valid_routes rs \<Longrightarrow> valid_route_snapshot s \<Longrightarrow> valid_routes (dict_set rs sid s)"
  by (simp add: valid_routes_def)

lemma one_published_set:
  assumes "one_published rs"
    and "\<And>j t. route_state s = Published \<Longrightarrow> dict_get rs j = Some t \<Longrightarrow> route_state t = Published \<Longrightarrow>
      route_key t = route_key s \<Longrightarrow> j = sid"
  shows "one_published (dict_set rs sid s)"
  unfolding one_published_def
proof (intro allI impI)
  fix i j x y
  assume "dict_get (dict_set rs sid s) i = Some x" "dict_get (dict_set rs sid s) j = Some y"
    "route_state x = Published" "route_state y = Published" "route_key x = route_key y"
  then show "i = j" using assms unfolding one_published_def by (auto split: if_splits)
qed

lemma valid_route_moves:
  assumes "valid_route_snapshot s"
  shows "approved_route (route_state s) eid s = Some s' \<Longrightarrow> valid_identifier eid \<Longrightarrow> valid_route_snapshot s'"
    and "route_state s = OwnerApproved \<Longrightarrow> valid_route_snapshot (s\<lparr>route_state := Published\<rparr>)"
    and "route_state s = Published \<Longrightarrow> valid_route_snapshot (s\<lparr>route_state := Retired\<rparr>)"
  using assms
  by (auto simp: approved_route_def valid_route_snapshot_def candidates_and_approvals_are_consistent_def split: if_splits)

lemma approved_not_published: "approved_route st eid s = Some s' \<Longrightarrow> route_state s' \<noteq> Published"
  by (auto simp: approved_route_def split: if_splits)

lemma route_step_routes:
  assumes "route_step h k k'" and inv: "routes_inv k" and keys: "keyed snapshot_id (k_route_snapshots k)"
  shows "routes_inv k'"
proof -
  have rec: "routes_inv k'" if "recorded (k\<lparr>k_route_snapshots := dict_set (k_route_snapshots k) sid s\<rparr>) k'"
    and "valid_route_snapshot s" and "\<And>j t. route_state s = Published \<Longrightarrow> dict_get (k_route_snapshots k) j = Some t \<Longrightarrow>
      route_state t = Published \<Longrightarrow> route_key t = route_key s \<Longrightarrow> j = sid" for k' sid s
    using that inv one_published_set [of "k_route_snapshots k" s sid]
    by (auto simp: recorded_def routes_inv_def intro: valid_routes_set)
  have old: "valid_route_snapshot s" if "dict_get (k_route_snapshots k) sid = Some s" for sid s
    using inv that by (simp add: routes_inv_def valid_routes_def)
  have only: "j = sid" if "dict_get (k_route_snapshots k) j = Some t" "route_state t = Published" "route_key t = key"
    "\<forall>other \<in> set (dict_values (k_route_snapshots k)).
       snapshot_id other \<noteq> sid \<and> route_key other = key \<longrightarrow> route_state other \<noteq> Published" for j t sid key
    using that(2-4) dict_get_values [OF that(1)] keyed_get [OF keys that(1)] by auto
  show ?thesis
    by (rule route_step_ensures [OF assms(1), where P = routes_inv]; rule route_outcomes [THEN ensures_mono];
        auto elim!: rec dest: approved_not_published intro: valid_route_moves old only)
qed

lemma work_step_routes: "work_step h k k' \<Longrightarrow> k_route_snapshots k' = k_route_snapshots k"
  by (erule work_step_ensures [where P = "\<lambda>k'. k_route_snapshots k' = k_route_snapshots k"];
      rule work_outcomes [THEN ensures_mono]; auto simp: view_defs recorded_def split: if_splits)

lemma execution_step_routes: "execution_step h k k' \<Longrightarrow> k_route_snapshots k' = k_route_snapshots k"
  by (erule execution_step_ensures [where P = "\<lambda>k'. k_route_snapshots k' = k_route_snapshots k"];
      rule execution_outcomes [THEN ensures_mono]; auto simp: view_defs recorded_def)

lemma effect_step_routes: "effect_step h k k' \<Longrightarrow> k_route_snapshots k' = k_route_snapshots k"
  by (erule effect_step_ensures [where P = "\<lambda>k'. k_route_snapshots k' = k_route_snapshots k"];
      rule effect_outcomes [THEN ensures_mono]; auto simp: view_defs recorded_def)

lemma kernel_step_routes:
  assumes "kernel_step h k k'" and "machine_inv k" and "routes_inv k"
  shows "routes_inv k'"
proof -
  have "keyed snapshot_id (k_route_snapshots k)" using assms(2) by (simp add: machine_inv_def)
  with assms(1,3) show ?thesis
    by (cases rule: kernel_step.cases)
      (auto simp: routes_inv_def work_step_routes execution_step_routes effect_step_routes
        dest: route_step_routes [unfolded routes_inv_def] elim!: activation_step_views auth_step_views)
qed

end
