(* ===== verification/Kernel_Lifecycles.thy ===== *)
theory Kernel_Lifecycles
  imports Kernel_Authority Kernel_Refs Kernel_Published
begin

text \<open>
  What one step can do to an Execution, an EffectLease or a WorkItem: the life cycles that
  the guards of the single operations add up to.
\<close>

section \<open>Executions\<close>

text \<open>The transition table and the one step a Pilot's receipt makes beside it.\<close>

definition execution_moves :: "execution_state \<Rightarrow> execution_state \<Rightarrow> bool" where
  "execution_moves s s' \<longleftrightarrow> s' = s \<or> s' \<in> allowed_transitions s \<or>
     s = Requested \<and> s' \<in> {ExecSucceeded, ExecFailed, ExecPaused}"

definition execution_kept :: "(string, execution) dict \<Rightarrow> (string, execution) dict \<Rightarrow> bool" where
  "execution_kept xs xs' \<longleftrightarrow> (\<forall>eid x. dict_get xs eid = Some x \<longrightarrow> (\<exists>x'. dict_get xs' eid = Some x' \<and>
     execution_moves (exec_state x) (exec_state x') \<and> exec_work_item_id x' = exec_work_item_id x \<and>
     exec_node_id x' = exec_node_id x \<and> exec_pilot_id x' = exec_pilot_id x \<and> pilot_host_id x' = pilot_host_id x))"

lemma execution_moves_refl [simp]: "execution_moves s s"
  by (simp add: execution_moves_def)

lemma execution_kept_refl [simp]: "execution_kept xs xs"
  by (simp add: execution_kept_def)

lemma execution_kept_new: "\<not> dict_mem eid xs \<Longrightarrow> execution_kept xs (dict_set xs eid x)"
  by (auto simp: execution_kept_def dict_mem_get)

lemma execution_kept_set:
  "dict_get xs eid = Some x \<Longrightarrow> execution_moves (exec_state x) (exec_state x') \<Longrightarrow>
    exec_work_item_id x' = exec_work_item_id x \<Longrightarrow> exec_node_id x' = exec_node_id x \<Longrightarrow>
    exec_pilot_id x' = exec_pilot_id x \<Longrightarrow> pilot_host_id x' = pilot_host_id x \<Longrightarrow> execution_kept xs (dict_set xs eid x')"
  by (simp add: execution_kept_def)

lemma execution_kept_pause: "execution_kept xs (pause_executions p r xs)"
  by (auto simp: execution_kept_def pause_executions_def execution_moves_def)

lemma work_step_executions: "work_step h k k' \<Longrightarrow> execution_kept (k_executions k) (k_executions k')"
  by (erule work_step_ensures [where P = "\<lambda>k'. execution_kept (k_executions k) (k_executions k')"];
      rule work_outcomes [THEN ensures_mono]; auto simp: set_work_def Let_def recorded_def execution_kept_pause split: if_splits)

lemma execution_step_executions: "execution_step h k k' \<Longrightarrow> execution_kept (k_executions k) (k_executions k')"
  by (erule execution_step_ensures [where P = "\<lambda>k'. execution_kept (k_executions k) (k_executions k')"];
      rule execution_outcomes [THEN ensures_mono];
      auto simp: Let_def recorded_def execution_moves_def execution_kept_pause execution_kept_new execution_kept_set
        dest!: receipt_transition_Inr)

lemma effect_step_executions: "effect_step h k k' \<Longrightarrow> k_executions k' = k_executions k"
  by (erule effect_step_ensures [where P = "\<lambda>k'. k_executions k' = k_executions k"];
      rule effect_outcomes [THEN ensures_mono]; auto simp: set_lease_state_def recorded_def)

lemma route_step_executions: "route_step h k k' \<Longrightarrow> k_executions k' = k_executions k"
  by (erule route_step_ensures [where P = "\<lambda>k'. k_executions k' = k_executions k"];
      rule route_outcomes [THEN ensures_mono]; auto simp: recorded_def)

lemma kernel_step_executions: "kernel_step h k k' \<Longrightarrow> execution_kept (k_executions k) (k_executions k')"
  by (cases rule: kernel_step.cases)
    (auto intro: work_step_executions execution_step_executions simp: effect_step_executions route_step_executions
      elim!: activation_step_views auth_step_views)

section \<open>Leases\<close>

text \<open>A lease that was planned again is the new plan; the code looks at no earlier state.\<close>

fun lease_moves :: "effect_lease_state \<Rightarrow> effect_lease_state set" where
  "lease_moves Planned = {LeaseActive, LeaseRevoked}"
| "lease_moves LeaseActive = {LeaseUnknown, LeaseRevoked}"
| "lease_moves LeaseUnknown = {LeaseSucceeded, LeaseFailed}"
| "lease_moves LeaseSucceeded = {}"
| "lease_moves LeaseFailed = {}"
| "lease_moves LeaseRevoked = {}"

definition lease_becomes :: "effect_lease \<Rightarrow> effect_lease \<Rightarrow> bool" where
  "lease_becomes l l' \<longleftrightarrow> lease_state l' = Planned \<or>
     (\<exists>s. l' = l\<lparr>lease_state := s\<rparr> \<and> (s = lease_state l \<or> s \<in> lease_moves (lease_state l)))"

definition lease_kept :: "(string, effect_lease) dict \<Rightarrow> (string, effect_lease) dict \<Rightarrow> bool" where
  "lease_kept ls ls' \<longleftrightarrow> (\<forall>lid l. dict_get ls lid = Some l \<longrightarrow> (\<exists>l'. dict_get ls' lid = Some l' \<and> lease_becomes l l'))"

lemma lease_becomes_simps [simp]:
  "lease_becomes l l"
  "s \<in> lease_moves (lease_state l) \<Longrightarrow> lease_becomes l (l\<lparr>lease_state := s\<rparr>)"
  "lease_state l' = Planned \<Longrightarrow> lease_becomes l l'"
  unfolding lease_becomes_def by (metis effect_lease.surjective effect_lease.update_convs(9)) auto

lemma lease_kept_refl [simp]: "lease_kept ls ls"
  by (simp add: lease_kept_def)

lemma lease_kept_plan: "lease_state l = Planned \<Longrightarrow> lease_kept ls (dict_set ls lid l)"
  by (simp add: lease_kept_def)

lemma lease_kept_state:
  "dict_get ls lid = Some l \<Longrightarrow> s \<in> lease_moves (lease_state l) \<Longrightarrow> lease_kept ls (dict_set ls lid (l\<lparr>lease_state := s\<rparr>))"
  by (simp add: lease_kept_def)

lemma lease_kept_revoke: "lease_kept ls (revoke_leases wid ls)"
  by (auto simp: lease_kept_def revoke_leases_def)

lemma work_step_lease_kept: "work_step h k k' \<Longrightarrow> lease_kept (k_effect_leases k) (k_effect_leases k')"
  by (erule work_step_ensures [where P = "\<lambda>k'. lease_kept (k_effect_leases k) (k_effect_leases k')"];
      rule work_outcomes [THEN ensures_mono]; auto simp: set_work_def Let_def recorded_def lease_kept_revoke split: if_splits)

lemma execution_step_leases_same: "execution_step h k k' \<Longrightarrow> k_effect_leases k' = k_effect_leases k"
  by (erule execution_step_ensures [where P = "\<lambda>k'. k_effect_leases k' = k_effect_leases k"];
      rule execution_outcomes [THEN ensures_mono]; auto simp: Let_def recorded_def)

lemma route_step_leases_same: "route_step h k k' \<Longrightarrow> k_effect_leases k' = k_effect_leases k"
  by (erule route_step_ensures [where P = "\<lambda>k'. k_effect_leases k' = k_effect_leases k"];
      rule route_outcomes [THEN ensures_mono]; auto simp: recorded_def)

lemma effect_step_lease_kept: "effect_step h k k' \<Longrightarrow> lease_kept (k_effect_leases k) (k_effect_leases k')"
  by (erule effect_step_ensures [where P = "\<lambda>k'. lease_kept (k_effect_leases k) (k_effect_leases k')"];
      rule effect_outcomes [THEN ensures_mono]; auto simp: set_lease_state_def recorded_def lease_kept_plan lease_kept_state)

lemma kernel_step_leases: "kernel_step h k k' \<Longrightarrow> lease_kept (k_effect_leases k) (k_effect_leases k')"
  by (cases rule: kernel_step.cases)
    (auto intro: work_step_lease_kept effect_step_lease_kept simp: execution_step_leases_same route_step_leases_same
      elim!: activation_step_views auth_step_views)

section \<open>Completion\<close>

lemma incomplete_dependencies_Nil:
  "incomplete_dependencies ws wid es = Inr [] \<longleftrightarrow> (\<forall>e \<in> set es. source_work_item_id e = wid \<and> edge_kind e = DependsOn \<longrightarrow>
     map_option work_state (dict_get ws (target_work_item_id e)) = Some Completed)"
proof (induction es)
  case (Cons e es)
  then show ?case by (cases "incomplete_dependencies ws wid es") (auto split: option.split)
qed simp

text \<open>What must hold of the Kernel before a WorkItem becomes completed.\<close>

definition may_complete :: "kernel \<Rightarrow> string \<Rightarrow> work_item \<Rightarrow> completion_evidence \<Rightarrow> bool" where
  "may_complete k wid w ev \<longleftrightarrow> completion_gate ev \<and> blocking_s3_star_finding_ids w = [] \<and>
     (\<forall>e \<in> set (k_work_edges k). source_work_item_id e = wid \<and> edge_kind e = DependsOn \<longrightarrow>
        map_option work_state (dict_get (k_work_items k) (target_work_item_id e)) = Some Completed)"

definition completion_kept :: "kernel \<Rightarrow> kernel \<Rightarrow> bool" where
  "completion_kept k k' \<longleftrightarrow> (\<forall>wid w w'. dict_get (k_work_items k) wid = Some w \<longrightarrow>
     dict_get (k_work_items k') wid = Some w' \<longrightarrow> work_state w' = Completed \<longrightarrow>
     work_state w = Completed \<or> (\<exists>ev. completion_evidence w' = Some ev \<and> may_complete k wid w ev))"

lemma completion_kept_same: "k_work_items k' = k_work_items k \<Longrightarrow> completion_kept k k'"
  by (simp add: completion_kept_def)

lemma completion_kept_set:
  "k_work_items k' = dict_set (k_work_items k) wid w' \<Longrightarrow> work_state w' \<noteq> Completed \<Longrightarrow> completion_kept k k'"
  by (auto simp: completion_kept_def)

lemma completion_kept_complete:
  "k_work_items k' = dict_set (k_work_items k) wid (w\<lparr>work_state := Completed, completion_evidence := Some ev\<rparr>) \<Longrightarrow>
    dict_get (k_work_items k) wid = Some w \<Longrightarrow> may_complete k wid w ev \<Longrightarrow> completion_kept k k'"
  by (auto simp: completion_kept_def)

lemma completion_kept_import:
  assumes "check_work_graph h k s = Inr ()"
    and "k_work_items k' = dict_set_all work_item_id (k_work_items k) (graph_work_items s)"
  shows "completion_kept k k'"
proof -
  have "dict_get (k_work_items k') wid = dict_get (k_work_items k) wid" if "dict_get (k_work_items k) wid = Some w" for wid w
  proof -
    have "wid \<notin> work_item_id ` set (graph_work_items s)"
      using check_work_graph_refs(4) [OF assms(1)] dict_get_Some_mem [OF that] by auto
    then show ?thesis by (simp add: assms(2) dict_get_set_all_notin)
  qed
  then show ?thesis by (auto simp: completion_kept_def)
qed

lemma work_step_completion: "work_step h k k' \<Longrightarrow> completion_kept k k'"
  by (erule work_step_ensures [where P = "completion_kept k"]; rule work_outcomes [THEN ensures_mono];
      auto simp: recorded_def view_defs new_work_item_fits_def may_complete_def incomplete_dependencies_Nil
        intro: completion_kept_same completion_kept_set completion_kept_import completion_kept_complete split: if_splits)

lemma execution_step_completion: "execution_step h k k' \<Longrightarrow> completion_kept k k'"
  by (erule execution_step_ensures [where P = "completion_kept k"]; rule execution_outcomes [THEN ensures_mono];
      auto simp: recorded_def Let_def new_work_item_fits_def intro: completion_kept_same completion_kept_set)

lemma effect_step_completion: "effect_step h k k' \<Longrightarrow> completion_kept k k'"
  by (erule effect_step_ensures [where P = "completion_kept k"]; rule effect_outcomes [THEN ensures_mono];
      auto simp: recorded_def set_lease_state_def intro: completion_kept_same)

lemma route_step_completion: "route_step h k k' \<Longrightarrow> completion_kept k k'"
  by (erule route_step_ensures [where P = "completion_kept k"]; rule route_outcomes [THEN ensures_mono];
      auto simp: recorded_def intro: completion_kept_same)

lemma kernel_step_completion: "kernel_step h k k' \<Longrightarrow> completion_kept k k'"
  by (cases rule: kernel_step.cases)
    (auto intro: work_step_completion execution_step_completion effect_step_completion route_step_completion
      completion_kept_same elim!: activation_step_views auth_step_views)

end
