(* ===== verification/Kernel_Dependencies.thy ===== *)
theory Kernel_Dependencies
  imports Kernel_Rebuild
begin

text \<open>
  The search of \<^verbatim>\<open>add_dependency\<close> against its specification: it answers whether the goal
  is reachable over the \<^verbatim>\<open>depends_on\<close> edges. So the dependencies stay acyclic.
\<close>

definition depends_on :: "work_edge list \<Rightarrow> (string \<times> string) set" where
  "depends_on es = {(a, b). b \<in> set (dependency_targets es a)}"

definition search_closed :: "work_edge list \<Rightarrow> string \<Rightarrow> string list \<Rightarrow> string list \<Rightarrow> bool" where
  "search_closed es goal pending visited \<longleftrightarrow>
     (\<forall>v \<in> set visited. v \<noteq> goal \<and> set (dependency_targets es v) \<subseteq> set visited \<union> set pending)"

lemma search_leaves_visited:
  assumes "(v, goal) \<in> (depends_on es)\<^sup>*" and "v \<in> set visited" and "search_closed es goal pending visited"
  shows "\<exists>p \<in> set pending. (p, goal) \<in> (depends_on es)\<^sup>*"
  using assms(1,2)
proof (induction rule: converse_rtrancl_induct)
  case base
  then show ?case using assms(3) by (auto simp: search_closed_def)
next
  case (step v w)
  then have "w \<in> set visited \<or> w \<in> set pending"
    using assms(3) by (auto simp: search_closed_def depends_on_def)
  then show ?case using step by auto
qed

lemma split_last: "xs \<noteq> [] \<Longrightarrow> set xs = insert (last xs) (set (butlast xs))"
  by (metis append_butlast_last_id set_append list.simps(15) list.set(1) Un_commute insert_is_Un)

lemma dependency_search_reach:
  "search_closed es goal pending visited \<Longrightarrow>
    dependency_search es goal pending visited \<longleftrightarrow> (\<exists>p \<in> set pending. (p, goal) \<in> (depends_on es)\<^sup>*)"
proof (induction es goal pending visited rule: dependency_search.induct)
  case (1 es goal pending visited)
  let ?R = "depends_on es"
  let ?c = "last pending"
  consider "pending = []" | "pending \<noteq> []" "?c = goal" | "pending \<noteq> []" "?c \<noteq> goal" "?c \<in> set visited"
    | "pending \<noteq> []" "?c \<noteq> goal" "?c \<notin> set visited" by blast
  then show ?case
  proof cases
    case 2
    then have "goal \<in> set pending" by auto
    with 2 show ?thesis by (subst dependency_search.simps) auto
  next
    case 3
    have closed: "search_closed es goal (butlast pending) visited"
      using "1.prems" 3(3) split_last [OF 3(1)] by (auto simp: search_closed_def)
    have "dependency_search es goal pending visited \<longleftrightarrow> dependency_search es goal (butlast pending) visited"
      using 3 by (subst dependency_search.simps) simp
    also have "\<dots> \<longleftrightarrow> (\<exists>p \<in> set (butlast pending). (p, goal) \<in> ?R\<^sup>*)"
      by (rule "1.IH"(1) [OF 3 closed])
    also have "\<dots> \<longleftrightarrow> (\<exists>p \<in> set pending. (p, goal) \<in> ?R\<^sup>*)"
      using search_leaves_visited [OF _ 3(3) closed] split_last [OF 3(1)] by auto
    finally show ?thesis .
  next
    case 4
    let ?next = "butlast pending @ dependency_targets es ?c"
    have closed: "search_closed es goal ?next (?c # visited)"
      using "1.prems" 4(2) split_last [OF 4(1)] by (auto simp: search_closed_def)
    have "dependency_search es goal pending visited \<longleftrightarrow> dependency_search es goal ?next (?c # visited)"
      using 4 by (subst dependency_search.simps) simp
    also have "\<dots> \<longleftrightarrow> (\<exists>p \<in> set ?next. (p, goal) \<in> ?R\<^sup>*)"
      by (rule "1.IH"(2) [OF 4 closed])
    also have "\<dots> \<longleftrightarrow> (\<exists>p \<in> set pending. (p, goal) \<in> ?R\<^sup>*)"
    proof -
      have "(?c, goal) \<in> ?R\<^sup>* \<longleftrightarrow> (\<exists>p \<in> set (dependency_targets es ?c). (p, goal) \<in> ?R\<^sup>*)"
        using 4(2) by (auto simp: depends_on_def elim: converse_rtranclE intro: converse_rtrancl_into_rtrancl)
      then show ?thesis using split_last [OF 4(1)] by auto
    qed
    finally show ?thesis .
  qed (simp add: dependency_search.simps)
qed

lemma dependency_search_start: "dependency_search es goal [start] [] \<longleftrightarrow> (start, goal) \<in> (depends_on es)\<^sup>*"
  by (simp add: dependency_search_reach search_closed_def)

section \<open>Acyclic dependencies\<close>

lemma depends_on_append [simp]: "depends_on (es @ es') = depends_on es \<union> depends_on es'"
  by (auto simp: depends_on_def dependency_targets_def)

lemma depends_on_edges [simp]:
  "depends_on [] = {}" "depends_on [\<lparr>source_work_item_id = a, target_work_item_id = b, edge_kind = DependsOn\<rparr>] = {(a, b)}"
  "depends_on (parent_edges w) = {}"
  by (auto simp: depends_on_def dependency_targets_def parent_edges_def split: option.splits if_splits)

definition acyclic_work :: "kernel \<Rightarrow> bool" where
  "acyclic_work k \<longleftrightarrow> acyclic (depends_on (k_work_edges k))"

definition same_graph :: "kernel \<Rightarrow> kernel \<Rightarrow> bool" where
  "same_graph k k' \<longleftrightarrow> work_graph_snapshot_id (k_activation k') = work_graph_snapshot_id (k_activation k)"

lemma work_step_acyclic:
  "work_step h k k' \<Longrightarrow> acyclic_work k \<Longrightarrow> same_graph k k' \<longrightarrow> acyclic_work k'"
  by (erule work_step_ensures [where P = "\<lambda>k'. same_graph k k' \<longrightarrow> acyclic_work k'"]; rule work_outcomes [THEN ensures_mono];
      auto simp: recorded_def view_defs acyclic_work_def same_graph_def dependency_search_start acyclic_insert split: if_splits)

lemma other_step_edges:
  "execution_step h k k' \<Longrightarrow> depends_on (k_work_edges k') = depends_on (k_work_edges k)"
  "effect_step h k k' \<Longrightarrow> k_work_edges k' = k_work_edges k"
  "route_step h k k' \<Longrightarrow> k_work_edges k' = k_work_edges k"
  subgoal
    by (erule execution_step_ensures [where P = "\<lambda>k'. depends_on (k_work_edges k') = depends_on (k_work_edges k)"];
        rule execution_outcomes [THEN ensures_mono]; auto simp: Let_def recorded_def)
  subgoal
    by (erule effect_step_ensures [where P = "\<lambda>k'. k_work_edges k' = k_work_edges k"];
        rule effect_outcomes [THEN ensures_mono]; auto simp: set_lease_state_def recorded_def)
  subgoal
    by (erule route_step_ensures [where P = "\<lambda>k'. k_work_edges k' = k_work_edges k"];
        rule route_outcomes [THEN ensures_mono]; auto simp: recorded_def)
  done

lemma kernel_step_acyclic:
  "kernel_step h k k' \<Longrightarrow> acyclic_work k \<Longrightarrow> same_graph k k' \<Longrightarrow> acyclic_work k'"
  by (cases rule: kernel_step.cases)
    (auto dest: work_step_acyclic elim!: activation_step_views auth_step_views simp: other_step_edges acyclic_work_def)

end
