(* ===== verification/Kernel_Audit.thy ===== *)
theory Kernel_Audit
  imports Kernel_Rebuild
begin

text \<open>
  The evidence of an accepted assessment: each citation names a history query whose
  result event is in the ledger, and the ledger of a running Kernel only grows.
\<close>

lemma kernel_step_log:
  assumes "kernel_step h k k'" and "machine_inv k"
  shows "\<exists>es. ledger_events (k_ledger k') = ledger_events (k_ledger k) @ es"
  using kernel_step_logged [OF assms, of undefined undefined] by (auto simp: good_step_def logged_def)

definition audited :: "kledger \<Rightarrow> string \<Rightarrow> bool" where
  "audited L i \<longleftrightarrow> (\<exists>e \<in> set (ledger_events L). event_id e = i \<and> event_type e = ''history_query_resolved'')"

definition audit_inv :: "kernel \<Rightarrow> bool" where
  "audit_inv k \<longleftrightarrow> (\<forall>i \<in> history_query_event_ids (k_activation k). audited (k_ledger k) i) \<and>
     (\<forall>s. assessment (k_activation k) = Some s \<longrightarrow>
        evidence_ref ` set (citations s) \<subseteq> history_query_event_ids (k_activation k))"

lemma audited_mono: "audited L i \<Longrightarrow> ledger_events L' = ledger_events L @ es \<Longrightarrow> audited L' i"
  by (auto simp: audited_def)

lemma check_assessment_citations:
  "check_assessment a s ids items listed = Inr () \<Longrightarrow> evidence_ref ` set (citations s) \<subseteq> history_query_event_ids a"
  by (auto simp: check_assessment_def split: if_splits option.splits)

text \<open>What an activation operation does to the two fields the invariant reads.\<close>

definition evidence_kept :: "activation \<Rightarrow> activation \<times> kledger \<Rightarrow> bool" where
  "evidence_kept a x \<longleftrightarrow> history_query_event_ids (fst x) = history_query_event_ids a \<and>
     (\<forall>s. assessment (fst x) = Some s \<longrightarrow> assessment a = Some s \<or>
        evidence_ref ` set (citations s) \<subseteq> history_query_event_ids a)"

lemma arecorded_evidence:
  assumes "arecorded a x"
  shows "history_query_event_ids (fst x) = history_query_event_ids a" and "assessment (fst x) = assessment a"
  using arg_cong [OF assms [unfolded arecorded_def], of history_query_event_ids]
    arg_cong [OF assms [unfolded arecorded_def], of assessment] by simp_all

lemma submit_evidence: "ensures (evidence_kept a) (submit_assessment h a L t s ids items listed aid key)"
proof (rule ensures_mono [OF submit_assessment_outcome])
  fix x
  assume x: "check_assessment a s ids items listed = Inr () \<and>
    arecorded (end_attempt (a\<lparr>assessment := Some s, a_state := AwaitingOwnerConfirmation\<rparr>)) x"
  then have "history_query_event_ids (fst x) = history_query_event_ids a" "assessment (fst x) = Some s"
    using arecorded_evidence [of _ x] by (fastforce simp: end_attempt_def)+
  then show "evidence_kept a x" using x check_assessment_citations [of a s ids items listed] by (simp add: evidence_kept_def)
qed

lemma resolve_audited:
  assumes "ledger_inv L"
  shows "ensures (\<lambda>x. assessment (fst (snd x)) = assessment a \<and>
    (history_query_event_ids (fst (snd x)) = history_query_event_ids a \<or>
     (\<exists>i. history_query_event_ids (fst (snd x)) = insert i (history_query_event_ids a) \<and> audited (snd (snd x)) i)))
    (resolve h a L rd m t q aid key)"
proof -
  have event: "(\<exists>V. a' = a\<lparr>a_version := V\<rparr>) \<and> audited L' (event_id e)"
    if rec: "activation_record h a L1 t ''history_query_resolved'' p act aid' key = Inr (e, cur, a', L')"
    and blob: "put_blob (sha256 h) L data = (ref, L1)" for data ref L1 p act aid' e cur a' L'
  proof -
    from rec obtain r where app: "append_event h L1 (a_data_space_id a) (a_stream_id a) (a_version a)
        ''history_query_resolved'' p t act aid' (Some (a_stream_id a)) None key = Inr (e, r, L')"
      by (auto simp: activation_record_def)
    have "e \<in> set (ledger_events L')"
      using memory.append_mem [OF put_blob_ledger(2) [OF blob, THEN iffD2, OF assms] append_event_Inr(1) [OF app]] .
    moreover have "event_type e = ''history_query_resolved''"
      using make_event_Inr(4) [OF append_event_Inr(2) [OF app]] .
    ultimately show ?thesis using activation_recordD [OF rec] by (auto simp: audited_def)
  qed
  show ?thesis
    by (auto simp: resolve_def Let_def split: ensures_splits dest!: event)
qed

lemma activation_step_audit:
  assumes step: "activation_step h k k'" and L: "ledger_inv (k_ledger k)" and inv: "audit_inv k"
    and grows: "ledger_events (k_ledger k') = ledger_events (k_ledger k) @ es"
  shows "audit_inv k'"
proof -
  define Q where "Q k2 \<longleftrightarrow> (\<forall>es. ledger_events (k_ledger k2) = ledger_events (k_ledger k) @ es \<longrightarrow> audit_inv k2)" for k2
  have kept: "Q (k\<lparr>k_activation := s', k_ledger := L'\<rparr>)" if "evidence_kept (k_activation k) (s', L')" for s' L'
    using that inv audited_mono by (fastforce simp: Q_def audit_inv_def evidence_kept_def)
  have query: "Q (k\<lparr>k_activation := s', k_ledger := L'\<rparr>)" if "assessment s' = assessment (k_activation k)"
    and "history_query_event_ids s' = insert i (history_query_event_ids (k_activation k))" and "audited L' i" for s' L' i
    using that inv audited_mono by (fastforce simp: Q_def audit_inv_def)
  have simple: "ensures (\<lambda>(s', L'). Q (k\<lparr>k_activation := s', k_ledger := L'\<rparr>)) r"
    if "ensures (evidence_kept (k_activation k)) r" for r
    by (rule ensures_mono [OF that]) (auto intro: kept)
  have "Q k'"
    using step
  proof (rule activation_step_ensures [where P = Q])
    show "Q (k\<lparr>k_activation := s', k_ledger := L'\<rparr>)"
      if "scan_session_index h (k_activation k) (k_ledger k) rd m t receipt aid key uuids = Some (g, s', L')"
      for rd m t receipt aid key uuids g s' L'
      by (rule kept)
        (use that in \<open>auto simp: scan_session_index_def evidence_kept_def split: option.splits sum.splits prod.splits if_splits
          dest!: record_index_pages_outcome\<close>)
    show "ensures (\<lambda>(g, s', L'). Q (k\<lparr>k_activation := s', k_ledger := L'\<rparr>))
        (resolve h (k_activation k) (k_ledger k) rd m t q aid key)" for rd m t q aid key
      by (rule ensures_mono [OF resolve_audited [OF L]]) (auto simp: evidence_kept_def intro: kept query)
  qed (rule simple, rule submit_evidence activation_outcomes [THEN ensures_mono];
       auto simp: evidence_kept_def end_attempt_def dest: arecorded_evidence)+
  then show ?thesis using grows by (simp add: Q_def)
qed

lemma other_step_evidence:
  assumes "work_step h k k'"
  shows "history_query_event_ids (k_activation k') = history_query_event_ids (k_activation k) \<and>
    assessment (k_activation k') = assessment (k_activation k)"
  by (rule work_step_ensures [OF assms, where P = "\<lambda>k'. history_query_event_ids (k_activation k') =
        history_query_event_ids (k_activation k) \<and> assessment (k_activation k') = assessment (k_activation k)"];
      rule work_outcomes [THEN ensures_mono]; auto simp: recorded_def view_defs split: if_splits)

lemma kernel_step_audit:
  assumes "kernel_step h k k'" and inv: "machine_inv k" and audit: "audit_inv k"
  shows "audit_inv k'"
proof -
  obtain es where grows: "ledger_events (k_ledger k') = ledger_events (k_ledger k) @ es"
    using kernel_step_log [OF assms(1,2)] by blast
  have same: "audit_inv k'"
    if "history_query_event_ids (k_activation k') = history_query_event_ids (k_activation k)"
      "assessment (k_activation k') = assessment (k_activation k)"
    using that audit audited_mono [OF _ grows] by (fastforce simp: audit_inv_def)
  have "ledger_inv (k_ledger k)" using inv versions_invD(1) by (simp add: machine_inv_def)
  from assms(1) show ?thesis
  proof (cases rule: kernel_step.cases)
    case in_history
    then show ?thesis by (intro same) simp_all
  qed (auto intro: same activation_step_audit [OF _ \<open>ledger_inv (k_ledger k)\<close> audit grows]
        simp: other_step_activation other_step_evidence)
qed

lemma audit_inv_fresh: "audit_inv (fresh_kernel ds L ap cp)"
  by (simp add: audit_inv_def fresh_kernel_def init_activation_def)

end
