(* ===== verification/Example_Run.thy ===== *)
theory Example_Run
  imports Kernel_Rebuild
begin

text \<open>
  A concrete run of the model, from the empty ledger over the commissioning path to an
  activated effect and a completed WorkItem. The theorems of the other theories are
  applied to its states, so none of them speaks of an empty set of states.
\<close>

section \<open>Digests and event identities\<close>

text \<open>
  The run's digest of a text is its length in digits, or 64 times that digit for the four
  and five letters of a login code and a session token; the idempotency keys of the run
  have different lengths, so its events have different identities.
\<close>

definition zeros :: string where
  "zeros = replicate 64 (CHR ''0'')"

definition toy :: hashing where
  "toy = \<lparr>sha256 = \<lambda>s. if length s = 4 then replicate 64 (CHR ''4'')
       else if length s = 5 then replicate 64 (CHR ''5'') else decimal (length s),
     graph_sha256 = \<lambda>_. zeros\<rparr>"

definition run_key :: "nat \<Rightarrow> string" where
  "run_key n = replicate n (CHR ''k'')"

lemma is_sha256_zeros [simp]: "is_sha256 zeros"
  by (simp add: zeros_def is_sha256_def is_hex_def is_digit_def char_between_def list_all_iff)

lemma run_key_simps [simp]:
  "run_key m = run_key n \<longleftrightarrow> m = n" "length (run_key n) = n" "non_blank (run_key n) \<longleftrightarrow> 1 \<le> n \<and> n \<le> 512"
  by (auto simp: run_key_def non_blank_def py_len_def)

definition plain :: "string \<Rightarrow> bool" where
  "plain s \<longleftrightarrow> list_all (\<lambda>c. is_body_char c \<or> c = CHR '':'') s"

lemma plain_run_key [simp]: "plain (run_key n)"
  by (simp add: plain_def run_key_def list_all_iff is_body_char_def is_lower_def char_between_def)

lemma json_escape_plain:
  assumes "is_body_char c \<or> c = CHR '':''"
  shows "(of_char c :: nat) < 128" "length (json_escape (of_char c)) = 1"
  using assms
  by (auto simp: is_body_char_def is_lower_def is_upper_def is_digit_def char_between_def json_escape_def)

lemma length_json_plain: "plain s \<Longrightarrow> length (json_string s) = length s + 2"
proof -
  assume "plain s"
  then have "length (concat (map json_escape (code_points (map of_char s)))) = length s"
    by (induction s) (use json_escape_plain in \<open>auto simp: plain_def\<close>)
  then show ?thesis by (simp add: json_string_def)
qed

lemma length_json_fields:
  "length (json_string ''data_space_id'') = 15" "length (json_string ''idempotency_key'') = 17"
  "length (json_string ''stream_id'') = 11"
  by (subst length_json_plain; simp add: plain_def is_body_char_def is_lower_def char_between_def)+

definition run_event_id :: "nat \<Rightarrow> string" where
  "run_event_id n = ''event:'' @ decimal n"

lemma run_event_id_inj [simp]: "run_event_id m = run_event_id n \<longleftrightarrow> m = n"
  by (simp add: run_event_id_def)

lemma decimal_digits: "c \<in> set (decimal n) \<Longrightarrow> is_digit c"
proof (induction n rule: decimal.induct)
  case (1 n)
  then show ?case
    by (subst (asm) (2) decimal.simps)
      (auto simp: is_digit_def char_between_def take_bit_eq_mod split: if_splits)
qed

lemma decimal_short: "n < 1000 \<Longrightarrow> length (decimal n) \<le> 3"
  by (subst decimal.simps, subst decimal.simps, subst decimal.simps) auto

lemma valid_run_event_id [simp]: "n < 1000 \<Longrightarrow> valid_identifier (run_event_id n)"
  using decimal_short [of n] decimal_digits [of _ n] decimal_nonempty [of n]
  by (simp add: run_event_id_def valid_identifier_def id_kind_def id_rest_def list_all_iff is_kind_char_def is_lower_def
    char_between_def is_body_char_def Suc_leI)

lemma toy_event_id:
  assumes "plain ds" "plain sid" "plain key" and "n = 56 + length ds + length sid + length key" and "n < 1000"
  shows "deterministic_event_id (sha256 toy) ds sid key = Inr (run_event_id n)"
proof -
  have "length (event_canonical ds sid key) = n"
    using assms(4) by (simp add: event_canonical_def length_json_plain [OF assms(1)] length_json_plain [OF assms(2)]
      length_json_plain [OF assms(3)] length_json_fields)
  then show ?thesis
    using valid_run_event_id [OF assms(5)] assms(4) by (simp add: deterministic_event_id_def toy_def run_event_id_def)
qed

section \<open>Data\<close>

definition ex_space :: data_space where
  "ex_space = \<lparr>data_space_id = ''ds:main'', owner_id = ''owner:me'', ds_kind = Personal, lethe_location = ''here''\<rparr>"

definition ex_audit :: audit_policy where
  "ex_audit = \<lparr>audit_policy_id = ''audit:1'', audit_data_space_id = ''ds:main'', retention_days = 30\<rparr>"

definition ex_control :: control_policy where
  "ex_control = \<lparr>control_policy_id = ''control:1'', control_data_space_id = ''ds:main''\<rparr>"

definition ex_node :: uvsm_node where
  "ex_node = \<lparr>node_id = ''node:1'', node_data_space_id = ''ds:main'', node_owner_id = ''owner:me'',
     node_name = ''root'', node_kind = Interface, node_parent_id = None,
     resident_functions = {S1, S2, S3, S3_STAR, S4, S5}, resident_s3_parent_function = S5,
     node_status = NodeActive, memory_stream_id = ''memory:1''\<rparr>"

definition ex_work :: "string \<Rightarrow> work_item" where
  "ex_work wid = \<lparr>work_item_id = wid, work_data_space_id = ''ds:main'', work_title = ''t'', work_description = ''d'',
     owner_node_id = ''node:1'', delegated_to_node_id = ''node:1'', integration_owner_node_id = ''node:1'',
     parent_work_item_id = None, acceptance_criteria = [''a''], work_route_key = ''r'', work_state = Ready,
     blocking_s3_star_finding_ids = [], completion_evidence = None\<rparr>"

definition ex_graph :: current_work_graph_snapshot where
  "ex_graph = \<lparr>graph_snapshot_id = ''graph:1'', graph_data_space_id = ''ds:main'', captured_at = 0,
     graph_nodes = [ex_node], graph_work_items = [ex_work ''work:1''], graph_edges = [],
     snapshot_sha256 = zeros\<rparr>"

definition ex_manifest :: "history_source_kind \<Rightarrow> string \<Rightarrow> history_source_manifest" where
  "ex_manifest kind sid = \<lparr>source_id = sid, source_kind = kind, manifest_owner_id = ''owner:me'',
     source_record_count = 0, source_raw_bytes = 0, digest_sha256 = zeros, cutover_cursor = ''c''\<rparr>"

definition ex_receipt :: history_import_receipt where
  "ex_receipt = \<lparr>inventory_id = ''import:1'', receipt_data_space_id = ''ds:main'',
     manifest_digest = zeros, record_count = 0, raw_bytes = 0,
     cross_source_overlap_identities = 0,
     sources = [ex_manifest ClaudeCode ''a'', ex_manifest ClaudeAi ''b'', ex_manifest Codex ''c'',
       ex_manifest Intercom ''d'', ex_manifest Lethe ''e'', ex_manifest NaniholdLegacy ''f'',
       ex_manifest SystemSnapshot ''g''],
     session_count = 0, receipt_sessions = [], session_index_ref = ''i'', open_commitments_ref = ''o'',
     current_state_ref = ''s''\<rparr>"

definition ex_page :: history_page where
  "ex_page = \<lparr>page_json = ''{}'', page_session_refs = Some [], next_cursor = None, source_cursor = ''c''\<rparr>"

definition ex_reader :: history_reader where
  "ex_reader = \<lparr>list_sessions = \<lambda>_. Inr ex_page, read_timeline = \<lambda>_ _. Inr ex_page, read_raw = \<lambda>_ _. Inr ex_page,
     search_history = \<lambda>_ _. Inr ex_page, resolve_reference = \<lambda>_ _. Inr ex_page,
     list_open_commitments = \<lambda>_. Inr ex_page, get_current_state = \<lambda>_ _. Inr ex_page\<rparr>"

definition ex_query :: read_history_action where
  "ex_query = \<lparr>action_id = ''action:1'', operation = ''get_current_state'', argument = None, page_cursor = None\<rparr>"

definition ex_assessment :: "string \<Rightarrow> reorientation_assessment" where
  "ex_assessment eid = \<lparr>assessment_id = ''assess:1'', import_id = ''import:1'',
     assessment_conversation_id = ''conv:1'', generated_at = 0, understanding = ''u'', active_missions = [],
     decisions_and_constraints = [], open_commitment_ids = [], unknowns = [],
     resume_work_item_ids = [''work:1''], covered_session_index_ref = ''i'', covered_session_count = 0,
     history_cursor = 2, current_state_cursor = 4,
     citations = [\<lparr>claim_ref = ''understanding'', evidence_ref = eid\<rparr>]\<rparr>"

definition ex_execution :: execution where
  "ex_execution = \<lparr>execution_id = ''exec:1'', exec_data_space_id = ''ds:main'', exec_node_id = ''node:1'',
     exec_work_item_id = ''work:1'', exec_pilot_id = ''pilot:1'', model_candidate_key = ''m'', exec_state = ExecActive,
     provider_session_id = None, pilot_host_id = ''host:1'', pause_reason = None, exec_agent_name = None\<rparr>"

definition ex_route :: "route_snapshot_state \<Rightarrow> string option \<Rightarrow> string option \<Rightarrow> route_snapshot" where
  "ex_route st s3 own = \<lparr>snapshot_id = ''route:1'', route_data_space_id = ''ds:main'', route_key = ''r'',
     evidence_cursor = 0, candidate_keys = [''m''], production_objective = QualityMax, route_state = st,
     s3_star_approval_event_id = s3, owner_approval_event_id = own\<rparr>"

definition ex_evidence :: completion_evidence where
  "ex_evidence = \<lparr>acceptance_satisfied = True, required_tests_passed = True, blocking_deviations = [],
     independent_s3_star_gate = True, integration_branch_merged = True, remote_push_succeeded = True\<rparr>"

definition ex_lease :: effect_lease where
  "ex_lease = \<lparr>lease_id = ''lease:1'', lease_data_space_id = ''ds:main'', lease_work_item_id = ''work:1'',
     lease_execution_id = ''exec:1'', effect_kind = ''push'', effect_target = ''repo'', lease_idempotency_key = ''once'',
     plan_sha256 = zeros, lease_state = Planned, lease_expires_at = 100\<rparr>"

section \<open>Validity of the data\<close>

lemma ex_identifiers [simp]:
  "valid_identifier ''ds:main''" "valid_identifier ''owner:me''" "valid_identifier ''node:1''"
  "valid_identifier ''memory:1''" "valid_identifier ''work:1''" "valid_identifier ''work:2''"
  "valid_identifier ''graph:1''" "valid_identifier ''conv:1''"
  "valid_identifier ''import:1''" "valid_identifier ''action:1''" "valid_identifier ''assess:1''"
  "valid_identifier ''exec:1''" "valid_identifier ''pilot:1''" "valid_identifier ''host:1''"
  "valid_identifier ''lease:1''" "valid_identifier ''activation:main''"
  by code_simp+

lemma identifier_plain:
  assumes "valid_identifier s"
  shows "plain s"
proof -
  have "s = id_kind s @ id_rest s" by (simp add: id_kind_def id_rest_def)
  moreover have "plain (id_kind s)" "plain (id_rest s)"
    using assms
    by (auto simp: valid_identifier_def plain_def list_all_iff is_kind_char_def is_body_char_def id_rest_def
      split: list.splits dest!: dropWhile_eq_Cons_conv [THEN iffD1])
  ultimately show ?thesis by (metis plain_def list_all_append)
qed

lemma ex_node_valid [simp]: "valid_uvsm_node ex_node"
  by (simp add: valid_uvsm_node_def ex_node_def viable_and_interface_owned_def non_blank_def py_len_def)

lemma ex_work_valid [simp]: "valid_identifier w \<Longrightarrow> valid_work_item (ex_work w)"
  by (simp add: valid_work_item_def ex_work_def non_blank_def py_len_def)

lemma ex_graph_valid [simp]: "valid_current_work_graph_snapshot ex_graph"
  by (simp add: valid_current_work_graph_snapshot_def ex_graph_def identities_and_real_work_are_valid_def)
    (simp add: ex_work_def)

lemma ex_manifest_valid [simp]: "non_blank s \<Longrightarrow> valid_history_source_manifest (ex_manifest kd s)"
  by (simp add: valid_history_source_manifest_def ex_manifest_def non_blank_def py_len_def)

lemma ex_receipt_kinds: "source_kind ` set (sources ex_receipt) = required_history_source_kinds"
  by (auto simp: ex_receipt_def ex_manifest_def required_history_source_kinds_def)

lemma ex_receipt_valid [simp]: "valid_history_import_receipt ex_receipt"
  using ex_receipt_kinds
  by (simp add: valid_history_import_receipt_def totals_and_coverage_are_consistent_def)
    (simp add: ex_receipt_def ex_manifest_def valid_history_source_manifest_def non_blank_def py_len_def)

lemma ex_execution_valid [simp]: "valid_execution ex_execution"
  by (simp add: valid_execution_def ex_execution_def non_blank_def py_len_def)

lemma ex_lease_valid [simp]: "valid_effect_lease ex_lease"
  by (simp add: valid_effect_lease_def ex_lease_def non_blank_def py_len_def)

section \<open>Writing an event of the run\<close>

definition pushed :: "kledger \<Rightarrow> kevent \<Rightarrow> kledger" where
  "pushed L e =
     (let st = \<lparr>cursor = length (l_events L) + 1, stored = e\<rparr> in
      L\<lparr>l_events := l_events L @ [st],
        l_streams := dict_set (l_streams L) (stream_id e) (stream_of L (stream_id e) @ [st]),
        l_idempotency := dict_set (l_idempotency L) (idempotency_key e) st,
        l_event_ids := dict_set (l_event_ids L) (event_id e) st\<rparr>)"

lemma pushed_simps [simp]:
  "ledger_data_space_id (pushed L e) = ledger_data_space_id L"
  "length (l_events (pushed L e)) = Suc (length (l_events L))"
  "length (stream_of (pushed L e) sid) = (if sid = stream_id e then 1 else 0) + length (stream_of L sid)"
  "dict_get (l_idempotency (pushed L e)) key = None \<longleftrightarrow> key \<noteq> idempotency_key e \<and> dict_get (l_idempotency L) key = None"
  "dict_get (l_event_ids (pushed L e)) eid = None \<longleftrightarrow> eid \<noteq> event_id e \<and> dict_get (l_event_ids L) eid = None"
  "l_blobs (pushed L e) = l_blobs L"
  by (simp_all add: pushed_def Let_def stream_of_def)

text \<open>The event the run writes at one point.\<close>

definition run_event ::
  "nat \<Rightarrow> string \<Rightarrow> nat \<Rightarrow> string \<Rightarrow> payload_dict \<Rightarrow> actor_type \<Rightarrow> string \<Rightarrow> nat \<Rightarrow> kevent" where
  "run_event n sid v ty p act corr i =
     \<lparr>event_id = run_event_id n, event_data_space_id = ''ds:main'', stream_id = sid, stream_version = v,
      event_type = ty, occurred_at = 0, actor_type = act, actor_id = Some ''owner:me'', correlation_id = Some corr,
      causation_id = None, idempotency_key = run_key i, payload = p\<rparr>"

lemma run_event_simps [simp]:
  "stream_id (run_event n sid v ty p act corr i) = sid" "idempotency_key (run_event n sid v ty p act corr i) = run_key i"
  "event_id (run_event n sid v ty p act corr i) = run_event_id n" "stream_version (run_event n sid v ty p act corr i) = v"
  by (simp_all add: run_event_def)

lemma run_append:
  assumes "valid_identifier sid" "valid_identifier corr" "non_blank ty" "1 \<le> i" "i \<le> 500"
    and "n = 63 + length sid + i" "n < 1000"
    and "ledger_data_space_id L = ''ds:main''" "length (stream_of L sid) = v"
    and "dict_get (l_idempotency L) (run_key i) = None" "dict_get (l_event_ids L) (run_event_id n) = None"
  shows "append_event toy L ''ds:main'' sid v ty p 0 act (Some ''owner:me'') (Some corr) None (run_key i)
    = Inr (run_event n sid (Suc v) ty p act corr i,
           \<lparr>outcome = Appended, result_cursor = Suc (length (l_events L)), result_stream_version = Suc v\<rparr>,
           pushed L (run_event n sid (Suc v) ty p act corr i))"
proof -
  let ?e = "run_event n sid (Suc v) ty p act corr i"
  have "deterministic_event_id (sha256 toy) ''ds:main'' sid (run_key i) = Inr (run_event_id n)"
    by (rule toy_event_id) (use assms identifier_plain in simp_all)
  moreover have "valid_event_envelope ?e"
    using assms by (simp add: valid_event_envelope_def run_event_def)
  ultimately have "make_event toy ''ds:main'' sid v ty p 0 act (Some ''owner:me'') (Some corr) None (run_key i) = Inr ?e"
    by (simp add: make_event_def run_event_def)
  then show ?thesis
    using assms by (simp add: append_event_def ledger_append_def pushed_def Let_def run_event_def)
qed

lemma run_record:
  assumes "valid_identifier sid" "valid_identifier corr" "non_blank ty" "1 \<le> i" "i \<le> 500"
    and "n = 63 + length sid + i" "n < 1000" "data_space_id (k_data_space k) = ''ds:main''"
    and "ledger_data_space_id (k_ledger k) = ''ds:main''" "length (stream_of (k_ledger k) sid) = v"
    and "version_of (k_versions k) sid = v" "dict_get (l_idempotency (k_ledger k)) (run_key i) = None"
    and "dict_get (l_event_ids (k_ledger k)) (run_event_id n) = None"
  shows "kernel_record toy k 0 sid ty p act (Some ''owner:me'') (run_key i) (Some corr) None
    = Inr (run_event n sid (Suc v) ty p act corr i,
           k\<lparr>k_ledger := pushed (k_ledger k) (run_event n sid (Suc v) ty p act corr i),
             k_versions := dict_set (k_versions k) sid (Suc v)\<rparr>)"
  by (simp add: kernel_record_def assms(8,11) run_append [OF assms(1-7,9,10,12,13)])

lemma run_activation_record:
  assumes "non_blank ty" "1 \<le> i" "i \<le> 500" "n = 78 + i" "n < 1000"
    and "a_data_space_id a = ''ds:main''" "a_stream_id a = ''activation:main''"
    and "ledger_data_space_id L = ''ds:main''" "length (stream_of L ''activation:main'') = a_version a"
    and "dict_get (l_idempotency L) (run_key i) = None" "dict_get (l_event_ids L) (run_event_id n) = None"
  shows "activation_record toy a L 0 ty p act (Some ''owner:me'') (run_key i)
    = Inr (run_event n ''activation:main'' (Suc (a_version a)) ty p act ''activation:main'' i, Suc (length (l_events L)),
           a\<lparr>a_version := Suc (a_version a)\<rparr>,
           pushed L (run_event n ''activation:main'' (Suc (a_version a)) ty p act ''activation:main'' i))"
proof -
  have "append_event toy L ''ds:main'' ''activation:main'' (a_version a) ty p 0 act (Some ''owner:me'')
      (Some ''activation:main'') None (run_key i)
    = Inr (run_event n ''activation:main'' (Suc (a_version a)) ty p act ''activation:main'' i,
           \<lparr>outcome = Appended, result_cursor = Suc (length (l_events L)), result_stream_version = Suc (a_version a)\<rparr>,
           pushed L (run_event n ''activation:main'' (Suc (a_version a)) ty p act ''activation:main'' i))"
    by (rule run_append) (use assms in simp_all)
  then show ?thesis by (simp add: activation_record_def assms(6,7))
qed

lemma dict_cells [simp]:
  "dict_set [] k v = [(k, v)]"
  "dict_set ((k', v') # d) k v = (if k' = k then (k', v) # d else (k', v') # dict_set d k v)"
  "\<not> dict_mem k []" "dict_mem k ((k', v') # d) \<longleftrightarrow> k = k' \<or> dict_mem k d"
  "dict_values [] = []" "dict_values ((k', v') # d) = v' # dict_values d"
  by (auto simp: dict_set_def dict_mem_def dict_values_def)

lemmas text_lengths = version_of_def non_blank_def py_len_def numeral_2_eq_2 [symmetric]

section \<open>Commissioning\<close>

definition run0 :: kernel where
  "run0 = fresh_kernel ex_space (empty_ledger ''ds:main'') ex_audit ex_control"

definition run_event1 :: kevent where
  "run_event1 = run_event 80 ''graph:1'' 1 ''current_work_graph_imported'' [(''snapshot'', PGraph ex_graph)] Human ''graph:1'' 10"

definition run1 :: kernel where
  "run1 = run0\<lparr>k_ledger := pushed (k_ledger run0) run_event1, k_versions := [(''graph:1'', 1)],
     k_nodes := [(''node:1'', ex_node)], k_work_items := [(''work:1'', ex_work ''work:1'')],
     k_activation := (k_activation run0)\<lparr>work_graph_snapshot_id := Some ''graph:1''\<rparr>\<rparr>"

lemma run0_sel [simp]:
  "data_space_id (k_data_space run0) = ''ds:main''" "a_state (k_activation run0) = Uncommissioned"
  "work_graph_snapshot_id (k_activation run0) = None" "k_nodes run0 = []" "k_work_items run0 = []"
  "k_work_edges run0 = []" "k_versions run0 = []" "k_ledger run0 = empty_ledger ''ds:main''"
  "k_executions run0 = []" "k_effect_leases run0 = []" "k_effect_approvals run0 = []" "k_route_snapshots run0 = []"
  "a_data_space_id (k_activation run0) = ''ds:main''" "a_stream_id (k_activation run0) = ''activation:main''"
  "a_version (k_activation run0) = 0" "\<not> attempt_in_progress (k_activation run0)"
  "history_query_operations (k_activation run0) = {}" "history_query_event_ids (k_activation run0) = {}"
  by (simp_all add: run0_def fresh_kernel_def init_activation_def ex_space_def after_colon_def id_rest_def)

lemma ex_graph_sel [simp]:
  "graph_snapshot_id ex_graph = ''graph:1''" "graph_nodes ex_graph = [ex_node]"
  "graph_work_items ex_graph = [ex_work ''work:1'']" "graph_edges ex_graph = []"
  "node_id ex_node = ''node:1''" "work_item_id (ex_work w) = w"
  by (simp_all add: ex_graph_def ex_node_def ex_work_def)

lemma empty_ledger_sel [simp]:
  "ledger_data_space_id (empty_ledger ds) = ds" "l_idempotency (empty_ledger ds) = []"
  "l_event_ids (empty_ledger ds) = []" "l_events (empty_ledger ds) = []"
  "l_blobs (empty_ledger ds) = []"
  by (simp_all add: empty_ledger_def)

lemma run1: "import_current_work_graph toy run0 0 ex_graph ''owner:me'' (run_key 10) = Inr (run_event1, run1)"
proof -
  have "check_work_graph toy run0 ex_graph = Inr ()"
    by (simp add: check_work_graph_def Let_def) (simp add: ex_graph_def ex_node_def ex_work_def toy_def missing_node_def)
  then show ?thesis
    by (simp add: import_current_work_graph_def run_record run_event1_def run1_def text_lengths)
qed

definition run_event2 :: kevent where
  "run_event2 = run_event 98 ''activation:main'' 1 ''history_import_verified''
     [(''receipt'', PReceipt ex_receipt), (''reorientation_conversation_id'', PStr ''conv:1''),
      (''state'', PStr ''HISTORY_IMPORTED'')] Human ''activation:main'' 20"

definition run2 :: kernel where
  "run2 = run1\<lparr>k_ledger := pushed (k_ledger run1) run_event2,
     k_activation := (k_activation run1)\<lparr>a_version := 1, import_receipt := Some ex_receipt,
       reorientation_conversation_id := Some ''conv:1'', sessions := [], a_state := HistoryImported,
       import_event_cursor := 2\<rparr>\<rparr>"

lemma ex_receipt_sel [simp]:
  "receipt_data_space_id ex_receipt = ''ds:main''" "receipt_sessions ex_receipt = []" "session_count ex_receipt = 0"
  "inventory_id ex_receipt = ''import:1''" "session_index_ref ex_receipt = ''i''"
  by (simp_all add: ex_receipt_def)

lemma run2: "register_history_import toy (k_activation run1) (k_ledger run1) 0 ex_receipt ''conv:1'' ''owner:me'' (run_key 20)
    = Inr (k_activation run2, k_ledger run2)"
  using ex_receipt_kinds
  by (simp add: register_history_import_def run_activation_record run_event2_def run2_def run1_def run_event1_def text_lengths)

definition run_event3 :: kevent where
  "run_event3 = run_event 99 ''activation:main'' 2 ''reorientation_started''
     [(''state'', PStr ''REORIENTATION_ONLY'')] PilotActor ''activation:main'' 21"

definition run3 :: kernel where
  "run3 = run2\<lparr>k_ledger := pushed (k_ledger run2) run_event3,
     k_activation := (k_activation run2)\<lparr>a_version := 2, a_state := ReorientationOnly, reorientation_error := None,
       pending_revision_reason := None, attempt_in_progress := True, attempt_started_stream_version := Some 2\<rparr>\<rparr>"

lemma run3: "start_reorientation toy (k_activation run2) (k_ledger run2) 0 ''owner:me'' (run_key 21)
    = Inr (k_activation run3, k_ledger run3)"
  by (simp add: start_reorientation_def start_event_def run_activation_record run_event3_def run_event2_def run3_def
    run2_def run1_def run_event1_def text_lengths)

definition run_event4 :: kevent where
  "run_event4 = run_event 100 ''activation:main'' 3 ''history_query_resolved''
     [(''action_id'', PStr ''action:1''), (''operation'', PStr ''get_current_state''), (''argument'', PNull),
      (''page_cursor'', PNull), (''next_cursor'', PNull), (''source_cursor'', PStr ''c''),
      (''result_blob_ref'', PStr ''blob:sha256:2''), (''result_sha256'', PStr ''2'')]
     PilotActor ''activation:main'' 22"

definition run4 :: kernel where
  "run4 = run3\<lparr>k_ledger := pushed ((k_ledger run3)\<lparr>l_blobs := [(''blob:sha256:2'', ''{}'')]\<rparr>) run_event4,
     k_activation := (k_activation run3)\<lparr>a_version := 3, history_query_operations := {''get_current_state''},
       history_query_event_ids := {run_event_id 100}\<rparr>\<rparr>"

lemma put_blob_sel [simp]:
  "stream_of (L\<lparr>l_blobs := b\<rparr>) sid = stream_of L sid"
  by (simp add: stream_of_def)

lemma run4: "\<exists>r. resolve toy (k_activation run3) (k_ledger run3) ex_reader 100 0 ex_query ''owner:me'' (run_key 22)
    = Inr (r, k_activation run4, k_ledger run4)"
proof -
  have [simp]: "sha256 toy ''{}'' = ''2''" by code_simp
  show ?thesis
    by (simp add: resolve_def read_history_page_def ex_query_def ex_reader_def ex_page_def put_blob_def Let_def
      run_activation_record run_event4_def run4_def run3_def run_event3_def run_event2_def
      run2_def run1_def run_event1_def text_lengths opt_str_def)
qed

definition run_event5 :: kevent where
  "run_event5 = run_event 101 ''activation:main'' 4 ''reorientation_assessment_accepted''
     [(''assessment'', PAssessment (ex_assessment (run_event_id 100))),
      (''state'', PStr ''AWAITING_OWNER_CONFIRMATION'')] PilotActor ''activation:main'' 23"

definition run5 :: kernel where
  "run5 = run4\<lparr>k_ledger := pushed (k_ledger run4) run_event5,
     k_activation := (k_activation run4)\<lparr>a_version := 4, assessment := Some (ex_assessment (run_event_id 100)),
       a_state := AwaitingOwnerConfirmation, attempt_in_progress := False, attempt_started_stream_version := None\<rparr>\<rparr>"

lemma ex_assessment_valid: "valid_reorientation_assessment (ex_assessment (run_event_id 100))"
  by (simp add: valid_reorientation_assessment_def ex_assessment_def non_blank_def py_len_def)

lemma run5: "submit_assessment toy (k_activation run4) (k_ledger run4) 0 (ex_assessment (run_event_id 100)) []
    [''work:1''] True ''owner:me'' (run_key 23) = Inr (k_activation run5, k_ledger run5)"
proof -
  have "check_assessment (k_activation run4) (ex_assessment (run_event_id 100)) [] [''work:1''] True = Inr ()"
    by (simp add: check_assessment_def required_claims_def run4_def run3_def run2_def run1_def)
      (simp add: ex_assessment_def ex_receipt_def)
  then show ?thesis
    by (simp add: submit_assessment_def end_attempt_def run_activation_record run_event5_def run5_def run_event4_def
      run4_def run3_def run_event3_def run_event2_def run2_def run1_def run_event1_def text_lengths)
qed

definition run_event6 :: kevent where
  "run_event6 = run_event 102 ''activation:main'' 5 ''activation_approved''
     [(''assessment_id'', PStr ''assess:1''), (''approved_at'', PTime 0), (''state'', PStr ''ACTIVE'')]
     Human ''activation:main'' 24"

definition run6 :: kernel where
  "run6 = run5\<lparr>k_ledger := pushed (k_ledger run5) run_event6,
     k_activation := (k_activation run5)\<lparr>a_version := 5, approved_at := Some 0, a_state := Active\<rparr>\<rparr>"

lemmas run_commissioned_defs = run_event6_def run6_def run_event5_def run5_def run_event4_def
  run4_def run3_def run_event3_def run_event2_def run2_def run1_def run_event1_def

lemma run6: "approve_activation toy (k_activation run5) (k_ledger run5) 0 0 ''assess:1'' ''owner:me'' (run_key 24)
    = Inr (k_activation run6, k_ledger run6)"
  by (simp add: approve_activation_def run_activation_record run_commissioned_defs text_lengths)
    (simp add: ex_assessment_def)

section \<open>An effect\<close>

lemma run6_events:
  "k_ledger run6 = pushed (pushed (pushed ((pushed (pushed (pushed (empty_ledger ''ds:main'') run_event1) run_event2)
     run_event3)\<lparr>l_blobs := [(''blob:sha256:2'', ''{}'')]\<rparr>) run_event4) run_event5) run_event6"
  by (simp add: run6_def run5_def run4_def run3_def run2_def run1_def)

lemma run6_sel [simp]:
  "data_space_id (k_data_space run6) = ''ds:main''" "a_state (k_activation run6) = Active"
  "k_nodes run6 = [(''node:1'', ex_node)]" "k_work_items run6 = [(''work:1'', ex_work ''work:1'')]"
  "k_work_edges run6 = []" "k_versions run6 = [(''graph:1'', 1)]" "k_executions run6 = []" "k_effect_leases run6 = []"
  "k_effect_approvals run6 = []" "k_route_snapshots run6 = []" "ledger_data_space_id (k_ledger run6) = ''ds:main''"
  by (simp_all add: run6_events) (simp_all add: run6_def run5_def run4_def run3_def run2_def run1_def)

lemma run_event_sel [simp]:
  "stream_id run_event1 = ''graph:1''" "idempotency_key run_event1 = run_key 10" "event_id run_event1 = run_event_id 80"
  "stream_id run_event2 = ''activation:main''" "idempotency_key run_event2 = run_key 20" "event_id run_event2 = run_event_id 98"
  "stream_id run_event3 = ''activation:main''" "idempotency_key run_event3 = run_key 21" "event_id run_event3 = run_event_id 99"
  "stream_id run_event4 = ''activation:main''" "idempotency_key run_event4 = run_key 22" "event_id run_event4 = run_event_id 100"
  "stream_id run_event5 = ''activation:main''" "idempotency_key run_event5 = run_key 23" "event_id run_event5 = run_event_id 101"
  "stream_id run_event6 = ''activation:main''" "idempotency_key run_event6 = run_key 24" "event_id run_event6 = run_event_id 102"
  by (simp_all add: run_event1_def run_event2_def run_event3_def run_event4_def run_event5_def run_event6_def)

lemma run6_ledger [simp]:
  "length (stream_of (k_ledger run6) sid) = (if sid = ''activation:main'' then 5 else if sid = ''graph:1'' then 1 else 0)"
  "dict_get (l_idempotency (k_ledger run6)) (run_key i) = None \<longleftrightarrow> i \<notin> {10, 20, 21, 22, 23, 24}"
  "dict_get (l_event_ids (k_ledger run6)) (run_event_id n) = None \<longleftrightarrow> n \<notin> {80, 98, 99, 100, 101, 102}"
  by (simp_all add: run6_events) blast+

lemma ex_sel [simp]:
  "execution_id ex_execution = ''exec:1''" "exec_work_item_id ex_execution = ''work:1''"
  "exec_data_space_id ex_execution = ''ds:main''" "exec_node_id ex_execution = ''node:1''"
  "exec_state ex_execution = ExecActive" "lease_data_space_id ex_lease = ''ds:main''"
  "lease_execution_id ex_lease = ''exec:1''" "lease_idempotency_key ex_lease = ''once''"
  "lease_id ex_lease = ''lease:1''" "lease_work_item_id ex_lease = ''work:1''" "lease_state ex_lease = Planned"
  "lease_expires_at ex_lease = 100"
  "delegated_to_node_id (ex_work w) = ''node:1''" "blocking_s3_star_finding_ids (ex_work w) = []"
  by (simp_all add: ex_execution_def ex_lease_def ex_work_def)

definition run_event7 :: kevent where
  "run_event7 = run_event 109 ''exec:1'' 1 ''execution_created'' [(''execution'', PExecution ex_execution)] Human ''work:1'' 40"

definition run7 :: kernel where
  "run7 = run6\<lparr>k_ledger := pushed (k_ledger run6) run_event7, k_versions := [(''graph:1'', 1), (''exec:1'', 1)],
     k_executions := [(''exec:1'', ex_execution)]\<rparr>"

lemma run7: "create_execution toy run6 0 ex_execution ''owner:me'' (run_key 40) = Inr (run_event7, run7)"
  by (simp add: create_execution_def require_active_def run_record run_event7_def run7_def text_lengths)

definition run_event8 :: kevent where
  "run_event8 = run_event 120 ''lease:1'' 1 ''effect_planned'' [(''effect_lease'', PLease ex_lease)] PilotActor ''work:1'' 50"

definition run8 :: kernel where
  "run8 = run7\<lparr>k_ledger := pushed (k_ledger run7) run_event8,
     k_versions := [(''graph:1'', 1), (''exec:1'', 1), (''lease:1'', 1)], k_effect_leases := [(''lease:1'', ex_lease)]\<rparr>"

lemma run8: "plan_effect toy run7 0 0 ex_lease ''owner:me'' (run_key 50) = Inr (run_event8, run8)"
  by (simp add: plan_effect_def require_active_def run_record run_event7_def run7_def run_event8_def run8_def text_lengths)

definition ex_approval :: effect_approval where
  "ex_approval = \<lparr>approval_lease_id = ''lease:1'', approved_by = ''owner:me'', approval_approved_at = 0\<rparr>"

definition run_event9 :: kevent where
  "run_event9 = run_event 121 ''lease:1'' 2 ''effect_approved'' [(''approval'', PApproval ex_approval)] Human ''work:1'' 51"

definition run9 :: kernel where
  "run9 = run8\<lparr>k_ledger := pushed (k_ledger run8) run_event9,
     k_versions := [(''graph:1'', 1), (''exec:1'', 1), (''lease:1'', 2)],
     k_effect_approvals := [(''lease:1'', ex_approval)]\<rparr>"

lemma run9: "approve_effect toy run8 0 0 ''lease:1'' ''owner:me'' (run_key 51) = Inr (run_event9, run9)"
  by (simp add: approve_effect_def require_active_def run_record run_event7_def run7_def run_event8_def run8_def
    run_event9_def run9_def text_lengths Let_def ex_approval_def valid_effect_approval_def)

definition run_event10 :: kevent where
  "run_event10 = run_event 122 ''lease:1'' 3 ''effect_activated'' [(''state'', PStr ''active'')] PilotActor ''work:1'' 52"

definition run10 :: kernel where
  "run10 = run9\<lparr>k_ledger := pushed (k_ledger run9) run_event10,
     k_versions := [(''graph:1'', 1), (''exec:1'', 1), (''lease:1'', 3)],
     k_effect_leases := [(''lease:1'', ex_lease\<lparr>lease_state := LeaseActive\<rparr>)]\<rparr>"

lemma run10: "activate_effect toy run9 0 0 ''lease:1'' ''owner:me'' (run_key 52) = Inr (run_event10, run10)"
  by (simp add: activate_effect_def require_active_def run_record run_event7_def run7_def run_event8_def run8_def
    run_event9_def run9_def run_event10_def run10_def text_lengths set_lease_state_def)

section \<open>A route and a completed WorkItem\<close>

definition run_event11 :: kevent where
  "run_event11 = run_event 130 ''route:1'' 1 ''route_snapshot_registered'' [(''route_snapshot'', PRoute (ex_route Draft None None))]
     Human ''route:1'' 60"

definition run11 :: kernel where
  "run11 = run10\<lparr>k_ledger := pushed (k_ledger run10) run_event11,
     k_versions := [(''graph:1'', 1), (''exec:1'', 1), (''lease:1'', 3), (''route:1'', 1)],
     k_route_snapshots := [(''route:1'', ex_route Draft None None)]\<rparr>"

lemma ex_route_sel [simp]:
  "snapshot_id (ex_route s a b) = ''route:1''" "route_data_space_id (ex_route s a b) = ''ds:main''"
  "route_state (ex_route s a b) = s" "route_key (ex_route s a b) = ''r''" "valid_identifier ''route:1''"
  by (simp_all add: ex_route_def) code_simp

lemma ex_route_valid: "valid_route_snapshot (ex_route Draft None None)"
  by (simp add: valid_route_snapshot_def candidates_and_approvals_are_consistent_def)
    (simp add: ex_route_def non_blank_def py_len_def)

lemmas run_effect_defs = run_event7_def run7_def run_event8_def run8_def run_event9_def run9_def run_event10_def run10_def

lemma run10_sel [simp]:
  "data_space_id (k_data_space run10) = ''ds:main''" "a_state (k_activation run10) = Active"
  "k_work_items run10 = [(''work:1'', ex_work ''work:1'')]" "k_work_edges run10 = []"
  "k_executions run10 = [(''exec:1'', ex_execution)]"
  "k_effect_leases run10 = [(''lease:1'', ex_lease\<lparr>lease_state := LeaseActive\<rparr>)]"
  "k_effect_approvals run10 = [(''lease:1'', ex_approval)]"
  "k_versions run10 = [(''graph:1'', 1), (''exec:1'', 1), (''lease:1'', 3)]"
  "k_route_snapshots run10 = []" "ledger_data_space_id (k_ledger run10) = ''ds:main''"
  by (simp_all add: run_effect_defs)

lemma run10_ledger1 [simp]:
  "length (stream_of (k_ledger run10) sid) = (if sid = ''lease:1'' then 3 else if sid = ''exec:1'' then 1
     else length (stream_of (k_ledger run6) sid))"
  by (cases "sid = ''lease:1''"; cases "sid = ''exec:1''") (simp_all add: run_effect_defs)

lemma run10_ledger2 [simp]:
  "dict_get (l_idempotency (k_ledger run10)) (run_key i) = None \<longleftrightarrow> i \<notin> {10, 20, 21, 22, 23, 24, 40, 50, 51, 52}"
  by (simp add: run_effect_defs) blast

lemma run10_ledger3 [simp]:
  "dict_get (l_event_ids (k_ledger run10)) (run_event_id n) = None
    \<longleftrightarrow> n \<notin> {80, 98, 99, 100, 101, 102, 109, 120, 121, 122}"
  by (simp add: run_effect_defs) blast

lemma run11: "register_route_snapshot toy run10 0 (ex_route Draft None None) ''owner:me'' (run_key 60) = Inr (run_event11, run11)"
  by (simp add: register_route_snapshot_def run_record run_event11_def run11_def text_lengths)

definition "ex_s3_approved = ex_route S3StarApproved (Some (run_event_id 131)) None"
definition "ex_owner_approved = ex_route OwnerApproved (Some (run_event_id 131)) (Some (run_event_id 132))"

definition run_event12 :: kevent where
  "run_event12 = run_event 131 ''route:1'' 2 ''route_snapshot_approved''
     [(''approval'', PStr ''s3_star''), (''state'', PStr ''s3_star_approved'')] Human ''route:1'' 61"

definition run12 :: kernel where
  "run12 = run11\<lparr>k_ledger := pushed (k_ledger run11) run_event12,
     k_versions := [(''graph:1'', 1), (''exec:1'', 1), (''lease:1'', 3), (''route:1'', 2)],
     k_route_snapshots := [(''route:1'', ex_s3_approved)]\<rparr>"

lemma run12: "approve_route_snapshot toy run11 0 ''route:1'' ''s3_star'' ''owner:me'' (run_key 61) = Inr (run_event12, run12)"
  by (simp add: approve_route_snapshot_def route_approval_def run_record run_event11_def run11_def run_event12_def run12_def
    text_lengths ex_s3_approved_def) (simp add: ex_route_def)

definition run_event13 :: kevent where
  "run_event13 = run_event 132 ''route:1'' 3 ''route_snapshot_approved''
     [(''approval'', PStr ''owner''), (''state'', PStr ''owner_approved'')] Human ''route:1'' 62"

definition run13 :: kernel where
  "run13 = run12\<lparr>k_ledger := pushed (k_ledger run12) run_event13,
     k_versions := [(''graph:1'', 1), (''exec:1'', 1), (''lease:1'', 3), (''route:1'', 3)],
     k_route_snapshots := [(''route:1'', ex_owner_approved)]\<rparr>"

lemma run13: "approve_route_snapshot toy run12 0 ''route:1'' ''owner'' ''owner:me'' (run_key 62) = Inr (run_event13, run13)"
  by (simp add: approve_route_snapshot_def route_approval_def run_record run_event11_def run11_def run_event12_def run12_def
    run_event13_def run13_def text_lengths ex_s3_approved_def ex_owner_approved_def) (simp add: ex_route_def)

definition run_event14 :: kevent where
  "run_event14 = run_event 133 ''route:1'' 4 ''route_snapshot_published'' [(''state'', PStr ''published'')] Human ''route:1'' 63"

definition run14 :: kernel where
  "run14 = run13\<lparr>k_ledger := pushed (k_ledger run13) run_event14,
     k_versions := [(''graph:1'', 1), (''exec:1'', 1), (''lease:1'', 3), (''route:1'', 4)],
     k_route_snapshots := [(''route:1'', ex_owner_approved\<lparr>route_state := Published\<rparr>)]\<rparr>"

lemma run14: "publish_route_snapshot toy run13 0 ''route:1'' ''owner:me'' (run_key 63) = Inr (run_event14, run14)"
  by (simp add: publish_route_snapshot_def run_record run_event11_def run11_def run_event12_def run12_def
    run_event13_def run13_def run_event14_def run14_def text_lengths ex_owner_approved_def)

lemmas run_route_defs = run_event11_def run11_def run_event12_def run12_def run_event13_def run13_def run_event14_def run14_def

definition run_event15 :: kevent where
  "run_event15 = run_event 139 ''work:1'' 1 ''work_item_completed'' [(''completion_evidence'', PEvidence ex_evidence)]
     Human ''work:1'' 70"

definition run15 :: kernel where
  "run15 = run14\<lparr>k_ledger := pushed (k_ledger run14) run_event15,
     k_versions := [(''graph:1'', 1), (''exec:1'', 1), (''lease:1'', 3), (''route:1'', 4), (''work:1'', 1)],
     k_work_items := [(''work:1'', (ex_work ''work:1'')\<lparr>work_state := Completed, completion_evidence := Some ex_evidence\<rparr>)]\<rparr>"

lemma run15: "complete_work_item toy run14 0 ''work:1'' ex_evidence ''owner:me'' (run_key 70) = Inr (run_event15, run15)"
  by (simp add: complete_work_item_def completion_gate_def ex_evidence_def run_record run_route_defs run_event15_def run15_def
    text_lengths)

section \<open>The states are reachable\<close>

abbreviation run_reachable :: "kernel \<Rightarrow> bool" where
  "run_reachable \<equiv> reachable toy ex_space ex_audit ex_control"

lemma reachable_next: "reachable h ds ap cp k \<Longrightarrow> kernel_step h k k' \<Longrightarrow> reachable h ds ap cp k'"
  unfolding reachable_def by (blast intro: rtranclp.rtrancl_into_rtrancl)

lemma activation_next:
  assumes "reachable h ds ap cp k"
    and "activation_step h k (k\<lparr>k_activation := a, k_ledger := L\<rparr>)"
    and "k' = k\<lparr>k_activation := a, k_ledger := L\<rparr>"
  shows "reachable h ds ap cp k'"
  using assms reachable_next in_activation by simp

lemma reachable_run0: "run_reachable run0"
  unfolding reachable_def run0_def
  by (rule exI, rule conjI, rule_tac [2] rtranclp.rtrancl_refl) (simp add: init_kernel_def ex_audit_def ex_control_def ex_space_def)

lemma reachable_run1: "run_reachable run1"
  by (rule reachable_next [OF reachable_run0 in_work [OF step_import_current_work_graph [OF ex_graph_valid run1]]])

lemma reachable_run2: "run_reachable run2"
  by (rule activation_next [OF reachable_run1 step_register_history_import [OF run2]]) (simp add: run2_def)

lemma reachable_run3: "run_reachable run3"
  by (rule activation_next [OF reachable_run2 step_start_reorientation [OF run3]]) (simp add: run3_def)

lemma ex_query_valid: "valid_read_history_action ex_query"
  by (simp add: valid_read_history_action_def ex_query_def history_operations_def)

lemma reachable_run4: "run_reachable run4"
proof -
  obtain r where "resolve toy (k_activation run3) (k_ledger run3) ex_reader 100 0 ex_query ''owner:me'' (run_key 22)
    = Inr (r, k_activation run4, k_ledger run4)" using run4 by blast
  from step_resolve [OF ex_query_valid this] show ?thesis
    by (rule activation_next [OF reachable_run3]) (simp add: run4_def)
qed

lemma reachable_run5: "run_reachable run5"
  by (rule activation_next [OF reachable_run4 step_submit_assessment [OF ex_assessment_valid run5]]) (simp add: run5_def)

lemma reachable_run6: "run_reachable run6"
  by (rule activation_next [OF reachable_run5 step_approve_activation [OF run6]]) (simp add: run6_def)

lemma reachable_run7: "run_reachable run7"
  by (rule reachable_next [OF reachable_run6 in_execution [OF step_create_execution [OF ex_execution_valid run7]]])

lemma reachable_run8: "run_reachable run8"
  by (rule reachable_next [OF reachable_run7 in_effect [OF step_plan_effect [OF ex_lease_valid run8]]])

lemma reachable_run9: "run_reachable run9"
  by (rule reachable_next [OF reachable_run8 in_effect [OF step_approve_effect [OF run9]]])

lemma reachable_run10: "run_reachable run10"
  by (rule reachable_next [OF reachable_run9 in_effect [OF step_activate_effect [OF run10]]])

lemma reachable_run11: "run_reachable run11"
  by (rule reachable_next [OF reachable_run10 in_route [OF step_register_route_snapshot [OF ex_route_valid run11]]])

lemma reachable_run12: "run_reachable run12"
  by (rule reachable_next [OF reachable_run11 in_route [OF step_approve_route_snapshot [OF run12]]])

lemma reachable_run13: "run_reachable run13"
  by (rule reachable_next [OF reachable_run12 in_route [OF step_approve_route_snapshot [OF run13]]])

lemma reachable_run14: "run_reachable run14"
  by (rule reachable_next [OF reachable_run13 in_route [OF step_publish_route_snapshot [OF run14]]])

lemma ex_evidence_valid: "valid_completion_evidence ex_evidence"
  by (simp add: valid_completion_evidence_def ex_evidence_def)

lemma reachable_run15: "run_reachable run15"
  by (rule reachable_next [OF reachable_run14 in_work [OF step_complete_work_item [OF ex_evidence_valid run15]]])

end
