(* ===== verification/Kernel_Properties.thy ===== *)
theory Kernel_Properties
  imports Kernel_Lifecycles Kernel_Dependencies Kernel_Audit Example_Run
begin

text \<open>
  The properties of the Kernel in its reachable states and of its single steps, each with
  its application to a state of the run in \<open>Example_Run\<close>.
\<close>

definition kernel_inv :: "kernel \<Rightarrow> bool" where
  "kernel_inv k \<longleftrightarrow> machine_inv k \<and> authority_inv k \<and> refs_inv k \<and> routes_inv k \<and> audit_inv k"

lemma kernel_inv_fresh: "kernel_inv (fresh_kernel ds (empty_ledger (data_space_id ds)) ap cp)"
  using audit_inv_fresh [of ds "empty_ledger (data_space_id ds)" ap cp]
  by (simp add: kernel_inv_def machine_inv_fresh)
    (simp add: fresh_kernel_def authority_inv_def gated_def lease_inv_def approved_leases_def keys_once_def refs_inv_def
      work_refs_def edge_refs_def execution_refs_def lease_refs_def finding_refs_def budget_refs_def routes_inv_def
      valid_routes_def one_published_def)

lemma kernel_inv_step: "kernel_step h k k' \<Longrightarrow> kernel_inv k \<Longrightarrow> kernel_inv k'"
  by (simp add: kernel_inv_def machine_inv_step kernel_step_authority kernel_step_refs kernel_step_routes kernel_step_audit)

lemma reachable_kernel_inv:
  assumes "reachable h ds ap cp k"
  shows "kernel_inv k"
proof -
  from assms have "(kernel_step h)\<^sup>*\<^sup>* (fresh_kernel ds (empty_ledger (data_space_id ds)) ap cp) k"
    by (auto simp: reachable_def init_kernel_def split: if_splits)
  then show ?thesis by (induction rule: rtranclp_induct) (auto intro: kernel_inv_fresh kernel_inv_step)
qed

lemmas reachable_parts = reachable_kernel_inv [unfolded kernel_inv_def]

section \<open>Authority\<close>

text \<open>
  C2: activation is fail-closed. Until the owner has confirmed the assessment, no
  Execution exists and no effect is planned or approved.
\<close>

theorem nothing_runs_before_activation:
  assumes "reachable h ds ap cp k" and "a_state (k_activation k) \<noteq> Active"
  shows "k_executions k = [] \<and> k_effect_leases k = [] \<and> k_effect_approvals k = []"
  using reachable_parts [OF assms(1)] assms(2) by (simp add: authority_inv_def gated_def)

theorem nothing_runs_before_activation_witness:
  "k_executions run5 = [] \<and> k_effect_leases run5 = [] \<and> k_effect_approvals run5 = []"
  by (rule nothing_runs_before_activation [OF reachable_run5]) (simp add: run5_def)



text \<open>
  An effect's idempotency key belongs to one lease, so no two leases can repeat the
  same external effect.
\<close>

theorem effect_keys_unique:
  assumes "reachable h ds ap cp k"
    and "dict_get (k_effect_leases k) i = Some l" and "dict_get (k_effect_leases k) j = Some m"
    and "lease_idempotency_key l = lease_idempotency_key m"
  shows "i = j \<and> l = m"
  using reachable_parts [OF assms(1)] assms(2-4) unfolding authority_inv_def lease_inv_def keys_once_def
  by (metis option.inject)

theorem effect_keys_unique_witness:
  "''lease:1'' = ''lease:1'' \<and> ex_lease\<lparr>lease_state := LeaseActive\<rparr> = ex_lease\<lparr>lease_state := LeaseActive\<rparr>"
  by (rule effect_keys_unique [OF reachable_run10]) simp_all

text \<open>A Kernel whose activation was confirmed stays active in every later state.\<close>

theorem active_is_final:
  assumes "(kernel_step h)\<^sup>*\<^sup>* k k'" and "a_state (k_activation k) = Active"
  shows "a_state (k_activation k') = Active"
  using assms by (induction rule: rtranclp_induct) (auto intro: kernel_step_active)

theorem active_is_final_witness: "a_state (k_activation run7) = Active"
proof -
  have "(kernel_step toy)\<^sup>*\<^sup>* run6 run7"
    by (rule r_into_rtranclp) (rule in_execution [OF step_create_execution [OF ex_execution_valid run7]])
  then show ?thesis by (rule active_is_final) simp
qed

section \<open>References\<close>

text \<open>
  C15: no reference dangles. Every WorkItem's Nodes and parent, every edge's WorkItems,
  every Execution's Node and WorkItem, every lease's Execution (on the lease's WorkItem),
  every finding's and reservation's WorkItem exist; the lookups the code makes without a
  check cannot raise \<^verbatim>\<open>KeyError\<close>.
\<close>

theorem references_resolve:
  assumes "reachable h ds ap cp k"
  shows "(\<forall>wid w. dict_get (k_work_items k) wid = Some w \<longrightarrow> missing_node (k_nodes k) w = None \<and>
        option_all (\<lambda>p. dict_mem p (k_work_items k)) (parent_work_item_id w)) \<and>
    (\<forall>e \<in> set (k_work_edges k). dict_mem (source_work_item_id e) (k_work_items k) \<and>
        dict_mem (target_work_item_id e) (k_work_items k)) \<and>
    (\<forall>eid x. dict_get (k_executions k) eid = Some x \<longrightarrow> dict_mem (exec_node_id x) (k_nodes k) \<and>
        dict_mem (exec_work_item_id x) (k_work_items k)) \<and>
    (\<forall>lid l. dict_get (k_effect_leases k) lid = Some l \<longrightarrow>
        (\<exists>x. dict_get (k_executions k) (lease_execution_id l) = Some x \<and> exec_work_item_id x = lease_work_item_id l)) \<and>
    (\<forall>fid f. dict_get (k_findings k) fid = Some f \<longrightarrow> dict_mem (finding_work_item_id f) (k_work_items k)) \<and>
    (\<forall>rid r. dict_get (k_budget_reservations k) rid = Some r \<longrightarrow> dict_mem (budget_work_item_id r) (k_work_items k))"
proof -
  have "refs_inv k" using reachable_parts [OF assms] by blast
  note refs = this [unfolded refs_inv_def work_refs_def edge_refs_def execution_refs_def lease_refs_def
      finding_refs_def budget_refs_def]
  have "\<exists>x. dict_get (k_executions k) (lease_execution_id l) = Some x \<and> exec_work_item_id x = lease_work_item_id l"
    if "dict_get (k_effect_leases k) lid = Some l" for lid l
    using refs that by (metis (no_types, lifting) map_option_eq_Some)
  with refs show ?thesis by blast
qed

theorem references_resolve_witness:
  "\<exists>x. dict_get (k_executions run15) ''exec:1'' = Some x \<and> dict_mem (exec_work_item_id x) (k_work_items run15)"
proof -
  have "dict_get (k_executions run15) ''exec:1'' = Some ex_execution" by (simp add: run15_def run_route_defs)
  with references_resolve [OF reachable_run15] show ?thesis by blast
qed

lemma incomplete_dependencies_value:
  "\<forall>e \<in> set es. dict_mem (target_work_item_id e) ws \<Longrightarrow> incomplete_dependencies ws wid es =
    Inr (filter (\<lambda>d. map_option work_state (dict_get ws d) \<noteq> Some Completed) (dependency_targets es wid))"
  by (induction es) (auto simp: dependency_targets_def dict_mem_get)

text \<open>
  C39: \<^verbatim>\<open>complete_work_item\<close> looks at each direct dependency and none is missing: the list it
  computes is the dependencies that are not completed.
\<close>

theorem incomplete_dependencies_exact:
  assumes "reachable h ds ap cp k"
  shows "incomplete_dependencies (k_work_items k) wid (k_work_edges k) =
    Inr (filter (\<lambda>d. map_option work_state (dict_get (k_work_items k) d) \<noteq> Some Completed)
      (dependency_targets (k_work_edges k) wid))"
  using reachable_parts [OF assms] by (intro incomplete_dependencies_value) (simp add: refs_inv_def edge_refs_def)

theorem incomplete_dependencies_exact_witness:
  "incomplete_dependencies (k_work_items run10) ''work:1'' (k_work_edges run10) = Inr []"
  using incomplete_dependencies_exact [OF reachable_run10, of "''work:1''"] by (simp add: dependency_targets_def)

section \<open>Life cycles\<close>

text \<open>
  C13: one step of the Kernel keeps every Execution, its WorkItem, Node, Pilot and host, and
  moves its state only along the transition table, or from \<^verbatim>\<open>requested\<close> to the outcome a
  Pilot's receipt reports. So a succeeded, failed or cancelled Execution never changes state.
\<close>

theorem execution_life_cycle:
  assumes "kernel_step h k k'" and "dict_get (k_executions k) eid = Some x"
  shows "\<exists>x'. dict_get (k_executions k') eid = Some x' \<and>
    (exec_state x' = exec_state x \<or> exec_state x' \<in> allowed_transitions (exec_state x) \<or>
     exec_state x = Requested \<and> exec_state x' \<in> {ExecSucceeded, ExecFailed, ExecPaused}) \<and>
    exec_work_item_id x' = exec_work_item_id x \<and> exec_node_id x' = exec_node_id x \<and>
    exec_pilot_id x' = exec_pilot_id x \<and> pilot_host_id x' = pilot_host_id x"
  using kernel_step_executions [OF assms(1)] assms(2) unfolding execution_kept_def execution_moves_def by blast

theorem execution_life_cycle_witness:
  "\<exists>x'. dict_get (k_executions run15) ''exec:1'' = Some x' \<and> exec_work_item_id x' = ''work:1''"
proof -
  have "dict_get (k_executions run14) ''exec:1'' = Some ex_execution" by (simp add: run_route_defs)
  from execution_life_cycle [OF in_work [OF step_complete_work_item [OF ex_evidence_valid run15]] this]
  show ?thesis by auto
qed

text \<open>
  C14: one step of the Kernel keeps every EffectLease, and unless the lease is planned
  again changes nothing of it but its state: planned to active or revoked, active to
  unknown or revoked, unknown to succeeded or failed. An unknown effect is never retried:
  it can only be reconciled.
\<close>

theorem lease_life_cycle:
  assumes "kernel_step h k k'" and "dict_get (k_effect_leases k) lid = Some l"
  shows "\<exists>l'. dict_get (k_effect_leases k') lid = Some l' \<and> (lease_state l' = Planned \<or>
    (\<exists>s. l' = l\<lparr>lease_state := s\<rparr> \<and> (s = lease_state l \<or> s \<in> lease_moves (lease_state l))))"
  using kernel_step_leases [OF assms(1)] assms(2) unfolding lease_kept_def lease_becomes_def by blast

theorem lease_life_cycle_witness:
  "\<exists>l'. dict_get (k_effect_leases run10) ''lease:1'' = Some l' \<and> (lease_state l' = Planned \<or>
    (\<exists>s. l' = ex_lease\<lparr>lease_state := s\<rparr> \<and> (s = Planned \<or> s \<in> {LeaseActive, LeaseRevoked})))"
proof -
  have "dict_get (k_effect_leases run9) ''lease:1'' = Some ex_lease" by (simp add: run9_def run8_def)
  from lease_life_cycle [OF in_effect [OF step_activate_effect [OF run10]] this] show ?thesis by simp
qed

text \<open>
  C4: a WorkItem becomes completed only through the completion gate: the evidence it
  carries satisfies every clause of the gate, no S3* finding blocks it, and every WorkItem
  it depends on is completed already.
\<close>

theorem completion_needs_the_gate:
  assumes "kernel_step h k k'"
    and "dict_get (k_work_items k) wid = Some w" and "work_state w \<noteq> Completed"
    and "dict_get (k_work_items k') wid = Some w'" and "work_state w' = Completed"
  shows "\<exists>ev. completion_evidence w' = Some ev \<and> completion_gate ev \<and> blocking_s3_star_finding_ids w = [] \<and>
    (\<forall>d \<in> set (dependency_targets (k_work_edges k) wid).
       map_option work_state (dict_get (k_work_items k) d) = Some Completed)"
proof -
  obtain ev where "completion_evidence w' = Some ev" "may_complete k wid w ev"
    using kernel_step_completion [OF assms(1)] assms(2-5) unfolding completion_kept_def by blast
  then show ?thesis by (auto simp: may_complete_def dependency_targets_def)
qed

theorem completion_needs_the_gate_witness:
  "\<exists>ev. completion_evidence ((ex_work ''work:1'')\<lparr>work_state := Completed, completion_evidence := Some ex_evidence\<rparr>) = Some ev
    \<and> completion_gate ev"
proof -
  have before: "dict_get (k_work_items run14) ''work:1'' = Some (ex_work ''work:1'')" by (simp add: run_route_defs)
  have after: "dict_get (k_work_items run15) ''work:1'' =
      Some ((ex_work ''work:1'')\<lparr>work_state := Completed, completion_evidence := Some ex_evidence\<rparr>)"
    by (simp add: run15_def)
  have "work_state (ex_work ''work:1'') \<noteq> Completed" by (simp add: ex_work_def)
  from completion_needs_the_gate [OF in_work [OF step_complete_work_item [OF ex_evidence_valid run15]] before this after]
  show ?thesis by auto
qed

section \<open>Dependencies\<close>

text \<open>
  C31: the search of \<^verbatim>\<open>add_dependency\<close> always ends, and it finds the goal exactly when the
  goal is reachable from the start over the \<^verbatim>\<open>depends_on\<close> edges.
\<close>

theorem dependency_search_is_reachability:
  "dependency_search es goal [start] [] \<longleftrightarrow> (start, goal) \<in> {(a, b). b \<in> set (dependency_targets es a)}\<^sup>*"
  using dependency_search_start [of es goal start] by (simp add: depends_on_def)

text \<open>
  C12: dependencies stay acyclic. From a Kernel with acyclic dependencies every step other
  than the import of a work graph leads to one with acyclic dependencies.
\<close>

theorem dependencies_stay_acyclic:
  assumes "kernel_step h k k'"
    and "work_graph_snapshot_id (k_activation k') = work_graph_snapshot_id (k_activation k)"
    and "acyclic {(a, b). b \<in> set (dependency_targets (k_work_edges k) a)}"
  shows "acyclic {(a, b). b \<in> set (dependency_targets (k_work_edges k') a)}"
  using kernel_step_acyclic [OF assms(1)] assms(2,3) by (simp add: acyclic_work_def same_graph_def depends_on_def)

theorem dependencies_stay_acyclic_witness:
  "acyclic {(a, b). b \<in> set (dependency_targets (k_work_edges run15) a)}"
proof -
  have "k_work_edges run14 = []" by (simp add: run_route_defs)
  then have empty: "{(a, b). b \<in> set (dependency_targets (k_work_edges run14) a)} = {}" by (simp add: dependency_targets_def)
  show ?thesis
    by (rule dependencies_stay_acyclic [OF in_work [OF step_complete_work_item [OF ex_evidence_valid run15]]])
      (simp add: run15_def, simp only: empty, simp add: acyclic_def)
qed

section \<open>Routes\<close>

text \<open>
  C16: a published RouteSnapshot has gone through both approvals, and it is the only
  published one of its route_key.
\<close>

theorem published_route_unique:
  assumes "reachable h ds ap cp k" and "dict_get (k_route_snapshots k) sid = Some s" and "route_state s = Published"
  shows "s3_star_approval_event_id s \<noteq> None \<and> owner_approval_event_id s \<noteq> None \<and>
    (\<forall>sid' s'. dict_get (k_route_snapshots k) sid' = Some s' \<and> route_state s' = Published \<and>
       route_key s' = route_key s \<longrightarrow> sid' = sid)"
proof -
  have inv: "valid_routes (k_route_snapshots k)" "one_published (k_route_snapshots k)"
    using reachable_parts [OF assms(1)] by (simp_all add: routes_inv_def)
  then have "valid_route_snapshot s" using assms(2) by (simp add: valid_routes_def)
  then have "s3_star_approval_event_id s \<noteq> None \<and> owner_approval_event_id s \<noteq> None"
    using assms(3) by (simp add: valid_route_snapshot_def candidates_and_approvals_are_consistent_def)
  moreover have "sid' = sid" if "dict_get (k_route_snapshots k) sid' = Some s'" "route_state s' = Published"
    "route_key s' = route_key s" for sid' s'
    using inv(2) that assms(2,3) unfolding one_published_def by metis
  ultimately show ?thesis by blast
qed

lemma run14_route: "dict_get (k_route_snapshots run14) ''route:1'' = Some (ex_owner_approved\<lparr>route_state := Published\<rparr>)"
  by (simp add: run14_def)

theorem published_route_unique_witness:
  "s3_star_approval_event_id (ex_owner_approved\<lparr>route_state := Published\<rparr>) \<noteq> None \<and>
    owner_approval_event_id (ex_owner_approved\<lparr>route_state := Published\<rparr>) \<noteq> None"
  using published_route_unique [OF reachable_run14 run14_route] by simp

section \<open>Commissioning\<close>

text \<open>
  The commissioning state always carries what it needs: a verified import, its
  Conversation and the work graph from the second state on; an accepted assessment exactly
  while the owner's answer is awaited or given; the time of approval exactly when active.
\<close>

theorem commissioning_is_complete:
  assumes "reachable h ds ap cp k"
  shows "let a = k_activation k in
    (a_state a = Uncommissioned \<or> import_receipt a \<noteq> None \<and> reorientation_conversation_id a \<noteq> None \<and>
       work_graph_snapshot_id a \<noteq> None) \<and>
    (assessment a \<noteq> None \<longleftrightarrow> a_state a \<in> {AwaitingOwnerConfirmation, Active}) \<and>
    (approved_at a \<noteq> None \<longleftrightarrow> a_state a = Active)"
  using reachable_parts [OF assms] by (auto simp: machine_inv_def activation_inv_def Let_def)

theorem commissioning_is_complete_witness:
  "assessment (k_activation run6) \<noteq> None \<and> approved_at (k_activation run6) \<noteq> None"
  using commissioning_is_complete [OF reachable_run6] by (simp add: Let_def)



text \<open>
  C32: every claim of an accepted assessment cites evidence that is in the ledger: the
  event of a history query, and nothing else, stands behind each citation.
\<close>

theorem assessment_citations_are_audited:
  assumes "reachable h ds ap cp k" and "assessment (k_activation k) = Some s" and "c \<in> set (citations s)"
  shows "\<exists>e \<in> set (ledger_events (k_ledger k)).
    event_id e = evidence_ref c \<and> event_type e = ''history_query_resolved''"
  using reachable_parts [OF assms(1)] assms(2,3) by (auto simp: audit_inv_def audited_def)

theorem assessment_citations_are_audited_witness:
  "\<exists>e \<in> set (ledger_events (k_ledger run6)).
    event_id e = run_event_id 100 \<and> event_type e = ''history_query_resolved''"
proof -
  have "assessment (k_activation run6) = Some (ex_assessment (run_event_id 100))" by (simp add: run6_def run5_def)
  moreover have "\<lparr>claim_ref = ''understanding'', evidence_ref = run_event_id 100\<rparr> \<in> set (citations (ex_assessment (run_event_id 100)))"
    by (simp add: ex_assessment_def)
  ultimately show ?thesis
    using assessment_citations_are_audited [OF reachable_run6, of "ex_assessment (run_event_id 100)"
        "\<lparr>claim_ref = ''understanding'', evidence_ref = run_event_id 100\<rparr>"] by (simp only: evidence_citation.simps)
qed

text \<open>
  The ledger of a running Kernel is well formed: within each stream the versions are
  1, 2, 3 and so on, and the version the Kernel knows for a stream it writes is the last.
\<close>

theorem stream_versions_contiguous:
  assumes "reachable h ds ap cp k"
  shows "map stream_version (stream_events (ledger_events (k_ledger k)) sid)
    = [1..<length (stream_events (ledger_events (k_ledger k)) sid) + 1]"
  by (rule stream_versions) (use reachable_parts [OF assms] versions_invD(1) in \<open>simp add: machine_inv_def\<close>)

theorem stream_versions_contiguous_witness:
  "map stream_version (stream_events (ledger_events (k_ledger run10)) ''lease:1'')
    = [1..<length (stream_events (ledger_events (k_ledger run10)) ''lease:1'') + 1]"
  by (rule stream_versions_contiguous [OF reachable_run10])

section \<open>Weak spots\<close>

text \<open>
  Planning an effect again replaces the lease but keeps the approval that was given to
  the earlier plan, so the changed effect can be activated without the owner seeing it.
\<close>

theorem replan_keeps_approval:
  assumes "plan_effect h k now t l aid key = Inr (e, k')" and "dict_mem (lease_id l) (k_effect_approvals k)"
    and "now' < lease_expires_at l"
  shows "dict_get (k_effect_leases k') (lease_id l) = Some l \<and>
    activate_effect h k' now' t' (lease_id l) aid' key' =
      then_update (kernel_record h k' t' (lease_id l) ''effect_activated''
        [(''state'', PStr (effect_lease_state_value LeaseActive))] PilotActor (Some aid') key'
        (Some (lease_work_item_id l)) None) (\<lambda>_. set_lease_state (lease_id l) l LeaseActive)"
proof -
  from ensuresD [OF plan_effect_outcome assms(1)]
  have k': "a_state (k_activation k') = Active" "lease_state l = Planned"
    "k_effect_leases k' = dict_set (k_effect_leases k) (lease_id l) l" "k_effect_approvals k' = k_effect_approvals k"
    by (auto simp: recorded_def)
  with assms(2,3) show ?thesis by (simp add: activate_effect_def require_active_def)
qed

lemma replan_run:
  "\<exists>e k'. plan_effect toy run10 0 0 (ex_lease\<lparr>effect_target := ''prod''\<rparr>) ''owner:me'' (run_key 80) = Inr (e, k')"
  by (simp add: plan_effect_def require_active_def run_record text_lengths)

theorem replan_keeps_approval_witness:
  "\<exists>k'. dict_get (k_effect_leases k') ''lease:1'' = Some (ex_lease\<lparr>effect_target := ''prod''\<rparr>) \<and>
    activate_effect toy k' 0 0 ''lease:1'' ''owner:me'' (run_key 81) =
      then_update (kernel_record toy k' 0 ''lease:1'' ''effect_activated''
        [(''state'', PStr (effect_lease_state_value LeaseActive))] PilotActor (Some ''owner:me'') (run_key 81)
        (Some ''work:1'') None) (\<lambda>_. set_lease_state ''lease:1'' (ex_lease\<lparr>effect_target := ''prod''\<rparr>) LeaseActive)"
proof -
  obtain e k' where "plan_effect toy run10 0 0 (ex_lease\<lparr>effect_target := ''prod''\<rparr>) ''owner:me'' (run_key 80) = Inr (e, k')"
    using replan_run by blast
  from replan_keeps_approval [OF this, of 0 0 "''owner:me''" "run_key 81"] show ?thesis by auto
qed

text \<open>
  C32: \<^verbatim>\<open>create_work_item\<close> does not ask whether the identifier is taken. On a fitting WorkItem
  with the identifier of an existing one it either fails to write its event or replaces the
  old one, whatever its state, its blockers and its evidence were.
\<close>

theorem create_replaces_existing:
  assumes "create_work_item h k t w aid key = Inr (e, k')" and "dict_get (k_work_items k) (work_item_id w) = Some old"
  shows "dict_get (k_work_items k') (work_item_id w) = Some w \<and> work_state w \<in> {Proposed, Ready} \<and>
    completion_evidence w = None \<and> blocking_s3_star_finding_ids w = []"
  using ensuresD [OF create_work_item_outcome assms(1)] by (auto simp: recorded_def new_work_item_fits_def)

lemma recreate_run: "\<exists>e k'. create_work_item toy run15 0 (ex_work ''work:1'') ''owner:me'' (run_key 90) = Inr (e, k')"
proof -
  have "new_work_item_fits run15 (ex_work ''work:1'')"
    by (simp add: new_work_item_fits_def missing_node_None run15_def run_route_defs)
      (simp add: ex_work_def run_effect_defs)
  then have "check_new_work_item run15 (ex_work ''work:1'') = Inr ()" by (simp add: check_new_work_item_fits)
  moreover have "\<exists>e k'. kernel_record toy run15 0 ''work:1'' ''work_item_created'' p Human (Some ''owner:me'') (run_key 90)
      (Some ''work:1'') None = Inr (e, k')" for p
    by (simp add: run_record run_event15_def run15_def run_route_defs text_lengths)
  ultimately show ?thesis by (simp add: create_work_item_def)
qed

theorem create_replaces_existing_witness:
  "map_option work_state (dict_get (k_work_items run15) ''work:1'') = Some Completed \<and>
    (\<exists>e k'. create_work_item toy run15 0 (ex_work ''work:1'') ''owner:me'' (run_key 90) = Inr (e, k') \<and>
      map_option work_state (dict_get (k_work_items k') ''work:1'') = Some Ready)"
proof -
  obtain e k' where run: "create_work_item toy run15 0 (ex_work ''work:1'') ''owner:me'' (run_key 90) = Inr (e, k')"
    using recreate_run by blast
  from create_replaces_existing [OF this, of "(ex_work ''work:1'')\<lparr>work_state := Completed, completion_evidence := Some ex_evidence\<rparr>"]
  have "dict_get (k_work_items k') ''work:1'' = Some (ex_work ''work:1'')" by (simp add: run15_def)
  moreover have "work_state (ex_work ''work:1'') = Ready" by (simp add: ex_work_def)
  ultimately have "map_option work_state (dict_get (k_work_items k') ''work:1'') = Some Ready" by simp
  with run have "\<exists>e k'. create_work_item toy run15 0 (ex_work ''work:1'') ''owner:me'' (run_key 90) = Inr (e, k') \<and>
      map_option work_state (dict_get (k_work_items k') ''work:1'') = Some Ready" by blast
  then show ?thesis by (simp add: run15_def)
qed

end
