(* ===== verification/Service_Properties.thy ===== *)
theory Service_Properties
  imports Kernel_Invariants Example_Run
begin

text \<open>
  The properties of the services around the Kernel: the event ledger, event identities,
  blobs, the commissioning state machine, history queries and owner login, each with its
  application to concrete data.
\<close>

section \<open>The event ledger\<close>

text \<open>One writer after another, a refused append leaving the ledger as it was.\<close>

definition append_all :: "'p ledger \<Rightarrow> ('p event_envelope \<times> nat) list \<Rightarrow> 'p ledger" where
  "append_all L ws = fold (\<lambda>(e, n) L. case ledger_append L e n of Inl _ \<Rightarrow> L | Inr (_, L') \<Rightarrow> L') ws L"

definition spec_append_all ::
  "string \<Rightarrow> 'p event_envelope list \<Rightarrow> ('p event_envelope \<times> nat) list \<Rightarrow> 'p event_envelope list" where
  "spec_append_all ds es ws = fold (\<lambda>(e, n) es.
     case (if event_data_space_id e = ds then spec_append es e n else None) of None \<Rightarrow> es | Some es' \<Rightarrow> es') ws es"

lemma append_step_refines:
  assumes "ledger_inv L"
  shows "ledger_events (case ledger_append L e n of Inl _ \<Rightarrow> L | Inr (_, L') \<Rightarrow> L')
      = (case (if event_data_space_id e = ledger_data_space_id L then spec_append (ledger_events L) e n else None) of
          None \<Rightarrow> ledger_events L | Some es \<Rightarrow> es)"
    and "ledger_inv (case ledger_append L e n of Inl _ \<Rightarrow> L | Inr (_, L') \<Rightarrow> L')"
    and "ledger_data_space_id (case ledger_append L e n of Inl _ \<Rightarrow> L | Inr (_, L') \<Rightarrow> L') = ledger_data_space_id L"
proof -
  show "ledger_events (case ledger_append L e n of Inl _ \<Rightarrow> L | Inr (_, L') \<Rightarrow> L')
      = (case (if event_data_space_id e = ledger_data_space_id L then spec_append (ledger_events L) e n else None) of
          None \<Rightarrow> ledger_events L | Some es \<Rightarrow> es)"
  proof (cases "event_data_space_id e = ledger_data_space_id L")
    case True
    with ledger_append_refines_spec [OF assms True, of n] show ?thesis
      by (simp split: sum.split prod.split)
  qed (simp add: ledger_append_def raise_violation_def)
qed (use assms ledger_append_inv [OF assms] ledger_append_data_space in \<open>auto split: sum.split\<close>)

lemma append_all_refines:
  "ledger_inv L \<Longrightarrow> ledger_events (append_all L ws) = spec_append_all (ledger_data_space_id L) (ledger_events L) ws"
proof (induction ws arbitrary: L)
  case (Cons w ws)
  obtain e n where [simp]: "w = (e, n)" by (cases w)
  note step = append_step_refines [OF Cons.prems, of e n]
  show ?case
    using Cons.IH [OF step(2)] step(1,3) by (simp add: append_all_def spec_append_all_def)
qed (simp add: append_all_def spec_append_all_def)

text \<open>
  C11: the ledger of five indexes behaves as the plain list of its events, whatever is
  appended in whatever order: an append with a known idempotency key or event id is
  accepted only for the very event that is there, and a new event only at the next
  version of its stream.
\<close>

theorem ledger_refines_event_list:
  "ledger_events (append_all (empty_ledger ds) ws) = spec_append_all ds [] ws"
  using append_all_refines [OF ledger_inv_empty, of ds] by simp

text \<open>
  A writer whose answer was lost may repeat its append, with any expected version: it
  is told the version the event has, and the ledger does not change.
\<close>

theorem repeated_append_is_duplicate:
  assumes "ledger_inv L" and "ledger_append L e n = Inr (r, L')"
  shows "ledger_inv L' \<and> (\<exists>r'. ledger_append L' e m = Inr (r', L') \<and> outcome r' = Duplicate
    \<and> result_stream_version r' = stream_version e)"
  using ledger_append_inv [OF assms] memory.append_retry [OF assms] by blast

lemma run_event1_appended:
  "ledger_append (empty_ledger ''ds:main'') run_event1 0
    = Inr (\<lparr>outcome = Appended, result_cursor = 1, result_stream_version = 1\<rparr>, pushed (empty_ledger ''ds:main'') run_event1)"
  by (simp add: ledger_append_def pushed_def run_event1_def run_event_def Let_def)

theorem repeated_append_is_duplicate_witness:
  "ledger_inv (pushed (empty_ledger ''ds:main'') run_event1)
    \<and> (\<exists>r'. ledger_append (pushed (empty_ledger ''ds:main'') run_event1) run_event1 7 = Inr (r', pushed (empty_ledger ''ds:main'') run_event1)
        \<and> outcome r' = Duplicate \<and> result_stream_version r' = stream_version run_event1)"
  by (rule repeated_append_is_duplicate [OF ledger_inv_empty run_event1_appended])

text \<open>
  A writer that knows an outdated version of a stream, with an event the ledger has
  not seen, gets a stream conflict that carries both versions.
\<close>

theorem stale_writer_conflicts:
  assumes "ledger_inv L" and "event_data_space_id e = ledger_data_space_id L"
    and "\<forall>d \<in> set (ledger_events L). idempotency_key d \<noteq> idempotency_key e \<and> event_id d \<noteq> event_id e"
    and "n \<noteq> length (stream_events (ledger_events L) (stream_id e))"
  shows "ledger_append L e n
    = Inl (StreamConflict (stream_id e) n (length (stream_events (ledger_events L) (stream_id e))))"
proof -
  have "dict_get (l_idempotency L) (idempotency_key e) = None"
    using assms(3) ledger_inv_idempotency [OF assms(1)]
    by (metis image_eqI ledger_events_def list.set_map not_None_eq)
  moreover have "dict_get (l_event_ids L) (event_id e) = None"
    using assms(3) ledger_inv_event_ids [OF assms(1)]
    by (metis image_eqI ledger_events_def list.set_map not_None_eq)
  ultimately show ?thesis
    using assms(2,4) by (simp add: ledger_append_def length_stream_of [OF assms(1)])
qed

theorem stale_writer_conflicts_witness:
  "ledger_append (pushed (empty_ledger ''ds:main'') run_event1)
      (run_event 81 ''graph:1'' 1 ''x'' [] Human ''graph:1'' 11) 0
    = Inl (StreamConflict ''graph:1'' 0 1)"
  using stale_writer_conflicts [where L = "pushed (empty_ledger ''ds:main'') run_event1" and n = 0
      and e = "run_event 81 ''graph:1'' 1 ''x'' [] Human ''graph:1'' 11"]
    repeated_append_is_duplicate_witness
  by (simp add: pushed_def run_event1_def ledger_events_def stream_events_def Let_def run_event_def)

section \<open>Event identities and blobs\<close>

text \<open>
  The identity of an event names what was written. If SHA-256 does not collide on the
  two texts hashed, two writes with the same event id have the same DataSpace, stream and
  idempotency key: the canonical JSON keeps the three apart.
\<close>

theorem event_id_names_its_write:
  assumes "ascii ds" "ascii ds'" "ascii sid" "ascii sid'" "ascii key" "ascii key'"
    and "deterministic_event_id sha ds sid key = Inr i" and "deterministic_event_id sha ds' sid' key' = Inr i"
    and "sha (event_canonical ds sid key) = sha (event_canonical ds' sid' key')
      \<Longrightarrow> event_canonical ds sid key = event_canonical ds' sid' key'"
  shows "ds = ds' \<and> sid = sid' \<and> key = key'"
  using assms(7,8) by (intro event_canonical_inj [OF assms(1-6)] assms(9)) (simp add: deterministic_event_id_Inr)

theorem event_id_names_its_write_witness:
  "''ds:main'' = (''ds:main'' :: string) \<and> ''a:1'' = (''a:1'' :: string) \<and> run_key 3 = run_key 3"
  by (rule event_id_names_its_write [where sha = "sha256 toy" and i = "run_event_id 69"])
    (simp_all add: toy_event_id ascii_def plain_def is_body_char_def is_lower_def is_digit_def char_between_def
      run_key_def numeral_3_eq_3)

text \<open>
  A blob can be read back under the reference its storing returned, also after
  another blob with a different digest has been stored.
\<close>

theorem blob_roundtrip:
  assumes "put_blob sha L data = (ref, L1)" and "put_blob sha L1 other = (ref', L2)" and "sha data = sha other \<Longrightarrow> data = other"
  shows "get_blob L1 ref = Inr data \<and> get_blob L2 ref = Inr data \<and> get_blob L2 ref' = Inr other
    \<and> ledger_events L2 = ledger_events L"
  using assms by (auto simp: put_blob_def get_blob_def Let_def ledger_events_def)

theorem blob_roundtrip_witness:
  "let L1 = snd (put_blob (sha256 toy) (empty_ledger ''ds:main'' :: kledger) ''a'');
       L2 = snd (put_blob (sha256 toy) L1 ''bc'')
   in get_blob L1 ''blob:sha256:1'' = Inr ''a'' \<and> get_blob L2 ''blob:sha256:1'' = Inr ''a''
      \<and> get_blob L2 ''blob:sha256:2'' = Inr ''bc'' \<and> ledger_events L2 = ledger_events (empty_ledger ''ds:main'' :: kledger)"
proof -
  have "sha256 toy ''a'' = ''1''" "sha256 toy ''bc'' = ''2''" by code_simp+
  then show ?thesis
    unfolding Let_def by (intro blob_roundtrip [where sha = "sha256 toy"]) (simp_all add: put_blob_def Let_def)
qed

section \<open>Owner login\<close>


lemma find_dict_set_new:
  assumes "\<forall>v \<in> set (dict_values d). \<not> p v" and "p r"
  shows "find p (dict_values (dict_set d k r)) = Some r"
  using assms
proof (induction d)
  case (Cons kv d)
  then show ?case by (cases kv) simp
qed simp

lemma exchange_Inr:
  assumes "exchange h b L st ex code dev life key tok uuid now t = Inr (g, b', L')"
  obtains r sid where "find (\<lambda>r. code_sha256 r = sha256 h code) (dict_values (codes b)) = Some r"
    "used_at r = None" "now < code_expires_at r" "code_owner_id r = b_owner_id b" "0 < life"
    "codes b' = dict_set (codes b) (bootstrap_id r) (r\<lparr>used_at := Some now\<rparr>)"
    "browser_sessions b' = dict_set (browser_sessions b) sid
       \<lparr>session_id = sid, session_owner_id = b_owner_id b, session_device_id = dev, token_sha256 = sha256 h tok,
        session_issued_at = now, session_expires_at = now + life * 1000000, session_active = True\<rparr>"
    "b_owner_id b' = b_owner_id b"
proof (cases "find (\<lambda>r. code_sha256 r = sha256 h code) (dict_values (codes b))")
  case (Some r)
  with assms have guards: "used_at r = None" "now < code_expires_at r" "code_owner_id r = b_owner_id b" "0 < life"
    unfolding exchange_def by (simp_all split: if_splits)
  with assms Some have "codes b' = dict_set (codes b) (bootstrap_id r) (r\<lparr>used_at := Some now\<rparr>)
      \<and> (\<exists>sid. browser_sessions b' = dict_set (browser_sessions b) sid
       \<lparr>session_id = sid, session_owner_id = b_owner_id b, session_device_id = dev, token_sha256 = sha256 h tok,
        session_issued_at = now, session_expires_at = now + life * 1000000, session_active = True\<rparr>)
      \<and> b_owner_id b' = b_owner_id b"
    unfolding exchange_def auth_record_def Let_def
    by (simp split: if_splits; elim conjE exE; hypsubst; intro conjI exI; simp)
  with that [OF Some guards] show ?thesis by blast
qed (use assms in \<open>simp add: exchange_def split: if_splits\<close>)


text \<open>A login on the commissioned Kernel of the run.\<close>

definition login_event :: "nat \<Rightarrow> nat \<Rightarrow> string \<Rightarrow> payload_dict \<Rightarrow> nat \<Rightarrow> kevent" where
  "login_event n v ty p i =
     \<lparr>event_id = run_event_id n, event_data_space_id = ''ds:main'', stream_id = ''owner-auth:main'', stream_version = v,
      event_type = ty, occurred_at = 0, actor_type = SystemActor, actor_id = None, correlation_id = Some ''owner-auth:main'',
      causation_id = None, idempotency_key = run_key i, payload = p\<rparr>"

lemma login_identifiers [simp]: "valid_identifier ''owner-auth:main''" "valid_identifier ''bootstrap:1''" "valid_identifier ''owner-session:1''"
  by code_simp+

lemma login_record:
  assumes "non_blank ty" "1 \<le> i" "i \<le> 500"
    and "ledger_data_space_id L = ''ds:main''" "length (stream_of L ''owner-auth:main'') = b_version b"
    and "dict_get (l_idempotency L) (run_key i) = None" "dict_get (l_event_ids L) (run_event_id (78 + i)) = None"
    and "b_data_space_id b = ''ds:main''" "b_stream_id b = ''owner-auth:main''"
  shows "auth_record toy b L 0 ty p (run_key i)
    = Inr (b\<lparr>b_version := Suc (b_version b)\<rparr>, pushed L (login_event (78 + i) (Suc (b_version b)) ty p i))"
proof -
  let ?e = "login_event (78 + i) (Suc (b_version b)) ty p i"
  have "deterministic_event_id (sha256 toy) ''ds:main'' ''owner-auth:main'' (run_key i) = Inr (run_event_id (78 + i))"
    by (rule toy_event_id) (use assms identifier_plain in simp_all)
  moreover have "valid_event_envelope ?e"
    using assms by (simp add: valid_event_envelope_def login_event_def)
  ultimately have "make_event toy ''ds:main'' ''owner-auth:main'' (b_version b) ty p 0 SystemActor None
      (Some ''owner-auth:main'') None (run_key i) = Inr ?e"
    by (simp add: make_event_def login_event_def)
  then show ?thesis
    using assms by (simp add: auth_record_def append_event_def ledger_append_def pushed_def Let_def login_event_def)
qed

definition login_code :: bootstrap_code_record where
  "login_code = \<lparr>bootstrap_id = ''bootstrap:1'', code_owner_id = ''owner:me'', code_sha256 = replicate 64 (CHR ''4''),
     code_issued_at = 0, code_expires_at = 60000000, used_at = None\<rparr>"

definition login_session :: browser_session_record where
  "login_session = \<lparr>session_id = ''owner-session:1'', session_owner_id = ''owner:me'', session_device_id = ''laptop'',
     token_sha256 = replicate 64 (CHR ''5''), session_issued_at = 1, session_expires_at = 30000001, session_active = True\<rparr>"

definition issued :: kernel where
  "issued = run6\<lparr>k_owner_bootstrap := (k_owner_bootstrap run6)\<lparr>b_version := 1, codes := [(''bootstrap:1'', login_code)]\<rparr>,
     k_ledger := pushed (k_ledger run6) (login_event 158 1 ''owner_bootstrap_issued'' [(''record'', PBootstrapCode login_code)] 80)\<rparr>"

lemma run6_kept: "k_owner_bootstrap run6 = k_owner_bootstrap run0" "k_data_space run6 = ex_space"
  by (simp_all add: run6_def run5_def run4_def run3_def run2_def run1_def) (simp add: run0_def fresh_kernel_def)

lemma run6_owner [simp]:
  "k_owner_bootstrap run6 = init_owner_bootstrap ''ds:main'' ''owner:me''" "owner_id (k_data_space run6) = ''owner:me''"
  by (simp_all add: run6_kept run0_def fresh_kernel_def ex_space_def)

lemma init_owner [simp]:
  "b_data_space_id (init_owner_bootstrap ''ds:main'' o') = ''ds:main''"
  "b_stream_id (init_owner_bootstrap ''ds:main'' o') = ''owner-auth:main''"
  "b_version (init_owner_bootstrap ds o') = 0" "b_owner_id (init_owner_bootstrap ds o') = o'"
  "codes (init_owner_bootstrap ds o') = []" "browser_sessions (init_owner_bootstrap ds o') = []"
  by (simp_all add: init_owner_bootstrap_def id_rest_def)

lemma login_digests [simp]:
  "sha256 toy ''code'' = replicate 64 (CHR ''4'')" "sha256 toy ''token'' = replicate 64 (CHR ''5'')"
  "is_sha256 (replicate 64 (CHR ''4''))" "is_sha256 (replicate 64 (CHR ''5''))"
  by (simp_all add: toy_def is_sha256_def is_hex_def is_digit_def char_between_def list_all_iff)

lemma issued: "\<exists>g. issue toy (k_owner_bootstrap run6) (k_ledger run6) Active True ''http://host/'' 60 (run_key 80) ''code'' ''1'' 0 0
    = Inr (g, k_owner_bootstrap issued, k_ledger issued)"
  by (simp add: issue_def commissioned_def Let_def new_id_def login_record valid_bootstrap_code_record_def text_lengths)
    (simp add: issued_def login_code_def)


definition logged_in :: owner_bootstrap where
  "logged_in = (k_owner_bootstrap issued)\<lparr>b_version := 2, codes := [(''bootstrap:1'', login_code\<lparr>used_at := Some 1\<rparr>)],
     browser_sessions := [(''owner-session:1'', login_session)]\<rparr>"

lemma exchanged: "\<exists>g L'. exchange toy (k_owner_bootstrap issued) (k_ledger issued) Active True ''code'' ''laptop'' 30 (run_key 81)
    ''token'' ''1'' 1 0 = Inr (g, logged_in, L')"
proof -
  have "py_strip ''laptop'' \<noteq> []" by code_simp
  then show ?thesis
    by (simp add: exchange_def commissioned_def Let_def new_id_def issued_def login_code_def login_record
      valid_browser_session_record_def text_lengths login_event_def)
      (simp add: logged_in_def issued_def login_code_def login_session_def)
qed



text \<open>
  The token an exchange hands out logs the device in until the session expires and no
  longer, when no other session has that token's digest.
\<close>

theorem session_token_authenticates:
  assumes "exchange h b L st ex code dev life key tok uuid now t = Inr (g, b', L')"
    and "\<forall>s \<in> set (dict_values (browser_sessions b)). token_sha256 s \<noteq> sha256 h tok"
  shows "authenticate h b' tok later
    = (if later < now + life * 1000000 then Inr dev
       else raise_violation ''owner browser session is invalid or expired'')"
  using assms(1)
proof (cases rule: exchange_Inr)
  case (1 r sid)
  then show ?thesis
    using find_dict_set_new [OF assms(2)]
    by (simp add: authenticate_def)
qed

theorem session_token_authenticates_witness:
  "authenticate toy logged_in ''token'' 29 = Inr ''laptop''"
proof -
  obtain g L' where "exchange toy (k_owner_bootstrap issued) (k_ledger issued) Active True ''code'' ''laptop'' 30
    (run_key 81) ''token'' ''1'' 1 0 = Inr (g, logged_in, L')"
    using exchanged by blast
  from session_token_authenticates [OF this, where later = 29] show ?thesis by (simp add: issued_def)
qed

section \<open>History queries\<close>

text \<open>
  A history query that answers has stored its page: the page is the reader's own, not
  truncated, can be read back under the reference in the answer, and the event that
  records it is one an assessment may cite.
\<close>

theorem history_query_is_audited:
  assumes "resolve h a L rd max_bytes t x aid key = Inr (Inr r, a', L')"
  shows "\<exists>page. read_history_page rd x = Inr page \<and> length (page_json page) \<le> max_bytes
    \<and> tool_result_json r = page_json page \<and> get_blob L' (tool_result_blob_ref r) = Inr (page_json page)
    \<and> tool_result_event_id r \<in> history_query_event_ids a' \<and> operation x \<in> history_query_operations a'
    \<and> operation x \<noteq> ''list_sessions''"
proof -
  let ?put = "\<lambda>page. put_blob (sha256 h) L (page_json page)"
  from assms obtain page where page: "read_history_page rd x = Inr page" "length (page_json page) \<le> max_bytes"
    by (auto simp: resolve_def raise_violation_def split: if_splits)
  obtain ref L1 where put: "?put page = (ref, L1)" by (cases "?put page")
  from assms page put obtain e cur a1 p where
    rec: "activation_record h a L1 t ''history_query_resolved'' p PilotActor (Some aid) key = Inr (e, cur, a1, L')"
    and res: "make_tool_result h (action_id x) (operation x) page ref (event_id e) cur = Inr r"
    and a': "a' = a1\<lparr>history_query_operations := insert (operation x) (history_query_operations a1),
      history_query_event_ids := insert (event_id e) (history_query_event_ids a1)\<rparr>"
    by (auto simp: resolve_def raise_violation_def Let_def split: if_splits sum.splits)
  have "l_blobs L' = l_blobs L1"
    using rec by (auto simp: activation_record_def append_event_def elim!: ledger_append_cases)
  moreover have "operation x \<noteq> ''list_sessions''"
    using page(1) by (auto simp: read_history_page_def)
  ultimately have "get_blob L' ref = Inr (page_json page)"
    using get_put_blob [OF put] by (simp add: get_blob_def)
  moreover have "tool_result_blob_ref r = ref" "tool_result_json r = page_json page" "tool_result_event_id r = event_id e"
    using res by (auto simp: make_tool_result_def Let_def split: if_splits)
  ultimately show ?thesis
    using page a' \<open>operation x \<noteq> _\<close> by simp
qed

definition null_reader :: history_reader where
  "null_reader = ex_reader\<lparr>get_current_state := \<lambda>_ _. Inr (ex_page\<lparr>page_json := ''null''\<rparr>)\<rparr>"

lemma null_query:
  "\<exists>r a' L'. resolve toy (k_activation run3) (k_ledger run3) null_reader 100 0 ex_query ''owner:me'' (run_key 22)
    = Inr (Inr r, a', L') \<and> read_history_page null_reader ex_query = Inr (ex_page\<lparr>page_json := ''null''\<rparr>)"
proof -
  have digest: "sha256 toy ''null'' = replicate 64 (CHR ''4'')" by (simp add: toy_def)
  have page: "read_history_page null_reader ex_query = Inr (ex_page\<lparr>page_json := ''null''\<rparr>)"
    by (simp add: read_history_page_def ex_query_def null_reader_def)
  have "valid_blob_ref (''blob:sha256:'' @ replicate 64 (CHR ''4''))"
    by (simp add: valid_blob_ref_def is_sha256_def is_hex_def is_digit_def char_between_def list_all_iff)
  then have "\<exists>r a' L'. resolve toy (k_activation run3) (k_ledger run3) null_reader 100 0 ex_query ''owner:me'' (run_key 22)
    = Inr (Inr r, a', L')"
    by (simp add: resolve_def page put_blob_def Let_def digest run_activation_record run3_def run_event3_def run_event2_def
      run2_def run1_def run_event1_def text_lengths opt_str_def)
     (simp add: make_tool_result_def valid_history_tool_result_def ex_page_def ex_query_def digest text_lengths is_sha256_def
       is_hex_def is_digit_def char_between_def list_all_iff)
  with page show ?thesis by blast
qed

theorem history_query_is_audited_witness:
  "\<exists>a' L' r. get_blob L' (tool_result_blob_ref r) = Inr ''null'' \<and> tool_result_json r = ''null''
    \<and> tool_result_event_id r \<in> history_query_event_ids a'
    \<and> resolve toy (k_activation run3) (k_ledger run3) null_reader 100 0 ex_query ''owner:me'' (run_key 22) = Inr (Inr r, a', L')"
proof -
  obtain r a' L' where step: "resolve toy (k_activation run3) (k_ledger run3) null_reader 100 0 ex_query ''owner:me'' (run_key 22)
      = Inr (Inr r, a', L')" and page: "read_history_page null_reader ex_query = Inr (ex_page\<lparr>page_json := ''null''\<rparr>)"
    using null_query by blast
  from history_query_is_audited [OF step] page step show ?thesis by fastforce
qed






end
