(* ===== verification/Naming_Properties.thy ===== *)
theory Naming_Properties
  imports Agent_Naming
begin

text \<open>
  The properties of the agent-name allocator over whole runs of its operations: names are
  never issued twice, every name is a permitted one, and a registry can be restored from
  its records. Each has its application to a register of two rows.
\<close>

section \<open>Runs of the allocator\<close>

inductive registry_step :: "name_registry \<Rightarrow> name_registry \<Rightarrow> bool" where
  step_allocate: "allocate R aid ds wid eid nid pid c = (r, R') \<Longrightarrow> registry_step R R'"
| step_allocate_out_of_pipeline: "allocate_out_of_pipeline R rid ds nid pid c = (r, R') \<Longrightarrow> registry_step R R'"
| step_restore: "restore_one R a = Inr R' \<Longrightarrow> registry_step R R'"
| step_restore_registration: "restore_registration_one R g = Inr R' \<Longrightarrow> registry_step R R'"

text \<open>The register's row behind an issued base name.\<close>

definition permitted :: "agent_name_row list \<Rightarrow> nat \<Rightarrow> name_column \<Rightarrow> string \<Rightarrow> bool" where
  "permitted rs scale col base \<longleftrightarrow>
     (\<exists>r \<in> set rs. row_scale r = scale \<and> is_eligible r \<and> \<not> is_reserved r \<and> name_for r col = base)"

definition records_inv :: "name_registry \<Rightarrow> bool" where
  "records_inv R \<longleftrightarrow>
     keyed assignment_id (reg_assignments R) \<and> keyed registration_id (reg_registrations R) \<and>
     (\<forall>a \<in> set (dict_values (reg_assignments R)).
        permitted (rows R) (assignment_scale a) (assignment_name_column a) (assignment_base_name a)) \<and>
     (\<forall>g \<in> set (dict_values (reg_registrations R)).
        permitted (rows R) (registration_scale g) (registration_name_column g) (registration_base_name g))"

definition allocator_inv :: "name_registry \<Rightarrow> bool" where
  "allocator_inv R \<longleftrightarrow> registry_inv R \<and> records_inv R"

lemma records_inv_frame:
  "rows R' = rows R \<Longrightarrow> reg_assignments R' = reg_assignments R \<Longrightarrow> reg_registrations R' = reg_registrations R
    \<Longrightarrow> records_inv R' \<longleftrightarrow> records_inv R"
  by (simp add: records_inv_def)

lemma allocator_inv_frame:
  "rows R' = rows R \<Longrightarrow> used_names R' = used_names R \<Longrightarrow> reg_assignments R' = reg_assignments R \<Longrightarrow>
    reg_registrations R' = reg_registrations R \<Longrightarrow> allocator_inv R' \<longleftrightarrow> allocator_inv R"
  using records_inv_frame [of R' R] registry_inv_frame [of R' R] by (simp add: allocator_inv_def)

lemma allocator_inv_add_assignment:
  assumes "allocator_inv R" and "\<not> dict_mem (assignment_id a) (reg_assignments R)"
    and "assignment_agent_name a \<notin> set (used_names R)"
    and "permitted (rows R) (assignment_scale a) (assignment_name_column a) (assignment_base_name a)"
  shows "allocator_inv (R\<lparr>reg_assignments := dict_set (reg_assignments R) (assignment_id a) a,
    used_names := assignment_agent_name a # used_names R\<rparr>)"
proof -
  have "set (dict_values (dict_set (reg_assignments R) (assignment_id a) a)) \<subseteq> insert a (set (dict_values (reg_assignments R)))"
    by (rule values_dict_set)
  moreover have "keyed assignment_id (dict_set (reg_assignments R) (assignment_id a) a)"
    using assms(1) by (simp add: allocator_inv_def records_inv_def keyed_set)
  ultimately have "records_inv (R\<lparr>reg_assignments := dict_set (reg_assignments R) (assignment_id a) a,
      used_names := assignment_agent_name a # used_names R\<rparr>)"
    using assms(1,4) unfolding allocator_inv_def records_inv_def by fastforce
  with assms show ?thesis by (simp add: allocator_inv_def registry_inv_add_assignment)
qed

lemma allocator_inv_add_registration:
  assumes "allocator_inv R" and "\<not> dict_mem (registration_id a) (reg_registrations R)"
    and "registration_agent_name a \<notin> set (used_names R)"
    and "permitted (rows R) (registration_scale a) (registration_name_column a) (registration_base_name a)"
  shows "allocator_inv (R\<lparr>reg_registrations := dict_set (reg_registrations R) (registration_id a) a,
    used_names := registration_agent_name a # used_names R\<rparr>)"
proof -
  have "set (dict_values (dict_set (reg_registrations R) (registration_id a) a)) \<subseteq> insert a (set (dict_values (reg_registrations R)))"
    by (rule values_dict_set)
  moreover have "keyed registration_id (dict_set (reg_registrations R) (registration_id a) a)"
    using assms(1) by (simp add: allocator_inv_def records_inv_def keyed_set)
  ultimately have "records_inv (R\<lparr>reg_registrations := dict_set (reg_registrations R) (registration_id a) a,
      used_names := registration_agent_name a # used_names R\<rparr>)"
    using assms(1,4) unfolding allocator_inv_def records_inv_def by fastforce
  with assms show ?thesis by (simp add: allocator_inv_def registry_inv_add_registration)
qed

lemma permitted_pool:
  "next_name R scale col (name_pool R scale) = ((base, suffix, name), R') \<Longrightarrow> name_pool R scale \<noteq> [] \<Longrightarrow>
    permitted (rows R) scale col base"
  by (drule (1) next_name_base) (auto simp: permitted_def name_pool_def)

lemma resolve_permitted: "resolve_eligible_row R scale col base m1 m2 = Inr r \<Longrightarrow> permitted (rows R) scale col base"
proof -
  assume found: "resolve_eligible_row R scale col base m1 m2 = Inr r"
  then have "r \<in> set (filter (\<lambda>r. is_eligible r \<and> \<not> is_reserved r) (filter (\<lambda>r. row_scale r = scale \<and> name_for r col = base) (rows R)))"
    unfolding resolve_eligible_row_def by (simp only: raise_violation_simps split: list.splits) auto
  then show ?thesis by (auto simp: permitted_def)
qed

text \<open>What a successful allocation returns, and the register it leaves.\<close>

lemma allocate_cases:
  assumes "allocate R aid ds wid eid nid pid c = (r, R')"
  obtains (refused) err where "r = Inl err" "rows R' = rows R" "used_names R' = used_names R"
      "reg_assignments R' = reg_assignments R" "reg_registrations R' = reg_registrations R"
  | (issued) a R1 scale where "r = Inr a" "scale_for c = Inr scale" "name_pool R scale \<noteq> []"
      "\<not> dict_mem aid (reg_assignments R)" "assignment_id a = aid" "assignment_scale a = scale"
      "assignment_name_column a = name_column_for c"
      "next_name R scale (name_column_for c) (name_pool R scale)
        = ((assignment_base_name a, assignment_suffix a, assignment_agent_name a), R1)"
      "R' = R1\<lparr>reg_assignments := dict_set (reg_assignments R1) aid a,
              used_names := assignment_agent_name a # used_names R1\<rparr>"
proof (cases "scale_for c")
  case (Inr scale)
  obtain base suffix name R1 where pick: "next_name R scale (name_column_for c) (name_pool R scale) = ((base, suffix, name), R1)"
    by (metis prod.collapse)
  show ?thesis
    using assms Inr pick next_name_fields [OF pick]
    by (auto simp: allocate_def Let_def raise_violation_def split: if_splits
      intro: refused issued)
qed (use assms in \<open>auto simp: allocate_def intro: refused\<close>)

lemma allocate_out_of_pipeline_cases:
  assumes "allocate_out_of_pipeline R rid ds nid pid c = (r, R')"
  obtains (refused) err where "r = Inl err" "rows R' = rows R" "used_names R' = used_names R"
      "reg_assignments R' = reg_assignments R" "reg_registrations R' = reg_registrations R"
  | (issued) a R1 scale where "r = Inr a" "scale_for c = Inr scale" "name_pool R scale \<noteq> []"
      "\<not> dict_mem rid (reg_registrations R)" "registration_id a = rid" "registration_scale a = scale"
      "registration_name_column a = name_column_for c"
      "next_name R scale (name_column_for c) (name_pool R scale)
        = ((registration_base_name a, registration_suffix a, registration_agent_name a), R1)"
      "R' = R1\<lparr>reg_registrations := dict_set (reg_registrations R1) rid a,
              used_names := registration_agent_name a # used_names R1\<rparr>"
proof (cases "scale_for c")
  case (Inr scale)
  obtain base suffix name R1 where pick: "next_name R scale (name_column_for c) (name_pool R scale) = ((base, suffix, name), R1)"
    by (metis prod.collapse)
  show ?thesis
    using assms Inr pick next_name_fields [OF pick]
    by (auto simp: allocate_out_of_pipeline_def Let_def raise_violation_def split: if_splits
      intro: refused issued)
qed (use assms in \<open>auto simp: allocate_out_of_pipeline_def intro: refused\<close>)

lemma restore_one_cases:
  assumes "restore_one R a = Inr R'"
  obtains (known) "R' = R"
  | (restored) "\<not> dict_mem (assignment_id a) (reg_assignments R)" "assignment_agent_name a \<notin> set (used_names R)"
      "permitted (rows R) (assignment_scale a) (assignment_name_column a) (assignment_base_name a)"
      "R' = R\<lparr>reg_assignments := dict_set (reg_assignments R) (assignment_id a) a,
              used_names := assignment_agent_name a # used_names R\<rparr>"
proof (cases "dict_get (reg_assignments R) (assignment_id a)")
  case None
  with assms have "assignment_agent_name a \<notin> set (used_names R)"
    by (simp add: restore_one_def split: if_splits)
  moreover from this None assms obtain r m1 m2 where
    "resolve_eligible_row R (assignment_scale a) (assignment_name_column a) (assignment_base_name a) m1 m2 = Inr r"
    and "R' = R\<lparr>reg_assignments := dict_set (reg_assignments R) (assignment_id a) a,
              used_names := assignment_agent_name a # used_names R\<rparr>"
    unfolding restore_one_def by (simp only: option.case if_False bind_result_Inr) blast
  ultimately show ?thesis using None by (intro restored) (auto simp: dict_get_None_mem intro: resolve_permitted)
next
  case (Some b)
  with assms have "R' = R" by (simp add: restore_one_def split: if_splits)
  then show ?thesis by (rule known)
qed

lemma restore_registration_one_cases:
  assumes "restore_registration_one R a = Inr R'"
  obtains (known) "R' = R"
  | (restored) "\<not> dict_mem (registration_id a) (reg_registrations R)" "registration_agent_name a \<notin> set (used_names R)"
      "permitted (rows R) (registration_scale a) (registration_name_column a) (registration_base_name a)"
      "R' = R\<lparr>reg_registrations := dict_set (reg_registrations R) (registration_id a) a,
              used_names := registration_agent_name a # used_names R\<rparr>"
proof (cases "dict_get (reg_registrations R) (registration_id a)")
  case None
  with assms have "registration_agent_name a \<notin> set (used_names R)"
    by (simp add: restore_registration_one_def split: if_splits)
  moreover from this None assms obtain r m1 m2 where
    "resolve_eligible_row R (registration_scale a) (registration_name_column a) (registration_base_name a) m1 m2 = Inr r"
    and "R' = R\<lparr>reg_registrations := dict_set (reg_registrations R) (registration_id a) a,
              used_names := registration_agent_name a # used_names R\<rparr>"
    unfolding restore_registration_one_def by (simp only: option.case if_False bind_result_Inr) blast
  ultimately show ?thesis using None by (intro restored) (auto simp: dict_get_None_mem intro: resolve_permitted)
next
  case (Some b)
  with assms have "R' = R" by (simp add: restore_registration_one_def split: if_splits)
  then show ?thesis by (rule known)
qed

lemma registry_step_inv:
  assumes "registry_step R R'" and "allocator_inv R"
  shows "allocator_inv R' \<and> rows R' = rows R"
  using assms(1)
proof cases
  case (step_allocate aid ds wid eid nid pid c r)
  then show ?thesis
  proof (cases rule: allocate_cases)
    case (issued a R1 scale)
    note fields = next_name_fields [OF issued(8)]
    have "allocator_inv R1" using assms(2) allocator_inv_frame [of R1 R] fields by simp
    moreover have "permitted (rows R1) (assignment_scale a) (assignment_name_column a) (assignment_base_name a)"
      using permitted_pool [OF issued(8,3)] issued(6,7) fields by simp
    ultimately show ?thesis
      using allocator_inv_add_assignment [of R1 a] issued(4,5,9) fields by simp
  qed (use assms(2) allocator_inv_frame [of R' R] in simp)
next
  case (step_allocate_out_of_pipeline rid ds nid pid c r)
  then show ?thesis
  proof (cases rule: allocate_out_of_pipeline_cases)
    case (issued a R1 scale)
    note fields = next_name_fields [OF issued(8)]
    have "allocator_inv R1" using assms(2) allocator_inv_frame [of R1 R] fields by simp
    moreover have "permitted (rows R1) (registration_scale a) (registration_name_column a) (registration_base_name a)"
      using permitted_pool [OF issued(8,3)] issued(6,7) fields by simp
    ultimately show ?thesis
      using allocator_inv_add_registration [of R1 a] issued(4,5,9) fields by simp
  qed (use assms(2) allocator_inv_frame [of R' R] in simp)
next
  case (step_restore a)
  then show ?thesis
    by (cases rule: restore_one_cases) (use assms(2) allocator_inv_add_assignment in simp_all)
next
  case (step_restore_registration g)
  then show ?thesis
    by (cases rule: restore_registration_one_cases) (use assms(2) allocator_inv_add_registration in simp_all)
qed

lemma init_allocator_inv: "init_registry rs = Inr R \<Longrightarrow> allocator_inv R \<and> rows R = rs"
  by (auto simp: init_registry_def allocator_inv_def registry_inv_def records_inv_def issued_names_def
    split: if_splits)

lemma registry_run_inv:
  assumes "registry_step\<^sup>*\<^sup>* R0 R" and "init_registry rs = Inr R0"
  shows "allocator_inv R \<and> rows R = rs"
  using assms(1) by (induction rule: rtranclp_induct)
    (use assms(2) init_allocator_inv registry_step_inv in \<open>blast+\<close>)

section \<open>Restoring a registry\<close>

lemma permitted_resolves:
  "permitted (rows R) scale col base \<Longrightarrow> \<exists>r. resolve_eligible_row R scale col base m1 m2 = Inr r"
proof -
  let ?match = "filter (\<lambda>r. row_scale r = scale \<and> name_for r col = base) (rows R)"
  let ?ok = "filter (\<lambda>r. is_eligible r \<and> \<not> is_reserved r) ?match"
  assume "permitted (rows R) scale col base"
  then have "set ?ok \<noteq> {}" unfolding permitted_def set_filter by blast
  then have "?ok \<noteq> []" by (metis empty_set)
  then obtain y ys where ok: "?ok = y # ys" unfolding neq_Nil_conv by blast
  then have "?match \<noteq> []" by (metis filter.simps(1) list.distinct(1))
  then obtain x xs where "?match = x # xs" unfolding neq_Nil_conv by blast
  with ok show ?thesis unfolding resolve_eligible_row_def by (simp only: list.case) blast
qed

lemma restore_all:
  assumes "keyed assignment_id (front @ rest)" and "reg_assignments R = front"
    and "distinct (map assignment_agent_name (dict_values rest))"
    and "\<forall>a \<in> set (dict_values rest). assignment_agent_name a \<notin> set (used_names R)
      \<and> permitted (rows R) (assignment_scale a) (assignment_name_column a) (assignment_base_name a)"
  shows "restore R (dict_values rest) = (Inr (), R\<lparr>reg_assignments := front @ rest,
    used_names := rev (map assignment_agent_name (dict_values rest)) @ used_names R\<rparr>)"
  using assms
proof (induction rest arbitrary: front R)
  case (Cons ka rest)
  obtain k a where ka: "ka = (k, a)" by (cases ka)
  let ?R = "R\<lparr>reg_assignments := front @ [(k, a)], used_names := assignment_agent_name a # used_names R\<rparr>"
  have new: "\<not> dict_mem (assignment_id a) (reg_assignments R)" and k: "k = assignment_id a"
    using Cons.prems(1,2) ka by (auto simp: keyed_def dict_mem_def)
  obtain r where "resolve_eligible_row R (assignment_scale a) (assignment_name_column a) (assignment_base_name a)
      ''assignment base name is not present in Agent_name.csv: ''
      ''assignment uses a forbidden Agent_name.csv row: '' = Inr r"
    using Cons.prems(4) permitted_resolves ka by (fastforce simp: dict_values_def)
  then have one: "restore_one R a = Inr ?R"
    using new k Cons.prems(2,4) ka
    by (simp add: restore_one_def dict_get_None_mem dict_set_new option.case_eq_if dict_values_def)
  have "restore ?R (dict_values rest) = (Inr (), ?R\<lparr>reg_assignments := (front @ [(k, a)]) @ rest,
      used_names := rev (map assignment_agent_name (dict_values rest)) @ used_names ?R\<rparr>)"
    using Cons.prems ka by (intro Cons.IH) (auto simp: dict_values_def image_iff)
  with one ka show ?case by (simp add: dict_values_def)
qed (simp add: dict_values_def)

lemma restore_registrations_all:
  assumes "keyed registration_id (front @ rest)" and "reg_registrations R = front"
    and "distinct (map registration_agent_name (dict_values rest))"
    and "\<forall>a \<in> set (dict_values rest). registration_agent_name a \<notin> set (used_names R)
      \<and> permitted (rows R) (registration_scale a) (registration_name_column a) (registration_base_name a)"
  shows "restore_registrations R (dict_values rest) = (Inr (), R\<lparr>reg_registrations := front @ rest,
    used_names := rev (map registration_agent_name (dict_values rest)) @ used_names R\<rparr>)"
  using assms
proof (induction rest arbitrary: front R)
  case (Cons ka rest)
  obtain k a where ka: "ka = (k, a)" by (cases ka)
  let ?R = "R\<lparr>reg_registrations := front @ [(k, a)], used_names := registration_agent_name a # used_names R\<rparr>"
  have new: "\<not> dict_mem (registration_id a) (reg_registrations R)" and k: "k = registration_id a"
    using Cons.prems(1,2) ka by (auto simp: keyed_def dict_mem_def)
  obtain r where "resolve_eligible_row R (registration_scale a) (registration_name_column a) (registration_base_name a)
      ''registration base name is not present in Agent_name.csv: ''
      ''registration uses a forbidden Agent_name.csv row: '' = Inr r"
    using Cons.prems(4) permitted_resolves ka by (fastforce simp: dict_values_def)
  then have one: "restore_registration_one R a = Inr ?R"
    using new k Cons.prems(2,4) ka
    by (simp add: restore_registration_one_def dict_get_None_mem dict_set_new option.case_eq_if dict_values_def)
  have "restore_registrations ?R (dict_values rest) = (Inr (), ?R\<lparr>reg_registrations := (front @ [(k, a)]) @ rest,
      used_names := rev (map registration_agent_name (dict_values rest)) @ used_names ?R\<rparr>)"
    using Cons.prems ka by (intro Cons.IH) (auto simp: dict_values_def image_iff)
  with one ka show ?case by (simp add: dict_values_def)
qed (simp add: dict_values_def)

section \<open>A register of two rows\<close>

definition ex_row :: "string \<Rightarrow> string \<Rightarrow> agent_name_row" where
  "ex_row name mark = \<lparr>category = ''c'', row_scale = 1, semantic_coordinate = ''s'', japanese_name = name,
     english_name = name, latin_name = name, likes = mark\<rparr>"

definition ex_candidate :: model_candidate where
  "ex_candidate = \<lparr>candidate_provider = ''anthropic'', candidate_selection_exact = True,
     candidate_model_snapshot = Some ''claude-haiku'', candidate_effort = ''low'', candidate_key = ''m''\<rparr>"

definition ex_registry :: name_registry where
  "ex_registry = \<lparr>rows = [ex_row ''A'' [], ex_row ''B'' ''0''], next_index = [], used_names = [],
     reg_assignments = [], reg_registrations = []\<rparr>"

definition ex_assignment :: "string \<Rightarrow> nat \<Rightarrow> agent_name_assignment" where
  "ex_assignment aid n = \<lparr>assignment_id = aid, assignment_data_space_id = ''ds:main'', assignment_work_item_id = ''work:1'',
     assignment_execution_id = ''exec:1'', assignment_node_id = ''node:1'', assignment_pilot_id = ''pilot:1'',
     assignment_agent_name = suffixed ''A'' n, assignment_base_name = ''A'', assignment_suffix = n,
     assignment_name_column = Japanese, assignment_scale = 1, assignment_provider = ''anthropic'',
     assignment_candidate_key = ''m''\<rparr>"

definition ex_named :: "(string \<times> agent_name_assignment) list \<Rightarrow> string list \<Rightarrow> name_registry" where
  "ex_named as used = ex_registry\<lparr>next_index := [((1, Japanese), 1)], used_names := used, reg_assignments := as\<rparr>"

lemma ex_init: "init_registry [ex_row ''A'' [], ex_row ''B'' ''0''] = Inr ex_registry"
  by (simp add: init_registry_def ex_registry_def)

lemma ex_allocations:
  "allocate ex_registry ''name:1'' ''ds:main'' ''work:1'' ''exec:1'' ''node:1'' ''pilot:1'' ex_candidate
    = (Inr (ex_assignment ''name:1'' 1), ex_named [(''name:1'', ex_assignment ''name:1'' 1)] [''A''])"
  "allocate (ex_named [(''name:1'', ex_assignment ''name:1'' 1)] [''A'']) ''name:2'' ''ds:main'' ''work:1'' ''exec:1'' ''node:1''
      ''pilot:1'' ex_candidate
    = (Inr (ex_assignment ''name:2'' 2),
       ex_named [(''name:1'', ex_assignment ''name:1'' 1), (''name:2'', ex_assignment ''name:2'' 2)] [''A2'', ''A''])"
  by code_simp+

lemma ex_run: "registry_step\<^sup>*\<^sup>* ex_registry
    (ex_named [(''name:1'', ex_assignment ''name:1'' 1), (''name:2'', ex_assignment ''name:2'' 2)] [''A2'', ''A''])"
  using ex_allocations by (blast intro: step_allocate rtranclp.intros)

section \<open>Properties\<close>

text \<open>
  C37: no two agents ever share a name. After any run of allocations and restorations the
  names issued, to assignments and out-of-pipeline registrations together, are distinct,
  and the register of used names holds exactly them.
\<close>

theorem names_never_repeat:
  assumes "init_registry rs = Inr R0" and "registry_step\<^sup>*\<^sup>* R0 R"
  shows "distinct (issued_names R) \<and> set (used_names R) = set (issued_names R)"
  using registry_run_inv [OF assms(2,1)] by (simp add: allocator_inv_def registry_inv_def)

theorem names_never_repeat_witness:
  "let R = ex_named [(''name:1'', ex_assignment ''name:1'' 1), (''name:2'', ex_assignment ''name:2'' 2)] [''A2'', ''A'']
   in distinct (issued_names R) \<and> set (used_names R) = set (issued_names R)"
  unfolding Let_def by (rule names_never_repeat [OF ex_init ex_run])

text \<open>
  An allocated name is new, comes from an eligible and not reserved row of the
  candidate's scale, and is suffixed only when every such row's name is taken, with the
  least suffix that is free.
\<close>

theorem allocated_name_is_fair:
  assumes "allocate R aid ds wid eid nid pid c = (Inr a, R')"
  shows "assignment_agent_name a \<notin> set (used_names R)
    \<and> assignment_agent_name a = suffixed (assignment_base_name a) (assignment_suffix a)
    \<and> (\<exists>r \<in> set (rows R). row_scale r = assignment_scale a \<and> is_eligible r \<and> \<not> is_reserved r
          \<and> name_for r (name_column_for c) = assignment_base_name a)
    \<and> (assignment_suffix a \<noteq> 1 \<longrightarrow> (\<forall>r \<in> set (name_pool R (assignment_scale a)). name_for r (name_column_for c) \<in> set (used_names R)))
    \<and> (\<forall>n. 1 \<le> n \<and> n < assignment_suffix a \<longrightarrow> suffixed (assignment_base_name a) n \<in> set (used_names R))
    \<and> used_names R' = assignment_agent_name a # used_names R \<and> dict_get (reg_assignments R') aid = Some a"
  using assms
proof (cases rule: allocate_cases)
  case (issued b R1 scale)
  then have a: "b = a" by simp
  note pick = issued(8) [unfolded a]
  note fields = next_name_fields [OF pick]
  have "assignment_suffix a = free_suffix (assignment_base_name a) (used_names R) 1"
    using pick by (auto simp: next_name_def Let_def)
  then have "\<forall>n. 1 \<le> n \<and> n < assignment_suffix a \<longrightarrow> suffixed (assignment_base_name a) n \<in> set (used_names R)"
    using free_suffix_least [of 1] by metis
  moreover have "permitted (rows R) scale (name_column_for c) (assignment_base_name a)"
    using permitted_pool [OF pick issued(3)] .
  ultimately show ?thesis
    using issued(6,7,9) fields next_name_no_suffix [OF pick] unfolding a permitted_def by auto
qed simp

theorem allocated_name_is_fair_witness:
  "''A2'' \<notin> set [''A''] \<and> suffixed ''A'' 2 = ''A2'' \<and> suffixed ''A'' 1 \<in> set [''A'']"
  using allocated_name_is_fair [OF ex_allocations(2)]
  by (simp add: ex_assignment_def ex_named_def)

text \<open>
  C38: a registry can be rebuilt from its records. Restoring the assignments and then the
  registrations of any registry a run has reached, into a new registry over the same rows,
  succeeds and gives back the records in their order and the same used names.
\<close>

theorem registry_restores:
  assumes "init_registry rs = Inr R0" and "registry_step\<^sup>*\<^sup>* R0 R"
  shows "\<exists>R1 R2. restore R0 (dict_values (reg_assignments R)) = (Inr (), R1)
    \<and> restore_registrations R1 (dict_values (reg_registrations R)) = (Inr (), R2)
    \<and> reg_assignments R2 = reg_assignments R \<and> reg_registrations R2 = reg_registrations R
    \<and> set (used_names R2) = set (used_names R)"
proof -
  have R0: "rows R0 = rs" "reg_assignments R0 = []" "reg_registrations R0 = []" "used_names R0 = []"
    using assms(1) by (auto simp: init_registry_def split: if_splits)
  have inv: "distinct (issued_names R)" "set (used_names R) = set (issued_names R)" "records_inv R" "rows R = rs"
    using registry_run_inv [OF assms(2,1)] by (simp_all add: allocator_inv_def registry_inv_def)
  let ?names = "rev (map assignment_agent_name (dict_values (reg_assignments R)))"
  let ?R1 = "R0\<lparr>reg_assignments := reg_assignments R, used_names := ?names\<rparr>"
  let ?regs = "rev (map registration_agent_name (dict_values (reg_registrations R)))"
  have "restore R0 (dict_values (reg_assignments R)) = (Inr (), ?R1)"
    using restore_all [of "[]" "reg_assignments R" R0] inv R0 by (simp add: records_inv_def issued_names_def)
  moreover have "restore_registrations ?R1 (dict_values (reg_registrations R))
      = (Inr (), ?R1\<lparr>reg_registrations := reg_registrations R, used_names := ?regs @ ?names\<rparr>)"
    using restore_registrations_all [of "[]" "reg_registrations R" ?R1] inv R0
    by (fastforce simp: records_inv_def issued_names_def)
  ultimately show ?thesis using inv(2) by (auto simp: issued_names_def)
qed

theorem registry_restores_witness:
  "\<exists>R1 R2. restore ex_registry [ex_assignment ''name:1'' 1, ex_assignment ''name:2'' 2] = (Inr (), R1)
    \<and> restore_registrations R1 [] = (Inr (), R2) \<and> reg_assignments R2 = [(''name:1'', ex_assignment ''name:1'' 1), (''name:2'', ex_assignment ''name:2'' 2)]
    \<and> reg_registrations R2 = [] \<and> set (used_names R2) = {''A'', ''A2''}"
  using registry_restores [OF ex_init ex_run]
  by (simp add: ex_named_def ex_registry_def dict_values_def insert_commute)

end
