(* ===== verification/Notification_Delivery.thy ===== *)
theory Notification_Delivery
  imports Kernel_Exec
begin

text \<open>
  \<^verbatim>\<open>vsm/notifications.py\<close>: the identity of an addressed message, and
  \<^verbatim>\<open>AgentNotificationDelivery\<close>, the one delivery path of channel and agent-to-agent
  messages. The identity hashes the canonical JSON of the message, written without
  \<^verbatim>\<open>ensure_ascii\<close>: only quotes, backslashes and control characters are escaped. The keys
  are in sorted order.
\<close>

section \<open>Identity\<close>

fun notification_platform_value :: "notification_platform \<Rightarrow> string" where
  "notification_platform_value Discord = ''discord''"
| "notification_platform_value Slack = ''slack''"
| "notification_platform_value Internal = ''internal''"

definition notification_canonical ::
  "string \<Rightarrow> string \<Rightarrow> notification_platform \<Rightarrow> string \<Rightarrow> string \<Rightarrow> string \<Rightarrow> string \<Rightarrow> string option
    \<Rightarrow> string option \<Rightarrow> string option \<Rightarrow> string" where
  "notification_canonical ds instance_id platform channel message_id recipient text sender wid eid =
     ''{\"body\":'' @ json_raw text @ '',\"data_space_id\":'' @ json_raw ds
     @ '',\"recipient_agent_name\":'' @ json_raw recipient @ '',\"related_execution_id\":'' @ json_raw_opt eid
     @ '',\"related_work_item_id\":'' @ json_raw_opt wid @ '',\"sender_agent_name\":'' @ json_raw_opt sender
     @ '',\"source_channel\":'' @ json_raw channel @ '',\"source_instance_id\":'' @ json_raw instance_id
     @ '',\"source_message_id\":'' @ json_raw message_id
     @ '',\"source_platform\":'' @ json_raw (notification_platform_value platform) @ ''}''"

definition notification_id_for ::
  "(string \<Rightarrow> string) \<Rightarrow> string \<Rightarrow> string \<Rightarrow> notification_platform \<Rightarrow> string \<Rightarrow> string \<Rightarrow> string \<Rightarrow> string
    \<Rightarrow> string option \<Rightarrow> string option \<Rightarrow> string option \<Rightarrow> string result" where
  "notification_id_for sha ds instance_id platform channel message_id recipient text sender wid eid =
     validate_id (''notification:''
       @ sha (notification_canonical ds instance_id platform channel message_id recipient text sender wid eid))"

section \<open>Delivery\<close>

record agent_notification_receipt =
  receipt_notification_id :: string
  receipt_event_id :: string
  receipt_work_item_id :: "string option"

definition valid_agent_notification_receipt :: "agent_notification_receipt \<Rightarrow> bool" where
  "valid_agent_notification_receipt r \<longleftrightarrow> valid_identifier (receipt_notification_id r)
     \<and> valid_identifier (receipt_event_id r) \<and> option_all valid_identifier (receipt_work_item_id r)"

definition make_notification_receipt :: "string \<Rightarrow> string \<Rightarrow> string option \<Rightarrow> agent_notification_receipt result" where
  "make_notification_receipt nid eid wid =
     (let r = \<lparr>receipt_notification_id = nid, receipt_event_id = eid, receipt_work_item_id = wid\<rparr>
      in if valid_agent_notification_receipt r then Inr r else Inl (ValidationError ''AgentNotificationReceipt''))"

text \<open>The receipt is built after the Kernel has changed, so it is returned beside the Kernel.\<close>

definition deliver ::
  "hashing \<Rightarrow> kernel \<Rightarrow> time \<Rightarrow> agent_notification \<Rightarrow> string \<Rightarrow> string
    \<Rightarrow> (agent_notification_receipt result \<times> kernel) result" where
  "deliver h k t n aid key =
     bind_result (record_agent_notification h k t n aid key) (\<lambda>(e, k').
       Inr (make_notification_receipt (notification_id n) (event_id e) None, k'))"

definition promote ::
  "hashing \<Rightarrow> kernel \<Rightarrow> time \<Rightarrow> time \<Rightarrow> string \<Rightarrow> work_item \<Rightarrow> string \<Rightarrow> string
    \<Rightarrow> (agent_notification_receipt result \<times> kernel) result" where
  "promote h k t t' nid w aid key =
     bind_result (promote_agent_notification h k t t' nid w aid key) (\<lambda>(r, k').
       Inr (bind_result r (\<lambda>e.
              case dict_get (k_notifications k') nid of None \<Rightarrow> Inl (KeyError nid)
              | Some n \<Rightarrow> make_notification_receipt nid (event_id e) (promoted_work_item_id n)), k'))"

definition receive_agent_messages :: "kernel \<Rightarrow> string \<Rightarrow> agent_notification list result" where
  "receive_agent_messages k recipient =
     (if \<not> agent_name_is_registered k recipient
      then raise_violation ''agent-to-agent recipient must be issued by the agent-name registry''
      else Inr (filter (\<lambda>n. notification_source_kind n = AgentToAgent \<and> recipient_agent_name n = recipient)
        (dict_values (k_notifications k))))"

type_synonym agent_name = string

definition agent_message ::
  "string \<Rightarrow> string \<Rightarrow> string \<Rightarrow> string \<Rightarrow> agent_name \<Rightarrow> agent_name \<Rightarrow> string \<Rightarrow> string \<Rightarrow> string \<Rightarrow> string \<Rightarrow> bool
    \<Rightarrow> agent_notification" where
  "agent_message nid ds instance_id actor sender recipient message_id text wid eid promotable =
     \<lparr>notification_id = nid, notification_data_space_id = ds, notification_source_kind = AgentToAgent,
      source_platform = Internal, source_instance_id = instance_id, source_channel = ''operational'',
      source_message_id = message_id, source_observation_subject = None, sender_actor_id = actor,
      sender_agent_name = Some sender, recipient_agent_name = recipient, body = text,
      resolution_kind = AgentAddress, requires_work_item = promotable, related_work_item_id = Some wid,
      related_execution_id = Some eid, promoted_work_item_id = None\<rparr>"

definition send_agent_message ::
  "hashing \<Rightarrow> kernel \<Rightarrow> time \<Rightarrow> string \<Rightarrow> string \<Rightarrow> string \<Rightarrow> agent_name \<Rightarrow> agent_name \<Rightarrow> string \<Rightarrow> string \<Rightarrow> string
    \<Rightarrow> string \<Rightarrow> bool \<Rightarrow> string \<Rightarrow> (agent_notification_receipt result \<times> kernel) result" where
  "send_agent_message h k t ds instance_id actor sender recipient message_id text wid eid promotable key =
     bind_result (notification_id_for (sha256 h) ds instance_id Internal ''operational'' message_id recipient text
         (Some sender) (Some wid) (Some eid)) (\<lambda>nid.
       let n = agent_message nid ds instance_id actor sender recipient message_id text wid eid promotable in
       if \<not> valid_agent_notification n then Inl (ValidationError ''AgentNotification'')
       else deliver h k t n actor key)"

section \<open>The canonical text tells messages apart\<close>

lemma notification_platform_value_inj: "notification_platform_value p = notification_platform_value q \<Longrightarrow> p = q"
  by (cases p; cases q) simp_all

lemma notification_canonical_inj:
  assumes "notification_canonical ds i p ch m rec txt sn wid eid = notification_canonical ds' i' p' ch' m' rec' txt' sn' wid' eid'"
  shows "ds = ds' \<and> i = i' \<and> p = p' \<and> ch = ch' \<and> m = m' \<and> rec = rec' \<and> txt = txt' \<and> sn = sn' \<and> wid = wid' \<and> eid = eid'"
proof -
  note strip = same_append_eq append_assoc
  note eq = assms [unfolded notification_canonical_def append_assoc same_append_eq]
  note 1 = json_raw_inj [OF eq, unfolded strip]
  note 2 = json_raw_inj [OF 1 [THEN conjunct2], unfolded strip]
  note 3 = json_raw_inj [OF 2 [THEN conjunct2], unfolded strip]
  note 4 = json_raw_opt_inj [OF 3 [THEN conjunct2], unfolded strip]
  note 5 = json_raw_opt_inj [OF 4 [THEN conjunct2], unfolded strip]
  note 6 = json_raw_opt_inj [OF 5 [THEN conjunct2], unfolded strip]
  note 7 = json_raw_inj [OF 6 [THEN conjunct2], unfolded strip]
  note 8 = json_raw_inj [OF 7 [THEN conjunct2], unfolded strip]
  note 9 = json_raw_inj [OF 8 [THEN conjunct2], unfolded strip]
  note 10 = json_raw_inj [OF 9 [THEN conjunct2]]
  show ?thesis
    using 1 2 3 4 5 6 7 8 9 10 notification_platform_value_inj by blast
qed

end
