(* ===== verification/Notification_Properties.thy ===== *)
theory Notification_Properties
  imports Notification_Delivery Kernel_Outcomes Example_Run
begin

text \<open>
  The properties of message identities, delivery and promotion, with their application to
  the run's Kernel.
\<close>

section \<open>The run's message identities\<close>

lemma length_json_raw: "plain s \<Longrightarrow> length (json_raw s) = length s + 2"
proof -
  assume "plain s"
  then have "length (concat (map json_escape_byte s)) = length s"
    by (induction s) (use json_escape_plain in \<open>auto simp: plain_def json_escape_byte_def\<close>)
  then show ?thesis by (simp add: json_raw_def)
qed

definition opt_length :: "string option \<Rightarrow> nat" where
  "opt_length x = (case x of None \<Rightarrow> 4 | Some s \<Rightarrow> length s + 2)"

lemma length_json_raw_opt: "option_all plain x \<Longrightarrow> length (json_raw_opt x) = opt_length x"
  by (cases x) (simp_all add: json_raw_opt_def opt_length_def length_json_raw)

lemma toy_notification_id:
  assumes "plain ds" "plain i" "plain ch" "plain m" "plain r" "plain txt" "option_all plain s" "option_all plain wid" "option_all plain eid"
    and "n = 221 + length ds + length i + length ch + length m + length r + length txt + opt_length s + opt_length wid + opt_length eid"
    and "n < 1000"
  shows "notification_id_for (sha256 toy) ds i Internal ch m r txt s wid eid = Inr (''notification:'' @ decimal n)"
proof -
  have "plain ''internal''" by (simp add: plain_def is_body_char_def is_lower_def char_between_def)
  then have "length (notification_canonical ds i Internal ch m r txt s wid eid) = n"
    using assms(10) by (simp add: notification_canonical_def length_json_raw length_json_raw_opt assms(1-9))
  moreover have "valid_identifier (''notification:'' @ decimal n)"
    using decimal_short [OF assms(11)] decimal_digits [of _ n] decimal_nonempty [of n]
    by (simp add: valid_identifier_def id_kind_def id_rest_def list_all_iff is_kind_char_def is_lower_def
      char_between_def is_body_char_def Suc_leI)
  ultimately show ?thesis using assms(10) by (simp add: notification_id_for_def toy_def)
qed

section \<open>Identities\<close>

text \<open>
  The identity of a notification names the addressed message. If SHA-256 does not
  collide on the two texts hashed, equal identities come from the same DataSpace, source,
  recipient, sender, body and references.
\<close>

theorem notification_id_names_message:
  assumes "notification_id_for sha ds i p ch m rec text sender wid eid = Inr nid"
    and "notification_id_for sha ds' i' p' ch' m' rec' text' sender' wid' eid' = Inr nid"
    and "sha (notification_canonical ds i p ch m rec text sender wid eid)
        = sha (notification_canonical ds' i' p' ch' m' rec' text' sender' wid' eid')
      \<Longrightarrow> notification_canonical ds i p ch m rec text sender wid eid
        = notification_canonical ds' i' p' ch' m' rec' text' sender' wid' eid'"
  shows "(ds, i, p, ch, m) = (ds', i', p', ch', m') \<and> (rec, text, sender, wid, eid) = (rec', text', sender', wid', eid')"
proof -
  have "''notification:'' @ sha (notification_canonical ds i p ch m rec text sender wid eid)
      = ''notification:'' @ sha (notification_canonical ds' i' p' ch' m' rec' text' sender' wid' eid')"
    using assms(1,2) unfolding notification_id_for_def validate_id_Inr by metis
  then have "sha (notification_canonical ds i p ch m rec text sender wid eid)
      = sha (notification_canonical ds' i' p' ch' m' rec' text' sender' wid' eid')"
    by (simp only: same_append_eq)
  from notification_canonical_inj [OF assms(3) [OF this]] show ?thesis by simp
qed

lemma plain_letters:
  "plain ''ds:main''" "plain ''i''" "plain ''c''" "plain ''m''" "plain ''Nagi''" "plain ''hello''" "plain ''operational''"
  "plain ''work:1''" "plain ''exec:1''"
  by (simp_all add: plain_def is_body_char_def is_lower_def is_upper_def is_digit_def char_between_def)

lemma decimal_hello: "decimal 272 = ''272''" "decimal 252 = ''252''"
  by code_simp+

theorem notification_id_names_message_witness:
  "(''ds:main'', ''i'', Internal, ''c'', ''m'') = (''ds:main'', ''i'', Internal, ''c'', ''m'') \<and>
    (''Nagi'', ''hello'', None :: string option, None :: string option, None :: string option) = (''Nagi'', ''hello'', None, None, None)"
proof -
  have "notification_id_for (sha256 toy) ''ds:main'' ''i'' Internal ''c'' ''m'' ''Nagi'' ''hello'' None None None
      = Inr (''notification:'' @ decimal 252)"
    by (rule toy_notification_id) (simp_all add: plain_letters opt_length_def)
  from notification_id_names_message [OF this this refl] show ?thesis .
qed

section \<open>A message on the run\<close>

definition post_event ::
  "string \<Rightarrow> nat \<Rightarrow> string \<Rightarrow> payload_dict \<Rightarrow> actor_type \<Rightarrow> string \<Rightarrow> string option \<Rightarrow> string \<Rightarrow> kevent" where
  "post_event sid v ty p act corr caus key =
     \<lparr>event_id = run_event_id (63 + length sid + length key), event_data_space_id = ''ds:main'', stream_id = sid,
      stream_version = v, event_type = ty, occurred_at = 0, actor_type = act, actor_id = Some ''owner:me'',
      correlation_id = Some corr, causation_id = caus, idempotency_key = key, payload = p\<rparr>"

lemma post_event_sel [simp]:
  "stream_id (post_event sid v ty p act corr caus key) = sid" "idempotency_key (post_event sid v ty p act corr caus key) = key"
  "event_id (post_event sid v ty p act corr caus key) = run_event_id (63 + length sid + length key)"
  by (simp_all add: post_event_def)

lemma post_record:
  assumes "valid_identifier sid" "valid_identifier corr" "option_all valid_identifier caus" "non_blank ty" "non_blank key" "plain key"
    and "length sid \<le> 100" "length key \<le> 500" "data_space_id (k_data_space k) = ''ds:main''"
    and "ledger_data_space_id (k_ledger k) = ''ds:main''" "length (stream_of (k_ledger k) sid) = v"
    and "version_of (k_versions k) sid = v" "dict_get (l_idempotency (k_ledger k)) key = None"
    and "dict_get (l_event_ids (k_ledger k)) (run_event_id (63 + length sid + length key)) = None"
  shows "kernel_record toy k 0 sid ty p act (Some ''owner:me'') key (Some corr) caus
    = Inr (post_event sid (Suc v) ty p act corr caus key,
           k\<lparr>k_ledger := pushed (k_ledger k) (post_event sid (Suc v) ty p act corr caus key),
             k_versions := dict_set (k_versions k) sid (Suc v)\<rparr>)"
proof -
  let ?e = "post_event sid (Suc v) ty p act corr caus key"
  have "deterministic_event_id (sha256 toy) ''ds:main'' sid key = Inr (run_event_id (63 + length sid + length key))"
    by (rule toy_event_id) (use assms identifier_plain in simp_all)
  moreover have "valid_event_envelope ?e"
    using assms by (simp add: valid_event_envelope_def post_event_def)
  ultimately have "make_event toy ''ds:main'' sid v ty p 0 act (Some ''owner:me'') (Some corr) caus key = Inr ?e"
    by (simp add: make_event_def post_event_def)
  then show ?thesis
    using assms by (simp add: kernel_record_def append_event_def ledger_append_def pushed_def Let_def post_event_def)
qed

definition hello :: agent_notification where
  "hello = agent_message ''notification:272'' ''ds:main'' ''i'' ''owner:me'' ''Nagi'' ''Nagi'' ''m'' ''hello'' ''work:1'' ''exec:1'' True"

definition hello_sent :: kernel where
  "hello_sent = run7\<lparr>k_ledger := pushed (k_ledger run7) (post_event ''notification:272'' 1 ''agent_notification_delivered''
       [(''notification'', PNotification hello)] SystemActor ''work:1'' (Some ''exec:1'') (run_key 90)),
     k_versions := dict_set (k_versions run7) ''notification:272'' 1, k_notifications := [(''notification:272'', hello)]\<rparr>"

lemma hello_id: "notification_id_for (sha256 toy) ''ds:main'' ''i'' Internal ''operational'' ''m'' ''Nagi'' ''hello'' (Some ''Nagi'')
    (Some ''work:1'') (Some ''exec:1'') = Inr ''notification:272''"
  by (subst toy_notification_id [where n = 272])
    (simp_all add: decimal_hello opt_length_def plain_letters)

lemma hello_valid: "valid_identifier ''notification:272''" "valid_agent_notification hello"
proof -
  show "valid_identifier ''notification:272''" by code_simp
  then show "valid_agent_notification hello"
    by (simp add: valid_agent_notification_def validate_source_contract_def hello_def agent_message_def text_lengths)
qed

lemma hello_sel [simp]:
  "notification_id hello = ''notification:272''" "notification_source_kind hello = AgentToAgent"
  "notification_data_space_id hello = ''ds:main''" "related_work_item_id hello = Some ''work:1''"
  "related_execution_id hello = Some ''exec:1''" "sender_agent_name hello = Some ''Nagi''"
  "recipient_agent_name hello = ''Nagi''" "requires_work_item hello" "promoted_work_item_id hello = None"
  by (simp_all add: hello_def agent_message_def)

lemma run6_notifications: "k_notifications run6 = []"
  by (simp add: run6_def run5_def run4_def run3_def run2_def run1_def run0_def fresh_kernel_def)

lemma run7_sel [simp]:
  "k_notifications run7 = []" "data_space_id (k_data_space run7) = ''ds:main''"
  "k_work_items run7 = [(''work:1'', ex_work ''work:1'')]" "k_executions run7 = [(''exec:1'', ex_execution)]"
  "k_versions run7 = [(''graph:1'', 1), (''exec:1'', 1)]" "ledger_data_space_id (k_ledger run7) = ''ds:main''"
  "k_nodes run7 = [(''node:1'', ex_node)]"
  by (simp_all add: run7_def run6_notifications)

lemma run7_ledger [simp]:
  "length (stream_of (k_ledger run7) sid) = (if sid = ''exec:1'' then 1 else if sid = ''activation:main'' then 5 else if sid = ''graph:1'' then 1 else 0)"
  "dict_get (l_idempotency (k_ledger run7)) (run_key i) = None \<longleftrightarrow> i \<notin> {10, 20, 21, 22, 23, 24, 40}"
  "dict_get (l_event_ids (k_ledger run7)) (run_event_id n) = None \<longleftrightarrow> n \<notin> {80, 98, 99, 100, 101, 102, 109}"
  by (simp_all add: run7_def run_event7_def) blast+

lemma nagi [simp]: "agent_name_is_registered k ''Nagi''"
  by (simp add: agent_name_is_registered_def reserved_agent_name_def)

lemma post_types:
  "non_blank ''agent_notification_delivered''" "non_blank ''work_item_created''" "non_blank ''agent_notification_promoted''"
  by (simp_all add: text_lengths)

lemma hello_recorded: "record_agent_notification toy run7 0 hello ''owner:me'' (run_key 90)
    = Inr (post_event ''notification:272'' 1 ''agent_notification_delivered'' [(''notification'', PNotification hello)]
        SystemActor ''work:1'' (Some ''exec:1'') (run_key 90), hello_sent)"
proof -
  have "validate_agent_message_identity run7 hello = Inr ()"
    by (simp add: validate_agent_message_identity_def)
  then show ?thesis
    by (simp add: record_agent_notification_def post_record hello_valid post_types version_of_def hello_sent_def)
qed

section \<open>Delivery\<close>

lemma send_agent_message_Inr:
  assumes "send_agent_message h k t ds i actor sender recipient m text wid eid promotable key = Inr (r, k')"
  obtains nid n where "notification_id_for (sha256 h) ds i Internal ''operational'' m recipient text (Some sender) (Some wid) (Some eid) = Inr nid"
    "n = agent_message nid ds i actor sender recipient m text wid eid promotable"
    "\<not> dict_mem nid (k_notifications k)" "agent_name_is_registered k sender" "agent_name_is_registered k recipient"
    "recorded (k\<lparr>k_notifications := dict_set (k_notifications k) nid n\<rparr>) k'"
proof -
  from assms obtain nid where nid: "notification_id_for (sha256 h) ds i Internal ''operational'' m recipient text
      (Some sender) (Some wid) (Some eid) = Inr nid"
    unfolding send_agent_message_def by (auto simp del: bind_result_Inr elim!: bind_result_InrE)
  define n where "n = agent_message nid ds i actor sender recipient m text wid eid promotable"
  have n: "notification_id n = nid" "notification_source_kind n = AgentToAgent" "sender_agent_name n = Some sender"
    "recipient_agent_name n = recipient"
    by (simp_all add: n_def agent_message_def)
  from assms nid obtain e where "record_agent_notification h k t n actor key = Inr (e, k')"
    by (auto simp: send_agent_message_def deliver_def Let_def n_def split: if_splits)
  from ensuresD [OF record_agent_notification_outcome this]
  have "\<not> dict_mem nid (k_notifications k)" "validate_agent_message_identity k n = Inr ()"
    "recorded (k\<lparr>k_notifications := dict_set (k_notifications k) nid n\<rparr>) k'"
    by (simp_all add: n)
  moreover from this(2) have "agent_name_is_registered k sender" "agent_name_is_registered k recipient"
    by (auto simp: validate_agent_message_identity_def n split: if_splits)
  ultimately show ?thesis using that nid n_def by blast
qed

text \<open>
  A message is delivered exactly once. After a successful send the recipient reads
  what it read before and the new message at the end, and sending the same message again,
  by whatever actor and under whatever idempotency key, is refused.
\<close>

theorem message_delivered_once:
  assumes "send_agent_message h k t ds i actor sender recipient m text wid eid promotable key = Inr (r, k')"
  shows "(\<exists>inbox n. receive_agent_messages k recipient = Inr inbox \<and> receive_agent_messages k' recipient = Inr (inbox @ [n])
      \<and> body n = text \<and> sender_agent_name n = Some sender \<and> source_message_id n = m)
    \<and> (\<nexists>x. send_agent_message h k' t2 ds i actor2 sender recipient m text wid eid promotable2 key2 = Inr x)"
  using assms
proof (cases rule: send_agent_message_Inr)
  case (1 nid n)
  have k': "k_notifications k' = k_notifications k @ [(nid, n)]"
    and names: "\<And>name. agent_name_is_registered k' name = agent_name_is_registered k name"
    using 1(3,6) by (auto simp: recorded_def agent_name_is_registered_def dict_set_new)
  have "receive_agent_messages k' recipient = Inr (filter (\<lambda>n. notification_source_kind n = AgentToAgent \<and>
      recipient_agent_name n = recipient) (dict_values (k_notifications k)) @ [n])"
    using 1(2,5) by (simp add: receive_agent_messages_def names k' dict_values_def agent_message_def)
  moreover have "\<nexists>x. send_agent_message h k' t2 ds i actor2 sender recipient m text wid eid promotable2 key2 = Inr x"
  proof
    assume "\<exists>x. send_agent_message h k' t2 ds i actor2 sender recipient m text wid eid promotable2 key2 = Inr x"
    then obtain r2 k2 where "send_agent_message h k' t2 ds i actor2 sender recipient m text wid eid promotable2 key2 = Inr (r2, k2)"
      by auto
    then show False
      by (cases rule: send_agent_message_Inr) (use 1(1) k' in \<open>simp add: dict_mem_def\<close>)
  qed
  ultimately show ?thesis using 1(2,5) by (simp add: receive_agent_messages_def agent_message_def)
qed

theorem message_delivered_once_witness:
  "receive_agent_messages hello_sent ''Nagi'' = Inr [hello] \<and>
    (\<nexists>x. send_agent_message toy hello_sent 1 ''ds:main'' ''i'' ''owner:me'' ''Nagi'' ''Nagi'' ''m'' ''hello'' ''work:1'' ''exec:1''
      False (run_key 91) = Inr x)"
proof -
  have "\<exists>r. send_agent_message toy run7 0 ''ds:main'' ''i'' ''owner:me'' ''Nagi'' ''Nagi'' ''m'' ''hello'' ''work:1'' ''exec:1''
      True (run_key 90) = Inr (r, hello_sent)"
    using hello_recorded hello_valid by (simp add: send_agent_message_def hello_id deliver_def Let_def flip: hello_def)
  then show ?thesis
    using message_delivered_once [of toy run7 0 "''ds:main''" "''i''" "''owner:me''" "''Nagi''" "''Nagi''" "''m''" "''hello''" "''work:1''"
        "''exec:1''" True "run_key 90" _ hello_sent 1 "''owner:me''" False "run_key 91"]
    by (auto simp: receive_agent_messages_def hello_sent_def)
qed

text \<open>
  A notification becomes at most one WorkItem. A successful promotion creates the
  given WorkItem, names it in the receipt, and makes every later promotion of the same
  notification fail.
\<close>

theorem promoted_at_most_once:
  assumes "promote h k t t' nid w aid key = Inr (Inr r, k')" and "keyed notification_id (k_notifications k)"
  shows "dict_get (k_work_items k') (work_item_id w) = Some w \<and> \<not> dict_mem (work_item_id w) (k_work_items k)
    \<and> receipt_work_item_id r = Some (work_item_id w)
    \<and> (\<nexists>x. promote h k' t2 t2' nid w2 aid2 key2 = Inr x)"
proof -
  from assms(1) obtain e where op: "promote_agent_notification h k t t' nid w aid key = Inr (Inr e, k')"
    and receipt: "(case dict_get (k_notifications k') nid of None \<Rightarrow> Inl (KeyError nid)
      | Some n \<Rightarrow> make_notification_receipt nid (event_id e) (promoted_work_item_id n)) = Inr r"
    by (auto simp: promote_def)
  from ensuresD [OF promote_agent_notification_outcome op] obtain n where
    new: "\<not> dict_mem (work_item_id w) (k_work_items k)"
    and k': "k_work_items k' = dict_set (k_work_items k) (work_item_id w) w"
      "k_notifications k' = dict_set (k_notifications k) nid (n\<lparr>promoted_work_item_id := Some (work_item_id w)\<rparr>)"
    by (auto simp: Let_def recorded_def)
  have "receipt_work_item_id r = Some (work_item_id w)"
    using receipt k'(2) by (auto simp: make_notification_receipt_def Let_def split: if_splits)
  moreover have "\<nexists>x. promote h k' t2 t2' nid w2 aid2 key2 = Inr x"
    by (auto simp: promote_def promote_agent_notification_def check_promotion_def k'(2) split: if_splits)
  ultimately show ?thesis using new k'(1) by simp
qed

lemma valid_work_22 [simp]: "valid_identifier ''work:22''"
  by code_simp

definition hello_kernel :: kernel where
  "hello_kernel = run0\<lparr>k_nodes := [(''node:1'', ex_node)], k_notifications := [(''notification:272'', hello)]\<rparr>"

lemma hello_promoted:
  "\<exists>r k'. promote toy hello_kernel 0 0 ''notification:272'' (ex_work ''work:22'') ''owner:me'' (run_key 92) = Inr (Inr r, k')"
proof -
  let ?key = "run_key 92 @ '':work-item''"
  have key: "plain ?key" "length ?key = 102" "run_key 92 \<noteq> ?key" "non_blank ?key"
    by (simp_all add: plain_def run_key_def list_all_iff is_body_char_def is_lower_def char_between_def non_blank_def py_len_def)
  let ?k1 = "hello_kernel\<lparr>k_ledger := pushed (k_ledger hello_kernel)
      (post_event ''work:22'' 1 ''work_item_created'' [(''work_item'', PWork (ex_work ''work:22''))] Human ''work:22'' None ?key),
    k_versions := [(''work:22'', 1)], k_work_items := [(''work:22'', ex_work ''work:22'')]\<rparr>"
  have "check_new_work_item hello_kernel (ex_work ''work:22'') = Inr ()"
    by (simp add: check_new_work_item_def hello_kernel_def) (simp add: ex_work_def missing_node_def)
  moreover have "parent_edges (ex_work ''work:22'') = []" by (simp add: parent_edges_def ex_work_def)
  ultimately have "\<exists>e. create_work_item toy hello_kernel 0 (ex_work ''work:22'') ''owner:me'' ?key = Inr (e, ?k1)"
    using key by (simp add: create_work_item_def post_record hello_kernel_def post_types version_of_def)
  moreover have "check_promotion hello_kernel ''notification:272'' (ex_work ''work:22'') = Inr hello"
    by (simp add: check_promotion_def hello_kernel_def) (simp add: ex_work_def)
  moreover have "\<exists>k2. kernel_record toy ?k1 0 ''notification:272'' ''agent_notification_promoted''
      [(''notification_id'', PStr ''notification:272''), (''work_item_id'', PStr ''work:22'')] SystemActor (Some ''owner:me'')
      (run_key 92) (Some ''work:22'') (Some ''notification:272'') = Inr (post_event ''notification:272'' (Suc 0)
        ''agent_notification_promoted'' [(''notification_id'', PStr ''notification:272''), (''work_item_id'', PStr ''work:22'')]
        SystemActor ''work:22'' (Some ''notification:272'') (run_key 92), k2)"
    by (rule exI, rule post_record) (use key in \<open>simp_all add: hello_kernel_def post_types version_of_def hello_valid\<close>)
  ultimately obtain e k2 where
    c: "create_work_item toy hello_kernel 0 (ex_work ''work:22'') ''owner:me'' ?key = Inr (e, ?k1)"
      "check_promotion hello_kernel ''notification:272'' (ex_work ''work:22'') = Inr hello"
    and r: "kernel_record toy ?k1 0 ''notification:272'' ''agent_notification_promoted''
      [(''notification_id'', PStr ''notification:272''), (''work_item_id'', PStr ''work:22'')] SystemActor (Some ''owner:me'')
      (run_key 92) (Some ''work:22'') (Some ''notification:272'') = Inr (post_event ''notification:272'' (Suc 0)
        ''agent_notification_promoted'' [(''notification_id'', PStr ''notification:272''), (''work_item_id'', PStr ''work:22'')]
        SystemActor ''work:22'' (Some ''notification:272'') (run_key 92), k2)"
    by blast
  show ?thesis
    unfolding promote_def promote_agent_notification_def c bind_result_simps prod.case hello_sel ex_graph_sel r sum.case
    by (simp add: make_notification_receipt_def valid_agent_notification_receipt_def hello_valid)
qed

theorem promoted_at_most_once_witness:
  "\<exists>r k'. dict_get (k_work_items k') ''work:22'' = Some (ex_work ''work:22'') \<and> receipt_work_item_id r = Some ''work:22''
    \<and> promote toy hello_kernel 0 0 ''notification:272'' (ex_work ''work:22'') ''owner:me'' (run_key 92) = Inr (Inr r, k')
    \<and> (\<nexists>x. promote toy k' 1 1 ''notification:272'' (ex_work ''work:3'') ''owner:me'' (run_key 93) = Inr x)"
proof -
  obtain r k' where step: "promote toy hello_kernel 0 0 ''notification:272'' (ex_work ''work:22'') ''owner:me'' (run_key 92) = Inr (Inr r, k')"
    using hello_promoted by blast
  moreover have "keyed notification_id (k_notifications hello_kernel)" by (simp add: hello_kernel_def keyed_def)
  ultimately show ?thesis using promoted_at_most_once [OF step] by auto
qed

end
