(* ===== verification/Routing.thy ===== *)
theory Routing
  imports Events "HOL-Library.List_Lexorder" "HOL-Library.Product_Lexorder" "HOL-Library.Char_ord"
begin

text \<open>
  \<^verbatim>\<open>vsm/routing/bayesian.py\<close>: the posteriors of each registered model, the scores and the
  selection of a production route, the coding escalation, and the service that persists
  verified outcomes before it updates the posteriors.

  A finite \<^verbatim>\<open>float\<close> is the real it denotes, and each arithmetic operation is the exact one
  followed by the rounding \<open>fl\<close>. The functions of the C library behind \<^verbatim>\<open>math\<close> and \<^verbatim>\<open>**\<close> are
  arguments too, collected in \<open>float_env\<close>; \<open>exp_fn\<close> may raise \<^verbatim>\<open>OverflowError\<close>. Results
  beyond the range of a double (infinities, not-a-number) are outside the model.
\<close>

section \<open>Floating point\<close>

record float_env =
  fl :: "real \<Rightarrow> real"
  log_fn :: "real \<Rightarrow> real"
  exp_fn :: "real \<Rightarrow> real result"
  square_fn :: "real \<Rightarrow> real"

definition f_add :: "float_env \<Rightarrow> real \<Rightarrow> real \<Rightarrow> real" where "f_add f x y = fl f (x + y)"
definition f_sub :: "float_env \<Rightarrow> real \<Rightarrow> real \<Rightarrow> real" where "f_sub f x y = fl f (x - y)"
definition f_mul :: "float_env \<Rightarrow> real \<Rightarrow> real \<Rightarrow> real" where "f_mul f x y = fl f (x * y)"
definition f_div :: "float_env \<Rightarrow> real \<Rightarrow> real \<Rightarrow> real" where "f_div f x y = fl f (x / y)"

section \<open>Priors and posteriors\<close>

datatype prior_source = ArtificialAnalysis | TerminalBench | SweBench | Bfcl | LocalVerification

datatype benchmark_family = Coding | ToolUse | InterfaceFamily

fun prior_source_value :: "prior_source \<Rightarrow> string" where
  "prior_source_value ArtificialAnalysis = ''artificial-analysis''"
| "prior_source_value TerminalBench = ''terminal-bench''"
| "prior_source_value SweBench = ''swe-bench''"
| "prior_source_value Bfcl = ''bfcl''"
| "prior_source_value LocalVerification = ''local-verification''"

fun prior_families :: "prior_source \<Rightarrow> benchmark_family" where
  "prior_families ArtificialAnalysis = Coding"
| "prior_families TerminalBench = Coding"
| "prior_families SweBench = Coding"
| "prior_families Bfcl = ToolUse"
| "prior_families LocalVerification = InterfaceFamily"

record benchmark_prior =
  prior_source :: prior_source
  benchmark_family :: benchmark_family
  prior_version :: string
  sample_count :: nat
  harness :: string
  prior_successes :: nat
  prior_failures :: nat
  log_token_samples :: "real list"
  log_cost_samples :: "real list"
  log_latency_samples :: "real list"

definition valid_benchmark_prior :: "benchmark_prior \<Rightarrow> bool" where
  "valid_benchmark_prior p \<longleftrightarrow> 1 \<le> py_len (prior_version p) \<and> 0 < sample_count p \<and> 1 \<le> py_len (harness p)
     \<and> log_token_samples p \<noteq> [] \<and> log_cost_samples p \<noteq> [] \<and> log_latency_samples p \<noteq> []"

record beta_posterior =
  success_alpha :: real
  success_beta :: real

definition beta_mean :: "float_env \<Rightarrow> beta_posterior \<Rightarrow> real" where
  "beta_mean f b = f_div f (success_alpha b) (f_add f (success_alpha b) (success_beta b))"

definition beta_update :: "float_env \<Rightarrow> beta_posterior \<Rightarrow> bool \<Rightarrow> beta_posterior" where
  "beta_update f b success =
     (if success then b\<lparr>success_alpha := f_add f (success_alpha b) 1\<rparr>
      else b\<lparr>success_beta := f_add f (success_beta b) 1\<rparr>)"

record normal_inverse_gamma =
  nig_mu :: real
  nig_lam :: real
  nig_alpha :: real
  nig_beta :: real

text \<open>The field defaults; \<^verbatim>\<open>1e-6\<close> is the double nearest to it.\<close>

definition initial_nig :: "float_env \<Rightarrow> normal_inverse_gamma" where
  "initial_nig f = \<lparr>nig_mu = 0, nig_lam = fl f (1 / 1000000), nig_alpha = 1, nig_beta = 1\<rparr>"

definition nig_update :: "float_env \<Rightarrow> normal_inverse_gamma \<Rightarrow> real \<Rightarrow> normal_inverse_gamma" where
  "nig_update f g x =
     (let old_mu = nig_mu g; old_lam = nig_lam g; lam = f_add f old_lam 1 in
      \<lparr>nig_mu = f_div f (f_add f (f_mul f old_lam old_mu) x) lam, nig_lam = lam,
       nig_alpha = f_add f (nig_alpha g) (1 / 2),
       nig_beta = f_add f (nig_beta g)
         (f_div f (f_mul f (f_mul f (1 / 2) old_lam) (square_fn f (f_sub f x old_mu))) lam)\<rparr>)"

definition geometric_mean :: "float_env \<Rightarrow> normal_inverse_gamma \<Rightarrow> real result" where
  "geometric_mean f g = exp_fn f (nig_mu g)"

record confusion_matrix =
  true_positive :: nat
  true_negative :: nat
  false_positive :: nat
  false_negative :: nat

definition confusion_update :: "confusion_matrix \<Rightarrow> bool \<Rightarrow> bool \<Rightarrow> confusion_matrix" where
  "confusion_update m predicted verified =
     (if predicted \<and> verified then m\<lparr>true_positive := true_positive m + 1\<rparr>
      else if \<not> predicted \<and> \<not> verified then m\<lparr>true_negative := true_negative m + 1\<rparr>
      else if predicted then m\<lparr>false_positive := false_positive m + 1\<rparr>
      else m\<lparr>false_negative := false_negative m + 1\<rparr>)"

record candidate_posterior =
  posterior_candidate :: model_candidate
  post_success :: beta_posterior
  post_tokens :: normal_inverse_gamma
  post_cost :: normal_inverse_gamma
  post_latency :: normal_inverse_gamma
  judge_confusion :: confusion_matrix
  verified_samples :: nat
  deterministic_or_human_samples :: nat
  prior_sources :: "benchmark_prior list"

definition initial_posterior :: "float_env \<Rightarrow> model_candidate \<Rightarrow> candidate_posterior" where
  "initial_posterior f c =
     \<lparr>posterior_candidate = c, post_success = \<lparr>success_alpha = 1, success_beta = 1\<rparr>,
      post_tokens = initial_nig f, post_cost = initial_nig f, post_latency = initial_nig f,
      judge_confusion = \<lparr>true_positive = 0, true_negative = 0, false_positive = 0, false_negative = 0\<rparr>,
      verified_samples = 0, deterministic_or_human_samples = 0, prior_sources = []\<rparr>"

section \<open>The router\<close>

record router =
  quality_weight :: real
  cost_weight :: real
  latency_weight :: real
  posteriors :: "(string, candidate_posterior) dict"

definition init_router :: "real \<Rightarrow> real \<Rightarrow> real \<Rightarrow> router result" where
  "init_router quality cost latency =
     (if quality \<le> 0 then raise_violation ''quality weight must be positive''
      else if cost < 0 \<or> latency < 0 then raise_violation ''cost and latency weights must be non-negative''
      else Inr \<lparr>quality_weight = quality, cost_weight = cost, latency_weight = latency, posteriors = []\<rparr>)"

text \<open>One turn of the loop over the priors: the running alpha, beta and posterior.\<close>

definition absorb_prior ::
  "float_env \<Rightarrow> benchmark_prior \<Rightarrow> real \<times> real \<times> candidate_posterior \<Rightarrow> (real \<times> real \<times> candidate_posterior) result" where
  "absorb_prior f p = (\<lambda>(alpha, beta, q).
     if benchmark_family p \<noteq> prior_families (prior_source p)
     then raise_violation (''benchmark source/family mismatch: '' @ prior_source_value (prior_source p))
     else if prior_successes p + prior_failures p \<noteq> sample_count p
     then raise_violation ''benchmark sample_count does not match outcomes''
     else Inr (f_add f alpha (fl f (real (prior_successes p))), f_add f beta (fl f (real (prior_failures p))),
       q\<lparr>post_tokens := foldl (nig_update f) (post_tokens q) (log_token_samples p),
         post_cost := foldl (nig_update f) (post_cost q) (log_cost_samples p),
         post_latency := foldl (nig_update f) (post_latency q) (log_latency_samples p),
         prior_sources := prior_sources q @ [p]\<rparr>))"

fun absorb_priors ::
  "float_env \<Rightarrow> benchmark_prior list \<Rightarrow> real \<times> real \<times> candidate_posterior \<Rightarrow> (real \<times> real \<times> candidate_posterior) result" where
  "absorb_priors f [] s = Inr s"
| "absorb_priors f (p # ps) s = bind_result (absorb_prior f p s) (absorb_priors f ps)"

definition register_candidate :: "float_env \<Rightarrow> router \<Rightarrow> model_candidate \<Rightarrow> benchmark_prior list \<Rightarrow> router result" where
  "register_candidate f R c priors =
     (if dict_mem (candidate_key c) (posteriors R) then raise_violation ''ModelCandidate is already registered''
      else if priors = [] then raise_violation ''ModelCandidate requires an explicit prior''
      else bind_result (absorb_priors f priors (1, 1, initial_posterior f c)) (\<lambda>(alpha, beta, q).
        Inr (R\<lparr>posteriors := dict_set (posteriors R) (candidate_key c)
                  (q\<lparr>post_success := \<lparr>success_alpha = alpha, success_beta = beta\<rparr>\<rparr>)\<rparr>)))"

definition require_candidate :: "router \<Rightarrow> string \<Rightarrow> candidate_posterior result" where
  "require_candidate R key =
     (case dict_get (posteriors R) key of
        None \<Rightarrow> raise_violation (''unregistered ModelCandidate: '' @ key) | Some q \<Rightarrow> Inr q)"

definition validate_verified ::
  "router \<Rightarrow> string \<Rightarrow> int \<Rightarrow> real \<Rightarrow> int \<Rightarrow> judge_observation option \<Rightarrow> candidate_posterior result" where
  "validate_verified R key tokens cost latency_ms judge =
     bind_result (require_candidate R key) (\<lambda>q.
     if tokens \<le> 0 \<or> cost \<le> 0 \<or> latency_ms \<le> 0 then raise_violation ''verified metrics must be positive''
     else case judge of None \<Rightarrow> Inr q
     | Some j \<Rightarrow>
       (if judge_candidate_key j \<noteq> key then raise_violation ''JudgeObservation candidate mismatch''
        else if verified_success j = None
        then raise_violation ''verified router update requires verified Judge outcome''
        else Inr q))"

text \<open>The update mutates the posterior object that \<^verbatim>\<open>_posteriors\<close> holds.\<close>

definition update_verified ::
  "float_env \<Rightarrow> router \<Rightarrow> string \<Rightarrow> bool \<Rightarrow> int \<Rightarrow> real \<Rightarrow> int \<Rightarrow> judge_observation option \<Rightarrow> router result" where
  "update_verified f R key success tokens cost latency_ms judge =
     bind_result (validate_verified R key tokens cost latency_ms judge) (\<lambda>q.
     Inr (R\<lparr>posteriors := dict_set (posteriors R) key
       (q\<lparr>post_success := beta_update f (post_success q) success,
          post_tokens := nig_update f (post_tokens q) (log_fn f (of_int tokens)),
          post_cost := nig_update f (post_cost q) (log_fn f cost),
          post_latency := nig_update f (post_latency q) (log_fn f (of_int latency_ms)),
          verified_samples := verified_samples q + 1,
          deterministic_or_human_samples :=
            (if case judge of None \<Rightarrow> True | Some j \<Rightarrow> judge_kind j \<in> {Deterministic, HumanJudge}
             then deterministic_or_human_samples q + 1 else deterministic_or_human_samples q),
          judge_confusion :=
            (case judge of None \<Rightarrow> judge_confusion q
             | Some j \<Rightarrow> confusion_update (judge_confusion q) (predicted_success j)
                 (verified_success j = Some True))\<rparr>)\<rparr>))"

section \<open>Scores and selection\<close>

record raw_score =
  raw_reliability :: real
  raw_tokens :: real
  raw_cost :: real
  raw_latency :: real
  raw_utility :: real

definition raw_score_of :: "float_env \<Rightarrow> router \<Rightarrow> string \<Rightarrow> raw_score result" where
  "raw_score_of f R key =
     bind_result (require_candidate R key) (\<lambda>q.
     bind_result (geometric_mean f (post_tokens q)) (\<lambda>tokens.
     bind_result (geometric_mean f (post_cost q)) (\<lambda>cost.
     bind_result (geometric_mean f (post_latency q)) (\<lambda>latency.
       let reliability = beta_mean f (post_success q) in
       Inr \<lparr>raw_reliability = reliability, raw_tokens = tokens, raw_cost = cost, raw_latency = latency,
            raw_utility = f_sub f (f_sub f (f_mul f (quality_weight R) reliability) (f_mul f (cost_weight R) cost))
              (f_mul f (latency_weight R) latency)\<rparr>))))"

fun raw_scores :: "float_env \<Rightarrow> router \<Rightarrow> string list \<Rightarrow> (string, raw_score) dict \<Rightarrow> (string, raw_score) dict result" where
  "raw_scores f R [] d = Inr d"
| "raw_scores f R (key # keys) d = bind_result (raw_score_of f R key) (\<lambda>r. raw_scores f R keys (dict_set d key r))"

text \<open>The three sort keys; \<^verbatim>\<open>sorted\<close> is stable, as \<^const>\<open>sort_key\<close> is.\<close>

definition raw_get :: "(string, raw_score) dict \<Rightarrow> (raw_score \<Rightarrow> real) \<Rightarrow> string \<Rightarrow> real" where
  "raw_get d field key = (case dict_get d key of None \<Rightarrow> 0 | Some r \<Rightarrow> field r)"

fun ordering :: "(string, raw_score) dict \<Rightarrow> production_objective \<Rightarrow> string list \<Rightarrow> string list" where
  "ordering d ReliabilityThenCost keys =
     sort_key (\<lambda>key. (- raw_get d raw_reliability key, raw_get d raw_cost key, key)) keys"
| "ordering d ExpectedUtility keys = sort_key (\<lambda>key. (- raw_get d raw_utility key, key)) keys"
| "ordering d QualityMax keys = sort_key (\<lambda>key. (- raw_get d raw_reliability key, key)) keys"

record route_score =
  score_candidate_key :: string
  score_raw :: raw_score
  ranks :: "production_objective \<Rightarrow> nat"

text \<open>\<^verbatim>\<open>ordering.index(key) + 1\<close>.\<close>

definition rank_in :: "string list \<Rightarrow> string \<Rightarrow> nat" where
  "rank_in xs key = length (takeWhile (\<lambda>x. x \<noteq> key) xs) + 1"

definition scores :: "float_env \<Rightarrow> router \<Rightarrow> string list \<Rightarrow> route_score list result" where
  "scores f R keys =
     (if keys = [] then raise_violation ''routing requires at least one candidate''
      else bind_result (raw_scores f R keys []) (\<lambda>d.
        Inr (map (\<lambda>key. \<lparr>score_candidate_key = key,
                         score_raw = (case dict_get d key of None \<Rightarrow> \<lparr>raw_reliability = 0, raw_tokens = 0, raw_cost = 0,
                             raw_latency = 0, raw_utility = 0\<rparr> | Some r \<Rightarrow> r),
                         ranks = (\<lambda>objective. rank_in (ordering d objective keys) key)\<rparr>) keys)))"

section \<open>The coding route\<close>

definition coding_route_key :: string where
  "coding_route_key = ''coding:personal-production''"

definition coding_route_candidate_models :: "string list" where
  "coding_route_candidate_models = [''gpt-5.6-luna'', ''gpt-5.6-sol'']"

fun collect_coding :: "model_candidate list \<Rightarrow> (string, model_candidate) dict \<Rightarrow> (string, model_candidate) dict result" where
  "collect_coding [] d = Inr d"
| "collect_coding (c # cs) d =
     (case candidate_model_snapshot c of
        None \<Rightarrow> collect_coding cs d
      | Some m \<Rightarrow>
        (if m \<notin> set coding_route_candidate_models then collect_coding cs d
         else if candidate_provider c \<noteq> ''openai'' \<or> \<not> candidate_selection_exact c \<or> candidate_effort c \<noteq> ''xhigh''
         then raise_violation ''coding escalation candidates must be exact openai/xhigh models''
         else if dict_mem m d
         then raise_violation (''coding escalation candidate is registered more than once: '' @ m)
         else collect_coding cs (dict_set d m c)))"

definition require_coding_escalation_candidates :: "model_candidate list \<Rightarrow> (model_candidate \<times> model_candidate) result" where
  "require_coding_escalation_candidates cs =
     bind_result (collect_coding cs []) (\<lambda>d.
     case (dict_get d ''gpt-5.6-luna'', dict_get d ''gpt-5.6-sol'') of
       (Some luna, Some sol) \<Rightarrow> Inr (luna, sol)
     | _ \<Rightarrow> raise_violation ''production coding route requires exactly gpt-5.6-luna and gpt-5.6-sol candidates'')"

definition require_coding_route_candidate_keys :: "string \<Rightarrow> string list \<Rightarrow> model_candidate list \<Rightarrow> unit result" where
  "require_coding_route_candidate_keys rkey keys cs =
     (if rkey \<noteq> coding_route_key then Inr ()
      else bind_result (require_coding_escalation_candidates cs) (\<lambda>(luna, sol).
        if keys \<noteq> [candidate_key luna, candidate_key sol]
        then raise_violation (''coding:personal-production requires candidate keys in ''
          @ ''gpt-5.6-luna/xhigh then gpt-5.6-sol/xhigh order'')
        else Inr ()))"

definition select_production :: "float_env \<Rightarrow> router \<Rightarrow> route_snapshot \<Rightarrow> route_score result" where
  "select_production f R s =
     (if route_state s \<noteq> Published then raise_violation ''production routing requires a published RouteSnapshot''
      else bind_result
        (if route_key s = coding_route_key
         then require_coding_route_candidate_keys (route_key s) (candidate_keys s)
           (map posterior_candidate (dict_values (posteriors R)))
         else Inr ()) (\<lambda>_.
      bind_result (scores f R (candidate_keys s)) (\<lambda>ss.
        let selected = (if route_key s = coding_route_key then hd ss
          else arg_min_list (\<lambda>score. ranks score (production_objective s)) ss) in
        bind_result (require_candidate R (score_candidate_key selected)) (\<lambda>q.
          if 0 < verified_samples q \<and> deterministic_or_human_samples q = 0
          then raise_violation ''AI Judge evidence alone cannot promote a production route''
          else Inr selected))))"

section \<open>Escalation\<close>

record 'h escalation_decision =
  selected_candidate_key :: string
  continue_expected_tokens :: real
  handoff_expected_tokens :: real
  escalation_reason :: string
  decided_handoff_pack :: "'h option"

text \<open>The handoff pack is passed through unread.\<close>

definition decide_escalation ::
  "float_env \<Rightarrow> router \<Rightarrow> string \<Rightarrow> string \<Rightarrow> int \<Rightarrow> 'h \<Rightarrow> 'h escalation_decision result" where
  "decide_escalation f R luna_key sol_key handoff_tokens pack =
     bind_result (require_candidate R luna_key) (\<lambda>luna.
     bind_result (require_candidate R sol_key) (\<lambda>sol.
     if candidate_model_snapshot (posterior_candidate luna) \<noteq> Some ''gpt-5.6-luna''
        \<or> candidate_effort (posterior_candidate luna) \<noteq> ''xhigh''
        \<or> candidate_model_snapshot (posterior_candidate sol) \<noteq> Some ''gpt-5.6-sol''
        \<or> candidate_effort (posterior_candidate sol) \<noteq> ''xhigh''
     then raise_violation ''explicit coding escalation is gpt-5.6-luna/xhigh to gpt-5.6-sol/xhigh''
     else if handoff_tokens < 0 then raise_violation ''handoff token estimate must be non-negative''
     else bind_result (geometric_mean f (post_tokens luna)) (\<lambda>luna_tokens.
       bind_result (geometric_mean f (post_tokens sol)) (\<lambda>sol_tokens.
       let floor_mean = (\<lambda>q. max (beta_mean f (post_success q)) (fl f (1 / 1000000000)));
           luna_remaining = f_div f luna_tokens (floor_mean luna);
           sol_remaining = f_add f (fl f (of_int handoff_tokens)) (f_div f sol_tokens (floor_mean sol)) in
       Inr (if sol_remaining < luna_remaining
            then \<lparr>selected_candidate_key = sol_key, continue_expected_tokens = luna_remaining,
                  handoff_expected_tokens = sol_remaining, escalation_reason = ''handoff_to_sol'',
                  decided_handoff_pack = Some pack\<rparr>
            else \<lparr>selected_candidate_key = luna_key, continue_expected_tokens = luna_remaining,
                  handoff_expected_tokens = sol_remaining, escalation_reason = ''continue_luna'',
                  decided_handoff_pack = None\<rparr>)))))"

section \<open>Persisted evidence\<close>

record evidence_service =
  e_router :: router
  e_data_space_id :: string
  outcomes :: "(string, verified_route_outcome) dict"
  e_versions :: "(string, nat) dict"
  evidence_cursor_of :: nat

definition apply_outcome :: "float_env \<Rightarrow> evidence_service \<Rightarrow> verified_route_outcome \<Rightarrow> evidence_service result" where
  "apply_outcome f E v =
     bind_result (update_verified f (e_router E) (outcome_candidate_key v) (outcome_success v) (outcome_tokens v)
         (outcome_cost v) (outcome_latency_ms v) (outcome_judge v)) (\<lambda>R.
       Inr (E\<lparr>e_router := R, outcomes := dict_set (outcomes E) (outcome_id v) v\<rparr>))"

text \<open>
  After the append the update cannot fail on what \<open>validate_verified\<close> has accepted, so the
  result needs no state beside a late exception (see \<open>record_outcome_applies\<close>).
\<close>

definition record_outcome ::
  "hashing \<Rightarrow> float_env \<Rightarrow> evidence_service \<Rightarrow> kledger \<Rightarrow> time \<Rightarrow> verified_route_outcome \<Rightarrow> string \<Rightarrow> string
    \<Rightarrow> (kevent \<times> evidence_service \<times> kledger) result" where
  "record_outcome h f E L t v aid key =
     (if dict_mem (outcome_id v) (outcomes E)
      then raise_violation (''verified route outcome already exists: '' @ outcome_id v)
      else bind_result (validate_verified (e_router E) (outcome_candidate_key v) (outcome_tokens v) (outcome_cost v)
          (outcome_latency_ms v) (outcome_judge v)) (\<lambda>_.
        let expected = version_of (e_versions E) (outcome_id v) in
        bind_result (append_event h L (e_data_space_id E) (outcome_id v) expected ''model_outcome_verified''
            [(''outcome'', POutcome v)] t Human (Some aid) (Some (outcome_id v)) None key) (\<lambda>(e, r, L').
          bind_result (apply_outcome f
             (E\<lparr>e_versions := dict_set (e_versions E) (outcome_id v) (result_stream_version r),
                evidence_cursor_of := max (evidence_cursor_of E) (result_cursor r)\<rparr>) v) (\<lambda>E'.
            Inr (e, E', L')))))"

definition replay_outcome ::
  "float_env \<Rightarrow> evidence_service \<Rightarrow> verified_route_outcome \<Rightarrow> nat \<Rightarrow> nat \<Rightarrow> evidence_service result" where
  "replay_outcome f E v version cur =
     (if dict_mem (outcome_id v) (outcomes E)
      then raise_violation (''duplicate verified route outcome: '' @ outcome_id v)
      else bind_result (apply_outcome f E v) (\<lambda>E'.
        Inr (E'\<lparr>e_versions := dict_set (e_versions E') (outcome_id v) version,
                evidence_cursor_of := max (evidence_cursor_of E') cur\<rparr>)))"

text \<open>\<^verbatim>\<open>OperationalProjection._on_model_outcome_verified\<close>, with the service configured.\<close>

definition on_model_outcome_verified :: "float_env \<Rightarrow> nat \<Rightarrow> evidence_service \<Rightarrow> kevent \<Rightarrow> evidence_service result" where
  "on_model_outcome_verified f cur E e =
     bind_result (payload_get (payload e) ''outcome'') (\<lambda>x.
     bind_result (model_validate ''VerifiedRouteOutcome'' as_outcome valid_verified_route_outcome x) (\<lambda>v.
     replay_outcome f E v (stream_version e) cur))"

end
