(* ===== verification/Token_Lab.thy ===== *)
theory Token_Lab
  imports Routing
begin

text \<open>
  \<^verbatim>\<open>vsm/token_lab/lab.py\<close>: the deterministic evaluation of token observations against
  approved baselines, and \<^verbatim>\<open>TokenLabEventService\<close>, which persists baselines, observations
  and weekly reviews before it applies them. The \<^verbatim>\<open>float\<close>s are those of \<open>Routing\<close>.
\<close>

section \<open>The lab\<close>

record token_lab =
  baselines :: "(string, token_baseline) dict"
  observations :: "token_observation list"
  last_weekly_review_at :: "time option"

definition init_token_lab :: token_lab where
  "init_token_lab = \<lparr>baselines = [], observations = [], last_weekly_review_at = None\<rparr>"

definition single_event_triggers :: "token_incident_kind set" where
  "single_event_triggers = {PermissionClassifier, ModelSubstitution, ContextReload, ModelCallPolling, FalseComplete}"

definition lab_approve_baseline :: "token_lab \<Rightarrow> token_baseline \<Rightarrow> token_lab" where
  "lab_approve_baseline T b = T\<lparr>baselines := dict_set (baselines T) (baseline_work_type b) b\<rparr>"

definition logic_trigger :: "string \<Rightarrow> string \<Rightarrow> string list \<Rightarrow> investigation_trigger" where
  "logic_trigger reason work_type ids = \<lparr>trigger_reason = reason, trigger_work_type = work_type,
     trigger_observation_ids = ids, logic_only = True, allowed_model = None, allowed_effort = None\<rparr>"

definition direct_incidents :: "token_observation \<Rightarrow> token_incident_kind list" where
  "direct_incidents x =
     filter (\<lambda>k. k \<in> incident_kinds x \<and> k \<in> single_event_triggers \<or> full_history_resent x \<and> k = ContextReload)
       sorted_incident_kinds"

text \<open>\<^verbatim>\<open>sum(...) / len(comparable)\<close> divides two integers: one rounding of the exact quotient.\<close>

definition mean_degraded :: "float_env \<Rightarrow> token_observation list \<Rightarrow> token_baseline \<Rightarrow> bool" where
  "mean_degraded f comparable b \<longleftrightarrow>
     f_mul f (approved_mean_input_tokens b) (fl f (11 / 10))
       \<le> fl f (real (sum_list (map total_input_tokens comparable)) / real (length comparable))"

definition evaluate :: "float_env \<Rightarrow> token_lab \<Rightarrow> token_observation \<Rightarrow> investigation_trigger list" where
  "evaluate f T x =
     (let work_type = obs_work_type x;
          comparable = filter (\<lambda>y. obs_work_type y = work_type) (observations T @ [x])
      in map (\<lambda>k. logic_trigger (''single_event:'' @ token_incident_kind_value k) work_type [observation_id x])
           (direct_incidents x)
         @ (if 20 \<le> length comparable
               \<and> (case dict_get (baselines T) work_type of None \<Rightarrow> False | Some b \<Rightarrow> mean_degraded f comparable b)
            then [logic_trigger ''twenty_item_mean_degraded_by_ten_percent'' work_type
                    (map observation_id (drop (length comparable - 20) comparable))]
            else []))"

definition lab_observe ::
  "float_env \<Rightarrow> token_lab \<Rightarrow> token_observation \<Rightarrow> (investigation_trigger list \<times> token_lab) result" where
  "lab_observe f T x =
     (if \<exists>y \<in> set (observations T). observation_id y = observation_id x
      then raise_violation (''TokenObservation already exists: '' @ observation_id x)
      else Inr (evaluate f T x, T\<lparr>observations := observations T @ [x]\<rparr>))"

definition authorize_model_experiment ::
  "investigation_trigger \<Rightarrow> string \<Rightarrow> string \<Rightarrow> investigation_trigger result" where
  "authorize_model_experiment g model effort =
     (if contains ''opus'' (py_lower model) then raise_violation ''Token Efficiency Lab forbids Opus''
      else if effort \<noteq> ''low'' then raise_violation ''Token Efficiency Lab model effort must be low''
      else Inr (g\<lparr>logic_only := False, allowed_model := Some model, allowed_effort := Some effort\<rparr>))"

definition week :: time where
  "week = 7 * 24 * 60 * 60 * 1000000"

definition weekly_due :: "token_lab \<Rightarrow> time \<Rightarrow> bool" where
  "weekly_due T now \<longleftrightarrow> observations T \<noteq> [] \<and>
     week \<le> now - (case last_weekly_review_at T of
        Some t \<Rightarrow> t | None \<Rightarrow> Min (obs_occurred_at ` set (observations T)))"

definition mark_weekly_reviewed :: "token_lab \<Rightarrow> time \<Rightarrow> token_lab result" where
  "mark_weekly_reviewed T t =
     (if (case last_weekly_review_at T of None \<Rightarrow> False | Some last_t \<Rightarrow> t \<le> last_t)
      then raise_violation ''Token Lab weekly review time must advance''
      else Inr (T\<lparr>last_weekly_review_at := Some t\<rparr>))"

section \<open>The acceptance report\<close>

record acceptance_report =
  total_input_reduction :: real
  interface_input_reduction :: real
  report_golden_passed :: int
  report_golden_total :: int
  report_polling :: nat
  report_classifier_triggers :: int
  report_full_history_resends :: nat
  report_false_complete :: nat
  accepted :: bool

definition incident_count :: "token_lab \<Rightarrow> token_incident_kind \<Rightarrow> nat" where
  "incident_count T k = length (filter (\<lambda>x. k \<in> incident_kinds x) (observations T))"

definition acceptance_report_of ::
  "float_env \<Rightarrow> token_lab \<Rightarrow> int \<Rightarrow> int \<Rightarrow> int \<Rightarrow> int \<Rightarrow> int \<Rightarrow> int \<Rightarrow> int \<Rightarrow> acceptance_report result" where
  "acceptance_report_of f T before_total after_total before_interface after_interface golden_passed golden_total classifier =
     (if before_total \<le> 0 \<or> before_interface \<le> 0 then raise_violation ''before token totals must be positive''
      else
        (let total_reduction = f_sub f 1 (fl f (of_int after_total / of_int before_total));
             interface_reduction = f_sub f 1 (fl f (of_int after_interface / of_int before_interface));
             resends = length (filter full_history_resent (observations T));
             false_completes = incident_count T FalseComplete;
             polling = incident_count T ModelCallPolling
         in Inr \<lparr>total_input_reduction = total_reduction, interface_input_reduction = interface_reduction,
              report_golden_passed = golden_passed, report_golden_total = golden_total, report_polling = polling,
              report_classifier_triggers = classifier, report_full_history_resends = resends,
              report_false_complete = false_completes,
              accepted = (1 / 2 \<le> total_reduction \<and> fl f (7 / 10) \<le> interface_reduction \<and> golden_passed = golden_total
                \<and> polling = 0 \<and> classifier = 0 \<and> resends = 0 \<and> false_completes = 0)\<rparr>))"

section \<open>The persisting service\<close>

record token_lab_events =
  lab :: token_lab
  tl_data_space_id :: string
  tl_versions :: "(string, nat) dict"

definition baseline_stream :: "hashing \<Rightarrow> string \<Rightarrow> string" where
  "baseline_stream h work_type = ''tokenlab:'' @ sha256 h work_type"

definition weekly_stream :: string where
  "weekly_stream = ''tokenlab:weekly-review''"

text \<open>What the three operations share: append at the known version, then remember the new one.\<close>

definition lab_record ::
  "hashing \<Rightarrow> token_lab_events \<Rightarrow> kledger \<Rightarrow> time \<Rightarrow> string \<Rightarrow> string \<Rightarrow> payload_dict \<Rightarrow> actor_type \<Rightarrow> string \<Rightarrow> string
    \<Rightarrow> (kevent \<times> token_lab_events \<times> kledger) result" where
  "lab_record h S L t sid ty p act aid key =
     bind_result (append_event h L (tl_data_space_id S) sid (version_of (tl_versions S) sid) ty p t act (Some aid)
         (Some sid) None key) (\<lambda>(e, r, L').
       Inr (e, S\<lparr>tl_versions := dict_set (tl_versions S) sid (result_stream_version r)\<rparr>, L'))"

definition service_approve_baseline ::
  "hashing \<Rightarrow> token_lab_events \<Rightarrow> kledger \<Rightarrow> time \<Rightarrow> token_baseline \<Rightarrow> string \<Rightarrow> string
    \<Rightarrow> (kevent \<times> token_lab_events \<times> kledger) result" where
  "service_approve_baseline h S L t b aid key =
     bind_result (lab_record h S L t (baseline_stream h (baseline_work_type b)) ''token_baseline_approved''
         [(''baseline'', PBaseline b)] Human aid key) (\<lambda>(e, S', L').
       Inr (e, S'\<lparr>lab := lab_approve_baseline (lab S') b\<rparr>, L'))"

definition service_observe ::
  "hashing \<Rightarrow> float_env \<Rightarrow> token_lab_events \<Rightarrow> kledger \<Rightarrow> time \<Rightarrow> token_observation \<Rightarrow> string \<Rightarrow> string
    \<Rightarrow> ((kevent \<times> investigation_trigger list) \<times> token_lab_events \<times> kledger) result" where
  "service_observe h f S L t x aid key =
     (if \<exists>y \<in> set (observations (lab S)). observation_id y = observation_id x
      then raise_violation (''TokenObservation already exists: '' @ observation_id x)
      else
        (let triggers = evaluate f (lab S) x in
         bind_result (lab_record h S L t (observation_id x) ''token_observation_recorded''
             [(''observation'', PObservation x), (''triggers'', PTriggers triggers)] SystemActor aid key) (\<lambda>(e, S', L').
           bind_result (lab_observe f (lab S') x) (\<lambda>(_, T). Inr ((e, triggers), S'\<lparr>lab := T\<rparr>, L')))))"

definition record_weekly_review ::
  "hashing \<Rightarrow> token_lab_events \<Rightarrow> kledger \<Rightarrow> time \<Rightarrow> time \<Rightarrow> string \<Rightarrow> string
    \<Rightarrow> (kevent \<times> token_lab_events \<times> kledger) result" where
  "record_weekly_review h S L t reviewed_at aid key =
     (if \<not> weekly_due (lab S) reviewed_at then raise_violation ''Token Lab weekly review is not due''
      else bind_result (lab_record h S L t weekly_stream ''token_weekly_review_recorded''
          [(''reviewed_at'', PTime reviewed_at)] SystemActor aid key) (\<lambda>(e, S', L').
        bind_result (mark_weekly_reviewed (lab S') reviewed_at) (\<lambda>T. Inr (e, S'\<lparr>lab := T\<rparr>, L'))))"

definition set_version :: "token_lab_events \<Rightarrow> kevent \<Rightarrow> token_lab_events" where
  "set_version S e = S\<lparr>tl_versions := dict_set (tl_versions S) (stream_id e) (stream_version e)\<rparr>"

text \<open>
  The handlers of \<^verbatim>\<open>OperationalProjection\<close> with the service configured, and the \<^verbatim>\<open>replay_...\<close>
  methods they call.
\<close>

definition on_token_baseline_approved :: "token_lab_events \<Rightarrow> kevent \<Rightarrow> token_lab_events result" where
  "on_token_baseline_approved S e =
     bind_result (payload_get (payload e) ''baseline'') (\<lambda>v.
     bind_result (model_validate ''TokenBaseline'' as_baseline valid_token_baseline v) (\<lambda>b.
     Inr (set_version (S\<lparr>lab := lab_approve_baseline (lab S) b\<rparr>) e)))"

definition on_token_observation_recorded :: "float_env \<Rightarrow> token_lab_events \<Rightarrow> kevent \<Rightarrow> token_lab_events result" where
  "on_token_observation_recorded f S e =
     bind_result (payload_get (payload e) ''observation'') (\<lambda>v.
     bind_result (model_validate ''TokenObservation'' as_observation valid_token_observation v) (\<lambda>x.
     bind_result (lab_observe f (lab S) x) (\<lambda>(_, T). Inr (set_version (S\<lparr>lab := T\<rparr>) e))))"

definition on_token_weekly_review_recorded :: "token_lab_events \<Rightarrow> kevent \<Rightarrow> token_lab_events result" where
  "on_token_weekly_review_recorded S e =
     bind_result (payload_get (payload e) ''reviewed_at'') (\<lambda>v.
     case as_time v of None \<Rightarrow> Inl (ValueError ''Invalid isoformat string'')
     | Some t \<Rightarrow> bind_result (mark_weekly_reviewed (lab S) t) (\<lambda>T. Inr (set_version (S\<lparr>lab := T\<rparr>) e)))"

end
