(* ===== verification/Service_Streams.thy ===== *)
theory Service_Streams
  imports Events
begin

text \<open>
  A service writes its own types of events into its own streams, beside the other services
  of the ledger. What it needs to know for its appends to be new: no event of its types is
  newer than the version it remembers for the stream.
\<close>

section \<open>What a service knows of its streams\<close>

text \<open>No event of the service's types is newer than the version it remembers for the stream.\<close>

definition tracks :: "(string \<Rightarrow> bool) \<Rightarrow> (string, nat) dict \<Rightarrow> kledger \<Rightarrow> bool" where
  "tracks own d L \<longleftrightarrow> ledger_inv L \<and>
     (\<forall>e \<in> set (ledger_events L). own (event_type e) \<longrightarrow> stream_version e \<le> version_of d (stream_id e))"

lemma tracks_empty: "tracks own d (empty_ledger ds)"
  by (simp add: tracks_def)

text \<open>An own event is new to the ledger, so the append adds it and nothing else.\<close>

lemma append_tracked:
  assumes tr: "tracks own d L"
    and app: "append_event h L ds sid (version_of d sid) ty p t act aid corr caus key = Inr (e, r, L')"
    and own: "own ty"
  shows "ledger_events L' = ledger_events L @ [e]" "result_stream_version r = stream_version e"
    "result_cursor r = length (ledger_events L) + 1" "event_type e = ty" "payload e = p" "stream_id e = sid"
    "tracks own (dict_set d sid (result_stream_version r)) L'"
proof -
  note inv = tr [unfolded tracks_def, THEN conjunct1]
  note app' = append_event_Inr [OF app]
  note e = make_event_Inr [OF app'(2)]
  have "e \<notin> set (ledger_events L)"
  proof
    assume "e \<in> set (ledger_events L)"
    with tr own e(2,4) have "stream_version e \<le> version_of d sid" by (auto simp: tracks_def)
    with e(3) show False by simp
  qed
  then have out: "ledger_events L' = ledger_events L @ [e]" "result_cursor r = length (ledger_events L) + 1"
    "result_stream_version r = version_of d sid + 1"
    using ledger_append_events [OF inv app'(1)] by blast+
  then show "ledger_events L' = ledger_events L @ [e]" "result_stream_version r = stream_version e"
    "result_cursor r = length (ledger_events L) + 1" using e(3) by simp_all
  show "event_type e = ty" "payload e = p" "stream_id e = sid" by (fact e)+
  have "stream_version x \<le> version_of (dict_set d sid (version_of d sid + 1)) (stream_id x)"
    if "x \<in> set (ledger_events L)" "own (event_type x)" for x
    using tr that by (fastforce simp: tracks_def)
  then show "tracks own (dict_set d sid (result_stream_version r)) L'"
    using ledger_append_inv [OF inv app'(1)] out e(2,3) by (auto simp: tracks_def)
qed

text \<open>An append of another type leaves what the service knows.\<close>

lemma append_untracked:
  assumes "tracks own d L" and "ledger_append L e n = Inr (r, L')" and "\<not> own (event_type e)"
  shows "tracks own d L'" and "\<exists>es. ledger_events L' = ledger_events L @ es \<and> (es = [] \<or> es = [e])"
proof -
  have inv: "ledger_inv L" using assms(1) by (simp add: tracks_def)
  show "\<exists>es. ledger_events L' = ledger_events L @ es \<and> (es = [] \<or> es = [e])"
    using ledger_append_events [OF inv assms(2)] by auto
  then show "tracks own d L'"
    using assms ledger_append_inv [OF inv assms(2)] by (auto simp: tracks_def)
qed

end
