(* ===== verification/Evidence_Replay.thy ===== *)
theory Evidence_Replay
  imports Token_Lab Service_Streams Replay
begin

text \<open>
  The evidence service and the token lab beside the other services of one ledger: each
  operation appends one event of its own type and the handler of that event does to the
  replayed service what the operation did to the live one. Both interpret
  \<open>event_sourced\<close>; a step is an operation of the service or an append of somebody else.
\<close>

section \<open>The evidence service\<close>

definition is_outcome_type :: "string \<Rightarrow> bool" where
  "is_outcome_type ty \<longleftrightarrow> ty = ''model_outcome_verified''"

inductive evidence_step ::
  "hashing \<Rightarrow> float_env \<Rightarrow> evidence_service \<times> kledger \<Rightarrow> evidence_service \<times> kledger \<Rightarrow> bool"
  for h f where
  outcome: "valid_verified_route_outcome v \<Longrightarrow> record_outcome h f E L t v aid key = Inr (e, E', L') \<Longrightarrow>
    evidence_step h f (E, L) (E', L')"
| other: "\<not> is_outcome_type (event_type e) \<Longrightarrow> ledger_append L e n = Inr (r, L') \<Longrightarrow>
    evidence_step h f (E, L) (E, L')"

inductive_cases evidence_stepE: "evidence_step h f (E, L) s'"

text \<open>
  The projection's turn on one event: the cursor of the event is one more than the events
  already seen.
\<close>

definition replay_evidence ::
  "float_env \<Rightarrow> evidence_service \<times> nat \<Rightarrow> kevent \<Rightarrow> (evidence_service \<times> nat) result" where
  "replay_evidence f = (\<lambda>(E, c) e.
     if is_outcome_type (event_type e)
     then bind_result (on_model_outcome_verified f (c + 1) E e) (\<lambda>E'. Inr (E', c + 1))
     else Inr (E, c + 1))"

definition evidence_good :: "evidence_service \<times> kledger \<Rightarrow> bool" where
  "evidence_good = (\<lambda>(E, L). tracks is_outcome_type (e_versions E) L)"

lemma update_verified_Inr:
  "validate_verified R key tokens cost latency judge = Inr q \<Longrightarrow> succeeds (update_verified f R key success tokens cost latency judge)"
  by (simp add: update_verified_def)

text \<open>What the two paths share: the update, with the version and the cursor.\<close>

definition absorbed :: "float_env \<Rightarrow> evidence_service \<Rightarrow> verified_route_outcome \<Rightarrow> nat \<Rightarrow> nat \<Rightarrow> evidence_service result" where
  "absorbed f E v version cur =
     apply_outcome f (E\<lparr>e_versions := dict_set (e_versions E) (outcome_id v) version,
                        evidence_cursor_of := max (evidence_cursor_of E) cur\<rparr>) v"

lemma replay_outcome_absorbed:
  "replay_outcome f E v version cur =
     (if dict_mem (outcome_id v) (outcomes E)
      then raise_violation (''duplicate verified route outcome: '' @ outcome_id v)
      else absorbed f E v version cur)"
  by (auto simp: replay_outcome_def absorbed_def apply_outcome_def bind_result_assoc bind_result_def split: sum.split)

lemma apply_outcome_frame:
  "apply_outcome f E v = Inr E' \<Longrightarrow> e_versions E' = e_versions E \<and> evidence_cursor_of E' = evidence_cursor_of E
     \<and> outcomes E' = dict_set (outcomes E) (outcome_id v) v \<and> e_data_space_id E' = e_data_space_id E"
  by (auto simp: apply_outcome_def)

text \<open>Once validated and appended, an outcome is applied: the late exception cannot happen.\<close>

lemma record_outcome_applies:
  assumes "\<not> dict_mem (outcome_id v) (outcomes E)"
    and "validate_verified (e_router E) (outcome_candidate_key v) (outcome_tokens v) (outcome_cost v)
          (outcome_latency_ms v) (outcome_judge v) = Inr q"
    and "append_event h L (e_data_space_id E) (outcome_id v) (version_of (e_versions E) (outcome_id v))
          ''model_outcome_verified'' [(''outcome'', POutcome v)] t Human (Some aid) (Some (outcome_id v)) None key
          = Inr (e, r, L')"
  shows "\<exists>E'. record_outcome h f E L t v aid key = Inr (e, E', L')"
  using assms by (simp add: record_outcome_def apply_outcome_def update_verified_def)

lemma record_outcome_absorbed:
  assumes tr: "tracks is_outcome_type (e_versions E) L" and rec: "record_outcome h f E L t v aid key = Inr (e, E', L')"
  shows "\<not> dict_mem (outcome_id v) (outcomes E)" "ledger_events L' = ledger_events L @ [e]"
    "event_type e = ''model_outcome_verified''" "payload e = [(''outcome'', POutcome v)]"
    "absorbed f E v (stream_version e) (length (ledger_events L) + 1) = Inr E'"
    "tracks is_outcome_type (e_versions E') L'"
proof -
  from rec show new: "\<not> dict_mem (outcome_id v) (outcomes E)"
    by (auto simp: record_outcome_def split: if_splits)
  from rec new obtain r where app: "append_event h L (e_data_space_id E) (outcome_id v)
      (version_of (e_versions E) (outcome_id v)) ''model_outcome_verified'' [(''outcome'', POutcome v)] t Human
      (Some aid) (Some (outcome_id v)) None key = Inr (e, r, L')"
    and ap: "absorbed f E v (result_stream_version r) (result_cursor r) = Inr E'"
    by (auto simp: record_outcome_def absorbed_def Let_def)
  note a = append_tracked [OF tr app]
  show "ledger_events L' = ledger_events L @ [e]" "event_type e = ''model_outcome_verified''"
    "payload e = [(''outcome'', POutcome v)]" using a(1,4,5) by (simp_all add: is_outcome_type_def)
  show "absorbed f E v (stream_version e) (length (ledger_events L) + 1) = Inr E'"
    using ap a(2,3) by (simp add: is_outcome_type_def)
  have "e_versions E' = dict_set (e_versions E) (outcome_id v) (result_stream_version r)"
    using apply_outcome_frame [OF ap [unfolded absorbed_def]] by simp
  then show "tracks is_outcome_type (e_versions E') L'" using a(7) by (simp add: is_outcome_type_def)
qed

interpretation evidence: event_sourced "evidence_step h f" "\<lambda>(E, L). ledger_events L"
  "\<lambda>(E, L). (E, length (ledger_events L))" "replay_evidence f" evidence_good for h f
proof
  fix s s' assume good: "evidence_good s" and step: "evidence_step h f s s'"
  obtain E L E' L' where s: "s = (E, L)" "s' = (E', L')" by (cases s, cases s') auto
  have tr: "tracks is_outcome_type (e_versions E) L" using good s by (simp add: evidence_good_def)
  have "tracks is_outcome_type (e_versions E') L' \<and> (\<exists>es. ledger_events L' = ledger_events L @ es
      \<and> fold_result (replay_evidence f) (E, length (ledger_events L)) es = Inr (E', length (ledger_events L')))"
    using step unfolding s
  proof (cases rule: evidence_step.cases)
    case (outcome v t aid key e)
    note r = record_outcome_absorbed [OF tr outcome(2)]
    show ?thesis using r outcome(1)
      by (intro conjI exI [of _ "[e]"])
        (simp_all add: replay_evidence_def is_outcome_type_def on_model_outcome_verified_def replay_outcome_absorbed)
  next
    case (other e n r)
    note u = append_untracked [OF tr other(3,2)]
    then show ?thesis using other by (auto simp: replay_evidence_def)
  qed
  then show "evidence_good s'"
    and "\<exists>es. (case s' of (E, L) \<Rightarrow> ledger_events L) = (case s of (E, L) \<Rightarrow> ledger_events L) @ es
      \<and> fold_result (replay_evidence f) (case s of (E, L) \<Rightarrow> (E, length (ledger_events L))) es
        = Inr (case s' of (E, L) \<Rightarrow> (E, length (ledger_events L)))"
    using s by (auto simp: evidence_good_def)
qed

section \<open>The token lab\<close>

definition is_lab_type :: "string \<Rightarrow> bool" where
  "is_lab_type ty \<longleftrightarrow> ty = ''token_baseline_approved'' \<or> ty = ''token_observation_recorded''
     \<or> ty = ''token_weekly_review_recorded''"

inductive lab_step ::
  "hashing \<Rightarrow> float_env \<Rightarrow> token_lab_events \<times> kledger \<Rightarrow> token_lab_events \<times> kledger \<Rightarrow> bool"
  for h f where
  baseline: "valid_token_baseline b \<Longrightarrow> service_approve_baseline h S L t b aid key = Inr (e, S', L') \<Longrightarrow>
    lab_step h f (S, L) (S', L')"
| observation: "valid_token_observation x \<Longrightarrow> service_observe h f S L t x aid key = Inr (e_triggers, S', L') \<Longrightarrow>
    lab_step h f (S, L) (S', L')"
| review: "record_weekly_review h S L t reviewed_at aid key = Inr (e, S', L') \<Longrightarrow> lab_step h f (S, L) (S', L')"
| other: "\<not> is_lab_type (event_type e) \<Longrightarrow> ledger_append L e n = Inr (r, L') \<Longrightarrow> lab_step h f (S, L) (S, L')"

definition replay_lab :: "float_env \<Rightarrow> token_lab_events \<Rightarrow> kevent \<Rightarrow> token_lab_events result" where
  "replay_lab f S e =
     (if event_type e = ''token_baseline_approved'' then on_token_baseline_approved S e
      else if event_type e = ''token_observation_recorded'' then on_token_observation_recorded f S e
      else if event_type e = ''token_weekly_review_recorded'' then on_token_weekly_review_recorded S e
      else Inr S)"

definition lab_good :: "token_lab_events \<times> kledger \<Rightarrow> bool" where
  "lab_good = (\<lambda>(S, L). tracks is_lab_type (tl_versions S) L)"

text \<open>What a step has to show: one event, and its handler takes the old lab to the new one.\<close>

definition lab_logged :: "float_env \<Rightarrow> token_lab_events \<Rightarrow> kledger \<Rightarrow> token_lab_events \<Rightarrow> kledger \<Rightarrow> bool" where
  "lab_logged f S L S' L' \<longleftrightarrow> tracks is_lab_type (tl_versions S') L' \<and>
     (\<exists>es. ledger_events L' = ledger_events L @ es \<and> fold_result (replay_lab f) S es = Inr S')"

lemma lab_record_logged:
  assumes tr: "tracks is_lab_type (tl_versions S) L"
    and rec: "lab_record h S L t sid ty p act aid key = Inr (e, Sa, L')"
    and own: "is_lab_type ty" and frame: "tl_versions S' = tl_versions Sa"
    and run: "event_type e = ty \<Longrightarrow> payload e = p \<Longrightarrow> Sa = set_version S e \<Longrightarrow> replay_lab f S e = Inr S'"
  shows "lab_logged f S L S' L'"
proof -
  from rec obtain r where app: "append_event h L (tl_data_space_id S) sid (version_of (tl_versions S) sid) ty p t act
      (Some aid) (Some sid) None key = Inr (e, r, L')"
    and Sa: "Sa = S\<lparr>tl_versions := dict_set (tl_versions S) sid (result_stream_version r)\<rparr>"
    by (auto simp: lab_record_def)
  note a = append_tracked [OF tr app own]
  have "Sa = set_version S e" using Sa a(2,6) by (simp add: set_version_def)
  from run [OF a(4,5) this] show ?thesis
    using a(1,7) Sa frame by (auto simp: lab_logged_def)
qed

lemma set_version_lab [simp]: "lab (set_version S e) = lab S"
  by (simp add: set_version_def)

lemma set_version_frame: "set_version (S\<lparr>lab := T\<rparr>) e = (set_version S e)\<lparr>lab := T\<rparr>"
  by (simp add: set_version_def)

lemma lab_step_logged:
  assumes tr: "tracks is_lab_type (tl_versions S) L" and step: "lab_step h f (S, L) (S', L')"
  shows "lab_logged f S L S' L'"
  using step
proof (cases rule: lab_step.cases)
  case (baseline b t aid key e)
  then obtain Sa where rec: "lab_record h S L t (baseline_stream h (baseline_work_type b)) ''token_baseline_approved''
      [(''baseline'', PBaseline b)] Human aid key = Inr (e, Sa, L')"
    and S': "S' = Sa\<lparr>lab := lab_approve_baseline (lab Sa) b\<rparr>"
    by (auto simp: service_approve_baseline_def)
  show ?thesis using baseline(1) S'
    by (intro lab_record_logged [OF tr rec])
      (simp_all add: is_lab_type_def replay_lab_def on_token_baseline_approved_def set_version_frame)
next
  case (observation x t aid key e_triggers)
  then obtain triggers e Sa T r where rec: "lab_record h S L t (observation_id x) ''token_observation_recorded''
      [(''observation'', PObservation x), (''triggers'', PTriggers triggers)] SystemActor aid key = Inr (e, Sa, L')"
    and S': "lab_observe f (lab Sa) x = Inr (r, T)" "S' = Sa\<lparr>lab := T\<rparr>"
    by (auto simp: service_observe_def Let_def split: if_splits)
  show ?thesis using observation(1) S'
    by (intro lab_record_logged [OF tr rec])
      (simp_all add: is_lab_type_def replay_lab_def on_token_observation_recorded_def set_version_frame)
next
  case (review t reviewed_at aid key e)
  then obtain Sa T where rec: "lab_record h S L t weekly_stream ''token_weekly_review_recorded''
      [(''reviewed_at'', PTime reviewed_at)] SystemActor aid key = Inr (e, Sa, L')"
    and S': "mark_weekly_reviewed (lab Sa) reviewed_at = Inr T" "S' = Sa\<lparr>lab := T\<rparr>"
    by (auto simp: record_weekly_review_def split: if_splits)
  show ?thesis using S'
    by (intro lab_record_logged [OF tr rec])
      (simp_all add: is_lab_type_def replay_lab_def on_token_weekly_review_recorded_def set_version_frame)
next
  case (other e n r)
  have "replay_lab f S e = Inr S" using other(2) by (simp add: replay_lab_def is_lab_type_def)
  then show ?thesis using append_untracked [OF tr other(3,2)] other(1) by (auto simp: lab_logged_def)
qed

interpretation token_lab: event_sourced "lab_step h f" "\<lambda>(S, L). ledger_events L" "\<lambda>(S, L). S" "replay_lab f" lab_good
  for h f
proof
  fix s s' assume "lab_good s" and step: "lab_step h f s s'"
  then have "lab_logged f (fst s) (snd s) (fst s') (snd s')"
    using lab_step_logged [of "fst s" "snd s" h f "fst s'" "snd s'"] by (simp add: lab_good_def case_prod_unfold)
  then show "lab_good s'" and "\<exists>es. (case s' of (S, L) \<Rightarrow> ledger_events L) = (case s of (S, L) \<Rightarrow> ledger_events L) @ es
      \<and> fold_result (replay_lab f) (case s of (S, L) \<Rightarrow> S) es = Inr (case s' of (S, L) \<Rightarrow> S)"
    by (simp_all add: lab_logged_def lab_good_def case_prod_unfold)
qed

section \<open>What every reachable state of the two services keeps\<close>

text \<open>The outcomes recorded for one candidate.\<close>

definition outcomes_for :: "evidence_service \<Rightarrow> string \<Rightarrow> verified_route_outcome list" where
  "outcomes_for E key = filter (\<lambda>v. outcome_candidate_key v = key) (dict_values (outcomes E))"

definition by_code_or_human :: "verified_route_outcome \<Rightarrow> bool" where
  "by_code_or_human v \<longleftrightarrow> (case outcome_judge v of None \<Rightarrow> True | Some j \<Rightarrow> judge_kind j \<in> {Deterministic, HumanJudge})"

text \<open>
  Every posterior has counted each recorded outcome of its candidate once, since the router
  \<open>R0\<close> of the start: in the samples, in the samples an AI judge had no part in, and in the
  two counts of the beta distribution.
\<close>

definition counted :: "(real \<Rightarrow> real) \<Rightarrow> router \<Rightarrow> evidence_service \<Rightarrow> bool" where
  "counted succ R0 E \<longleftrightarrow> keyed outcome_id (outcomes E) \<and>
     (\<forall>key q. dict_get (posteriors (e_router E)) key = Some q \<longrightarrow> (\<exists>q0. dict_get (posteriors R0) key = Some q0
        \<and> verified_samples q = verified_samples q0 + length (outcomes_for E key)
        \<and> deterministic_or_human_samples q
            = deterministic_or_human_samples q0 + length (filter by_code_or_human (outcomes_for E key))
        \<and> success_alpha (post_success q)
            = (succ ^^ length (filter outcome_success (outcomes_for E key))) (success_alpha (post_success q0))
        \<and> success_beta (post_success q)
            = (succ ^^ length (filter (\<lambda>v. \<not> outcome_success v) (outcomes_for E key))) (success_beta (post_success q0))))"

lemma outcomes_for_set:
  assumes "keyed outcome_id (outcomes E)" and "\<not> dict_mem (outcome_id v) (outcomes E)"
  shows "outcomes_for (E\<lparr>outcomes := dict_set (outcomes E) (outcome_id v) v\<rparr>) key
    = outcomes_for E key @ (if outcome_candidate_key v = key then [v] else [])"
  using dict_set_new [OF assms(2)] by (simp add: outcomes_for_def dict_values_def)

lemma apply_outcome_counted:
  assumes c: "counted (\<lambda>x. f_add f x 1) R0 E" and new: "\<not> dict_mem (outcome_id v) (outcomes E)"
    and ap: "apply_outcome f E v = Inr E'"
  shows "counted (\<lambda>x. f_add f x 1) R0 E'"
proof -
  have keyed: "keyed outcome_id (outcomes E)" using c by (simp add: counted_def)
  obtain q where q: "dict_get (posteriors (e_router E)) (outcome_candidate_key v) = Some q"
    using ap by (auto simp: apply_outcome_def update_verified_def validate_verified_def require_candidate_def
        split: option.splits)
  have of: "outcomes_for E' key = outcomes_for E key @ (if outcome_candidate_key v = key then [v] else [])" for key
    using outcomes_for_set [OF keyed new] apply_outcome_frame [OF ap] by (simp add: outcomes_for_def)
  show ?thesis
    unfolding counted_def
  proof (intro conjI allI impI)
    show "keyed outcome_id (outcomes E')" using keyed apply_outcome_frame [OF ap] by simp
  next
    fix key q' assume q': "dict_get (posteriors (e_router E')) key = Some q'"
    show "\<exists>q0. dict_get (posteriors R0) key = Some q0
        \<and> verified_samples q' = verified_samples q0 + length (outcomes_for E' key)
        \<and> deterministic_or_human_samples q'
            = deterministic_or_human_samples q0 + length (filter by_code_or_human (outcomes_for E' key))
        \<and> success_alpha (post_success q')
            = ((\<lambda>x. f_add f x 1) ^^ length (filter outcome_success (outcomes_for E' key))) (success_alpha (post_success q0))
        \<and> success_beta (post_success q')
            = ((\<lambda>x. f_add f x 1) ^^ length (filter (\<lambda>v. \<not> outcome_success v) (outcomes_for E' key)))
                (success_beta (post_success q0))"
    proof (cases "key = outcome_candidate_key v")
      case False
      then have "dict_get (posteriors (e_router E)) key = Some q'"
        using ap q' by (auto simp: apply_outcome_def update_verified_def validate_verified_def require_candidate_def
            split: option.splits if_splits)
      with False of c show ?thesis by (auto simp: counted_def)
    next
      case True
      from c q True obtain q0 where q0: "dict_get (posteriors R0) key = Some q0"
        "verified_samples q = verified_samples q0 + length (outcomes_for E key)"
        "deterministic_or_human_samples q
          = deterministic_or_human_samples q0 + length (filter by_code_or_human (outcomes_for E key))"
        "success_alpha (post_success q)
          = ((\<lambda>x. f_add f x 1) ^^ length (filter outcome_success (outcomes_for E key))) (success_alpha (post_success q0))"
        "success_beta (post_success q)
          = ((\<lambda>x. f_add f x 1) ^^ length (filter (\<lambda>v. \<not> outcome_success v) (outcomes_for E key)))
              (success_beta (post_success q0))"
        unfolding counted_def by blast
      have "verified_samples q' = verified_samples q + 1"
        "deterministic_or_human_samples q' = deterministic_or_human_samples q + (if by_code_or_human v then 1 else 0)"
        "post_success q' = beta_update f (post_success q) (outcome_success v)"
        using ap q q' True
        by (auto simp: apply_outcome_def update_verified_def validate_verified_def require_candidate_def
            by_code_or_human_def split: option.splits if_splits)
      with q0 of [of key] True show ?thesis by (intro exI [of _ q0]) (simp add: beta_update_def)
    qed
  qed
qed

lemma evidence_step_counted:
  assumes step: "evidence_step h f (E, L) (E', L')" and good: "evidence_good (E, L)"
    and c: "counted (\<lambda>x. f_add f x 1) R0 E"
  shows "counted (\<lambda>x. f_add f x 1) R0 E'"
  using step
proof (cases rule: evidence_step.cases)
  case (outcome v t aid key e)
  note r = record_outcome_absorbed [OF _ outcome(2)]
  show ?thesis
    using c r(1,5) good by (intro apply_outcome_counted [OF _ _ r(5) [unfolded absorbed_def]])
      (simp_all add: counted_def outcomes_for_def evidence_good_def)
qed (use c in simp)

lemma evidence_reachable_counted:
  assumes "(evidence_step h f)\<^sup>*\<^sup>* (E0, L0) (E, L)" and good: "evidence_good (E0, L0)"
    and "counted (\<lambda>x. f_add f x 1) R0 E0"
  shows "counted (\<lambda>x. f_add f x 1) R0 E"
  using assms(1)
proof (induction "(E, L)" arbitrary: E L rule: rtranclp_induct)
  case base
  with assms(3) show ?case by simp
next
  case (step s)
  obtain E1 L1 where s: "s = (E1, L1)" by (cases s)
  with step evidence.reachable_good [OF _ good] show ?case
    by (blast intro: evidence_step_counted)
qed

text \<open>The lab's observations are all different, and a reviewed week never moves back.\<close>

definition distinct_observations :: "token_lab_events \<Rightarrow> bool" where
  "distinct_observations S \<longleftrightarrow> distinct (map observation_id (observations (lab S)))"

definition review_le :: "time option \<Rightarrow> time option \<Rightarrow> bool" where
  "review_le a b \<longleftrightarrow> (case a of None \<Rightarrow> True | Some x \<Rightarrow> (case b of None \<Rightarrow> False | Some y \<Rightarrow> x \<le> y))"

lemma review_le_refl [simp]: "review_le a a"
  by (simp add: review_le_def split: option.split)

lemma review_le_trans: "review_le a b \<Longrightarrow> review_le b c \<Longrightarrow> review_le a c"
  by (auto simp: review_le_def split: option.splits)

lemma lab_step_keeps:
  assumes "lab_step h f (S, L) (S', L')"
  shows "distinct_observations S \<Longrightarrow> distinct_observations S'"
    and "\<exists>xs. observations (lab S') = observations (lab S) @ xs"
    and "review_le (last_weekly_review_at (lab S)) (last_weekly_review_at (lab S'))"
  using assms
  by (auto elim!: lab_step.cases simp: service_approve_baseline_def service_observe_def record_weekly_review_def
      lab_record_def lab_observe_def lab_approve_baseline_def mark_weekly_reviewed_def distinct_observations_def
      review_le_def Let_def split: if_splits option.splits) blast

end
