(* ===== verification/Routing_Choice.thy ===== *)
theory Routing_Choice
  imports Evidence_Replay
begin

text \<open>
  What the router promises: the selection is a best candidate under the snapshot's
  objective, the coding route has its fixed order, every registered candidate keeps a
  reliability between nought and one, and the token lab's reviews are a week apart.
\<close>

section \<open>Ranks\<close>

text \<open>In a list sorted by a key, a smaller rank has a smaller key.\<close>

lemma rank_in_nth:
  assumes "a \<in> set xs"
  shows "rank_in xs a - 1 < length xs" and "xs ! (rank_in xs a - 1) = a"
proof -
  have "length (takeWhile (\<lambda>x. x \<noteq> a) xs) < length xs"
    using assms by (induction xs) auto
  then show "rank_in xs a - 1 < length xs" and "xs ! (rank_in xs a - 1) = a"
    using nth_length_takeWhile [of "\<lambda>x. x \<noteq> a" xs] by (simp_all add: rank_in_def)
qed

lemma rank_in_sorted:
  assumes "sorted (map k xs)" and "a \<in> set xs" and "b \<in> set xs" and "rank_in xs a \<le> rank_in xs b"
  shows "k a \<le> k b"
proof -
  have "map k xs ! (rank_in xs a - 1) \<le> map k xs ! (rank_in xs b - 1)"
    using assms rank_in_nth(1) [OF assms(3)] by (intro sorted_nth_mono) auto
  then show ?thesis using rank_in_nth [OF assms(2)] rank_in_nth [OF assms(3)] by simp
qed

text \<open>The objectives as orders on the measured scores.\<close>

fun at_least_as_good :: "production_objective \<Rightarrow> raw_score \<Rightarrow> raw_score \<Rightarrow> bool" where
  "at_least_as_good ReliabilityThenCost a b \<longleftrightarrow> raw_reliability b < raw_reliability a
     \<or> raw_reliability b = raw_reliability a \<and> raw_cost a \<le> raw_cost b"
| "at_least_as_good ExpectedUtility a b \<longleftrightarrow> raw_utility b \<le> raw_utility a"
| "at_least_as_good QualityMax a b \<longleftrightarrow> raw_reliability b \<le> raw_reliability a"

lemma set_ordering [simp]: "set (ordering d objective keys) = set keys"
  by (cases objective) simp_all

lemma ordering_best:
  assumes "a \<in> set keys" and "b \<in> set keys" and "dict_get d a = Some ra" and "dict_get d b = Some rb"
    and "rank_in (ordering d objective keys) a \<le> rank_in (ordering d objective keys) b"
  shows "at_least_as_good objective ra rb"
proof (cases objective)
  case ReliabilityThenCost
  let ?k = "\<lambda>key. (- raw_get d raw_reliability key, raw_get d raw_cost key, key)"
  have "?k a \<le> ?k b"
    by (rule rank_in_sorted [where k = ?k and xs = "sort_key ?k keys"]) (use assms(1,2,5) ReliabilityThenCost in simp_all)
  then show ?thesis using assms ReliabilityThenCost by (auto simp: raw_get_def less_eq_prod_def)
next
  case ExpectedUtility
  let ?k = "\<lambda>key. (- raw_get d raw_utility key, key)"
  have "?k a \<le> ?k b"
    by (rule rank_in_sorted [where k = ?k and xs = "sort_key ?k keys"]) (use assms(1,2,5) ExpectedUtility in simp_all)
  then show ?thesis using assms ExpectedUtility by (auto simp: raw_get_def less_eq_prod_def)
next
  case QualityMax
  let ?k = "\<lambda>key. (- raw_get d raw_reliability key, key)"
  have "?k a \<le> ?k b"
    by (rule rank_in_sorted [where k = ?k and xs = "sort_key ?k keys"]) (use assms(1,2,5) QualityMax in simp_all)
  then show ?thesis using assms QualityMax by (auto simp: raw_get_def less_eq_prod_def)
qed

section \<open>Scores\<close>

lemma raw_scores_get:
  assumes "raw_scores f R keys d = Inr d'"
  shows "key \<in> set keys \<Longrightarrow> \<exists>r. dict_get d' key = Some r \<and> raw_score_of f R key = Inr r"
    and "key \<notin> set keys \<Longrightarrow> dict_get d' key = dict_get d key"
  using assms by (induction f R keys d rule: raw_scores.induct) fastforce+

lemma scores_Inr:
  assumes "scores f R keys = Inr ss"
  obtains d where "keys \<noteq> []" and "raw_scores f R keys [] = Inr d"
    and "ss = map (\<lambda>key. \<lparr>score_candidate_key = key, score_raw = the (dict_get d key),
           ranks = (\<lambda>objective. rank_in (ordering d objective keys) key)\<rparr>) keys"
proof -
  from assms obtain d where d: "keys \<noteq> []" "raw_scores f R keys [] = Inr d"
    by (auto simp: scores_def split: if_splits)
  have "(case dict_get d key of None \<Rightarrow> x | Some r \<Rightarrow> r) = the (dict_get d key)" if "key \<in> set keys" for key x
    using raw_scores_get(1) [OF d(2) that] by auto
  moreover have "ss = map (\<lambda>key. \<lparr>score_candidate_key = key,
      score_raw = (case dict_get d key of None \<Rightarrow> \<lparr>raw_reliability = 0, raw_tokens = 0, raw_cost = 0,
                             raw_latency = 0, raw_utility = 0\<rparr> | Some r \<Rightarrow> r),
      ranks = (\<lambda>objective. rank_in (ordering d objective keys) key)\<rparr>) keys"
    using assms d by (simp add: scores_def)
  ultimately show thesis using d by (intro that [of d]) (auto intro!: map_cong)
qed

lemma scores_nonempty: "scores f R keys = Inr ss \<Longrightarrow> ss \<noteq> [] \<and> map score_candidate_key ss = keys"
  by (erule scores_Inr) (simp add: comp_def)

lemma select_production_Inr:
  assumes "select_production f R s = Inr best"
  obtains ss q where "route_state s = Published" and "scores f R (candidate_keys s) = Inr ss"
    and "best = (if route_key s = coding_route_key then hd ss
           else arg_min_list (\<lambda>score. ranks score (production_objective s)) ss)"
    and "require_candidate R (score_candidate_key best) = Inr q"
    and "verified_samples q = 0 \<or> 0 < deterministic_or_human_samples q"
    and "route_key s = coding_route_key \<Longrightarrow>
           require_coding_route_candidate_keys (route_key s) (candidate_keys s)
             (map posterior_candidate (dict_values (posteriors R))) = Inr ()"
  using assms by (auto simp: select_production_def Let_def split: if_splits)

lemma best_score:
  assumes "scores f R keys = Inr ss" and "best = arg_min_list (\<lambda>score. ranks score objective) ss" and "key \<in> set keys"
  shows "raw_score_of f R (score_candidate_key best) = Inr (score_raw best) \<and> score_candidate_key best \<in> set keys
    \<and> (\<exists>r. raw_score_of f R key = Inr r \<and> at_least_as_good objective (score_raw best) r)"
proof -
  from assms(1) obtain d where d: "raw_scores f R keys [] = Inr d"
    and ss: "ss = map (\<lambda>key. \<lparr>score_candidate_key = key, score_raw = the (dict_get d key),
           ranks = (\<lambda>objective. rank_in (ordering d objective keys) key)\<rparr>) keys"
    by (rule scores_Inr)
  have ne: "ss \<noteq> []" using scores_nonempty [OF assms(1)] by simp
  have "best \<in> set ss" using arg_min_list_in [OF ne] assms(2) by simp
  then have best: "score_candidate_key best \<in> set keys" "score_raw best = the (dict_get d (score_candidate_key best))"
    "ranks best objective = rank_in (ordering d objective keys) (score_candidate_key best)"
    by (auto simp: ss)
  have "ranks best objective \<le> rank_in (ordering d objective keys) key"
  proof -
    have "ranks best objective = Min ((\<lambda>score. ranks score objective) ` set ss)"
      using f_arg_min_list_f [OF ne] assms(2) by simp
    also have "\<dots> \<le> rank_in (ordering d objective keys) key"
      using assms(3) by (intro Min_le) (simp_all add: ss image_image)
    finally show ?thesis .
  qed
  moreover obtain r where r: "dict_get d key = Some r" "raw_score_of f R key = Inr r"
    using raw_scores_get(1) [OF d assms(3)] by blast
  moreover obtain r' where "dict_get d (score_candidate_key best) = Some r'"
      "raw_score_of f R (score_candidate_key best) = Inr r'"
    using raw_scores_get(1) [OF d best(1)] by blast
  ultimately show ?thesis
    using best ordering_best [OF best(1) assms(3)] by (intro conjI exI [of _ r]) simp_all
qed

section \<open>The coding route\<close>

definition coding_candidate :: "string \<Rightarrow> model_candidate \<Rightarrow> bool" where
  "coding_candidate m c \<longleftrightarrow> candidate_model_snapshot c = Some m \<and> candidate_provider c = ''openai''
     \<and> candidate_selection_exact c \<and> candidate_effort c = ''xhigh''"

lemma collect_coding_get:
  "collect_coding cs d = Inr d' \<Longrightarrow> dict_get d' m = Some c \<Longrightarrow>
    dict_get d m = Some c \<or> c \<in> set cs \<and> coding_candidate m c"
  by (induction cs d rule: collect_coding.induct)
    (auto simp: coding_candidate_def split: option.splits if_splits)

lemma coding_route_keys:
  assumes "require_coding_route_candidate_keys coding_route_key keys cs = Inr ()"
  shows "\<exists>luna sol. luna \<in> set cs \<and> sol \<in> set cs \<and> coding_candidate ''gpt-5.6-luna'' luna
    \<and> coding_candidate ''gpt-5.6-sol'' sol \<and> keys = [candidate_key luna, candidate_key sol]"
proof -
  from assms obtain d luna sol where d: "collect_coding cs [] = Inr d"
    and "dict_get d ''gpt-5.6-luna'' = Some luna" "dict_get d ''gpt-5.6-sol'' = Some sol"
    and keys: "keys = [candidate_key luna, candidate_key sol]"
    by (auto simp: require_coding_route_candidate_keys_def require_coding_escalation_candidates_def
        split: option.splits if_splits)
  with collect_coding_get [OF d, of "''gpt-5.6-luna''" luna] collect_coding_get [OF d, of "''gpt-5.6-sol''" sol]
  show ?thesis by auto
qed

section \<open>Reliability\<close>

text \<open>What the rounding of a double keeps: order, and the numbers it has already rounded.\<close>

definition rounds :: "float_env \<Rightarrow> bool" where
  "rounds f \<longleftrightarrow> mono (fl f) \<and> (\<forall>x. fl f (fl f x) = fl f x) \<and> fl f 0 = 0 \<and> fl f 1 = 1"

lemma roundsD:
  assumes "rounds f"
  shows "x \<le> y \<Longrightarrow> fl f x \<le> fl f y" and "fl f (fl f x) = fl f x" and "fl f 0 = 0" and "fl f 1 = 1"
  using assms by (auto simp: rounds_def mono_def)

definition beta_ok :: "float_env \<Rightarrow> beta_posterior \<Rightarrow> bool" where
  "beta_ok f b \<longleftrightarrow> 1 \<le> success_alpha b \<and> 1 \<le> success_beta b
     \<and> fl f (success_alpha b) = success_alpha b \<and> fl f (success_beta b) = success_beta b"

lemma f_add_ge:
  assumes "rounds f" and "0 \<le> y" and "fl f x = x"
  shows "x \<le> f_add f x y" and "fl f (f_add f x y) = f_add f x y"
  using roundsD(1) [OF assms(1), of x "x + y"] roundsD(2) [OF assms(1)] assms(2,3) by (simp_all add: f_add_def)

lemma beta_update_ok: "rounds f \<Longrightarrow> beta_ok f b \<Longrightarrow> beta_ok f (beta_update f b success)"
  using f_add_ge [of f 1] by (auto simp: beta_ok_def beta_update_def intro: order_trans)

lemma beta_mean_bounds:
  assumes "rounds f" and "beta_ok f b"
  shows "0 \<le> beta_mean f b \<and> beta_mean f b \<le> 1"
proof -
  let ?s = "f_add f (success_alpha b) (success_beta b)"
  have b: "1 \<le> success_alpha b" "1 \<le> success_beta b" "fl f (success_alpha b) = success_alpha b"
    using assms(2) by (simp_all add: beta_ok_def)
  then have s: "success_alpha b \<le> ?s" using f_add_ge(1) [OF assms(1) _ b(3), of "success_beta b"] by simp
  with b have "0 < ?s" by linarith
  have "fl f 0 \<le> fl f (success_alpha b / ?s)" "fl f (success_alpha b / ?s) \<le> fl f 1"
    by (rule roundsD(1) [OF assms(1)], use b s \<open>0 < ?s\<close> in simp)+
  then have "fl f 0 \<le> beta_mean f b" "beta_mean f b \<le> fl f 1" by (simp_all add: beta_mean_def f_div_def)
  then show ?thesis by (simp add: roundsD [OF assms(1)])
qed

text \<open>The routers the code can build.\<close>

inductive built_router :: "float_env \<Rightarrow> router \<Rightarrow> bool" for f where
  init: "init_router quality cost latency = Inr R \<Longrightarrow> built_router f R"
| register: "built_router f R \<Longrightarrow> register_candidate f R c priors = Inr R' \<Longrightarrow> built_router f R'"
| update: "built_router f R \<Longrightarrow> update_verified f R key success tokens cost latency_ms judge = Inr R' \<Longrightarrow> built_router f R'"

definition router_inv :: "float_env \<Rightarrow> router \<Rightarrow> bool" where
  "router_inv f R \<longleftrightarrow> keyed (\<lambda>q. candidate_key (posterior_candidate q)) (posteriors R)
     \<and> (\<forall>q \<in> set (dict_values (posteriors R)). beta_ok f (post_success q)
          \<and> deterministic_or_human_samples q \<le> verified_samples q \<and> prior_sources q \<noteq> [])"

lemma absorb_priors_ok:
  assumes "rounds f"
  shows "absorb_priors f ps (a, b, q) = Inr (a', b', q') \<Longrightarrow> 1 \<le> a \<Longrightarrow> 1 \<le> b \<Longrightarrow> fl f a = a \<Longrightarrow> fl f b = b \<Longrightarrow>
    1 \<le> a' \<and> 1 \<le> b' \<and> fl f a' = a' \<and> fl f b' = b' \<and> posterior_candidate q' = posterior_candidate q
    \<and> verified_samples q' = verified_samples q \<and> deterministic_or_human_samples q' = deterministic_or_human_samples q
    \<and> prior_sources q' = prior_sources q @ ps"
proof (induction ps arbitrary: a b q)
  case (Cons p ps)
  have pos: "0 \<le> fl f (real n)" for n using roundsD(1) [OF assms, of 0 "real n"] roundsD(3) [OF assms] by simp
  obtain q1 where q1: "absorb_priors f ps (f_add f a (fl f (real (prior_successes p))),
      f_add f b (fl f (real (prior_failures p))), q1) = Inr (a', b', q')"
    and frame: "posterior_candidate q1 = posterior_candidate q" "verified_samples q1 = verified_samples q"
      "deterministic_or_human_samples q1 = deterministic_or_human_samples q" "prior_sources q1 = prior_sources q @ [p]"
    using Cons.prems(1) by (auto simp: absorb_prior_def split: if_splits)
  note a = f_add_ge [OF assms pos Cons.prems(4), of "prior_successes p"]
  note b = f_add_ge [OF assms pos Cons.prems(5), of "prior_failures p"]
  have "1 \<le> f_add f a (fl f (real (prior_successes p)))" "1 \<le> f_add f b (fl f (real (prior_failures p)))"
    using a(1) b(1) Cons.prems(2,3) by linarith+
  from Cons.IH [OF q1 this a(2) b(2)] frame show ?case by simp
qed auto

lemma router_inv_set:
  assumes "router_inv f R" and "candidate_key (posterior_candidate q) = key" and "beta_ok f (post_success q)"
    and "deterministic_or_human_samples q \<le> verified_samples q" and "prior_sources q \<noteq> []"
  shows "router_inv f (R\<lparr>posteriors := dict_set (posteriors R) key q\<rparr>)"
proof -
  have "keyed (\<lambda>q. candidate_key (posterior_candidate q)) (posteriors R)" using assms(1) by (simp add: router_inv_def)
  note vals = keyed_values_set [OF this assms(2)]
  show ?thesis using assms by (simp add: router_inv_def vals)
qed

lemma register_candidate_inv:
  assumes "rounds f" and "router_inv f R" and "register_candidate f R c priors = Inr R'"
  shows "router_inv f R'"
proof -
  from assms(3) obtain a b q where q: "absorb_priors f priors (1, 1, initial_posterior f c) = Inr (a, b, q)"
    and ne: "priors \<noteq> []"
    and R': "R' = R\<lparr>posteriors := dict_set (posteriors R) (candidate_key c)
               (q\<lparr>post_success := \<lparr>success_alpha = a, success_beta = b\<rparr>\<rparr>)\<rparr>"
    by (auto simp: register_candidate_def split: if_splits)
  have "1 \<le> a \<and> 1 \<le> b \<and> fl f a = a \<and> fl f b = b \<and> posterior_candidate q = c \<and> verified_samples q = 0
      \<and> deterministic_or_human_samples q = 0 \<and> prior_sources q = priors"
    using absorb_priors_ok [OF assms(1) q] roundsD(4) [OF assms(1)] by (simp add: initial_posterior_def)
  then show ?thesis using ne unfolding R'
    by (intro router_inv_set [OF assms(2)]) (simp_all add: beta_ok_def)
qed

lemma update_verified_inv:
  assumes "rounds f" and "router_inv f R" and "update_verified f R key success tokens cost latency_ms judge = Inr R'"
  shows "router_inv f R'"
proof -
  from assms(3) obtain q q' where q: "dict_get (posteriors R) key = Some q"
    and R': "R' = R\<lparr>posteriors := dict_set (posteriors R) key q'\<rparr>"
    and q': "posterior_candidate q' = posterior_candidate q" "post_success q' = beta_update f (post_success q) success"
      "verified_samples q' = verified_samples q + 1" "prior_sources q' = prior_sources q"
      "deterministic_or_human_samples q' \<le> deterministic_or_human_samples q + 1"
    by (auto simp: update_verified_def validate_verified_def require_candidate_def split: option.splits if_splits)
  have key: "candidate_key (posterior_candidate q) = key"
    using assms(2) q keyed_get by (fastforce simp: router_inv_def)
  have "q \<in> set (dict_values (posteriors R))" using q by (rule dict_get_values)
  then have "beta_ok f (post_success q)" "deterministic_or_human_samples q \<le> verified_samples q" "prior_sources q \<noteq> []"
    using assms(2) by (simp_all add: router_inv_def)
  then show ?thesis unfolding R' using q' key beta_update_ok [OF assms(1)]
    by (intro router_inv_set [OF assms(2)]) simp_all
qed

lemma built_router_inv:
  assumes "built_router f R" and "rounds f"
  shows "router_inv f R"
  using assms(1)
proof (induction rule: built_router.induct)
  case (init quality cost latency R)
  then show ?case by (auto simp: init_router_def router_inv_def split: if_splits)
next
  case (register R c priors R')
  show ?case by (rule register_candidate_inv [OF assms(2) register.IH register.hyps(2)])
next
  case (update R key success tokens cost latency_ms judge R')
  show ?case by (rule update_verified_inv [OF assms(2) update.IH update.hyps(2)])
qed

lemma raw_reliability_bounds:
  assumes "rounds f" and "router_inv f R" and "raw_score_of f R key = Inr r"
  shows "0 \<le> raw_reliability r \<and> raw_reliability r \<le> 1"
proof -
  from assms(3) obtain q where "dict_get (posteriors R) key = Some q" and r: "raw_reliability r = beta_mean f (post_success q)"
    by (auto simp: raw_score_of_def require_candidate_def Let_def split: option.splits)
  then have "beta_ok f (post_success q)" using assms(2) dict_get_values by (fastforce simp: router_inv_def)
  with beta_mean_bounds [OF assms(1)] r show ?thesis by simp
qed

end
