(* ===== verification/Evidence_Counts.thy ===== *)
theory Evidence_Counts
  imports Routing_Choice
begin

text \<open>
  What a reader of the ledger can count: the outcomes the posteriors rest on, the
  observations of the token lab, and the times of its reviews.
\<close>

section \<open>Outcomes\<close>

definition outcome_of_event :: "kevent \<Rightarrow> verified_route_outcome list" where
  "outcome_of_event e =
     (if is_outcome_type (event_type e)
      then (case dict_get (payload e) ''outcome'' of Some (POutcome v) \<Rightarrow> [v] | _ \<Rightarrow> []) else [])"

definition logged_outcomes :: "kledger \<Rightarrow> verified_route_outcome list" where
  "logged_outcomes L = concat (map outcome_of_event (ledger_events L))"

text \<open>The outcomes the ledger holds for one candidate.\<close>

definition outcomes_logged_for :: "kledger \<Rightarrow> string \<Rightarrow> verified_route_outcome list" where
  "outcomes_logged_for L key = filter (\<lambda>v. outcome_candidate_key v = key) (logged_outcomes L)"

definition evidence_logged :: "evidence_service \<times> kledger \<Rightarrow> bool" where
  "evidence_logged = (\<lambda>(E, L). dict_values (outcomes E) = logged_outcomes L)"

lemma evidence_step_outcomes:
  assumes step: "evidence_step h f (E, L) (E', L')" and good: "evidence_good (E, L)"
    and log: "evidence_logged (E, L)"
  shows "evidence_logged (E', L')"
  using step
proof (cases rule: evidence_step.cases)
  case (outcome v t aid key e)
  have tr: "tracks is_outcome_type (e_versions E) L" using good by (simp add: evidence_good_def)
  note r = record_outcome_absorbed [OF tr outcome(2)]
  have "outcomes E' = dict_set (outcomes E) (outcome_id v) v"
    using apply_outcome_frame [OF r(5) [unfolded absorbed_def]] by simp
  then have "dict_values (outcomes E') = dict_values (outcomes E) @ [v]"
    using dict_set_new [OF r(1)] by (simp add: dict_values_def)
  moreover have "outcome_of_event e = [v]" using r(3,4) by (simp add: outcome_of_event_def is_outcome_type_def)
  ultimately show ?thesis using log r(2) by (simp add: evidence_logged_def logged_outcomes_def)
next
  case (other e n r)
  have tr: "tracks is_outcome_type (e_versions E) L" using good by (simp add: evidence_good_def)
  have "outcome_of_event e = []" using other(2) by (simp add: outcome_of_event_def)
  then show ?thesis using append_untracked(2) [OF tr other(3,2)] log other(1)
    by (auto simp: evidence_logged_def logged_outcomes_def)
qed

lemma evidence_reachable_outcomes:
  assumes "(evidence_step h f)\<^sup>*\<^sup>* s0 s" and good: "evidence_good s0" and "evidence_logged s0"
  shows "evidence_logged s"
  using assms(1)
proof (induction rule: rtranclp_induct)
  case base
  show ?case by (rule assms(3))
next
  case (step s s')
  have "evidence_good s" using evidence.reachable_good [OF step.hyps(1) good] .
  then show ?case using step by (cases s, cases s') (auto intro: evidence_step_outcomes)
qed

text \<open>A fresh service on an empty ledger.\<close>

definition fresh_evidence :: "router \<Rightarrow> string \<Rightarrow> evidence_service" where
  "fresh_evidence R ds = \<lparr>e_router = R, e_data_space_id = ds, outcomes = [], e_versions = [], evidence_cursor_of = 0\<rparr>"

lemma fresh_evidence_good [simp]:
  "evidence_good (fresh_evidence R ds, empty_ledger ds')" "evidence_logged (fresh_evidence R ds, empty_ledger ds')"
  by (simp_all add: evidence_good_def tracks_empty evidence_logged_def fresh_evidence_def logged_outcomes_def)

lemma fresh_evidence_counted: "counted succ R (fresh_evidence R ds)"
  by (simp add: counted_def fresh_evidence_def outcomes_for_def)

lemma reachable_counts:
  assumes "(evidence_step h f)\<^sup>*\<^sup>* (fresh_evidence R0 ds, empty_ledger ds') (E, L)"
    and "dict_get (posteriors (e_router E)) key = Some q"
  obtains q0 where "dict_get (posteriors R0) key = Some q0"
    and "verified_samples q = verified_samples q0 + length (outcomes_logged_for L key)"
    and "deterministic_or_human_samples q
      = deterministic_or_human_samples q0 + length (filter by_code_or_human (outcomes_logged_for L key))"
    and "success_alpha (post_success q) = ((\<lambda>x. f_add f x 1) ^^ length (filter outcome_success (outcomes_logged_for L key)))
      (success_alpha (post_success q0))"
    and "success_beta (post_success q) = ((\<lambda>x. f_add f x 1) ^^ length (filter (\<lambda>v. \<not> outcome_success v) (outcomes_logged_for L key)))
      (success_beta (post_success q0))"
proof -
  have "outcomes_for E key = outcomes_logged_for L key"
    using evidence_reachable_outcomes [OF assms(1) fresh_evidence_good]
    by (simp add: evidence_logged_def outcomes_for_def outcomes_logged_for_def)
  moreover have "counted (\<lambda>x. f_add f x 1) R0 E"
    using evidence_reachable_counted [OF assms(1)] fresh_evidence_counted by simp
  ultimately show thesis using assms(2) that unfolding counted_def by fastforce
qed

text \<open>Whole numbers up to \<open>n\<close> are counted without rounding; a double counts up to \<open>2 ^ 53\<close>.\<close>

definition counts_exactly :: "float_env \<Rightarrow> nat \<Rightarrow> bool" where
  "counts_exactly f n \<longleftrightarrow> (\<forall>m < n. fl f (real m + 1) = real m + 1)"

lemma count_exactly:
  assumes "counts_exactly f n" and "a + m \<le> n"
  shows "((\<lambda>x. f_add f x 1) ^^ m) (real a) = real (a + m)"
  using assms(2)
proof (induction m)
  case (Suc m)
  then have "a + m < n" by simp
  with assms(1) have "fl f (real (a + m) + 1) = real (a + m) + 1" unfolding counts_exactly_def by blast
  with Suc show ?case by (simp add: f_add_def add_ac)
qed simp

section \<open>The token lab\<close>

definition observation_of_event :: "kevent \<Rightarrow> token_observation list" where
  "observation_of_event e =
     (if event_type e = ''token_observation_recorded''
      then (case dict_get (payload e) ''observation'' of Some (PObservation x) \<Rightarrow> [x] | _ \<Rightarrow> []) else [])"

definition review_of_event :: "kevent \<Rightarrow> time list" where
  "review_of_event e =
     (if event_type e = ''token_weekly_review_recorded''
      then (case dict_get (payload e) ''reviewed_at'' of Some (PTime x) \<Rightarrow> [x] | _ \<Rightarrow> []) else [])"

definition logged_observations :: "kledger \<Rightarrow> token_observation list" where
  "logged_observations L = concat (map observation_of_event (ledger_events L))"

definition review_times :: "kledger \<Rightarrow> time list" where
  "review_times L = concat (map review_of_event (ledger_events L))"

definition fresh_lab :: "string \<Rightarrow> token_lab_events" where
  "fresh_lab ds = \<lparr>lab = init_token_lab, tl_data_space_id = ds, tl_versions = []\<rparr>"

definition last_review :: "time list \<Rightarrow> time option" where
  "last_review xs = (if xs = [] then None else Some (last xs))"

definition lab_counted :: "token_lab_events \<times> kledger \<Rightarrow> bool" where
  "lab_counted = (\<lambda>(S, L). observations (lab S) = logged_observations L \<and> distinct_observations S
     \<and> last_weekly_review_at (lab S) = last_review (review_times L)
     \<and> successively (\<lambda>a b. a + week \<le> b) (review_times L))"

lemma lab_record_event:
  assumes "tracks is_lab_type (tl_versions S) L" and "lab_record h S L t sid ty p act aid key = Inr (e, Sa, L')"
    and "is_lab_type ty"
  shows "ledger_events L' = ledger_events L @ [e]" "event_type e = ty" "payload e = p" "lab Sa = lab S"
proof -
  from assms(2) obtain r where app: "append_event h L (tl_data_space_id S) sid (version_of (tl_versions S) sid) ty p t act
      (Some aid) (Some sid) None key = Inr (e, r, L')"
    and "Sa = S\<lparr>tl_versions := dict_set (tl_versions S) sid (result_stream_version r)\<rparr>"
    by (auto simp: lab_record_def)
  then show "ledger_events L' = ledger_events L @ [e]" "event_type e = ty" "payload e = p" "lab Sa = lab S"
    using append_tracked [OF assms(1) app assms(3)] by simp_all
qed

lemma lab_step_counted:
  assumes tr: "tracks is_lab_type (tl_versions S) L" and step: "lab_step h f (S, L) (S', L')"
    and c: "lab_counted (S, L)"
  shows "lab_counted (S', L')"
proof -
  have dist: "distinct_observations S'" using lab_step_keeps(1) [OF step] c by (simp add: lab_counted_def)
  note defs = lab_counted_def logged_observations_def review_times_def observation_of_event_def review_of_event_def
  show ?thesis using step
  proof (cases rule: lab_step.cases)
    case (baseline b t aid key e)
    then obtain Sa where rec: "lab_record h S L t (baseline_stream h (baseline_work_type b)) ''token_baseline_approved''
        [(''baseline'', PBaseline b)] Human aid key = Inr (e, Sa, L')"
      and S': "S' = Sa\<lparr>lab := lab_approve_baseline (lab Sa) b\<rparr>"
      by (auto simp: service_approve_baseline_def)
    show ?thesis using lab_record_event [OF tr rec] c dist S'
      by (simp add: defs is_lab_type_def lab_approve_baseline_def)
  next
    case (observation x t aid key e_triggers)
    then obtain triggers e Sa T r where rec: "lab_record h S L t (observation_id x) ''token_observation_recorded''
        [(''observation'', PObservation x), (''triggers'', PTriggers triggers)] SystemActor aid key = Inr (e, Sa, L')"
      and S': "lab_observe f (lab Sa) x = Inr (r, T)" "S' = Sa\<lparr>lab := T\<rparr>"
      by (auto simp: service_observe_def Let_def split: if_splits)
    show ?thesis using lab_record_event [OF tr rec] c dist S'
      by (auto simp: defs is_lab_type_def lab_observe_def split: if_splits)
  next
    case (review t reviewed_at aid key e)
    then obtain Sa T where rec: "lab_record h S L t weekly_stream ''token_weekly_review_recorded''
        [(''reviewed_at'', PTime reviewed_at)] SystemActor aid key = Inr (e, Sa, L')"
      and due: "weekly_due (lab S) reviewed_at"
      and S': "mark_weekly_reviewed (lab Sa) reviewed_at = Inr T" "S' = Sa\<lparr>lab := T\<rparr>"
      by (auto simp: record_weekly_review_def split: if_splits)
    have new: "review_times L' = review_times L @ [reviewed_at]" "logged_observations L' = logged_observations L"
      using lab_record_event [OF tr rec] by (simp_all add: defs is_lab_type_def)
    have T: "last_weekly_review_at (lab S') = Some reviewed_at" "observations (lab S') = observations (lab S)"
      using S' lab_record_event(4) [OF tr rec] by (auto simp: mark_weekly_reviewed_def is_lab_type_def split: if_splits)
    have "review_times L = [] \<or> last (review_times L) + week \<le> reviewed_at"
      using due c by (cases "review_times L = []") (simp_all add: weekly_due_def lab_counted_def last_review_def)
    then show ?thesis using c dist new T
      by (simp add: lab_counted_def last_review_def successively_append_iff)
  next
    case (other e n r)
    have "observation_of_event e = []" "review_of_event e = []"
      using other(2) by (simp_all add: is_lab_type_def observation_of_event_def review_of_event_def)
    then show ?thesis using append_untracked(2) [OF tr other(3,2)] c other(1)
      by (auto simp: lab_counted_def logged_observations_def review_times_def)
  qed
qed

lemma fresh_lab_good [simp]:
  "lab_good (fresh_lab ds, empty_ledger ds')" "lab_counted (fresh_lab ds, empty_ledger ds')"
  by (simp_all add: lab_good_def tracks_empty lab_counted_def fresh_lab_def init_token_lab_def logged_observations_def
      review_times_def last_review_def distinct_observations_def)

lemma lab_reachable_counted:
  assumes "(lab_step h f)\<^sup>*\<^sup>* (fresh_lab ds, empty_ledger ds') s"
  shows "lab_counted s"
  using assms
proof (induction rule: rtranclp_induct)
  case base
  show ?case by simp
next
  case (step s s')
  have "lab_good s" using token_lab.reachable_good [OF step.hyps(1)] by simp
  then show ?case using step by (cases s, cases s') (auto simp: lab_good_def intro: lab_step_counted)
qed

end
