(* ===== verification/Routing_Properties.thy ===== *)
theory Routing_Properties
  imports Evidence_Counts Example_Run
begin

text \<open>
  The properties of routing evidence and of the token lab, applied to a router with two
  candidates, one verified outcome, and a lab that reviews two weeks.
\<close>

section \<open>An example\<close>

text \<open>Exact arithmetic, with the identity for the logarithm and the exponential.\<close>

definition toy_float :: float_env where
  "toy_float = \<lparr>fl = \<lambda>x. x, log_fn = \<lambda>x. x, exp_fn = Inr, square_fn = \<lambda>x. x * x\<rparr>"

lemma toy_float_rounds: "rounds toy_float"
  by (simp add: rounds_def toy_float_def mono_def)

definition ex_luna :: model_candidate where
  "ex_luna = \<lparr>candidate_provider = ''openai'', candidate_selection_exact = True,
     candidate_model_snapshot = Some ''gpt-5.6-luna'', candidate_effort = ''xhigh'', candidate_key = ''a''\<rparr>"

definition ex_sol :: model_candidate where
  "ex_sol = \<lparr>candidate_provider = ''openai'', candidate_selection_exact = True,
     candidate_model_snapshot = Some ''gpt-5.6-sol'', candidate_effort = ''xhigh'', candidate_key = ''b''\<rparr>"

text \<open>Three trials each: the first succeeded once, the second twice.\<close>

definition ex_prior :: "nat \<Rightarrow> benchmark_prior" where
  "ex_prior n = \<lparr>prior_source = SweBench, benchmark_family = Coding, prior_version = ''1'', sample_count = 3,
     harness = ''h'', prior_successes = n, prior_failures = 3 - n, log_token_samples = [1], log_cost_samples = [1],
     log_latency_samples = [1]\<rparr>"

definition router0 :: router where
  "router0 = \<lparr>quality_weight = 1, cost_weight = 0, latency_weight = 0, posteriors = []\<rparr>"

definition ex_posterior :: "model_candidate \<Rightarrow> nat \<Rightarrow> candidate_posterior" where
  "ex_posterior c n = (let g = nig_update toy_float (initial_nig toy_float) 1 in
     (initial_posterior toy_float c)\<lparr>post_success := \<lparr>success_alpha = 1 + real n, success_beta = 1 + real (3 - n)\<rparr>,
       post_tokens := g, post_cost := g, post_latency := g, prior_sources := [ex_prior n]\<rparr>)"

definition router2 :: router where
  "router2 = router0\<lparr>posteriors := [(''a'', ex_posterior ex_luna 1), (''b'', ex_posterior ex_sol 2)]\<rparr>"

lemma ex_register:
  assumes "n \<le> 3" and "\<not> dict_mem (candidate_key c) (posteriors R)"
  shows "register_candidate toy_float R c [ex_prior n] = Inr (R\<lparr>posteriors := posteriors R @ [(candidate_key c, ex_posterior c n)]\<rparr>)"
  using assms
  by (simp add: register_candidate_def absorb_prior_def ex_prior_def ex_posterior_def Let_def initial_posterior_def
      dict_set_new f_add_def toy_float_def)

lemma router2_built: "built_router toy_float router2"
proof -
  have "built_router toy_float router0"
    by (rule built_router.init [of 1 0 0]) (simp add: init_router_def router0_def)
  from built_router.register [OF this ex_register [of 1 ex_luna]]
  have "built_router toy_float (router0\<lparr>posteriors := [(''a'', ex_posterior ex_luna 1)]\<rparr>)"
    by (simp add: router0_def ex_luna_def)
  from built_router.register [OF this ex_register [of 2 ex_sol]]
  show ?thesis by (simp add: router0_def ex_sol_def router2_def)
qed

lemma ex_candidates [simp]:
  "require_candidate router2 ''a'' = Inr (ex_posterior ex_luna 1)"
  "require_candidate router2 ''b'' = Inr (ex_posterior ex_sol 2)"
  by (simp_all add: require_candidate_def router2_def router0_def)

definition ex_choice :: "string \<Rightarrow> route_snapshot" where
  "ex_choice rkey = \<lparr>snapshot_id = ''route:1'', route_data_space_id = ''ds:main'', route_key = rkey, evidence_cursor = 0,
     candidate_keys = [''a'', ''b''], production_objective = QualityMax, route_state = Published,
     s3_star_approval_event_id = Some ''event:1'', owner_approval_event_id = Some ''event:2''\<rparr>"

definition ex_score :: "string \<Rightarrow> real \<Rightarrow> raw_score" where
  "ex_score key n = (let m = nig_mu (nig_update toy_float (initial_nig toy_float) 1) in
     \<lparr>raw_reliability = n / 5, raw_tokens = m, raw_cost = m, raw_latency = m, raw_utility = n / 5\<rparr>)"

lemma ex_raw_scores: "raw_scores toy_float router2 [''a'', ''b''] [] = Inr [(''a'', ex_score ''a'' 2), (''b'', ex_score ''b'' 3)]"
  by (simp add: raw_score_of_def ex_posterior_def geometric_mean_def ex_score_def Let_def beta_mean_def f_add_def f_sub_def
      f_mul_def f_div_def toy_float_def router2_def router0_def dict_set_def require_candidate_def)

lemma ex_ordering: "ordering [(''a'', ex_score ''a'' 2), (''b'', ex_score ''b'' 3)] QualityMax [''a'', ''b''] = [''b'', ''a'']"
  by (simp add: raw_get_def ex_score_def Let_def less_eq_prod_def)

definition ex_route_score :: "string \<Rightarrow> real \<Rightarrow> route_score" where
  "ex_route_score key n = \<lparr>score_candidate_key = key, score_raw = ex_score key n,
     ranks = (\<lambda>objective. rank_in (ordering [(''a'', ex_score ''a'' 2), (''b'', ex_score ''b'' 3)] objective [''a'', ''b'']) key)\<rparr>"

lemma ex_scores: "scores toy_float router2 [''a'', ''b''] = Inr [ex_route_score ''a'' 2, ex_route_score ''b'' 3]"
  by (simp add: scores_def ex_raw_scores ex_route_score_def del: raw_scores.simps ordering.simps)

lemma ex_ranks: "ranks (ex_route_score ''a'' 2) QualityMax = 2" "ranks (ex_route_score ''b'' 3) QualityMax = 1"
  "score_candidate_key (ex_route_score key n) = key"
  by (simp_all add: ex_route_score_def ex_ordering rank_in_def del: ordering.simps)

lemma ex_select:
  "\<exists>best. select_production toy_float router2 (ex_choice ''r'') = Inr best \<and> score_candidate_key best = ''b''"
  "\<exists>best. select_production toy_float router2 (ex_choice coding_route_key) = Inr best \<and> score_candidate_key best = ''a''"
proof -
  note s = ex_scores ex_ranks
  have samples: "verified_samples (ex_posterior c n) = 0" for c n
    by (simp add: ex_posterior_def Let_def initial_posterior_def)
  have key: "''r'' \<noteq> coding_route_key" by (simp add: coding_route_key_def)
  show "\<exists>best. select_production toy_float router2 (ex_choice ''r'') = Inr best \<and> score_candidate_key best = ''b''"
    using key samples by (simp add: select_production_def ex_choice_def s Let_def)
  have "require_coding_route_candidate_keys coding_route_key [''a'', ''b'']
      (map posterior_candidate (dict_values (posteriors router2))) = Inr ()"
    by (simp add: require_coding_route_candidate_keys_def require_coding_escalation_candidates_def router2_def router0_def
        dict_values_def ex_posterior_def Let_def initial_posterior_def ex_luna_def ex_sol_def dict_set_def
        coding_route_candidate_models_def)
  then show "\<exists>best. select_production toy_float router2 (ex_choice coding_route_key) = Inr best \<and> score_candidate_key best = ''a''"
    using samples by (simp add: select_production_def ex_choice_def s Let_def)
qed

section \<open>Selection\<close>



text \<open>
  C21: the personal coding route starts on the exact \<^verbatim>\<open>gpt-5.6-luna/xhigh\<close> candidate: if the
  route is selected at all, its snapshot lists the registered luna and sol candidates in
  this order, and luna is selected.
\<close>

theorem coding_route_prefers_luna:
  assumes "select_production f R s = Inr best" and "route_key s = coding_route_key"
  shows "\<exists>luna sol. luna \<in> posterior_candidate ` set (dict_values (posteriors R))
    \<and> sol \<in> posterior_candidate ` set (dict_values (posteriors R))
    \<and> coding_candidate ''gpt-5.6-luna'' luna \<and> coding_candidate ''gpt-5.6-sol'' sol
    \<and> candidate_keys s = [candidate_key luna, candidate_key sol] \<and> score_candidate_key best = candidate_key luna"
proof -
  from assms obtain ss where ss: "scores f R (candidate_keys s) = Inr ss" and best: "best = hd ss"
    and req: "require_coding_route_candidate_keys coding_route_key (candidate_keys s)
        (map posterior_candidate (dict_values (posteriors R))) = Inr ()"
    by (auto elim: select_production_Inr)
  have "score_candidate_key best = hd (candidate_keys s)"
    using scores_nonempty [OF ss] best by (metis list.map_sel(1))
  moreover obtain luna sol where "luna \<in> set (map posterior_candidate (dict_values (posteriors R)))"
    "sol \<in> set (map posterior_candidate (dict_values (posteriors R)))" "coding_candidate ''gpt-5.6-luna'' luna"
    "coding_candidate ''gpt-5.6-sol'' sol" "candidate_keys s = [candidate_key luna, candidate_key sol]"
    using coding_route_keys [OF req] by blast
  ultimately show ?thesis by (intro exI [of _ luna] exI [of _ sol]) simp
qed

theorem coding_route_prefers_luna_witness:
  "\<exists>best (luna :: model_candidate) (sol :: model_candidate). select_production toy_float router2 (ex_choice coding_route_key) = Inr best
     \<and> coding_candidate ''gpt-5.6-luna'' luna \<and> candidate_keys (ex_choice coding_route_key) = [candidate_key luna, candidate_key sol]
     \<and> score_candidate_key best = candidate_key luna"
proof -
  obtain best where best: "select_production toy_float router2 (ex_choice coding_route_key) = Inr best"
    using ex_select(2) by blast
  have "route_key (ex_choice coding_route_key) = coding_route_key" by (simp add: ex_choice_def)
  from coding_route_prefers_luna [OF best this] best show ?thesis by blast
qed

text \<open>
  No route goes to production on an AI judge's word alone: the snapshot is published,
  and the selected candidate has no verified outcome at all or one that code or a human
  judged.
\<close>

theorem selected_route_has_evidence:
  assumes "select_production f R s = Inr best"
  shows "route_state s = Published \<and> (\<exists>q. dict_get (posteriors R) (score_candidate_key best) = Some q
    \<and> (verified_samples q = 0 \<or> 0 < deterministic_or_human_samples q))"
  using assms by (auto elim!: select_production_Inr simp: require_candidate_def split: option.splits)

theorem selected_route_has_evidence_witness:
  "\<exists>best q. select_production toy_float router2 (ex_choice ''r'') = Inr best
     \<and> dict_get (posteriors router2) (score_candidate_key best) = Some q
     \<and> (verified_samples q = 0 \<or> 0 < deterministic_or_human_samples q)"
proof -
  obtain best where best: "select_production toy_float router2 (ex_choice ''r'') = Inr best" using ex_select(1) by blast
  from selected_route_has_evidence [OF best] best show ?thesis by blast
qed

text \<open>
  C36: the reliability a route is ranked by lies between nought and one for every router the
  code can build, whatever priors and outcomes it has absorbed and however it rounds.
\<close>

theorem reliability_is_bounded:
  assumes "built_router f R" and "rounds f" and "raw_score_of f R key = Inr r"
  shows "0 \<le> raw_reliability r \<and> raw_reliability r \<le> 1"
  by (rule raw_reliability_bounds [OF assms(2) built_router_inv [OF assms(1,2)] assms(3)])

theorem reliability_is_bounded_witness:
  "\<exists>r. raw_score_of toy_float router2 ''a'' = Inr r \<and> 0 \<le> raw_reliability r \<and> raw_reliability r \<le> 1"
proof -
  obtain r where r: "raw_score_of toy_float router2 ''a'' = Inr r"
    using raw_scores_get(1) [OF ex_raw_scores, of "''a''"] by auto
  from reliability_is_bounded [OF router2_built toy_float_rounds r] r show ?thesis by blast
qed

section \<open>Evidence\<close>

definition ex_outcome :: verified_route_outcome where
  "ex_outcome = \<lparr>outcome_id = ''outcome:1'', outcome_candidate_key = ''a'', outcome_occurred_at = 0, outcome_success = True,
     outcome_tokens = 5, outcome_cost = 1, outcome_latency_ms = 7, outcome_judge = None\<rparr>"

abbreviation evidence0 :: evidence_service where
  "evidence0 \<equiv> fresh_evidence router2 ''ds:main''"

definition ex_outcome_event :: kevent where
  "ex_outcome_event =
     run_event 73 ''outcome:1'' 1 ''model_outcome_verified'' [(''outcome'', POutcome ex_outcome)] Human ''outcome:1'' 1"

lemma empty_ledger_facts: "ledger_data_space_id (empty_ledger ds) = ds" "l_idempotency (empty_ledger ds) = []"
  "l_event_ids (empty_ledger ds) = []" "l_events (empty_ledger ds) = []"
  by (simp_all add: empty_ledger_def)

lemma ex_outcome_recorded:
  obtains E where "record_outcome toy toy_float evidence0 (empty_ledger ''ds:main'') 0 ex_outcome ''owner:me'' (run_key 1)
      = Inr (ex_outcome_event, E, pushed (empty_ledger ''ds:main'') ex_outcome_event)"
    and "\<exists>q. dict_get (posteriors (e_router E)) ''a'' = Some q"
proof -
  have sid: "valid_identifier ''outcome:1''" by code_simp
  have app: "append_event toy (empty_ledger ''ds:main'') ''ds:main'' ''outcome:1'' 0 ''model_outcome_verified''
      [(''outcome'', POutcome ex_outcome)] 0 Human (Some ''owner:me'') (Some ''outcome:1'') None (run_key 1)
    = Inr (ex_outcome_event, \<lparr>outcome = Appended, result_cursor = 1, result_stream_version = 1\<rparr>,
        pushed (empty_ledger ''ds:main'') ex_outcome_event)"
    unfolding ex_outcome_event_def
    by (subst run_append [where n = 73]) (simp_all add: sid non_blank_def py_len_def empty_ledger_facts)
  have val: "validate_verified router2 ''a'' 5 1 7 None = Inr (ex_posterior ex_luna 1)"
    by (simp add: validate_verified_def)
  have v: "outcome_id ex_outcome = ''outcome:1''" "outcome_candidate_key ex_outcome = ''a''" "outcome_tokens ex_outcome = 5"
    "outcome_cost ex_outcome = 1" "outcome_latency_ms ex_outcome = 7" "outcome_judge ex_outcome = None"
    by (simp_all add: ex_outcome_def)
  obtain E where "record_outcome toy toy_float evidence0 (empty_ledger ''ds:main'') 0 ex_outcome ''owner:me'' (run_key 1)
      = Inr (ex_outcome_event, E, pushed (empty_ledger ''ds:main'') ex_outcome_event)"
    using record_outcome_applies [of ex_outcome evidence0 "ex_posterior ex_luna 1" toy "empty_ledger ''ds:main''"] val app
    by (simp add: fresh_evidence_def v version_of_def) blast
  moreover from this have "\<exists>q. dict_get (posteriors (e_router E)) ''a'' = Some q"
    by (auto simp: record_outcome_def apply_outcome_def update_verified_def v Let_def split: if_splits)
  ultimately show thesis by (rule that)
qed

lemma ex_evidence_run:
  obtains E where "(evidence_step toy toy_float)\<^sup>*\<^sup>* (evidence0, empty_ledger ''ds:main'')
      (E, pushed (empty_ledger ''ds:main'') ex_outcome_event)"
    and "\<exists>q. dict_get (posteriors (e_router E)) ''a'' = Some q"
proof -
  obtain E where E: "record_outcome toy toy_float evidence0 (empty_ledger ''ds:main'') 0 ex_outcome ''owner:me'' (run_key 1)
      = Inr (ex_outcome_event, E, pushed (empty_ledger ''ds:main'') ex_outcome_event)"
    and q: "\<exists>q. dict_get (posteriors (e_router E)) ''a'' = Some q"
    by (rule ex_outcome_recorded)
  have "valid_verified_route_outcome ex_outcome" by (simp add: ex_outcome_def) code_simp
  from evidence_step.outcome [OF this E] q that show thesis by blast
qed

text \<open>
  C33: replaying the verified outcomes of the ledger gives back the evidence service: router,
  posteriors, recorded outcomes, versions and cursor, whatever the other services of the
  ledger write in between.
\<close>

theorem evidence_replays:
  assumes "(evidence_step h f)\<^sup>*\<^sup>* (fresh_evidence R ds, empty_ledger ds) (E, L)"
  shows "fold_result (replay_evidence f) (fresh_evidence R ds, 0) (ledger_events L) = Inr (E, length (ledger_events L))"
  using evidence.replay_log [OF assms] by simp

theorem evidence_replays_witness:
  "\<exists>E L. ledger_events L = [ex_outcome_event]
     \<and> fold_result (replay_evidence toy_float) (evidence0, 0) [ex_outcome_event] = Inr (E, 1)"
proof -
  obtain E where run: "(evidence_step toy toy_float)\<^sup>*\<^sup>* (evidence0, empty_ledger ''ds:main'')
      (E, pushed (empty_ledger ''ds:main'') ex_outcome_event)" by (rule ex_evidence_run)
  have L: "ledger_events (pushed (empty_ledger ''ds:main'') ex_outcome_event) = [ex_outcome_event]"
    by (simp add: ledger_events_def pushed_def empty_ledger_def Let_def)
  from evidence_replays [OF run] L show ?thesis by (intro exI [of _ E] exI conjI) auto
qed

text \<open>
  C35: every posterior counts each verified outcome of its candidate in the ledger once: in its
  samples, in the samples code or a human judged, and, as long as the doubles count
  exactly, as one success or one failure of the beta distribution.
\<close>

theorem posteriors_count_outcomes:
  assumes "(evidence_step h f)\<^sup>*\<^sup>* (fresh_evidence R ds, empty_ledger ds) (E, L)"
    and "dict_get (posteriors (e_router E)) key = Some q" and "dict_get (posteriors R) key = Some q0"
    and "post_success q0 = \<lparr>success_alpha = real a, success_beta = real b\<rparr>"
    and "counts_exactly f (max a b + length (outcomes_logged_for L key))"
  shows "verified_samples q = verified_samples q0 + length (outcomes_logged_for L key)
    \<and> deterministic_or_human_samples q
      = deterministic_or_human_samples q0 + length (filter by_code_or_human (outcomes_logged_for L key))
    \<and> success_alpha (post_success q) = real (a + length (filter outcome_success (outcomes_logged_for L key)))
    \<and> success_beta (post_success q) = real (b + length (filter (\<lambda>v. \<not> outcome_success v) (outcomes_logged_for L key)))"
proof -
  have le: "x + length (filter P (outcomes_logged_for L key)) \<le> max a b + length (outcomes_logged_for L key)"
    if "x = a \<or> x = b" for x P using that by (intro add_mono) auto
  note count = count_exactly [OF assms(5) le]
  show ?thesis
    by (rule reachable_counts [OF assms(1,2)]) (simp add: assms(3,4) count del: of_nat_add)
qed

theorem posteriors_count_outcomes_witness:
  "\<exists>(E :: evidence_service) L (q :: candidate_posterior). verified_samples q = 1 \<and> success_alpha (post_success q) = 3 \<and> dict_get (posteriors (e_router E)) ''a'' = Some q
     \<and> outcomes_logged_for L ''a'' = [ex_outcome]"
proof -
  let ?L = "pushed (empty_ledger ''ds:main'') ex_outcome_event"
  obtain E q where run: "(evidence_step toy toy_float)\<^sup>*\<^sup>* (evidence0, empty_ledger ''ds:main'') (E, ?L)"
    and q: "dict_get (posteriors (e_router E)) ''a'' = Some q" using ex_evidence_run by blast
  have q0: "dict_get (posteriors router2) ''a'' = Some (ex_posterior ex_luna 1)" by (simp add: router2_def router0_def)
  have post: "post_success (ex_posterior ex_luna 1) = \<lparr>success_alpha = real 2, success_beta = real 3\<rparr>"
    and "verified_samples (ex_posterior ex_luna 1) = 0"
    by (simp_all add: ex_posterior_def Let_def initial_posterior_def)
  have exact: "counts_exactly toy_float n" for n by (simp add: counts_exactly_def toy_float_def)
  have "ledger_events ?L = [ex_outcome_event]"
    by (simp add: ledger_events_def pushed_def empty_ledger_def Let_def)
  then have "outcomes_logged_for ?L ''a'' = [ex_outcome]"
    by (simp add: outcomes_logged_for_def logged_outcomes_def outcome_of_event_def ex_outcome_event_def run_event_def
        is_outcome_type_def ex_outcome_def)
  with posteriors_count_outcomes [OF run q q0 post exact] q \<open>verified_samples _ = 0\<close> show ?thesis
    by (intro exI [of _ E] exI [of _ ?L] exI [of _ q]) (simp add: ex_outcome_def)
qed

section \<open>The token lab\<close>

definition ex_observation :: token_observation where
  "ex_observation = \<lparr>observation_id = ''obs:1'', obs_work_type = ''w'', obs_occurred_at = 0, total_input_tokens = 9,
     interface_input_tokens = 1, incident_kinds = {FalseComplete}, full_history_resent = False,
     expensive_interface_calls = 0, verified_complete = False\<rparr>"

text \<open>One observation, and a review after one week and after two.\<close>

definition lab_event1 :: kevent where
  "lab_event1 = run_event 69 ''obs:1'' 1 ''token_observation_recorded'' [(''observation'', PObservation ex_observation),
     (''triggers'', PTriggers [logic_trigger ''single_event:false_complete'' ''w'' [''obs:1'']])] SystemActor ''obs:1'' 1"

definition lab_event2 :: kevent where
  "lab_event2 = run_event 87 weekly_stream 1 ''token_weekly_review_recorded'' [(''reviewed_at'', PTime week)]
     SystemActor weekly_stream 2"

definition lab_event3 :: kevent where
  "lab_event3 = run_event 88 weekly_stream 2 ''token_weekly_review_recorded'' [(''reviewed_at'', PTime (2 * week))]
     SystemActor weekly_stream 3"

abbreviation lab_ledger1 :: kledger where "lab_ledger1 \<equiv> pushed (empty_ledger ''ds:main'') lab_event1"
abbreviation lab_ledger2 :: kledger where "lab_ledger2 \<equiv> pushed lab_ledger1 lab_event2"
abbreviation lab_ledger3 :: kledger where "lab_ledger3 \<equiv> pushed lab_ledger2 lab_event3"

definition lab_at :: "(string, nat) dict \<Rightarrow> time option \<Rightarrow> token_lab_events" where
  "lab_at versions t = \<lparr>lab = \<lparr>baselines = [], observations = [ex_observation], last_weekly_review_at = t\<rparr>,
     tl_data_space_id = ''ds:main'', tl_versions = versions\<rparr>"

lemma lab_streams: "valid_identifier ''obs:1''" "valid_identifier weekly_stream" "length weekly_stream = 22"
  "weekly_stream \<noteq> ''obs:1''" "''obs:1'' \<noteq> weekly_stream"
  unfolding weekly_stream_def by (code_simp, code_simp, simp_all)

lemma lab_types: "non_blank ''token_observation_recorded''" "non_blank ''token_weekly_review_recorded''"
  by (simp_all add: non_blank_def py_len_def)

lemma lab_events_sel [simp]:
  "stream_id lab_event1 = ''obs:1''" "idempotency_key lab_event1 = run_key 1" "event_id lab_event1 = run_event_id 69"
  "stream_id lab_event2 = weekly_stream" "idempotency_key lab_event2 = run_key 2" "event_id lab_event2 = run_event_id 87"
  "stream_id lab_event3 = weekly_stream"
  by (simp_all add: lab_event1_def lab_event2_def lab_event3_def)

lemma ex_evaluate: "evaluate toy_float (lab (fresh_lab ''ds:main'')) ex_observation
    = [logic_trigger ''single_event:false_complete'' ''w'' [''obs:1'']]"
  by (simp add: evaluate_def fresh_lab_def init_token_lab_def ex_observation_def direct_incidents_def
      sorted_incident_kinds_def single_event_triggers_def)

lemma lab_run1: "service_observe toy toy_float (fresh_lab ''ds:main'') (empty_ledger ''ds:main'') 0 ex_observation ''owner:me'' (run_key 1)
    = Inr ((lab_event1, [logic_trigger ''single_event:false_complete'' ''w'' [''obs:1'']]),
        lab_at [(''obs:1'', 1)] None, lab_ledger1)"
proof -
  have id: "observation_id ex_observation = ''obs:1''" by (simp add: ex_observation_def)
  have lab: "observations (lab (fresh_lab ''ds:main'')) = []" "tl_data_space_id (fresh_lab ds) = ds" "tl_versions (fresh_lab ds) = []"
    "lab (fresh_lab ds) = \<lparr>baselines = [], observations = [], last_weekly_review_at = None\<rparr>" for ds
    by (simp_all add: fresh_lab_def init_token_lab_def)
  have rec: "lab_record toy (fresh_lab ''ds:main'') (empty_ledger ''ds:main'') 0 ''obs:1'' ''token_observation_recorded''
      [(''observation'', PObservation ex_observation),
       (''triggers'', PTriggers [logic_trigger ''single_event:false_complete'' ''w'' [''obs:1'']])] SystemActor ''owner:me'' (run_key 1)
    = Inr (lab_event1, (fresh_lab ''ds:main'')\<lparr>tl_versions := [(''obs:1'', 1)]\<rparr>, lab_ledger1)"
    by (simp add: lab_record_def version_of_def lab run_append [where n = 69] lab_streams lab_types empty_ledger_facts
        lab_event1_def dict_set_def)
  have at: "(fresh_lab ''ds:main'')\<lparr>tl_versions := [(''obs:1'', 1)],
      lab := \<lparr>baselines = [], observations = [ex_observation], last_weekly_review_at = None\<rparr>\<rparr> = lab_at [(''obs:1'', 1)] None"
    by (simp add: lab_at_def fresh_lab_def)
  show ?thesis
    unfolding service_observe_def id ex_evaluate Let_def rec
    using at by (simp add: lab lab_observe_def)
qed

lemma lab_review:
  assumes "t \<le> reviewed_at - week" and "lab_at vs (Some t) = S \<or> lab_at vs None = S \<and> t = 0"
    and "ledger_data_space_id L = ''ds:main''" "length (stream_of L weekly_stream) = v" "version_of vs weekly_stream = v"
    and "dict_get (l_idempotency L) (run_key i) = None" "dict_get (l_event_ids L) (run_event_id (85 + i)) = None"
    and "1 \<le> i" "i \<le> 500"
  shows "record_weekly_review toy S L 0 reviewed_at ''owner:me'' (run_key i)
    = Inr (run_event (85 + i) weekly_stream (Suc v) ''token_weekly_review_recorded'' [(''reviewed_at'', PTime reviewed_at)]
             SystemActor weekly_stream i,
           lab_at (dict_set vs weekly_stream (Suc v)) (Some reviewed_at),
           pushed L (run_event (85 + i) weekly_stream (Suc v) ''token_weekly_review_recorded''
             [(''reviewed_at'', PTime reviewed_at)] SystemActor weekly_stream i))"
proof -
  have due: "weekly_due (lab S) reviewed_at" using assms(1,2) by (auto simp: weekly_due_def lab_at_def ex_observation_def)
  have S: "tl_data_space_id S = ''ds:main''" "tl_versions S = vs" using assms(2) by (auto simp: lab_at_def)
  have rec: "lab_record toy S L 0 weekly_stream ''token_weekly_review_recorded'' [(''reviewed_at'', PTime reviewed_at)]
      SystemActor ''owner:me'' (run_key i)
    = Inr (run_event (85 + i) weekly_stream (Suc v) ''token_weekly_review_recorded'' [(''reviewed_at'', PTime reviewed_at)]
             SystemActor weekly_stream i, S\<lparr>tl_versions := dict_set vs weekly_stream (Suc v)\<rparr>,
           pushed L (run_event (85 + i) weekly_stream (Suc v) ''token_weekly_review_recorded''
             [(''reviewed_at'', PTime reviewed_at)] SystemActor weekly_stream i))"
    using assms(3-9) by (simp add: lab_record_def S run_append [where n = "85 + i"] lab_streams lab_types)
  have "0 < week" by (simp add: week_def)
  then show ?thesis using due assms(1,2)
    by (auto simp: record_weekly_review_def rec mark_weekly_reviewed_def lab_at_def)
qed

lemma lab_run:
  "(lab_step toy toy_float)\<^sup>*\<^sup>* (fresh_lab ''ds:main'', empty_ledger ''ds:main'')
     (lab_at [(''obs:1'', 1), (weekly_stream, 2)] (Some (2 * week)), lab_ledger3)"
proof -
  have "valid_token_observation ex_observation"
    by (simp add: valid_token_observation_def ex_observation_def py_len_def)
  note step1 = lab_step.observation [OF this lab_run1]
  have "record_weekly_review toy (lab_at [(''obs:1'', 1)] None) lab_ledger1 0 week ''owner:me'' (run_key 2)
      = Inr (lab_event2, lab_at [(''obs:1'', 1), (weekly_stream, 1)] (Some week), lab_ledger2)"
    by (subst lab_review [where t = 0 and v = 0 and vs = "[(''obs:1'', 1)]"])
      (simp_all add: lab_event2_def version_of_def dict_set_def lab_streams empty_ledger_facts)
  note step2 = lab_step.review [OF this]
  have "record_weekly_review toy (lab_at [(''obs:1'', 1), (weekly_stream, 1)] (Some week)) lab_ledger2 0 (2 * week) ''owner:me'' (run_key 3)
      = Inr (lab_event3, lab_at [(''obs:1'', 1), (weekly_stream, 2)] (Some (2 * week)), lab_ledger3)"
    by (subst lab_review [where t = week and v = 1 and vs = "[(''obs:1'', 1), (weekly_stream, 1)]"])
      (simp_all add: lab_event3_def version_of_def dict_set_def lab_streams empty_ledger_facts numeral_2_eq_2)
  note step3 = lab_step.review [OF this]
  show ?thesis using step1 step2 step3 by (meson rtranclp.rtrancl_into_rtrancl rtranclp.rtrancl_refl)
qed

lemma lab_ledger3_events: "ledger_events lab_ledger3 = [lab_event1, lab_event2, lab_event3]"
  by (simp add: ledger_events_def pushed_def empty_ledger_def Let_def)

text \<open>
  Replaying the token-lab events of the ledger gives back the lab: baselines,
  observations, the last review and the stream versions.
\<close>

theorem token_lab_replays:
  assumes "(lab_step h f)\<^sup>*\<^sup>* (fresh_lab ds, empty_ledger ds) (S, L)"
  shows "fold_result (replay_lab f) (fresh_lab ds) (ledger_events L) = Inr S"
  using token_lab.replay_log [OF assms] by simp

theorem token_lab_replays_witness:
  "fold_result (replay_lab toy_float) (fresh_lab ''ds:main'') [lab_event1, lab_event2, lab_event3]
    = Inr (lab_at [(''obs:1'', 1), (weekly_stream, 2)] (Some (2 * week)))"
  using token_lab_replays [OF lab_run] by (simp add: lab_ledger3_events)

text \<open>
  The reviews a ledger records are at least a week apart, and the lab holds the ledger's
  observations in their order, no identity twice.
\<close>

theorem weekly_reviews_are_spaced:
  assumes "(lab_step h f)\<^sup>*\<^sup>* (fresh_lab ds, empty_ledger ds) (S, L)"
  shows "successively (\<lambda>a b. a + week \<le> b) (review_times L) \<and> observations (lab S) = logged_observations L
    \<and> distinct (map observation_id (logged_observations L))"
  using lab_reachable_counted [OF assms] by (auto simp: lab_counted_def distinct_observations_def)

theorem weekly_reviews_are_spaced_witness:
  "review_times lab_ledger3 = [week, 2 * week] \<and> successively (\<lambda>a b. a + week \<le> b) [week, 2 * week]
    \<and> distinct (map observation_id (logged_observations lab_ledger3))"
proof -
  have "review_times lab_ledger3 = [week, 2 * week]"
    unfolding review_times_def lab_ledger3_events
    by (simp add: review_of_event_def lab_event1_def lab_event2_def lab_event3_def run_event_def)
  with weekly_reviews_are_spaced [OF lab_run] show ?thesis by simp
qed

end
