(* ===== verification/Interface_Service.thy ===== *)
theory Interface_Service
  imports Token_Lab Kernel_Work Kernel_Effects
begin

text \<open>
  \<^verbatim>\<open>InterfaceService\<close> (\<^verbatim>\<open>vsm/interface/service.py\<close>): its state and the operations beside the
  owner's turn. The Kernel, the token lab and the interface write one ledger object, which
  is the Kernel's field \<open>k_ledger\<close> here. An operation that can raise after it has changed
  something returns its outcome beside the state it leaves.
\<close>

section \<open>State\<close>

record interface_service =
  i_kernel :: kernel
  i_lab :: token_lab_events
  conversations :: "(string, conversation) dict"
  surface_bindings :: "(string, surface_binding) dict"
  pilot_sessions :: "(string, pilot_session) dict"
  conv_messages :: "(string, conversation_message list) dict"
  commitments :: "(string, commitment) dict"
  decisions :: "(string, decision) dict"
  node_memories :: "(string, node_memory) dict"
  action_receipts :: "(string, conversation_action_receipt) dict"
  action_digests :: "(string, string) dict"
  creation_receipts :: "(string, conversation_created_receipt) dict"
  creation_digests :: "(string, string) dict"
  conversation_cursors :: "(string, nat) dict"
  i_versions :: "(string, nat) dict"

definition init_interface :: "kernel \<Rightarrow> token_lab_events \<Rightarrow> interface_service" where
  "init_interface k T = \<lparr>i_kernel = k, i_lab = T, conversations = [], surface_bindings = [], pilot_sessions = [],
     conv_messages = [], commitments = [], decisions = [], node_memories = [], action_receipts = [],
     action_digests = [], creation_receipts = [], creation_digests = [], conversation_cursors = [], i_versions = []\<rparr>"

abbreviation i_ledger :: "interface_service \<Rightarrow> kledger" where
  "i_ledger S \<equiv> k_ledger (i_kernel S)"

definition set_i_ledger :: "kledger \<Rightarrow> interface_service \<Rightarrow> interface_service" where
  "set_i_ledger L S = S\<lparr>i_kernel := (i_kernel S)\<lparr>k_ledger := L\<rparr>\<rparr>"

text \<open>
  The functions the service is given: the digests over the JSON of pydantic models, the
  text of an exception, and the arithmetic of the token lab.
\<close>

record interface_env =
  ie_hash :: hashing
  ie_float :: float_env
  creation_digest_of :: "conversation \<Rightarrow> surface_binding \<Rightarrow> string"
  action_digest_of :: "owner_message_action \<Rightarrow> string"
  assessment_json :: "reorientation_assessment \<Rightarrow> string"
  error_text :: "error \<Rightarrow> string"

section \<open>Recording\<close>

definition interface_record ::
  "interface_env \<Rightarrow> interface_service \<Rightarrow> time \<Rightarrow> string \<Rightarrow> string \<Rightarrow> payload_dict \<Rightarrow> actor_type \<Rightarrow> string option \<Rightarrow> string
    \<Rightarrow> (kevent \<times> nat \<times> interface_service) result" where
  "interface_record env S t cid ty p act aid key =
     bind_result (append_event (ie_hash env) (i_ledger S) (data_space_id (k_data_space (i_kernel S))) cid
         (version_of (i_versions S) cid) ty p t act aid (Some cid) None key) (\<lambda>(e, r, L').
       Inr (e, result_cursor r, (set_i_ledger L' S)\<lparr>
         i_versions := dict_set (i_versions S) cid (result_stream_version r),
         conversation_cursors := dict_set (conversation_cursors S) cid (result_cursor r)\<rparr>))"

section \<open>Conversations\<close>

definition created_receipt :: "conversation \<Rightarrow> surface_binding \<Rightarrow> nat \<Rightarrow> conversation_created_receipt" where
  "created_receipt c b cur = \<lparr>cr_conversation_id = conv_id c, cr_surface_binding_id = binding_id b, cr_event_cursor = cur\<rparr>"

definition check_conversation :: "interface_service \<Rightarrow> conversation \<Rightarrow> surface_binding \<Rightarrow> unit result" where
  "check_conversation S c b =
     (case dict_get (k_nodes (i_kernel S)) (conv_node_id c) of
        None \<Rightarrow> raise_violation ''conversation requires an owner Interface Node''
      | Some n \<Rightarrow>
        (if node_kind n \<noteq> Interface then raise_violation ''conversation requires an owner Interface Node''
         else if conv_data_space_id c \<noteq> data_space_id (k_data_space (i_kernel S))
         then raise_violation ''Conversation DataSpace mismatch''
         else if binding_conversation_id b \<noteq> conv_id c then raise_violation ''SurfaceBinding Conversation mismatch''
         else if dict_mem (conv_id c) (conversations S) then raise_violation ''Conversation already exists''
         else if dict_mem (binding_id b) (surface_bindings S) then raise_violation ''SurfaceBinding already exists''
         else Inr ()))"

definition add_conversation ::
  "conversation \<Rightarrow> surface_binding \<Rightarrow> string \<Rightarrow> string \<Rightarrow> nat \<Rightarrow> interface_service \<Rightarrow> interface_service" where
  "add_conversation c b key digest cur S =
     S\<lparr>conversations := dict_set (conversations S) (conv_id c) c,
       surface_bindings := dict_set (surface_bindings S) (binding_id b) b,
       conv_messages := dict_set (conv_messages S) (conv_id c) [],
       creation_receipts := dict_set (creation_receipts S) key (created_receipt c b cur),
       creation_digests := dict_set (creation_digests S) key digest\<rparr>"

definition create_conversation ::
  "interface_env \<Rightarrow> interface_service \<Rightarrow> time \<Rightarrow> conversation \<Rightarrow> surface_binding \<Rightarrow> string
    \<Rightarrow> (conversation_created_receipt \<times> interface_service) result" where
  "create_conversation env S t c b key =
     (let digest = creation_digest_of env c b in
      case dict_get (creation_receipts S) key of
        Some prior \<Rightarrow>
          (case dict_get (creation_digests S) key of
             None \<Rightarrow> Inl (KeyError key)
           | Some d \<Rightarrow> if d \<noteq> digest then raise_violation ''conversation idempotency collision'' else Inr (prior, S))
      | None \<Rightarrow>
          bind_result (check_conversation S c b) (\<lambda>_.
          bind_result (interface_record env S t (conv_id c) ''conversation_created''
              [(''conversation'', PConversation c), (''surface_binding'', PBinding b), (''request_digest'', PStr digest)]
              Human (Some (conv_owner_id c)) key) (\<lambda>(e, cur, S').
            Inr (created_receipt c b cur, add_conversation c b key digest cur S'))))"

section \<open>Sessions, memories and corrections\<close>

definition session_of :: "interface_service \<Rightarrow> string \<Rightarrow> pilot_session option" where
  "session_of S cid = find (\<lambda>s. ps_conversation_id s = cid) (dict_values (pilot_sessions S))"

definition put_session :: "pilot_session \<Rightarrow> interface_service \<Rightarrow> interface_service" where
  "put_session s S = S\<lparr>pilot_sessions := dict_set (pilot_sessions S) (pilot_session_id s) s\<rparr>"

definition new_session :: "string \<Rightarrow> string \<Rightarrow> string \<Rightarrow> string \<Rightarrow> nat \<Rightarrow> pilot_session" where
  "new_session sid cid root_id provider cur = \<lparr>pilot_session_id = sid, ps_conversation_id = cid, ps_pilot_id = ''pilot:interface'',
     root_provider_session_id = root_id, ps_provider_session_id = provider, last_event_cursor = cur\<rparr>"

text \<open>
  The identity and the root_id of the session to write: those of the existing session, or a
  new identity and the provider's session itself.
\<close>

definition session_identity :: "pilot_session option \<Rightarrow> string \<Rightarrow> string \<Rightarrow> (string \<times> string) result" where
  "session_identity existing uuid provider =
     (case existing of
        None \<Rightarrow> bind_result (new_id ''pilot-session'' uuid) (\<lambda>i. Inr (i, provider))
      | Some s \<Rightarrow> Inr (pilot_session_id s, root_provider_session_id s))"

definition record_reorientation_session ::
  "interface_env \<Rightarrow> interface_service \<Rightarrow> time \<Rightarrow> string \<Rightarrow> string \<Rightarrow> string \<Rightarrow> string \<Rightarrow> string
    \<Rightarrow> (pilot_session \<times> interface_service) result" where
  "record_reorientation_session env S t uuid cid provider aid key =
     (if \<not> dict_mem cid (conversations S)
      then raise_violation ''reorientation requires an existing canonical Conversation''
      else bind_result (session_identity (session_of S cid) uuid provider) (\<lambda>(sid, root_id).
        bind_result (interface_record env S t cid ''reorientation_session_advanced''
            [(''pilot_session_id'', PStr sid), (''root_provider_session_id'', PStr root_id),
             (''provider_session_id'', PStr provider)] PilotActor (Some aid) key) (\<lambda>(e, cur, S').
          let s = new_session sid cid root_id provider cur in
          if valid_pilot_session s then Inr (s, put_session s S') else Inl (ValidationError ''PilotSession''))))"

text \<open>The loop over the commitments stops at the first collision and keeps what it has stored.\<close>

fun store_commitments ::
  "commitment list \<Rightarrow> (string, commitment) dict \<Rightarrow> unit result \<times> (string, commitment) dict" where
  "store_commitments [] d = (Inr (), d)"
| "store_commitments (c # cs) d =
     (case dict_get d (commitment_id c) of
        Some existing \<Rightarrow>
          (if existing \<noteq> c then (raise_violation ''history commitment identity collision'', d)
           else store_commitments cs (dict_set d (commitment_id c) c))
      | None \<Rightarrow> store_commitments cs (dict_set d (commitment_id c) c))"

definition materialize_history_commitments ::
  "interface_env \<Rightarrow> interface_service \<Rightarrow> time \<Rightarrow> string \<Rightarrow> commitment list \<Rightarrow> string list \<Rightarrow> string \<Rightarrow> string
    \<Rightarrow> unit result \<times> interface_service" where
  "materialize_history_commitments env S t cid cs ids aid key =
     (if \<not> dict_mem cid (conversations S)
      then (raise_violation ''history commitment materialization needs Conversation'', S)
      else if \<not> distinct (map commitment_id cs)
      then (raise_violation ''history commitment identities must be unique'', S)
      else if \<exists>c \<in> set cs. com_conversation_id c \<noteq> cid
      then (raise_violation ''history commitment Conversation mismatch'', S)
      else case interface_record env S t cid ''history_commitments_materialized''
          [(''commitments'', PCommitments cs), (''history_result_event_ids'', PStrs ids)] SystemActor (Some aid) key of
        Inl err \<Rightarrow> (Inl err, S)
      | Inr (e, cur, S') \<Rightarrow>
        (let (r, d) = store_commitments cs (commitments S') in (r, S'\<lparr>commitments := d\<rparr>)))"

fun new_decisions :: "string \<Rightarrow> string list \<Rightarrow> string list \<Rightarrow> decision list result" where
  "new_decisions cid uuids [] = Inr []"
| "new_decisions cid uuids (s # ss) =
     bind_result (new_id ''decision'' (hd uuids)) (\<lambda>i.
     let d = \<lparr>decision_id = i, dec_conversation_id = cid, dec_statement = s, supersedes_decision_id = None\<rparr> in
     if \<not> valid_decision d then Inl (ValidationError ''Decision'')
     else bind_result (new_decisions cid (tl uuids) ss) (\<lambda>ds. Inr (d # ds)))"

definition put_decisions :: "decision list \<Rightarrow> interface_service \<Rightarrow> interface_service" where
  "put_decisions ds S = S\<lparr>decisions := dict_set_all decision_id (decisions S) ds\<rparr>"

definition put_memory :: "node_memory \<Rightarrow> interface_service \<Rightarrow> interface_service" where
  "put_memory m S = S\<lparr>node_memories := dict_set (node_memories S) (memory_id m) m\<rparr>"

text \<open>
  The assessment's JSON is stored before the memory is built, so a memory that does not
  validate leaves a blob behind. A decision's UUID is an argument for each statement.
\<close>

definition materialize_reorientation_assessment ::
  "interface_env \<Rightarrow> interface_service \<Rightarrow> time \<Rightarrow> string \<Rightarrow> string list \<Rightarrow> reorientation_assessment \<Rightarrow> string \<Rightarrow> string
    \<Rightarrow> unit result \<times> interface_service" where
  "materialize_reorientation_assessment env S t uuid uuids a aid key =
     (case dict_get (conversations S) (assessment_conversation_id a) of
        None \<Rightarrow> (raise_violation ''reorientation assessment Conversation not found'', S)
      | Some c \<Rightarrow>
        (let (ref, L1) = put_blob (sha256 (ie_hash env)) (i_ledger S) (assessment_json env a); Sa = set_i_ledger L1 S in
         case new_id ''memory'' uuid of Inl err \<Rightarrow> (Inl err, Sa) | Inr mid \<Rightarrow>
         (let m = \<lparr>memory_id = mid, mem_node_id = conv_node_id c, mem_statement = understanding a, source_blob_ref = ref\<rparr> in
          if \<not> valid_node_memory m then (Inl (ValidationError ''NodeMemory''), Sa)
          else case new_decisions (conv_id c) uuids (decisions_and_constraints a) of Inl err \<Rightarrow> (Inl err, Sa) | Inr ds \<Rightarrow>
          (case interface_record env Sa t (conv_id c) ''reorientation_assessment_materialized''
               [(''assessment_id'', PStr (assessment_id a)), (''memory'', PMemory m), (''decisions'', PDecisions ds)]
               PilotActor (Some aid) key of
             Inl err \<Rightarrow> (Inl err, Sa)
           | Inr (e, cur, Sb) \<Rightarrow> (Inr (), put_decisions ds (put_memory m Sb))))))"

definition record_owner_correction ::
  "interface_env \<Rightarrow> interface_service \<Rightarrow> time \<Rightarrow> string \<Rightarrow> string \<Rightarrow> string \<Rightarrow> string \<Rightarrow> string
    \<Rightarrow> (decision \<times> interface_service) result" where
  "record_owner_correction env S t uuid cid statement aid key =
     (if \<not> dict_mem cid (conversations S) then raise_violation ''Conversation not found''
      else bind_result (new_decisions cid [uuid] [statement]) (\<lambda>ds.
        let d = hd ds in
        bind_result (interface_record env S t cid ''owner_correction_recorded'' [(''decision'', PDecision d)]
            Human (Some aid) key) (\<lambda>(e, cur, S').
          Inr (d, put_decisions [d] S'))))"

section \<open>Queries\<close>

definition action_receipt :: "interface_service \<Rightarrow> string \<Rightarrow> string \<Rightarrow> conversation_action_receipt result" where
  "action_receipt S cid aid =
     (case dict_get (action_receipts S) aid of
        None \<Rightarrow> raise_violation ''Conversation action receipt not found''
      | Some r \<Rightarrow>
        if ar_conversation_id r \<noteq> cid then raise_violation ''Conversation action receipt not found'' else Inr r)"

definition bindings_of :: "interface_service \<Rightarrow> string \<Rightarrow> surface_binding list" where
  "bindings_of S cid = filter (\<lambda>b. binding_conversation_id b = cid) (dict_values (surface_bindings S))"

definition open_commitments :: "interface_service \<Rightarrow> string \<Rightarrow> commitment list" where
  "open_commitments S cid =
     filter (\<lambda>c. com_conversation_id c = cid \<and> com_state c = CommitmentOpen) (dict_values (commitments S))"

definition unfinished_work :: "interface_service \<Rightarrow> string \<Rightarrow> work_item list" where
  "unfinished_work S nid =
     filter (\<lambda>w. owner_node_id w = nid \<and> work_state w \<notin> {Completed, WorkCancelled}) (dict_values (k_work_items (i_kernel S)))"

record conversation_status =
  st_conversation :: conversation
  st_bindings :: "surface_binding list"
  st_sessions :: "pilot_session list"
  st_open_commitments :: "commitment list"
  st_unfinished_work_item_ids :: "string list"
  st_active_execution_ids :: "string list"
  st_last_messages :: "conversation_message list"
  st_model_calls :: nat

definition conversation_status_of :: "interface_service \<Rightarrow> string \<Rightarrow> conversation_status result" where
  "conversation_status_of S cid =
     (case dict_get (conversations S) cid of
        None \<Rightarrow> raise_violation ''Conversation not found''
      | Some c \<Rightarrow>
        (case dict_get (conv_messages S) cid of
           None \<Rightarrow> Inl (KeyError cid)
         | Some ms \<Rightarrow> Inr \<lparr>st_conversation = c, st_bindings = bindings_of S cid,
             st_sessions = filter (\<lambda>s. ps_conversation_id s = cid) (dict_values (pilot_sessions S)),
             st_open_commitments = open_commitments S cid,
             st_unfinished_work_item_ids = map work_item_id (unfinished_work S (conv_node_id c)),
             st_active_execution_ids = map execution_id
               (filter (\<lambda>e. exec_state e = ExecActive) (dict_values (k_executions (i_kernel S)))),
             st_last_messages = drop (length ms - 20) ms, st_model_calls = 0\<rparr>))"

text \<open>What a new provider session is told about the conversation.\<close>

definition resume_pack :: "interface_service \<Rightarrow> conversation \<Rightarrow> interface_resume_pack" where
  "resume_pack S c =
     (let superseded = List.map_filter supersedes_decision_id (dict_values (decisions S)) in
      \<lparr>pack_node_memory = filter (\<lambda>m. mem_node_id m = conv_node_id c) (dict_values (node_memories S)),
       unfinished_work_items = unfinished_work S (conv_node_id c),
       pack_open_commitments = open_commitments S (conv_id c),
       active_decisions = filter (\<lambda>d. dec_conversation_id d = conv_id c \<and> decision_id d \<notin> set superseded)
         (dict_values (decisions S))\<rparr>)"

section \<open>The event delta\<close>

text \<open>
  The three accumulators: the number of events, the counter of their types and the set of
  their streams. One page ends early at an event beyond \<open>through\<close>.
\<close>

record delta_acc =
  acc_count :: nat
  acc_types :: "(string, nat) dict"
  acc_streams :: "string list"

definition count_event :: "delta_acc \<Rightarrow> kevent \<Rightarrow> delta_acc" where
  "count_event a e =
     a\<lparr>acc_count := acc_count a + 1,
       acc_types := dict_set (acc_types a) (event_type e) (version_of (acc_types a) (event_type e) + 1),
       acc_streams := List.insert (stream_id e) (acc_streams a)\<rparr>"

fun delta_page :: "nat \<Rightarrow> payload_dict stored_event list \<Rightarrow> nat \<times> delta_acc \<Rightarrow> nat \<times> delta_acc" where
  "delta_page through [] s = s"
| "delta_page through (x # xs) (cur, a) =
     (if through < cursor x then (cur, a)
      else delta_page through xs (cursor x, count_event a (stored x)))"

function delta_loop :: "kledger \<Rightarrow> nat \<Rightarrow> nat \<Rightarrow> delta_acc \<Rightarrow> delta_acc result" where
  "delta_loop L through cur a =
     (if through \<le> cur then Inr a
      else case ledger_page L (int cur) (min 500 (int through - int cur)) of
        Inl err \<Rightarrow> Inl err
      | Inr page \<Rightarrow>
        (if page = [] then raise_violation ''Event Ledger ended before owner message cursor''
         else (let (cur', a') = delta_page through page (cur, a) in
               if cur' \<le> cur then raise_violation ''Event Ledger delta did not advance''
               else delta_loop L through cur' a')))"
  by pat_completeness auto
termination
  by (relation "measure (\<lambda>(L, through, cur, a). through - cur)") (auto split: prod.splits)

declare delta_loop.simps [simp del]

definition event_delta_of :: "kledger \<Rightarrow> nat \<Rightarrow> nat \<Rightarrow> event_delta_summary result" where
  "event_delta_of L after through =
     (if through < after then raise_violation ''Event delta cursor moved backwards''
      else bind_result (delta_loop L through after \<lparr>acc_count = 0, acc_types = [], acc_streams = []\<rparr>) (\<lambda>a.
        Inr \<lparr>after_cursor = after, through_cursor = through, event_count = acc_count a,
             event_type_counts = sort_key fst (acc_types a), changed_stream_ids = sort (acc_streams a)\<rparr>))"

end
