(* ===== verification/Interface_Turn.thy ===== *)
theory Interface_Turn
  imports Interface_Service
begin

text \<open>
  The owner's turn (\<^verbatim>\<open>InterfaceService.perform_owner_action\<close>): the owner's message is recorded,
  the pilot is asked, its actions are validated against the Kernel as they would leave it,
  the response is recorded and the actions are applied one by one. Any exception of the
  pilot, the validation or the completion becomes a \<^verbatim>\<open>conversation_action_failed\<close> event.
  The pilot is the argument \<open>reply\<close>.
\<close>

section \<open>Validation\<close>

text \<open>\<^verbatim>\<open>projected_work\<close> and \<^verbatim>\<open>projected_dependencies\<close>.\<close>

type_synonym projected = "(string, work_item) dict \<times> (string, string list) dict"

definition project_kernel :: "kernel \<Rightarrow> projected" where
  "project_kernel k = (k_work_items k,
     map (\<lambda>wid. (wid, dependency_targets (k_work_edges k) wid)) (map fst (k_work_items k)))"

definition created_work :: "interface_action list \<Rightarrow> string list" where
  "created_work xs = List.map_filter (\<lambda>x. case x of CreateWorkItem _ w _ \<Rightarrow> Some (work_item_id w) | _ \<Rightarrow> None) xs"

definition recorded_decisions :: "interface_action list \<Rightarrow> string list" where
  "recorded_decisions xs = List.map_filter (\<lambda>x. case x of RecordDecision i _ _ \<Rightarrow> Some i | _ \<Rightarrow> None) xs"

definition check_created_work :: "kernel \<Rightarrow> (string, work_item) dict \<Rightarrow> work_item \<Rightarrow> string list \<Rightarrow> unit result" where
  "check_created_work k pw w deps =
     (if work_data_space_id w \<noteq> data_space_id (k_data_space k) \<or> work_state w \<notin> {Proposed, Ready}
         \<or> completion_evidence w \<noteq> None \<or> blocking_s3_star_finding_ids w \<noteq> [] \<or> acceptance_criteria w = []
      then raise_violation ''Interface WorkItem create action violates Kernel contract''
      else if \<exists>n \<in> {owner_node_id w, delegated_to_node_id w, integration_owner_node_id w}. \<not> dict_mem n (k_nodes k)
      then raise_violation ''Interface WorkItem references an unknown Node''
      else if \<not> option_all (\<lambda>p. dict_mem p pw) (parent_work_item_id w)
      then raise_violation ''Interface WorkItem parent does not exist''
      else if \<exists>d \<in> set deps. \<not> dict_mem d pw
      then raise_violation ''Interface WorkItem dependency does not exist''
      else Inr ())"

text \<open>One turn of the loop; \<open>now\<close> is the clock's reading for a lease.\<close>

definition validate_action ::
  "kernel \<Rightarrow> string list \<Rightarrow> time \<Rightarrow> projected \<Rightarrow> interface_action \<Rightarrow> projected result" where
  "validate_action k decision_ids now = (\<lambda>(pw, pd) x.
     case x of
       CreateWorkItem _ w deps \<Rightarrow>
         bind_result (check_created_work k pw w deps) (\<lambda>_.
           Inr (dict_set pw (work_item_id w) w, dict_set pd (work_item_id w) deps))
     | DelegateWorkItem _ wid nid \<Rightarrow>
         (case dict_get pw wid of
            None \<Rightarrow> raise_violation ''Interface delegation action violates Kernel contract''
          | Some w \<Rightarrow>
            if \<not> dict_mem nid (k_nodes k) \<or> work_state w \<notin> {Proposed, Ready}
               \<or> (\<exists>e \<in> set (dict_values (k_executions k)). exec_work_item_id e = wid)
            then raise_violation ''Interface delegation action violates Kernel contract''
            else Inr (dict_set pw wid (w\<lparr>delegated_to_node_id := nid, work_state := Ready\<rparr>), pd))
     | RecordDecision _ _ supersedes \<Rightarrow>
         if option_all (\<lambda>d. d \<in> set decision_ids) supersedes then Inr (pw, pd)
         else raise_violation ''Interface decision supersedes unknown evidence''
     | UpdateCommitment _ _ _ wid _ \<Rightarrow>
         if option_all (\<lambda>w. dict_mem w pw) wid then Inr (pw, pd)
         else raise_violation ''Interface commitment references unknown WorkItem''
     | PlanEffect _ l \<Rightarrow>
         (case dict_get (k_executions k) (lease_execution_id l) of
            None \<Rightarrow> raise_violation ''Interface Effect plan violates lease contract''
          | Some e \<Rightarrow>
            if lease_data_space_id l \<noteq> data_space_id (k_data_space k) \<or> exec_work_item_id e \<noteq> lease_work_item_id l
               \<or> lease_expires_at l \<le> now \<or> lease_state l \<noteq> Planned
            then raise_violation ''Interface Effect plan violates lease contract''
            else Inr (pw, pd))
     | ProposeCompletion _ wid ev \<Rightarrow>
         (case dict_get pw wid of
            None \<Rightarrow> raise_violation ''Interface completion action fails the completion gate''
          | Some w \<Rightarrow>
            if blocking_s3_star_finding_ids w \<noteq> [] \<or> \<not> completion_gate ev
            then raise_violation ''Interface completion action fails the completion gate''
            else Inr (pw, pd))
     | SelectPilot _ wid rkey \<Rightarrow>
         (case dict_get pw wid of
            None \<Rightarrow> raise_violation ''Interface pilot selection does not match WorkItem route''
          | Some w \<Rightarrow>
            if work_route_key w \<noteq> rkey then raise_violation ''Interface pilot selection does not match WorkItem route''
            else Inr (pw, pd))
     | _ \<Rightarrow> raise_violation (''InterfaceAction is not valid in a normal owner turn: '' @ interface_action_kind x))"

fun validate_loop ::
  "kernel \<Rightarrow> string list \<Rightarrow> (nat \<Rightarrow> time) \<Rightarrow> nat \<Rightarrow> interface_action list \<Rightarrow> projected \<Rightarrow> projected result" where
  "validate_loop k ids clock i [] p = Inr p"
| "validate_loop k ids clock i (x # xs) p =
     bind_result (validate_action k ids (clock i) p x) (validate_loop k ids clock (Suc i) xs)"

subsection \<open>The search for cycles\<close>

text \<open>
  \<^verbatim>\<open>visit\<close> and its loop over the dependencies of one WorkItem. A WorkItem joins the path when
  it is entered and its dependencies are visited; one without dependencies ends the path.
\<close>

definition dependencies_in :: "(string, string list) dict \<Rightarrow> string \<Rightarrow> string list" where
  "dependencies_in pd wid = (case dict_get pd wid of None \<Rightarrow> [] | Some ds \<Rightarrow> ds)"

function visit :: "(string, string list) dict \<Rightarrow> string \<Rightarrow> string list \<Rightarrow> unit result"
  and visit_all :: "(string, string list) dict \<Rightarrow> string list \<Rightarrow> string list \<Rightarrow> unit result" where
  "visit pd wid path =
     (if wid \<in> set path then raise_violation ''Interface WorkItem actions create a dependency cycle''
      else visit_all pd (dependencies_in pd wid) (wid # path))"
| "visit_all pd [] path = Inr ()"
| "visit_all pd (d # ds) path = bind_result (visit pd d path) (\<lambda>_. visit_all pd ds path)"
  by pat_completeness auto
termination
proof (relation "measures [
    case_sum (\<lambda>(pd, wid, path). card (fst ` set pd - set path)) (\<lambda>(pd, ds, path). card (fst ` set pd - set path)),
    case_sum (\<lambda>(pd, wid, path). 1) (\<lambda>(pd, ds, path). 2 * length ds)]", goal_cases)
  case 1
  show ?case by simp
next
  case (2 pd wid path)
  show ?case
  proof (cases "wid \<in> fst ` set pd")
    case True
    then have "fst ` set pd - set (wid # path) \<subset> fst ` set pd - set path" using 2 by auto
    then have "card (fst ` set pd - set (wid # path)) < card (fst ` set pd - set path)"
      by (intro psubset_card_mono) auto
    then show ?thesis by simp
  next
    case False
    then have "dict_get pd wid = None" by (simp add: map_of_eq_None_iff)
    moreover from False have "fst ` set pd - set (wid # path) = fst ` set pd - set path" by auto
    ultimately show ?thesis by (simp add: dependencies_in_def)
  qed
qed simp_all

declare visit.simps [simp del]

definition check_cycles :: "(string, string list) dict \<Rightarrow> unit result" where
  "check_cycles pd = visit_all pd (map fst pd) []"

definition validate_actions :: "interface_service \<Rightarrow> (nat \<Rightarrow> time) \<Rightarrow> interface_action list \<Rightarrow> unit result" where
  "validate_actions S clock xs =
     (let k = i_kernel S in
      if \<not> distinct (map interface_action_id xs)
      then raise_violation ''Interface response action identities must be unique''
      else if \<exists>w \<in> set (created_work xs). dict_mem w (k_work_items k)
      then raise_violation ''Interface WorkItem create action reuses an existing identity''
      else bind_result (validate_loop k (map fst (decisions S) @ recorded_decisions xs) clock 0 xs (project_kernel k))
        (\<lambda>(pw, pd). check_cycles pd))"

section \<open>Application\<close>

text \<open>\<open>clock i j\<close> is the clock's \<open>j\<close>-th reading during the \<open>i\<close>-th action.\<close>

definition on_kernel_of :: "interface_service \<Rightarrow> (kevent \<times> kernel) result \<Rightarrow> unit result \<times> interface_service" where
  "on_kernel_of S r = (case r of Inl err \<Rightarrow> (Inl err, S) | Inr (e, k) \<Rightarrow> (Inr (), S\<lparr>i_kernel := k\<rparr>))"

fun add_dependencies ::
  "interface_env \<Rightarrow> interface_service \<Rightarrow> (nat \<Rightarrow> time) \<Rightarrow> nat \<Rightarrow> string \<Rightarrow> string list \<Rightarrow> string \<Rightarrow> string
    \<Rightarrow> unit result \<times> interface_service" where
  "add_dependencies env S clock j wid [] aid pre = (Inr (), S)"
| "add_dependencies env S clock j wid (d # ds) aid pre =
     (case on_kernel_of S (add_dependency (ie_hash env) (i_kernel S) (clock j) wid d aid (pre @ '':depends:'' @ d)) of
        (Inl err, S') \<Rightarrow> (Inl err, S')
      | (Inr _, S') \<Rightarrow> add_dependencies env S' clock (Suc j) wid ds aid pre)"

definition apply_interface_action ::
  "interface_env \<Rightarrow> interface_service \<Rightarrow> (nat \<Rightarrow> time) \<Rightarrow> conversation \<Rightarrow> interface_action
    \<Rightarrow> unit result \<times> interface_service" where
  "apply_interface_action env S clock c x =
     (let h = ie_hash env; k = i_kernel S; aid = conv_node_id c; pre = ''interface:'' @ interface_action_id x in
      case x of
        CreateWorkItem _ w deps \<Rightarrow>
          (case on_kernel_of S (create_work_item h k (clock 0) w aid (pre @ '':create'')) of
             (Inl err, S') \<Rightarrow> (Inl err, S')
           | (Inr _, S') \<Rightarrow> add_dependencies env S' clock 1 (work_item_id w) deps aid pre)
      | DelegateWorkItem _ wid nid \<Rightarrow> on_kernel_of S (delegate_work_item h k (clock 0) wid nid aid (pre @ '':delegate''))
      | RecordDecision i statement supersedes \<Rightarrow>
          (Inr (), put_decisions [\<lparr>decision_id = i, dec_conversation_id = conv_id c, dec_statement = statement,
             supersedes_decision_id = supersedes\<rparr>] S)
      | UpdateCommitment _ cid statement wid st \<Rightarrow>
          (Inr (), S\<lparr>commitments := dict_set (commitments S) cid \<lparr>commitment_id = cid, com_conversation_id = conv_id c,
             com_statement = statement, com_work_item_id = wid, com_state = st\<rparr>\<rparr>)
      | PlanEffect _ l \<Rightarrow> on_kernel_of S (plan_effect h k (clock 0) (clock 1) l aid (pre @ '':effect''))
      | ProposeCompletion _ wid ev \<Rightarrow>
          on_kernel_of S (complete_work_item h k (clock 0) wid ev aid (pre @ '':completion''))
      | SelectPilot _ wid rkey \<Rightarrow>
          (case dict_get (k_work_items k) wid of
             None \<Rightarrow> (raise_violation ''pilot selection must match an existing WorkItem route_key'', S)
           | Some w \<Rightarrow>
             if work_route_key w \<noteq> rkey then (raise_violation ''pilot selection must match an existing WorkItem route_key'', S)
             else (Inr (), S))
      | _ \<Rightarrow> (raise_violation (''InterfaceAction is not valid in a normal owner turn: '' @ interface_action_kind x), S))"

fun apply_actions ::
  "interface_env \<Rightarrow> interface_service \<Rightarrow> (nat \<Rightarrow> nat \<Rightarrow> time) \<Rightarrow> nat \<Rightarrow> conversation \<Rightarrow> interface_action list
    \<Rightarrow> unit result \<times> interface_service" where
  "apply_actions env S clock i c [] = (Inr (), S)"
| "apply_actions env S clock i c (x # xs) =
     (case apply_interface_action env S (clock i) c x of
        (Inl err, S') \<Rightarrow> (Inl err, S')
      | (Inr _, S') \<Rightarrow> apply_actions env S' clock (Suc i) c xs)"

section \<open>The turn\<close>

text \<open>The readings of the clock and the random identities of one turn.\<close>

record turn_input =
  owner_uuid :: string
  interface_uuid :: string
  session_uuid :: string
  owner_event_time :: time
  lease_check_time :: "nat \<Rightarrow> time"
  response_time :: time
  response_event_time :: time
  observation_time :: time
  observation_event_time :: time
  action_time :: "nat \<Rightarrow> nat \<Rightarrow> time"
  failed_event_time :: time

definition matches_binding :: "interface_service \<Rightarrow> string \<Rightarrow> owner_message_action \<Rightarrow> string \<Rightarrow> bool" where
  "matches_binding S cid a device \<longleftrightarrow> (\<exists>b \<in> set (bindings_of S cid). binding_device_id b = device
     \<and> binding_surface b = src_surface (oa_source a) \<and> binding_session_id b = src_session_id (oa_source a)
     \<and> binding_channel_id b = src_channel_id (oa_source a))"

definition append_message :: "interface_service \<Rightarrow> string \<Rightarrow> conversation_message \<Rightarrow> interface_service result" where
  "append_message S cid m =
     (case dict_get (conv_messages S) cid of
        None \<Rightarrow> Inl (KeyError cid)
      | Some ms \<Rightarrow> Inr (S\<lparr>conv_messages := dict_set (conv_messages S) cid (ms @ [m])\<rparr>))"

definition put_receipt :: "conversation_action_receipt \<Rightarrow> interface_service \<Rightarrow> interface_service" where
  "put_receipt r S = S\<lparr>action_receipts := dict_set (action_receipts S) (ar_action_id r) r\<rparr>"

definition put_digest :: "string \<Rightarrow> string \<Rightarrow> interface_service \<Rightarrow> interface_service" where
  "put_digest i d S = S\<lparr>action_digests := dict_set (action_digests S) i d\<rparr>"

definition accepted_receipt :: "string \<Rightarrow> string \<Rightarrow> string \<Rightarrow> nat \<Rightarrow> conversation_action_receipt" where
  "accepted_receipt i cid mid cur = \<lparr>ar_action_id = i, ar_conversation_id = cid, ar_status = Accepted,
     ar_owner_message_id = mid, ar_interface_message = None, ar_event_cursor = cur, ar_error = None\<rparr>"

definition completed_receipt :: "string \<Rightarrow> string \<Rightarrow> string \<Rightarrow> conversation_message \<Rightarrow> nat \<Rightarrow> conversation_action_receipt" where
  "completed_receipt i cid mid m cur = \<lparr>ar_action_id = i, ar_conversation_id = cid, ar_status = ActionCompleted,
     ar_owner_message_id = mid, ar_interface_message = Some m, ar_event_cursor = cur, ar_error = None\<rparr>"

text \<open>The first half: the blob, the message, its event, and the accepted receipt.\<close>

definition accept_owner_message ::
  "interface_env \<Rightarrow> interface_service \<Rightarrow> conversation \<Rightarrow> owner_message_action \<Rightarrow> turn_input
    \<Rightarrow> (conversation_action_receipt \<times> string) result \<times> interface_service" where
  "accept_owner_message env S c a inp =
     (let (ref, L1) = put_blob (sha256 (ie_hash env)) (i_ledger S) (oa_text a); Sa = set_i_ledger L1 S;
          digest = action_digest_of env a in
      case new_id ''message'' (owner_uuid inp) of Inl err \<Rightarrow> (Inl err, Sa) | Inr mid \<Rightarrow>
      (let m = \<lparr>msg_id = mid, msg_conversation_id = conv_id c, msg_role = OwnerRole, msg_display_text = None,
                msg_blob_ref = Some ref, msg_occurred_at = src_occurred_at (oa_source a), msg_source = Some (oa_source a)\<rparr> in
       if \<not> valid_conversation_message m then (Inl (ValidationError ''ConversationMessage''), Sa)
       else case interface_record env Sa (owner_event_time inp) (conv_id c) ''owner_message_received''
           [(''action_id'', PStr (oa_action_id a)), (''action_digest'', PStr digest), (''message'', PMessage m)]
           Human (Some (conv_owner_id c)) (oa_idempotency_key a @ '':owner'') of
         Inl err \<Rightarrow> (Inl err, Sa)
       | Inr (e, cur, Sb) \<Rightarrow>
         (case append_message Sb (conv_id c) m of Inl err \<Rightarrow> (Inl err, Sb) | Inr Sc \<Rightarrow>
           (let r = accepted_receipt (oa_action_id a) (conv_id c) mid cur in
            (Inr (r, ref), put_digest (oa_action_id a) digest (put_receipt r Sc))))))"

definition turn_context :: "interface_service \<Rightarrow> conversation \<Rightarrow> string \<Rightarrow> nat \<Rightarrow> interface_turn result" where
  "turn_context S c ref through =
     (let (pack, provider, after) =
        (case session_of S (conv_id c) of
           None \<Rightarrow> (Some (resume_pack S c), None, 0)
         | Some s \<Rightarrow> (None, Some (ps_provider_session_id s), last_event_cursor s)) in
      bind_result (event_delta_of (i_ledger S) after through) (\<lambda>d.
        Inr \<lparr>owner_message_blob_ref = ref, event_delta = d, turn_resume_pack = pack, turn_provider_session_id = provider\<rparr>))"

text \<open>\<^verbatim>\<open>action_id.split(':', 1)[-1]\<close>.\<close>

definition after_colon :: "string \<Rightarrow> string" where
  "after_colon s = (if CHR '':'' \<in> set s then tl (dropWhile (\<lambda>c. c \<noteq> CHR '':'') s) else s)"

definition usage_incidents :: "interface_pilot_usage \<Rightarrow> token_incident_kind set" where
  "usage_incidents u =
     (if classifier_triggered u then {PermissionClassifier} else {})
     \<union> (if model_substitution u then {ModelSubstitution} else {})
     \<union> (if usage_full_history_resent u then {ContextReload} else {})
     \<union> (if polling_call u then {ModelCallPolling} else {})
     \<union> (if false_complete u then {FalseComplete} else {})
     \<union> (if reedited_tokens u \<noteq> 0 then {Reedit} else {})"

definition usage_observation :: "string \<Rightarrow> interface_pilot_usage \<Rightarrow> time \<Rightarrow> token_observation" where
  "usage_observation aid u t = \<lparr>observation_id = ''observation:'' @ after_colon aid, obs_work_type = ''interface'',
     obs_occurred_at = t, total_input_tokens = nat (usage_input_tokens u), interface_input_tokens = nat (usage_input_tokens u),
     incident_kinds = usage_incidents u, full_history_resent = usage_full_history_resent u,
     expensive_interface_calls = 1, verified_complete = (\<not> false_complete u)\<rparr>"

definition observe_usage ::
  "interface_env \<Rightarrow> interface_service \<Rightarrow> turn_input \<Rightarrow> conversation \<Rightarrow> owner_message_action \<Rightarrow> interface_pilot_usage
    \<Rightarrow> unit result \<times> interface_service" where
  "observe_usage env S inp c a u =
     (case service_observe (ie_hash env) (ie_float env) (i_lab S) (i_ledger S) (observation_event_time inp)
         (usage_observation (oa_action_id a) u (observation_time inp)) (conv_node_id c)
         (oa_idempotency_key a @ '':token-observation'') of
        Inl err \<Rightarrow> (Inl err, S)
      | Inr (r, T, L') \<Rightarrow> (Inr (), (set_i_ledger L' S)\<lparr>i_lab := T\<rparr>))"

definition advance_session :: "pilot_session option \<Rightarrow> string \<Rightarrow> string \<Rightarrow> string \<Rightarrow> nat \<Rightarrow> pilot_session" where
  "advance_session prior sid cid provider cur =
     (case prior of
        None \<Rightarrow> new_session sid cid provider provider cur
      | Some s \<Rightarrow> s\<lparr>ps_provider_session_id := provider, last_event_cursor := cur\<rparr>)"

text \<open>The response's message and its event.\<close>

definition response_message :: "conversation \<Rightarrow> string \<Rightarrow> structured_interface_response \<Rightarrow> time \<Rightarrow> conversation_message" where
  "response_message c mid resp t = \<lparr>msg_id = mid, msg_conversation_id = conv_id c, msg_role = InterfaceRole,
     msg_display_text = Some (response_display_text resp), msg_blob_ref = None, msg_occurred_at = t, msg_source = None\<rparr>"

definition response_payload ::
  "owner_message_action \<Rightarrow> string \<Rightarrow> string \<Rightarrow> conversation_message \<Rightarrow> structured_interface_response \<Rightarrow> string \<Rightarrow> string
    \<Rightarrow> pilot_session option \<Rightarrow> payload_dict" where
  "response_payload a digest owner_mid m resp sid root_id prior =
     [(''action_id'', PStr (oa_action_id a)), (''action_digest'', PStr digest), (''owner_message_id'', PStr owner_mid),
      (''message'', PMessage m), (''actions'', PActions (response_actions resp)), (''pilot_session_id'', PStr sid),
      (''root_provider_session_id'', PStr root_id), (''provider_session_id'', PStr (response_provider_session_id resp)),
      (''pilot_usage'', PUsage (pilot_usage resp)),
      (''context_mode'', PStr (if prior = None then ''resume_pack'' else ''provider_delta''))]"

definition complete_action ::
  "interface_env \<Rightarrow> interface_service \<Rightarrow> conversation \<Rightarrow> owner_message_action \<Rightarrow> string \<Rightarrow> string
    \<Rightarrow> structured_interface_response \<Rightarrow> turn_input \<Rightarrow> conversation_action_receipt result \<times> interface_service" where
  "complete_action env S c a digest owner_mid resp inp =
     (case new_id ''message'' (interface_uuid inp) of Inl err \<Rightarrow> (Inl err, S) | Inr mid \<Rightarrow>
      (let m = response_message c mid resp (response_time inp); prior = session_of S (conv_id c);
           provider = response_provider_session_id resp in
       case session_identity prior (session_uuid inp) provider of Inl err \<Rightarrow> (Inl err, S) | Inr (sid, root_id) \<Rightarrow>
       (case interface_record env S (response_event_time inp) (conv_id c) ''interface_response_recorded''
            (response_payload a digest owner_mid m resp sid root_id prior) PilotActor (Some (conv_node_id c))
            (oa_idempotency_key a @ '':response'') of Inl err \<Rightarrow> (Inl err, S) | Inr (e, cur, Sa) \<Rightarrow>
        (case append_message Sa (conv_id c) m of Inl err \<Rightarrow> (Inl err, Sa) | Inr Sb \<Rightarrow>
         (case observe_usage env Sb inp c a (pilot_usage resp) of (Inl err, Sc) \<Rightarrow> (Inl err, Sc) | (Inr _, Sc) \<Rightarrow>
          (case apply_actions env (put_session (advance_session prior sid (conv_id c) provider cur) Sc) (action_time inp) 0 c
               (response_actions resp) of (Inl err, Sd) \<Rightarrow> (Inl err, Sd) | (Inr _, Sd) \<Rightarrow>
           (let r = completed_receipt (oa_action_id a) (conv_id c) owner_mid m cur in (Inr r, put_receipt r Sd))))))))"

text \<open>The \<^verbatim>\<open>except Exception\<close> branch; its own append may fail.\<close>

definition fail_action ::
  "interface_env \<Rightarrow> interface_service \<Rightarrow> conversation \<Rightarrow> owner_message_action \<Rightarrow> string \<Rightarrow> conversation_action_receipt
    \<Rightarrow> turn_input \<Rightarrow> error \<Rightarrow> conversation_action_receipt result \<times> interface_service" where
  "fail_action env S c a digest accepted_r inp err =
     (case interface_record env S (failed_event_time inp) (conv_id c) ''conversation_action_failed''
         [(''action_id'', PStr (oa_action_id a)), (''action_digest'', PStr digest),
          (''owner_message_id'', PStr (ar_owner_message_id accepted_r)), (''error'', PStr (error_text env err))]
         SystemActor None (oa_idempotency_key a @ '':failed'') of
        Inl err' \<Rightarrow> (Inl err', S)
      | Inr (e, cur, S') \<Rightarrow>
        (let r = accepted_r\<lparr>ar_status := ActionFailed, ar_event_cursor := cur, ar_error := Some (error_text env err)\<rparr>
         in (Inr r, put_receipt r S')))"

definition answer_owner ::
  "interface_env \<Rightarrow> interface_service \<Rightarrow> conversation \<Rightarrow> owner_message_action \<Rightarrow> conversation_action_receipt
    \<Rightarrow> structured_interface_response result \<Rightarrow> turn_input \<Rightarrow> conversation_action_receipt result \<times> interface_service" where
  "answer_owner env S c a accepted_r reply inp =
     (let digest = action_digest_of env a;
          attempt = (case reply of Inl err \<Rightarrow> (Inl err, S) | Inr resp \<Rightarrow>
            (case validate_actions S (lease_check_time inp) (response_actions resp) of Inl err \<Rightarrow> (Inl err, S)
             | Inr _ \<Rightarrow> complete_action env S c a digest (ar_owner_message_id accepted_r) resp inp)) in
      case attempt of
        (Inr r, S') \<Rightarrow> (Inr r, S')
      | (Inl err, S') \<Rightarrow> fail_action env S' c a digest accepted_r inp err)"

definition perform_owner_action ::
  "interface_env \<Rightarrow> interface_service \<Rightarrow> string \<Rightarrow> owner_message_action \<Rightarrow> string \<Rightarrow> turn_input
    \<Rightarrow> (string \<Rightarrow> interface_turn \<Rightarrow> structured_interface_response result)
    \<Rightarrow> conversation_action_receipt result \<times> interface_service" where
  "perform_owner_action env S cid a device inp respond =
     (case require_active (k_activation (i_kernel S)) ''owner conversation action'' of Inl err \<Rightarrow> (Inl err, S) | Inr _ \<Rightarrow>
      (case dict_get (conversations S) cid of None \<Rightarrow> (raise_violation ''Conversation not found'', S) | Some c \<Rightarrow>
       (case dict_get (action_receipts S) (oa_action_id a) of
          Some prior \<Rightarrow>
            (case dict_get (action_digests S) (oa_action_id a) of
               None \<Rightarrow> (Inl (KeyError (oa_action_id a)), S)
             | Some d \<Rightarrow>
               if d \<noteq> action_digest_of env a then (raise_violation ''conversation action identity collision'', S)
               else (Inr prior, S))
        | None \<Rightarrow>
          if \<not> matches_binding S cid a device
          then (raise_violation ''owner action does not match an authenticated SurfaceBinding'', S)
          else (case accept_owner_message env S c a inp of
              (Inl err, Sa) \<Rightarrow> (Inl err, Sa)
            | (Inr (r, ref), Sa) \<Rightarrow>
              (case turn_context Sa c ref (ar_event_cursor r) of
                 Inl err \<Rightarrow> (Inl err, Sa)
               | Inr ctx \<Rightarrow> answer_owner env Sa c a r (respond (oa_text a) ctx) inp)))))"

end
