(* ===== verification/Interface_Replay.thy ===== *)
theory Interface_Replay
  imports Interface_Turn Service_Streams Replay
begin

text \<open>
  The interface handlers of \<^verbatim>\<open>OperationalProjection\<close> and what replaying them restores. The
  handlers know the cursor of their event and leave the Kernel and the token lab alone.
\<close>

section \<open>Handlers\<close>

text \<open>\<^verbatim>\<open>_interface_version\<close>, with the cursor every handler remembers for the conversation.\<close>

definition interface_version :: "nat \<Rightarrow> string \<Rightarrow> kevent \<Rightarrow> interface_service \<Rightarrow> interface_service" where
  "interface_version cur cid e S =
     S\<lparr>i_versions := dict_set (i_versions S) (stream_id e) (stream_version e),
       conversation_cursors := dict_set (conversation_cursors S) cid cur\<rparr>"

definition on_conversation_created :: "nat \<Rightarrow> interface_service \<Rightarrow> kevent \<Rightarrow> interface_service result" where
  "on_conversation_created cur S e =
     bind_result (payload_model ''conversation'' as_conversation valid_conversation (payload e)) (\<lambda>c.
     bind_result (payload_model ''surface_binding'' as_binding valid_surface_binding (payload e)) (\<lambda>b.
     bind_result (payload_item ''request_digest'' as_str (payload e)) (\<lambda>digest.
     Inr (interface_version cur (conv_id c) e (add_conversation c b (idempotency_key e) digest cur S)))))"

definition on_legacy_conversation_created :: "nat \<Rightarrow> interface_service \<Rightarrow> kevent \<Rightarrow> interface_service result" where
  "on_legacy_conversation_created cur S e =
     bind_result (payload_model ''conversation'' as_conversation valid_conversation (payload e)) (\<lambda>c.
     Inr (interface_version cur (conv_id c) e
       (S\<lparr>conversations := dict_set (conversations S) (conv_id c) c,
          conv_messages := dict_set (conv_messages S) (conv_id c) []\<rparr>)))"

definition on_owner_message_received :: "nat \<Rightarrow> interface_service \<Rightarrow> kevent \<Rightarrow> interface_service result" where
  "on_owner_message_received cur S e =
     bind_result (payload_model ''message'' as_message valid_conversation_message (payload e)) (\<lambda>m.
     bind_result (append_message S (msg_conversation_id m) m) (\<lambda>S'.
     bind_result (payload_model ''action_id'' as_str valid_identifier (payload e)) (\<lambda>i.
     bind_result (payload_item ''action_digest'' as_str (payload e)) (\<lambda>digest.
     Inr (interface_version cur (msg_conversation_id m) e
       (put_digest i digest (put_receipt (accepted_receipt i (msg_conversation_id m) (msg_id m) cur) S')))))))"

text \<open>The decisions and commitments among a response's actions; the others are skipped.\<close>

fun replay_action :: "string \<Rightarrow> interface_service \<Rightarrow> interface_action \<Rightarrow> interface_service" where
  "replay_action cid S (RecordDecision i statement supersedes) =
     put_decisions [\<lparr>decision_id = i, dec_conversation_id = cid, dec_statement = statement,
       supersedes_decision_id = supersedes\<rparr>] S"
| "replay_action cid S (UpdateCommitment _ i statement wid st) =
     S\<lparr>commitments := dict_set (commitments S) i \<lparr>commitment_id = i, com_conversation_id = cid,
       com_statement = statement, com_work_item_id = wid, com_state = st\<rparr>\<rparr>"
| "replay_action cid S _ = S"

definition on_interface_response_recorded :: "nat \<Rightarrow> interface_service \<Rightarrow> kevent \<Rightarrow> interface_service result" where
  "on_interface_response_recorded cur S e =
     bind_result (payload_model ''message'' as_message valid_conversation_message (payload e)) (\<lambda>m.
     let cid = msg_conversation_id m in
     bind_result (append_message S cid m) (\<lambda>Sa.
     bind_result (payload_item ''provider_session_id'' as_str (payload e)) (\<lambda>provider.
     bind_result (case session_of S cid of
         Some s \<Rightarrow> Inr (s\<lparr>ps_provider_session_id := provider, last_event_cursor := cur\<rparr>)
       | None \<Rightarrow>
           bind_result (payload_item ''pilot_session_id'' as_str (payload e)) (\<lambda>sid.
           bind_result (payload_item ''root_provider_session_id'' as_str (payload e)) (\<lambda>root_id.
           let s = new_session sid cid root_id provider cur in
           if valid_pilot_session s then Inr s else Inl (ValidationError ''PilotSession'')))) (\<lambda>s.
     bind_result (payload_model ''actions'' as_actions (list_all valid_interface_action) (payload e)) (\<lambda>xs.
     bind_result (payload_model ''action_id'' as_str valid_identifier (payload e)) (\<lambda>i.
     bind_result (payload_model ''owner_message_id'' as_str valid_identifier (payload e)) (\<lambda>owner_mid.
     bind_result (payload_item ''action_digest'' as_str (payload e)) (\<lambda>digest.
     Inr (interface_version cur cid e (put_digest i digest (put_receipt (completed_receipt i cid owner_mid m cur)
       (foldl (replay_action cid) (put_session s Sa) xs))))))))))))"

definition on_reorientation_session_advanced :: "nat \<Rightarrow> interface_service \<Rightarrow> kevent \<Rightarrow> interface_service result" where
  "on_reorientation_session_advanced cur S e =
     bind_result (payload_item ''pilot_session_id'' as_str (payload e)) (\<lambda>sid.
     bind_result (payload_item ''root_provider_session_id'' as_str (payload e)) (\<lambda>root_id.
     bind_result (payload_item ''provider_session_id'' as_str (payload e)) (\<lambda>provider.
     let s = new_session sid (stream_id e) root_id provider cur in
     if \<not> valid_pilot_session s then Inl (ValidationError ''PilotSession'')
     else if option_all (\<lambda>x. pilot_session_id x = sid) (session_of S (stream_id e))
     then Inr (interface_version cur (stream_id e) e (put_session s S))
     else raise_violation ''reorientation changed canonical PilotSession identity'')))"

definition on_history_commitments_materialized :: "nat \<Rightarrow> interface_service \<Rightarrow> kevent \<Rightarrow> interface_service result" where
  "on_history_commitments_materialized cur S e =
     bind_result (payload_model ''commitments'' as_commitments (list_all valid_commitment) (payload e)) (\<lambda>cs.
     if \<not> distinct (map commitment_id cs) then raise_violation ''history commitment identities must be unique''
     else case store_commitments cs (commitments S) of
       (Inl err, d) \<Rightarrow> Inl err
     | (Inr _, d) \<Rightarrow> Inr (interface_version cur (stream_id e) e (S\<lparr>commitments := d\<rparr>)))"

definition on_reorientation_assessment_materialized ::
  "nat \<Rightarrow> interface_service \<Rightarrow> kevent \<Rightarrow> interface_service result" where
  "on_reorientation_assessment_materialized cur S e =
     bind_result (payload_model ''memory'' as_memory valid_node_memory (payload e)) (\<lambda>m.
     bind_result (payload_model ''decisions'' as_decisions (list_all valid_decision) (payload e)) (\<lambda>ds.
     Inr (interface_version cur (stream_id e) e (put_decisions ds (put_memory m S)))))"

definition on_conversation_action_failed :: "nat \<Rightarrow> interface_service \<Rightarrow> kevent \<Rightarrow> interface_service result" where
  "on_conversation_action_failed cur S e =
     bind_result (payload_item ''action_id'' as_str (payload e)) (\<lambda>i.
     case dict_get (action_receipts S) i of
       None \<Rightarrow> raise_violation ''failed action has no accepted owner message''
     | Some previous \<Rightarrow>
       bind_result (payload_item ''error'' as_str (payload e)) (\<lambda>err.
       Inr (interface_version cur (stream_id e) e (S\<lparr>action_receipts := dict_set (action_receipts S) i
         (previous\<lparr>ar_status := ActionFailed, ar_event_cursor := cur, ar_error := Some err\<rparr>)\<rparr>))))"

definition on_owner_correction_recorded :: "nat \<Rightarrow> interface_service \<Rightarrow> kevent \<Rightarrow> interface_service result" where
  "on_owner_correction_recorded cur S e =
     bind_result (payload_model ''decision'' as_decision valid_decision (payload e)) (\<lambda>d.
     Inr (interface_version cur (stream_id e) e (put_decisions [d] S)))"

definition interface_handlers :: "(string \<times> (nat \<Rightarrow> interface_service \<Rightarrow> kevent \<Rightarrow> interface_service result)) list" where
  "interface_handlers =
     [(''conversation_created'', on_conversation_created),
      (''legacy_conversation_created'', on_legacy_conversation_created),
      (''owner_message_received'', on_owner_message_received),
      (''interface_response_recorded'', on_interface_response_recorded),
      (''reorientation_session_advanced'', on_reorientation_session_advanced),
      (''history_commitments_materialized'', on_history_commitments_materialized),
      (''reorientation_assessment_materialized'', on_reorientation_assessment_materialized),
      (''conversation_action_failed'', on_conversation_action_failed),
      (''owner_correction_recorded'', on_owner_correction_recorded)]"

definition is_interface_type :: "string \<Rightarrow> bool" where
  "is_interface_type ty \<longleftrightarrow> dict_mem ty interface_handlers"

definition replay_interface ::
  "interface_service \<times> nat \<Rightarrow> kevent \<Rightarrow> (interface_service \<times> nat) result" where
  "replay_interface = (\<lambda>(S, c) e.
     case dict_get interface_handlers (event_type e) of
       None \<Rightarrow> Inr (S, c + 1)
     | Some f \<Rightarrow> bind_result (f (c + 1) S e) (\<lambda>S'. Inr (S', c + 1)))"

section \<open>The view of the projection\<close>

text \<open>The projected service keeps its own Kernel and token lab, which other handlers restore.\<close>

definition forget :: "kernel \<Rightarrow> token_lab_events \<Rightarrow> interface_service \<Rightarrow> interface_service" where
  "forget k T S = S\<lparr>i_kernel := k, i_lab := T\<rparr>"

definition interface_good :: "interface_service \<Rightarrow> bool" where
  "interface_good S \<longleftrightarrow> tracks is_interface_type (i_versions S) (i_ledger S)
     \<and> keyed conv_id (conversations S) \<and> (\<forall>c \<in> set (dict_values (conversations S)). valid_conversation c)
     \<and> (\<forall>cid. dict_mem cid (conversations S) \<longrightarrow> dict_mem cid (conv_messages S))
     \<and> keyed pilot_session_id (pilot_sessions S) \<and> keyed ar_action_id (action_receipts S)"

text \<open>
  \<open>interface_logs S S'\<close>: the new events of the ledger take the projection's view of \<open>S\<close> to that
  of \<open>S'\<close>.
\<close>

definition interface_logs :: "interface_service \<Rightarrow> interface_service \<Rightarrow> bool" where
  "interface_logs S S' \<longleftrightarrow> tracks is_interface_type (i_versions S') (i_ledger S') \<and>
     (\<exists>es. ledger_events (i_ledger S') = ledger_events (i_ledger S) @ es \<and>
       (\<forall>k T. fold_result replay_interface (forget k T S, length (ledger_events (i_ledger S))) es
          = Inr (forget k T S', length (ledger_events (i_ledger S')))))"

lemma interface_logs_refl: "tracks is_interface_type (i_versions S) (i_ledger S) \<Longrightarrow> interface_logs S S"
  by (simp add: interface_logs_def exI [of _ "[]"])

lemma interface_logs_trans:
  assumes "interface_logs S1' S2'" and "interface_logs S2' S3'"
  shows "interface_logs S1' S3'"
proof -
  obtain es where es: "ledger_events (i_ledger S2') = ledger_events (i_ledger S1') @ es"
    "\<And>k T. fold_result replay_interface (forget k T S1', length (ledger_events (i_ledger S1'))) es
          = Inr (forget k T S2', length (ledger_events (i_ledger S2')))"
    using assms(1) unfolding interface_logs_def by blast
  obtain es' where es': "ledger_events (i_ledger S3') = ledger_events (i_ledger S2') @ es'"
    "\<And>k T. fold_result replay_interface (forget k T S2', length (ledger_events (i_ledger S2'))) es'
          = Inr (forget k T S3', length (ledger_events (i_ledger S3')))"
    using assms(2) unfolding interface_logs_def by blast
  have "tracks is_interface_type (i_versions S3') (i_ledger S3')" using assms(2) by (simp add: interface_logs_def)
  moreover have "ledger_events (i_ledger S3') = ledger_events (i_ledger S1') @ es @ es'" using es(1) es'(1) by simp
  moreover have "fold_result replay_interface (forget k T S1', length (ledger_events (i_ledger S1'))) (es @ es')
      = Inr (forget k T S3', length (ledger_events (i_ledger S3')))" for k T
    using es(2) es'(2) by (simp add: fold_result_append)
  ultimately show ?thesis unfolding interface_logs_def by blast
qed

text \<open>One recorded event, and the handler makes the change the operation makes.\<close>

lemma interface_record_logs:
  assumes tr: "tracks is_interface_type (i_versions S) (i_ledger S)"
    and rec: "interface_record env S t cid ty p act aid key = Inr (e, cur, Sa)"
    and f: "dict_get interface_handlers ty = Some f"
    and frame: "i_versions S' = i_versions Sa" "i_ledger S' = i_ledger Sa"
    and run: "\<And>k T. payload e = p \<Longrightarrow> stream_id e = cid \<Longrightarrow> idempotency_key e = key \<Longrightarrow>
      Sa = interface_version cur cid e (set_i_ledger (i_ledger Sa) S) \<Longrightarrow> f cur (forget k T S) e = Inr (forget k T S')"
  shows "interface_logs S S'"
proof -
  from rec obtain r L' where app: "append_event (ie_hash env) (i_ledger S) (data_space_id (k_data_space (i_kernel S))) cid
      (version_of (i_versions S) cid) ty p t act aid (Some cid) None key = Inr (e, r, L')"
    and cur: "cur = result_cursor r" and Sa: "Sa = (set_i_ledger L' S)\<lparr>
         i_versions := dict_set (i_versions S) cid (result_stream_version r),
         conversation_cursors := dict_set (conversation_cursors S) cid (result_cursor r)\<rparr>"
    by (auto simp: interface_record_def)
  have own: "is_interface_type ty" using f by (simp add: is_interface_type_def dict_get_Some_mem)
  note a = append_tracked [OF tr app own]
  have key: "idempotency_key e = key" using make_event_Inr [OF append_event_Inr(2) [OF app]] by simp
  have "Sa = interface_version cur cid e (set_i_ledger (i_ledger Sa) S)"
    using Sa a(2,6) cur by (simp add: interface_version_def set_i_ledger_def)
  note run = run [OF a(5,6) key this]
  have "i_ledger Sa = L'" using Sa by (simp add: set_i_ledger_def)
  then show ?thesis using a(1-4,7) run f cur frame Sa
    unfolding interface_logs_def by (intro conjI exI [of _ "[e]"]) (simp_all add: replay_interface_def set_i_ledger_def)
qed

text \<open>Foreign events pass by, whatever happens to the Kernel and the token lab.\<close>

definition foreign_log :: "kledger \<Rightarrow> kledger \<Rightarrow> bool" where
  "foreign_log L L' \<longleftrightarrow> ledger_inv L' \<and>
     (\<exists>es. ledger_events L' = ledger_events L @ es \<and> (\<forall>e \<in> set es. \<not> is_interface_type (event_type e)))"

lemma replay_foreign:
  "(\<forall>e \<in> set es. \<not> is_interface_type (event_type e)) \<Longrightarrow> fold_result replay_interface (S, c) es = Inr (S, c + length es)"
  by (induction es arbitrary: c) (auto simp: replay_interface_def is_interface_type_def dict_get_None_mem [symmetric])

lemma foreign_log_refl: "ledger_inv L \<Longrightarrow> foreign_log L L"
  by (simp add: foreign_log_def exI [of _ "[]"])

lemma foreign_log_trans:
  assumes "foreign_log L1 L2" and "foreign_log L2 L3"
  shows "foreign_log L1 L3"
proof -
  obtain es es' where "ledger_events L2 = ledger_events L1 @ es" "\<forall>e \<in> set es. \<not> is_interface_type (event_type e)"
    "ledger_events L3 = ledger_events L2 @ es'" "\<forall>e \<in> set es'. \<not> is_interface_type (event_type e)" "ledger_inv L3"
    using assms unfolding foreign_log_def by blast
  then show ?thesis unfolding foreign_log_def by (intro conjI exI [of _ "es @ es'"]) auto
qed

lemma foreign_log_append:
  assumes "ledger_inv L" and "ledger_append L e n = Inr (r, L')" and "\<not> is_interface_type (event_type e)"
  shows "foreign_log L L'"
  using ledger_append_inv [OF assms(1,2)] ledger_append_events [OF assms(1,2)] assms(3)
  unfolding foreign_log_def by auto

lemma foreign_logs:
  assumes tr: "tracks is_interface_type (i_versions S) (i_ledger S)" and L: "foreign_log (i_ledger S) (i_ledger S')"
    and same: "\<And>k T. forget k T S' = forget k T S"
  shows "interface_logs S S'"
proof -
  from L obtain es where es: "ledger_events (i_ledger S') = ledger_events (i_ledger S) @ es"
    "\<forall>e \<in> set es. \<not> is_interface_type (event_type e)" "ledger_inv (i_ledger S')"
    by (auto simp: foreign_log_def)
  have "i_versions (forget k T S') = i_versions (forget k T S)" for k T using same by simp
  then have "i_versions S' = i_versions S" by (simp add: forget_def)
  with es tr have "tracks is_interface_type (i_versions S') (i_ledger S')" by (auto simp: tracks_def)
  then show ?thesis using es(1) replay_foreign [OF es(2)] same
    unfolding interface_logs_def by (intro conjI exI [of _ es]) simp_all
qed

end
