(* ===== verification/Interface_Steps.thy ===== *)
theory Interface_Steps
  imports Interface_Replay
begin

text \<open>
  Each operation of the interface appends events whose replay makes the change the
  operation made. What the proofs need of a state is \<open>interface_good\<close>, which every
  operation keeps.
\<close>

section \<open>What the operations keep\<close>

definition interface_shape :: "interface_service \<Rightarrow> bool" where
  "interface_shape S \<longleftrightarrow> keyed conv_id (conversations S) \<and> (\<forall>c \<in> set (dict_values (conversations S)). valid_conversation c)
     \<and> (\<forall>cid. dict_mem cid (conversations S) \<longrightarrow> dict_mem cid (conv_messages S))
     \<and> keyed pilot_session_id (pilot_sessions S) \<and> keyed ar_action_id (action_receipts S)"

lemma interface_good_shape:
  "interface_good S \<longleftrightarrow> tracks is_interface_type (i_versions S) (i_ledger S) \<and> interface_shape S"
  by (simp add: interface_good_def interface_shape_def)

definition interface_step_to :: "interface_service \<Rightarrow> interface_service \<Rightarrow> bool" where
  "interface_step_to S S' \<longleftrightarrow> interface_logs S S' \<and> interface_good S'"

lemma interface_step_toI: "interface_logs S S' \<Longrightarrow> interface_shape S' \<Longrightarrow> interface_step_to S S'"
  by (auto simp: interface_step_to_def interface_logs_def interface_good_shape)

lemma interface_step_refl: "interface_good S \<Longrightarrow> interface_step_to S S"
  by (auto simp: interface_step_to_def interface_good_shape intro: interface_logs_refl)

lemma interface_step_trans: "interface_step_to S S' \<Longrightarrow> interface_step_to S' S'' \<Longrightarrow> interface_step_to S S''"
  by (auto simp: interface_step_to_def intro: interface_logs_trans)

lemma good_shape: "interface_good S \<Longrightarrow> interface_shape S"
  by (simp add: interface_good_shape)

lemma good_tracks: "interface_good S \<Longrightarrow> tracks is_interface_type (i_versions S) (i_ledger S)"
  by (simp add: interface_good_shape)

lemma good_ledger_inv: "interface_good S \<Longrightarrow> ledger_inv (i_ledger S)"
  by (simp add: interface_good_shape tracks_def)

text \<open>A shape depends on four of the fields.\<close>

lemma interface_shape_frame:
  "interface_shape S \<Longrightarrow> conversations S' = conversations S \<Longrightarrow> conv_messages S' = conv_messages S \<Longrightarrow>
    pilot_sessions S' = pilot_sessions S \<Longrightarrow> action_receipts S' = action_receipts S \<Longrightarrow> interface_shape S'"
  by (simp add: interface_shape_def)

lemma shape_version [simp]: "interface_shape (interface_version cur cid e S) = interface_shape S"
  by (simp add: interface_shape_def interface_version_def)

lemma shape_ledger [simp]: "interface_shape (set_i_ledger L S) = interface_shape S"
  by (simp add: interface_shape_def set_i_ledger_def)

lemma shape_put_session [simp]: "interface_shape S \<Longrightarrow> interface_shape (put_session s S)"
  by (auto simp: interface_shape_def put_session_def)

lemma shape_put_receipt [simp]: "interface_shape S \<Longrightarrow> interface_shape (put_receipt r S)"
  by (auto simp: interface_shape_def put_receipt_def)

lemma shape_put_digest [simp]: "interface_shape (put_digest i d S) = interface_shape S"
  by (simp add: interface_shape_def put_digest_def)

lemma shape_put_decisions [simp]: "interface_shape (put_decisions ds S) = interface_shape S"
  by (simp add: interface_shape_def put_decisions_def)

lemma shape_put_memory [simp]: "interface_shape (put_memory m S) = interface_shape S"
  by (simp add: interface_shape_def put_memory_def)

lemma shape_append_message: "interface_shape S \<Longrightarrow> append_message S cid m = Inr S' \<Longrightarrow> interface_shape S'"
  by (auto simp: interface_shape_def append_message_def split: option.splits)

lemma shape_add_conversation:
  assumes "interface_shape S" and "valid_conversation c"
  shows "interface_shape (add_conversation c b key digest cur S)"
proof -
  have "keyed conv_id (conversations S)" using assms(1) by (simp add: interface_shape_def)
  note vals = keyed_values_set [OF this refl, of c]
  show ?thesis using assms by (auto simp: interface_shape_def add_conversation_def vals)
qed

lemma shape_record: "interface_record env S t cid ty p act aid key = Inr (e, cur, S') \<Longrightarrow> interface_shape S' = interface_shape S"
  by (auto simp: interface_record_def interface_shape_def set_i_ledger_def)

lemma shape_conversation:
  assumes "interface_shape S" and "dict_get (conversations S) cid = Some c"
  shows "conv_id c = cid" "valid_conversation c" "dict_mem cid (conv_messages S)"
  using assms keyed_get dict_get_values dict_get_Some_mem unfolding interface_shape_def by metis+

section \<open>Operations of one event\<close>

lemmas interface_commute = forget_def interface_version_def set_i_ledger_def

lemma handled:
  "dict_get interface_handlers ''conversation_created'' = Some on_conversation_created"
  "dict_get interface_handlers ''owner_message_received'' = Some on_owner_message_received"
  "dict_get interface_handlers ''interface_response_recorded'' = Some on_interface_response_recorded"
  "dict_get interface_handlers ''reorientation_session_advanced'' = Some on_reorientation_session_advanced"
  "dict_get interface_handlers ''history_commitments_materialized'' = Some on_history_commitments_materialized"
  "dict_get interface_handlers ''reorientation_assessment_materialized'' = Some on_reorientation_assessment_materialized"
  "dict_get interface_handlers ''conversation_action_failed'' = Some on_conversation_action_failed"
  "dict_get interface_handlers ''owner_correction_recorded'' = Some on_owner_correction_recorded"
  by (simp_all add: interface_handlers_def)

lemmas interface_payloads = payload_model_def payload_item_def

lemma create_conversation_step:
  assumes good: "interface_good S" and valid: "valid_conversation c" "valid_surface_binding b"
  shows "ensures (\<lambda>(r, S'). interface_step_to S S') (create_conversation env S t c b key)"
proof -
  have main: "interface_step_to S (add_conversation c b key (creation_digest_of env c b) cur Sa)"
    if rec: "interface_record env S t (conv_id c) ''conversation_created''
              [(''conversation'', PConversation c), (''surface_binding'', PBinding b),
               (''request_digest'', PStr (creation_digest_of env c b))]
              Human (Some (conv_owner_id c)) key = Inr (e, cur, Sa)" for e cur Sa
  proof (rule interface_step_toI)
    show "interface_logs S (add_conversation c b key (creation_digest_of env c b) cur Sa)"
    proof (rule interface_record_logs [OF good_tracks [OF good] rec handled(1)])
      fix k T assume "Sa = interface_version cur (conv_id c) e (set_i_ledger (i_ledger Sa) S)"
        and p: "payload e = [(''conversation'', PConversation c), (''surface_binding'', PBinding b),
               (''request_digest'', PStr (creation_digest_of env c b))]" "idempotency_key e = key"
      then obtain L where Sa: "Sa = interface_version cur (conv_id c) e (set_i_ledger L S)" by blast
      show "on_conversation_created cur (forget k T S) e
          = Inr (forget k T (add_conversation c b key (creation_digest_of env c b) cur Sa))"
        unfolding Sa using valid p
        by (simp add: on_conversation_created_def interface_payloads interface_commute add_conversation_def)
    qed (simp_all add: add_conversation_def)
    show "interface_shape (add_conversation c b key (creation_digest_of env c b) cur Sa)"
      using shape_add_conversation [OF _ valid(1)] shape_record [OF rec] good_shape [OF good] by simp
  qed
  show ?thesis
    by (auto simp: create_conversation_def Let_def interface_step_refl [OF good] split: ensures_splits intro: main)
qed

lemma record_owner_correction_step:
  assumes good: "interface_good S"
  shows "ensures (\<lambda>(d, S'). interface_step_to S S') (record_owner_correction env S t uuid cid statement aid key)"
proof -
  have main: "interface_step_to S (put_decisions [d] Sa)"
    if rec: "interface_record env S t cid ''owner_correction_recorded'' [(''decision'', PDecision d)] Human (Some aid) key
        = Inr (e, cur, Sa)" and d: "valid_decision d" for d e cur Sa
  proof (rule interface_step_toI)
    show "interface_logs S (put_decisions [d] Sa)"
    proof (rule interface_record_logs [OF good_tracks [OF good] rec handled(8)])
      fix k T assume "Sa = interface_version cur cid e (set_i_ledger (i_ledger Sa) S)"
        and p: "payload e = [(''decision'', PDecision d)]" "stream_id e = cid"
      then obtain L where Sa: "Sa = interface_version cur cid e (set_i_ledger L S)" by blast
      show "on_owner_correction_recorded cur (forget k T S) e = Inr (forget k T (put_decisions [d] Sa))"
        unfolding Sa using d p
        by (simp add: on_owner_correction_recorded_def interface_payloads interface_commute put_decisions_def)
    qed (simp_all add: put_decisions_def)
    show "interface_shape (put_decisions [d] Sa)" using shape_record [OF rec] good_shape [OF good] by simp
  qed
  show ?thesis by (auto simp: record_owner_correction_def Let_def split: ensures_splits if_splits intro!: main)
qed

lemma session_of_forget [simp]: "session_of (forget k T S) cid = session_of S cid"
  by (simp add: session_of_def forget_def)

lemma record_reorientation_session_step:
  assumes good: "interface_good S"
  shows "ensures (\<lambda>(s, S'). interface_step_to S S') (record_reorientation_session env S t uuid cid provider aid key)"
proof -
  have main: "interface_step_to S (put_session s Sa)"
    if id: "session_identity (session_of S cid) uuid provider = Inr (sid, root_id)"
      and rec: "interface_record env S t cid ''reorientation_session_advanced''
            [(''pilot_session_id'', PStr sid), (''root_provider_session_id'', PStr root_id),
             (''provider_session_id'', PStr provider)] PilotActor (Some aid) key = Inr (e, cur, Sa)"
      and s: "s = new_session sid cid root_id provider cur" "valid_pilot_session s" for sid root_id e cur Sa s
  proof (rule interface_step_toI)
    have same: "option_all (\<lambda>x. pilot_session_id x = sid) (session_of S cid)"
      using id by (auto simp: session_identity_def split: option.splits)
    show "interface_logs S (put_session s Sa)"
    proof (rule interface_record_logs [OF good_tracks [OF good] rec handled(4)])
      fix k T assume "Sa = interface_version cur cid e (set_i_ledger (i_ledger Sa) S)"
        and p: "payload e = [(''pilot_session_id'', PStr sid), (''root_provider_session_id'', PStr root_id),
             (''provider_session_id'', PStr provider)]" "stream_id e = cid"
      then obtain L where Sa: "Sa = interface_version cur cid e (set_i_ledger L S)" by blast
      show "on_reorientation_session_advanced cur (forget k T S) e = Inr (forget k T (put_session s Sa))"
        unfolding Sa using s p same
        by (simp add: on_reorientation_session_advanced_def interface_payloads Let_def)
          (simp add: interface_commute put_session_def)
    qed (simp_all add: put_session_def)
    show "interface_shape (put_session s Sa)" using shape_record [OF rec] good_shape [OF good] by simp
  qed
  show ?thesis by (auto simp: record_reorientation_session_def Let_def split: ensures_splits intro!: main)
qed

text \<open>Only a materialisation without a collision can be replayed.\<close>

lemma materialize_history_commitments_step:
  assumes good: "interface_good S" and valid: "\<forall>c \<in> set cs. valid_commitment c"
    and op: "materialize_history_commitments env S t cid cs ids aid key = (Inr (), S')"
  shows "interface_step_to S S'"
proof -
  from op obtain e cur Sa d where rec: "interface_record env S t cid ''history_commitments_materialized''
          [(''commitments'', PCommitments cs), (''history_result_event_ids'', PStrs ids)] SystemActor (Some aid) key
        = Inr (e, cur, Sa)"
    and d: "store_commitments cs (commitments Sa) = (Inr (), d)" and S': "S' = Sa\<lparr>commitments := d\<rparr>"
    and dist: "distinct (map commitment_id cs)"
    by (auto simp: materialize_history_commitments_def split: if_splits sum.splits prod.splits)
  show ?thesis unfolding S'
  proof (rule interface_step_toI)
    show "interface_logs S (Sa\<lparr>commitments := d\<rparr>)"
    proof (rule interface_record_logs [OF good_tracks [OF good] rec handled(5)])
      fix k T assume "Sa = interface_version cur cid e (set_i_ledger (i_ledger Sa) S)"
        and p: "payload e = [(''commitments'', PCommitments cs), (''history_result_event_ids'', PStrs ids)]" "stream_id e = cid"
      then obtain L where Sa: "Sa = interface_version cur cid e (set_i_ledger L S)" by blast
      have "store_commitments cs (commitments S) = (Inr (), d)"
        using d by (simp add: Sa interface_commute)
      then show "on_history_commitments_materialized cur (forget k T S) e = Inr (forget k T (Sa\<lparr>commitments := d\<rparr>))"
        unfolding Sa using p valid dist
        by (simp add: on_history_commitments_materialized_def interface_payloads interface_commute list_all_iff)
    qed simp_all
    show "interface_shape (Sa\<lparr>commitments := d\<rparr>)"
      using shape_record [OF rec] good_shape [OF good] by (simp add: interface_shape_def)
  qed
qed

lemma new_decisions_valid: "new_decisions cid uuids ss = Inr ds \<Longrightarrow> list_all valid_decision ds"
  by (induction ss arbitrary: uuids ds) (auto simp: Let_def split: if_splits)

lemma put_blob_step:
  assumes good: "interface_good S" and put: "put_blob f (i_ledger S) data = (ref, L1)"
  shows "interface_step_to S (set_i_ledger L1 S)"
proof -
  have L1: "ledger_events L1 = ledger_events (i_ledger S)" "ledger_inv L1 = ledger_inv (i_ledger S)"
    using put by (auto simp: put_blob_def Let_def ledger_events_def ledger_inv_def stream_of_def)
  have "foreign_log (i_ledger S) (i_ledger (set_i_ledger L1 S))"
    using L1 good_ledger_inv [OF good] by (simp add: foreign_log_def set_i_ledger_def)
  then have "interface_logs S (set_i_ledger L1 S)"
    by (intro foreign_logs [OF good_tracks [OF good]]) (simp_all add: interface_commute)
  then show ?thesis using good_shape [OF good] by (intro interface_step_toI) simp_all
qed

lemma materialize_reorientation_assessment_step:
  assumes good: "interface_good S"
    and op: "materialize_reorientation_assessment env S t uuid uuids a aid key = (r, S')"
  shows "interface_step_to S S'"
proof -
  have main: "interface_step_to Sa (put_decisions ds (put_memory m Sb))"
    if good: "interface_good Sa" and rec: "interface_record env Sa t cid ''reorientation_assessment_materialized''
               [(''assessment_id'', PStr (assessment_id a)), (''memory'', PMemory m), (''decisions'', PDecisions ds)]
               PilotActor (Some aid) key = Inr (e, cur, Sb)"
      and m: "valid_node_memory m" and ds: "list_all valid_decision ds" for Sa Sb cid m ds e cur
  proof (rule interface_step_toI)
    show "interface_logs Sa (put_decisions ds (put_memory m Sb))"
    proof (rule interface_record_logs [OF good_tracks [OF good] rec handled(6)])
      fix k T assume "Sb = interface_version cur cid e (set_i_ledger (i_ledger Sb) Sa)"
        and p: "payload e = [(''assessment_id'', PStr (assessment_id a)), (''memory'', PMemory m), (''decisions'', PDecisions ds)]"
          "stream_id e = cid"
      then obtain L where Sb: "Sb = interface_version cur cid e (set_i_ledger L Sa)" by blast
      show "on_reorientation_assessment_materialized cur (forget k T Sa) e
          = Inr (forget k T (put_decisions ds (put_memory m Sb)))"
        unfolding Sb using p m ds
        by (simp add: on_reorientation_assessment_materialized_def interface_payloads interface_commute put_decisions_def put_memory_def)
    qed (simp_all add: put_decisions_def put_memory_def)
    show "interface_shape (put_decisions ds (put_memory m Sb))" using shape_record [OF rec] good_shape [OF good] by simp
  qed
  obtain ref L1 where put: "put_blob (sha256 (ie_hash env)) (i_ledger S) (assessment_json env a) = (ref, L1)" by fastforce
  note first = put_blob_step [OF good put]
  then have good1: "interface_good (set_i_ledger L1 S)" by (simp add: interface_step_to_def)
  show ?thesis using op first interface_step_refl [OF good] new_decisions_valid
    by (auto simp: materialize_reorientation_assessment_def put Let_def split: option.splits sum.splits if_splits prod.splits
        intro: interface_step_trans [OF first main [OF good1]])
qed

end
