(* ===== verification/Interface_Turns.thy ===== *)
theory Interface_Turns
  imports Interface_Steps Service_Replay
begin

text \<open>
  The owner's turn as the projection sees it. Unless it fails after the response has been
  recorded, replaying its events gives the conversations, messages, sessions, decisions,
  commitments and receipts it left.
\<close>

section \<open>Applied actions\<close>

text \<open>What \<open>replay_action\<close> does to the two dictionaries it writes.\<close>

fun decisions_with :: "string \<Rightarrow> (string, decision) dict \<Rightarrow> interface_action \<Rightarrow> (string, decision) dict" where
  "decisions_with cid d (RecordDecision i statement supersedes) =
     dict_set d i \<lparr>decision_id = i, dec_conversation_id = cid, dec_statement = statement, supersedes_decision_id = supersedes\<rparr>"
| "decisions_with cid d _ = d"

fun commitments_with :: "string \<Rightarrow> (string, commitment) dict \<Rightarrow> interface_action \<Rightarrow> (string, commitment) dict" where
  "commitments_with cid d (UpdateCommitment _ i statement wid st) =
     dict_set d i \<lparr>commitment_id = i, com_conversation_id = cid, com_statement = statement, com_work_item_id = wid, com_state = st\<rparr>"
| "commitments_with cid d _ = d"

lemma replay_action_fields:
  "replay_action cid S x = S\<lparr>decisions := decisions_with cid (decisions S) x,
     commitments := commitments_with cid (commitments S) x\<rparr>"
  by (cases x) (simp_all add: put_decisions_def)

lemma replay_actions_fields:
  "foldl (replay_action cid) S xs = S\<lparr>decisions := foldl (decisions_with cid) (decisions S) xs,
     commitments := foldl (commitments_with cid) (commitments S) xs\<rparr>"
  by (induction xs arbitrary: S) (simp_all add: replay_action_fields)

section \<open>Events of the Kernel and of the token lab\<close>

lemma foreign_types:
  "\<not> is_interface_type ''work_item_created''" "\<not> is_interface_type ''work_dependency_added''"
  "\<not> is_interface_type ''work_item_delegated''" "\<not> is_interface_type ''effect_planned''"
  "\<not> is_interface_type ''work_item_completed''" "\<not> is_interface_type ''token_observation_recorded''"
  by (simp_all add: is_interface_type_def interface_handlers_def dict_mem_def)

lemma append_event_foreign:
  assumes "ledger_inv L" and "append_event h L ds sid n ty p t act aid corr caus key = Inr (e, r, L')"
    and "\<not> is_interface_type ty"
  shows "foreign_log L L'"
  using append_event_Inr [OF assms(2)] make_event_Inr(4) assms(1,3) by (metis foreign_log_append)

lemma kernel_record_foreign:
  assumes "ledger_inv (k_ledger k)" and "\<not> is_interface_type ty"
  shows "ensures (\<lambda>(e, k'). foreign_log (k_ledger k) (k_ledger k')) (kernel_record h k t sid ty p act aid key corr caus)"
  using append_event_foreign [OF assms(1) _ assms(2)] by (auto simp: kernel_record_def ensures_def)

lemma kernel_op_foreign:
  assumes "ledger_inv (k_ledger k)" and "\<not> is_interface_type ty"
    and "\<And>e k'. k_ledger (u e k') = k_ledger k'"
  shows "ensures (\<lambda>(e, k'). foreign_log (k_ledger k) (k_ledger k'))
    (then_update (kernel_record h k t sid ty p act aid key corr caus) u)"
  using kernel_record_foreign [OF assms(1,2)] by (simp add: ensures_then_update assms(3))

lemma kernel_ops_foreign:
  assumes inv: "ledger_inv (k_ledger k)"
  shows "ensures (\<lambda>(e, k'). foreign_log (k_ledger k) (k_ledger k')) (create_work_item h k t w aid key)"
    and "ensures (\<lambda>(e, k'). foreign_log (k_ledger k) (k_ledger k')) (add_dependency h k t wid did aid key)"
    and "ensures (\<lambda>(e, k'). foreign_log (k_ledger k) (k_ledger k')) (delegate_work_item h k t wid nid aid key)"
    and "ensures (\<lambda>(e, k'). foreign_log (k_ledger k) (k_ledger k')) (plan_effect h k now t l aid key)"
    and "ensures (\<lambda>(e, k'). foreign_log (k_ledger k) (k_ledger k')) (complete_work_item h k t wid ev aid key)"
  by (simp_all add: create_work_item_def add_dependency_def delegate_work_item_def plan_effect_def complete_work_item_def
      Let_def kernel_op_foreign [OF inv] foreign_types split: ensures_splits)

lemma on_kernel_of_foreign:
  assumes "ensures (\<lambda>(e, k'). foreign_log (i_ledger S) (k_ledger k')) r" and "ledger_inv (i_ledger S)"
    and "on_kernel_of S r = (u, S')"
  shows "foreign_log (i_ledger S) (i_ledger S') \<and> forget k T S' = forget k T S"
  using assms by (cases r) (auto simp: on_kernel_of_def forget_def foreign_log_refl)

lemma add_dependencies_foreign:
  "add_dependencies env S clock j wid ds aid pre = (u, S') \<Longrightarrow> ledger_inv (i_ledger S) \<Longrightarrow>
    foreign_log (i_ledger S) (i_ledger S') \<and> forget k T S' = forget k T S"
proof (induction ds arbitrary: S j)
  case (Cons d ds)
  let ?r = "add_dependency (ie_hash env) (i_kernel S) (clock j) wid d aid (pre @ '':depends:'' @ d)"
  obtain v Sa where first: "on_kernel_of S ?r = (v, Sa)" by fastforce
  note f = on_kernel_of_foreign [OF kernel_ops_foreign(2) [OF Cons.prems(2)] Cons.prems(2) first]
  then have inv: "ledger_inv (i_ledger Sa)" by (simp add: foreign_log_def)
  show ?case
  proof (cases v)
    case (Inl err)
    then show ?thesis using Cons.prems(1) first f by simp
  next
    case (Inr x)
    then have "add_dependencies env Sa clock (Suc j) wid ds aid pre = (u, S')" using Cons.prems(1) first by simp
    from Cons.IH [OF this inv] f show ?thesis using foreign_log_trans by metis
  qed
qed (simp add: foreign_log_refl)

lemma apply_interface_action_foreign:
  assumes op: "apply_interface_action env S clock c x = (u, S')" and inv: "ledger_inv (i_ledger S)"
  shows "foreign_log (i_ledger S) (i_ledger S')"
    and "u = Inr v \<Longrightarrow> forget k T S' = replay_action (conv_id c) (forget k T S) x"
proof -
  note k = on_kernel_of_foreign [OF kernel_ops_foreign(1) [OF inv] inv] on_kernel_of_foreign [OF kernel_ops_foreign(3) [OF inv] inv]
    on_kernel_of_foreign [OF kernel_ops_foreign(4) [OF inv] inv] on_kernel_of_foreign [OF kernel_ops_foreign(5) [OF inv] inv]
  have both: "foreign_log (i_ledger S) (i_ledger S') \<and> (\<forall>v. u = Inr v \<longrightarrow> forget k T S' = replay_action (conv_id c) (forget k T S) x)"
    if "x = CreateWorkItem i w deps" for i w deps
  proof -
    obtain v Sa where first: "on_kernel_of S (create_work_item (ie_hash env) (i_kernel S) (clock 0) w (conv_node_id c)
        (''interface:'' @ interface_action_id x @ '':create'')) = (v, Sa)" by fastforce
    note f = k(1) [OF first, of k T]
    then have inv': "ledger_inv (i_ledger Sa)" by (simp add: foreign_log_def)
    show ?thesis
    proof (cases v)
      case (Inl err)
      then show ?thesis using op first f that by (simp add: apply_interface_action_def Let_def)
    next
      case (Inr y)
      then have "add_dependencies env Sa clock 1 (work_item_id w) deps (conv_node_id c) (''interface:'' @ interface_action_id x) = (u, S')"
        using op first that by (simp add: apply_interface_action_def Let_def)
      from add_dependencies_foreign [OF this inv', of k T] f show ?thesis using that foreign_log_trans
        by (metis replay_action.simps(3))
    qed
  qed
  have others: "foreign_log (i_ledger S) (i_ledger S') \<and> (\<forall>v. u = Inr v \<longrightarrow> forget k T S' = replay_action (conv_id c) (forget k T S) x)"
    if "\<And>i w deps. x \<noteq> CreateWorkItem i w deps"
    using op that k foreign_log_refl [OF inv]
    by (cases x) (auto simp: apply_interface_action_def Let_def forget_def put_decisions_def raise_violation_def
        split: option.splits if_splits)
  show "foreign_log (i_ledger S) (i_ledger S')" using both others by blast
  show "u = Inr v \<Longrightarrow> forget k T S' = replay_action (conv_id c) (forget k T S) x" using both others by blast
qed

lemma apply_actions_foreign:
  "apply_actions env S clock i c xs = (u, S') \<Longrightarrow> ledger_inv (i_ledger S) \<Longrightarrow>
    foreign_log (i_ledger S) (i_ledger S')
    \<and> (\<forall>v k T. u = Inr v \<longrightarrow> forget k T S' = foldl (replay_action (conv_id c)) (forget k T S) xs)"
proof (induction xs arbitrary: S i)
  case (Cons x xs)
  obtain v Sa where first: "apply_interface_action env S (clock i) c x = (v, Sa)" by fastforce
  note f = apply_interface_action_foreign [OF first Cons.prems(2)]
  have inv: "ledger_inv (i_ledger Sa)" using f(1) by (simp add: foreign_log_def)
  show ?case
  proof (cases v)
    case (Inl err)
    then show ?thesis using Cons.prems(1) first f(1) by auto
  next
    case (Inr y)
    then have "apply_actions env Sa clock (Suc i) c xs = (u, S')" using Cons.prems(1) first by simp
    from Cons.IH [OF this inv] f foreign_log_trans Inr show ?thesis by fastforce
  qed
qed (simp add: foreign_log_refl)

lemma observe_usage_foreign:
  assumes op: "observe_usage env S inp c a u = (r, S')" and inv: "ledger_inv (i_ledger S)"
  shows "foreign_log (i_ledger S) (i_ledger S') \<and> forget k T S' = forget k T S"
  using op append_event_foreign [OF inv _ foreign_types(6)] foreign_log_refl [OF inv]
  by (auto simp: observe_usage_def service_observe_def lab_record_def forget_def set_i_ledger_def Let_def
      split: sum.splits prod.splits if_splits)

section \<open>The response\<close>

lemma interface_shape_forget [simp]: "interface_shape (forget k T S) = interface_shape S"
  by (simp add: interface_shape_def forget_def)

lemma interface_shape_replay_actions [simp]: "interface_shape (foldl (replay_action cid) S xs) = interface_shape S"
  by (simp add: replay_actions_fields interface_shape_def)

text \<open>Forgetting commutes with everything the interface does to its own fields.\<close>

lemma forget_commute:
  "forget k T (put_receipt r S) = put_receipt r (forget k T S)"
  "forget k T (put_session s S) = put_session s (forget k T S)"
  "forget k T (put_digest i d S) = put_digest i d (forget k T S)"
  "forget k T (interface_version cur cid e S) = interface_version cur cid e (forget k T S)"
  "forget k T (set_i_ledger L S) = forget k T S"
  "forget k T (foldl (replay_action cid) S xs) = foldl (replay_action cid) (forget k T S) xs"
  by (simp_all add: forget_def put_receipt_def put_session_def put_digest_def interface_version_def set_i_ledger_def
      replay_actions_fields)

lemma append_message_Inr:
  "append_message S cid m = Inr S' \<longleftrightarrow>
    (\<exists>ms. dict_get (conv_messages S) cid = Some ms \<and> S' = S\<lparr>conv_messages := dict_set (conv_messages S) cid (ms @ [m])\<rparr>)"
  by (auto simp: append_message_def split: option.split)

text \<open>The projection's change for a response: what the live service has done when the turn completes.\<close>

definition after_response ::
  "interface_service \<Rightarrow> string \<Rightarrow> conversation_message \<Rightarrow> pilot_session \<Rightarrow> interface_action list
    \<Rightarrow> conversation_action_receipt \<Rightarrow> interface_service result" where
  "after_response S cid m s xs r =
     bind_result (append_message S cid m) (\<lambda>Sa. Inr (put_receipt r (foldl (replay_action cid) (put_session s Sa) xs)))"

lemma dict_set_same: "dict_get d k = Some v \<Longrightarrow> dict_set d k v = d"
  unfolding dict_set_def by (induction d) auto

lemma complete_action_Inr:
  assumes "complete_action env S c a digest owner_mid resp inp = (Inr r, S')" and inv: "ledger_inv (i_ledger S)"
    and tr: "tracks is_interface_type (i_versions S) (i_ledger S)"
  obtains mid sid root_id e cur Sa Sb where "new_id ''message'' (interface_uuid inp) = Inr mid"
    and "session_identity (session_of S (conv_id c)) (session_uuid inp) (response_provider_session_id resp) = Inr (sid, root_id)"
    and "interface_record env S (response_event_time inp) (conv_id c) ''interface_response_recorded''
          (response_payload a digest owner_mid (response_message c mid resp (response_time inp)) resp sid root_id
             (session_of S (conv_id c))) PilotActor (Some (conv_node_id c)) (oa_idempotency_key a @ '':response'') = Inr (e, cur, Sa)"
    and "r = completed_receipt (oa_action_id a) (conv_id c) owner_mid (response_message c mid resp (response_time inp)) cur"
    and "after_response Sa (conv_id c) (response_message c mid resp (response_time inp))
          (advance_session (session_of S (conv_id c)) sid (conv_id c) (response_provider_session_id resp) cur)
          (response_actions resp) r = Inr Sb"
    and "foreign_log (i_ledger Sa) (i_ledger S')" and "\<And>k T. forget k T S' = forget k T Sb"
proof -
  let ?m = "\<lambda>mid. response_message c mid resp (response_time inp)" and ?prior = "session_of S (conv_id c)"
  let ?s = "\<lambda>sid cur. advance_session ?prior sid (conv_id c) (response_provider_session_id resp) cur"
  from assms(1) obtain mid sid root_id e cur Sa Sx Sc Sd u v where
    mid: "new_id ''message'' (interface_uuid inp) = Inr mid"
    and sid: "session_identity ?prior (session_uuid inp) (response_provider_session_id resp) = Inr (sid, root_id)"
    and rec: "interface_record env S (response_event_time inp) (conv_id c) ''interface_response_recorded''
          (response_payload a digest owner_mid (?m mid) resp sid root_id ?prior) PilotActor (Some (conv_node_id c))
          (oa_idempotency_key a @ '':response'') = Inr (e, cur, Sa)"
    and app: "append_message Sa (conv_id c) (?m mid) = Inr Sx"
    and obs: "observe_usage env Sx inp c a (pilot_usage resp) = (Inr u, Sc)"
    and acts: "apply_actions env (put_session (?s sid cur) Sc) (action_time inp) 0 c (response_actions resp) = (Inr v, Sd)"
    and r: "r = completed_receipt (oa_action_id a) (conv_id c) owner_mid (?m mid) cur" and S': "S' = put_receipt r Sd"
    by (auto simp: complete_action_def Let_def split: sum.splits prod.splits)
  have inv_a: "ledger_inv (i_ledger Sa)"
  proof -
    from rec obtain r' L' e' where "append_event (ie_hash env) (i_ledger S) (data_space_id (k_data_space (i_kernel S))) (conv_id c)
        (version_of (i_versions S) (conv_id c)) ''interface_response_recorded''
        (response_payload a digest owner_mid (?m mid) resp sid root_id ?prior) (response_event_time inp) PilotActor
        (Some (conv_node_id c)) (Some (conv_id c)) None (oa_idempotency_key a @ '':response'') = Inr (e', r', L')"
      and "i_ledger Sa = L'"
      by (auto simp: interface_record_def set_i_ledger_def)
    then show ?thesis using append_event_Inr(1) ledger_append_inv [OF inv] by metis
  qed
  have x: "i_ledger Sx = i_ledger Sa" using app by (auto simp: append_message_Inr)
  have o: "foreign_log (i_ledger Sx) (i_ledger Sc)" "\<And>k T. forget k T Sc = forget k T Sx"
    using observe_usage_foreign [OF obs] inv_a x by simp_all
  have led: "i_ledger (put_session (?s sid cur) Sc) = i_ledger Sc" by (simp add: put_session_def)
  have inv_c: "ledger_inv (i_ledger (put_session (?s sid cur) Sc))" using o(1) led by (simp add: foreign_log_def)
  note f = apply_actions_foreign [OF acts inv_c]
  let ?Sb = "put_receipt r (foldl (replay_action (conv_id c)) (put_session (?s sid cur) Sx) (response_actions resp))"
  have "after_response Sa (conv_id c) (?m mid) (?s sid cur) (response_actions resp) r = Inr ?Sb"
    using app by (simp add: after_response_def)
  moreover have "foreign_log (i_ledger Sa) (i_ledger S')"
    using foreign_log_trans [OF o(1)] f x led unfolding S' by (simp add: put_receipt_def)
  moreover have "forget k T S' = forget k T ?Sb" for k T
  proof -
    have "forget k T Sd = foldl (replay_action (conv_id c)) (forget k T (put_session (?s sid cur) Sc)) (response_actions resp)"
      using f by simp
    with o(2) show ?thesis unfolding S' by (simp add: forget_commute)
  qed
  ultimately show thesis using that [OF mid sid rec r] by blast
qed

lemma new_id_valid: "new_id kind uuid = Inr i \<Longrightarrow> valid_identifier i"
  by (auto simp: new_id_def validate_id_def split: if_splits)

lemma after_response_frame:
  "after_response S cid m s xs r = Inr S' \<Longrightarrow> i_versions S' = i_versions S \<and> i_kernel S' = i_kernel S \<and> i_lab S' = i_lab S"
  by (auto simp: after_response_def append_message_Inr put_receipt_def put_session_def replay_actions_fields)

lemma shape_after_response:
  assumes "after_response S cid m s xs r = Inr S'" and "interface_shape S"
  shows "interface_shape S'"
proof -
  obtain x where app: "append_message S cid m = Inr x"
    and S': "S' = put_receipt r (foldl (replay_action cid) (put_session s x) xs)"
    using assms(1) by (auto simp: after_response_def)
  note shape_append_message [OF assms(2) app]
  then show ?thesis unfolding S' by simp
qed

lemma response_handled:
  assumes valid: "valid_conversation c" "valid_owner_message_action a" "valid_structured_interface_response resp"
      "valid_identifier owner_mid" "valid_identifier mid"
    and digest: "dict_get (action_digests S) (oa_action_id a) = Some digest"
    and sid: "session_identity (session_of S (conv_id c)) uuid (response_provider_session_id resp) = Inr (sid, root_id)"
    and p: "payload e = response_payload a digest owner_mid m resp sid root_id (session_of S (conv_id c))" "stream_id e = conv_id c"
    and m: "m = response_message c mid resp t"
    and after: "after_response (interface_version cur (conv_id c) e (set_i_ledger L S)) (conv_id c) m
        (advance_session (session_of S (conv_id c)) sid (conv_id c) (response_provider_session_id resp) cur)
        (response_actions resp) (completed_receipt (oa_action_id a) (conv_id c) owner_mid m cur) = Inr S'"
  shows "on_interface_response_recorded cur (forget k T S) e = Inr (forget k T S')"
proof -
  let ?s = "advance_session (session_of S (conv_id c)) sid (conv_id c) (response_provider_session_id resp) cur"
  have vm: "valid_conversation_message m"
    using valid by (simp add: m response_message_def valid_conversation_message_def valid_conversation_def
        valid_structured_interface_response_def)
  have cid: "msg_conversation_id m = conv_id c" by (simp add: m response_message_def)
  have session: "(case session_of S (conv_id c) of
         Some s \<Rightarrow> Inr (s\<lparr>ps_provider_session_id := response_provider_session_id resp, last_event_cursor := cur\<rparr>)
       | None \<Rightarrow>
           let s = new_session sid (conv_id c) root_id (response_provider_session_id resp) cur in
           if valid_pilot_session s then Inr s else Inl (ValidationError ''PilotSession'')) = Inr ?s"
  proof (cases "session_of S (conv_id c)")
    case None
    with sid have "root_id = response_provider_session_id resp" "valid_identifier sid"
      by (auto simp: session_identity_def dest: new_id_valid)
    moreover have "valid_identifier ''pilot:interface''" by code_simp
    ultimately show ?thesis using None valid
      by (simp add: advance_session_def valid_pilot_session_def new_session_def valid_conversation_def
          valid_structured_interface_response_def Let_def)
  qed (simp add: advance_session_def)
  obtain ms where ms: "dict_get (conv_messages S) (conv_id c) = Some ms"
    and S': "S' = put_receipt (completed_receipt (oa_action_id a) (conv_id c) owner_mid m cur)
      (foldl (replay_action (conv_id c)) (put_session ?s ((interface_version cur (conv_id c) e (set_i_ledger L S))
        \<lparr>conv_messages := dict_set (conv_messages S) (conv_id c) (ms @ [m])\<rparr>)) (response_actions resp))"
    using after by (auto simp: after_response_def append_message_Inr interface_version_def set_i_ledger_def)
  have acts: "list_all valid_interface_action (response_actions resp)" "valid_identifier (oa_action_id a)"
    using valid by (simp_all add: valid_structured_interface_response_def valid_owner_message_action_def)
  have app: "append_message (forget k T S) (conv_id c) m
      = Inr ((forget k T S)\<lparr>conv_messages := dict_set (conv_messages S) (conv_id c) (ms @ [m])\<rparr>)"
    using ms by (simp add: append_message_def forget_def)
  have "on_interface_response_recorded cur (forget k T S) e
    = Inr (interface_version cur (conv_id c) e (put_digest (oa_action_id a) digest
        (put_receipt (completed_receipt (oa_action_id a) (conv_id c) owner_mid m cur)
          (foldl (replay_action (conv_id c)) (put_session ?s ((forget k T S)
            \<lparr>conv_messages := dict_set (conv_messages S) (conv_id c) (ms @ [m])\<rparr>)) (response_actions resp)))))"
  proof (cases "session_of S (conv_id c)")
    case None
    then show ?thesis using p vm session acts valid(4) app
      by (simp add: on_interface_response_recorded_def interface_payloads response_payload_def cid Let_def)
  next
    case (Some s)
    then show ?thesis using p vm session acts valid(4) app
      by (simp add: on_interface_response_recorded_def interface_payloads response_payload_def cid Let_def)
  qed
  also have "\<dots> = Inr (forget k T S')"
    using digest unfolding S'
    by (simp add: replay_actions_fields interface_commute put_receipt_def put_session_def put_digest_def
        dict_set_same [of "action_digests S"])
  finally show ?thesis .
qed

lemma complete_action_step:
  assumes good: "interface_good S"
    and valid: "valid_conversation c" "valid_owner_message_action a" "valid_structured_interface_response resp"
      "valid_identifier owner_mid"
    and digest: "dict_get (action_digests S) (oa_action_id a) = Some digest"
    and op: "complete_action env S c a digest owner_mid resp inp = (Inr r, S')"
  shows "interface_step_to S S'"
proof -
  obtain mid sid root_id e cur Sa Sb where mid: "new_id ''message'' (interface_uuid inp) = Inr mid"
    and sid: "session_identity (session_of S (conv_id c)) (session_uuid inp) (response_provider_session_id resp) = Inr (sid, root_id)"
    and rec: "interface_record env S (response_event_time inp) (conv_id c) ''interface_response_recorded''
          (response_payload a digest owner_mid (response_message c mid resp (response_time inp)) resp sid root_id
             (session_of S (conv_id c))) PilotActor (Some (conv_node_id c)) (oa_idempotency_key a @ '':response'') = Inr (e, cur, Sa)"
    and r: "r = completed_receipt (oa_action_id a) (conv_id c) owner_mid (response_message c mid resp (response_time inp)) cur"
    and after: "after_response Sa (conv_id c) (response_message c mid resp (response_time inp))
          (advance_session (session_of S (conv_id c)) sid (conv_id c) (response_provider_session_id resp) cur)
          (response_actions resp) r = Inr Sb"
    and foreign: "foreign_log (i_ledger Sa) (i_ledger S')" and same: "\<And>k T. forget k T S' = forget k T Sb"
    using complete_action_Inr [OF op good_ledger_inv [OF good] good_tracks [OF good]] by blast
  note frame = after_response_frame [OF after]
  have "interface_logs S Sb"
  proof (rule interface_record_logs [OF good_tracks [OF good] rec handled(3)])
    fix k T assume Sa: "Sa = interface_version cur (conv_id c) e (set_i_ledger (i_ledger Sa) S)"
      and p: "payload e = response_payload a digest owner_mid (response_message c mid resp (response_time inp)) resp sid root_id
             (session_of S (conv_id c))" "stream_id e = conv_id c"
    show "on_interface_response_recorded cur (forget k T S) e = Inr (forget k T Sb)"
    proof -
      obtain L where L: "Sa = interface_version cur (conv_id c) e (set_i_ledger L S)" using Sa by blast
      show ?thesis
        by (rule response_handled [OF valid new_id_valid [OF mid] digest sid p refl after [unfolded L r]])
    qed
  qed (simp_all add: frame)
  moreover have "tracks is_interface_type (i_versions Sb) (i_ledger Sb)" using calculation by (simp add: interface_logs_def)
  ultimately have "interface_logs S S'"
    using interface_logs_trans foreign_logs [of Sb S'] foreign same frame by simp
  moreover have "interface_shape S'"
  proof -
    have "interface_shape Sb"
      using shape_after_response [OF after] shape_record [OF rec] good_shape [OF good] by simp
    then show ?thesis using same interface_shape_forget by metis
  qed
  ultimately show ?thesis by (rule interface_step_toI)
qed

section \<open>Acceptance and failure\<close>

lemma record_appends:
  assumes "interface_record env S t cid ty p act aid key = Inr (e, cur, Sa)"
    and "tracks is_interface_type (i_versions S) (i_ledger S)" and "is_interface_type ty"
  shows "ledger_events (i_ledger Sa) = ledger_events (i_ledger S) @ [e]" "event_type e = ty" "ledger_inv (i_ledger Sa)"
proof -
  obtain r L' where app: "append_event (ie_hash env) (i_ledger S) (data_space_id (k_data_space (i_kernel S))) cid
      (version_of (i_versions S) cid) ty p t act aid (Some cid) None key = Inr (e, r, L')" and "i_ledger Sa = L'"
    using assms(1) by (auto simp: interface_record_def set_i_ledger_def)
  then show "ledger_events (i_ledger Sa) = ledger_events (i_ledger S) @ [e]" "event_type e = ty" "ledger_inv (i_ledger Sa)"
    using append_tracked [OF assms(2) app assms(3)] by (simp_all add: tracks_def)
qed

lemma record_payload:
  assumes "interface_record env S t cid ty p act aid key = Inr (e, cur, Sa)"
    and "tracks is_interface_type (i_versions S) (i_ledger S)" and "is_interface_type ty"
  shows "payload e = p"
proof -
  obtain r L' where app: "append_event (ie_hash env) (i_ledger S) (data_space_id (k_data_space (i_kernel S))) cid
      (version_of (i_versions S) cid) ty p t act aid (Some cid) None key = Inr (e, r, L')"
    using assms(1) by (auto simp: interface_record_def)
  show ?thesis by (rule append_tracked(5) [OF assms(2) app assms(3)])
qed

lemma interface_types:
  "is_interface_type ''owner_message_received''" "is_interface_type ''interface_response_recorded''"
  "is_interface_type ''conversation_action_failed''"
  by (simp_all add: is_interface_type_def interface_handlers_def dict_mem_def)

text \<open>Recording touches the Kernel's ledger alone.\<close>

definition only_ledger :: "interface_service \<Rightarrow> interface_service \<Rightarrow> bool" where
  "only_ledger S S' \<longleftrightarrow> i_kernel S' = (i_kernel S)\<lparr>k_ledger := i_ledger S'\<rparr>"

lemma record_only_ledger: "interface_record env S t cid ty p act aid key = Inr (e, cur, S') \<Longrightarrow> only_ledger S S'"
  by (auto simp: interface_record_def only_ledger_def set_i_ledger_def)

definition new_events :: "interface_service \<Rightarrow> interface_service \<Rightarrow> kevent list \<Rightarrow> bool" where
  "new_events S S' es \<longleftrightarrow> ledger_events (i_ledger S') = ledger_events (i_ledger S) @ es"

lemma accept_owner_message_step:
  assumes good: "interface_good S" and c: "dict_get (conversations S) cid = Some c"
    and a: "valid_owner_message_action a"
    and op: "accept_owner_message env S c a inp = (r, S')"
  shows "interface_step_to S S'"
    and "r = Inr (rc, ref) \<Longrightarrow> dict_get (action_digests S') (oa_action_id a) = Some (action_digest_of env a)
      \<and> dict_get (action_receipts S') (oa_action_id a) = Some rc \<and> ar_action_id rc = oa_action_id a
      \<and> valid_identifier (ar_owner_message_id rc) \<and> conversations S' = conversations S \<and> ar_interface_message rc = None"
    and "only_ledger S S' \<and> (\<exists>es. new_events S S' es \<and> (\<forall>e \<in> set es. event_type e = ''owner_message_received''))"
proof -
  obtain ref L1 where put: "put_blob (sha256 (ie_hash env)) (i_ledger S) (oa_text a) = (ref, L1)" by fastforce
  note first = put_blob_step [OF good put]
  let ?Sa = "set_i_ledger L1 S"
  have good1: "interface_good ?Sa" using first by (simp add: interface_step_to_def)
  note conv = shape_conversation [OF good_shape [OF good] c]
  let ?m = "\<lambda>mid. \<lparr>msg_id = mid, msg_conversation_id = conv_id c, msg_role = OwnerRole, msg_display_text = None,
                msg_blob_ref = Some ref, msg_occurred_at = src_occurred_at (oa_source a), msg_source = Some (oa_source a)\<rparr>"
  let ?p = "\<lambda>mid. [(''action_id'', PStr (oa_action_id a)), (''action_digest'', PStr (action_digest_of env a)), (''message'', PMessage (?m mid))]"
  have main: "interface_step_to ?Sa (put_digest (oa_action_id a) (action_digest_of env a)
        (put_receipt (accepted_receipt (oa_action_id a) (conv_id c) mid cur) Sc))"
    if vm: "valid_conversation_message (?m mid)"
      and rec: "interface_record env ?Sa (owner_event_time inp) (conv_id c) ''owner_message_received'' (?p mid)
           Human (Some (conv_owner_id c)) (oa_idempotency_key a @ '':owner'') = Inr (e, cur, Sb)"
      and app: "append_message Sb (conv_id c) (?m mid) = Inr Sc" for mid e cur Sb Sc
  proof (rule interface_step_toI)
    let ?S' = "put_digest (oa_action_id a) (action_digest_of env a)
        (put_receipt (accepted_receipt (oa_action_id a) (conv_id c) mid cur) Sc)"
    show "interface_logs ?Sa ?S'"
    proof (rule interface_record_logs [OF good_tracks [OF good1] rec handled(2)])
      fix k T assume "Sb = interface_version cur (conv_id c) e (set_i_ledger (i_ledger Sb) ?Sa)"
        and p: "payload e = ?p mid" "stream_id e = conv_id c"
      then obtain L where Sb: "Sb = interface_version cur (conv_id c) e (set_i_ledger L ?Sa)" by blast
      show "on_owner_message_received cur (forget k T ?Sa) e = Inr (forget k T ?S')"
        using app p vm a unfolding Sb
        by (auto simp: on_owner_message_received_def interface_payloads append_message_def interface_commute put_digest_def
            put_receipt_def valid_owner_message_action_def split: option.splits)
    qed (use app in \<open>auto simp: append_message_Inr put_digest_def put_receipt_def\<close>)
    show "interface_shape ?S'"
      using shape_append_message [OF _ app] shape_record [OF rec] good_shape [OF good1] by simp
  qed
  have outcome: "S' = ?Sa \<and> (\<exists>err. r = Inl err) \<or> (\<exists>mid e cur Sb Sc. valid_conversation_message (?m mid)
      \<and> interface_record env ?Sa (owner_event_time inp) (conv_id c) ''owner_message_received'' (?p mid)
           Human (Some (conv_owner_id c)) (oa_idempotency_key a @ '':owner'') = Inr (e, cur, Sb)
      \<and> append_message Sb (conv_id c) (?m mid) = Inr Sc \<and> valid_identifier mid
      \<and> r = Inr (accepted_receipt (oa_action_id a) (conv_id c) mid cur, ref)
      \<and> S' = put_digest (oa_action_id a) (action_digest_of env a)
          (put_receipt (accepted_receipt (oa_action_id a) (conv_id c) mid cur) Sc))"
  proof (cases "new_id ''message'' (owner_uuid inp)")
    case (Inl err)
    then show ?thesis using op by (intro disjI1) (auto simp: accept_owner_message_def put Let_def)
  next
    case mid: (Inr mid)
    note op' = op [unfolded accept_owner_message_def put Let_def mid, simplified]
    show ?thesis
    proof (cases "valid_conversation_message (?m mid)")
      case False
      then show ?thesis using op' by (intro disjI1) auto
    next
      case vm: True
      show ?thesis
      proof (cases "interface_record env ?Sa (owner_event_time inp) (conv_id c) ''owner_message_received'' (?p mid)
           Human (Some (conv_owner_id c)) (oa_idempotency_key a @ '':owner'')")
        case (Inl err)
        then show ?thesis using op' vm by (intro disjI1) auto
      next
        case (Inr x)
        obtain e cur Sb where x: "x = (e, cur, Sb)" by (cases x)
        have "conv_messages Sb = conv_messages S" using Inr x by (auto simp: interface_record_def set_i_ledger_def)
        moreover obtain ms where "dict_get (conv_messages S) (conv_id c) = Some ms"
          using conv(1,3) by (auto simp: dict_mem_get)
        ultimately obtain Sc where app: "append_message Sb (conv_id c) (?m mid) = Inr Sc"
          by (simp add: append_message_def)
        then show ?thesis using op' Inr x vm new_id_valid [OF mid] by (intro disjI2) auto
      qed
    qed
  qed
  then show "interface_step_to S S'"
  proof (elim disjE exE conjE)
    show "interface_step_to S S'" if "S' = ?Sa" using that first by simp
  next
    fix mid e cur Sb Sc
    assume m: "valid_conversation_message (?m mid)"
      "interface_record env ?Sa (owner_event_time inp) (conv_id c) ''owner_message_received'' (?p mid)
         Human (Some (conv_owner_id c)) (oa_idempotency_key a @ '':owner'') = Inr (e, cur, Sb)"
      "append_message Sb (conv_id c) (?m mid) = Inr Sc"
      and S': "S' = put_digest (oa_action_id a) (action_digest_of env a)
          (put_receipt (accepted_receipt (oa_action_id a) (conv_id c) mid cur) Sc)"
    show "interface_step_to S S'" unfolding S' by (rule interface_step_trans [OF first main [OF m]])
  qed
  show "r = Inr (rc, ref') \<Longrightarrow> dict_get (action_digests S') (oa_action_id a) = Some (action_digest_of env a)
      \<and> dict_get (action_receipts S') (oa_action_id a) = Some rc \<and> ar_action_id rc = oa_action_id a
      \<and> valid_identifier (ar_owner_message_id rc) \<and> conversations S' = conversations S \<and> ar_interface_message rc = None" for ref'
    using outcome conv(1)
    by (auto simp: accepted_receipt_def put_digest_def put_receipt_def append_message_Inr
        interface_record_def set_i_ledger_def)
  have blob: "ledger_events L1 = ledger_events (i_ledger S)"
    using put by (auto simp: put_blob_def Let_def ledger_events_def)
  note appended = record_appends(1,2) [OF _ good_tracks [OF good1] interface_types(1)]
  show "only_ledger S S' \<and> (\<exists>es. new_events S S' es \<and> (\<forall>e \<in> set es. event_type e = ''owner_message_received''))"
    using outcome
  proof (elim disjE exE conjE)
    assume "S' = ?Sa"
    then show ?thesis using blob by (intro conjI exI [of _ "[]"]) (simp_all add: only_ledger_def new_events_def set_i_ledger_def)
  next
    fix mid e cur Sb Sc
    assume rec: "interface_record env ?Sa (owner_event_time inp) (conv_id c) ''owner_message_received'' (?p mid)
         Human (Some (conv_owner_id c)) (oa_idempotency_key a @ '':owner'') = Inr (e, cur, Sb)"
      and app: "append_message Sb (conv_id c) (?m mid) = Inr Sc"
      and S': "S' = put_digest (oa_action_id a) (action_digest_of env a)
          (put_receipt (accepted_receipt (oa_action_id a) (conv_id c) mid cur) Sc)"
    have k: "i_kernel S' = i_kernel Sb" using app unfolding S' by (auto simp: append_message_Inr put_digest_def put_receipt_def)
    show ?thesis
      using appended [OF rec] record_only_ledger [OF rec] k blob
      by (intro conjI exI [of _ "[e]"]) (simp_all add: only_ledger_def new_events_def set_i_ledger_def)
  qed
qed

lemma fail_action_step:
  assumes good: "interface_good S" and r: "dict_get (action_receipts S) (oa_action_id a) = Some rc" "ar_action_id rc = oa_action_id a"
    and op: "fail_action env S c a digest rc inp err = (r, S')"
  shows "interface_step_to S S'"
proof (cases "interface_record env S (failed_event_time inp) (conv_id c) ''conversation_action_failed''
         [(''action_id'', PStr (oa_action_id a)), (''action_digest'', PStr digest),
          (''owner_message_id'', PStr (ar_owner_message_id rc)), (''error'', PStr (error_text env err))]
         SystemActor None (oa_idempotency_key a @ '':failed'')")
  case (Inl err')
  then show ?thesis using op interface_step_refl [OF good] by (simp add: fail_action_def)
next
  case (Inr x)
  obtain e cur Sa where x: "x = (e, cur, Sa)" by (cases x)
  let ?r = "rc\<lparr>ar_status := ActionFailed, ar_event_cursor := cur, ar_error := Some (error_text env err)\<rparr>"
  have S': "S' = put_receipt ?r Sa" using op Inr x by (simp add: fail_action_def Let_def)
  note rec = Inr [unfolded x]
  show ?thesis unfolding S'
  proof (rule interface_step_toI)
    show "interface_logs S (put_receipt ?r Sa)"
    proof (rule interface_record_logs [OF good_tracks [OF good] rec handled(7)])
      fix k T assume "Sa = interface_version cur (conv_id c) e (set_i_ledger (i_ledger Sa) S)"
        and p: "payload e = [(''action_id'', PStr (oa_action_id a)), (''action_digest'', PStr digest),
          (''owner_message_id'', PStr (ar_owner_message_id rc)), (''error'', PStr (error_text env err))]" "stream_id e = conv_id c"
      then obtain L where Sa: "Sa = interface_version cur (conv_id c) e (set_i_ledger L S)" by blast
      show "on_conversation_action_failed cur (forget k T S) e = Inr (forget k T (put_receipt ?r Sa))"
        unfolding Sa using p r
        by (simp add: on_conversation_action_failed_def interface_payloads interface_commute put_receipt_def)
    qed (simp_all add: put_receipt_def)
    show "interface_shape (put_receipt ?r Sa)" using shape_record [OF rec] good_shape [OF good] by simp
  qed
qed

end
