(* ===== verification/Interface_Outcome.thy ===== *)
theory Interface_Outcome
  imports Interface_Turns
begin

text \<open>
  The whole turn. It fails late when the response is in the ledger and an action or the usage
  observation raises afterwards: the live state has then applied a prefix of the actions, and
  the failed receipt stands beside a recorded response.
\<close>

section \<open>Failures after the response\<close>

definition responded :: "interface_service \<Rightarrow> interface_service \<Rightarrow> bool" where
  "responded S S' \<longleftrightarrow> (\<exists>e \<in> set (drop (length (ledger_events (i_ledger S))) (ledger_events (i_ledger S'))).
     event_type e = ''interface_response_recorded'')"

definition turn_completed :: "conversation_action_receipt result \<Rightarrow> bool" where
  "turn_completed r = (case r of Inl _ \<Rightarrow> False | Inr rc \<Rightarrow> ar_status rc = ActionCompleted)"

definition late_failure :: "interface_service \<Rightarrow> interface_service \<Rightarrow> conversation_action_receipt result \<Rightarrow> bool" where
  "late_failure S S' r \<longleftrightarrow> responded S S' \<and> \<not> turn_completed r"

text \<open>What the actions leave alone.\<close>

definition turn_frame :: "interface_service \<Rightarrow> interface_service \<Rightarrow> bool" where
  "turn_frame S S' \<longleftrightarrow> action_receipts S' = action_receipts S \<and> action_digests S' = action_digests S
     \<and> conversations S' = conversations S \<and> k_activation (i_kernel S') = k_activation (i_kernel S)"

lemma turn_frame_refl: "turn_frame S S"
  by (simp add: turn_frame_def)

lemma turn_frame_trans: "turn_frame S S' \<Longrightarrow> turn_frame S' S'' \<Longrightarrow> turn_frame S S''"
  by (simp add: turn_frame_def)

lemma kernel_op_activation:
  assumes "\<And>e k'. k_activation (u e k') = k_activation k'"
  shows "ensures (\<lambda>(e, k'). k_activation k' = k_activation k)
    (then_update (kernel_record h k t sid ty p act aid key corr caus) u)"
  using assms by (auto simp: ensures_then_update kernel_record_def ensures_def split: sum.splits)

lemma kernel_ops_activation:
  "ensures (\<lambda>(e, k'). k_activation k' = k_activation k) (create_work_item h k t w aid key)"
  "ensures (\<lambda>(e, k'). k_activation k' = k_activation k) (add_dependency h k t wid did aid key)"
  "ensures (\<lambda>(e, k'). k_activation k' = k_activation k) (delegate_work_item h k t wid nid aid key)"
  "ensures (\<lambda>(e, k'). k_activation k' = k_activation k) (plan_effect h k now t l aid key)"
  "ensures (\<lambda>(e, k'). k_activation k' = k_activation k) (complete_work_item h k t wid ev aid key)"
  by (simp_all add: create_work_item_def add_dependency_def delegate_work_item_def plan_effect_def complete_work_item_def
      Let_def kernel_op_activation split: ensures_splits)

lemma on_kernel_of_frame:
  "ensures (\<lambda>(e, k'). k_activation k' = k_activation (i_kernel S)) r \<Longrightarrow> on_kernel_of S r = (u, S') \<Longrightarrow> turn_frame S S'"
  by (cases r) (auto simp: on_kernel_of_def turn_frame_def)

lemma add_dependencies_frame: "add_dependencies env S clock j wid ds aid pre = (u, S') \<Longrightarrow> turn_frame S S'"
proof (induction ds arbitrary: S j)
  case (Cons d ds)
  obtain v Sa where first: "on_kernel_of S (add_dependency (ie_hash env) (i_kernel S) (clock j) wid d aid (pre @ '':depends:'' @ d))
      = (v, Sa)" by fastforce
  show ?case
    using Cons.prems first Cons.IH turn_frame_trans [OF on_kernel_of_frame [OF kernel_ops_activation(2) first]]
      on_kernel_of_frame [OF kernel_ops_activation(2) first] by (cases v) auto
qed (simp add: turn_frame_refl)

lemma apply_interface_action_frame:
  assumes op: "apply_interface_action env S clock c x = (u, S')"
  shows "turn_frame S S'"
proof (cases x)
  case (CreateWorkItem i w deps)
  obtain v Sa where first: "on_kernel_of S (create_work_item (ie_hash env) (i_kernel S) (clock 0) w (conv_node_id c)
      (''interface:'' @ i @ '':create'')) = (v, Sa)" by fastforce
  note f = on_kernel_of_frame [OF kernel_ops_activation(1) first]
  show ?thesis
    using op first f turn_frame_trans [OF f add_dependencies_frame] CreateWorkItem
    by (cases v) (simp_all add: apply_interface_action_def Let_def)
qed (use op on_kernel_of_frame [OF kernel_ops_activation(3)] on_kernel_of_frame [OF kernel_ops_activation(4)]
    on_kernel_of_frame [OF kernel_ops_activation(5)] in
    \<open>auto simp: apply_interface_action_def Let_def put_decisions_def turn_frame_def split: option.splits if_splits\<close>)

lemma apply_actions_frame: "apply_actions env S clock i c xs = (u, S') \<Longrightarrow> turn_frame S S'"
proof (induction xs arbitrary: S i)
  case (Cons x xs)
  obtain v Sa where first: "apply_interface_action env S (clock i) c x = (v, Sa)" by fastforce
  note f = apply_interface_action_frame [OF first]
  show ?case using Cons.prems first Cons.IH turn_frame_trans [OF f] f by (cases v) auto
qed (simp add: turn_frame_refl)

lemma observe_usage_frame: "observe_usage env S inp c a u = (r, S') \<Longrightarrow> turn_frame S S'"
  by (auto simp: observe_usage_def turn_frame_def set_i_ledger_def split: sum.splits)

lemma record_frame: "interface_record env S t cid ty p act aid key = Inr (e, cur, S') \<Longrightarrow> turn_frame S S'"
  by (auto simp: interface_record_def turn_frame_def set_i_ledger_def)

text \<open>A completion that raises has changed nothing, or has left the response in the ledger.\<close>

lemma complete_action_Inl:
  assumes op: "complete_action env S c a digest owner_mid resp inp = (Inl err, S')" and good: "interface_good S"
  obtains "S' = S" | mid sid root_id e cur Sa where
      "interface_record env S (response_event_time inp) (conv_id c) ''interface_response_recorded''
          (response_payload a digest owner_mid (response_message c mid resp (response_time inp)) resp sid root_id
             (session_of S (conv_id c))) PilotActor (Some (conv_node_id c)) (oa_idempotency_key a @ '':response'') = Inr (e, cur, Sa)"
      and "foreign_log (i_ledger Sa) (i_ledger S')" and "turn_frame S S'"
proof (cases "S' = S")
  case False
  let ?m = "\<lambda>mid. response_message c mid resp (response_time inp)" and ?prior = "session_of S (conv_id c)"
  from op False obtain mid sid root_id e cur Sa where
    rec: "interface_record env S (response_event_time inp) (conv_id c) ''interface_response_recorded''
        (response_payload a digest owner_mid (?m mid) resp sid root_id ?prior) PilotActor (Some (conv_node_id c))
        (oa_idempotency_key a @ '':response'') = Inr (e, cur, Sa)"
    and rest: "S' = Sa \<or> (\<exists>Sb u Sc v Sd. append_message Sa (conv_id c) (?m mid) = Inr Sb
      \<and> observe_usage env Sb inp c a (pilot_usage resp) = (u, Sc)
      \<and> (S' = Sc \<or> apply_actions env (put_session (advance_session ?prior sid (conv_id c)
           (response_provider_session_id resp) cur) Sc) (action_time inp) 0 c (response_actions resp) = (v, Sd) \<and> S' = Sd))"
    by (auto simp: complete_action_def Let_def split: sum.splits prod.splits)
  note inv = record_appends(3) [OF rec good_tracks [OF good] interface_types(2)]
  have "foreign_log (i_ledger Sa) (i_ledger S') \<and> turn_frame Sa S'" using rest
  proof (elim disjE exE conjE)
    show ?thesis if "S' = Sa" using that foreign_log_refl [OF inv] turn_frame_refl by simp
  next
    fix Sb u Sc v Sd
    assume b: "append_message Sa (conv_id c) (?m mid) = Inr Sb" and obs: "observe_usage env Sb inp c a (pilot_usage resp) = (u, Sc)"
    have Sb: "i_ledger Sb = i_ledger Sa" "turn_frame Sa Sb" using b by (auto simp: append_message_Inr turn_frame_def)
    have f: "foreign_log (i_ledger Sa) (i_ledger Sc)" "turn_frame Sa Sc"
      using observe_usage_foreign [OF obs] inv Sb turn_frame_trans [OF Sb(2) observe_usage_frame [OF obs]] by simp_all
    then have invc: "ledger_inv (i_ledger Sc)" by (simp add: foreign_log_def)
    show ?thesis if "S' = Sc" using f that by simp
    fix s assume acts: "apply_actions env (put_session s Sc) (action_time inp) 0 c (response_actions resp) = (v, Sd)"
      and S': "S' = Sd"
    have put: "i_ledger (put_session s Sc) = i_ledger Sc" "turn_frame Sc (put_session s Sc)"
      by (simp_all add: put_session_def turn_frame_def)
    have "foreign_log (i_ledger Sc) (i_ledger Sd)" using apply_actions_foreign [OF acts] invc put(1) by simp
    then show ?thesis
      using S' foreign_log_trans [OF f(1)] turn_frame_trans [OF f(2) turn_frame_trans [OF put(2) apply_actions_frame [OF acts]]]
      by simp
  qed
  then show thesis using that(2) [OF rec] turn_frame_trans [OF record_frame [OF rec]] by simp
qed (use that(1) in simp)

lemma lost_response:
  assumes rec: "interface_record env S t cid ''interface_response_recorded'' p act aid key = Inr (e, cur, Sa)"
    and good: "interface_good S" and "foreign_log (i_ledger Sa) (i_ledger S')"
  shows "responded S S'" "ledger_inv (i_ledger S')"
proof -
  note a = record_appends [OF rec good_tracks [OF good] interface_types(2)]
  show "responded S S'" "ledger_inv (i_ledger S')" using assms(3) a by (auto simp: foreign_log_def responded_def)
qed

lemma record_prefix:
  assumes "interface_record env S t cid ty p act aid key = Inr (e, cur, Sa)" and "ledger_inv (i_ledger S)"
  shows "\<exists>es. new_events S Sa es \<and> (\<forall>e \<in> set es. event_type e = ty)"
proof -
  obtain r L' where app: "append_event (ie_hash env) (i_ledger S) (data_space_id (k_data_space (i_kernel S))) cid
      (version_of (i_versions S) cid) ty p t act aid (Some cid) None key = Inr (e, r, L')" and "i_ledger Sa = L'"
    using assms(1) by (auto simp: interface_record_def set_i_ledger_def)
  moreover have "event_type e = ty" using make_event_Inr(4) [OF append_event_Inr(2) [OF app]] .
  ultimately show ?thesis using ledger_append_events [OF assms(2) append_event_Inr(1) [OF app]] by (auto simp: new_events_def)
qed

lemma fail_action_outcome:
  assumes "fail_action env S c a digest rc inp err = (r, S')" and "ledger_inv (i_ledger S)"
  shows "\<not> turn_completed r" and "\<exists>es. new_events S S' es \<and> (\<forall>e \<in> set es. event_type e = ''conversation_action_failed'')"
    and "only_ledger S S'"
    and "S' = S \<or> (\<exists>cur. action_receipts S' = dict_set (action_receipts S) (ar_action_id rc)
      (rc\<lparr>ar_status := ActionFailed, ar_event_cursor := cur, ar_error := Some (error_text env err)\<rparr>))"
proof -
  show "\<not> turn_completed r"
    using assms(1) by (auto simp: fail_action_def turn_completed_def Let_def split: sum.splits prod.splits)
  let ?rec = "interface_record env S (failed_event_time inp) (conv_id c) ''conversation_action_failed''
         [(''action_id'', PStr (oa_action_id a)), (''action_digest'', PStr digest),
          (''owner_message_id'', PStr (ar_owner_message_id rc)), (''error'', PStr (error_text env err))]
         SystemActor None (oa_idempotency_key a @ '':failed'')"
  have "(\<exists>es. new_events S S' es \<and> (\<forall>e \<in> set es. event_type e = ''conversation_action_failed'')) \<and> only_ledger S S'
    \<and> (S' = S \<or> (\<exists>cur. action_receipts S' = dict_set (action_receipts S) (ar_action_id rc)
      (rc\<lparr>ar_status := ActionFailed, ar_event_cursor := cur, ar_error := Some (error_text env err)\<rparr>)))"
  proof (cases ?rec)
    case (Inl err')
    then have "S' = S" using assms(1) by (simp add: fail_action_def)
    then show ?thesis by (auto simp: only_ledger_def new_events_def intro: exI [of _ "[]"])
  next
    case (Inr x)
    obtain e cur Sa where x: "x = (e, cur, Sa)" by (cases x)
    note rec = Inr [unfolded x]
    let ?rc = "rc\<lparr>ar_status := ActionFailed, ar_event_cursor := cur, ar_error := Some (error_text env err)\<rparr>"
    have S': "S' = put_receipt ?rc Sa" using assms(1) rec by (simp add: fail_action_def Let_def)
    have "i_kernel S' = i_kernel Sa" "action_receipts S' = dict_set (action_receipts S) (ar_action_id rc) ?rc"
      using record_frame [OF rec] unfolding S' by (simp_all add: put_receipt_def turn_frame_def)
    then show ?thesis using record_prefix [OF rec assms(2)] record_only_ledger [OF rec]
      by (auto simp: new_events_def only_ledger_def)
  qed
  then show "\<exists>es. new_events S S' es \<and> (\<forall>e \<in> set es. event_type e = ''conversation_action_failed'')"
    "only_ledger S S'" "S' = S \<or> (\<exists>cur. action_receipts S' = dict_set (action_receipts S) (ar_action_id rc)
      (rc\<lparr>ar_status := ActionFailed, ar_event_cursor := cur, ar_error := Some (error_text env err)\<rparr>))" by blast+
qed

lemma responded_append:
  assumes "responded S S'" and "new_events S' S'' es"
  shows "responded S S''"
  using assms by (auto simp: responded_def new_events_def)

lemma responded_prepend:
  assumes "responded S' S''" and es: "new_events S S' es"
  shows "responded S S''"
proof -
  have "set (drop (length (ledger_events (i_ledger S'))) (ledger_events (i_ledger S'')))
      \<subseteq> set (drop (length (ledger_events (i_ledger S))) (ledger_events (i_ledger S'')))"
    by (rule set_drop_subset_set_drop) (use es in \<open>simp add: new_events_def\<close>)
  then show ?thesis using assms(1) by (auto simp: responded_def)
qed

section \<open>The turn\<close>

text \<open>How a turn can go.\<close>

lemma answer_owner_cases:
  assumes op: "answer_owner env S c a rc reply inp = (r, S')"
  obtains err where "fail_action env S c a (action_digest_of env a) rc inp err = (r, S')"
    | resp rc' where "reply = Inr resp" "validate_actions S (lease_check_time inp) (response_actions resp) = Inr ()"
        "complete_action env S c a (action_digest_of env a) (ar_owner_message_id rc) resp inp = (Inr rc', S')" "r = Inr rc'"
    | resp err Sa where "reply = Inr resp" "validate_actions S (lease_check_time inp) (response_actions resp) = Inr ()"
        "complete_action env S c a (action_digest_of env a) (ar_owner_message_id rc) resp inp = (Inl err, Sa)"
        "fail_action env Sa c a (action_digest_of env a) rc inp err = (r, S')"
proof (cases reply)
  case (Inl err)
  then show thesis using op that(1) by (simp add: answer_owner_def Let_def)
next
  case (Inr resp)
  obtain q Sa where comp: "complete_action env S c a (action_digest_of env a) (ar_owner_message_id rc) resp inp = (q, Sa)"
    by fastforce
  show thesis
  proof (cases "validate_actions S (lease_check_time inp) (response_actions resp)")
    case (Inl err)
    then show ?thesis using op \<open>reply = Inr resp\<close> that(1) by (simp add: answer_owner_def Let_def)
  next
    case v: (Inr u)
    note op' = op [unfolded answer_owner_def Let_def \<open>reply = Inr resp\<close> v sum.case comp prod.case]
    show ?thesis by (cases q) (use op' that(2,3) comp Inr v in auto)
  qed
qed

lemma perform_owner_action_cases:
  assumes op: "perform_owner_action env S cid a device inp respond = (r, S')"
  obtains "S' = S" | c err where "dict_get (conversations S) cid = Some c" "accept_owner_message env S c a inp = (Inl err, S')"
    | c rc ref err where "dict_get (conversations S) cid = Some c" "accept_owner_message env S c a inp = (Inr (rc, ref), S')"
        "r = Inl err"
    | c rc ref Sa ctx where "dict_get (conversations S) cid = Some c" "accept_owner_message env S c a inp = (Inr (rc, ref), Sa)"
        "turn_context Sa c ref (ar_event_cursor rc) = Inr ctx"
        "answer_owner env Sa c a rc (respond (oa_text a) ctx) inp = (r, S')"
  using op by (auto simp: perform_owner_action_def split: sum.splits option.splits if_splits prod.splits)

lemma answer_owner_step:
  assumes good: "interface_good S"
    and valid: "valid_conversation c" "valid_owner_message_action a" "valid_identifier (ar_owner_message_id rc)"
      "\<And>resp. reply = Inr resp \<Longrightarrow> valid_structured_interface_response resp"
    and digest: "dict_get (action_digests S) (oa_action_id a) = Some (action_digest_of env a)"
    and rc: "dict_get (action_receipts S) (oa_action_id a) = Some rc" "ar_action_id rc = oa_action_id a"
    and op: "answer_owner env S c a rc reply inp = (r, S')" and ok: "\<not> late_failure S S' r"
  shows "interface_step_to S S'"
  using op
proof (cases rule: answer_owner_cases)
  case (1 err)
  then show ?thesis using fail_action_step [OF good rc] by blast
next
  case (2 resp rc')
  then show ?thesis using complete_action_step [OF good valid(1,2) valid(4) valid(3) digest] by blast
next
  case (3 resp err Sa)
  show ?thesis
  proof (rule complete_action_Inl [OF 3(3) good])
    show ?thesis if "Sa = S" using that fail_action_step [OF good rc] 3(4) by blast
  next
    fix mid sid root_id e cur Sb
    assume rec: "interface_record env S (response_event_time inp) (conv_id c) ''interface_response_recorded''
        (response_payload a (action_digest_of env a) (ar_owner_message_id rc) (response_message c mid resp (response_time inp)) resp
           sid root_id (session_of S (conv_id c))) PilotActor (Some (conv_node_id c)) (oa_idempotency_key a @ '':response'')
        = Inr (e, cur, Sb)"
      and f: "foreign_log (i_ledger Sb) (i_ledger Sa)"
    note lost = lost_response [OF rec good f]
    note out = fail_action_outcome [OF 3(4) lost(2)]
    have "late_failure S S' r" using responded_append [OF lost(1)] out(1,2) by (auto simp: late_failure_def)
    with ok show ?thesis by simp
  qed
qed

theorem perform_owner_action_step:
  assumes good: "interface_good S" and valid: "valid_owner_message_action a"
      "\<And>t ctx resp. respond t ctx = Inr resp \<Longrightarrow> valid_structured_interface_response resp"
    and op: "perform_owner_action env S cid a device inp respond = (r, S')" and ok: "\<not> late_failure S S' r"
  shows "interface_step_to S S'"
  using op
proof (cases rule: perform_owner_action_cases)
  case 1
  then show ?thesis using interface_step_refl [OF good] by simp
next
  case (2 c err)
  then show ?thesis using accept_owner_message_step(1) [OF good _ valid(1)] by blast
next
  case (3 c rc ref err)
  then show ?thesis using accept_owner_message_step(1) [OF good _ valid(1)] by blast
next
  case (4 c rc ref Sa ctx)
  note first = accept_owner_message_step [OF good 4(1) valid(1) 4(2)]
  note a = first(2) [OF refl]
  have "\<not> late_failure Sa S' r" using ok responded_prepend first(3) by (auto simp: late_failure_def)
  note step = answer_owner_step [OF _ shape_conversation(2) [OF good_shape [OF good] 4(1)] valid(1) _ valid(2) _ _ _ 4(4) this]
  have "interface_good Sa" using first(1) by (simp add: interface_step_to_def)
  from step [OF this] a have "interface_step_to Sa S'" by simp
  then show ?thesis using interface_step_trans [OF first(1)] by blast
qed

end
