(* ===== verification/Interface_Machine.thy ===== *)
theory Interface_Machine
  imports Interface_Outcome
begin

text \<open>
  The interface as a state machine. A step is an operation of the service, a turn that does
  not fail late, or a change of the Kernel and the token lab that writes no event of the
  interface. The interpretation of \<open>event_sourced\<close> gives the rebuild. A turn that fails late
  is no step, and the last section shows that it cannot be one.
\<close>

section \<open>Steps\<close>

inductive interface_step :: "interface_env \<Rightarrow> interface_service \<Rightarrow> interface_service \<Rightarrow> bool" for env where
  created: "valid_conversation c \<Longrightarrow> valid_surface_binding b \<Longrightarrow>
    create_conversation env S t c b key = Inr (r, S') \<Longrightarrow> interface_step env S S'"
| corrected: "record_owner_correction env S t uuid cid statement aid key = Inr (d, S') \<Longrightarrow> interface_step env S S'"
| reoriented: "record_reorientation_session env S t uuid cid provider aid key = Inr (s, S') \<Longrightarrow> interface_step env S S'"
| committed: "\<forall>c \<in> set cs. valid_commitment c \<Longrightarrow>
    materialize_history_commitments env S t cid cs ids aid key = (Inr (), S') \<Longrightarrow> interface_step env S S'"
| assessed: "materialize_reorientation_assessment env S t uuid uuids a aid key = (q, S') \<Longrightarrow> interface_step env S S'"
| turn: "valid_owner_message_action x \<Longrightarrow> (\<And>text ctx resp. respond text ctx = Inr resp \<Longrightarrow> valid_structured_interface_response resp) \<Longrightarrow>
    perform_owner_action env S cid x device inp respond = (rc, S') \<Longrightarrow> \<not> late_failure S S' rc \<Longrightarrow> interface_step env S S'"
| elsewhere: "foreign_log (i_ledger S) (k_ledger k) \<Longrightarrow> interface_step env S (S\<lparr>i_kernel := k, i_lab := T\<rparr>)"

lemma interface_step_steps:
  assumes good: "interface_good S" and step: "interface_step env S S'"
  shows "interface_step_to S S'"
  using step
proof (cases rule: interface_step.cases)
  case (created c b t key r)
  then show ?thesis using ensuresD [OF create_conversation_step [OF good]] by fastforce
next
  case (corrected t uuid cid statement aid key d)
  then show ?thesis using ensuresD [OF record_owner_correction_step [OF good]] by fastforce
next
  case (reoriented t uuid cid provider aid key s)
  then show ?thesis using ensuresD [OF record_reorientation_session_step [OF good]] by fastforce
next
  case (committed cs t cid ids aid key)
  then show ?thesis using materialize_history_commitments_step [OF good] by blast
next
  case (assessed t uuid uuids a aid key q)
  then show ?thesis using materialize_reorientation_assessment_step [OF good] by blast
next
  case (turn x respond cid device inp rc)
  then show ?thesis using perform_owner_action_step [OF good] by blast
next
  case (elsewhere k T)
  then show ?thesis using good_shape [OF good]
    by (intro interface_step_toI foreign_logs [OF good_tracks [OF good]])
      (simp_all add: forget_def interface_shape_def)
qed

interpretation conversations: event_sourced "interface_step env" "\<lambda>S. ledger_events (i_ledger S)"
  "\<lambda>S. (forget k T S, length (ledger_events (i_ledger S)))" replay_interface interface_good for env k T
proof
  fix S S' assume "interface_good S" and "interface_step env S S'"
  then have "interface_step_to S S'" by (rule interface_step_steps)
  then show "interface_good S'"
    and "\<exists>es. ledger_events (i_ledger S') = ledger_events (i_ledger S) @ es
      \<and> fold_result replay_interface (forget k T S, length (ledger_events (i_ledger S))) es
        = Inr (forget k T S', length (ledger_events (i_ledger S')))"
    by (auto simp: interface_step_to_def interface_logs_def)
qed

lemma init_interface_good:
  assumes "foreign_log (empty_ledger ds) (k_ledger k)"
  shows "interface_good (init_interface k T)"
  using assms by (auto simp: interface_good_shape interface_shape_def init_interface_def tracks_def foreign_log_def
      keyed_def version_of_def)

lemma reachable_interface_replays:
  assumes "foreign_log (empty_ledger ds) (k_ledger k)" and "(interface_step env)\<^sup>*\<^sup>* (init_interface k T) S"
  shows "fold_result replay_interface (init_interface k0 T0, 0) (ledger_events (i_ledger S))
    = Inr (forget k0 T0 S, length (ledger_events (i_ledger S)))"
proof -
  obtain es where es: "ledger_events (i_ledger S) = ledger_events (k_ledger k) @ es"
    "fold_result replay_interface (forget k0 T0 (init_interface k T), length (ledger_events (k_ledger k))) es
      = Inr (forget k0 T0 S, length (ledger_events (i_ledger S)))"
    using conversations.replay_suffix [OF assms(2) init_interface_good [OF assms(1)], of k0 T0]
    by (auto simp: init_interface_def)
  moreover have "\<forall>e \<in> set (ledger_events (k_ledger k)). \<not> is_interface_type (event_type e)"
    using assms(1) by (auto simp: foreign_log_def)
  moreover have "forget k0 T0 (init_interface k T) = init_interface k0 T0" by (simp add: init_interface_def forget_def)
  ultimately show ?thesis by (simp add: fold_result_append replay_foreign)
qed

section \<open>A late failure cannot be replayed\<close>

text \<open>A receipt with the interface's message keeps it, whatever fails afterwards.\<close>

definition answered :: "string \<Rightarrow> interface_service \<Rightarrow> bool" where
  "answered i S \<longleftrightarrow> (\<exists>rc. dict_get (action_receipts S) i = Some rc \<and> ar_interface_message rc \<noteq> None)"

lemma answered_failed:
  "on_conversation_action_failed cur S e = Inr S' \<Longrightarrow> answered i S \<Longrightarrow> answered i S'"
  by (auto simp: on_conversation_action_failed_def answered_def interface_version_def raise_violation_def split: option.splits)

lemma answered_fold:
  "\<forall>e \<in> set es. \<not> is_interface_type (event_type e) \<or> event_type e = ''conversation_action_failed'' \<Longrightarrow>
    fold_result replay_interface (S, n) es = Inr (S', n') \<Longrightarrow> answered i S \<Longrightarrow> answered i S'"
proof (induction es arbitrary: S n)
  case (Cons e es)
  from Cons.prems(2) obtain Sa where first: "replay_interface (S, n) e = Inr (Sa, n + 1)"
    and rest: "fold_result replay_interface (Sa, n + 1) es = Inr (S', n')"
    by (auto simp: replay_interface_def split: option.splits)
  have "answered i Sa"
  proof (cases "event_type e = ''conversation_action_failed''")
    case True
    then have "on_conversation_action_failed (n + 1) S e = Inr Sa"
      using first by (auto simp: replay_interface_def handled(7))
    then show ?thesis using answered_failed Cons.prems(3) by blast
  next
    case False
    then have "dict_get interface_handlers (event_type e) = None"
      using Cons.prems(1) by (auto simp: is_interface_type_def dict_mem_get)
    then show ?thesis using first Cons.prems(3) by (simp add: replay_interface_def)
  qed
  then show ?case using Cons.IH [OF _ rest] Cons.prems(1) by simp
qed simp

lemma validate_str: "model_validate n as_str v (PStr s) = Inr x \<Longrightarrow> x = s"
  by (auto simp: model_validate_def split: if_splits)

lemma on_response_answers:
  assumes "on_interface_response_recorded cur S e = Inr S'" and "payload e = response_payload a digest owner_mid m resp sid root_id prior"
  shows "answered (oa_action_id a) S'"
  using assms by (auto simp: on_interface_response_recorded_def answered_def interface_version_def put_digest_def put_receipt_def
      completed_receipt_def payload_model_def payload_item_def response_payload_def Let_def dest!: validate_str split: if_splits)

lemma not_answered_failed:
  assumes "fail_action env S c a digest rc inp err = (r, S')" and "ledger_inv (i_ledger S)"
    and "dict_get (action_receipts S) i = Some rc" "ar_action_id rc = i" "ar_interface_message rc = None"
  shows "\<not> answered i S'"
  using fail_action_outcome(4) [OF assms(1,2)] assms(3-5) by (auto simp: answered_def)

lemma not_responded: "new_events S S' es \<Longrightarrow> \<forall>e \<in> set es. event_type e \<noteq> ''interface_response_recorded'' \<Longrightarrow> \<not> responded S S'"
  by (auto simp: new_events_def responded_def)

text \<open>Replaying the new events on the projection's view of \<open>S\<close> gives its view of \<open>S'\<close>.\<close>

definition replayed :: "kernel \<Rightarrow> token_lab_events \<Rightarrow> interface_service \<Rightarrow> interface_service \<Rightarrow> bool" where
  "replayed k T S S' \<longleftrightarrow> (\<exists>es. new_events S S' es \<and>
     fold_result replay_interface (forget k T S, length (ledger_events (i_ledger S))) es
       = Inr (forget k T S', length (ledger_events (i_ledger S'))))"

lemma late_failure_not_logged:
  assumes good: "interface_good S" and valid: "valid_owner_message_action a"
    and op: "perform_owner_action env S cid a device inp respond = (r, S')" and late: "late_failure S S' r"
  shows "\<not> replayed k T S S'"
  using op
proof (cases rule: perform_owner_action_cases)
  case 1
  then show ?thesis using late by (simp add: late_failure_def responded_def)
next
  case (2 c err)
  from accept_owner_message_step(3) [OF good 2(1) valid 2(2)] have "\<not> responded S S'" using not_responded by fastforce
  then show ?thesis using late by (simp add: late_failure_def)
next
  case (3 c rc ref err)
  from accept_owner_message_step(3) [OF good 3(1) valid 3(2)] have "\<not> responded S S'" using not_responded by fastforce
  then show ?thesis using late by (simp add: late_failure_def)
next
  case (4 c rc ref Sa ctx)
  note first = accept_owner_message_step [OF good 4(1) valid 4(2)]
  note a = first(2) [OF refl]
  obtain esa where esa: "new_events S Sa esa" "\<forall>e \<in> set esa. event_type e = ''owner_message_received''"
    using first(3) by blast
  have good_a: "interface_good Sa" using first(1) by (simp add: interface_step_to_def)
  have early: "\<not> replayed k T S S'" if fail: "fail_action env Sa c a (action_digest_of env a) rc inp err = (r, S')" for err
  proof -
    obtain es where "new_events Sa S' es" "\<forall>e \<in> set es. event_type e = ''conversation_action_failed''"
      using fail_action_outcome(2) [OF fail good_ledger_inv [OF good_a]] by blast
    then have "\<not> responded S S'" using esa by (intro not_responded [of _ _ "esa @ es"]) (auto simp: new_events_def)
    then show ?thesis using late by (simp add: late_failure_def)
  qed
  from 4(4) show ?thesis
  proof (cases rule: answer_owner_cases)
    case (1 err)
    then show ?thesis by (rule early)
  next
    case (2 resp rc')
    have "turn_completed r"
      by (rule complete_action_Inr [OF 2(3) good_ledger_inv [OF good_a] good_tracks [OF good_a]])
        (simp add: 2(4) turn_completed_def completed_receipt_def)
    then show ?thesis using late by (simp add: late_failure_def)
  next
    case (3 resp err Sx)
    show ?thesis
    proof (rule complete_action_Inl [OF 3(3) good_a])
      show ?thesis if "Sx = Sa" using early 3(4) that by blast
    next
      fix mid sid root_id e cur Sb
      let ?p = "response_payload a (action_digest_of env a) (ar_owner_message_id rc)
        (response_message c mid resp (response_time inp)) resp sid root_id (session_of Sa (conv_id c))"
      assume rec: "interface_record env Sa (response_event_time inp) (conv_id c) ''interface_response_recorded'' ?p
          PilotActor (Some (conv_node_id c)) (oa_idempotency_key a @ '':response'') = Inr (e, cur, Sb)"
        and f: "foreign_log (i_ledger Sb) (i_ledger Sx)" and frame: "turn_frame Sa Sx"
      note e = record_appends [OF rec good_tracks [OF good_a] interface_types(2)]
      have p: "payload e = ?p" using record_payload [OF rec good_tracks [OF good_a] interface_types(2)] .
      note lost = lost_response [OF rec good_a f]
      obtain esb where esb: "ledger_events (i_ledger Sx) = ledger_events (i_ledger Sb) @ esb"
        "\<forall>e \<in> set esb. \<not> is_interface_type (event_type e)" using f by (auto simp: foreign_log_def)
      obtain esc where esc: "new_events Sx S' esc" "\<forall>e \<in> set esc. event_type e = ''conversation_action_failed''"
        using fail_action_outcome(2) [OF 3(4) lost(2)] by blast
      have not: "\<not> answered (oa_action_id a) S'"
        using not_answered_failed [OF 3(4) lost(2)] frame a by (simp add: turn_frame_def)
      show ?thesis
      proof
        assume logs: "replayed k T S S'"
        have all: "ledger_events (i_ledger S') = ledger_events (i_ledger S) @ esa @ [e] @ esb @ esc"
          using esa(1) e(1) esb(1) esc(1) by (simp add: new_events_def)
        have "fold_result replay_interface (forget k T S, length (ledger_events (i_ledger S))) (esa @ [e] @ esb @ esc)
            = Inr (forget k T S', length (ledger_events (i_ledger S')))"
          using logs all unfolding replayed_def new_events_def by auto
        then obtain P n Q m where Q: "replay_interface (P, n) e = Inr (Q, m)"
          and rest: "fold_result replay_interface (Q, m) (esb @ esc) = Inr (forget k T S', length (ledger_events (i_ledger S')))"
          by (auto simp: fold_result_append)
        from Q have "on_interface_response_recorded (n + 1) P e = Inr Q"
          by (auto simp: replay_interface_def e(2) handled(3))
        from on_response_answers [OF this p] have "answered (oa_action_id a) Q" .
        from answered_fold [OF _ rest this] esb(2) esc(2) have "answered (oa_action_id a) (forget k T S')" by auto
        with not show False by (auto simp: answered_def forget_def)
      qed
    qed
  qed
qed

lemma interface_logs_replayed: "interface_logs S S' \<Longrightarrow> replayed k T S S'"
  by (auto simp: interface_logs_def replayed_def new_events_def)

section \<open>Reachable states\<close>

definition interface_reachable :: "interface_env \<Rightarrow> interface_service \<Rightarrow> bool" where
  "interface_reachable env S \<longleftrightarrow>
     (\<exists>ds k T. foreign_log (empty_ledger ds) (k_ledger k) \<and> (interface_step env)\<^sup>*\<^sup>* (init_interface k T) S)"

lemma interface_reachable_good: "interface_reachable env S \<Longrightarrow> interface_good S"
  using conversations.reachable_good init_interface_good unfolding interface_reachable_def by blast

lemma interface_reachable_replays: "interface_reachable env S \<Longrightarrow>
  fold_result replay_interface (init_interface k0 T0, 0) (ledger_events (i_ledger S))
    = Inr (forget k0 T0 S, length (ledger_events (i_ledger S)))"
  using reachable_interface_replays unfolding interface_reachable_def by blast

text \<open>Replaying the whole log after one more turn.\<close>

lemma replay_after:
  assumes "interface_reachable env S" and "new_events S S' es"
  shows "fold_result replay_interface (init_interface k T, 0) (ledger_events (i_ledger S'))
      = Inr (forget k T S', length (ledger_events (i_ledger S'))) \<longleftrightarrow> replayed k T S S'"
  using interface_reachable_replays [OF assms(1), of k T] assms(2)
  by (auto simp: replayed_def new_events_def fold_result_append)

section \<open>Repetition and rejection\<close>

text \<open>What a turn leaves for the next attempt.\<close>

lemma complete_action_frame:
  assumes "complete_action env S c a digest owner_mid resp inp = (u, S')"
  shows "action_digests S' = action_digests S \<and> conversations S' = conversations S
    \<and> k_activation (i_kernel S') = k_activation (i_kernel S)"
    and "u = Inr r \<Longrightarrow> dict_get (action_receipts S') (oa_action_id a) = Some r"
proof -
  have put: "turn_frame S (put_session s S)" for s S by (simp add: put_session_def turn_frame_def)
  have app: "append_message S cid m = Inr S' \<Longrightarrow> turn_frame S S'" for S cid m S'
    by (auto simp: append_message_Inr turn_frame_def)
  note frames = record_frame app observe_usage_frame apply_actions_frame
  show "action_digests S' = action_digests S \<and> conversations S' = conversations S
    \<and> k_activation (i_kernel S') = k_activation (i_kernel S)"
    using assms
    by (auto simp: complete_action_def Let_def put_receipt_def put_session_def turn_frame_def
        dest!: frames split: sum.splits prod.splits)
  show "u = Inr r \<Longrightarrow> dict_get (action_receipts S') (oa_action_id a) = Some r"
    using assms by (auto simp: complete_action_def Let_def put_receipt_def completed_receipt_def split: sum.splits prod.splits)
qed

lemma fail_action_frame:
  assumes "fail_action env S c a digest rc inp err = (u, S')"
  shows "action_digests S' = action_digests S \<and> conversations S' = conversations S
    \<and> k_activation (i_kernel S') = k_activation (i_kernel S)
    \<and> decisions S' = decisions S \<and> commitments S' = commitments S \<and> pilot_sessions S' = pilot_sessions S
    \<and> conv_messages S' = conv_messages S"
    and "u = Inr r \<Longrightarrow> ar_action_id rc = oa_action_id a \<Longrightarrow> dict_get (action_receipts S') (oa_action_id a) = Some r"
  using assms
  by (auto simp: fail_action_def Let_def put_receipt_def interface_record_def set_i_ledger_def split: sum.splits prod.splits)

lemma answer_owner_frame:
  assumes "answer_owner env S c a rc reply inp = (u, S')"
  shows "action_digests S' = action_digests S \<and> conversations S' = conversations S
    \<and> k_activation (i_kernel S') = k_activation (i_kernel S)"
    and "u = Inr r \<Longrightarrow> ar_action_id rc = oa_action_id a \<Longrightarrow> dict_get (action_receipts S') (oa_action_id a) = Some r"
  using assms
  by (cases rule: answer_owner_cases; use complete_action_frame fail_action_frame in metis)+

lemma accept_owner_message_frame:
  assumes "accept_owner_message env S c a inp = (q, S')"
  shows "decisions S' = decisions S \<and> commitments S' = commitments S \<and> pilot_sessions S' = pilot_sessions S"
  using assms
  by (auto simp: accept_owner_message_def Let_def append_message_Inr put_receipt_def put_digest_def interface_record_def
      set_i_ledger_def split: sum.splits prod.splits if_splits)

lemma only_ledger_iff: "only_ledger S S' \<longleftrightarrow> (\<exists>L. i_kernel S' = (i_kernel S)\<lparr>k_ledger := L\<rparr>)"
  by (auto simp: only_ledger_def)

lemma repeated_turn:
  assumes good: "interface_good S" and valid: "valid_owner_message_action a"
    and op: "perform_owner_action env S cid a device inp respond = (Inr r, S')"
  shows "perform_owner_action env S' cid a device' inp' respond' = (Inr r, S')"
proof -
  have active: "require_active (k_activation (i_kernel S)) ''owner conversation action'' = Inr ()"
    using op by (auto simp: perform_owner_action_def split: sum.splits)
  obtain c where c: "dict_get (conversations S) cid = Some c"
    using op active by (auto simp: perform_owner_action_def raise_violation_def split: option.splits)
  have "require_active (k_activation (i_kernel S')) ''owner conversation action'' = Inr ()
    \<and> dict_get (conversations S') cid = Some c \<and> dict_get (action_receipts S') (oa_action_id a) = Some r
    \<and> dict_get (action_digests S') (oa_action_id a) = Some (action_digest_of env a)"
  proof (cases "dict_get (action_receipts S) (oa_action_id a)")
    case (Some prior)
    then have "S' = S" "r = prior" "dict_get (action_digests S) (oa_action_id a) = Some (action_digest_of env a)"
      using op active c by (auto simp: perform_owner_action_def raise_violation_def split: option.splits if_splits)
    then show ?thesis using active c Some by simp
  next
    case None
    obtain rc ref Sa ctx where acc: "accept_owner_message env S c a inp = (Inr (rc, ref), Sa)"
      and ans: "answer_owner env Sa c a rc (respond (oa_text a) ctx) inp = (Inr r, S')"
      using op active c None
      by (auto simp: perform_owner_action_def raise_violation_def split: if_splits sum.splits prod.splits)
    note first = accept_owner_message_step [OF good c valid acc]
    note f = answer_owner_frame [OF ans]
    have "k_activation (i_kernel Sa) = k_activation (i_kernel S)" using first(3) by (auto simp: only_ledger_iff)
    then show ?thesis using f first(2) [OF refl] active c by simp
  qed
  then show ?thesis by (simp add: perform_owner_action_def)
qed

text \<open>The validation reads nothing a recording changes.\<close>

lemma validate_loop_ledger: "validate_loop (k\<lparr>k_ledger := L\<rparr>) ids clock i xs p = validate_loop k ids clock i xs p"
proof (induction xs arbitrary: i p)
  case (Cons x xs)
  have "validate_action (k\<lparr>k_ledger := L\<rparr>) ids t q x = validate_action k ids t q x" for t q
    by (cases q; cases x) (simp_all add: validate_action_def check_created_work_def cong: if_cong option.case_cong)
  moreover have "validate_loop (k\<lparr>k_ledger := L\<rparr>) ids clock (Suc i) xs = validate_loop k ids clock (Suc i) xs"
    by (rule ext) (rule Cons.IH)
  ultimately show ?case by simp
qed simp

lemma validate_actions_recorded:
  assumes "only_ledger S S'" and "decisions S' = decisions S"
  shows "validate_actions S' clock xs = validate_actions S clock xs"
proof -
  obtain L where L: "i_kernel S' = (i_kernel S)\<lparr>k_ledger := L\<rparr>" using assms(1) by (auto simp: only_ledger_iff)
  have "project_kernel (i_kernel S') = project_kernel (i_kernel S)" by (simp add: L project_kernel_def)
  then show ?thesis using assms(2) by (simp add: validate_actions_def Let_def L validate_loop_ledger)
qed

lemma only_ledger_trans: "only_ledger S S' \<Longrightarrow> only_ledger S' S'' \<Longrightarrow> only_ledger S S''"
  by (auto simp: only_ledger_iff)

lemma unvalidated_turn:
  assumes good: "interface_good S" and valid: "valid_owner_message_action a"
    and op: "perform_owner_action env S cid a device inp respond = (r, S')"
    and bad: "\<And>ctx resp. respond (oa_text a) ctx = Inr resp \<Longrightarrow>
      validate_actions S (lease_check_time inp) (response_actions resp) \<noteq> Inr ()"
  shows "only_ledger S S' \<and> decisions S' = decisions S \<and> commitments S' = commitments S \<and> pilot_sessions S' = pilot_sessions S"
  using op
proof (cases rule: perform_owner_action_cases)
  case 1
  then show ?thesis by (simp add: only_ledger_def)
next
  case (2 c err)
  then show ?thesis using accept_owner_message_step(3) [OF good 2(1) valid 2(2)] accept_owner_message_frame by blast
next
  case (3 c rc ref err)
  then show ?thesis using accept_owner_message_step(3) [OF good 3(1) valid 3(2)] accept_owner_message_frame by blast
next
  case (4 c rc ref Sa ctx)
  note first = accept_owner_message_step [OF good 4(1) valid 4(2)]
  note fa = accept_owner_message_frame [OF 4(2)]
  have inv: "ledger_inv (i_ledger Sa)" using first(1) good_ledger_inv by (simp add: interface_step_to_def)
  have never: "False" if "respond (oa_text a) ctx = Inr resp"
    "validate_actions Sa (lease_check_time inp) (response_actions resp) = Inr ()" for resp
    using bad [OF that(1)] that(2) validate_actions_recorded first(3) fa by metis
  from 4(4) show ?thesis
  proof (cases rule: answer_owner_cases)
    case (1 err)
    note out = fail_action_outcome(3) [OF 1 inv]
    show ?thesis using first(3) only_ledger_trans [OF _ out] fa fail_action_frame(1) [OF 1] by simp
  qed (use never in auto)
qed

end
