(* ===== verification/Interface_Checks.thy ===== *)
theory Interface_Checks
  imports Interface_Turn
begin

text \<open>
  Two loops of the interface compute what their names promise. The event delta counts the
  events between two cursors, page by page; the search for cycles fails exactly when a
  WorkItem of the projection depends on itself.
\<close>

section \<open>The event delta\<close>

definition ledger_span :: "kledger \<Rightarrow> nat \<Rightarrow> nat \<Rightarrow> kevent list" where
  "ledger_span L after through = take (through - after) (drop after (ledger_events L))"

lemma length_ledger_span: "through \<le> length (ledger_events L) \<Longrightarrow> length (ledger_span L after through) = through - after"
  by (simp add: ledger_span_def)

lemma ledger_span_split: "after \<le> mid \<Longrightarrow> mid \<le> through \<Longrightarrow> ledger_span L after through = ledger_span L after mid @ ledger_span L mid through"
proof -
  assume "after \<le> mid" "mid \<le> through"
  then have "take (through - after) xs = take ((mid - after) + (through - mid)) xs" "drop (mid - after) (drop after ys) = drop mid ys"
    for xs ys :: "kevent list" by (simp_all add: add.commute)
  then show ?thesis unfolding ledger_span_def by (simp add: take_add)
qed

lemma delta_page_all:
  "map cursor ss = [cur + 1..<cur + 1 + length ss] \<Longrightarrow> cur + length ss \<le> through \<Longrightarrow>
    delta_page through ss (cur, a) = (cur + length ss, foldl count_event a (map stored ss))"
proof (induction ss arbitrary: cur a)
  case (Cons s ss)
  have upt: "[cur + 1..<cur + 1 + length (s # ss)] = (cur + 1) # [cur + 2..<cur + 2 + length ss]"
    by (subst upt_conv_Cons) simp_all
  from Cons.prems(1) have "cursor s = cur + 1" "map cursor ss = [(cur + 1) + 1..<(cur + 1) + 1 + length ss]"
    unfolding upt by simp_all
  with Cons.IH [of "cur + 1"] Cons.prems(2) show ?case by simp
qed simp

lemma delta_loop_counts:
  assumes inv: "ledger_inv L" and "through \<le> length (ledger_events L)" and "cur \<le> through"
  shows "delta_loop L through cur a = Inr (foldl count_event a (ledger_span L cur through))"
  using assms(3)
proof (induction "through - cur" arbitrary: cur a rule: less_induct)
  case less
  show ?case
  proof (cases "cur = through")
    case True
    then show ?thesis by (subst delta_loop.simps) (simp add: ledger_span_def)
  next
    case False
    let ?k = "min 500 (int through - int cur)"
    have k: "0 < ?k" "nat ?k = min 500 (through - cur)" using less.prems False by auto
    obtain ss where page: "ledger_page L (int cur) ?k = Inr ss" and st: "map stored ss = take (nat ?k) (drop cur (ledger_events L))"
      and cs: "map cursor ss = [cur + 1..<cur + 1 + length ss]"
      using ledger_page_law [OF inv _ k(1), of "int cur"] by auto
    have "length ss = length (map stored ss)" by simp
    also have "\<dots> = min 500 (through - cur)" unfolding st k(2) using assms(2) less.prems by simp
    finally have len: "length ss = min 500 (through - cur)" .
    let ?mid = "cur + length ss"
    have mid: "cur < ?mid" "?mid \<le> through" "ss \<noteq> []" using len less.prems False by auto
    have part: "map stored ss = ledger_span L cur ?mid" using st len k(2) by (simp add: ledger_span_def)
    have "delta_loop L through cur a = delta_loop L through ?mid (foldl count_event a (map stored ss))"
      using page delta_page_all [OF cs mid(2), of a] mid less.prems False by (subst delta_loop.simps) simp
    also have "\<dots> = Inr (foldl count_event (foldl count_event a (map stored ss)) (ledger_span L ?mid through))"
      by (rule less.hyps; use mid(1,2) in arith)
    also have "\<dots> = Inr (foldl count_event a (ledger_span L cur through))"
      using ledger_span_split [of cur ?mid through] mid part by simp
    finally show ?thesis .
  qed
qed

text \<open>The three accumulators.\<close>

lemma count_events:
  "acc_count (foldl count_event a es) = acc_count a + length es"
  "version_of (acc_types (foldl count_event a es)) ty = version_of (acc_types a) ty + length (filter (\<lambda>e. event_type e = ty) es)"
  "dict_mem ty (acc_types (foldl count_event a es)) \<longleftrightarrow> dict_mem ty (acc_types a) \<or> ty \<in> event_type ` set es"
  "distinct (map fst (acc_types a)) \<Longrightarrow> distinct (map fst (acc_types (foldl count_event a es)))"
  "set (acc_streams (foldl count_event a es)) = set (acc_streams a) \<union> stream_id ` set es"
  "distinct (acc_streams a) \<Longrightarrow> distinct (acc_streams (foldl count_event a es))"
  by (induction es arbitrary: a) (auto simp: count_event_def version_of_set)

definition delta_types :: "kevent list \<Rightarrow> (string, nat) dict" where
  "delta_types es = sort_key fst (acc_types (foldl count_event \<lparr>acc_count = 0, acc_types = [], acc_streams = []\<rparr> es))"

lemma delta_types_mem:
  "(ty, n) \<in> set (delta_types es) \<longleftrightarrow> 0 < n \<and> n = length (filter (\<lambda>e. event_type e = ty) es)"
proof -
  let ?a0 = "\<lparr>acc_count = 0, acc_types = [], acc_streams = []\<rparr>" let ?d = "acc_types (foldl count_event ?a0 es)"
  have "distinct (map fst ?d)" by (rule count_events(4)) simp
  then have "(ty, n) \<in> set (delta_types es) \<longleftrightarrow> dict_get ?d ty = Some n" by (simp add: delta_types_def)
  also have "\<dots> \<longleftrightarrow> dict_mem ty ?d \<and> version_of ?d ty = n"
    by (auto simp: dict_mem_get version_of_def)
  also have "\<dots> \<longleftrightarrow> ty \<in> event_type ` set es \<and> length (filter (\<lambda>e. event_type e = ty) es) = n"
    using count_events(2,3) [where a = ?a0] by (simp add: version_of_def dict_mem_def)
  also have "\<dots> \<longleftrightarrow> 0 < n \<and> n = length (filter (\<lambda>e. event_type e = ty) es)"
    by (auto simp: filter_empty_conv)
  finally show ?thesis .
qed

lemma delta_types_sorted: "sorted (map fst (delta_types es))" "distinct (map fst (delta_types es))"
proof -
  show "sorted (map fst (delta_types es))" by (simp add: delta_types_def)
  let ?d = "acc_types (foldl count_event \<lparr>acc_count = 0, acc_types = [], acc_streams = []\<rparr> es)"
  have "distinct (map fst ?d)" by (rule count_events(4)) simp
  then show "distinct (map fst (delta_types es))" by (simp add: delta_types_def distinct_map)
qed

lemma event_delta_counts:
  assumes "ledger_inv L" and "after \<le> through" and "through \<le> length (ledger_events L)"
  shows "event_delta_of L after through = Inr \<lparr>after_cursor = after, through_cursor = through, event_count = through - after,
    event_type_counts = delta_types (ledger_span L after through),
    changed_stream_ids = sorted_list_of_set (stream_id ` set (ledger_span L after through))\<rparr>"
proof -
  let ?a = "foldl count_event \<lparr>acc_count = 0, acc_types = [], acc_streams = []\<rparr> (ledger_span L after through)"
  have "sort (acc_streams ?a) = sorted_list_of_set (set (acc_streams ?a))"
    using count_events(6) by (subst sorted_list_of_set_sort_remdups) (simp add: distinct_remdups_id)
  then show ?thesis
    using assms delta_loop_counts [OF assms(1,3,2)] count_events(1,5) length_ledger_span [OF assms(3), of after]
    by (simp add: event_delta_of_def delta_types_def)
qed

section \<open>The search for cycles\<close>

text \<open>
  \<open>wid\<close> depends on \<open>d\<close>. The search from \<open>wid\<close> fails if something it reaches is already on
  the path or lies on a cycle; both cannot be told apart, and need not be.
\<close>

definition depends_in :: "(string, string list) dict \<Rightarrow> (string \<times> string) set" where
  "depends_in pd = {(wid, d). d \<in> set (dependencies_in pd wid)}"

definition trapped :: "(string, string list) dict \<Rightarrow> string list \<Rightarrow> string \<Rightarrow> bool" where
  "trapped pd path v \<longleftrightarrow> (\<exists>x. (v, x) \<in> (depends_in pd)\<^sup>* \<and> (x \<in> set path \<or> (x, x) \<in> (depends_in pd)\<^sup>+))"

lemma trapped_step:
  assumes "v \<notin> set path"
  shows "trapped pd path v \<longleftrightarrow> (\<exists>d \<in> set (dependencies_in pd v). trapped pd (v # path) d)"
proof
  assume "trapped pd path v"
  then obtain x where x: "(v, x) \<in> (depends_in pd)\<^sup>*" "x \<in> set path \<or> (x, x) \<in> (depends_in pd)\<^sup>+"
    unfolding trapped_def by blast
  obtain d where d: "(v, d) \<in> depends_in pd" "trapped pd (v # path) d"
  proof (cases "v = x")
    case True
    with x assms have "(v, v) \<in> (depends_in pd)\<^sup>+" by blast
    then obtain d where "(v, d) \<in> depends_in pd" "(d, v) \<in> (depends_in pd)\<^sup>*" by (auto dest: tranclD)
    then show ?thesis using that by (auto simp: trapped_def)
  next
    case False
    with x(1) obtain d where "(v, d) \<in> depends_in pd" "(d, x) \<in> (depends_in pd)\<^sup>*" by (meson converse_rtranclE)
    then show ?thesis using that x(2) by (auto simp: trapped_def)
  qed
  then show "\<exists>d \<in> set (dependencies_in pd v). trapped pd (v # path) d" by (auto simp: depends_in_def)
next
  assume "\<exists>d \<in> set (dependencies_in pd v). trapped pd (v # path) d"
  then obtain d x where d: "(v, d) \<in> depends_in pd" and x: "(d, x) \<in> (depends_in pd)\<^sup>*"
    "x = v \<or> x \<in> set path \<or> (x, x) \<in> (depends_in pd)\<^sup>+" by (auto simp: trapped_def depends_in_def)
  then have "(v, x) \<in> (depends_in pd)\<^sup>+" by (metis rtrancl_into_trancl2)
  then show "trapped pd path v" using x(2) unfolding trapped_def by (metis rtrancl.rtrancl_refl trancl_into_rtrancl)
qed

lemma visit_exact:
  "isl (visit pd v path) \<longleftrightarrow> trapped pd path v"
  "isl (visit_all pd ds path) \<longleftrightarrow> (\<exists>d \<in> set ds. trapped pd path d)"
proof (induction pd v path and pd ds path rule: visit_visit_all.induct)
  case (1 pd v path)
  then show ?case
  proof (cases "v \<in> set path")
    case True
    then show ?thesis by (auto simp: visit.simps trapped_def raise_violation_def intro: exI [of _ v])
  next
    case False
    then show ?thesis using 1 trapped_step [OF False] by (simp add: visit.simps)
  qed
next
  case (3 pd d ds path)
  then show ?case by (cases "visit pd d path") auto
qed simp

lemma depends_known: "(v, d) \<in> depends_in pd \<Longrightarrow> v \<in> fst ` set pd"
proof -
  assume "(v, d) \<in> depends_in pd"
  then have "dict_get pd v \<noteq> None" by (cases "dict_get pd v") (auto simp: depends_in_def dependencies_in_def)
  then show ?thesis by (simp add: map_of_eq_None_iff)
qed

lemma check_cycles_exact: "check_cycles pd = Inr () \<longleftrightarrow> acyclic (depends_in pd)"
proof -
  have "check_cycles pd = Inr () \<longleftrightarrow> \<not> isl (check_cycles pd)" by (cases "check_cycles pd") auto
  also have "\<dots> \<longleftrightarrow> (\<forall>v \<in> fst ` set pd. \<not> trapped pd [] v)" by (simp add: check_cycles_def visit_exact)
  also have "\<dots> \<longleftrightarrow> acyclic (depends_in pd)"
  proof
    assume none: "\<forall>v \<in> fst ` set pd. \<not> trapped pd [] v"
    show "acyclic (depends_in pd)"
    proof (rule acyclicI, intro allI notI)
      fix x assume x: "(x, x) \<in> (depends_in pd)\<^sup>+"
      then obtain d where "(x, d) \<in> depends_in pd" by (auto dest: tranclD)
      with none depends_known have "\<not> trapped pd [] x" by blast
      with x show False by (auto simp: trapped_def)
    qed
  qed (auto simp: trapped_def acyclic_def)
  finally show ?thesis .
qed

end
