(* ===== verification/Interface_Run.thy ===== *)
theory Interface_Run
  imports Interface_Machine Interface_Checks Routing_Properties
begin

text \<open>
  A conversation on the activated Kernel of the run, and one turn of its owner: with a fresh
  token lab it completes, with a lab that already holds the observation's identity it fails
  after the response has been recorded.
\<close>

section \<open>Appending under any key\<close>

definition toy_event :: "nat \<Rightarrow> string \<Rightarrow> nat \<Rightarrow> string \<Rightarrow> payload_dict \<Rightarrow> actor_type \<Rightarrow> string option \<Rightarrow> string \<Rightarrow> string \<Rightarrow> kevent" where
  "toy_event n sid v ty p act aid corr key =
     \<lparr>event_id = run_event_id n, event_data_space_id = ''ds:main'', stream_id = sid, stream_version = v,
      event_type = ty, occurred_at = 0, actor_type = act, actor_id = aid, correlation_id = Some corr,
      causation_id = None, idempotency_key = key, payload = p\<rparr>"

lemma toy_event_simps [simp]:
  "stream_id (toy_event n sid v ty p act aid corr key) = sid" "idempotency_key (toy_event n sid v ty p act aid corr key) = key"
  "event_id (toy_event n sid v ty p act aid corr key) = run_event_id n" "event_type (toy_event n sid v ty p act aid corr key) = ty"
  by (simp_all add: toy_event_def)

lemma toy_append:
  assumes "valid_identifier sid" "valid_identifier corr" "option_all valid_identifier aid" "non_blank ty" "non_blank key" "plain key"
    and "n = 63 + length sid + length key" "n < 1000"
    and "ledger_data_space_id L = ''ds:main''" "length (stream_of L sid) = v"
    and "dict_get (l_idempotency L) key = None" "dict_get (l_event_ids L) (run_event_id n) = None"
  shows "append_event toy L ''ds:main'' sid v ty p 0 act aid (Some corr) None key
    = Inr (toy_event n sid (Suc v) ty p act aid corr key,
           \<lparr>outcome = Appended, result_cursor = Suc (length (l_events L)), result_stream_version = Suc v\<rparr>,
           pushed L (toy_event n sid (Suc v) ty p act aid corr key))"
proof -
  let ?e = "toy_event n sid (Suc v) ty p act aid corr key"
  have "deterministic_event_id (sha256 toy) ''ds:main'' sid key = Inr (run_event_id n)"
    by (rule toy_event_id) (use assms identifier_plain in simp_all)
  moreover have "valid_event_envelope ?e"
    using assms by (simp add: valid_event_envelope_def toy_event_def)
  ultimately have "make_event toy ''ds:main'' sid v ty p 0 act aid (Some corr) None key = Inr ?e"
    by (simp add: make_event_def toy_event_def)
  then show ?thesis
    using assms by (simp add: append_event_def ledger_append_def pushed_def Let_def toy_event_def)
qed

lemma toy_interface_record:
  assumes "valid_identifier sid" "option_all valid_identifier aid" "non_blank ty" "non_blank key" "plain key"
    and "n = 63 + length sid + length key" "n < 1000" "data_space_id (k_data_space (i_kernel S)) = ''ds:main''"
    and "ledger_data_space_id (i_ledger S) = ''ds:main''" "length (stream_of (i_ledger S) sid) = v"
    and "version_of (i_versions S) sid = v" "dict_get (l_idempotency (i_ledger S)) key = None"
    and "dict_get (l_event_ids (i_ledger S)) (run_event_id n) = None" "ie_hash env = toy"
  shows "interface_record env S 0 sid ty p act aid key = Inr (toy_event n sid (Suc v) ty p act aid sid key, Suc (length (l_events (i_ledger S))),
    (set_i_ledger (pushed (i_ledger S) (toy_event n sid (Suc v) ty p act aid sid key)) S)\<lparr>
       i_versions := dict_set (i_versions S) sid (Suc v),
       conversation_cursors := dict_set (conversation_cursors S) sid (Suc (length (l_events (i_ledger S))))\<rparr>)"
  using toy_append [OF assms(1,1,2-7,9,10,12,13)] assms(8,11,14) by (simp add: interface_record_def)

section \<open>The data\<close>

definition toy_env :: interface_env where
  "toy_env = \<lparr>ie_hash = toy, ie_float = toy_float, creation_digest_of = \<lambda>_ _. ''d'', action_digest_of = \<lambda>_. ''d'',
     assessment_json = \<lambda>_. ''text'', error_text = \<lambda>_. ''e''\<rparr>"

lemma toy_env_sel [simp]: "ie_hash toy_env = toy" "ie_float toy_env = toy_float" "creation_digest_of toy_env c b = ''d''"
  "action_digest_of toy_env a = ''d''" "assessment_json toy_env x = ''text''" "error_text toy_env err = ''e''"
  by (simp_all add: toy_env_def)

definition ex_conversation :: conversation where
  "ex_conversation = \<lparr>conv_id = ''conv:1'', conv_data_space_id = ''ds:main'', conv_node_id = ''node:1'', conv_owner_id = ''owner:me'',
     conv_title = ''t''\<rparr>"

definition ex_binding :: surface_binding where
  "ex_binding = \<lparr>binding_id = ''binding:1'', binding_conversation_id = ''conv:1'', binding_surface = OnWeb, binding_session_id = ''s'',
     binding_channel_id = ''c'', binding_device_id = ''d''\<rparr>"

definition ex_owner_action :: owner_message_action where
  "ex_owner_action = \<lparr>oa_action_id = ''turn:1'', oa_idempotency_key = run_key 30, oa_text = ''text'',
     oa_source = \<lparr>src_surface = OnWeb, src_session_id = ''s'', src_message_id = ''m'', src_author_id = ''a'', src_channel_id = ''c'',
       src_occurred_at = 0\<rparr>\<rparr>"

definition ex_inputs :: turn_input where
  "ex_inputs = \<lparr>owner_uuid = ''a'', interface_uuid = ''b'', session_uuid = ''c'', owner_event_time = 0, lease_check_time = \<lambda>_. 0,
     response_time = 0, response_event_time = 0, observation_time = 0, observation_event_time = 0, action_time = \<lambda>_ _. 0,
     failed_event_time = 0\<rparr>"

definition ex_usage :: interface_pilot_usage where
  "ex_usage = \<lparr>usage_candidate_key = ''m'', actual_provider = ''p'', actual_model_snapshot = ''m'', usage_input_tokens = 5,
     cache_creation_input_tokens = 0, cache_read_input_tokens = 0, usage_output_tokens = 1, cost_usd = 0, duration_ms = 1,
     classifier_triggered = False, model_substitution = False, usage_full_history_resent = False, polling_call = False,
     false_complete = False, reedited_tokens = 0\<rparr>"

definition ex_reply :: structured_interface_response where
  "ex_reply = \<lparr>response_display_text = ''ok'', response_actions = [RecordDecision ''decision:1'' ''go'' None],
     response_provider_session_id = ''p'', pilot_usage = ex_usage\<rparr>"

lemma ex_interface_ids [simp]: "valid_identifier ''binding:1''" "valid_identifier ''turn:1''" "valid_identifier ''decision:1''"
  "valid_identifier ''message:a''" "valid_identifier ''message:b''" "valid_identifier ''pilot-session:c''" "valid_identifier ''observation:1''"
  by code_simp+

lemma ex_conversation_valid: "valid_conversation ex_conversation" "valid_surface_binding ex_binding"
  by (simp_all add: valid_conversation_def valid_surface_binding_def ex_conversation_def ex_binding_def text_lengths)

lemma ex_owner_action_valid: "valid_owner_message_action ex_owner_action"
  by (simp add: valid_owner_message_action_def valid_message_source_def ex_owner_action_def) (simp add: text_lengths)

lemma ex_reply_valid: "valid_structured_interface_response ex_reply"
  by (simp add: valid_structured_interface_response_def valid_interface_pilot_usage_def ex_reply_def ex_usage_def text_lengths)

section \<open>The conversation and the owner's message\<close>

lemma run6_length [simp]: "length (l_events (k_ledger run6)) = 6"
  by (simp add: run6_events)

lemma run_key_neq [simp]: "run_key i @ x # xs \<noteq> run_key j" if "x \<noteq> CHR ''k''" for x xs i j
proof
  assume "run_key i @ x # xs = run_key j"
  then have "x \<in> set (run_key j)" by (metis in_set_conv_decomp)
  with that show False by (simp add: run_key_def)
qed

lemma ex_types [simp]: "non_blank ''conversation_created''" "non_blank ''owner_message_received''"
  "non_blank ''interface_response_recorded''" "non_blank ''conversation_action_failed''" "non_blank ''token_observation_recorded''"
  by (simp_all add: text_lengths)

definition ex_opened_event :: kevent where
  "ex_opened_event = toy_event 109 ''conv:1'' 1 ''conversation_created'' [(''conversation'', PConversation ex_conversation),
     (''surface_binding'', PBinding ex_binding), (''request_digest'', PStr ''d'')] Human (Some ''owner:me'') ''conv:1'' (run_key 40)"

definition ex_opened :: "token_lab_events \<Rightarrow> interface_service" where
  "ex_opened T = \<lparr>i_kernel = run6\<lparr>k_ledger := pushed (k_ledger run6) ex_opened_event\<rparr>, i_lab = T,
     conversations = [(''conv:1'', ex_conversation)], surface_bindings = [(''binding:1'', ex_binding)], pilot_sessions = [],
     conv_messages = [(''conv:1'', [])], commitments = [], decisions = [], node_memories = [], action_receipts = [],
     action_digests = [], creation_receipts = [(run_key 40, created_receipt ex_conversation ex_binding 7)],
     creation_digests = [(run_key 40, ''d'')], conversation_cursors = [(''conv:1'', 7)], i_versions = [(''conv:1'', 1)]\<rparr>"

lemma ex_opens: "create_conversation toy_env (init_interface run6 T) 0 ex_conversation ex_binding (run_key 40)
  = Inr (created_receipt ex_conversation ex_binding 7, ex_opened T)"
proof -
  have sel: "conv_id ex_conversation = ''conv:1''" "conv_node_id ex_conversation = ''node:1''" "conv_owner_id ex_conversation = ''owner:me''"
    "conv_data_space_id ex_conversation = ''ds:main''" "binding_id ex_binding = ''binding:1''" "binding_conversation_id ex_binding = ''conv:1''"
    "node_kind ex_node = Interface"
    by (simp_all add: ex_conversation_def ex_binding_def ex_node_def)
  have rec: "interface_record toy_env (init_interface run6 T) 0 ''conv:1'' ''conversation_created'' p Human (Some ''owner:me'') (run_key 40)
    = Inr (toy_event 109 ''conv:1'' 1 ''conversation_created'' p Human (Some ''owner:me'') ''conv:1'' (run_key 40), 7,
        (set_i_ledger (pushed (k_ledger run6) (toy_event 109 ''conv:1'' 1 ''conversation_created'' p Human (Some ''owner:me'') ''conv:1''
           (run_key 40))) (init_interface run6 T))\<lparr>i_versions := [(''conv:1'', 1)], conversation_cursors := [(''conv:1'', 7)]\<rparr>)" for p
    by (simp add: toy_interface_record [where n = 109 and v = 0] init_interface_def version_of_def numeral_2_eq_2)
  show ?thesis
    by (simp add: create_conversation_def init_interface_def check_conversation_def sel rec [unfolded init_interface_def]
        add_conversation_def set_i_ledger_def ex_opened_def ex_opened_event_def Let_def)
qed

lemma ex_conversation_sel [simp]: "conv_id ex_conversation = ''conv:1''" "conv_node_id ex_conversation = ''node:1''"
  "conv_owner_id ex_conversation = ''owner:me''" "oa_action_id ex_owner_action = ''turn:1''"
  "oa_idempotency_key ex_owner_action = run_key 30" "oa_text ex_owner_action = ''text''"
  "src_occurred_at (oa_source ex_owner_action) = 0"
  by (simp_all add: ex_conversation_def ex_owner_action_def)

lemma plain_append [simp]: "plain (xs @ ys) \<longleftrightarrow> plain xs \<and> plain ys"
  by (simp add: plain_def)

lemma ex_suffixes: "plain '':owner''" "plain '':response''" "plain '':failed''" "plain '':token-observation''"
  by (simp_all add: plain_def is_body_char_def is_lower_def char_between_def)

lemma ex_keys: "non_blank (run_key 30 @ '':owner'')" "non_blank (run_key 30 @ '':response'')" "non_blank (run_key 30 @ '':failed'')"
  "non_blank (run_key 30 @ '':token-observation'')"
  by (simp_all add: non_blank_def py_len_def run_key_def)

definition ex_blob :: string where
  "ex_blob = ''blob:sha256:'' @ replicate 64 (CHR ''4'')"

definition ex_owner_message :: conversation_message where
  "ex_owner_message = \<lparr>msg_id = ''message:a'', msg_conversation_id = ''conv:1'', msg_role = OwnerRole, msg_display_text = None,
     msg_blob_ref = Some ex_blob, msg_occurred_at = 0, msg_source = Some (oa_source ex_owner_action)\<rparr>"

definition ex_blob_ledger :: kledger where
  "ex_blob_ledger = (pushed (k_ledger run6) ex_opened_event)\<lparr>l_blobs := dict_set (l_blobs (k_ledger run6)) ex_blob ''text''\<rparr>"

definition ex_asked_event :: kevent where
  "ex_asked_event = toy_event 105 ''conv:1'' 2 ''owner_message_received'' [(''action_id'', PStr ''turn:1''),
     (''action_digest'', PStr ''d''), (''message'', PMessage ex_owner_message)] Human (Some ''owner:me'') ''conv:1'' (run_key 30 @ '':owner'')"

definition ex_asked :: "token_lab_events \<Rightarrow> interface_service" where
  "ex_asked T = (ex_opened T)\<lparr>i_kernel := run6\<lparr>k_ledger := pushed ex_blob_ledger ex_asked_event\<rparr>,
     conv_messages := [(''conv:1'', [ex_owner_message])],
     action_receipts := [(''turn:1'', accepted_receipt ''turn:1'' ''conv:1'' ''message:a'' 8)], action_digests := [(''turn:1'', ''d'')],
     conversation_cursors := [(''conv:1'', 8)], i_versions := [(''conv:1'', 2)]\<rparr>"

lemma ex_blob_ledger_sel [simp]: "ledger_data_space_id ex_blob_ledger = ''ds:main''"
  "length (stream_of ex_blob_ledger sid) = (if sid = ''conv:1'' then 1 else length (stream_of (k_ledger run6) sid))"
  "dict_get (l_idempotency ex_blob_ledger) key = None \<longleftrightarrow> key \<noteq> run_key 40 \<and> dict_get (l_idempotency (k_ledger run6)) key = None"
  "dict_get (l_event_ids ex_blob_ledger) eid = None \<longleftrightarrow> eid \<noteq> run_event_id 109 \<and> dict_get (l_event_ids (k_ledger run6)) eid = None"
  "length (l_events ex_blob_ledger) = 7"
proof -
  have blobs: "stream_of (L\<lparr>l_blobs := b\<rparr>) sid = stream_of L sid" for L :: kledger and b by (simp add: stream_of_def)
  show "ledger_data_space_id ex_blob_ledger = ''ds:main''"
    "length (stream_of ex_blob_ledger sid) = (if sid = ''conv:1'' then 1 else length (stream_of (k_ledger run6) sid))"
    "dict_get (l_idempotency ex_blob_ledger) key = None \<longleftrightarrow> key \<noteq> run_key 40 \<and> dict_get (l_idempotency (k_ledger run6)) key = None"
    "dict_get (l_event_ids ex_blob_ledger) eid = None \<longleftrightarrow> eid \<noteq> run_event_id 109 \<and> dict_get (l_event_ids (k_ledger run6)) eid = None"
    "length (l_events ex_blob_ledger) = 7"
    by (simp_all add: ex_blob_ledger_def ex_opened_event_def blobs)
qed

lemma run6_other_key [simp]: "x \<noteq> CHR ''k'' \<Longrightarrow> dict_get (l_idempotency (k_ledger run6)) (run_key i @ x # xs) = None"
  by (simp add: run6_events)

lemma ex_blob_valid [simp]: "valid_blob_ref ex_blob"
  by (simp add: ex_blob_def) code_simp

lemma ex_owner_message_valid: "valid_conversation_message ex_owner_message"
  using ex_owner_action_valid
  by (simp add: valid_conversation_message_def ex_owner_message_def valid_owner_message_action_def)

lemma ex_accepts: "accept_owner_message toy_env (ex_opened T) ex_conversation ex_owner_action ex_inputs
  = (Inr (accepted_receipt ''turn:1'' ''conv:1'' ''message:a'' 8, ex_blob), ex_asked T)"
proof -
  let ?S = "set_i_ledger ex_blob_ledger (ex_opened T)"
  have put: "put_blob (sha256 toy) (i_ledger (ex_opened T)) ''text'' = (ex_blob, ex_blob_ledger)"
    by (simp add: put_blob_def ex_opened_def ex_blob_ledger_def ex_blob_def toy_def Let_def)
  have mid: "new_id ''message'' ''a'' = Inr ''message:a''" by (simp add: new_id_def validate_id_def)
  have rec: "interface_record toy_env ?S 0 ''conv:1'' ''owner_message_received'' p Human (Some ''owner:me'') (run_key 30 @ '':owner'')
    = Inr (toy_event 105 ''conv:1'' 2 ''owner_message_received'' p Human (Some ''owner:me'') ''conv:1'' (run_key 30 @ '':owner''), 8,
        (set_i_ledger (pushed ex_blob_ledger (toy_event 105 ''conv:1'' 2 ''owner_message_received'' p Human (Some ''owner:me'') ''conv:1''
           (run_key 30 @ '':owner''))) ?S)\<lparr>i_versions := [(''conv:1'', 2)], conversation_cursors := [(''conv:1'', 8)]\<rparr>)" for p
    by (subst toy_interface_record [where n = 105 and v = 1])
      (use ex_suffixes ex_keys in \<open>simp_all add: ex_opened_def set_i_ledger_def version_of_def numeral_2_eq_2\<close>)
  have app: "append_message S ''conv:1'' m = Inr (S\<lparr>conv_messages := [(''conv:1'', [m])]\<rparr>)" if "conv_messages S = [(''conv:1'', [])]" for S m
    using that by (simp add: append_message_def)
  show ?thesis
    using ex_owner_message_valid
    by (simp add: accept_owner_message_def put ex_inputs_def mid Let_def ex_owner_message_def [symmetric] rec)
      (simp add: app ex_asked_def ex_opened_def set_i_ledger_def put_digest_def put_receipt_def accepted_receipt_def ex_asked_event_def
        Let_def)
qed

section \<open>The turn\<close>

lemma ex_run6_foreign: "foreign_log (empty_ledger ''ds:main'') (k_ledger run6)"
proof -
  have "ledger_inv (k_ledger run6)"
    using reachable_inv [OF reachable_run6] versions_invD(1) by (simp add: machine_inv_def)
  moreover have "ledger_events (k_ledger run6) = [run_event1, run_event2, run_event3, run_event4, run_event5, run_event6]"
    by (simp add: run6_events ledger_events_def pushed_def Let_def)
  moreover have "\<forall>e \<in> {run_event1, run_event2, run_event3, run_event4, run_event5, run_event6}. \<not> is_interface_type (event_type e)"
    by (simp add: run_event1_def run_event2_def run_event3_def run_event4_def run_event5_def run_event6_def run_event_def
        is_interface_type_def interface_handlers_def)
  ultimately show ?thesis by (simp add: foreign_log_def ledger_events_def)
qed

lemma ex_opened_step: "interface_step toy_env (init_interface run6 T) (ex_opened T)"
  by (rule interface_step.created [OF ex_conversation_valid ex_opens])

lemma ex_opened_good: "interface_good (ex_opened T)"
  using conversations.step_good [OF init_interface_good [OF ex_run6_foreign] ex_opened_step] .

lemma ex_opened_conversation: "dict_get (conversations (ex_opened T)) ''conv:1'' = Some ex_conversation"
  by (simp add: ex_opened_def)

lemmas ex_acceptance = accept_owner_message_step [OF ex_opened_good ex_opened_conversation ex_owner_action_valid ex_accepts]

lemma ex_asked_good: "interface_good (ex_asked T)"
  using ex_acceptance(1) by (simp add: interface_step_to_def)

lemma ex_asks:
  obtains ctx where "perform_owner_action toy_env (ex_opened T) ''conv:1'' ex_owner_action ''d'' ex_inputs respond
    = answer_owner toy_env (ex_asked T) ex_conversation ex_owner_action (accepted_receipt ''turn:1'' ''conv:1'' ''message:a'' 8)
        (respond ''text'' ctx) ex_inputs"
proof -
  have len: "length (ledger_events (i_ledger (ex_asked T))) = 8" by (simp add: ex_asked_def ledger_events_def)
  obtain d where "event_delta_of (i_ledger (ex_asked T)) 0 8 = Inr d"
    using event_delta_counts [OF good_ledger_inv [OF ex_asked_good], of 0 8] len by auto
  moreover have "session_of (ex_asked T) ''conv:1'' = None" by (simp add: session_of_def ex_asked_def ex_opened_def)
  ultimately obtain ctx where ctx: "turn_context (ex_asked T) ex_conversation ex_blob 8 = Inr ctx"
    by (simp add: turn_context_def)
  have S: "conversations (ex_opened T) = [(''conv:1'', ex_conversation)]" "action_receipts (ex_opened T) = []"
    "a_state (k_activation (i_kernel (ex_opened T))) = Active" "matches_binding (ex_opened T) ''conv:1'' ex_owner_action ''d''"
    by (simp_all add: ex_opened_def matches_binding_def bindings_of_def ex_binding_def ex_owner_action_def)
  have "ar_event_cursor (accepted_receipt ''turn:1'' ''conv:1'' ''message:a'' 8) = 8" by (simp add: accepted_receipt_def)
  then show thesis using that ctx S by (simp add: perform_owner_action_def require_active_def ex_accepts)
qed

text \<open>The response is recorded whatever the lab holds.\<close>

definition ex_reply_message :: conversation_message where
  "ex_reply_message = response_message ex_conversation ''message:b'' ex_reply 0"

definition ex_answered_event :: kevent where
  "ex_answered_event = toy_event 108 ''conv:1'' 3 ''interface_response_recorded'' (response_payload ex_owner_action ''d'' ''message:a''
     ex_reply_message ex_reply ''pilot-session:c'' ''p'' None) PilotActor (Some ''node:1'') ''conv:1'' (run_key 30 @ '':response'')"

definition ex_answered :: "token_lab_events \<Rightarrow> interface_service" where
  "ex_answered T = (ex_asked T)\<lparr>i_kernel := run6\<lparr>k_ledger := pushed (pushed ex_blob_ledger ex_asked_event) ex_answered_event\<rparr>,
     conversation_cursors := [(''conv:1'', 9)], i_versions := [(''conv:1'', 3)]\<rparr>"

definition ex_told :: "token_lab_events \<Rightarrow> interface_service" where
  "ex_told T = (ex_answered T)\<lparr>conv_messages := [(''conv:1'', [ex_owner_message, ex_reply_message])]\<rparr>"

lemma ex_event_sel [simp]:
  "stream_id ex_asked_event = ''conv:1''" "idempotency_key ex_asked_event = run_key 30 @ '':owner''"
  "event_id ex_asked_event = run_event_id 105" "stream_id ex_answered_event = ''conv:1''"
  "idempotency_key ex_answered_event = run_key 30 @ '':response''" "event_id ex_answered_event = run_event_id 108"
  by (simp_all add: ex_asked_event_def ex_answered_event_def)

lemma ex_answers: "interface_record toy_env (ex_asked T) 0 ''conv:1'' ''interface_response_recorded'' (response_payload ex_owner_action ''d''
    ''message:a'' ex_reply_message ex_reply ''pilot-session:c'' ''p'' None) PilotActor (Some ''node:1'') (run_key 30 @ '':response'')
  = Inr (ex_answered_event, 9, ex_answered T)"
  by (subst toy_interface_record [where n = 108 and v = 2])
    (use ex_suffixes ex_keys in \<open>simp_all add: ex_asked_def set_i_ledger_def version_of_def ex_answered_event_def ex_answered_def
       numeral_3_eq_3 numeral_2_eq_2\<close>)

lemma ex_complete: "complete_action toy_env (ex_asked T) ex_conversation ex_owner_action ''d'' ''message:a'' ex_reply ex_inputs
  = (case observe_usage toy_env (ex_told T) ex_inputs ex_conversation ex_owner_action ex_usage of
       (Inl err, Sc) \<Rightarrow> (Inl err, Sc)
     | (Inr _, Sc) \<Rightarrow>
       let r = completed_receipt ''turn:1'' ''conv:1'' ''message:a'' ex_reply_message 9 in
       (Inr r, put_receipt r (put_decisions [\<lparr>decision_id = ''decision:1'', dec_conversation_id = ''conv:1'', dec_statement = ''go'',
          supersedes_decision_id = None\<rparr>] (put_session (advance_session None ''pilot-session:c'' ''conv:1'' ''p'' 9) Sc))))"
proof -
  have ids: "new_id ''message'' ''b'' = Inr ''message:b''" "new_id ''pilot-session'' ''c'' = Inr ''pilot-session:c''"
    by (simp_all add: new_id_def validate_id_def)
  have S: "session_of (ex_asked T) ''conv:1'' = None" by (simp add: session_of_def ex_asked_def ex_opened_def)
  have inp: "interface_uuid ex_inputs = ''b''" "session_uuid ex_inputs = ''c''" "response_time ex_inputs = 0" "response_event_time ex_inputs = 0"
    by (simp_all add: ex_inputs_def)
  have rep: "response_provider_session_id ex_reply = ''p''" "response_actions ex_reply = [RecordDecision ''decision:1'' ''go'' None]"
    "pilot_usage ex_reply = ex_usage" by (simp_all add: ex_reply_def)
  have app: "append_message (ex_answered T) ''conv:1'' ex_reply_message = Inr (ex_told T)"
    by (simp add: append_message_def ex_told_def ex_answered_def ex_asked_def)
  show ?thesis
    by (simp add: complete_action_def ids inp rep S session_identity_def ex_reply_message_def [symmetric] ex_answers app Let_def
        apply_interface_action_def split: sum.split prod.split)
qed

lemma ex_validates: "validate_actions (ex_asked T) (lease_check_time ex_inputs) (response_actions ex_reply) = Inr ()"
proof -
  have "check_cycles (snd (project_kernel (i_kernel (ex_asked T)))) = Inr ()"
    by (simp add: check_cycles_def project_kernel_def ex_asked_def visit.simps dependencies_in_def dependency_targets_def)
  then show ?thesis
    by (simp add: validate_actions_def ex_reply_def created_work_def List.map_filter_simps validate_action_def case_prod_unfold)
qed

text \<open>A lab that has already seen an observation of this identity, from another action.\<close>

definition ex_full_lab :: token_lab_events where
  "ex_full_lab = (fresh_lab ''ds:main'')\<lparr>lab := \<lparr>baselines = [], observations = [ex_observation\<lparr>observation_id := ''observation:1''\<rparr>],
     last_weekly_review_at = None\<rparr>\<rparr>"

lemma ex_observation_id: "observation_id (usage_observation ''turn:1'' ex_usage t) = ''observation:1''"
  by (simp add: usage_observation_def after_colon_def)

lemma ex_observes: "\<exists>Sc. observe_usage toy_env (ex_told (fresh_lab ''ds:main'')) ex_inputs ex_conversation ex_owner_action ex_usage = (Inr (), Sc)"
proof -
  have lab: "observations (lab (fresh_lab ''ds:main'')) = []" "tl_data_space_id (fresh_lab ''ds:main'') = ''ds:main''"
    "tl_versions (fresh_lab ''ds:main'') = []" by (simp_all add: fresh_lab_def init_token_lab_def)
  have S: "i_lab (ex_told T) = T" "i_ledger (ex_told T) = pushed (pushed ex_blob_ledger ex_asked_event) ex_answered_event" for T
    by (simp_all add: ex_told_def ex_answered_def ex_asked_def ex_opened_def)
  have app: "append_event toy (pushed (pushed ex_blob_ledger ex_asked_event) ex_answered_event) ''ds:main'' ''observation:1'' 0
      ''token_observation_recorded'' p 0 SystemActor (Some ''node:1'') (Some ''observation:1'') None (run_key 30 @ '':token-observation'')
    = Inr (toy_event 124 ''observation:1'' 1 ''token_observation_recorded'' p SystemActor (Some ''node:1'') ''observation:1''
          (run_key 30 @ '':token-observation''),
        \<lparr>outcome = Appended, result_cursor = 10, result_stream_version = 1\<rparr>,
        pushed (pushed (pushed ex_blob_ledger ex_asked_event) ex_answered_event)
          (toy_event 124 ''observation:1'' 1 ''token_observation_recorded'' p SystemActor (Some ''node:1'') ''observation:1''
          (run_key 30 @ '':token-observation'')))" for p
    by (subst toy_append [where n = 124]) (use ex_suffixes ex_keys in simp_all)
  have "observation_event_time ex_inputs = 0" "observation_time ex_inputs = 0" by (simp_all add: ex_inputs_def)
  then show ?thesis
    by (simp add: observe_usage_def service_observe_def lab_record_def S lab ex_observation_id app version_of_def lab_observe_def Let_def)
qed

lemma ex_turn_completes:
  obtains rc S' where "perform_owner_action toy_env (ex_opened (fresh_lab ''ds:main'')) ''conv:1'' ex_owner_action ''d'' ex_inputs
      (\<lambda>_ _. Inr ex_reply) = (Inr rc, S')"
    and "ar_status rc = ActionCompleted" "dict_mem ''decision:1'' (decisions S')"
proof -
  obtain Sc where "observe_usage toy_env (ex_told (fresh_lab ''ds:main'')) ex_inputs ex_conversation ex_owner_action ex_usage = (Inr (), Sc)"
    using ex_observes by blast
  then obtain S' where S': "complete_action toy_env (ex_asked (fresh_lab ''ds:main'')) ex_conversation ex_owner_action ''d'' ''message:a''
      ex_reply ex_inputs = (Inr (completed_receipt ''turn:1'' ''conv:1'' ''message:a'' ex_reply_message 9), S')"
    "dict_mem ''decision:1'' (decisions S')"
    by (simp add: ex_complete Let_def put_receipt_def put_decisions_def put_session_def)
  obtain ctx where "perform_owner_action toy_env (ex_opened (fresh_lab ''ds:main'')) ''conv:1'' ex_owner_action ''d'' ex_inputs (\<lambda>_ _. Inr ex_reply)
    = answer_owner toy_env (ex_asked (fresh_lab ''ds:main'')) ex_conversation ex_owner_action
        (accepted_receipt ''turn:1'' ''conv:1'' ''message:a'' 8) (Inr ex_reply) ex_inputs"
    by (rule ex_asks)
  also have "\<dots> = (Inr (completed_receipt ''turn:1'' ''conv:1'' ''message:a'' ex_reply_message 9), S')"
    using S' by (simp add: answer_owner_def ex_validates accepted_receipt_def)
  finally show thesis using that S'(2) by (simp add: completed_receipt_def)
qed

lemma ex_turn_fails_late:
  obtains r S' where "perform_owner_action toy_env (ex_opened ex_full_lab) ''conv:1'' ex_owner_action ''d'' ex_inputs
      (\<lambda>_ _. Inr ex_reply) = (r, S')" and "late_failure (ex_opened ex_full_lab) S' r"
proof -
  let ?rc = "accepted_receipt ''turn:1'' ''conv:1'' ''message:a'' 8"
  have "i_lab (ex_told ex_full_lab) = ex_full_lab" by (simp add: ex_told_def ex_answered_def ex_asked_def ex_opened_def)
  then obtain err where comp: "complete_action toy_env (ex_asked ex_full_lab) ex_conversation ex_owner_action ''d'' ''message:a'' ex_reply
      ex_inputs = (Inl err, ex_told ex_full_lab)"
    by (simp add: ex_complete observe_usage_def service_observe_def ex_observation_id ex_full_lab_def raise_violation_def)
  obtain r S' where fail: "fail_action toy_env (ex_told ex_full_lab) ex_conversation ex_owner_action ''d'' ?rc ex_inputs err = (r, S')"
    by fastforce
  have inv: "responded (ex_asked ex_full_lab) (ex_told ex_full_lab)" "ledger_inv (i_ledger (ex_told ex_full_lab))"
    using lost_response [OF ex_answers ex_asked_good foreign_log_refl]
      record_appends(3) [OF ex_answers good_tracks [OF ex_asked_good] interface_types(2)]
    by (simp_all add: responded_def ex_told_def)
  note out = fail_action_outcome [OF fail inv(2)]
  obtain ctx where "perform_owner_action toy_env (ex_opened ex_full_lab) ''conv:1'' ex_owner_action ''d'' ex_inputs (\<lambda>_ _. Inr ex_reply)
    = answer_owner toy_env (ex_asked ex_full_lab) ex_conversation ex_owner_action ?rc (Inr ex_reply) ex_inputs"
    by (rule ex_asks)
  also have "\<dots> = (r, S')" using comp fail by (simp add: answer_owner_def ex_validates accepted_receipt_def)
  finally have perf: "perform_owner_action toy_env (ex_opened ex_full_lab) ''conv:1'' ex_owner_action ''d'' ex_inputs (\<lambda>_ _. Inr ex_reply)
    = (r, S')" .
  obtain es where "new_events (ex_opened ex_full_lab) (ex_asked ex_full_lab) es"
    using ex_acceptance(3) by blast
  from responded_prepend [OF inv(1) this] have "responded (ex_opened ex_full_lab) S'" using responded_append out(2) by blast
  with out(1) show thesis using that [OF perf] by (simp add: late_failure_def)
qed

end
