(* ===== verification/Interface_Properties.thy ===== *)
theory Interface_Properties
  imports Interface_Run
begin

text \<open>
  The properties of conversations: what rebuilding restores and when it cannot, what an owner's
  turn may change, and the two loops of the turn. Each is applied to the conversation of
  \<open>Interface_Run\<close>.
\<close>

section \<open>Rebuilding\<close>

lemma ex_reachable_opened: "interface_reachable toy_env (ex_opened T)"
  unfolding interface_reachable_def using ex_run6_foreign ex_opened_step by blast








text \<open>
  C29: in every reachable state a conversation is stored under its identity, is valid and has a
  list of messages, and sessions and receipts are stored under theirs.
\<close>

theorem conversations_are_well_formed:
  assumes "interface_reachable env S" and "dict_get (conversations S) cid = Some c"
  shows "conv_id c = cid \<and> valid_conversation c \<and> dict_mem cid (conv_messages S)
    \<and> keyed pilot_session_id (pilot_sessions S) \<and> keyed ar_action_id (action_receipts S)"
proof -
  note shape = good_shape [OF interface_reachable_good [OF assms(1)]]
  from shape_conversation [OF shape assms(2)] shape show ?thesis by (simp add: interface_shape_def)
qed

theorem conversations_are_well_formed_witness:
  "conv_id ex_conversation = ''conv:1'' \<and> dict_mem ''conv:1'' (conv_messages (ex_opened (fresh_lab ''ds:main'')))"
  using conversations_are_well_formed [OF ex_reachable_opened ex_opened_conversation] by blast

section \<open>The turn\<close>

text \<open>
  C27: an owner's action is answered once. Performing it again, from any device and with
  any pilot, changes nothing and returns the receipt of the first time, whether the turn
  completed or failed.
\<close>

theorem repeated_action_is_idempotent:
  assumes "interface_reachable env S" and "valid_owner_message_action a"
    and "perform_owner_action env S cid a device inp respond = (Inr r, S')"
  shows "perform_owner_action env S' cid a device' inp' respond' = (Inr r, S')"
  by (rule repeated_turn [OF interface_reachable_good [OF assms(1)] assms(2,3)])

theorem repeated_action_is_idempotent_witness:
  "\<exists>r S'. ar_status r = ActionCompleted
     \<and> perform_owner_action toy_env S' ''conv:1'' ex_owner_action ''other'' ex_inputs (\<lambda>_ _. Inl (KeyError ''x'')) = (Inr r, S')"
proof -
  obtain r S' where turn: "perform_owner_action toy_env (ex_opened (fresh_lab ''ds:main'')) ''conv:1'' ex_owner_action ''d'' ex_inputs
      (\<lambda>_ _. Inr ex_reply) = (Inr r, S')" and r: "ar_status r = ActionCompleted" by (rule ex_turn_completes)
  from repeated_action_is_idempotent [OF ex_reachable_opened ex_owner_action_valid turn] r show ?thesis by blast
qed

text \<open>
  C9: the pilot acts on nothing it has not been validated for: if it raises, or its response
  fails the validation, the turn leaves the Kernel as it was but for its ledger, and no
  decision, commitment or session changes.
\<close>

theorem kernel_changes_need_validation:
  assumes "interface_reachable env S" and "valid_owner_message_action a"
    and "perform_owner_action env S cid a device inp respond = (r, S')"
    and "\<forall>ctx resp. respond (oa_text a) ctx = Inr resp \<longrightarrow>
      validate_actions S (lease_check_time inp) (response_actions resp) \<noteq> Inr ()"
  shows "i_kernel S' = (i_kernel S)\<lparr>k_ledger := i_ledger S'\<rparr>
    \<and> decisions S' = decisions S \<and> commitments S' = commitments S \<and> pilot_sessions S' = pilot_sessions S"
  using unvalidated_turn [OF interface_reachable_good [OF assms(1)] assms(2,3)] assms(4) by (auto simp: only_ledger_def)

text \<open>A pilot that reads history inside an owner's turn.\<close>

definition ex_refused_reply :: structured_interface_response where
  "ex_refused_reply = ex_reply\<lparr>response_actions := [ReadHistory ex_query]\<rparr>"

theorem kernel_changes_need_validation_witness:
  "decisions (snd (perform_owner_action toy_env (ex_opened (fresh_lab ''ds:main'')) ''conv:1'' ex_owner_action ''d'' ex_inputs
     (\<lambda>_ _. Inr ex_refused_reply))) = []"
proof -
  let ?S = "ex_opened (fresh_lab ''ds:main'')"
  obtain r S' where run: "perform_owner_action toy_env ?S ''conv:1'' ex_owner_action ''d'' ex_inputs (\<lambda>_ _. Inr ex_refused_reply) = (r, S')"
    by fastforce
  have "validate_actions ?S (lease_check_time ex_inputs) (response_actions ex_refused_reply) \<noteq> Inr ()"
    by (simp add: validate_actions_def ex_refused_reply_def created_work_def List.map_filter_simps validate_action_def
        case_prod_unfold raise_violation_def Let_def)
  from kernel_changes_need_validation [OF ex_reachable_opened ex_owner_action_valid run] this run show ?thesis
    by (simp add: ex_opened_def)
qed

text \<open>
  C28: the validation refuses a response exactly when its dependencies contain a cycle: the
  depth-first search over the projected WorkItems succeeds if and only if the relation is
  acyclic.
\<close>

theorem cycle_search_is_exact:
  "check_cycles pd = Inr () \<longleftrightarrow> acyclic {(wid, d). d \<in> set (dependencies_in pd wid)}"
  using check_cycles_exact [of pd] by (simp add: depends_in_def)

text \<open>
  The event delta always ends and counts exactly the events of the ledger after one
  cursor up to the other, by type and by stream, each page of at most 500 once.
\<close>

theorem event_delta_is_exact:
  assumes "ledger_inv L" and "after \<le> through" and "through \<le> length (ledger_events L)"
  shows "\<exists>d. event_delta_of L after through = Inr d \<and> after_cursor d = after \<and> through_cursor d = through
    \<and> event_count d = through - after
    \<and> (\<forall>ty n. (ty, n) \<in> set (event_type_counts d)
        \<longleftrightarrow> 0 < n \<and> n = length (filter (\<lambda>e. event_type e = ty) (take (through - after) (drop after (ledger_events L)))))
    \<and> sorted (map fst (event_type_counts d)) \<and> distinct (map fst (event_type_counts d))
    \<and> changed_stream_ids d = sorted_list_of_set (stream_id ` set (take (through - after) (drop after (ledger_events L))))"
  using event_delta_counts [OF assms] delta_types_mem delta_types_sorted by (simp add: ledger_span_def)

theorem event_delta_is_exact_witness:
  "\<exists>d. event_delta_of (i_ledger (ex_asked ex_full_lab)) 6 8 = Inr d \<and> event_count d = 2"
  using event_delta_is_exact [OF good_ledger_inv [OF ex_asked_good], of 6 8 ex_full_lab] by (auto simp: ex_asked_def ledger_events_def)

section \<open>Memories\<close>

text \<open>
  C30: an assessment whose understanding is longer than 512 characters is valid up to 1200
  but can never be materialized: the memory built from it does not validate, and nothing is
  recorded.
\<close>

theorem long_understanding_is_refused:
  assumes "512 < py_len (understanding a)"
  shows "\<exists>err S'. materialize_reorientation_assessment env S t uuid uuids a aid key = (Inl err, S')
    \<and> ledger_events (i_ledger S') = ledger_events (i_ledger S) \<and> node_memories S' = node_memories S"
proof -
  have "\<not> valid_node_memory \<lparr>memory_id = mid, mem_node_id = n, mem_statement = understanding a, source_blob_ref = ref\<rparr>" for mid n ref
    using assms by (simp add: valid_node_memory_def non_blank_def)
  then show ?thesis
    by (auto simp: materialize_reorientation_assessment_def put_blob_def ledger_events_def set_i_ledger_def Let_def raise_violation_def
        split: option.splits sum.splits)
qed

definition ex_long_assessment :: reorientation_assessment where
  "ex_long_assessment = (ex_assessment (run_event_id 100))\<lparr>understanding := replicate 513 (CHR ''u'')\<rparr>"

theorem long_understanding_is_refused_witness:
  "valid_reorientation_assessment ex_long_assessment
    \<and> (\<exists>err S'. materialize_reorientation_assessment toy_env (ex_opened (fresh_lab ''ds:main'')) 0 ''m'' [] ex_long_assessment ''owner:me''
        (run_key 50) = (Inl err, S'))"
proof -
  have "512 < py_len (understanding ex_long_assessment)" by (simp add: ex_long_assessment_def py_len_def)
  moreover have "valid_reorientation_assessment ex_long_assessment"
    using ex_assessment_valid by (simp add: ex_long_assessment_def valid_reorientation_assessment_def ex_assessment_def py_len_def)
  ultimately show ?thesis using long_understanding_is_refused by blast
qed

end
