(* ===== verification/Dispatcher.thy ===== *)
theory Dispatcher
  imports Interface_Checks Kernel_Exec
begin

text \<open>
  \<^verbatim>\<open>DependencyAwareDispatcher\<close> (\<^verbatim>\<open>vsm/dispatcher.py\<close>): which WorkItems are started on which
  pilot, what each worker is told, and how a finished Execution is recorded. The thread pool
  is the list of submissions whose completion has not been handled; a completion is an
  operation of its own, so any interleaving of dispatches and completions is a sequence of
  operations. The router, the naming registry and the Kernel are shared objects of the code
  and fields here.
\<close>

section \<open>State\<close>

record pilot_binding =
  binding_node_id :: string
  binding_pilot_id :: string
  binding_host_id :: string

record dispatch_assignment =
  da_work_item_id :: string
  da_execution_id :: string
  da_pilot_id :: string
  da_host_id :: string
  da_candidate_key :: string
  da_agent_name :: "string option"

definition valid_dispatch_assignment :: "dispatch_assignment \<Rightarrow> bool" where
  "valid_dispatch_assignment a \<longleftrightarrow> valid_identifier (da_work_item_id a) \<and> valid_identifier (da_execution_id a)
     \<and> valid_identifier (da_pilot_id a) \<and> valid_identifier (da_host_id a) \<and> non_blank (da_candidate_key a)
     \<and> option_all non_blank (da_agent_name a)"

record dispatch_batch =
  batch_assignments :: "dispatch_assignment list"
  parallelism :: nat
  batch_model_calls :: nat

text \<open>What is handed to the pool for one Execution, and the dispatch's key for its callback.\<close>

record submission =
  sub_execution :: execution
  sub_work :: work_item
  sub_candidate :: model_candidate
  sub_delta :: event_delta_summary
  sub_pilot_key :: string
  sub_key :: string

text \<open>The executor's \<^verbatim>\<open>validate_work_candidate\<close> is the only method of it that planning calls.\<close>

record dispatcher =
  d_kernel :: kernel
  d_router :: router
  delta_cursor :: nat
  model_registry :: "(string, model_candidate) dict option"
  candidate_check :: "(model_candidate \<Rightarrow> unit result) option"
  naming_registry :: "name_registry option"
  failover_configured :: bool
  d_futures :: "submission list"

definition init_dispatcher ::
  "kernel \<Rightarrow> router \<Rightarrow> int \<Rightarrow> (string, model_candidate) dict option \<Rightarrow> (model_candidate \<Rightarrow> unit result) option
    \<Rightarrow> name_registry option \<Rightarrow> bool \<Rightarrow> int option \<Rightarrow> dispatcher result" where
  "init_dispatcher k R startup registry check names failover max_parallelism =
     (if startup < 0 then raise_violation ''startup Projection cursor must be non-negative''
      else if check = None \<and> max_parallelism \<noteq> None
      then raise_violation ''max_parallelism requires an explicit WorkExecutor''
      else if check \<noteq> None \<and> (case max_parallelism of None \<Rightarrow> True | Some n \<Rightarrow> n \<le> 0)
      then raise_violation ''production WorkExecutor requires positive max_parallelism''
      else Inr \<lparr>d_kernel = k, d_router = R, delta_cursor = nat startup, model_registry = registry, candidate_check = check,
        naming_registry = names, failover_configured = failover, d_futures = []\<rparr>)"

section \<open>Planning\<close>

definition bindings_by_node :: "pilot_binding list \<Rightarrow> (string, pilot_binding) dict" where
  "bindings_by_node bs = dict_set_all binding_node_id [] bs"

fun collect_published :: "route_snapshot list \<Rightarrow> (string, route_snapshot) dict \<Rightarrow> (string, route_snapshot) dict result" where
  "collect_published [] d = Inr d"
| "collect_published (s # ss) d =
     (if route_state s \<noteq> Published then collect_published ss d
      else if dict_mem (route_key s) d then raise_violation (''multiple published RouteSnapshots for '' @ route_key s)
      else collect_published ss (dict_set d (route_key s) s))"

definition active_work_ids :: "kernel \<Rightarrow> string list" where
  "active_work_ids k = map exec_work_item_id
     (filter (\<lambda>e. exec_state e \<in> {Requested, ExecActive}) (dict_values (k_executions k)))"

text \<open>The generator under \<^verbatim>\<open>any\<close>: it stops at the first dependency that is not completed.\<close>

fun all_completed :: "kernel \<Rightarrow> string list \<Rightarrow> bool result" where
  "all_completed k [] = Inr True"
| "all_completed k (i # is) =
     (case dict_get (k_work_items k) i of
        None \<Rightarrow> Inl (KeyError i)
      | Some w \<Rightarrow> if work_state w \<noteq> Completed then Inr False else all_completed k is)"

fun eligible_work :: "kernel \<Rightarrow> string list option \<Rightarrow> work_item list \<Rightarrow> work_item list result" where
  "eligible_work k allowed [] = Inr []"
| "eligible_work k allowed (w # ws) =
     (if \<not> option_all (\<lambda>ids. work_item_id w \<in> set ids) allowed then eligible_work k allowed ws
      else if work_state w \<noteq> Ready \<or> work_item_id w \<in> set (active_work_ids k) then eligible_work k allowed ws
      else bind_result (all_completed k (dependency_targets (k_work_edges k) (work_item_id w))) (\<lambda>free.
        if \<not> free then eligible_work k allowed ws
        else bind_result (eligible_work k allowed ws) (\<lambda>rest. Inr (w # rest))))"

type_synonym plan = "work_item \<times> pilot_binding \<times> model_candidate"

text \<open>
  The candidate of a published snapshot: what the router selects, if it is registered and the
  executor takes it. \<open>now\<close> below is what \<^verbatim>\<open>evidence_cursor()\<close> returns during the call.
\<close>

definition select_candidate ::
  "float_env \<Rightarrow> router \<Rightarrow> (string, model_candidate) dict \<Rightarrow> (model_candidate \<Rightarrow> unit result) \<Rightarrow> string \<Rightarrow> route_snapshot
    \<Rightarrow> model_candidate result" where
  "select_candidate f R registry check unregistered s =
     bind_result (select_production f R s) (\<lambda>selected.
     case dict_get registry (score_candidate_key selected) of
       None \<Rightarrow> raise_violation unregistered
     | Some c \<Rightarrow> bind_result (check c) (\<lambda>_. Inr c))"

text \<open>What planning reads besides the WorkItems: bindings by Node, published snapshots by route.\<close>

record plan_env =
  env_bindings :: "(string, pilot_binding) dict"
  env_published :: "(string, route_snapshot) dict"
  env_cursor :: nat
  env_select :: "string \<Rightarrow> route_snapshot \<Rightarrow> model_candidate result"

definition plan_work :: "plan_env \<Rightarrow> work_item \<Rightarrow> plan result" where
  "plan_work v w =
     (case dict_get (env_bindings v) (delegated_to_node_id w) of
        None \<Rightarrow> raise_violation (''no PilotBinding for delegated Node '' @ delegated_to_node_id w)
      | Some b \<Rightarrow>
        (case dict_get (env_published v) (work_route_key w) of
           None \<Rightarrow> raise_violation (''no published RouteSnapshot for '' @ work_route_key w)
         | Some s \<Rightarrow>
           if evidence_cursor s \<noteq> env_cursor v
           then raise_violation (''published RouteSnapshot is stale for '' @ work_route_key w)
           else bind_result (env_select v ''RouteSnapshot selected an unregistered ModelCandidate'' s) (\<lambda>c.
             Inr (w, b, c))))"

fun plan_all :: "plan_env \<Rightarrow> work_item list \<Rightarrow> plan list result" where
  "plan_all v [] = Inr []"
| "plan_all v (w # ws) =
     bind_result (plan_work v w) (\<lambda>p. bind_result (plan_all v ws) (\<lambda>ps. Inr (p # ps)))"

definition plan_ready ::
  "float_env \<Rightarrow> dispatcher \<Rightarrow> nat \<Rightarrow> pilot_binding list \<Rightarrow> string list option \<Rightarrow> plan list result" where
  "plan_ready f D now bindings allowed =
     (let k = d_kernel D; bs = bindings_by_node bindings in
      bind_result (require_active (k_activation k) ''dispatch'') (\<lambda>_.
      case (model_registry D, candidate_check D) of
        (Some registry, Some check) \<Rightarrow>
          if length bs \<noteq> length bindings then raise_violation ''PilotBinding node identities must be unique''
          else bind_result (collect_published (dict_values (k_route_snapshots k)) []) (\<lambda>published.
            bind_result (eligible_work k allowed (sort_key work_item_id (dict_values (k_work_items k)))) (\<lambda>ws.
            plan_all \<lparr>env_bindings = bs, env_published = published, env_cursor = now,
              env_select = select_candidate f (d_router D) registry check\<rparr> ws))
      | _ \<Rightarrow> raise_violation ''dispatch requires an explicit production WorkExecutor''))"

section \<open>Starting\<close>

text \<open>The random parts and clock readings of one started WorkItem.\<close>

record start_input =
  execution_uuid :: string
  assignment_uuid :: string
  creation_time :: time
  assignment_time :: time

definition requested_execution :: "string \<Rightarrow> plan \<Rightarrow> execution" where
  "requested_execution eid = (\<lambda>(w, b, c). \<lparr>execution_id = eid, exec_data_space_id = work_data_space_id w,
     exec_node_id = delegated_to_node_id w, exec_work_item_id = work_item_id w, exec_pilot_id = binding_pilot_id b,
     model_candidate_key = candidate_key c, exec_state = Requested, provider_session_id = None,
     pilot_host_id = binding_host_id b, pause_reason = None, exec_agent_name = None\<rparr>)"

definition allocate_name ::
  "dispatcher \<Rightarrow> string \<Rightarrow> string \<Rightarrow> plan \<Rightarrow> agent_name_assignment option result \<times> dispatcher" where
  "allocate_name D uuid eid = (\<lambda>(w, b, c).
     case naming_registry D of
       None \<Rightarrow> (Inr None, D)
     | Some R \<Rightarrow>
       (case new_id ''assignment'' uuid of Inl err \<Rightarrow> (Inl err, D) | Inr aid \<Rightarrow>
        (case allocate R aid (work_data_space_id w) (work_item_id w) eid (delegated_to_node_id w) (binding_pilot_id b) c of
           (Inl err, R') \<Rightarrow> (Inl err, D\<lparr>naming_registry := Some R'\<rparr>)
         | (Inr a, R') \<Rightarrow> (Inr (Some a), D\<lparr>naming_registry := Some R'\<rparr>))))"

definition assigned :: "execution \<Rightarrow> agent_name_assignment option \<Rightarrow> execution" where
  "assigned e a = (case a of None \<Rightarrow> e | Some x \<Rightarrow> e\<lparr>exec_agent_name := Some (assignment_agent_name x)\<rparr>)"

definition assignment_of :: "execution \<Rightarrow> agent_name_assignment option \<Rightarrow> dispatch_assignment" where
  "assignment_of e a = \<lparr>da_work_item_id = exec_work_item_id e, da_execution_id = execution_id e, da_pilot_id = exec_pilot_id e,
     da_host_id = pilot_host_id e, da_candidate_key = model_candidate_key e, da_agent_name = map_option assignment_agent_name a\<rparr>"

text \<open>One turn of the loop that creates the Executions; what it changed before it raised stays.\<close>

definition record_name ::
  "hashing \<Rightarrow> dispatcher \<Rightarrow> start_input \<Rightarrow> execution \<Rightarrow> agent_name_assignment option \<Rightarrow> string \<Rightarrow> unit result \<times> dispatcher" where
  "record_name h D inp e a key =
     (case (a, naming_registry D) of
        (Some x, Some R) \<Rightarrow>
          (case record_agent_name_assignment h (d_kernel D) (assignment_time inp) R x ''system:dispatcher''
              (key @ '':'' @ execution_id e @ '':agent-name'') of
             Inl err \<Rightarrow> (Inl err, D)
           | Inr (_, k) \<Rightarrow> (Inr (), D\<lparr>d_kernel := k\<rparr>))
      | _ \<Rightarrow> (Inr (), D))"

definition start_work ::
  "hashing \<Rightarrow> dispatcher \<Rightarrow> start_input \<Rightarrow> string \<Rightarrow> string \<Rightarrow> plan
    \<Rightarrow> (execution \<times> plan \<times> dispatch_assignment) result \<times> dispatcher" where
  "start_work h D inp aid key p =
     (case new_id ''execution'' (execution_uuid inp) of Inl err \<Rightarrow> (Inl err, D) | Inr eid \<Rightarrow>
      (case allocate_name D (assignment_uuid inp) eid p of (Inl err, Da) \<Rightarrow> (Inl err, Da) | (Inr a, Da) \<Rightarrow>
       (let e = requested_execution eid p in
        if \<not> valid_execution e then (Inl (ValidationError ''Execution''), Da)
        else case create_execution h (d_kernel Da) (creation_time inp) e aid (key @ '':'' @ work_item_id (fst p)) of
          Inl err \<Rightarrow> (Inl err, Da)
        | Inr (_, k) \<Rightarrow>
          (case record_name h (Da\<lparr>d_kernel := k\<rparr>) inp e a key of (Inl err, Db) \<Rightarrow> (Inl err, Db) | (Inr _, Db) \<Rightarrow>
           (let x = assigned e a; d = assignment_of x a in
            if \<not> valid_dispatch_assignment d then (Inl (ValidationError ''DispatchAssignment''), Db)
            else (Inr (x, p, d), Db))))))"

fun start_all ::
  "hashing \<Rightarrow> dispatcher \<Rightarrow> (nat \<Rightarrow> start_input) \<Rightarrow> nat \<Rightarrow> string \<Rightarrow> string \<Rightarrow> plan list
    \<Rightarrow> (execution \<times> plan \<times> dispatch_assignment) list result \<times> dispatcher" where
  "start_all h D inp i aid key [] = (Inr [], D)"
| "start_all h D inp i aid key (p # ps) =
     (case start_work h D (inp i) aid key p of (Inl err, Da) \<Rightarrow> (Inl err, Da) | (Inr x, Da) \<Rightarrow>
      (case start_all h Da inp (Suc i) aid key ps of (Inl err, Db) \<Rightarrow> (Inl err, Db) | (Inr xs, Db) \<Rightarrow> (Inr (x # xs), Db)))"

section \<open>The event delta of a dispatch\<close>

fun drain_page :: "payload_dict stored_event list \<Rightarrow> nat \<times> delta_acc \<Rightarrow> (nat \<times> delta_acc) result" where
  "drain_page [] s = Inr s"
| "drain_page (x # xs) (cur, a) =
     (if cursor x \<noteq> cur + 1 then raise_violation ''Event Ledger cursor is not contiguous''
      else drain_page xs (cursor x, count_event a (stored x)))"

lemma drain_page_cursor: "drain_page xs (cur, a) = Inr (cur', a') \<Longrightarrow> cur' = cur + length xs"
  by (induction xs arbitrary: cur a) (fastforce split: if_splits)+

function drain_loop :: "kledger \<Rightarrow> nat \<Rightarrow> delta_acc \<Rightarrow> (nat \<times> delta_acc) result" where
  "drain_loop L cur a =
     (case ledger_page L (int cur) 500 of
        Inl err \<Rightarrow> Inl err
      | Inr page \<Rightarrow>
        (if page = [] then Inr (cur, a)
         else case drain_page page (cur, a) of
           Inl err \<Rightarrow> Inl err
         | Inr (cur', a') \<Rightarrow> drain_loop L cur' a'))"
  by pat_completeness auto
termination
  by (relation "measure (\<lambda>(L, cur, a). length (l_events L) - cur)")
    (auto simp: ledger_page_def dest!: drain_page_cursor split: if_splits)

declare drain_loop.simps [simp del]

definition dispatch_delta :: "dispatcher \<Rightarrow> (event_delta_summary \<times> dispatcher) result" where
  "dispatch_delta D =
     bind_result (drain_loop (k_ledger (d_kernel D)) (delta_cursor D) \<lparr>acc_count = 0, acc_types = [], acc_streams = []\<rparr>) (\<lambda>(cur, a).
       Inr (\<lparr>after_cursor = delta_cursor D, through_cursor = cur, event_count = acc_count a,
              event_type_counts = sort_key fst (acc_types a), changed_stream_ids = sort (acc_streams a)\<rparr>,
            D\<lparr>delta_cursor := cur\<rparr>))"

section \<open>Dispatch\<close>

definition submit :: "event_delta_summary \<Rightarrow> string \<Rightarrow> (execution \<times> plan \<times> dispatch_assignment) list \<Rightarrow> submission list" where
  "submit d key xs = map (\<lambda>(e, (w, b, c), _). \<lparr>sub_execution = e, sub_work = w, sub_candidate = c, sub_delta = d,
     sub_pilot_key = key @ '':'' @ execution_id e @ '':pilot'', sub_key = key\<rparr>) xs"

text \<open>
  Planning reads the Kernel without the lock, and the rest of the call works on the plans: the
  two parts are separate definitions, so that another dispatch may run in between.
\<close>

definition launch ::
  "hashing \<Rightarrow> dispatcher \<Rightarrow> (nat \<Rightarrow> start_input) \<Rightarrow> string \<Rightarrow> string \<Rightarrow> plan list \<Rightarrow> dispatch_batch result \<times> dispatcher" where
  "launch h D inp aid key plans =
     (case start_all h D inp 0 aid key plans of (Inl err, Da) \<Rightarrow> (Inl err, Da) | (Inr xs, Da) \<Rightarrow>
      (case dispatch_delta Da of Inl err \<Rightarrow> (Inl err, Da) | Inr (d, Db) \<Rightarrow>
       (let as = map (\<lambda>(_, _, a). a) xs in
        (Inr \<lparr>batch_assignments = as, parallelism = length as, batch_model_calls = length as\<rparr>,
         Db\<lparr>d_futures := d_futures Db @ submit d key xs\<rparr>))))"

definition dispatch_ready ::
  "hashing \<Rightarrow> float_env \<Rightarrow> dispatcher \<Rightarrow> nat \<Rightarrow> (nat \<Rightarrow> start_input) \<Rightarrow> pilot_binding list \<Rightarrow> string \<Rightarrow> string \<Rightarrow> string list option
    \<Rightarrow> dispatch_batch result \<times> dispatcher" where
  "dispatch_ready h f D now inp bindings aid key allowed =
     (case plan_ready f D now bindings allowed of
        Inl err \<Rightarrow> (Inl err, D)
      | Inr plans \<Rightarrow> launch h D inp aid key plans)"

section \<open>Preflight\<close>

definition published_count :: "kernel \<Rightarrow> nat" where
  "published_count k = length (filter (\<lambda>s. route_state s = Published) (dict_values (k_route_snapshots k)))"

definition published_routes :: "kernel \<Rightarrow> (string, route_snapshot) dict" where
  "published_routes k = dict_set_all route_key [] (filter (\<lambda>s. route_state s = Published) (dict_values (k_route_snapshots k)))"

text \<open>Both generators over the dependencies, with the KeyError of an unknown one.\<close>

fun unavailable_dependency :: "kernel \<Rightarrow> string list \<Rightarrow> string list \<Rightarrow> bool result" where
  "unavailable_dependency k ids [] = Inr False"
| "unavailable_dependency k ids (i # is) =
     (if i \<in> set ids then unavailable_dependency k ids is
      else case dict_get (k_work_items k) i of
        None \<Rightarrow> Inl (KeyError i)
      | Some w \<Rightarrow> if work_state w \<noteq> Completed then Inr True else unavailable_dependency k ids is)"

definition preflight_work :: "kernel \<Rightarrow> plan_env \<Rightarrow> string list \<Rightarrow> work_state set \<Rightarrow> string \<Rightarrow> bool result" where
  "preflight_work k v ids states wid =
     (let targets = dependency_targets (k_work_edges k) wid in
      case dict_get (k_work_items k) wid of
        None \<Rightarrow> raise_violation (''resume WorkItem is not ready: '' @ wid)
      | Some w \<Rightarrow>
        if work_state w \<notin> states then raise_violation (''resume WorkItem is not ready: '' @ wid)
        else if \<not> dict_mem (delegated_to_node_id w) (env_bindings v)
        then raise_violation (''resume WorkItem has no PilotBinding: '' @ wid)
        else bind_result (unavailable_dependency k ids targets) (\<lambda>unavailable.
          if unavailable then raise_violation (''resume WorkItem has an unavailable dependency: '' @ wid)
          else bind_result (all_completed k targets) (\<lambda>startable.
            case dict_get (env_published v) (work_route_key w) of
              None \<Rightarrow> raise_violation (''resume WorkItem route is unavailable or stale: '' @ wid)
            | Some s \<Rightarrow>
              if evidence_cursor s \<noteq> env_cursor v
              then raise_violation (''resume WorkItem route is unavailable or stale: '' @ wid)
              else bind_result (env_select v ''resume route selected an unregistered candidate'' s) (\<lambda>_. Inr startable))))"

text \<open>The number of WorkItems that could start at once.\<close>

fun preflight_all :: "kernel \<Rightarrow> plan_env \<Rightarrow> string list \<Rightarrow> work_state set \<Rightarrow> string list \<Rightarrow> nat result" where
  "preflight_all k v ids states [] = Inr 0"
| "preflight_all k v ids states (wid # wids) =
     bind_result (preflight_work k v ids states wid) (\<lambda>startable.
     bind_result (preflight_all k v ids states wids) (\<lambda>n. Inr (if startable then n + 1 else n)))"

definition preflight_ready ::
  "float_env \<Rightarrow> dispatcher \<Rightarrow> nat \<Rightarrow> pilot_binding list \<Rightarrow> string list \<Rightarrow> bool \<Rightarrow> unit result" where
  "preflight_ready f D now bindings ids prepare =
     (let k = d_kernel D; bs = bindings_by_node bindings in
      case (ids = [], model_registry D, candidate_check D) of
        (False, Some registry, Some check) \<Rightarrow>
          if length bs \<noteq> length bindings then raise_violation ''PilotBinding node identities must be unique''
          else if length (published_routes k) \<noteq> published_count k
          then raise_violation ''multiple published RouteSnapshots for a route''
          else bind_result (preflight_all k \<lparr>env_bindings = bs, env_published = published_routes k, env_cursor = now,
              env_select = select_candidate f (d_router D) registry check\<rparr> ids
              (if prepare then {Proposed, Ready, WorkPaused} else {Ready}) (sort (remdups ids))) (\<lambda>n.
            if n = 0 then raise_violation ''resume selection has no dependency-ready WorkItem'' else Inr ())
      | _ \<Rightarrow> raise_violation ''resume dispatch requires work IDs and production WorkExecutor'')"

section \<open>Completion\<close>

text \<open>
  What the future of a submission yields. The three errors of the host that carry a receipt
  are recorded like a normal outcome.
\<close>

datatype future_outcome =
    WorkOutcome pilot_receipt
  | ReceiptError pilot_receipt
  | HostUnreachable string string
  | UnexpectedError string

record finish_input =
  finish_time :: time
  fallback_time :: time
  receipt_uuid :: string
  error_object :: "string \<Rightarrow> string \<Rightarrow> string"

definition failed_receipt :: "string \<Rightarrow> string \<Rightarrow> model_candidate \<Rightarrow> string \<Rightarrow> pilot_receipt" where
  "failed_receipt rid st c err = \<lparr>receipt_id = rid, receipt_status = st, requested_model = candidate_model_snapshot c,
     actual_model = None, receipt_session_id = None, receipt_usage = None, receipt_result = None, receipt_error = Some err\<rparr>"

definition lookup_candidate :: "dispatcher \<Rightarrow> string \<Rightarrow> model_candidate result" where
  "lookup_candidate D key =
     (case model_registry D of None \<Rightarrow> Inl (TypeError ''model_registry'') | Some registry \<Rightarrow>
      (case dict_get registry key of None \<Rightarrow> Inl (KeyError key) | Some c \<Rightarrow> Inr c))"

definition finish_receipt ::
  "hashing \<Rightarrow> dispatcher \<Rightarrow> time \<Rightarrow> execution \<Rightarrow> pilot_receipt \<Rightarrow> string \<Rightarrow> unit result \<times> dispatcher" where
  "finish_receipt h D t e r key =
     (case record_pilot_execution_receipt h (d_kernel D) t (execution_id e) r (exec_pilot_id e) key of
        Inl err \<Rightarrow> (Inl err, D)
      | Inr (_, k) \<Rightarrow> (Inr (), D\<lparr>d_kernel := k\<rparr>))"

text \<open>The result also names the instance whose failover is requested, with its idempotency key.\<close>

definition finish_execution ::
  "hashing \<Rightarrow> dispatcher \<Rightarrow> finish_input \<Rightarrow> submission \<Rightarrow> future_outcome \<Rightarrow> unit result \<times> dispatcher \<times> (string \<times> string) option" where
  "finish_execution h D inp s y =
     (let e = sub_execution s; D = D\<lparr>d_futures := remove1 s (d_futures D)\<rparr>; pre = sub_key s @ '':'' @ execution_id e in
      case y of
        WorkOutcome r \<Rightarrow> (let (u, D') = finish_receipt h D (finish_time inp) e r (pre @ '':receipt'') in (u, D', None))
      | ReceiptError r \<Rightarrow> (let (u, D') = finish_receipt h D (finish_time inp) e r (pre @ '':receipt'') in (u, D', None))
      | HostUnreachable rid message \<Rightarrow>
          (case lookup_candidate D (model_candidate_key e) of Inl err \<Rightarrow> (Inl err, D, None) | Inr c \<Rightarrow>
           (case finish_receipt h D (finish_time inp) e
               (failed_receipt rid ''transport_unknown'' c (error_object inp ''ReceiptUnreachable'' message))
               (pre @ '':receipt-unreachable'') of
              (Inl err, D') \<Rightarrow> (Inl err, D', None)
            | (Inr _, D') \<Rightarrow>
              (Inr (), D', if failover_configured D' then Some (pilot_host_id e, pre @ '':environment-failover'') else None)))
      | UnexpectedError message \<Rightarrow>
          (let attempt = bind_result (lookup_candidate D (model_candidate_key e)) (\<lambda>c.
               bind_result (new_id ''receipt'' (receipt_uuid inp)) (\<lambda>rid.
               record_pilot_execution_receipt h (d_kernel D) (finish_time inp) (execution_id e)
                 (failed_receipt rid ''failed'' c (error_object inp ''UnexpectedDispatchFailure'' message)) (exec_pilot_id e)
                 (pre @ '':unexpected-dispatch-failure'')))
           in case attempt of
             Inr (_, k) \<Rightarrow> (Inr (), D\<lparr>d_kernel := k\<rparr>, None)
           | Inl _ \<Rightarrow>
             (case set_execution_state h (d_kernel D) (fallback_time inp) (execution_id e) ExecFailed SystemActor (exec_pilot_id e)
                 (pre @ '':unexpected-dispatch-failure'') None of
                Inl err \<Rightarrow> (Inl err, D, None)
              | Inr (_, k) \<Rightarrow> (Inr (), D\<lparr>d_kernel := k\<rparr>, None))))"

end
