(* ===== verification/Dispatcher_Plan.thy ===== *)
theory Dispatcher_Plan
  imports Dispatcher Kernel_Invariants
begin

text \<open>
  What planning and the preflight decide. Planning takes exactly the startable WorkItems, in
  the order of their ids, or fails; the preflight looks at the same conditions, so planning
  succeeds after it.
\<close>

section \<open>Which WorkItems are planned\<close>

definition dependencies_done :: "kernel \<Rightarrow> string \<Rightarrow> bool" where
  "dependencies_done k wid \<longleftrightarrow> (\<forall>i \<in> set (dependency_targets (k_work_edges k) wid).
     \<exists>w. dict_get (k_work_items k) i = Some w \<and> work_state w = Completed)"

definition startable :: "kernel \<Rightarrow> string list option \<Rightarrow> work_item \<Rightarrow> bool" where
  "startable k allowed w \<longleftrightarrow> option_all (\<lambda>ids. work_item_id w \<in> set ids) allowed \<and> work_state w = Ready
     \<and> work_item_id w \<notin> set (active_work_ids k) \<and> dependencies_done k (work_item_id w)"

lemma all_completed_Inr:
  "all_completed k is = Inr b \<Longrightarrow> b \<longleftrightarrow> (\<forall>i \<in> set is. \<exists>w. dict_get (k_work_items k) i = Some w \<and> work_state w = Completed)"
  by (induction "is") (auto split: option.splits if_splits)

lemma all_completed_done:
  "all_completed k (dependency_targets (k_work_edges k) wid) = Inr b \<Longrightarrow> b \<longleftrightarrow> dependencies_done k wid"
  by (simp add: dependencies_done_def all_completed_Inr)

lemma eligible_work_exact: "eligible_work k allowed ws = Inr es \<Longrightarrow> es = filter (startable k allowed) ws"
proof (induction ws arbitrary: es)
  case (Cons w ws)
  then show ?case
    by (auto simp: startable_def bind_result_Inr dest!: all_completed_done split: if_splits)
qed simp

text \<open>The only way it fails is a dependency that does not exist.\<close>

lemma eligible_work_succeeds:
  assumes "\<And>w. w \<in> set ws \<Longrightarrow> option_all (\<lambda>ids. work_item_id w \<in> set ids) allowed \<Longrightarrow>
      succeeds (all_completed k (dependency_targets (k_work_edges k) (work_item_id w)))"
  shows "eligible_work k allowed ws = Inr (filter (startable k allowed) ws)"
proof -
  have "succeeds (eligible_work k allowed ws)"
    using assms
  proof (induction ws)
    case (Cons w ws)
    then obtain es where es: "eligible_work k allowed ws = Inr es" by auto
    show ?case
    proof (cases "option_all (\<lambda>ids. work_item_id w \<in> set ids) allowed")
      case True
      with Cons.prems obtain b where "all_completed k (dependency_targets (k_work_edges k) (work_item_id w)) = Inr b" by auto
      with es show ?thesis by (cases b) simp_all
    qed (simp add: es)
  qed simp
  then show ?thesis using eligible_work_exact by auto
qed

section \<open>The plan of one WorkItem\<close>

lemma select_candidate_Inr: "select_candidate f R registry check m s = Inr c \<longleftrightarrow>
    (\<exists>sc. select_production f R s = Inr sc \<and> dict_get registry (score_candidate_key sc) = Some c \<and> succeeds (check c))"
  by (auto simp: select_candidate_def bind_result_Inr split: option.splits)

lemma plan_work_Inr: "plan_work v w = Inr p \<longleftrightarrow> (\<exists>b s c. p = (w, b, c)
    \<and> dict_get (env_bindings v) (delegated_to_node_id w) = Some b \<and> dict_get (env_published v) (work_route_key w) = Some s
    \<and> evidence_cursor s = env_cursor v \<and> env_select v ''RouteSnapshot selected an unregistered ModelCandidate'' s = Inr c)"
  by (auto simp: plan_work_def bind_result_Inr split: option.splits)

lemma plan_all_Inr: "plan_all v ws = Inr ps \<longleftrightarrow> list_all2 (\<lambda>w p. plan_work v w = Inr p) ws ps"
  by (induction ws arbitrary: ps) (auto simp: bind_result_Inr list_all2_Cons1)

lemma plan_all_works: "plan_all v ws = Inr ps \<Longrightarrow> map fst ps = ws"
  by (induction ws arbitrary: ps) (auto simp: bind_result_Inr plan_work_Inr)

lemma plan_all_mem: "plan_all v ws = Inr ps \<Longrightarrow> p \<in> set ps \<Longrightarrow> plan_work v (fst p) = Inr p \<and> fst p \<in> set ws"
  by (induction ws arbitrary: ps) (auto simp: bind_result_Inr plan_work_Inr)

lemma plan_all_succeeds: "(\<And>w. w \<in> set ws \<Longrightarrow> succeeds (plan_work v w)) \<Longrightarrow> succeeds (plan_all v ws)"
  by (induction ws) (auto simp: bind_result_Inr)

section \<open>Bindings and published routes\<close>

lemma bindings_get: "dict_get (bindings_by_node bs) n = Some b \<Longrightarrow> b \<in> set bs \<and> binding_node_id b = n"
proof -
  assume get: "dict_get (bindings_by_node bs) n = Some b"
  have "keyed binding_node_id (bindings_by_node bs)" by (simp add: bindings_by_node_def keyed_set_all)
  from keyed_get [OF this get] show ?thesis
    using dict_get_values [OF get] values_dict_set_all [of binding_node_id "[]" bs] by (auto simp: bindings_by_node_def)
qed

lemma length_dict_set_all: "distinct (map fst d) \<Longrightarrow> length (dict_set_all key d xs) = card (key ` set xs \<union> fst ` set d)"
proof -
  assume d: "distinct (map fst d)"
  then have "distinct (map fst (dict_set_all key d xs))" by (induction xs arbitrary: d) simp_all
  from distinct_card [OF this] have "length (dict_set_all key d xs) = card (set (map fst (dict_set_all key d xs)))" by simp
  moreover have "set (map fst (dict_set_all key d xs)) = key ` set xs \<union> fst ` set d"
    using dict_mem_set_all [of _ key d xs] by (intro set_eqI) (simp add: dict_mem_def)
  ultimately show ?thesis by simp
qed

lemma length_dict_set_all_distinct: "length (dict_set_all key [] xs) = length xs \<longleftrightarrow> distinct (map key xs)"
  using length_dict_set_all [of "[]" key xs] distinct_card [of "map key xs"] card_distinct [of "map key xs"] by auto

definition published_snapshots :: "kernel \<Rightarrow> route_snapshot list" where
  "published_snapshots k = filter (\<lambda>s. route_state s = Published) (dict_values (k_route_snapshots k))"

lemma published_routes_get: "dict_get (published_routes k) r = Some s \<Longrightarrow> s \<in> set (published_snapshots k) \<and> route_key s = r"
proof -
  assume get: "dict_get (published_routes k) r = Some s"
  have "keyed route_key (published_routes k)" by (simp add: published_routes_def keyed_set_all)
  from keyed_get [OF this get] show ?thesis
    using dict_get_values [OF get] values_dict_set_all [of route_key "[]" "published_snapshots k"]
    by (auto simp: published_routes_def published_snapshots_def)
qed

lemma collect_published_Inr: "collect_published ss d = Inr d' \<longleftrightarrow>
    d' = dict_set_all route_key d (filter (\<lambda>s. route_state s = Published) ss)
    \<and> distinct (map route_key (filter (\<lambda>s. route_state s = Published) ss))
    \<and> (\<forall>s \<in> set ss. route_state s = Published \<longrightarrow> \<not> dict_mem (route_key s) d)"
  by (induction ss arbitrary: d) (auto simp: image_iff)

lemma collect_published_routes: "collect_published (dict_values (k_route_snapshots k)) [] = Inr d \<longleftrightarrow>
    d = published_routes k \<and> length (published_routes k) = published_count k"
  using length_dict_set_all_distinct [of route_key "published_snapshots k"]
  by (auto simp: collect_published_Inr published_routes_def published_count_def published_snapshots_def)

section \<open>The plans of a dispatch\<close>

definition plan_env_of :: "float_env \<Rightarrow> dispatcher \<Rightarrow> nat \<Rightarrow> pilot_binding list \<Rightarrow> (string, model_candidate) dict
    \<Rightarrow> (model_candidate \<Rightarrow> unit result) \<Rightarrow> plan_env" where
  "plan_env_of f D now bindings registry check = \<lparr>env_bindings = bindings_by_node bindings,
     env_published = published_routes (d_kernel D), env_cursor = now, env_select = select_candidate f (d_router D) registry check\<rparr>"

lemma plan_ready_Inr: "plan_ready f D now bindings allowed = Inr ps \<longleftrightarrow>
    a_state (k_activation (d_kernel D)) = Active \<and> (\<exists>registry check ws. model_registry D = Some registry
    \<and> candidate_check D = Some check \<and> length (bindings_by_node bindings) = length bindings
    \<and> length (published_routes (d_kernel D)) = published_count (d_kernel D)
    \<and> eligible_work (d_kernel D) allowed (sort_key work_item_id (dict_values (k_work_items (d_kernel D)))) = Inr ws
    \<and> plan_all (plan_env_of f D now bindings registry check) ws = Inr ps)"
proof (cases "model_registry D"; cases "candidate_check D")
  fix registry check
  assume "model_registry D = Some registry" "candidate_check D = Some check"
  then show ?thesis
    by (auto simp: plan_ready_def plan_env_of_def bind_result_Inr Let_def collect_published_routes require_active_def)
qed (simp_all add: plan_ready_def bind_result_Inr Let_def)

definition startable_work :: "kernel \<Rightarrow> string list option \<Rightarrow> work_item list" where
  "startable_work k allowed = filter (startable k allowed) (sort_key work_item_id (dict_values (k_work_items k)))"

text \<open>Where the candidate of a plan comes from.\<close>

definition planned_from :: "float_env \<Rightarrow> dispatcher \<Rightarrow> nat \<Rightarrow> pilot_binding list \<Rightarrow> plan \<Rightarrow> bool" where
  "planned_from f D now bindings = (\<lambda>(w, b, c). b \<in> set bindings \<and> binding_node_id b = delegated_to_node_id w
     \<and> (\<exists>s sc registry check. s \<in> set (published_snapshots (d_kernel D)) \<and> route_key s = work_route_key w
        \<and> evidence_cursor s = now \<and> select_production f (d_router D) s = Inr sc
        \<and> model_registry D = Some registry \<and> dict_get registry (score_candidate_key sc) = Some c
        \<and> candidate_check D = Some check \<and> succeeds (check c)))"

lemma plan_ready_exact:
  assumes "plan_ready f D now bindings allowed = Inr ps"
  shows "map fst ps = startable_work (d_kernel D) allowed" and "list_all (planned_from f D now bindings) ps"
    and "a_state (k_activation (d_kernel D)) = Active"
proof -
  from assms obtain registry check ws where env: "model_registry D = Some registry" "candidate_check D = Some check"
    and ws: "eligible_work (d_kernel D) allowed (sort_key work_item_id (dict_values (k_work_items (d_kernel D)))) = Inr ws"
    and ps: "plan_all (plan_env_of f D now bindings registry check) ws = Inr ps"
    by (auto simp: plan_ready_Inr)
  show "map fst ps = startable_work (d_kernel D) allowed"
    using plan_all_works [OF ps] eligible_work_exact [OF ws] by (simp add: startable_work_def)
  have "planned_from f D now bindings p" if "p \<in> set ps" for p
    using plan_all_mem [OF ps that] env
    by (auto simp: plan_work_Inr plan_env_of_def select_candidate_Inr planned_from_def
        dest!: bindings_get published_routes_get)
  then show "list_all (planned_from f D now bindings) ps" by (simp add: list_all_iff)
  show "a_state (k_activation (d_kernel D)) = Active" using assms by (simp add: plan_ready_Inr)
qed

section \<open>The preflight\<close>

lemma preflight_work_Inr: "preflight_work k v ids states wid = Inr b \<Longrightarrow>
    \<exists>w s c. dict_get (k_work_items k) wid = Some w \<and> work_state w \<in> states
    \<and> dict_mem (delegated_to_node_id w) (env_bindings v) \<and> all_completed k (dependency_targets (k_work_edges k) wid) = Inr b
    \<and> dict_get (env_published v) (work_route_key w) = Some s \<and> evidence_cursor s = env_cursor v
    \<and> env_select v ''resume route selected an unregistered candidate'' s = Inr c"
  by (auto simp: preflight_work_def bind_result_Inr Let_def split: option.splits if_splits)

lemma preflight_all_Inr: "preflight_all k v ids states wids = Inr n \<Longrightarrow>
    (\<forall>wid \<in> set wids. succeeds (preflight_work k v ids states wid))
    \<and> (0 < n \<longrightarrow> (\<exists>wid \<in> set wids. preflight_work k v ids states wid = Inr True))"
  by (induction wids arbitrary: n) (auto simp: bind_result_Inr split: if_splits)

lemma preflight_ready_Inr:
  assumes "preflight_ready f D now bindings ids prepare = Inr ()"
  obtains registry check n where "model_registry D = Some registry" and "candidate_check D = Some check"
    and "length (bindings_by_node bindings) = length bindings"
    and "length (published_routes (d_kernel D)) = published_count (d_kernel D)" and "0 < n"
    and "preflight_all (d_kernel D) (plan_env_of f D now bindings registry check) ids
      (if prepare then {Proposed, Ready, WorkPaused} else {Ready}) (sort (remdups ids)) = Inr n"
  using assms that
  by (cases "model_registry D"; cases "candidate_check D")
    (auto simp: preflight_ready_def plan_env_of_def bind_result_Inr Let_def split: bool.splits if_splits)

lemma preflight_plans:
  assumes pre: "preflight_ready f D now bindings ids prepare = Inr ()"
    and act: "a_state (k_activation (d_kernel D)) = Active" and keys: "keys_inv (d_kernel D)"
  obtains ps where "plan_ready f D now bindings (Some ids) = Inr ps"
    and "\<not> prepare \<Longrightarrow> set ids \<inter> set (active_work_ids (d_kernel D)) = {} \<Longrightarrow> ps \<noteq> []"
proof -
  let ?k = "d_kernel D" let ?ws = "sort_key work_item_id (dict_values (k_work_items ?k))"
  let ?states = "if prepare then {Proposed, Ready, WorkPaused} else {Ready}"
  from pre obtain registry check n where env: "model_registry D = Some registry" "candidate_check D = Some check"
    and uniq: "length (bindings_by_node bindings) = length bindings" "length (published_routes ?k) = published_count ?k"
    and n: "0 < n"
    and all: "preflight_all ?k (plan_env_of f D now bindings registry check) ids ?states (sort (remdups ids)) = Inr n"
    by (rule preflight_ready_Inr)
  let ?v = "plan_env_of f D now bindings registry check"
  have kw: "keyed work_item_id (k_work_items ?k)" using keys_invD [OF keys] by simp
  have one: "\<exists>b. preflight_work ?k ?v ids ?states wid = Inr b" if "wid \<in> set ids" for wid
    using preflight_all_Inr [OF all] that by auto
  have "succeeds (all_completed ?k (dependency_targets (k_work_edges ?k) (work_item_id w)))"
    if "option_all (\<lambda>is. work_item_id w \<in> set is) (Some ids)" for w
    using one [of "work_item_id w"] that by (auto dest!: preflight_work_Inr)
  then have el: "eligible_work ?k (Some ids) ?ws = Inr (filter (startable ?k (Some ids)) ?ws)"
    by (rule eligible_work_succeeds)
  have "succeeds (plan_work ?v w)" if "w \<in> set (filter (startable ?k (Some ids)) ?ws)" for w
  proof -
    from that have w: "w \<in> set (dict_values (k_work_items ?k))" "work_item_id w \<in> set ids" by (simp_all add: startable_def)
    from one [OF w(2)] keyed_values_get [OF kw w(1)] show ?thesis
      by (auto dest!: preflight_work_Inr simp: plan_work_Inr plan_env_of_def select_candidate_Inr dict_mem_get)
  qed
  then obtain ps where ps: "plan_all ?v (filter (startable ?k (Some ids)) ?ws) = Inr ps"
    using plan_all_succeeds by blast
  have plan: "plan_ready f D now bindings (Some ids) = Inr ps"
    using act env uniq el ps by (auto simp: plan_ready_Inr)
  have "ps \<noteq> []" if np: "\<not> prepare" and idle: "set ids \<inter> set (active_work_ids ?k) = {}"
  proof -
    obtain wid where wid: "wid \<in> set ids" "preflight_work ?k ?v ids ?states wid = Inr True"
      using preflight_all_Inr [OF all] n by auto
    then obtain w where w: "dict_get (k_work_items ?k) wid = Some w" "work_state w = Ready" "dependencies_done ?k wid"
      using np by (auto dest!: preflight_work_Inr all_completed_done)
    have "work_item_id w = wid" using keyed_get [OF kw w(1)] .
    with w wid(1) idle have "w \<in> set (filter (startable ?k (Some ids)) ?ws)"
      by (auto simp: startable_def dest: dict_get_values)
    then show ?thesis using plan_all_works [OF ps] by (metis empty_iff empty_set list.map(1))
  qed
  with plan show thesis by (rule that)
qed

end
