(* ===== verification/Dispatcher_Runs.thy ===== *)
theory Dispatcher_Runs
  imports Dispatcher_Plan
begin

text \<open>
  What starting and finishing do to the Kernel. Both are runs of Kernel steps, also when they
  fail half way. A dispatch appends the Executions of a prefix of its plans, all of them if it
  succeeds; a completion takes one Execution out of the live ones.
\<close>

section \<open>Executions are appended\<close>

lemma dict_set_append: "\<not> dict_mem k d \<Longrightarrow> dict_set (d @ e) k v = d @ dict_set e k v"
  by (induction d) (auto simp: dict_set_def dict_mem_def)

lemma dict_set_replace:
  assumes "dict_get d k = Some v"
  obtains us vs where "d = us @ (k, v) # vs" and "\<And>v'. dict_set d k v' = us @ (k, v') # vs"
  using assms
proof (induction d arbitrary: thesis)
  case (Cons p d)
  show ?case
  proof (cases "fst p = k")
    case True
    with Cons.prems show ?thesis by (intro Cons.prems(1) [of "[]" d]) (auto simp: dict_set_def)
  next
    case False
    with Cons.prems(2) have "dict_get d k = Some v" by (cases p) simp
    then obtain us vs where d: "d = us @ (k, v) # vs" "\<And>v'. dict_set d k v' = us @ (k, v') # vs"
      using Cons.IH by blast
    from False d(1) have "p # d = (p # us) @ (k, v) # vs" by simp
    moreover have "dict_set (p # d) k v' = (p # us) @ (k, v') # vs" for v'
      using False d(2) [of v'] by (cases p) (simp add: dict_set_def)
    ultimately show ?thesis by (rule Cons.prems(1))
  qed
qed simp

definition same_views :: "kernel \<Rightarrow> kernel \<Rightarrow> bool" where
  "same_views k k' \<longleftrightarrow> k_work_items k' = k_work_items k \<and> k_work_edges k' = k_work_edges k
     \<and> k_route_snapshots k' = k_route_snapshots k \<and> k_activation k' = k_activation k
     \<and> k_data_space k' = k_data_space k \<and> k_nodes k' = k_nodes k"

lemma same_views_refl [simp]: "same_views k k"
  by (simp add: same_views_def)

lemma same_views_trans: "same_views k1 k2 \<Longrightarrow> same_views k2 k3 \<Longrightarrow> same_views k1 k3"
  by (simp add: same_views_def)

definition executions_added :: "kernel \<Rightarrow> execution list \<Rightarrow> kernel \<Rightarrow> bool" where
  "executions_added k es k' \<longleftrightarrow> k_executions k' = k_executions k @ map (\<lambda>x. (execution_id x, x)) es
     \<and> list_all (\<lambda>x. \<not> dict_mem (execution_id x) (k_executions k)) es \<and> distinct (map execution_id es)
     \<and> list_all (\<lambda>x. exec_state x = Requested) es \<and> same_views k k'"

lemma executions_added_Nil [simp]: "executions_added k [] k"
  by (simp add: executions_added_def)

lemma dict_mem_append [simp]: "dict_mem i (d @ e) \<longleftrightarrow> dict_mem i d \<or> dict_mem i e"
  by (simp add: dict_mem_def)

lemma dict_mem_executions [simp]: "dict_mem i (map (\<lambda>x. (execution_id x, x)) es) \<longleftrightarrow> i \<in> execution_id ` set es"
  by (auto simp: dict_mem_def)

lemma executions_added_trans:
  "executions_added k es k1 \<Longrightarrow> executions_added k1 fs k2 \<Longrightarrow> executions_added k (es @ fs) k2"
  by (auto simp: executions_added_def list_all_iff dest: same_views_trans) (metis image_eqI)

lemma executions_added_get:
  assumes "executions_added k es k'" and "x \<in> set es"
  shows "dict_get (k_executions k') (execution_id x) = Some x"
proof -
  from assms have new: "dict_get (k_executions k) (execution_id x) = None" and d: "distinct (map execution_id es)"
    and k': "k_executions k' = k_executions k @ map (\<lambda>x. (execution_id x, x)) es"
    by (auto simp: executions_added_def list_all_iff dict_get_None_mem)
  have "map_of (map (\<lambda>x. (execution_id x, x)) es) (execution_id x) = Some x"
    using assms(2) d by (intro map_of_is_SomeI) (auto simp: comp_def)
  with new k' show ?thesis by (simp add: map_add_def)
qed

lemma active_work_ids_added:
  "executions_added k es k' \<Longrightarrow> active_work_ids k' = active_work_ids k @ map exec_work_item_id es"
  by (auto simp: executions_added_def active_work_ids_def dict_values_def list_all_iff comp_def
      intro!: arg_cong [where f = "map exec_work_item_id"] filter_True [symmetric])

section \<open>Starting one WorkItem\<close>

text \<open>The Execution of a plan, and the fields of the dispatcher that starting leaves alone.\<close>

definition execution_of :: "plan \<Rightarrow> execution \<Rightarrow> bool" where
  "execution_of p x \<longleftrightarrow> (case p of (w, b, c) \<Rightarrow> exec_work_item_id x = work_item_id w
     \<and> exec_node_id x = delegated_to_node_id w \<and> exec_pilot_id x = binding_pilot_id b
     \<and> pilot_host_id x = binding_host_id b \<and> model_candidate_key x = candidate_key c)"

definition start_frame :: "dispatcher \<Rightarrow> dispatcher \<Rightarrow> bool" where
  "start_frame D D' \<longleftrightarrow> d_router D' = d_router D \<and> delta_cursor D' = delta_cursor D \<and> model_registry D' = model_registry D
     \<and> candidate_check D' = candidate_check D \<and> failover_configured D' = failover_configured D \<and> d_futures D' = d_futures D"

lemma start_frame_refl [simp]: "start_frame D D"
  by (simp add: start_frame_def)

lemma start_frame_trans: "start_frame D1 D2 \<Longrightarrow> start_frame D2 D3 \<Longrightarrow> start_frame D1 D3"
  by (simp add: start_frame_def)

lemma allocate_valid: "allocate R aid ds wid eid nid pid c = (Inr a, R') \<Longrightarrow>
    valid_agent_name_assignment a \<and> assignment_execution_id a = eid"
  by (auto simp: allocate_def Let_def split: sum.splits if_splits prod.splits)

lemma allocate_name_frame:
  assumes "allocate_name D u eid p = (r, D')"
  shows "d_kernel D' = d_kernel D" and "start_frame D D'"
    and "r = Inr (Some a) \<Longrightarrow> valid_agent_name_assignment a \<and> assignment_execution_id a = eid"
  using assms
  by (auto simp: allocate_name_def start_frame_def split: option.splits sum.splits prod.splits dest: allocate_valid)

lemma requested_execution_of: "execution_of p (requested_execution eid p)" "execution_id (requested_execution eid p) = eid"
    "exec_state (requested_execution eid p) = Requested" "exec_agent_name (requested_execution eid p) = None"
  by (cases p; simp add: requested_execution_def execution_of_def)+

lemma assigned_simps [simp]: "execution_id (assigned e a) = execution_id e" "exec_state (assigned e a) = exec_state e"
    "execution_of p (assigned e a) = execution_of p e" "exec_work_item_id (assigned e a) = exec_work_item_id e"
  by (cases a; simp add: assigned_def execution_of_def split: prod.splits)+

lemma created_execution:
  assumes "create_execution h k t x aid key = Inr (e, k')" and "valid_execution x" and "exec_state x = Requested"
  shows "kernel_step h k k'" and "executions_added k [x] k'"
proof -
  show "kernel_step h k k'" using assms(1,2) by (intro in_execution step_create_execution)
  show "executions_added k [x] k'" using ensuresD [OF create_execution_outcome assms(1)] assms(3)
    by (auto simp: executions_added_def recorded_def same_views_def dict_set_new)
qed

lemma recorded_name:
  assumes "record_name h D inp e a key = (r, D')" and "executions_added k [e] (d_kernel D)"
    and "\<forall>x. a = Some x \<longrightarrow> valid_agent_name_assignment x \<and> assignment_execution_id x = execution_id e"
  shows "(kernel_step h)\<^sup>*\<^sup>* (d_kernel D) (d_kernel D')" and "start_frame D D'" and "naming_registry D' = naming_registry D"
    and "r = Inr u \<Longrightarrow> a = None \<or> naming_registry D \<noteq> None \<Longrightarrow> executions_added k [assigned e a] (d_kernel D')"
    and "r = Inl err \<Longrightarrow> D' = D"
proof -
  show "(kernel_step h)\<^sup>*\<^sup>* (d_kernel D) (d_kernel D')"
    using assms(1,3) by (auto simp: record_name_def split: option.splits sum.splits
        intro!: r_into_rtranclp in_execution step_record_agent_name_assignment)
  show "start_frame D D'" "naming_registry D' = naming_registry D" "r = Inl err \<Longrightarrow> D' = D"
    using assms(1) by (auto simp: record_name_def start_frame_def split: option.splits sum.splits)
  show "executions_added k [assigned e a] (d_kernel D')" if "r = Inr u" "a = None \<or> naming_registry D \<noteq> None"
  proof (cases a)
    case None
    with assms(1,2) show ?thesis by (simp add: record_name_def assigned_def)
  next
    case (Some x)
    with that assms(1) obtain R ev k' where rec: "record_agent_name_assignment h (d_kernel D) (assignment_time inp) R x
        ''system:dispatcher'' (key @ '':'' @ execution_id e @ '':agent-name'') = Inr (ev, k')" and k': "d_kernel D' = k'"
      by (auto simp: record_name_def split: sum.splits)
    have id: "assignment_execution_id x = execution_id e" using assms(3) Some by simp
    have get: "dict_get (k_executions (d_kernel D)) (execution_id e) = Some e"
      using executions_added_get [OF assms(2)] by simp
    have new: "\<not> dict_mem (execution_id e) (k_executions k)" and ex: "k_executions (d_kernel D) = k_executions k @ [(execution_id e, e)]"
      and sv: "same_views k (d_kernel D)" using assms(2) by (simp_all add: executions_added_def)
    from ensuresD [OF record_agent_name_assignment_outcome rec] id get
    have "k_executions k' = dict_set (k_executions (d_kernel D)) (execution_id e) (assigned e a)" and "same_views (d_kernel D) k'"
      by (auto simp: recorded_def same_views_def assigned_def Some)
    moreover have "dict_set (k_executions (d_kernel D)) (execution_id e) v = k_executions k @ [(execution_id e, v)]" for v
      unfolding ex using dict_set_append [OF new] by (simp add: dict_set_def)
    ultimately show ?thesis
      using assms(2) k' same_views_trans [OF sv] by (simp add: executions_added_def)
  qed
qed

text \<open>What a batch says about a started Execution.\<close>

definition announced :: "execution \<Rightarrow> dispatch_assignment" where
  "announced x = \<lparr>da_work_item_id = exec_work_item_id x, da_execution_id = execution_id x, da_pilot_id = exec_pilot_id x,
     da_host_id = pilot_host_id x, da_candidate_key = model_candidate_key x, da_agent_name = exec_agent_name x\<rparr>"

lemma assignment_of_assigned: "exec_agent_name e = None \<Longrightarrow> assignment_of (assigned e a) a = announced (assigned e a)"
  by (cases a) (simp_all add: assignment_of_def announced_def assigned_def)

definition started :: "kernel \<Rightarrow> plan \<Rightarrow> (execution \<times> plan \<times> dispatch_assignment) result \<Rightarrow> kernel \<Rightarrow> bool" where
  "started k p r k' \<longleftrightarrow> (case r of
     Inl err \<Rightarrow> k' = k \<or> (\<exists>x. execution_of p x \<and> executions_added k [x] k')
   | Inr (x, q, d) \<Rightarrow> q = p \<and> d = announced x \<and> execution_of p x \<and> executions_added k [x] k')"

lemma start_work_run:
  assumes "start_work h D inp aid key p = (r, D')"
  shows "(kernel_step h)\<^sup>*\<^sup>* (d_kernel D) (d_kernel D')" and "start_frame D D'" and "started (d_kernel D) p r (d_kernel D')"
proof -
  have "(kernel_step h)\<^sup>*\<^sup>* (d_kernel D) (d_kernel D') \<and> start_frame D D' \<and> started (d_kernel D) p r (d_kernel D')"
  proof (cases "new_id ''execution'' (execution_uuid inp)")
    case (Inl err)
    with assms show ?thesis by (auto simp: start_work_def started_def)
  next
    case (Inr eid)
    note eid = this
    obtain a Da where al: "allocate_name D (assignment_uuid inp) eid p = (a, Da)" by fastforce
    note frame = allocate_name_frame [OF al]
    let ?e = "requested_execution eid p"
    show ?thesis
    proof (cases a)
      case (Inl err)
      with assms eid al frame(1,2) show ?thesis by (auto simp: start_work_def started_def)
    next
      case (Inr x)
      note x = this
      have names: "\<forall>y. x = Some y \<longrightarrow> valid_agent_name_assignment y \<and> assignment_execution_id y = execution_id ?e"
        using frame(3) x by (simp add: requested_execution_of)
      have issued: "x = None \<or> naming_registry Da \<noteq> None"
        using al x by (auto simp: allocate_name_def split: option.splits prod.splits sum.splits)
      show ?thesis
      proof (cases "valid_execution ?e")
        case False
        with assms eid al x frame(1,2) show ?thesis by (auto simp: start_work_def started_def Let_def)
      next
        case True
        note valid = this
        show ?thesis
        proof (cases "create_execution h (d_kernel Da) (creation_time inp) ?e aid (key @ '':'' @ work_item_id (fst p))")
          case (Inl err)
          with assms eid al x valid frame(1,2) show ?thesis by (auto simp: start_work_def started_def Let_def)
        next
          case (Inr ek)
          obtain ev k where ek: "ek = (ev, k)" by fastforce
          have cr: "create_execution h (d_kernel D) (creation_time inp) ?e aid (key @ '':'' @ work_item_id (fst p)) = Inr (ev, k)"
            using Inr ek frame(1) by simp
          note made = created_execution [OF cr valid requested_execution_of(3)]
          let ?Dk = "Da\<lparr>d_kernel := k\<rparr>"
          obtain u Db where rn: "record_name h ?Dk inp ?e x key = (u, Db)" by fastforce
          have added: "executions_added (d_kernel D) [?e] (d_kernel ?Dk)" using made(2) by simp
          note named = recorded_name [OF rn added names]
          have run: "(kernel_step h)\<^sup>*\<^sup>* (d_kernel D) (d_kernel Db)"
            using converse_rtranclp_into_rtranclp [where r = "kernel_step h", OF made(1)] named(1) by simp
          have fr: "start_frame D Db" using start_frame_trans [OF frame(2)] named(2) by (simp add: start_frame_def)
          have res: "(r, D') = (case u of Inl err \<Rightarrow> (Inl err, Db) | Inr _ \<Rightarrow>
              if \<not> valid_dispatch_assignment (assignment_of (assigned ?e x) x) then (Inl (ValidationError ''DispatchAssignment''), Db)
              else (Inr (assigned ?e x, p, assignment_of (assigned ?e x) x), Db))"
            using assms [symmetric] eid al x valid Inr ek rn by (cases u) (simp_all add: start_work_def Let_def)
          show ?thesis
          proof (cases u)
            case (Inl err)
            with res run fr named(5) added show ?thesis by (auto simp: started_def requested_execution_of)
          next
            case (Inr uu)
            have add: "executions_added (d_kernel D) [assigned ?e x] (d_kernel Db)"
              using named(4) [OF Inr] issued by simp
            have D': "D' = Db" using res Inr by (simp split: if_splits)
            show ?thesis using res Inr run fr add D'
              by (auto simp: started_def requested_execution_of assignment_of_assigned split: if_splits)
          qed
        qed
      qed
    qed
  qed
  then show "(kernel_step h)\<^sup>*\<^sup>* (d_kernel D) (d_kernel D')" "start_frame D D'" "started (d_kernel D) p r (d_kernel D')" by simp_all
qed

section \<open>Starting all of them\<close>

lemma start_all_run:
  "start_all h D inp i aid key ps = (r, D') \<Longrightarrow> (kernel_step h)\<^sup>*\<^sup>* (d_kernel D) (d_kernel D') \<and> start_frame D D' \<and>
    (\<exists>es. length es \<le> length ps \<and> list_all2 execution_of (take (length es) ps) es \<and> executions_added (d_kernel D) es (d_kernel D')
      \<and> (\<forall>xs. r = Inr xs \<longrightarrow> length es = length ps \<and> xs = map2 (\<lambda>p x. (x, p, announced x)) ps es))"
proof (induction ps arbitrary: D i r)
  case (Cons p ps)
  obtain s Da where sw: "start_work h D (inp i) aid key p = (s, Da)" by fastforce
  note one = start_work_run [OF sw]
  show ?case
  proof (cases s)
    case (Inl err)
    with Cons.prems sw have "D' = Da" "r = Inl err" by simp_all
    with one Inl show ?thesis
      by (auto simp: started_def intro: exI [of _ "[]"] exI [of _ "[_]"])
  next
    case (Inr x)
    obtain y d where x: "x = (y, p, d)" "d = announced y" and ex: "execution_of p y" "executions_added (d_kernel D) [y] (d_kernel Da)"
      using one(3) Inr by (cases x) (auto simp: started_def)
    obtain t Db where sa: "start_all h Da inp (Suc i) aid key ps = (t, Db)" by fastforce
    have "(r, D') = (case t of Inl err \<Rightarrow> (Inl err, Db) | Inr xs \<Rightarrow> (Inr (x # xs), Db))"
      using Cons.prems unfolding start_all.simps sw Inr prod.case sum.case sa by simp
    then have res: "D' = Db" "r = (case t of Inl err \<Rightarrow> Inl err | Inr xs \<Rightarrow> Inr (x # xs))" by (simp_all split: sum.splits)
    from Cons.IH [OF sa [folded res(1)]] obtain es where
      es: "(kernel_step h)\<^sup>*\<^sup>* (d_kernel Da) (d_kernel D')" "start_frame Da D'" "length es \<le> length ps"
        "list_all2 execution_of (take (length es) ps) es" "executions_added (d_kernel Da) es (d_kernel D')"
        "\<And>xs. t = Inr xs \<Longrightarrow> length es = length ps \<and> xs = map2 (\<lambda>p x. (x, p, announced x)) ps es" by blast
    show ?thesis
    proof (intro conjI exI [of _ "y # es"])
      show "(kernel_step h)\<^sup>*\<^sup>* (d_kernel D) (d_kernel D')" using one(1) es(1) by (rule rtranclp_trans)
      show "start_frame D D'" using one(2) es(2) by (rule start_frame_trans)
      show "executions_added (d_kernel D) (y # es) (d_kernel D')" using executions_added_trans [OF ex(2) es(5)] by simp
      show "\<forall>xs. r = Inr xs \<longrightarrow> length (y # es) = length (p # ps) \<and> xs = map2 (\<lambda>p x. (x, p, announced x)) (p # ps) (y # es)"
      proof (cases t)
        case (Inr ys)
        from es(6) [OF this] Inr show ?thesis using res(2) x by simp
      qed (simp add: res(2))
    qed (use es(3,4) ex(1) in auto)
  qed
qed simp

end
