(* ===== verification/Dispatcher_Machine.thy ===== *)
theory Dispatcher_Machine
  imports Dispatcher_Runs Kernel_Rebuild Kernel_Lifecycles
begin

text \<open>
  The dispatcher as a state machine beside the Kernel: a dispatch, the completion of a
  submission, and any other step of the shared Kernel, router or naming registry. Its runs are
  runs of the Kernel, and its invariant ties the pending submissions to Executions and the
  delta cursor to the ledger.
\<close>

section \<open>The event delta\<close>

lemma drain_page_all:
  "map cursor ss = [cur + 1..<cur + 1 + length ss] \<Longrightarrow>
    drain_page ss (cur, a) = Inr (cur + length ss, foldl count_event a (map stored ss))"
proof (induction ss arbitrary: cur a)
  case (Cons s ss)
  have upt: "[cur + 1..<cur + 1 + length (s # ss)] = (cur + 1) # [cur + 2..<cur + 2 + length ss]"
    by (subst upt_conv_Cons) simp_all
  from Cons.prems have "cursor s = cur + 1" "map cursor ss = [(cur + 1) + 1..<(cur + 1) + 1 + length ss]"
    unfolding upt by simp_all
  with Cons.IH [of "cur + 1"] show ?case by simp
qed simp

lemma drain_loop_counts:
  assumes inv: "ledger_inv L" and "cur \<le> length (ledger_events L)"
  shows "drain_loop L cur a = Inr (length (ledger_events L), foldl count_event a (drop cur (ledger_events L)))"
  using assms(2)
proof (induction "length (ledger_events L) - cur" arbitrary: cur a rule: less_induct)
  case less
  obtain ss where page: "ledger_page L (int cur) 500 = Inr ss" and st: "map stored ss = take 500 (drop cur (ledger_events L))"
    and cs: "map cursor ss = [cur + 1..<cur + 1 + length ss]"
    using ledger_page_law [OF inv, of "int cur" 500] by auto
  have "length ss = length (map stored ss)" by simp
  then have len: "length ss = min 500 (length (ledger_events L) - cur)" unfolding st using less.prems by simp
  show ?case
  proof (cases "ss = []")
    case True
    then have "cur = length (ledger_events L)" using len less.prems by simp
    with True page show ?thesis by (subst drain_loop.simps) simp
  next
    case False
    let ?mid = "cur + length ss"
    have mid: "cur < ?mid" "?mid \<le> length (ledger_events L)" using False len less.prems by (cases ss; simp)+
    have part: "map stored ss @ drop ?mid (ledger_events L) = drop cur (ledger_events L)"
    proof -
      have "take (length ss) (drop cur (ledger_events L)) = take 500 (drop cur (ledger_events L))"
        using len by (cases "500 \<le> length (ledger_events L) - cur") simp_all
      with st show ?thesis
        using append_take_drop_id [of "length ss" "drop cur (ledger_events L)"] by (simp add: add.commute)
    qed
    have "drain_loop L cur a = drain_loop L ?mid (foldl count_event a (map stored ss))"
      using page drain_page_all [OF cs, of a] False by (subst drain_loop.simps) simp
    also have "\<dots> = Inr (length (ledger_events L), foldl count_event (foldl count_event a (map stored ss)) (drop ?mid (ledger_events L)))"
      by (rule less.hyps; use mid in arith)
    also have "\<dots> = Inr (length (ledger_events L), foldl count_event a (drop cur (ledger_events L)))"
      unfolding part [symmetric] by simp
    finally show ?thesis .
  qed
qed

text \<open>The delta is the one the conversation service computes up to the end of the ledger.\<close>

lemma dispatch_delta_exact:
  assumes "ledger_inv (k_ledger (d_kernel D))" and "delta_cursor D \<le> length (ledger_events (k_ledger (d_kernel D)))"
  obtains d where "dispatch_delta D = Inr (d, D\<lparr>delta_cursor := length (ledger_events (k_ledger (d_kernel D)))\<rparr>)"
    and "event_delta_of (k_ledger (d_kernel D)) (delta_cursor D) (length (ledger_events (k_ledger (d_kernel D)))) = Inr d"
    and "after_cursor d = delta_cursor D" and "through_cursor d = length (ledger_events (k_ledger (d_kernel D)))"
proof -
  let ?L = "k_ledger (d_kernel D)" let ?a0 = "\<lparr>acc_count = 0, acc_types = [], acc_streams = []\<rparr>"
  have sp: "ledger_span ?L (delta_cursor D) (length (ledger_events ?L)) = drop (delta_cursor D) (ledger_events ?L)"
    by (simp add: ledger_span_def)
  let ?acc = "foldl count_event ?a0 (drop (delta_cursor D) (ledger_events ?L))"
  let ?d = "\<lparr>after_cursor = delta_cursor D, through_cursor = length (ledger_events ?L), event_count = acc_count ?acc,
      event_type_counts = sort_key fst (acc_types ?acc), changed_stream_ids = sort (acc_streams ?acc)\<rparr>"
  show thesis
  proof (rule that)
    show "dispatch_delta D = Inr (?d, D\<lparr>delta_cursor := length (ledger_events ?L)\<rparr>)"
      using drain_loop_counts [OF assms, of ?a0] by (simp add: dispatch_delta_def)
    show "event_delta_of ?L (delta_cursor D) (length (ledger_events ?L)) = Inr ?d"
      using delta_loop_counts [OF assms(1) le_refl assms(2), of ?a0] assms(2) sp by (simp add: event_delta_of_def)
  qed simp_all
qed

section \<open>Dispatch\<close>

lemma launch_run:
  assumes "launch h D inp aid key ps = (r, D')"
  obtains es where "(kernel_step h)\<^sup>*\<^sup>* (d_kernel D) (d_kernel D')"
    and "length es \<le> length ps" and "list_all2 execution_of (take (length es) ps) es"
    and "executions_added (d_kernel D) es (d_kernel D')"
    and "\<And>batch. r = Inr batch \<Longrightarrow> length es = length ps \<and> batch_assignments batch = map announced es
      \<and> parallelism batch = length es \<and> (\<exists>Da d. d_kernel Da = d_kernel D' \<and> delta_cursor Da = delta_cursor D \<and> dispatch_delta Da = Inr (d, Da\<lparr>delta_cursor := delta_cursor D'\<rparr>)
        \<and> d_futures D' = d_futures D @ submit d key (map2 (\<lambda>p x. (x, p, announced x)) ps es))"
    and "\<And>err. r = Inl err \<Longrightarrow> d_futures D' = d_futures D \<and> delta_cursor D' = delta_cursor D"
proof -
  obtain s Da where sa: "start_all h D inp 0 aid key ps = (s, Da)" by fastforce
  from start_all_run [OF this] obtain es where es: "(kernel_step h)\<^sup>*\<^sup>* (d_kernel D) (d_kernel Da)" "start_frame D Da"
      "length es \<le> length ps" "list_all2 execution_of (take (length es) ps) es" "executions_added (d_kernel D) es (d_kernel Da)"
      "\<forall>xs. s = Inr xs \<longrightarrow> length es = length ps \<and> xs = map2 (\<lambda>p x. (x, p, announced x)) ps es" by blast
  have frame: "d_futures Da = d_futures D" "delta_cursor Da = delta_cursor D" using es(2) by (simp_all add: start_frame_def)
  show thesis
  proof (cases s)
    case (Inl err)
    then have "D' = Da" "r = Inl err" using assms sa by (simp_all add: launch_def)
    with frame es show ?thesis by (intro that [of es]) simp_all
  next
    case (Inr xs)
    note xs = this
    have len: "length es = length ps" "xs = map2 (\<lambda>p x. (x, p, announced x)) ps es" using es(6) xs by auto
    show ?thesis
    proof (cases "dispatch_delta Da")
      case (Inl err)
      then have "D' = Da" "r = Inl err" using assms sa xs by (simp_all add: launch_def)
      with frame es show ?thesis by (intro that [of es]) simp_all
    next
      case (Inr dd)
      obtain d Db where dd: "dd = (d, Db)" by fastforce
      then obtain c where Db: "Db = Da\<lparr>delta_cursor := c\<rparr>" using Inr by (auto simp: dispatch_delta_def)
      have as: "map (\<lambda>(_, _, a). a) xs = map announced es"
        unfolding len(2) using len(1) by (intro nth_equalityI) simp_all
      have r: "r = Inr \<lparr>batch_assignments = map announced es, parallelism = length es, batch_model_calls = length es\<rparr>"
        and D': "D' = Db\<lparr>d_futures := d_futures Db @ submit d key xs\<rparr>"
        using assms sa xs Inr dd as by (simp_all add: launch_def Let_def)
      have k: "d_kernel Da = d_kernel D'" "delta_cursor Db = delta_cursor D'" "d_futures Db = d_futures D"
        unfolding D' by (simp_all add: Db frame)
      show ?thesis
      proof (rule that [of es])
        fix batch assume "r = Inr batch"
        with r len k D' dd Inr Db frame show "length es = length ps \<and> batch_assignments batch = map announced es
          \<and> parallelism batch = length es \<and> (\<exists>Da d. d_kernel Da = d_kernel D' \<and> delta_cursor Da = delta_cursor D \<and> dispatch_delta Da = Inr (d, Da\<lparr>delta_cursor := delta_cursor D'\<rparr>)
          \<and> d_futures D' = d_futures D @ submit d key (map2 (\<lambda>p x. (x, p, announced x)) ps es))"
          by (auto intro!: exI [of _ Da] exI [of _ d])
      qed (use es k r in simp_all)
    qed
  qed
qed

section \<open>Completion\<close>

text \<open>An Execution leaves the live ones; its identity and everything else stay.\<close>

definition execution_ended :: "kernel \<Rightarrow> string \<Rightarrow> kernel \<Rightarrow> bool" where
  "execution_ended k eid k' \<longleftrightarrow> (\<exists>x x'. dict_get (k_executions k) eid = Some x \<and> k_executions k' = dict_set (k_executions k) eid x'
     \<and> exec_state x' \<in> {ExecSucceeded, ExecFailed, ExecPaused} \<and> exec_work_item_id x' = exec_work_item_id x \<and> same_views k k')"

lemma execution_endedI:
  "dict_get (k_executions k) eid = Some x \<Longrightarrow> recorded (k\<lparr>k_executions := dict_set (k_executions k) eid x'\<rparr>) k' \<Longrightarrow>
    exec_state x' \<in> {ExecSucceeded, ExecFailed, ExecPaused} \<Longrightarrow> exec_work_item_id x' = exec_work_item_id x \<Longrightarrow>
    execution_ended k eid k'"
  unfolding execution_ended_def by (rule exI [of _ x], rule exI [of _ x']) (simp add: recorded_def same_views_def)

lemma receipt_ends:
  assumes "record_pilot_execution_receipt h k t eid r aid key = Inr (e, k')"
  shows "kernel_step h k k'" and "execution_ended k eid k'"
proof -
  show "kernel_step h k k'" using assms by (intro in_execution step_record_pilot_execution_receipt)
  from ensuresD [OF record_pilot_execution_receipt_outcome assms]
  show "execution_ended k eid k'"
    by (auto dest!: receipt_transition_Inr intro: execution_endedI)
qed

lemma failure_ends:
  assumes "set_execution_state h k t eid ExecFailed act aid key reason = Inr (e, k')"
  shows "kernel_step h k k'" and "execution_ended k eid k'"
proof -
  show "kernel_step h k k'" using assms by (intro in_execution step_set_execution_state)
  from ensuresD [OF set_execution_state_outcome assms]
  show "execution_ended k eid k'" by (auto intro: execution_endedI)
qed

lemma finish_receipt_cases:
  assumes "finish_receipt h D t e r key = (u, D')"
  obtains err where "u = Inl err" and "D' = D"
  | k' where "u = Inr ()" and "D' = D\<lparr>d_kernel := k'\<rparr>" and "kernel_step h (d_kernel D) k'"
      and "execution_ended (d_kernel D) (execution_id e) k'"
  using assms receipt_ends
  by (cases "record_pilot_execution_receipt h (d_kernel D) t (execution_id e) r (exec_pilot_id e) key")
    (auto simp: finish_receipt_def)

definition finished :: "hashing \<Rightarrow> dispatcher \<Rightarrow> submission \<Rightarrow> unit result \<Rightarrow> dispatcher \<Rightarrow> bool" where
  "finished h D s r D' \<longleftrightarrow>
     (\<exists>err. r = Inl err) \<and> D' = D\<lparr>d_futures := remove1 s (d_futures D)\<rparr>
     \<or> r = Inr () \<and> (\<exists>k'. D' = D\<lparr>d_futures := remove1 s (d_futures D), d_kernel := k'\<rparr> \<and> kernel_step h (d_kernel D) k'
         \<and> execution_ended (d_kernel D) (execution_id (sub_execution s)) k')"

lemma finished_Inl: "finished h D s (Inl err) (D\<lparr>d_futures := remove1 s (d_futures D)\<rparr>)"
  by (simp add: finished_def)

lemma finished_recorded:
  "record_pilot_execution_receipt h (d_kernel D) t (execution_id (sub_execution s)) r aid key = Inr (e, k') \<Longrightarrow>
    finished h D s (Inr ()) (D\<lparr>d_futures := remove1 s (d_futures D), d_kernel := k'\<rparr>)"
  "set_execution_state h (d_kernel D) t (execution_id (sub_execution s)) ExecFailed act aid key reason = Inr (e, k') \<Longrightarrow>
    finished h D s (Inr ()) (D\<lparr>d_futures := remove1 s (d_futures D), d_kernel := k'\<rparr>)"
  by (auto simp: finished_def dest: receipt_ends failure_ends)

lemma finish_receipt_finished:
  "finish_receipt h (D\<lparr>d_futures := remove1 s (d_futures D)\<rparr>) t (sub_execution s) x key = (u, D') \<Longrightarrow> finished h D s u D'"
  by (erule finish_receipt_cases) (auto simp: finished_def)

lemma finish_run:
  assumes "finish_execution h D inp s y = (r, D', fo)"
  shows "finished h D s r D'"
proof -
  let ?D = "D\<lparr>d_futures := remove1 s (d_futures D)\<rparr>" let ?e = "sub_execution s"
  show ?thesis
  proof (cases y)
    case (WorkOutcome x)
    with assms show ?thesis by (auto simp: finish_execution_def Let_def split: prod.splits dest: finish_receipt_finished)
  next
    case (ReceiptError x)
    with assms show ?thesis by (auto simp: finish_execution_def Let_def split: prod.splits dest: finish_receipt_finished)
  next
    case (HostUnreachable rid m)
    show ?thesis
    proof (cases "lookup_candidate ?D (model_candidate_key ?e)")
      case (Inl err)
      with HostUnreachable assms show ?thesis by (auto simp: finish_execution_def Let_def finished_def)
    next
      case (Inr c)
      obtain u Db where fr: "finish_receipt h ?D (finish_time inp) ?e (failed_receipt rid ''transport_unknown'' c
          (error_object inp ''ReceiptUnreachable'' m)) (sub_key s @ '':'' @ execution_id ?e @ '':receipt-unreachable'') = (u, Db)" by fastforce
      have "r = u" "D' = Db" using assms HostUnreachable Inr fr
        by (auto simp: finish_execution_def Let_def split: sum.splits)
      with finish_receipt_finished [OF fr] show ?thesis by simp
    qed
  next
    case (UnexpectedError m)
    with assms show ?thesis
      by (auto simp: finish_execution_def Let_def split: sum.splits intro: finished_Inl finished_recorded)
  qed
qed

section \<open>Steps\<close>

inductive dispatcher_step :: "hashing \<Rightarrow> dispatcher \<Rightarrow> dispatcher \<Rightarrow> bool" for h where
  step_dispatch_ready:
    "dispatch_ready h f D now inp bindings aid key allowed = (r, D') \<Longrightarrow> dispatcher_step h D D'"
| step_finish_execution:
    "s \<in> set (d_futures D) \<Longrightarrow> finish_execution h D inp s y = (r, D', fo) \<Longrightarrow> dispatcher_step h D D'"
| step_elsewhere:
    "kernel_step h (d_kernel D) k' \<Longrightarrow> dispatcher_step h D (D\<lparr>d_kernel := k', d_router := R, naming_registry := N\<rparr>)"

inductive_cases dispatcher_stepE: "dispatcher_step h D D'"

lemma dispatch_ready_cases:
  assumes "dispatch_ready h f D now inp bindings aid key allowed = (r, D')"
  obtains err where "r = Inl err" and "D' = D" and "plan_ready f D now bindings allowed = Inl err"
  | ps where "plan_ready f D now bindings allowed = Inr ps" and "launch h D inp aid key ps = (r, D')"
  using assms by (cases "plan_ready f D now bindings allowed") (auto simp: dispatch_ready_def)

lemma dispatcher_step_run: "dispatcher_step h D D' \<Longrightarrow> (kernel_step h)\<^sup>*\<^sup>* (d_kernel D) (d_kernel D')"
proof (erule dispatcher_stepE)
  fix f now inp bindings aid key allowed r
  assume "dispatch_ready h f D now inp bindings aid key allowed = (r, D')"
  then show ?thesis by (rule dispatch_ready_cases) (auto elim: launch_run)
next
  fix s inp y r fo
  assume "finish_execution h D inp s y = (r, D', fo)"
  then show ?thesis by (auto dest!: finish_run simp: finished_def)
qed auto

lemma dispatcher_run: "(dispatcher_step h)\<^sup>*\<^sup>* D D' \<Longrightarrow> (kernel_step h)\<^sup>*\<^sup>* (d_kernel D) (d_kernel D')"
  by (induction rule: rtranclp_induct) (auto dest: dispatcher_step_run intro: rtranclp_trans)

section \<open>What every run of the dispatcher keeps\<close>

text \<open>A submission's Execution is in the Kernel, with the fields it was created with.\<close>

definition submitted :: "kernel \<Rightarrow> execution \<Rightarrow> bool" where
  "submitted k e \<longleftrightarrow> (\<exists>x. dict_get (k_executions k) (execution_id e) = Some x \<and> exec_work_item_id x = exec_work_item_id e
     \<and> exec_node_id x = exec_node_id e \<and> exec_pilot_id x = exec_pilot_id e \<and> pilot_host_id x = pilot_host_id e)"

lemma submitted_step: "kernel_step h k k' \<Longrightarrow> submitted k e \<Longrightarrow> submitted k' e"
  by (fastforce simp: submitted_def execution_kept_def dest: kernel_step_executions)

lemma submitted_run: "(kernel_step h)\<^sup>*\<^sup>* k k' \<Longrightarrow> submitted k e \<Longrightarrow> submitted k' e"
  by (induction rule: rtranclp_induct) (auto intro: submitted_step)

definition dispatcher_inv :: "dispatcher \<Rightarrow> bool" where
  "dispatcher_inv D \<longleftrightarrow> machine_inv (d_kernel D) \<and> delta_cursor D \<le> length (ledger_events (k_ledger (d_kernel D)))
     \<and> list_all (\<lambda>s. submitted (d_kernel D) (sub_execution s)) (d_futures D)
     \<and> distinct (map (execution_id \<circ> sub_execution) (d_futures D))
     \<and> list_all (\<lambda>s. after_cursor (sub_delta s) \<le> through_cursor (sub_delta s) \<and> through_cursor (sub_delta s) \<le> delta_cursor D) (d_futures D)"

lemma kernel_run_inv:
  assumes "(kernel_step h)\<^sup>*\<^sup>* k k'" and "machine_inv k"
  shows "machine_inv k'" and "length (ledger_events (k_ledger k)) \<le> length (ledger_events (k_ledger k'))"
proof -
  show "machine_inv k'" using kernel_log.reachable_good [OF assms] .
  show "length (ledger_events (k_ledger k)) \<le> length (ledger_events (k_ledger k'))"
    using kernel_log.replay_suffix [OF assms, of undefined undefined] by auto
qed

text \<open>A run of the Kernel underneath keeps it, and so does forgetting a submission.\<close>

lemma dispatcher_inv_kernel:
  "dispatcher_inv D \<Longrightarrow> (kernel_step h)\<^sup>*\<^sup>* (d_kernel D) k' \<Longrightarrow> dispatcher_inv (D\<lparr>d_kernel := k', d_router := R, naming_registry := N\<rparr>)"
  using kernel_run_inv [of h "d_kernel D" k']
  by (auto simp: dispatcher_inv_def list_all_iff intro: submitted_run)

lemma distinct_map_remove1: "distinct (map f xs) \<Longrightarrow> distinct (map f (remove1 x xs))"
  using set_remove1_subset [of x] by (induction xs) (auto 4 3)

lemma dispatcher_inv_remove: "dispatcher_inv D \<Longrightarrow> dispatcher_inv (D\<lparr>d_futures := remove1 s (d_futures D)\<rparr>)"
  using set_remove1_subset [of s "d_futures D"]
  by (auto simp: dispatcher_inv_def list_all_iff distinct_map_remove1)

lemma submit_simps:
  "map (execution_id \<circ> sub_execution) (submit d key (map2 (\<lambda>p x. (x, p, announced x)) ps es)) = map execution_id (take (length ps) es)"
  "s \<in> set (submit d key (map2 (\<lambda>p x. (x, p, announced x)) ps es)) \<Longrightarrow> sub_execution s \<in> set es \<and> sub_delta s = d"
  by (induction ps es rule: list_induct2') (auto simp: submit_def dest: set_zip_rightD)

lemma executions_added_submitted: "executions_added k es k' \<Longrightarrow> x \<in> set es \<Longrightarrow> submitted k' x"
  using executions_added_get by (simp add: submitted_def)

lemma kernel_run_ledger: "(kernel_step h)\<^sup>*\<^sup>* (d_kernel D) k' \<Longrightarrow> dispatcher_inv D \<Longrightarrow>
    machine_inv k' \<and> ledger_inv (k_ledger k') \<and> delta_cursor D \<le> length (ledger_events (k_ledger k'))"
  using kernel_run_inv [of h "d_kernel D" k'] by (auto simp: dispatcher_inv_def machine_inv_def versions_inv_def Let_def)

text \<open>An accepted launch, with the delta its workers get.\<close>

lemma launch_accepted:
  assumes "launch h D inp aid key ps = (Inr batch, D')" and inv: "dispatcher_inv D"
  obtains es d where "(kernel_step h)\<^sup>*\<^sup>* (d_kernel D) (d_kernel D')" and "executions_added (d_kernel D) es (d_kernel D')"
    and "length es = length ps" and "parallelism batch = length es"
    and "d_futures D' = d_futures D @ submit d key (map2 (\<lambda>p x. (x, p, announced x)) ps es)"
    and "delta_cursor D' = length (ledger_events (k_ledger (d_kernel D')))"
    and "event_delta_of (k_ledger (d_kernel D')) (delta_cursor D) (delta_cursor D') = Inr d"
    and "after_cursor d = delta_cursor D" and "through_cursor d = delta_cursor D'"
proof -
  let ?L = "ledger_events (k_ledger (d_kernel D'))"
  obtain es where run: "(kernel_step h)\<^sup>*\<^sup>* (d_kernel D) (d_kernel D')" and added: "executions_added (d_kernel D) es (d_kernel D')"
    and all: "length es = length ps \<and> batch_assignments batch = map announced es \<and> parallelism batch = length es
      \<and> (\<exists>Da d. d_kernel Da = d_kernel D' \<and> delta_cursor Da = delta_cursor D \<and> dispatch_delta Da = Inr (d, Da\<lparr>delta_cursor := delta_cursor D'\<rparr>)
        \<and> d_futures D' = d_futures D @ submit d key (map2 (\<lambda>p x. (x, p, announced x)) ps es))"
  proof (rule launch_run [OF assms(1)])
    fix es
    assume *: "(kernel_step h)\<^sup>*\<^sup>* (d_kernel D) (d_kernel D')" "executions_added (d_kernel D) es (d_kernel D')"
      and ok: "\<And>b. (Inr batch :: dispatch_batch result) = Inr b \<Longrightarrow> length es = length ps \<and> batch_assignments b = map announced es
        \<and> parallelism b = length es \<and> (\<exists>Da d. d_kernel Da = d_kernel D' \<and> delta_cursor Da = delta_cursor D
          \<and> dispatch_delta Da = Inr (d, Da\<lparr>delta_cursor := delta_cursor D'\<rparr>)
          \<and> d_futures D' = d_futures D @ submit d key (map2 (\<lambda>p x. (x, p, announced x)) ps es))"
    show thesis by (rule that [OF * ok [OF refl]])
  qed
  then have len: "length es = length ps" "parallelism batch = length es" by simp_all
  from all obtain Da d where Da: "d_kernel Da = d_kernel D'" "delta_cursor Da = delta_cursor D"
      "dispatch_delta Da = Inr (d, Da\<lparr>delta_cursor := delta_cursor D'\<rparr>)"
    and fut: "d_futures D' = d_futures D @ submit d key (map2 (\<lambda>p x. (x, p, announced x)) ps es)" by blast
  have "ledger_inv (k_ledger (d_kernel Da))" "delta_cursor Da \<le> length (ledger_events (k_ledger (d_kernel Da)))"
    using kernel_run_ledger [OF run inv] Da by simp_all
  then obtain d' where d': "dispatch_delta Da = Inr (d', Da\<lparr>delta_cursor := length ?L\<rparr>)"
      "event_delta_of (k_ledger (d_kernel D')) (delta_cursor D) (length ?L) = Inr d'"
      "after_cursor d' = delta_cursor D" "through_cursor d' = length ?L"
    using dispatch_delta_exact [of Da] Da by auto
  then have d: "d' = d" "Da\<lparr>delta_cursor := length ?L\<rparr> = Da\<lparr>delta_cursor := delta_cursor D'\<rparr>" using Da(3) by simp_all
  then have cur: "delta_cursor D' = length ?L" by (metis dispatcher.select_convs(3) dispatcher.surjective dispatcher.update_convs(3))
  have "event_delta_of (k_ledger (d_kernel D')) (delta_cursor D) (delta_cursor D') = Inr d" "after_cursor d = delta_cursor D"
      "through_cursor d = delta_cursor D'"
    using d'(2-4) unfolding d(1) cur .
  then show thesis by (rule that [OF run added len fut cur])
qed

lemma launch_inv:
  assumes "launch h D inp aid key ps = (r, D')" and inv: "dispatcher_inv D"
  shows "dispatcher_inv D'"
proof -
  have run: "(kernel_step h)\<^sup>*\<^sup>* (d_kernel D) (d_kernel D')" using assms(1) by (rule launch_run)
  let ?L = "ledger_events (k_ledger (d_kernel D'))"
  have mach: "machine_inv (d_kernel D')" and le: "delta_cursor D \<le> length ?L"
    and known: "list_all (\<lambda>s. submitted (d_kernel D') (sub_execution s)) (d_futures D)"
    using kernel_run_ledger [OF run inv] inv submitted_run [OF run] by (auto simp: dispatcher_inv_def list_all_iff)
  have old: "distinct (map (execution_id \<circ> sub_execution) (d_futures D))"
    "list_all (\<lambda>s. after_cursor (sub_delta s) \<le> through_cursor (sub_delta s) \<and> through_cursor (sub_delta s) \<le> delta_cursor D) (d_futures D)"
    using inv by (simp_all add: dispatcher_inv_def)
  show ?thesis
  proof (cases r)
    case (Inl e)
    from assms(1) have "d_futures D' = d_futures D \<and> delta_cursor D' = delta_cursor D" by (rule launch_run) (simp add: Inl)
    with mach le known old show ?thesis by (simp add: dispatcher_inv_def)
  next
    case (Inr batch)
    from launch_accepted [OF assms(1) [unfolded Inr] inv] obtain es d where added: "executions_added (d_kernel D) es (d_kernel D')"
      and len: "length es = length ps" and fut: "d_futures D' = d_futures D @ submit d key (map2 (\<lambda>p x. (x, p, announced x)) ps es)"
      and cur: "delta_cursor D' = length ?L" and d: "after_cursor d = delta_cursor D" "through_cursor d = delta_cursor D'" by blast
    have ids: "map (execution_id \<circ> sub_execution) (d_futures D') = map (execution_id \<circ> sub_execution) (d_futures D) @ map execution_id es"
      using fut submit_simps(1) len by simp
    have "dict_mem (execution_id (sub_execution s)) (k_executions (d_kernel D))" if "s \<in> set (d_futures D)" for s
      using inv that by (auto simp: dispatcher_inv_def list_all_iff submitted_def dict_mem_get)
    then have dist: "distinct (map (execution_id \<circ> sub_execution) (d_futures D'))"
      unfolding ids using old(1) added by (auto simp: executions_added_def list_all_iff) metis
    have "submitted (d_kernel D') (sub_execution s)" "after_cursor (sub_delta s) \<le> through_cursor (sub_delta s)"
        "through_cursor (sub_delta s) \<le> delta_cursor D'" if "s \<in> set (d_futures D')" for s
      using that fut known old(2) le cur d executions_added_submitted [OF added] submit_simps(2) [of s d key ps es]
      by (auto simp: list_all_iff)
    with mach cur dist show ?thesis by (simp add: dispatcher_inv_def list_all_iff)
  qed
qed

lemma launch_delta:
  assumes "launch h D inp aid key ps = (Inr batch, D')" and "dispatcher_inv D"
  shows "\<exists>d. map sub_delta (d_futures D') = map sub_delta (d_futures D) @ replicate (parallelism batch) d \<and>
    after_cursor d = delta_cursor D \<and> through_cursor d = delta_cursor D' \<and>
    delta_cursor D' = length (ledger_events (k_ledger (d_kernel D'))) \<and>
    event_delta_of (k_ledger (d_kernel D')) (delta_cursor D) (delta_cursor D') = Inr d"
  using assms
proof (rule launch_accepted)
  fix es d
  assume new: "d_futures D' = d_futures D @ submit d key (map2 (\<lambda>p x. (x, p, announced x)) ps es)"
    and len: "length es = length ps" "parallelism batch = length es"
    and rest: "delta_cursor D' = length (ledger_events (k_ledger (d_kernel D')))"
      "event_delta_of (k_ledger (d_kernel D')) (delta_cursor D) (delta_cursor D') = Inr d"
      "after_cursor d = delta_cursor D" "through_cursor d = delta_cursor D'"
  let ?new = "submit d key (map2 (\<lambda>p x. (x, p, announced x)) ps es)"
  have "length ?new = parallelism batch" using len by (simp add: submit_def)
  moreover have "\<And>s. s \<in> set ?new \<Longrightarrow> sub_delta s = d" using submit_simps(2) by blast
  ultimately have "map sub_delta ?new = replicate (parallelism batch) d" by (intro replicate_eqI) auto
  then show ?thesis using new rest by (intro exI [of _ d]) simp
qed

lemma finished_inv: "finished h D s r D' \<Longrightarrow> dispatcher_inv D \<Longrightarrow> dispatcher_inv D'"
  using dispatcher_inv_remove [of D s]
    dispatcher_inv_kernel [of "D\<lparr>d_futures := remove1 s (d_futures D)\<rparr>" h _ "naming_registry D" "d_router D"]
  by (auto simp: finished_def)

lemma dispatcher_step_inv:
  assumes "dispatcher_step h D D'" and inv: "dispatcher_inv D"
  shows "dispatcher_inv D'"
  using assms(1)
proof (rule dispatcher_stepE)
  fix f now inp bindings aid key allowed r
  assume "dispatch_ready h f D now inp bindings aid key allowed = (r, D')"
  then show ?thesis by (rule dispatch_ready_cases) (use inv in \<open>auto intro: launch_inv\<close>)
next
  fix s inp y r fo
  assume "finish_execution h D inp s y = (r, D', fo)"
  from finished_inv [OF finish_run [OF this] inv] show ?thesis .
next
  fix k' R N
  assume "kernel_step h (d_kernel D) k'" and "D' = D\<lparr>d_kernel := k', d_router := R, naming_registry := N\<rparr>"
  then show ?thesis using dispatcher_inv_kernel [OF inv r_into_rtranclp [where r = "kernel_step h"]] by simp
qed

lemma dispatcher_run_inv: "(dispatcher_step h)\<^sup>*\<^sup>* D D' \<Longrightarrow> dispatcher_inv D \<Longrightarrow> dispatcher_inv D'"
  by (induction rule: rtranclp_induct) (auto intro: dispatcher_step_inv)

section \<open>One live Execution per WorkItem\<close>

lemma distinct_startable: "keys_inv k \<Longrightarrow> distinct (map work_item_id (startable_work k allowed))"
proof -
  assume "keys_inv k"
  then have "keyed work_item_id (k_work_items k)" by simp
  then have "distinct (map work_item_id (dict_values (k_work_items k)))"
    by (auto simp: keyed_def dict_values_def comp_def case_prod_unfold cong: map_cong)
  then have "distinct (map work_item_id (sort_key work_item_id (dict_values (k_work_items k))))"
    by (simp add: distinct_map)
  then show ?thesis by (simp add: startable_work_def distinct_map_filter)
qed

lemma executions_of_plans:
  assumes "list_all2 execution_of (take (length es) ps) es"
  shows "map exec_work_item_id es = take (length es) (map (work_item_id \<circ> fst) ps)"
proof -
  have "list_all2 execution_of qs es \<Longrightarrow> map exec_work_item_id es = map (work_item_id \<circ> fst) qs" for qs
    by (induction rule: list_all2_induct) (auto simp: execution_of_def split: prod.splits)
  from this [OF assms] show ?thesis by (simp add: take_map)
qed

lemma dispatch_keeps_one:
  assumes "dispatch_ready h f D now inp bindings aid key allowed = (r, D')" and inv: "dispatcher_inv D"
    and one: "distinct (active_work_ids (d_kernel D))"
  shows "distinct (active_work_ids (d_kernel D'))"
  using assms(1)
proof (rule dispatch_ready_cases)
  assume "D' = D" then show ?thesis using one by simp
next
  fix ps
  assume plan: "plan_ready f D now bindings allowed = Inr ps" and launch: "launch h D inp aid key ps = (r, D')"
  from launch obtain es where len: "length es \<le> length ps" and es: "list_all2 execution_of (take (length es) ps) es"
    and added: "executions_added (d_kernel D) es (d_kernel D')" by (rule launch_run)
  let ?w = "startable_work (d_kernel D) allowed"
  have ids: "map exec_work_item_id es = take (length es) (map work_item_id ?w)"
    using executions_of_plans [OF es] plan_ready_exact(1) [OF plan] by (metis map_map)
  have "keys_inv (d_kernel D)" using inv by (simp add: dispatcher_inv_def machine_inv_def)
  from distinct_startable [OF this] have "distinct (map exec_work_item_id es)" unfolding ids by (rule distinct_take)
  moreover have "set (map exec_work_item_id es) \<inter> set (active_work_ids (d_kernel D)) = {}"
  proof -
    have "set (map exec_work_item_id es) \<subseteq> set (map work_item_id ?w)" unfolding ids by (rule set_take_subset)
    then show ?thesis by (auto simp: startable_work_def startable_def)
  qed
  ultimately show ?thesis using one by (auto simp: active_work_ids_added [OF added])
qed

lemma ended_keeps_one:
  assumes "execution_ended k eid k'" and "distinct (active_work_ids k)"
  shows "distinct (active_work_ids k')" and "set (active_work_ids k') \<subseteq> set (active_work_ids k)"
proof -
  from assms(1) obtain x x' where x: "dict_get (k_executions k) eid = Some x" "k_executions k' = dict_set (k_executions k) eid x'"
    and ended: "exec_state x' \<in> {ExecSucceeded, ExecFailed, ExecPaused}" by (auto simp: execution_ended_def)
  from x(1) obtain us vs where ks: "k_executions k = us @ (eid, x) # vs" "k_executions k' = us @ (eid, x') # vs"
    using x(2) by (elim dict_set_replace) simp
  let ?f = "\<lambda>d. map exec_work_item_id (filter (\<lambda>e. exec_state e \<in> {Requested, ExecActive}) (map snd d))"
  have "active_work_ids k = ?f us @ ?f [(eid, x)] @ ?f vs" "active_work_ids k' = ?f us @ ?f vs"
    using ended by (auto simp: active_work_ids_def ks dict_values_def)
  then obtain as bs cs where "active_work_ids k = as @ bs @ cs" "active_work_ids k' = as @ cs" by blast
  then show "distinct (active_work_ids k')" "set (active_work_ids k') \<subseteq> set (active_work_ids k)"
    using assms(2) by auto
qed

lemma launch_starts_all:
  assumes "launch h D inp aid key ps = (Inr batch, D')"
  shows "\<exists>es. executions_added (d_kernel D) es (d_kernel D') \<and> map exec_work_item_id es = map (work_item_id \<circ> fst) ps"
  using assms
proof (rule launch_run)
  fix es
  assume es: "list_all2 execution_of (take (length es) ps) es" "executions_added (d_kernel D) es (d_kernel D')"
    and ok: "\<And>b. (Inr batch :: dispatch_batch result) = Inr b \<Longrightarrow> length es = length ps \<and> batch_assignments b = map announced es
      \<and> parallelism b = length es \<and> (\<exists>Da d. d_kernel Da = d_kernel D' \<and> delta_cursor Da = delta_cursor D
        \<and> dispatch_delta Da = Inr (d, Da\<lparr>delta_cursor := delta_cursor D'\<rparr>)
        \<and> d_futures D' = d_futures D @ submit d key (map2 (\<lambda>p x. (x, p, announced x)) ps es))"
  have "length es = length ps" using ok [OF refl] by blast
  with es executions_of_plans [OF es(1)] show ?thesis by (intro exI [of _ es]) simp
qed

end
