(* ===== verification/Dispatcher_Run.thy ===== *)
theory Dispatcher_Run
  imports Dispatcher_Machine Routing_Properties Interface_Run
begin

text \<open>
  A dispatcher over the commissioned example Kernel with one published route: a dispatch that
  starts the WorkItem, a second one from the same plans, and completions of the first.
\<close>

section \<open>The dispatcher\<close>

definition ex_pilot :: pilot_binding where
  "ex_pilot = \<lparr>binding_node_id = ''node:1'', binding_pilot_id = ''pilot:1'', binding_host_id = ''host:1''\<rparr>"

definition ex_routed :: kernel where
  "ex_routed = run6\<lparr>k_route_snapshots := [(''route:1'', ex_choice ''r'')]\<rparr>"

definition ex_dispatcher :: dispatcher where
  "ex_dispatcher = \<lparr>d_kernel = ex_routed, d_router = router2, delta_cursor = 6,
     model_registry = Some [(''a'', ex_luna), (''b'', ex_sol)], candidate_check = Some (\<lambda>_. Inr ()),
     naming_registry = None, failover_configured = True, d_futures = []\<rparr>"

lemma ex_routed_sel [simp]:
  "data_space_id (k_data_space ex_routed) = ''ds:main''" "a_state (k_activation ex_routed) = Active"
  "k_nodes ex_routed = [(''node:1'', ex_node)]" "k_work_items ex_routed = [(''work:1'', ex_work ''work:1'')]"
  "k_work_edges ex_routed = []" "k_versions ex_routed = [(''graph:1'', 1)]" "k_executions ex_routed = []"
  "k_route_snapshots ex_routed = [(''route:1'', ex_choice ''r'')]" "k_ledger ex_routed = k_ledger run6"
  "k_activation ex_routed = k_activation run6"
  by (simp_all add: ex_routed_def)

lemma ex_dispatcher_sel [simp]:
  "d_kernel ex_dispatcher = ex_routed" "d_router ex_dispatcher = router2" "delta_cursor ex_dispatcher = 6"
  "model_registry ex_dispatcher = Some [(''a'', ex_luna), (''b'', ex_sol)]" "candidate_check ex_dispatcher = Some (\<lambda>_. Inr ())"
  "naming_registry ex_dispatcher = None" "failover_configured ex_dispatcher" "d_futures ex_dispatcher = []"
  by (simp_all add: ex_dispatcher_def)

lemma ex_dispatcher_inv: "dispatcher_inv ex_dispatcher"
proof -
  have "machine_inv run6" using reachable_inv [OF reachable_run6] .
  then have "machine_inv ex_routed"
    by (auto simp: machine_inv_def versions_inv_def keys_inv_def ex_routed_def Let_def ex_choice_def keyed_def)
  then show ?thesis by (simp add: dispatcher_inv_def ledger_events_def)
qed

definition ex_plan :: plan where
  "ex_plan = (ex_work ''work:1'', ex_pilot, ex_sol)"

lemma ex_work_sel [simp]: "work_item_id (ex_work w) = w" "work_state (ex_work w) = Ready" "work_route_key (ex_work w) = ''r''"
    "work_data_space_id (ex_work w) = ''ds:main''"
  by (simp_all add: ex_work_def)

lemma ex_choice_sel [simp]: "route_state (ex_choice r) = Published" "route_key (ex_choice r) = r" "evidence_cursor (ex_choice r) = 0"
  by (simp_all add: ex_choice_def)

lemma ex_selects: "select_candidate toy_float router2 [(''a'', ex_luna), (''b'', ex_sol)] (\<lambda>_. Inr ()) m (ex_choice ''r'') = Inr ex_sol"
  using ex_select(1) by (auto simp: select_candidate_Inr)

lemma ex_plans: "plan_ready toy_float ex_dispatcher 0 [ex_pilot] None = Inr [ex_plan]"
  by (simp add: plan_ready_def require_active_def bindings_by_node_def ex_pilot_def active_work_ids_def dependency_targets_def
    plan_work_def ex_selects ex_plan_def)

lemma ex_preflights: "preflight_ready toy_float ex_dispatcher 0 [ex_pilot] [''work:1''] False = Inr ()"
  by (simp add: preflight_ready_def bindings_by_node_def ex_pilot_def dependency_targets_def published_routes_def
    published_count_def preflight_work_def ex_selects)

section \<open>Two launches\<close>

lemma toy_kernel_record:
  assumes "valid_identifier sid" "valid_identifier corr" "option_all valid_identifier aid" "non_blank ty" "non_blank key" "plain key"
    and "n = 63 + length sid + length key" "n < 1000" "data_space_id (k_data_space k) = ''ds:main''"
    and "ledger_data_space_id (k_ledger k) = ''ds:main''" "length (stream_of (k_ledger k) sid) = v"
    and "version_of (k_versions k) sid = v" "dict_get (l_idempotency (k_ledger k)) key = None"
    and "dict_get (l_event_ids (k_ledger k)) (run_event_id n) = None"
  shows "kernel_record toy k 0 sid ty p act aid key (Some corr) None
    = Inr (toy_event n sid (Suc v) ty p act aid corr key,
           k\<lparr>k_ledger := pushed (k_ledger k) (toy_event n sid (Suc v) ty p act aid corr key),
             k_versions := dict_set (k_versions k) sid (Suc v)\<rparr>)"
  by (simp add: kernel_record_def assms(9,12) toy_append [OF assms(1-8,10,11,13,14)])

text \<open>The first launch uses the id \<open>u1\<close>, the second \<open>u2\<close>.\<close>

definition ex_start :: "string \<Rightarrow> nat \<Rightarrow> start_input" where
  "ex_start u = (\<lambda>_. \<lparr>execution_uuid = u, assignment_uuid = [], creation_time = 0, assignment_time = 0\<rparr>)"

definition ex_run :: "string \<Rightarrow> execution" where
  "ex_run u = requested_execution (''execution:'' @ u) ex_plan"

definition ex_created :: "nat \<Rightarrow> string \<Rightarrow> nat \<Rightarrow> kevent" where
  "ex_created n u i = toy_event n (''execution:'' @ u) 1 ''execution_created'' [(''execution'', PExecution (ex_run u))] Human
     (Some ''owner:me'') ''work:1'' (run_key i @ '':work:1'')"

definition ex_started1 :: kernel where
  "ex_started1 = ex_routed\<lparr>k_ledger := pushed (k_ledger run6) (ex_created 83 ''u1'' 1),
     k_versions := [(''graph:1'', 1), (''execution:u1'', 1)], k_executions := [(''execution:u1'', ex_run ''u1'')]\<rparr>"

definition ex_started2 :: kernel where
  "ex_started2 = ex_started1\<lparr>k_ledger := pushed (k_ledger ex_started1) (ex_created 84 ''u2'' 2),
     k_versions := [(''graph:1'', 1), (''execution:u1'', 1), (''execution:u2'', 1)],
     k_executions := [(''execution:u1'', ex_run ''u1''), (''execution:u2'', ex_run ''u2'')]\<rparr>"

lemma ex_disp_ids [simp]: "valid_identifier ''execution:u1''" "valid_identifier ''execution:u2''" "valid_identifier ''pilot:1''"
    "valid_identifier ''host:1''" "valid_identifier ''node:1''" "valid_identifier ''work:1''" "valid_identifier ''ds:main''"
    "valid_identifier ''owner:me''"
  by code_simp+

lemma ex_run_sel [simp]: "execution_id (ex_run u) = ''execution:'' @ u" "exec_data_space_id (ex_run u) = ''ds:main''"
    "exec_node_id (ex_run u) = ''node:1''" "exec_work_item_id (ex_run u) = ''work:1''" "exec_pilot_id (ex_run u) = ''pilot:1''"
    "model_candidate_key (ex_run u) = ''b''" "exec_state (ex_run u) = Requested" "pilot_host_id (ex_run u) = ''host:1''"
    "exec_agent_name (ex_run u) = None"
  by (simp_all add: ex_run_def ex_plan_def requested_execution_def ex_pilot_def ex_sol_def)

lemma ex_run_valid [simp]: "u \<in> {''u1'', ''u2''} \<Longrightarrow> valid_execution (ex_run u)"
  by (auto simp: valid_execution_def text_lengths) (simp_all add: ex_run_def ex_plan_def requested_execution_def)

lemma ex_disp_keys [simp]: "non_blank (run_key i @ '':work:1'') \<longleftrightarrow> i \<le> 505" "plain '':work:1''"
  by (simp add: non_blank_def py_len_def run_key_def)
    (simp add: plain_def is_body_char_def is_lower_def is_digit_def char_between_def)

lemma ex_disp_types [simp]: "non_blank ''execution_created''" "non_blank ''pilot_execution_receipt_recorded''"
  by (simp_all add: text_lengths)

lemma ex_record1: "kernel_record toy ex_routed 0 ''execution:u1'' ''execution_created'' [(''execution'', PExecution (ex_run ''u1''))] Human
    (Some ''owner:me'') (run_key 1 @ '':work:1'') (Some ''work:1'') None
  = Inr (ex_created 83 ''u1'' 1, ex_routed\<lparr>k_ledger := pushed (k_ledger run6) (ex_created 83 ''u1'' 1),
      k_versions := [(''graph:1'', 1), (''execution:u1'', 1)]\<rparr>)"
  using toy_kernel_record [of "''execution:u1''" "''work:1''" "Some ''owner:me''" "''execution_created''" "run_key 1 @ '':work:1''" 83
    ex_routed 0 "[(''execution'', PExecution (ex_run ''u1''))]" Human]
  by (simp add: ex_created_def version_of_def)

lemma ex_create1: "create_execution toy ex_routed 0 (ex_run ''u1'') ''owner:me'' (run_key 1 @ '':work:1'')
    = Inr (ex_created 83 ''u1'' 1, ex_started1)"
  using ex_record1 by (simp add: create_execution_def require_active_def ex_started1_def)

lemma ex_started1_sel [simp]:
  "data_space_id (k_data_space ex_started1) = ''ds:main''" "k_activation ex_started1 = k_activation run6"
  "k_nodes ex_started1 = [(''node:1'', ex_node)]" "k_work_items ex_started1 = [(''work:1'', ex_work ''work:1'')]"
  "k_work_edges ex_started1 = []" "k_executions ex_started1 = [(''execution:u1'', ex_run ''u1'')]"
  "k_versions ex_started1 = [(''graph:1'', 1), (''execution:u1'', 1)]"
  "k_ledger ex_started1 = pushed (k_ledger run6) (ex_created 83 ''u1'' 1)"
  by (simp_all add: ex_started1_def)

lemma ex_record2: "kernel_record toy ex_started1 0 ''execution:u2'' ''execution_created'' [(''execution'', PExecution (ex_run ''u2''))] Human
    (Some ''owner:me'') (run_key 2 @ '':work:1'') (Some ''work:1'') None
  = Inr (ex_created 84 ''u2'' 2, ex_started1\<lparr>k_ledger := pushed (k_ledger ex_started1) (ex_created 84 ''u2'' 2),
      k_versions := [(''graph:1'', 1), (''execution:u1'', 1), (''execution:u2'', 1)]\<rparr>)"
  using toy_kernel_record [of "''execution:u2''" "''work:1''" "Some ''owner:me''" "''execution_created''" "run_key 2 @ '':work:1''" 84
    ex_started1 0 "[(''execution'', PExecution (ex_run ''u2''))]" Human]
  by (simp add: ex_created_def version_of_def)

lemma ex_create2: "create_execution toy ex_started1 0 (ex_run ''u2'') ''owner:me'' (run_key 2 @ '':work:1'')
    = Inr (ex_created 84 ''u2'' 2, ex_started2)"
  using ex_record2 by (simp add: create_execution_def require_active_def ex_started2_def)

text \<open>What the launches return.\<close>

definition ex_batch :: "string \<Rightarrow> dispatch_batch" where
  "ex_batch u = \<lparr>batch_assignments = [announced (ex_run u)], parallelism = 1, batch_model_calls = 1\<rparr>"

lemma ex_start_work:
  assumes "create_execution toy (d_kernel D) 0 (ex_run u) ''owner:me'' (run_key i @ '':work:1'') = Inr (e, k)"
    and "u \<in> {''u1'', ''u2''}" and "naming_registry D = None"
  shows "start_all toy D (ex_start u) 0 ''owner:me'' (run_key i) [ex_plan]
    = (Inr [(ex_run u, ex_plan, announced (ex_run u))], D\<lparr>d_kernel := k\<rparr>)"
proof -
  obtain eid where eid: "eid = ''execution:'' @ u" by simp
  have ids: "new_id ''execution'' u = Inr eid"
    using assms(2) by (auto simp: new_id_def validate_id_def eid)
  have req: "requested_execution eid ex_plan = ex_run u" by (simp add: ex_run_def eid)
  have name: "allocate_name D [] eid ex_plan = (Inr None, D)"
    using assms(3) by (simp add: allocate_name_def ex_plan_def)
  have ann: "assignment_of (ex_run u) None = announced (ex_run u)" "assigned (ex_run u) None = ex_run u"
    by (simp_all add: assignment_of_def assigned_def announced_def)
  have valid: "valid_dispatch_assignment (announced (ex_run u))"
    using assms(2) by (auto simp: valid_dispatch_assignment_def announced_def text_lengths)
  have inp: "execution_uuid (ex_start u 0) = u" "assignment_uuid (ex_start u 0) = []" "creation_time (ex_start u 0) = 0"
    by (simp_all add: ex_start_def)
  have item: "work_item_id (fst ex_plan) = ''work:1''" by (simp add: ex_plan_def)
  have key: "run_key i @ '':'' @ ''work:1'' = run_key i @ '':work:1''" by simp
  have rec: "record_name toy D' x e None k = (Inr (), D')" for D' x e k by (simp add: record_name_def)
  have "start_work toy D (ex_start u 0) ''owner:me'' (run_key i) ex_plan
      = (Inr (ex_run u, ex_plan, announced (ex_run u)), D\<lparr>d_kernel := k\<rparr>)"
    unfolding start_work_def inp ids sum.case name prod.case req Let_def item key assms(1) rec ann
    using valid ex_run_valid [OF assms(2)] by simp
  then show ?thesis by simp
qed

text \<open>A launch whose ledger has the shape of the dispatcher's invariant.\<close>

lemma ex_launch:
  assumes "create_execution toy (d_kernel D) 0 (ex_run u) ''owner:me'' (run_key i @ '':work:1'') = Inr (e, k)"
    and "u \<in> {''u1'', ''u2''}" and "naming_registry D = None" and "dispatcher_inv D"
  obtains d where "launch toy D (ex_start u) ''owner:me'' (run_key i) [ex_plan]
      = (Inr (ex_batch u), D\<lparr>d_kernel := k, delta_cursor := length (ledger_events (k_ledger k)),
          d_futures := d_futures D @ submit d (run_key i) [(ex_run u, ex_plan, announced (ex_run u))]\<rparr>)"
proof -
  let ?D = "D\<lparr>d_kernel := k\<rparr>"
  have "kernel_step toy (d_kernel D) k"
    by (rule created_execution(1) [OF assms(1) ex_run_valid [OF assms(2)]]) simp
  then have "dispatcher_inv (D\<lparr>d_kernel := k, d_router := d_router D, naming_registry := naming_registry D\<rparr>)"
    using dispatcher_inv_kernel [OF assms(4) r_into_rtranclp [where r = "kernel_step toy"]] by blast
  then have "ledger_inv (k_ledger (d_kernel ?D))" "delta_cursor ?D \<le> length (ledger_events (k_ledger (d_kernel ?D)))"
    by (simp_all add: dispatcher_inv_def machine_inv_def versions_inv_def Let_def)
  then obtain d where "dispatch_delta ?D = Inr (d, ?D\<lparr>delta_cursor := length (ledger_events (k_ledger (d_kernel ?D)))\<rparr>)"
    using dispatch_delta_exact by blast
  with ex_start_work [OF assms(1-3)] that show thesis
    by (auto simp: launch_def ex_batch_def Let_def)
qed

end
