(* ===== verification/Dispatcher_Properties.thy ===== *)
theory Dispatcher_Properties
  imports Dispatcher_Run
begin

text \<open>
  The properties of the dispatcher: what a dispatch starts, what its workers are told, how
  completions are recorded, and that all of it is a run of the Kernel.
\<close>

section \<open>Dispatch\<close>

text \<open>
  C5: An accepted dispatch starts exactly the startable WorkItems, in the order of their ids:
  allowed, ready, without a live Execution and with all dependencies completed, in an active
  Kernel. Each becomes a new requested Execution at the delegated Node, on the pilot and host
  bound to that Node, with the candidate the router selects from the published snapshot of the
  WorkItem's route, which is up to date with the evidence.
\<close>

theorem dispatch_starts_startable_work:
  assumes "dispatch_ready h f D now inp bindings aid key allowed = (Inr batch, D')"
  shows "a_state (k_activation (d_kernel D)) = Active \<and>
    map da_work_item_id (batch_assignments batch) = map work_item_id (startable_work (d_kernel D) allowed) \<and>
    (\<forall>a \<in> set (batch_assignments batch). \<exists>w b c x. w \<in> set (startable_work (d_kernel D) allowed)
      \<and> planned_from f D now bindings (w, b, c) \<and> dict_get (k_executions (d_kernel D')) (da_execution_id a) = Some x
      \<and> \<not> dict_mem (da_execution_id a) (k_executions (d_kernel D)) \<and> a = announced x \<and> exec_state x = Requested
      \<and> exec_work_item_id x = work_item_id w \<and> exec_node_id x = delegated_to_node_id w
      \<and> exec_pilot_id x = binding_pilot_id b \<and> pilot_host_id x = binding_host_id b \<and> model_candidate_key x = candidate_key c)"
  using assms
proof (rule dispatch_ready_cases)
  fix ps
  assume plan: "plan_ready f D now bindings allowed = Inr ps" and launch: "launch h D inp aid key ps = (Inr batch, D')"
  note exact = plan_ready_exact [OF plan]
  from launch obtain es where es: "list_all2 execution_of (take (length es) ps) es"
    and added: "executions_added (d_kernel D) es (d_kernel D')"
    and all: "length es = length ps \<and> batch_assignments batch = map announced es" by (rule launch_run) blast
  have of: "list_all2 execution_of ps es" using es all by simp
  have "map da_work_item_id (batch_assignments batch) = map exec_work_item_id es" using all by (simp add: announced_def comp_def)
  also have "\<dots> = map work_item_id (map fst ps)" using executions_of_plans [OF es] all by simp
  finally have ids: "map da_work_item_id (batch_assignments batch) = map work_item_id (startable_work (d_kernel D) allowed)"
    by (simp add: exact(1))
  have "\<exists>w b c x. w \<in> set (startable_work (d_kernel D) allowed)
      \<and> planned_from f D now bindings (w, b, c) \<and> dict_get (k_executions (d_kernel D')) (da_execution_id a) = Some x
      \<and> \<not> dict_mem (da_execution_id a) (k_executions (d_kernel D)) \<and> a = announced x \<and> exec_state x = Requested
      \<and> exec_work_item_id x = work_item_id w \<and> exec_node_id x = delegated_to_node_id w
      \<and> exec_pilot_id x = binding_pilot_id b \<and> pilot_host_id x = binding_host_id b \<and> model_candidate_key x = candidate_key c"
    if "a \<in> set (batch_assignments batch)" for a
  proof -
    from that all obtain i where i: "i < length es" "a = announced (es ! i)" by (auto simp: in_set_conv_nth)
    obtain w b c where p: "ps ! i = (w, b, c)" by (cases "ps ! i")
    from of i p have x: "execution_of (w, b, c) (es ! i)" "(w, b, c) \<in> set ps" "es ! i \<in> set es"
      by (auto simp: list_all2_conv_all_nth in_set_conv_nth)
    have "w \<in> set (startable_work (d_kernel D) allowed)" using x(2) exact(1) by (metis fst_conv image_eqI list.set_map)
    moreover have "planned_from f D now bindings (w, b, c)" using exact(2) x(2) by (simp add: list_all_iff)
    moreover have "dict_get (k_executions (d_kernel D')) (da_execution_id a) = Some (es ! i)"
      using executions_added_get [OF added x(3)] i(2) by (simp add: announced_def)
    moreover have "\<not> dict_mem (da_execution_id a) (k_executions (d_kernel D))" "exec_state (es ! i) = Requested"
      using added x(3) i(2) by (auto simp: executions_added_def list_all_iff announced_def)
    ultimately show ?thesis using x(1) i(2) by (auto simp: execution_of_def)
  qed
  with exact(3) ids show ?thesis by simp
qed simp

lemma ex_dispatch:
  obtains d D' where "launch toy ex_dispatcher (ex_start ''u1'') ''owner:me'' (run_key 1) [ex_plan] = (Inr (ex_batch ''u1''), D')"
    and "d_kernel D' = ex_started1" and "d_futures D' = submit d (run_key 1) [(ex_run ''u1'', ex_plan, announced (ex_run ''u1''))]"
    and "naming_registry D' = None" and "dispatcher_inv D'"
proof -
  have "create_execution toy (d_kernel ex_dispatcher) 0 (ex_run ''u1'') ''owner:me'' (run_key 1 @ '':work:1'')
      = Inr (ex_created 83 ''u1'' 1, ex_started1)" using ex_create1 by simp
  then obtain d where run: "launch toy ex_dispatcher (ex_start ''u1'') ''owner:me'' (run_key 1) [ex_plan]
      = (Inr (ex_batch ''u1''), ex_dispatcher\<lparr>d_kernel := ex_started1,
          delta_cursor := length (ledger_events (k_ledger ex_started1)),
          d_futures := d_futures ex_dispatcher @ submit d (run_key 1) [(ex_run ''u1'', ex_plan, announced (ex_run ''u1''))]\<rparr>)"
    by (rule ex_launch) (simp_all add: ex_dispatcher_inv)
  from that [OF run] launch_inv [OF run ex_dispatcher_inv] show thesis by simp
qed

lemma ex_dispatches: "launch toy ex_dispatcher (ex_start ''u1'') ''owner:me'' (run_key 1) [ex_plan] = x \<Longrightarrow>
    dispatch_ready toy toy_float ex_dispatcher 0 (ex_start ''u1'') [ex_pilot] ''owner:me'' (run_key 1) None = x"
  using ex_plans by (simp add: dispatch_ready_def)

theorem dispatch_starts_startable_work_witness:
  "\<exists>D'. dispatch_ready toy toy_float ex_dispatcher 0 (ex_start ''u1'') [ex_pilot] ''owner:me'' (run_key 1) None = (Inr (ex_batch ''u1''), D') \<and>
    map work_item_id (startable_work (d_kernel ex_dispatcher) None) = [''work:1'']"
proof -
  obtain D' where "launch toy ex_dispatcher (ex_start ''u1'') ''owner:me'' (run_key 1) [ex_plan] = (Inr (ex_batch ''u1''), D')"
    by (rule ex_dispatch)
  note run = ex_dispatches [OF this]
  from dispatch_starts_startable_work [OF run] have "map da_work_item_id (batch_assignments (ex_batch ''u1''))
      = map work_item_id (startable_work (d_kernel ex_dispatcher) None)" by blast
  with run show ?thesis by (simp add: ex_batch_def announced_def)
qed

text \<open>
  C21: The preflight agrees with the dispatch: after a preflight of some WorkItems over an active
  Kernel, planning a dispatch restricted to them succeeds, and if the preflight did not admit
  unprepared WorkItems and none of them has a live Execution, it plans at least one.
\<close>

theorem preflight_predicts_dispatch:
  assumes "preflight_ready f D now bindings ids prepare = Inr ()" and "a_state (k_activation (d_kernel D)) = Active"
    and "keys_inv (d_kernel D)"
  shows "\<exists>ps. plan_ready f D now bindings (Some ids) = Inr ps \<and>
    (\<not> prepare \<and> set ids \<inter> set (active_work_ids (d_kernel D)) = {} \<longrightarrow> ps \<noteq> [])"
  using preflight_plans [OF assms] by metis

theorem preflight_predicts_dispatch_witness:
  "\<exists>ps. plan_ready toy_float ex_dispatcher 0 [ex_pilot] (Some [''work:1'']) = Inr ps \<and> ps \<noteq> []"
proof -
  have "keys_inv (d_kernel ex_dispatcher)" using ex_dispatcher_inv by (simp add: dispatcher_inv_def machine_inv_def)
  from preflight_predicts_dispatch [OF ex_preflights _ this] show ?thesis by (auto simp: active_work_ids_def)
qed

text \<open>
  C19: The workers of a dispatch are all told the same event delta: it starts where the previous
  dispatch's ended, ends with the last event of the ledger, and is the exact summary of the
  events in between, the ones of the dispatch itself included.
\<close>

theorem dispatch_deltas_are_consecutive:
  assumes "dispatch_ready h f D now inp bindings aid key allowed = (Inr batch, D')" and "dispatcher_inv D"
  shows "\<exists>d. map sub_delta (d_futures D') = map sub_delta (d_futures D) @ replicate (parallelism batch) d \<and>
    after_cursor d = delta_cursor D \<and> through_cursor d = delta_cursor D' \<and>
    delta_cursor D' = length (ledger_events (k_ledger (d_kernel D'))) \<and>
    event_delta_of (k_ledger (d_kernel D')) (delta_cursor D) (delta_cursor D') = Inr d"
  using assms(1)
proof (rule dispatch_ready_cases)
  fix ps
  assume launch: "launch h D inp aid key ps = (Inr batch, D')"
  show ?thesis using launch_delta [OF launch assms(2)] .
qed simp

theorem dispatch_deltas_are_consecutive_witness:
  "\<exists>D' d. dispatch_ready toy toy_float ex_dispatcher 0 (ex_start ''u1'') [ex_pilot] ''owner:me'' (run_key 1) None = (Inr (ex_batch ''u1''), D') \<and>
    map sub_delta (d_futures D') = [d] \<and> after_cursor d = 6 \<and> through_cursor d = 7"
proof -
  obtain D' where l: "launch toy ex_dispatcher (ex_start ''u1'') ''owner:me'' (run_key 1) [ex_plan] = (Inr (ex_batch ''u1''), D')"
    and k: "d_kernel D' = ex_started1" by (rule ex_dispatch)
  note run = ex_dispatches [OF l]
  from dispatch_deltas_are_consecutive [OF run ex_dispatcher_inv] show ?thesis
    using run k by (auto simp: ex_batch_def ledger_events_def)
qed

section \<open>Completion\<close>

text \<open>
  C20: A completion either ends its Execution, which is then succeeded, failed or paused, or
  changes nothing of the Kernel. In particular the outcome of a worker whose Execution is no
  longer requested, because its host was disconnected or it was set to active, is lost: the
  completion raises, its submission is forgotten and no event is written.
\<close>

theorem completion_ends_or_is_lost:
  assumes "finish_execution h D inp s y = (r, D', fo)"
  shows "d_futures D' = remove1 s (d_futures D) \<and>
    (case r of Inl err \<Rightarrow> d_kernel D' = d_kernel D
     | Inr _ \<Rightarrow> (\<exists>x. dict_get (k_executions (d_kernel D')) (execution_id (sub_execution s)) = Some x
         \<and> exec_state x \<in> {ExecSucceeded, ExecFailed, ExecPaused})) \<and>
    (map_option exec_state (dict_get (k_executions (d_kernel D)) (execution_id (sub_execution s))) \<noteq> Some Requested
      \<and> (\<nexists>m. y = UnexpectedError m) \<longrightarrow> (\<exists>err. r = Inl err))"
proof (intro conjI impI)
  from finish_run [OF assms] show "d_futures D' = remove1 s (d_futures D)" by (auto simp: finished_def)
  from finish_run [OF assms] show "case r of Inl err \<Rightarrow> d_kernel D' = d_kernel D
     | Inr _ \<Rightarrow> (\<exists>x. dict_get (k_executions (d_kernel D')) (execution_id (sub_execution s)) = Some x
         \<and> exec_state x \<in> {ExecSucceeded, ExecFailed, ExecPaused})"
    by (auto simp: finished_def execution_ended_def)
  assume late: "map_option exec_state (dict_get (k_executions (d_kernel D)) (execution_id (sub_execution s))) \<noteq> Some Requested
      \<and> (\<nexists>m. y = UnexpectedError m)"
  then have refused: "record_pilot_execution_receipt h (d_kernel D) t (execution_id (sub_execution s)) x aid key
      = raise_violation ''PilotHost receipt requires a requested Execution''" for t x aid key
    by (auto simp: record_pilot_execution_receipt_def split: option.splits)
  show "\<exists>err. r = Inl err"
  proof (cases y)
    case (HostUnreachable rid m)
    with assms refused show ?thesis
      by (auto simp: finish_execution_def finish_receipt_def raise_violation_def Let_def split: sum.splits)
  qed (use assms refused late in \<open>auto simp: finish_execution_def finish_receipt_def raise_violation_def Let_def split: prod.splits\<close>)
qed

text \<open>The worker of the example reports a success.\<close>

definition ex_work_receipt :: pilot_receipt where
  "ex_work_receipt = \<lparr>receipt_id = ''receipt:1'', receipt_status = ''succeeded'', requested_model = Some ''gpt-5.6-sol'',
     actual_model = Some ''gpt-5.6-sol'', receipt_session_id = Some ''s'', receipt_usage = Some ''{}'', receipt_result = Some ''{}'',
     receipt_error = None\<rparr>"

definition ex_finish :: finish_input where
  "ex_finish = \<lparr>finish_time = 0, fallback_time = 0, receipt_uuid = [], error_object = \<lambda>_ _. ''{}''\<rparr>"

lemma ex_receipt_recorded: "\<exists>e k. record_pilot_execution_receipt toy ex_started1 0 ''execution:u1'' ex_work_receipt ''pilot:1''
    (run_key 1 @ '':execution:u1:receipt'') = Inr (e, k)"
proof -
  have "plain '':execution:u1:receipt''" "non_blank (run_key (Suc 0) @ '':execution:u1:receipt'')"
    by (simp add: plain_def is_body_char_def is_lower_def is_digit_def char_between_def)
      (simp add: non_blank_def py_len_def run_key_def)
  then have "kernel_record toy ex_started1 0 ''execution:u1'' ''pilot_execution_receipt_recorded'' p PilotActor (Some ''pilot:1'')
      (run_key 1 @ '':execution:u1:receipt'') (Some ''work:1'') None = Inr (toy_event 97 ''execution:u1'' 2
        ''pilot_execution_receipt_recorded'' p PilotActor (Some ''pilot:1'') ''work:1'' (run_key 1 @ '':execution:u1:receipt''),
      ex_started1\<lparr>k_ledger := pushed (k_ledger ex_started1) (toy_event 97 ''execution:u1'' 2
          ''pilot_execution_receipt_recorded'' p PilotActor (Some ''pilot:1'') ''work:1'' (run_key 1 @ '':execution:u1:receipt'')),
        k_versions := dict_set (k_versions ex_started1) ''execution:u1'' 2\<rparr>)" for p
    using toy_kernel_record [of "''execution:u1''" "''work:1''" "Some ''pilot:1''" "''pilot_execution_receipt_recorded''"
      "run_key 1 @ '':execution:u1:receipt''" 97 ex_started1 1 p PilotActor]
    by (simp add: ex_created_def version_of_def numeral_2_eq_2)
  then show ?thesis
    by (simp add: record_pilot_execution_receipt_def receipt_transition_def ex_work_receipt_def then_update_def)
qed

theorem completion_ends_or_is_lost_witness:
  "\<exists>D s D'. d_futures D = [s] \<and> finish_execution toy D ex_finish s (WorkOutcome ex_work_receipt) = (Inr (), D', None) \<and>
    d_futures D' = [] \<and> (\<exists>x. dict_get (k_executions (d_kernel D')) ''execution:u1'' = Some x \<and> exec_state x \<in> {ExecSucceeded, ExecFailed, ExecPaused})"
proof -
  obtain d D where "launch toy ex_dispatcher (ex_start ''u1'') ''owner:me'' (run_key 1) [ex_plan] = (Inr (ex_batch ''u1''), D)"
    and k: "d_kernel D = ex_started1"
    and f: "d_futures D = submit d (run_key 1) [(ex_run ''u1'', ex_plan, announced (ex_run ''u1''))]" by (rule ex_dispatch)
  then obtain s where s: "d_futures D = [s]" "sub_execution s = ex_run ''u1''" "sub_key s = run_key 1"
    by (simp add: submit_def ex_plan_def)
  obtain e k' where "record_pilot_execution_receipt toy ex_started1 0 ''execution:u1'' ex_work_receipt ''pilot:1''
    (run_key 1 @ '':execution:u1:receipt'') = Inr (e, k')" using ex_receipt_recorded by blast
  then have run: "finish_execution toy D ex_finish s (WorkOutcome ex_work_receipt) = (Inr (), D\<lparr>d_futures := [], d_kernel := k'\<rparr>, None)"
    by (simp add: finish_execution_def finish_receipt_def s k ex_finish_def Let_def)
  note ends = completion_ends_or_is_lost [OF run]
  have "\<exists>x. dict_get (k_executions k') ''execution:u1'' = Some x \<and> exec_state x \<in> {ExecSucceeded, ExecFailed, ExecPaused}"
    using ends s by simp
  with s run show ?thesis
    by (intro exI [of _ D] exI [of _ s] exI [of _ "D\<lparr>d_futures := [], d_kernel := k'\<rparr>"]) simp
qed

section \<open>The dispatcher beside the Kernel\<close>


text \<open>The example dispatcher is what its constructor returns.\<close>

lemma ex_initial: "init_dispatcher ex_routed router2 6 (Some [(''a'', ex_luna), (''b'', ex_sol)]) (Some (\<lambda>_. Inr ())) None True (Some 1)
    = Inr ex_dispatcher"
  by (simp add: init_dispatcher_def ex_dispatcher_def)

lemma ex_initial_run6: "init_dispatcher run6 router2 6 None None None True None = Inr (ex_dispatcher\<lparr>d_kernel := run6,
    model_registry := None, candidate_check := None\<rparr>)"
  by (simp add: init_dispatcher_def ex_dispatcher_def)

text \<open>Meanwhile an Execution is created by hand.\<close>

lemma ex_elsewhere: "(dispatcher_step toy)\<^sup>*\<^sup>* (ex_dispatcher\<lparr>d_kernel := run6, model_registry := None, candidate_check := None\<rparr>)
    (ex_dispatcher\<lparr>d_kernel := run6, model_registry := None, candidate_check := None\<rparr>
      \<lparr>d_kernel := run7, d_router := router2, naming_registry := None\<rparr>)"
proof -
  let ?D0 = "ex_dispatcher\<lparr>d_kernel := run6, model_registry := None, candidate_check := None\<rparr>"
  have "d_kernel ?D0 = run6" by simp
  then have "kernel_step toy (d_kernel ?D0) run7" using in_execution [OF step_create_execution [OF ex_execution_valid run7]] by metis
  from step_elsewhere [OF this, of None router2] show ?thesis by (rule r_into_rtranclp [where r = "dispatcher_step toy"])
qed


text \<open>
  In every state of the dispatcher the pending submissions belong to different Executions
  that the Kernel has, with the WorkItem, Node, pilot and host they were created with, and
  the event deltas already handed out end before the delta cursor, which never runs past the
  ledger, if it did not at startup.
\<close>

theorem submissions_are_tracked:
  assumes "init_dispatcher k R startup registry check names failover max_parallelism = Inr D0" and "reachable h ds ap cp k"
    and "startup \<le> int (length (ledger_events (k_ledger k)))" and "(dispatcher_step h)\<^sup>*\<^sup>* D0 D"
  shows "distinct (map (execution_id \<circ> sub_execution) (d_futures D)) \<and>
    list_all (\<lambda>s. submitted (d_kernel D) (sub_execution s) \<and> through_cursor (sub_delta s) \<le> delta_cursor D) (d_futures D) \<and>
    delta_cursor D \<le> length (ledger_events (k_ledger (d_kernel D)))"
proof -
  have "dispatcher_inv D0" using assms(1,3) reachable_inv [OF assms(2)]
    by (auto simp: init_dispatcher_def dispatcher_inv_def split: if_splits)
  from dispatcher_run_inv [OF assms(4) this] show ?thesis by (auto simp: dispatcher_inv_def list_all_iff)
qed

theorem submissions_are_tracked_witness:
  "\<exists>D. (dispatcher_step toy)\<^sup>*\<^sup>* (ex_dispatcher\<lparr>d_kernel := run6, model_registry := None, candidate_check := None\<rparr>) D \<and>
    k_executions (d_kernel D) = [(''exec:1'', ex_execution)] \<and> delta_cursor D = 6 \<and>
    delta_cursor D \<le> length (ledger_events (k_ledger (d_kernel D)))"
proof -
  let ?D0 = "ex_dispatcher\<lparr>d_kernel := run6, model_registry := None, candidate_check := None\<rparr>"
  let ?D = "?D0\<lparr>d_kernel := run7, d_router := router2, naming_registry := None\<rparr>"
  note run = ex_elsewhere
  have "(6::int) \<le> int (length (ledger_events (k_ledger run6)))" by (simp add: ledger_events_def)
  from submissions_are_tracked [OF ex_initial_run6 reachable_run6 this run] run show ?thesis
    by (intro exI [of _ ?D]) (simp add: run7_def)
qed

text \<open>
  C17: Dispatches and completions that do not overlap keep at most one live Execution per
  WorkItem: if no WorkItem has two, none has two after a dispatch, accepted or not, nor after
  a completion.
\<close>

theorem dispatch_keeps_one_execution:
  assumes "dispatcher_inv D" and "distinct (active_work_ids (d_kernel D))"
    and "dispatch_ready h f D now inp bindings aid key allowed = (r, D') \<or> finish_execution h D fin s y = (u, D', fo)"
  shows "dispatcher_inv D' \<and> distinct (active_work_ids (d_kernel D'))"
  using assms(3)
proof
  assume d: "dispatch_ready h f D now inp bindings aid key allowed = (r, D')"
  from dispatch_keeps_one [OF d assms(1,2)] dispatcher_step_inv [OF step_dispatch_ready [OF d] assms(1)] show ?thesis by simp
next
  assume c: "finish_execution h D fin s y = (u, D', fo)"
  show ?thesis using finished_inv [OF finish_run [OF c] assms(1)] finish_run [OF c] assms(2) ended_keeps_one(1)
    by (fastforce simp: finished_def)
qed

theorem dispatch_keeps_one_execution_witness:
  "\<exists>D'. dispatch_ready toy toy_float ex_dispatcher 0 (ex_start ''u1'') [ex_pilot] ''owner:me'' (run_key 1) None = (Inr (ex_batch ''u1''), D') \<and>
    active_work_ids (d_kernel D') = [''work:1''] \<and> dispatcher_inv D' \<and> distinct (active_work_ids (d_kernel D'))"
proof -
  obtain D' where l: "launch toy ex_dispatcher (ex_start ''u1'') ''owner:me'' (run_key 1) [ex_plan] = (Inr (ex_batch ''u1''), D')"
    and k: "d_kernel D' = ex_started1" by (rule ex_dispatch)
  note run = ex_dispatches [OF l]
  have "distinct (active_work_ids (d_kernel ex_dispatcher))" by (simp add: active_work_ids_def)
  from dispatch_keeps_one_execution [OF ex_dispatcher_inv this disjI1 [OF run]] run k show ?thesis
    by (simp add: active_work_ids_def)
qed

text \<open>
  C18: Two dispatches that overlap can start a WorkItem twice: planning reads the Kernel without
  a lock and creating an Execution does not look for a live one, so when the plans of one state
  are launched twice and both launches are accepted, every planned WorkItem has two requested
  Executions.
\<close>

theorem overlapping_dispatches_start_twice:
  assumes "plan_ready f D now bindings allowed = Inr ps" and "launch h D inp aid key ps = (Inr batch, D1)"
    and "launch h D1 inp' aid' key' ps = (Inr batch', D2)" and "w \<in> set (startable_work (d_kernel D) allowed)"
  shows "\<exists>x y. x \<noteq> y \<and> map_option exec_work_item_id (dict_get (k_executions (d_kernel D2)) x) = Some (work_item_id w)
    \<and> map_option exec_state (dict_get (k_executions (d_kernel D2)) x) = Some Requested
    \<and> map_option exec_work_item_id (dict_get (k_executions (d_kernel D2)) y) = Some (work_item_id w)
    \<and> map_option exec_state (dict_get (k_executions (d_kernel D2)) y) = Some Requested"
proof -
  from launch_starts_all [OF assms(2)] obtain es where es: "executions_added (d_kernel D) es (d_kernel D1)"
    "map exec_work_item_id es = map (work_item_id \<circ> fst) ps" by blast
  from launch_starts_all [OF assms(3)] obtain fs where fs: "executions_added (d_kernel D1) fs (d_kernel D2)"
    "map exec_work_item_id fs = map (work_item_id \<circ> fst) ps" by blast
  have "work_item_id w \<in> set (map (work_item_id \<circ> fst) ps)"
    using assms(4) plan_ready_exact(1) [OF assms(1)] by (metis image_eqI list.set_map map_map)
  then obtain x y where x: "x \<in> set es" "exec_work_item_id x = work_item_id w" and y: "y \<in> set fs" "exec_work_item_id y = work_item_id w"
    by (metis (no_types, lifting) es(2) fs(2) imageE list.set_map)
  note both = executions_added_trans [OF es(1) fs(1)]
  have get: "dict_get (k_executions (d_kernel D2)) (execution_id x) = Some x" "dict_get (k_executions (d_kernel D2)) (execution_id y) = Some y"
    using executions_added_get [OF both] x y by simp_all
  moreover have "execution_id x \<noteq> execution_id y" using both x y by (auto simp: executions_added_def)
  moreover have "exec_state x = Requested" "exec_state y = Requested" using both x y by (auto simp: executions_added_def list_all_iff)
  ultimately show ?thesis using x y by (intro exI [of _ "execution_id x"] exI [of _ "execution_id y"]) simp
qed

theorem overlapping_dispatches_start_twice_witness:
  "\<exists>D1 D2. launch toy ex_dispatcher (ex_start ''u1'') ''owner:me'' (run_key 1) [ex_plan] = (Inr (ex_batch ''u1''), D1) \<and>
    launch toy D1 (ex_start ''u2'') ''owner:me'' (run_key 2) [ex_plan] = (Inr (ex_batch ''u2''), D2) \<and>
    (\<exists>x y. x \<noteq> y \<and> map_option exec_work_item_id (dict_get (k_executions (d_kernel D2)) x) = Some ''work:1''
      \<and> map_option exec_state (dict_get (k_executions (d_kernel D2)) x) = Some Requested
      \<and> map_option exec_work_item_id (dict_get (k_executions (d_kernel D2)) y) = Some ''work:1''
      \<and> map_option exec_state (dict_get (k_executions (d_kernel D2)) y) = Some Requested)"
proof -
  obtain D1 where l1: "launch toy ex_dispatcher (ex_start ''u1'') ''owner:me'' (run_key 1) [ex_plan] = (Inr (ex_batch ''u1''), D1)"
    and D1: "d_kernel D1 = ex_started1" "naming_registry D1 = None" "dispatcher_inv D1" by (rule ex_dispatch)
  have "create_execution toy (d_kernel D1) 0 (ex_run ''u2'') ''owner:me'' (run_key 2 @ '':work:1'')
      = Inr (ex_created 84 ''u2'' 2, ex_started2)" using ex_create2 D1(1) by simp
  from ex_launch [OF this _ D1(2,3)] obtain D2
    where l2: "launch toy D1 (ex_start ''u2'') ''owner:me'' (run_key 2) [ex_plan] = (Inr (ex_batch ''u2''), D2)" by blast
  have "map fst [ex_plan] = startable_work (d_kernel ex_dispatcher) None" by (rule plan_ready_exact(1) [OF ex_plans])
  then have "ex_work ''work:1'' \<in> set (startable_work (d_kernel ex_dispatcher) None)" by (metis ex_plan_def fst_conv list.set_intros(1) list.simps(9))
  from overlapping_dispatches_start_twice [OF ex_plans l1 l2 this] l1 l2 show ?thesis by auto
qed

end
