(* ===== verification/Audit_Trace.thy ===== *)
theory Audit_Trace
  imports Kernel_State
begin

text \<open>
  \<^verbatim>\<open>vsm/audit_trace.py\<close>: the read-only service that reconstructs where a notification, a
  piece of work and a reply came from. A trace has a fast path, over one stream of the
  ledger, and a canonical one, over the whole of it. The page loops are
  \<open>partial_function (option)\<close>: \<open>None\<close> is a loop that does not return. The cancellation
  signal of the HTTP thread is not modelled. An event whose payload is an object of another
  shape than its writer's is malformed.
\<close>

type_synonym kstored = "payload_dict stored_event"

section \<open>Reading the ledger\<close>

record event_ref =
  ref_cursor :: nat
  ref_event_id :: string
  ref_event_type :: string
  ref_stream_id :: string
  ref_stream_version :: nat
  ref_occurred_at :: time

definition event_ref_of :: "kstored \<Rightarrow> event_ref" where
  "event_ref_of s = \<lparr>ref_cursor = cursor s, ref_event_id = event_id (stored s), ref_event_type = event_type (stored s),
     ref_stream_id = stream_id (stored s), ref_stream_version = stream_version (stored s),
     ref_occurred_at = occurred_at (stored s)\<rparr>"

record audit_service =
  audit_kernel :: kernel
  page_size :: int

definition init_audit :: "kernel \<Rightarrow> int \<Rightarrow> audit_service result" where
  "init_audit k n =
     (if n \<le> 0 then raise_violation ''audit trace page_size must be positive''
      else Inr \<lparr>audit_kernel = k, page_size = n\<rparr>)"

definition audit_ledger :: "audit_service \<Rightarrow> kledger" where
  "audit_ledger A = k_ledger (audit_kernel A)"

fun read_page :: "kstored list \<Rightarrow> nat \<Rightarrow> kstored list \<Rightarrow> (kstored list \<times> nat) result" where
  "read_page acc c [] = Inr (acc, c)"
| "read_page acc c (s # ss) =
     (if cursor s \<noteq> c + 1 then raise_violation ''audit trace Event Ledger cursor is not contiguous''
      else read_page (acc @ [s]) (cursor s) ss)"

partial_function (option) events_loop :: "kledger \<Rightarrow> int \<Rightarrow> kstored list \<Rightarrow> nat \<Rightarrow> kstored list result option" where
  "events_loop L n acc c =
     (case ledger_page L (int c) n of
        Inl err \<Rightarrow> Some (Inl err)
      | Inr page \<Rightarrow>
        (if page = [] then Some (Inr acc)
         else (case read_page acc c page of
                 Inl err \<Rightarrow> Some (Inl err)
               | Inr (acc', c') \<Rightarrow> events_loop L n acc' c')))"

definition audit_events :: "audit_service \<Rightarrow> kstored list result option" where
  "audit_events A = events_loop (audit_ledger A) (page_size A) [] 0"

fun read_stream_page ::
  "string \<Rightarrow> kstored list \<Rightarrow> nat \<Rightarrow> nat \<Rightarrow> kstored list \<Rightarrow> (kstored list \<times> nat \<times> nat) result" where
  "read_stream_page sid acc v c [] = Inr (acc, v, c)"
| "read_stream_page sid acc v c (s # ss) =
     (if stream_id (stored s) \<noteq> sid
      then raise_violation ''audit trace Event stream response has a mismatched stream''
      else if stream_version (stored s) \<noteq> v + 1
      then raise_violation ''audit trace Event stream version is not contiguous''
      else if cursor s \<le> c then raise_violation ''audit trace Event Ledger cursor is not increasing''
      else read_stream_page sid (acc @ [s]) (stream_version (stored s)) (cursor s) ss)"

partial_function (option) stream_loop ::
  "kledger \<Rightarrow> int \<Rightarrow> string \<Rightarrow> kstored list \<Rightarrow> nat \<Rightarrow> nat \<Rightarrow> kstored list result option" where
  "stream_loop L n sid acc v c =
     (case ledger_stream L sid (int v) n of
        Inl err \<Rightarrow> Some (Inl err)
      | Inr page \<Rightarrow>
        (if page = [] then Some (Inr acc)
         else (case read_stream_page sid acc v c page of
                 Inl err \<Rightarrow> Some (Inl err)
               | Inr (acc', v', c') \<Rightarrow> stream_loop L n sid acc' v' c')))"

definition audit_stream :: "audit_service \<Rightarrow> string \<Rightarrow> kstored list result option" where
  "audit_stream A sid = stream_loop (audit_ledger A) (page_size A) sid [] 0 0"

text \<open>What follows a loop runs when the loop has returned.\<close>

definition after_loop :: "'a result option \<Rightarrow> ('a \<Rightarrow> 'b result) \<Rightarrow> 'b result option" where
  "after_loop r f = map_option (\<lambda>x. bind_result x f) r"

section \<open>Notifications\<close>

record incoming_trace =
  in_observation_subject :: "string option"
  in_instance_id :: string
  in_platform :: notification_platform
  in_channel :: string
  in_message_id :: string
  in_sender_actor_id :: string

record notification_trace =
  nt_notification_id :: string
  nt_incoming :: incoming_trace
  nt_recipient :: string
  nt_delivery_kind :: string
  nt_event_id :: string
  nt_cursor :: nat
  nt_work_item_id :: "string option"
  nt_timeline :: "event_ref list"

text \<open>The loop over the events: the deliveries and the promotions of the notification.\<close>

fun sort_notification_events ::
  "string \<Rightarrow> kstored list \<Rightarrow> kstored list \<times> kstored list \<Rightarrow> (kstored list \<times> kstored list) result" where
  "sort_notification_events nid [] (ds, ps) = Inr (ds, ps)"
| "sort_notification_events nid (s # ss) (ds, ps) =
     (let e = stored s in
      if event_type e = ''agent_notification_delivered''
      then (case Option.bind (dict_get (payload e) ''notification'') as_notification of
              None \<Rightarrow> raise_violation ''agent_notification_delivered notification payload is malformed''
            | Some n \<Rightarrow> sort_notification_events nid ss (if notification_id n = nid then ds @ [s] else ds, ps))
      else if event_type e = ''agent_notification_promoted''
      then sort_notification_events nid ss (ds,
             if stream_id e = nid \<or> dict_get (payload e) ''notification_id'' = Some (PStr nid) then ps @ [s] else ps)
      else sort_notification_events nid ss (ds, ps))"

definition check_delivery :: "agent_notification \<Rightarrow> kstored \<Rightarrow> unit result" where
  "check_delivery n s =
     (case Option.bind (dict_get (payload (stored s)) ''notification'') as_notification of
        None \<Rightarrow> raise_violation ''notification delivery payload is malformed''
      | Some raw \<Rightarrow>
        bind_result (model_validate ''AgentNotification'' as_notification valid_agent_notification (PNotification raw))
          (\<lambda>projected.
           if projected \<noteq> n\<lparr>promoted_work_item_id := None\<rparr>
           then raise_violation ''notification delivery payload does not match its projection''
           else if recipient_agent_name raw \<noteq> recipient_agent_name n
           then raise_violation ''notification delivery recipient does not match its projection''
           else if source_message_id raw \<noteq> source_message_id n
           then raise_violation ''notification delivery source message does not match its projection''
           else Inr ()))"

definition check_traced_promotion :: "kernel \<Rightarrow> agent_notification \<Rightarrow> kstored \<Rightarrow> unit result" where
  "check_traced_promotion k n s =
     (case Option.bind (dict_get (payload (stored s)) ''work_item_id'') as_str of
        None \<Rightarrow> raise_violation ''notification promotion does not contain a WorkItem ID''
      | Some wid \<Rightarrow>
        (if wid = [] then raise_violation ''notification promotion does not contain a WorkItem ID''
         else if promoted_work_item_id n \<noteq> Some wid
         then raise_violation ''notification promotion does not match its projection''
         else if \<not> dict_mem wid (k_work_items k)
         then raise_violation (''notification promotion WorkItem not found: '' @ wid)
         else Inr ()))"

definition validate_notification_trace ::
  "kernel \<Rightarrow> string \<Rightarrow> agent_notification \<Rightarrow> kstored list \<Rightarrow> notification_trace result" where
  "validate_notification_trace k nid n es =
     bind_result (sort_notification_events nid es ([], [])) (\<lambda>(delivered, promotions).
     if length delivered \<noteq> 1
     then raise_violation ''notification delivery trace requires exactly one delivery event''
     else if 1 < length promotions
     then raise_violation ''notification delivery trace has multiple promotion events''
     else if promoted_work_item_id n \<noteq> None \<and> promotions = []
     then raise_violation ''notification projection has a WorkItem promotion without its Event''
     else (let d = hd delivered in
       bind_result (check_delivery n d) (\<lambda>_.
       bind_result (case promotions of [] \<Rightarrow> Inr () | p # _ \<Rightarrow> check_traced_promotion k n p) (\<lambda>_.
         Inr \<lparr>nt_notification_id = nid,
              nt_incoming = \<lparr>in_observation_subject = source_observation_subject n,
                in_instance_id = source_instance_id n, in_platform = source_platform n,
                in_channel = source_channel n, in_message_id = source_message_id n,
                in_sender_actor_id = sender_actor_id n\<rparr>,
              nt_recipient = recipient_agent_name n,
              nt_delivery_kind = (if promotions \<noteq> [] then ''ledger_event+work_item'' else ''ledger_event''),
              nt_event_id = event_id (stored d), nt_cursor = cursor d,
              nt_work_item_id = promoted_work_item_id n,
              nt_timeline = event_ref_of d # map event_ref_of (take 1 promotions)\<rparr>))))"

definition notification_trace_over ::
  "kstored list result option \<Rightarrow> audit_service \<Rightarrow> string \<Rightarrow> notification_trace result option" where
  "notification_trace_over events A nid =
     (case dict_get (k_notifications (audit_kernel A)) nid of
        None \<Rightarrow> Some (raise_violation (''notification_id not found: '' @ nid))
      | Some n \<Rightarrow> after_loop events (validate_notification_trace (audit_kernel A) nid n))"

definition trace_notification :: "audit_service \<Rightarrow> string \<Rightarrow> notification_trace result option" where
  "trace_notification A nid = notification_trace_over (audit_stream A nid) A nid"

definition trace_notification_canonical :: "audit_service \<Rightarrow> string \<Rightarrow> notification_trace result option" where
  "trace_notification_canonical A nid = notification_trace_over (audit_events A) A nid"

section \<open>Executions\<close>

record execution_trace =
  et_execution_id :: string
  et_agent_name :: string
  et_assignment_id :: string
  et_assignment_event :: event_ref
  et_work_item :: work_item
  et_receipt_id :: string
  et_receipt_status :: "pval option"
  et_provider_session_id :: "pval option"
  et_receipt_event :: event_ref

definition is_assignment :: "kstored \<Rightarrow> bool" where
  "is_assignment s \<longleftrightarrow> event_type (stored s) = ''agent_name_assigned''"

definition is_receipt :: "kstored \<Rightarrow> bool" where
  "is_receipt s \<longleftrightarrow> event_type (stored s) = ''pilot_execution_receipt_recorded''"

definition required_string :: "string \<Rightarrow> string \<Rightarrow> pval option \<Rightarrow> string result" where
  "required_string field ctx v =
     (case Option.bind v as_str of
        None \<Rightarrow> raise_violation (ctx @ '' requires a non-empty '' @ field)
      | Some s \<Rightarrow> if s = [] then raise_violation (ctx @ '' requires a non-empty '' @ field) else Inr s)"

definition check_assignment_event :: "execution \<Rightarrow> string \<Rightarrow> kstored \<Rightarrow> agent_name_assignment result" where
  "check_assignment_event x eid s =
     (case Option.bind (dict_get (payload (stored s)) ''assignment'') as_assignment of
        None \<Rightarrow> raise_violation ''agent name assignment payload is malformed''
      | Some a \<Rightarrow>
        bind_result (required_string ''assignment_id'' ''agent name assignment'' (Some (PStr (assignment_id a)))) (\<lambda>_.
        bind_result (required_string ''agent_name'' ''agent name assignment'' (Some (PStr (assignment_agent_name a)))) (\<lambda>name.
          if exec_agent_name x \<noteq> Some name
          then raise_violation ''assigned individual name does not match Execution''
          else if assignment_work_item_id a \<noteq> exec_work_item_id x
          then raise_violation ''assignment WorkItem does not match Execution''
          else if assignment_execution_id a \<noteq> eid
          then raise_violation ''assignment Execution does not match trace subject''
          else Inr a)))"

text \<open>\<^verbatim>\<open>payload.get(key, default)\<close>.\<close>

definition get_or :: "payload_dict \<Rightarrow> string \<Rightarrow> pval \<Rightarrow> pval" where
  "get_or p key d = (case dict_get p key of None \<Rightarrow> d | Some v \<Rightarrow> v)"

definition check_receipt_event :: "execution \<Rightarrow> work_item \<Rightarrow> string \<Rightarrow> string \<Rightarrow> kstored \<Rightarrow> string result" where
  "check_receipt_event x w eid name s =
     (let p = payload (stored s) in
      if dict_get p ''agent_name'' \<noteq> Some (PStr name)
      then raise_violation ''Pilot receipt individual name does not match assignment''
      else if get_or p ''work_item_id'' (PStr (exec_work_item_id x)) \<noteq> PStr (work_item_id w)
      then raise_violation ''Pilot receipt WorkItem does not match assignment''
      else if get_or p ''execution_id'' (PStr eid) \<noteq> PStr eid
      then raise_violation ''Pilot receipt Execution does not match assignment''
      else required_string ''receipt_id'' ''Pilot receipt'' (dict_get p ''receipt_id''))"

definition validate_execution_trace ::
  "string \<Rightarrow> execution \<Rightarrow> work_item \<Rightarrow> kstored list \<Rightarrow> kstored list \<Rightarrow> execution_trace result" where
  "validate_execution_trace eid x w assigned receipts =
     (if exec_agent_name x = None
      then raise_violation (''execution has no assigned individual name: '' @ eid)
      else if length assigned \<noteq> 1
      then raise_violation ''execution audit trace requires exactly one name assignment event''
      else if length receipts \<noteq> 1
      then raise_violation ''execution audit trace requires exactly one Pilot receipt event''
      else (let s = hd assigned; r = hd receipts in
        bind_result (check_assignment_event x eid s) (\<lambda>a.
        bind_result (check_receipt_event x w eid (assignment_agent_name a) r) (\<lambda>rid.
          Inr \<lparr>et_execution_id = eid, et_agent_name = assignment_agent_name a,
               et_assignment_id = assignment_id a, et_assignment_event = event_ref_of s, et_work_item = w,
               et_receipt_id = rid, et_receipt_status = dict_get (payload (stored r)) ''receipt_status'',
               et_provider_session_id = dict_get (payload (stored r)) ''provider_session_id'',
               et_receipt_event = event_ref_of r\<rparr>))))"

definition traced_execution :: "kernel \<Rightarrow> string \<Rightarrow> (execution \<times> work_item) result" where
  "traced_execution k eid =
     (case dict_get (k_executions k) eid of
        None \<Rightarrow> raise_violation (''execution_id not found: '' @ eid)
      | Some x \<Rightarrow>
        (case dict_get (k_work_items k) (exec_work_item_id x) of
           None \<Rightarrow> raise_violation (''execution WorkItem not found: '' @ exec_work_item_id x)
         | Some w \<Rightarrow> Inr (x, w)))"

definition trace_execution :: "audit_service \<Rightarrow> string \<Rightarrow> execution_trace result option" where
  "trace_execution A eid =
     (case traced_execution (audit_kernel A) eid of
        Inl err \<Rightarrow> Some (Inl err)
      | Inr (x, w) \<Rightarrow>
        (let as = filter (\<lambda>a. assignment_execution_id a = eid) (dict_values (k_assignments (audit_kernel A)));
             assigned = (if length as = 1
               then after_loop (audit_stream A (assignment_id (hd as))) (\<lambda>es. Inr (filter is_assignment es))
               else Some (Inr [])) in
         case assigned of
           None \<Rightarrow> None
         | Some (Inl err) \<Rightarrow> Some (Inl err)
         | Some (Inr ss) \<Rightarrow>
           after_loop (audit_stream A eid) (\<lambda>es. validate_execution_trace eid x w ss (filter is_receipt es))))"

text \<open>The canonical path sorts the whole ledger.\<close>

fun sort_execution_events ::
  "string \<Rightarrow> kstored list \<Rightarrow> kstored list \<times> kstored list \<Rightarrow> (kstored list \<times> kstored list) result" where
  "sort_execution_events eid [] (as, rs) = Inr (as, rs)"
| "sort_execution_events eid (s # ss) (as, rs) =
     (let e = stored s in
      if event_type e = ''agent_name_assigned''
      then (case Option.bind (dict_get (payload e) ''assignment'') as_assignment of
              None \<Rightarrow> raise_violation ''agent name assignment payload is malformed''
            | Some a \<Rightarrow> sort_execution_events eid ss (if assignment_execution_id a = eid then as @ [s] else as, rs))
      else if event_type e = ''pilot_execution_receipt_recorded''
      then sort_execution_events eid ss (as,
             if stream_id e = eid \<or> dict_get (payload e) ''execution_id'' = Some (PStr eid) then rs @ [s] else rs)
      else sort_execution_events eid ss (as, rs))"

definition trace_execution_from_events :: "kernel \<Rightarrow> string \<Rightarrow> kstored list \<Rightarrow> execution_trace result" where
  "trace_execution_from_events k eid es =
     bind_result (traced_execution k eid) (\<lambda>(x, w).
     bind_result (sort_execution_events eid es ([], [])) (\<lambda>(as, rs). validate_execution_trace eid x w as rs))"

definition trace_execution_canonical :: "audit_service \<Rightarrow> string \<Rightarrow> execution_trace result option" where
  "trace_execution_canonical A eid = after_loop (audit_events A) (trace_execution_from_events (audit_kernel A) eid)"

end
