(* ===== verification/Audit_Events.thy ===== *)
theory Audit_Events
  imports Kernel_Lifecycles Audit_Trace
begin

text \<open>
  What the ledger of a running Kernel holds of the four types of events a trace reads: each
  one agrees with the view and with the stream it is in. A step is \<open>quiet\<close> when it writes
  none of them. This is the link between the fast and the canonical path.
\<close>

section \<open>Quiet steps\<close>

definition traced_type :: "string \<Rightarrow> bool" where
  "traced_type ty \<longleftrightarrow> ty \<in> {''agent_notification_delivered'', ''agent_notification_promoted'',
     ''agent_name_assigned'', ''pilot_execution_receipt_recorded''}"

definition quiet :: "kledger \<Rightarrow> kledger \<Rightarrow> bool" where
  "quiet L L' \<longleftrightarrow> (\<exists>es. ledger_events L' = ledger_events L @ es \<and> (\<forall>e \<in> set es. \<not> traced_type (event_type e)))"

definition typed :: "string \<Rightarrow> kledger \<Rightarrow> kevent list" where
  "typed ty L = filter (\<lambda>e. event_type e = ty) (ledger_events L)"

lemma quiet_refl [simp]: "quiet L L"
  by (simp add: quiet_def)

lemma quiet_typed: "quiet L L' \<Longrightarrow> traced_type ty \<Longrightarrow> typed ty L' = typed ty L"
  by (auto simp: quiet_def typed_def filter_empty_conv)

lemma traced_is_kernel_type: "traced_type ty \<Longrightarrow> is_kernel_type ty"
  by (auto simp: traced_type_def is_kernel_type_def dict_mem_get kernel_handled)

lemma kernel_record_quiet:
  assumes "ledger_inv (k_ledger k)" and "\<not> traced_type ty"
    and "kernel_record h k t sid ty p act aid key corr caus = Inr (e, k1)"
  shows "quiet (k_ledger k) (k_ledger k1)"
proof -
  from assms(3) obtain r L' where app: "append_event h (k_ledger k) (data_space_id (k_data_space k)) sid
      (version_of (k_versions k) sid) ty p t act aid corr caus key = Inr (e, r, L')" and k1: "k_ledger k1 = L'"
    by (auto simp: kernel_record_def)
  have "event_type e = ty" by (rule make_event_Inr(4) [OF append_event_Inr(2) [OF app]])
  then show ?thesis
    using ledger_append_events [OF assms(1) append_event_Inr(1) [OF app]] assms(2) k1 by (auto simp: quiet_def)
qed

lemma ensures_quiet:
  assumes "ledger_inv (k_ledger k)" and "\<not> traced_type ty" and "\<And>e k1. k_ledger (u e k1) = k_ledger k1"
  shows "ensures (\<lambda>(e, k'). quiet (k_ledger k) (k_ledger k'))
    (then_update (kernel_record h k t sid ty p act aid key corr caus) u)"
  using kernel_record_quiet [OF assms(1,2), of h t sid p act aid key corr caus] assms(3)
  by (fastforce simp: ensures_def)

text \<open>The events after a prefix of the ledger are newer than the prefix knows of their streams.\<close>

lemma new_event_version:
  assumes "ledger_inv L'" and grows: "ledger_events L' = ledger_events L @ es" and "e \<in> set es"
  shows "stream_length L (stream_id e) < stream_version e"
proof -
  let ?sid = "stream_id e"
  from assms(3) obtain xs ys where es: "es = xs @ e # ys" by (auto simp: in_set_conv_decomp)
  let ?before = "stream_events (ledger_events L) ?sid @ stream_events xs ?sid"
  have split: "stream_events (ledger_events L') ?sid = ?before @ e # stream_events ys ?sid"
    by (simp add: grows es stream_events_def)
  have "map stream_version (stream_events (ledger_events L') ?sid) ! length ?before
      = [1..<length (stream_events (ledger_events L') ?sid) + 1] ! length ?before"
    by (simp only: stream_versions [OF assms(1)])
  then have "stream_version e = length ?before + 1"
    unfolding split by (simp add: nth_append del: upt_Suc)
  then show ?thesis by (simp add: stream_length_def)
qed

text \<open>A step that keeps the Kernel's stream versions writes none of its events.\<close>

lemma same_versions_quiet:
  assumes "kernel_step h k k'" and inv: "machine_inv k" and same: "k_versions k' = k_versions k"
  shows "quiet (k_ledger k) (k_ledger k')"
proof -
  obtain es where grows: "ledger_events (k_ledger k') = ledger_events (k_ledger k) @ es"
    using kernel_step_logged [OF assms(1,2), of undefined undefined] by (auto simp: good_step_def logged_def)
  have v: "versions_inv k" and v': "versions_inv k'"
    using inv machine_inv_step [OF assms(1) inv] by (simp_all add: machine_inv_def)
  have "\<not> traced_type (event_type e)" if e: "e \<in> set es" for e
  proof
    assume "traced_type (event_type e)"
    then have "stream_version e \<le> version_of (k_versions k') (stream_id e)"
      using v' e traced_is_kernel_type by (simp add: versions_inv_def Let_def grows)
    also have "\<dots> \<le> stream_length (k_ledger k) (stream_id e)" using versions_invD(2) [OF v] same by simp
    finally show False using new_event_version [OF versions_invD(1) [OF v'] grows e] by simp
  qed
  with grows show ?thesis by (auto simp: quiet_def)
qed

lemma activation_step_versions: "activation_step h k k' \<Longrightarrow> k_versions k' = k_versions k"
  by (erule activation_step.cases) simp_all

lemma auth_step_versions: "auth_step h k k' \<Longrightarrow> k_versions k' = k_versions k"
  by (erule auth_step.cases) simp_all

lemma traced_literals [simp]:
  "\<not> traced_type ''node_registered''" "\<not> traced_type ''capability_granted''" "\<not> traced_type ''work_item_created''"
  "\<not> traced_type ''work_dependency_added''" "\<not> traced_type ''current_work_graph_imported''"
  "\<not> traced_type ''work_item_delegated''" "\<not> traced_type ''work_item_resume_prepared''"
  "\<not> traced_type ''execution_created''" "\<not> traced_type ''agent_identity_registered''"
  "\<not> traced_type ''execution_state_changed''" "\<not> traced_type ''budget_reserved''"
  "\<not> traced_type ''effect_planned''" "\<not> traced_type ''effect_approved''" "\<not> traced_type ''effect_activated''"
  "\<not> traced_type ''effect_result_unknown''" "\<not> traced_type ''effect_reconciled''"
  "\<not> traced_type ''human_intervention''" "\<not> traced_type ''s3_star_finding_recorded''"
  "\<not> traced_type ''s3_star_risk_accepted''" "\<not> traced_type ''work_item_completed''"
  "\<not> traced_type ''pilot_host_disconnected''" "\<not> traced_type ''reference_granted''"
  "\<not> traced_type ''route_snapshot_registered''" "\<not> traced_type ''route_snapshot_approved''"
  "\<not> traced_type ''route_snapshot_published''" "\<not> traced_type ''route_snapshot_retired''"
  by (simp_all add: traced_type_def)

lemma accept_s3_star_risk_quiet:
  assumes "ledger_inv (k_ledger k)"
  shows "ensures (\<lambda>(e, k'). quiet (k_ledger k) (k_ledger k')) (accept_s3_star_risk h k t fid s5 aid rationale key)"
proof -
  have "quiet (k_ledger k) (k_ledger k1)"
    if "kernel_record h k t sid ''s3_star_risk_accepted'' p act aid' key corr caus = Inr (e, k1)"
    for sid p act aid' key corr caus e k1
    by (rule kernel_record_quiet [OF assms _ that]) simp
  then show ?thesis
    by (auto simp: accept_s3_star_risk_def Let_def set_work_def split: ensures_splits)
qed

lemma work_step_quiet: "work_step h k k' \<Longrightarrow> ledger_inv (k_ledger k) \<Longrightarrow> quiet (k_ledger k) (k_ledger k')"
  by (erule work_step_ensures [where P = "\<lambda>k'. quiet (k_ledger k) (k_ledger k')"];
      simp add: ensures_quiet accept_s3_star_risk_quiet set_work_def Let_def register_node_def create_work_item_def
        add_dependency_def import_current_work_graph_def
        reimport_work_graph_def delegate_work_item_def prepare_owner_confirmed_resume_def intervene_def
        record_s3_star_finding_def complete_work_item_def split: ensures_splits list.split)

lemma effect_step_quiet: "effect_step h k k' \<Longrightarrow> ledger_inv (k_ledger k) \<Longrightarrow> quiet (k_ledger k) (k_ledger k')"
  by (erule effect_step_ensures [where P = "\<lambda>k'. quiet (k_ledger k) (k_ledger k')"];
      simp add: ensures_quiet set_lease_state_def Let_def grant_capability_def register_reference_grant_def reserve_budget_def plan_effect_def
        approve_effect_def activate_effect_def mark_effect_unknown_def reconcile_effect_def split: ensures_splits)

lemma route_step_quiet: "route_step h k k' \<Longrightarrow> ledger_inv (k_ledger k) \<Longrightarrow> quiet (k_ledger k) (k_ledger k')"
  by (erule route_step_ensures [where P = "\<lambda>k'. quiet (k_ledger k) (k_ledger k')"];
      simp add: ensures_quiet Let_def register_route_snapshot_def approve_route_snapshot_def publish_route_snapshot_def
        retire_route_snapshot_def split: ensures_splits)

lemma quiet_executions:
  assumes "ledger_inv (k_ledger k)"
  shows "ensures (\<lambda>(e, k'). quiet (k_ledger k) (k_ledger k')) (create_execution h k t x aid key)"
    and "ensures (\<lambda>(e, k'). quiet (k_ledger k) (k_ledger k')) (set_execution_state h k t eid s act aid key reason)"
    and "ensures (\<lambda>(e, k'). quiet (k_ledger k) (k_ledger k')) (pilot_host_disconnected h k t host key)"
    and "ensures (\<lambda>(e, k'). quiet (k_ledger k) (k_ledger k')) (register_agent_identity h k t R i aid key)"
  using assms
  by (simp_all add: ensures_quiet create_execution_def set_execution_state_def pilot_host_disconnected_def
      register_agent_identity_def split: ensures_splits)

lemma create_work_item_quiet:
  "ledger_inv (k_ledger k) \<Longrightarrow> ensures (\<lambda>(e, k'). quiet (k_ledger k) (k_ledger k')) (create_work_item h k t w aid key)"
  by (simp add: create_work_item_def ensures_quiet split: ensures_splits)

section \<open>What a quiet step keeps of the views\<close>

definition traced_kept :: "(string, execution) dict \<Rightarrow> (string, execution) dict \<Rightarrow> bool" where
  "traced_kept xs xs' \<longleftrightarrow> (\<forall>eid x. dict_get xs eid = Some x \<longrightarrow> (\<exists>x'. dict_get xs' eid = Some x' \<and>
     (exec_state x \<noteq> Requested \<longrightarrow> exec_state x' \<noteq> Requested) \<and>
     (exec_agent_name x \<noteq> None \<longrightarrow> exec_agent_name x' = exec_agent_name x) \<and>
     exec_work_item_id x' = exec_work_item_id x))"

definition views_kept :: "kernel \<Rightarrow> kernel \<Rightarrow> bool" where
  "views_kept k k' \<longleftrightarrow> k_assignments k' = k_assignments k \<and> k_notifications k' = k_notifications k \<and>
     grows (k_work_items k) (k_work_items k') \<and> traced_kept (k_executions k) (k_executions k')"

lemma traced_kept_refl [simp]: "traced_kept xs xs"
  by (simp add: traced_kept_def)

lemma traced_kept_pause [simp]: "traced_kept xs (pause_executions p r xs)"
  by (auto simp: traced_kept_def pause_executions_def)

lemma traced_kept_new: "\<not> dict_mem eid xs \<Longrightarrow> traced_kept xs (dict_set xs eid x)"
  by (auto simp: traced_kept_def dict_mem_get)

lemma traced_kept_set:
  "dict_get xs eid = Some x \<Longrightarrow> (exec_state x \<noteq> Requested \<Longrightarrow> exec_state x' \<noteq> Requested) \<Longrightarrow>
    (exec_agent_name x \<noteq> None \<Longrightarrow> exec_agent_name x' = exec_agent_name x) \<Longrightarrow>
    exec_work_item_id x' = exec_work_item_id x \<Longrightarrow> traced_kept xs (dict_set xs eid x')"
  by (simp add: traced_kept_def)

lemma never_requested_again: "s' \<in> allowed_transitions s \<Longrightarrow> s' \<noteq> Requested"
  by (cases s) auto

lemma work_step_views_kept: "work_step h k k' \<Longrightarrow> views_kept k k'"
  by (erule work_step_ensures [where P = "views_kept k"]; rule work_outcomes [THEN ensures_mono];
      auto simp: views_kept_def recorded_def set_work_def Let_def split: if_splits)

lemma effect_step_views_kept: "effect_step h k k' \<Longrightarrow> views_kept k k'"
  by (erule effect_step_ensures [where P = "views_kept k"]; rule effect_outcomes [THEN ensures_mono];
      auto simp: views_kept_def recorded_def set_lease_state_def)

lemma route_step_views_kept: "route_step h k k' \<Longrightarrow> views_kept k k'"
  by (erule route_step_ensures [where P = "views_kept k"]; rule route_outcomes [THEN ensures_mono];
      auto simp: views_kept_def recorded_def)

section \<open>The invariant\<close>

definition bound_as :: "kernel \<Rightarrow> agent_name_assignment \<Rightarrow> bool" where
  "bound_as k a \<longleftrightarrow> (\<exists>x. dict_get (k_executions k) (assignment_execution_id a) = Some x \<and>
     exec_agent_name x = Some (assignment_agent_name a) \<and> exec_work_item_id x = assignment_work_item_id a)"

definition assignments_logged :: "kernel \<Rightarrow> bool" where
  "assignments_logged k \<longleftrightarrow>
     map (\<lambda>e. (stream_id e, payload e)) (typed ''agent_name_assigned'' (k_ledger k))
       = map (\<lambda>(i, a). (i, [(''assignment'', PAssignment a)])) (k_assignments k) \<and>
     inj_on assignment_execution_id (set (dict_values (k_assignments k))) \<and>
     (\<forall>a \<in> set (dict_values (k_assignments k)). valid_agent_name_assignment a \<and> bound_as k a)"

definition delivered_as :: "kernel \<Rightarrow> kevent \<Rightarrow> bool" where
  "delivered_as k e \<longleftrightarrow> (\<exists>n m. payload e = [(''notification'', PNotification n)] \<and> valid_agent_notification n \<and>
     dict_get (k_notifications k) (stream_id e) = Some m \<and>
     m\<lparr>promoted_work_item_id := None\<rparr> = n\<lparr>promoted_work_item_id := None\<rparr> \<and>
     (if stream_id e \<in> stream_id ` set (typed ''agent_notification_promoted'' (k_ledger k))
      then promoted_work_item_id n = None else promoted_work_item_id n = promoted_work_item_id m))"

definition promoted_as :: "kernel \<Rightarrow> kevent \<Rightarrow> bool" where
  "promoted_as k e \<longleftrightarrow> (\<exists>w m. payload e = [(''notification_id'', PStr (stream_id e)), (''work_item_id'', PStr w)] \<and>
     dict_get (k_notifications k) (stream_id e) = Some m \<and> promoted_work_item_id m = Some w \<and>
     w \<noteq> [] \<and> dict_mem w (k_work_items k))"

definition notifications_logged :: "kernel \<Rightarrow> bool" where
  "notifications_logged k \<longleftrightarrow>
     map stream_id (typed ''agent_notification_delivered'' (k_ledger k)) = map fst (k_notifications k) \<and>
     distinct (map stream_id (typed ''agent_notification_promoted'' (k_ledger k))) \<and>
     (\<forall>e \<in> set (typed ''agent_notification_delivered'' (k_ledger k)). delivered_as k e) \<and>
     (\<forall>e \<in> set (typed ''agent_notification_promoted'' (k_ledger k)). promoted_as k e)"

definition received_as :: "kernel \<Rightarrow> kevent \<Rightarrow> bool" where
  "received_as k e \<longleftrightarrow> (\<exists>x rid name. dict_get (k_executions k) (stream_id e) = Some x \<and> exec_state x \<noteq> Requested \<and>
     dict_get (payload e) ''execution_id'' = Some (PStr (stream_id e)) \<and>
     dict_get (payload e) ''work_item_id'' = Some (PStr (exec_work_item_id x)) \<and>
     dict_get (payload e) ''receipt_id'' = Some (PStr rid) \<and>
     dict_get (payload e) ''agent_name'' = Some (opt_str name) \<and> (name = None \<or> name = exec_agent_name x))"

definition receipts_logged :: "kernel \<Rightarrow> bool" where
  "receipts_logged k \<longleftrightarrow>
     distinct (map stream_id (typed ''pilot_execution_receipt_recorded'' (k_ledger k))) \<and>
     (\<forall>e \<in> set (typed ''pilot_execution_receipt_recorded'' (k_ledger k)). received_as k e)"

definition trace_inv :: "kernel \<Rightarrow> bool" where
  "trace_inv k \<longleftrightarrow> assignments_logged k \<and> notifications_logged k \<and> receipts_logged k"

lemma traced_types [simp]:
  "traced_type ''agent_notification_delivered''" "traced_type ''agent_notification_promoted''"
  "traced_type ''agent_name_assigned''" "traced_type ''pilot_execution_receipt_recorded''"
  by (simp_all add: traced_type_def)

lemma received_as_mono: "traced_kept (k_executions k) (k_executions k') \<Longrightarrow> received_as k e \<Longrightarrow> received_as k' e"
  unfolding received_as_def traced_kept_def by (metis (no_types, lifting))

lemma bound_as_mono: "traced_kept (k_executions k) (k_executions k') \<Longrightarrow> bound_as k a \<Longrightarrow> bound_as k' a"
  unfolding bound_as_def traced_kept_def by (metis (no_types, lifting) option.distinct(1))

lemma promoted_as_mono:
  "k_notifications k' = k_notifications k \<Longrightarrow> grows (k_work_items k) (k_work_items k') \<Longrightarrow> promoted_as k e \<Longrightarrow> promoted_as k' e"
  unfolding promoted_as_def grows_def by auto

lemma delivered_as_same:
  "k_notifications k' = k_notifications k \<Longrightarrow>
    typed ''agent_notification_promoted'' (k_ledger k') = typed ''agent_notification_promoted'' (k_ledger k) \<Longrightarrow>
    delivered_as k' e = delivered_as k e"
  by (simp add: delivered_as_def)

lemma quiet_step_trace:
  assumes "quiet (k_ledger k) (k_ledger k')" and "views_kept k k'" and "trace_inv k"
  shows "trace_inv k'"
proof -
  note q = quiet_typed [OF assms(1)]
  note v = assms(2) [unfolded views_kept_def]
  have "assignments_logged k'"
    using assms(3) v bound_as_mono [of k k'] by (simp add: trace_inv_def assignments_logged_def q)
  moreover have "notifications_logged k'"
    using assms(3) v promoted_as_mono [of k' k] delivered_as_same [of k' k]
    by (simp add: trace_inv_def notifications_logged_def q)
  moreover have "receipts_logged k'"
    using assms(3) v received_as_mono [of k k'] by (simp add: trace_inv_def receipts_logged_def q)
  ultimately show ?thesis by (simp add: trace_inv_def)
qed

end
