(* ===== verification/Audit_Steps.thy ===== *)
theory Audit_Steps
  imports Audit_Events
begin

text \<open>
  The four operations that write the events a trace reads, and with them every step of the
  Kernel, keep \<open>trace_inv\<close>.
\<close>

section \<open>One more event\<close>

lemma typed_snoc:
  "ledger_events L' = ledger_events L @ [e] \<Longrightarrow> typed ty L' = typed ty L @ (if event_type e = ty then [e] else [])"
  by (simp add: typed_def)

lemma record_traced:
  assumes "machine_inv k" and "traced_type ty"
    and rec: "kernel_record h k t sid ty p act aid key corr caus = Inr (e, k1)"
  shows "\<exists>L V. k1 = k\<lparr>k_ledger := L, k_versions := V\<rparr>" and "stream_id e = sid" and "payload e = p"
    and "typed ty (k_ledger k1) = typed ty (k_ledger k) @ [e]"
    and "ty' \<noteq> ty \<Longrightarrow> typed ty' (k_ledger k1) = typed ty' (k_ledger k)"
proof -
  have inv: "versions_inv k" using assms(1) by (simp add: machine_inv_def)
  note st = kernel_record_step [OF inv traced_is_kernel_type [OF assms(2)] rec]
  show "\<exists>L V. k1 = k\<lparr>k_ledger := L, k_versions := V\<rparr>" by (rule kernel_record_shape [OF rec])
  show "stream_id e = sid" "payload e = p" by (fact st)+
  show "typed ty (k_ledger k1) = typed ty (k_ledger k) @ [e]" using st(2,8) typed_snoc by simp
  show "ty' \<noteq> ty \<Longrightarrow> typed ty' (k_ledger k1) = typed ty' (k_ledger k)" using st(2,8) typed_snoc [of "k_ledger k1"] by simp
qed

lemma dict_mem_stream: "map stream_id es = map fst d \<Longrightarrow> e \<in> set es \<Longrightarrow> dict_mem (stream_id e) d"
  unfolding dict_mem_def by (metis in_set_conv_nth length_map nth_map nth_mem set_map image_eqI)

section \<open>Assignments\<close>

lemma assignment_trace:
  assumes m: "machine_inv k" and t: "trace_inv k" and a: "valid_agent_name_assignment a"
    and rec: "kernel_record h k t (assignment_id a) ''agent_name_assigned'' [(''assignment'', PAssignment a)]
      act aid key corr caus = Inr (e, k1)"
    and new: "\<not> dict_mem (assignment_id a) (k_assignments k)"
    and x: "dict_get (k_executions k) (assignment_execution_id a) = Some x" "exec_agent_name x = None"
      "exec_work_item_id x = assignment_work_item_id a"
  shows "trace_inv (k1\<lparr>k_assignments := dict_set (k_assignments k1) (assignment_id a) a,
    k_executions := dict_set (k_executions k1) (assignment_execution_id a)
      (x\<lparr>exec_agent_name := Some (assignment_agent_name a)\<rparr>)\<rparr>)" (is "trace_inv ?k")
proof -
  note tr = record_traced [OF m traced_types(3) rec]
  obtain L V where k1: "k1 = k\<lparr>k_ledger := L, k_versions := V\<rparr>" using tr(1) by blast
  have kept: "traced_kept (k_executions k) (k_executions ?k)" using x by (auto simp: k1 intro: traced_kept_set)
  have old: "assignments_logged k" "notifications_logged k" "receipts_logged k" using t by (simp_all add: trace_inv_def)
  have vals: "set (dict_values (k_assignments ?k)) = insert a (set (dict_values (k_assignments k)))"
    by (simp add: k1 dict_set_new [OF new] dict_values_def)
  have "assignments_logged ?k"
    unfolding assignments_logged_def vals
  proof (intro conjI ballI)
    show "map (\<lambda>e. (stream_id e, payload e)) (typed ''agent_name_assigned'' (k_ledger ?k))
        = map (\<lambda>(i, a). (i, [(''assignment'', PAssignment a)])) (k_assignments ?k)"
      using old(1) tr(2-4) by (simp add: k1 assignments_logged_def dict_set_new [OF new])
    show "inj_on assignment_execution_id (insert a (set (dict_values (k_assignments k))))"
      using old(1) x(1,2) by (auto simp: assignments_logged_def bound_as_def)
    fix b assume "b \<in> insert a (set (dict_values (k_assignments k)))"
    then show "valid_agent_name_assignment b" using a old(1) by (auto simp: assignments_logged_def)
    show "bound_as ?k b"
      using \<open>b \<in> _\<close> old(1) bound_as_mono [OF kept] x(3) by (auto simp: assignments_logged_def) (simp add: bound_as_def)
  qed
  moreover have "notifications_logged ?k"
    using old(2) tr(5) promoted_as_mono [of ?k k] delivered_as_same [of ?k k]
    by (simp add: notifications_logged_def) (simp add: k1 grows_def)
  moreover have "receipts_logged ?k"
    using old(3) tr(5) received_as_mono [OF kept] by (simp add: receipts_logged_def)
  ultimately show ?thesis by (simp add: trace_inv_def)
qed

section \<open>Notifications\<close>

lemma promoted_stream_known:
  assumes "notifications_logged k" and "\<not> dict_mem nid (k_notifications k)"
  shows "nid \<notin> stream_id ` set (typed ''agent_notification_promoted'' (k_ledger k))"
  using assms by (force simp: notifications_logged_def promoted_as_def dest: dict_get_Some_mem)

lemma delivery_trace:
  assumes m: "machine_inv k" and t: "trace_inv k" and n: "valid_agent_notification n"
    and rec: "kernel_record h k t (notification_id n) ''agent_notification_delivered''
      [(''notification'', PNotification n)] act aid key corr caus = Inr (e, k1)"
    and new: "\<not> dict_mem (notification_id n) (k_notifications k)"
  shows "trace_inv (k1\<lparr>k_notifications := dict_set (k_notifications k1) (notification_id n) n\<rparr>)" (is "trace_inv ?k")
proof -
  note tr = record_traced [OF m traced_types(1) rec]
  obtain L V where k1: "k1 = k\<lparr>k_ledger := L, k_versions := V\<rparr>" using tr(1) by blast
  have old: "assignments_logged k" "notifications_logged k" "receipts_logged k" using t by (simp_all add: trace_inv_def)
  have "assignments_logged ?k"
    using old(1) tr(5) by (simp add: assignments_logged_def bound_as_def) (simp add: k1)
  moreover have "notifications_logged ?k"
    unfolding notifications_logged_def
  proof (intro conjI ballI)
    show "map stream_id (typed ''agent_notification_delivered'' (k_ledger ?k)) = map fst (k_notifications ?k)"
      using old(2) tr(2,4) by (simp add: k1 notifications_logged_def dict_set_new [OF new])
    show "distinct (map stream_id (typed ''agent_notification_promoted'' (k_ledger ?k)))"
      using old(2) tr(5) by (simp add: notifications_logged_def)
    fix d assume d: "d \<in> set (typed ''agent_notification_delivered'' (k_ledger ?k))"
    show "delivered_as ?k d"
    proof (cases "d = e")
      case True
      then show ?thesis
        using tr(2,3) tr(5) n promoted_stream_known [OF old(2) new] by (simp add: delivered_as_def k1)
    next
      case False
      then have "d \<in> set (typed ''agent_notification_delivered'' (k_ledger k))" using d tr(4) by simp
      then have "delivered_as k d" "stream_id d \<noteq> notification_id n"
        using old(2) new dict_mem_stream [of _ "k_notifications k" d] by (auto simp: notifications_logged_def)
      then show ?thesis using tr(5) by (auto simp: delivered_as_def k1 split: if_splits)
    qed
  next
    fix d assume "d \<in> set (typed ''agent_notification_promoted'' (k_ledger ?k))"
    then have d: "d \<in> set (typed ''agent_notification_promoted'' (k_ledger k))" using tr(5) by simp
    then have "stream_id d \<noteq> notification_id n"
      using promoted_stream_known [OF old(2) new] by (metis imageI)
    moreover have "promoted_as k d" using d old(2) by (simp add: notifications_logged_def)
    ultimately show "promoted_as ?k d" by (simp add: promoted_as_def k1)
  qed
  moreover have "receipts_logged ?k"
    using old(3) tr(5) by (simp add: receipts_logged_def received_as_def) (simp add: k1)
  ultimately show ?thesis by (simp add: trace_inv_def)
qed

lemma promotion_trace:
  assumes m: "machine_inv k" and t: "trace_inv k"
    and rec: "kernel_record h k t nid ''agent_notification_promoted''
      [(''notification_id'', PStr nid), (''work_item_id'', PStr w)] act aid key corr caus = Inr (e, k1)"
    and n: "dict_get (k_notifications k) nid = Some n" "promoted_work_item_id n = None"
    and w: "w \<noteq> []" "dict_mem w (k_work_items k)"
  shows "trace_inv (k1\<lparr>k_notifications := dict_set (k_notifications k1) nid (n\<lparr>promoted_work_item_id := Some w\<rparr>)\<rparr>)"
    (is "trace_inv ?k")
proof -
  note tr = record_traced [OF m traced_types(2) rec]
  obtain L V where k1: "k1 = k\<lparr>k_ledger := L, k_versions := V\<rparr>" using tr(1) by blast
  have old: "assignments_logged k" "notifications_logged k" "receipts_logged k" using t by (simp_all add: trace_inv_def)
  have fresh: "nid \<notin> stream_id ` set (typed ''agent_notification_promoted'' (k_ledger k))"
    using old(2) n by (force simp: notifications_logged_def promoted_as_def)
  have keys: "map fst (k_notifications ?k) = map fst (k_notifications k)"
    using n(1) by (simp add: k1 dict_set_def) (metis dict_get_Some_mem dict_mem_def update_keys)
  have "assignments_logged ?k"
    using old(1) tr(5) by (simp add: assignments_logged_def bound_as_def) (simp add: k1)
  moreover have "notifications_logged ?k"
    unfolding notifications_logged_def keys
  proof (intro conjI ballI)
    show "map stream_id (typed ''agent_notification_delivered'' (k_ledger ?k)) = map fst (k_notifications k)"
      using old(2) tr(5) by (simp add: notifications_logged_def)
    show "distinct (map stream_id (typed ''agent_notification_promoted'' (k_ledger ?k)))"
      using old(2) tr(2,4) fresh by (simp add: notifications_logged_def)
    fix d assume "d \<in> set (typed ''agent_notification_delivered'' (k_ledger ?k))"
    then have "d \<in> set (typed ''agent_notification_delivered'' (k_ledger k))" using tr(5) by simp
    then have d: "delivered_as k d" using old(2) by (simp add: notifications_logged_def)
    show "delivered_as ?k d"
    proof (cases "stream_id d = nid")
      case True
      then show ?thesis using d n fresh tr(2,4) by (auto simp: delivered_as_def k1)
    next
      case False
      then show ?thesis using d tr(2,4) by (auto simp: delivered_as_def k1 split: if_splits)
    qed
  next
    fix d assume d: "d \<in> set (typed ''agent_notification_promoted'' (k_ledger ?k))"
    show "promoted_as ?k d"
    proof (cases "d = e")
      case True
      then show ?thesis using tr(2,3) w by (simp add: promoted_as_def k1)
    next
      case False
      then have "d \<in> set (typed ''agent_notification_promoted'' (k_ledger k))" using d tr(4) by simp
      then have "promoted_as k d" "stream_id d \<noteq> nid" using old(2) fresh by (auto simp: notifications_logged_def)
      then show ?thesis by (simp add: promoted_as_def k1)
    qed
  qed
  moreover have "receipts_logged ?k"
    using old(3) tr(5) by (simp add: receipts_logged_def received_as_def) (simp add: k1)
  ultimately show ?thesis by (simp add: trace_inv_def)
qed

section \<open>Receipts\<close>

lemma receipt_trace:
  assumes m: "machine_inv k" and t: "trace_inv k"
    and rec: "kernel_record h k t eid ''pilot_execution_receipt_recorded'' (receipt_payload k x eid r s reason)
      act aid key corr caus = Inr (e, k1)"
    and x: "dict_get (k_executions k) eid = Some x" "exec_state x = Requested" "s \<noteq> Requested"
  shows "trace_inv (k1\<lparr>k_executions := dict_set (k_executions k1) eid
    (x\<lparr>exec_state := s, provider_session_id := receipt_session_id r, pause_reason := reason\<rparr>)\<rparr>)" (is "trace_inv ?k")
proof -
  note tr = record_traced [OF m traced_types(4) rec]
  obtain L V where k1: "k1 = k\<lparr>k_ledger := L, k_versions := V\<rparr>" using tr(1) by blast
  have kept: "traced_kept (k_executions k) (k_executions ?k)" using x by (auto simp: k1 intro: traced_kept_set)
  have old: "assignments_logged k" "notifications_logged k" "receipts_logged k" using t by (simp_all add: trace_inv_def)
  have fresh: "eid \<notin> stream_id ` set (typed ''pilot_execution_receipt_recorded'' (k_ledger k))"
    using old(3) x(1,2) by (force simp: receipts_logged_def received_as_def)
  have "assignments_logged ?k"
    using old(1) tr(5) bound_as_mono [OF kept] by (simp add: assignments_logged_def) (simp add: k1)
  moreover have "notifications_logged ?k"
    using old(2) tr(5) promoted_as_mono [of ?k k] delivered_as_same [of ?k k]
    by (simp add: notifications_logged_def) (simp add: k1 grows_def)
  moreover have "received_as ?k e"
    using tr(2,3) x(3) by (auto simp: received_as_def receipt_payload_def k1)
  then have "receipts_logged ?k"
    using old(3) tr(2,4) fresh received_as_mono [OF kept] by (simp add: receipts_logged_def)
  ultimately show ?thesis by (simp add: trace_inv_def)
qed

section \<open>Every step\<close>

lemma no_blank_identifier [simp]: "\<not> valid_identifier []"
  by (simp add: valid_identifier_def id_kind_def)

lemma traced_kept_state: "dict_get xs eid = Some x \<Longrightarrow> s \<noteq> Requested \<Longrightarrow>
    traced_kept xs (dict_set xs eid (x\<lparr>exec_state := s, pause_reason := r\<rparr>))"
  by (simp add: traced_kept_def)

lemma machine_invD:
  "machine_inv k \<Longrightarrow> ledger_inv (k_ledger k)" "machine_inv k \<Longrightarrow> keys_inv k"
  "machine_inv k \<Longrightarrow> keyed notification_id (k_notifications k)" "machine_inv k \<Longrightarrow> keyed assignment_id (k_assignments k)"
  unfolding machine_inv_def keys_inv_def using versions_invD(1) by blast+

lemma ensures_record_update:
  "(\<And>e k1. kernel_record h k t sid ty p act aid key corr caus = Inr (e, k1) \<Longrightarrow> Q (u e k1)) \<Longrightarrow>
    ensures (\<lambda>(e, k'). Q k') (then_update (kernel_record h k t sid ty p act aid key corr caus) u)"
  by (auto simp: ensures_def)

lemma record_agent_name_assignment_trace:
  assumes "machine_inv k" and "trace_inv k" and "valid_agent_name_assignment a"
  shows "ensures (\<lambda>(e, k'). trace_inv k') (record_agent_name_assignment h k t R a aid key)"
  by (simp add: record_agent_name_assignment_def split: ensures_splits)
    (intro impI allI ensures_record_update, rule assignment_trace [OF assms], simp_all)

lemma record_agent_notification_trace:
  assumes "machine_inv k" and "trace_inv k" and "valid_agent_notification n"
  shows "ensures (\<lambda>(e, k'). trace_inv k') (record_agent_notification h k t n aid key)"
  by (simp add: record_agent_notification_def split: ensures_splits)
    (intro conjI impI allI ensures_record_update, rule_tac [!] delivery_trace [OF assms], simp_all)

lemma record_pilot_execution_receipt_trace:
  assumes "machine_inv k" and "trace_inv k"
  shows "ensures (\<lambda>(e, k'). trace_inv k') (record_pilot_execution_receipt h k t eid r aid key)"
proof (cases "dict_get (k_executions k) eid")
  case (Some x)
  have "ensures (\<lambda>(e, k'). trace_inv k') (then_update
      (kernel_record h k t eid ''pilot_execution_receipt_recorded'' (receipt_payload k x eid r s reason)
         PilotActor (Some aid) key (Some (exec_work_item_id x)) None)
      (\<lambda>_ k'. k'\<lparr>k_executions := dict_set (k_executions k') eid
         (x\<lparr>exec_state := s, provider_session_id := receipt_session_id r, pause_reason := reason\<rparr>)\<rparr>))"
    if "exec_state x = Requested" and "receipt_transition r = Inr (s, reason)" for s reason
  proof (rule ensures_record_update)
    show "trace_inv (k1\<lparr>k_executions := dict_set (k_executions k1) eid
        (x\<lparr>exec_state := s, provider_session_id := receipt_session_id r, pause_reason := reason\<rparr>)\<rparr>)"
      if "kernel_record h k t eid ''pilot_execution_receipt_recorded'' (receipt_payload k x eid r s reason)
        PilotActor (Some aid) key (Some (exec_work_item_id x)) None = Inr (e, k1)" for e k1
      using receipt_trace [OF assms that Some \<open>exec_state x = Requested\<close>] receipt_transition_Inr [OF \<open>receipt_transition r = _\<close>]
      by auto
  qed
  with Some show ?thesis
    by (simp add: record_pilot_execution_receipt_def split: ensures_splits)
qed (simp add: record_pilot_execution_receipt_def)

lemma quiet_ensures:
  assumes "trace_inv k" and "ensures (\<lambda>(e, k'). quiet (k_ledger k) (k_ledger k')) r"
    and "ensures (\<lambda>(e, k'). views_kept k k') r"
  shows "ensures (\<lambda>(e, k'). trace_inv k') r"
  using assms quiet_step_trace by (fastforce simp: ensures_def)

lemma promote_agent_notification_trace:
  assumes m: "machine_inv k" and t: "trace_inv k" and w: "valid_work_item w"
  shows "ensures (\<lambda>(r, k'). trace_inv k') (promote_agent_notification h k t0 t' nid w aid key)"
proof -
  have first: "trace_inv k1 \<and> machine_inv k1 \<and> k_notifications k1 = k_notifications k \<and> dict_mem (work_item_id w) (k_work_items k1)"
    if c: "create_work_item h k t0 w aid key' = Inr (e, k1)" for key' e k1
  proof -
    have step: "work_step h k k1" using c w by (rule step_create_work_item [rotated])
    then have "kernel_step h k k1" by (rule in_work)
    then have "machine_inv k1" using m by (rule machine_inv_step)
    moreover have "trace_inv k1"
      by (rule quiet_step_trace [OF work_step_quiet [OF step machine_invD(1) [OF m]] work_step_views_kept [OF step] t])
    ultimately show ?thesis using ensuresD [OF create_work_item_views c] by simp
  qed
  have second: "trace_inv (k2\<lparr>k_notifications := dict_set (k_notifications k2) nid (n\<lparr>promoted_work_item_id := Some (work_item_id w)\<rparr>)\<rparr>)"
    if n: "check_promotion k nid w = Inr n" and c: "create_work_item h k t0 w aid key' = Inr (e, k1)"
      and rec: "kernel_record h k1 t' (notification_id n) ''agent_notification_promoted''
        [(''notification_id'', PStr nid), (''work_item_id'', PStr (work_item_id w))] act aid' key'' corr caus = Inr (e', k2)"
    for n key' e k1 act aid' key'' corr caus e' k2
  proof -
    have get: "dict_get (k_notifications k) nid = Some n" "promoted_work_item_id n = None"
      using n by (auto simp: check_promotion_def split: option.splits if_splits)
    have nid: "notification_id n = nid" using keyed_get [OF machine_invD(3) [OF m] get(1)] .
    have wid: "work_item_id w \<noteq> []" using w by (auto simp: valid_work_item_def)
    show ?thesis
      using promotion_trace [OF _ _ rec [unfolded nid]] first [OF c] get wid by simp
  qed
  show ?thesis
    by (auto simp: promote_agent_notification_def split: ensures_splits dest: first second)
qed

lemma execution_step_trace:
  assumes "execution_step h k k'" and m: "machine_inv k" and t: "trace_inv k"
  shows "trace_inv k'"
proof -
  note q = quiet_executions [OF machine_invD(1) [OF m]]
  show ?thesis
    using assms(1)
  proof (rule execution_step_ensures [where P = trace_inv])
    show "ensures (\<lambda>(e, k'). trace_inv k') (create_execution h k t x aid key)" for t x aid key
      by (rule quiet_ensures [OF t q(1)]; rule create_execution_outcome [THEN ensures_mono])
        (auto simp: views_kept_def recorded_def intro: traced_kept_new)
    show "ensures (\<lambda>(e, k'). trace_inv k') (set_execution_state h k t eid s act aid key reason)"
      for t eid s act aid key reason
      by (rule quiet_ensures [OF t q(2)]; rule set_execution_state_outcome [THEN ensures_mono])
        (auto simp: views_kept_def recorded_def dest!: never_requested_again intro: traced_kept_state)
    show "ensures (\<lambda>(e, k'). trace_inv k') (pilot_host_disconnected h k t host key)" for t host key
      by (rule quiet_ensures [OF t q(3)]; rule pilot_host_disconnected_outcome [THEN ensures_mono])
        (auto simp: views_kept_def recorded_def)
    show "ensures (\<lambda>(e, k'). trace_inv k') (register_agent_identity h k t R i aid key)" for t R i aid key
      by (rule quiet_ensures [OF t q(4)]; rule register_agent_identity_outcome [THEN ensures_mono])
        (auto simp: views_kept_def recorded_def)
  qed (intro record_agent_name_assignment_trace record_agent_notification_trace
      record_pilot_execution_receipt_trace promote_agent_notification_trace m t; assumption)+
qed

lemma kernel_step_trace:
  assumes "kernel_step h k k'" and m: "machine_inv k" and t: "trace_inv k"
  shows "trace_inv k'"
proof -
  note L = machine_invD(1) [OF m]
  have same: "trace_inv k'" if "k_versions k' = k_versions k" and "views_kept k k'"
    by (rule quiet_step_trace [OF same_versions_quiet [OF assms(1) m that(1)] that(2) t])
  from assms(1) show ?thesis
  proof (cases rule: kernel_step.cases)
    case in_work
    then show ?thesis using quiet_step_trace work_step_quiet work_step_views_kept L t by blast
  next
    case in_execution
    then show ?thesis using execution_step_trace m t by blast
  next
    case in_effect
    then show ?thesis using quiet_step_trace effect_step_quiet effect_step_views_kept L t by blast
  next
    case in_route
    then show ?thesis using quiet_step_trace route_step_quiet route_step_views_kept L t by blast
  next
    case in_activation
    then show ?thesis by (intro same) (auto simp: views_kept_def elim!: activation_step_views)
  next
    case in_auth
    then show ?thesis by (intro same) (auto simp: views_kept_def elim!: auth_step_views)
  next
    case in_history
    then show ?thesis by (intro same) (simp_all add: views_kept_def)
  qed
qed

lemma trace_inv_fresh: "trace_inv (fresh_kernel ds (empty_ledger (data_space_id ds)) ap cp)"
  by (simp add: trace_inv_def assignments_logged_def notifications_logged_def receipts_logged_def typed_def fresh_kernel_def)

lemma reachable_trace:
  assumes "reachable h ds ap cp k"
  shows "trace_inv k"
proof -
  let ?k0 = "fresh_kernel ds (empty_ledger (data_space_id ds)) ap cp"
  have "(kernel_step h)\<^sup>*\<^sup>* ?k0 k" using assms by (auto simp: reachable_def init_kernel_def split: if_splits)
  then have "machine_inv k \<and> trace_inv k"
    by (induction rule: rtranclp_induct) (auto intro: machine_inv_fresh trace_inv_fresh machine_inv_step kernel_step_trace)
  then show ?thesis by simp
qed

end
