(* ===== verification/Audit_Reads.thy ===== *)
theory Audit_Reads
  imports Audit_Steps
begin

text \<open>
  The two page loops return, with the whole ledger and with one whole stream, for every
  page size; and on the ledger of a reachable Kernel the events either path sorts out are
  the same.
\<close>

section \<open>The whole ledger\<close>

declare upt_Suc [simp del]

lemma read_page_all:
  "map cursor page = [c + 1..<c + 1 + length page] \<Longrightarrow> read_page acc c page = Inr (acc @ page, c + length page)"
proof (induction page arbitrary: acc c)
  case (Cons s page)
  have upt: "[c + 1..<c + 1 + length (s # page)] = (c + 1) # [c + 2..<c + 2 + length page]"
    by (subst upt_conv_Cons) simp_all
  from Cons.prems have "cursor s = c + 1" "map cursor page = [c + 2..<c + 2 + length page]"
    unfolding upt by simp_all
  with Cons.IH [of "c + 1" "acc @ [s]"] show ?case by simp
qed simp

lemma events_loop_all:
  assumes inv: "ledger_inv L" and n: "0 < n"
  shows "c \<le> length (l_events L) \<Longrightarrow> events_loop L n (take c (l_events L)) c = Some (Inr (l_events L))"
proof (induction "length (l_events L) - c" arbitrary: c rule: less_induct)
  case less
  let ?page = "take (nat n) (drop c (l_events L))"
  have page: "ledger_page L (int c) n = Inr ?page" using n by (simp add: ledger_page_def)
  obtain ss where "ledger_page L (int c) n = Inr ss" and cs: "map cursor ss = [nat (int c) + 1..<nat (int c) + 1 + length ss]"
    using memory.page_law [OF inv, of "int c" n] n by auto
  then have read: "read_page (take c (l_events L)) c ?page = Inr (take c (l_events L) @ ?page, c + length ?page)"
    using read_page_all [of ?page c] page by simp
  show ?case
  proof (cases "c = length (l_events L)")
    case True
    then show ?thesis using page by (subst events_loop.simps) simp
  next
    case False
    then have ne: "?page \<noteq> []" and lt: "length (l_events L) - (c + length ?page) < length (l_events L) - c"
      and le: "c + length ?page \<le> length (l_events L)"
      using less.prems n by auto
    have "take c (l_events L) @ ?page = take (c + length ?page) (l_events L)"
      by (metis append_take_drop_id append_eq_conv_conj length_take length_drop take_add take_take min.idem)
    then show ?thesis
      using less.hyps [OF lt le] ne read by (subst events_loop.simps) (simp add: page)
  qed
qed

section \<open>One stream\<close>

lemma read_stream_page_all:
  "\<forall>s \<in> set page. stream_id (stored s) = sid \<Longrightarrow>
    map (stream_version \<circ> stored) page = [v + 1..<v + 1 + length page] \<Longrightarrow> sorted_wrt (<) (c # map cursor page) \<Longrightarrow>
    read_stream_page sid acc v c page = Inr (acc @ page, v + length page, last (c # map cursor page))"
proof (induction page arbitrary: acc v c)
  case (Cons s page)
  have upt: "[v + 1..<v + 1 + length (s # page)] = (v + 1) # [v + 2..<v + 2 + length page]"
    by (subst upt_conv_Cons) simp_all
  from Cons.prems(2) have "stream_version (stored s) = v + 1"
    "map (stream_version \<circ> stored) page = [v + 2..<v + 2 + length page]" unfolding upt by (simp_all add: comp_def)
  with Cons.IH [of "v + 1" "cursor s" "acc @ [s]"] Cons.prems(1,3) show ?case by (simp add: comp_def)
qed simp

lemma stream_cursors_increase:
  assumes "ledger_inv L"
  shows "sorted_wrt (<) (0 # map cursor (stream_of L sid))"
proof -
  have cs: "map cursor (l_events L) = [1..<length (l_events L) + 1]" by (rule ledger_inv_cursors [OF assms])
  then have "sorted_wrt (\<lambda>s s'. cursor s < cursor s') (l_events L)"
    using sorted_wrt_map [of "(<)" cursor "l_events L"] strict_sorted_iff [of "map cursor (l_events L)"] by (simp del: upt_Suc)
  then have "sorted_wrt (\<lambda>s s'. cursor s < cursor s') (stream_of L sid)"
    unfolding ledger_inv_streams [OF assms] by (rule sorted_wrt_filter)
  moreover have "\<forall>s \<in> set (l_events L). 0 < cursor s"
  proof
    fix s assume "s \<in> set (l_events L)"
    then have "cursor s \<in> set [1..<length (l_events L) + 1]" using cs by (metis image_eqI list.set_map)
    then show "0 < cursor s" by simp
  qed
  ultimately show ?thesis by (auto simp: sorted_wrt_map ledger_inv_streams [OF assms])
qed

lemma sorted_wrt_prefix: "sorted_wrt P (a # ys) \<Longrightarrow> sorted_wrt P (a # take m ys)"
  by (auto simp: sorted_wrt_take dest: in_set_takeD)

lemma sorted_from:
  fixes xs :: "nat list"
  assumes "sorted_wrt (<) (0 # xs)"
  shows "sorted_wrt (<) (last (0 # take v xs) # take m (drop v xs))"
proof (rule sorted_wrt_prefix)
  have "0 # xs = (0 # take v xs) @ drop v xs" by simp
  also have "\<dots> = (butlast (0 # take v xs) @ [last (0 # take v xs)]) @ drop v xs"
    by (subst append_butlast_last_id) simp_all
  finally have "0 # xs = butlast (0 # take v xs) @ (last (0 # take v xs) # drop v xs)" by simp
  with assms have "sorted_wrt (<) (butlast (0 # take v xs) @ (last (0 # take v xs) # drop v xs))" by simp
  then show "sorted_wrt (<) (last (0 # take v xs) # drop v xs)" unfolding sorted_wrt_append by blast
qed

lemma stream_loop_all:
  fixes L :: kledger and sid :: string
  assumes inv: "ledger_inv L" and n: "0 < n"
  defines "S \<equiv> stream_of L sid"
  shows "v \<le> length S \<Longrightarrow> stream_loop L n sid (take v S) v (last (0 # map cursor (take v S))) = Some (Inr S)"
proof (induction "length S - v" arbitrary: v rule: less_induct)
  case less
  let ?page = "take (nat n) (drop v S)" and ?c = "last (0 # map cursor (take v S))"
  have page: "ledger_stream L sid (int v) n = Inr ?page" using n by (simp add: ledger_stream_def S_def)
  have "map (stream_version \<circ> stored) ?page = [v + 1..<v + 1 + length ?page]"
  proof -
    have "map (stream_version \<circ> stored) ?page = take (nat n) (drop v [1..<length S + 1])"
      using ledger_inv_versions [OF inv, of sid] by (simp add: S_def flip: take_map drop_map)
    also have "\<dots> = [v + 1..<v + 1 + length ?page]"
      using less.prems by (cases "nat n \<le> length S - v") (simp_all add: take_upt min_absorb1 min_absorb2)
    finally show ?thesis .
  qed
  moreover have "\<forall>s \<in> set ?page. stream_id (stored s) = sid"
    by (auto simp: S_def ledger_inv_streams [OF inv] dest!: in_set_takeD in_set_dropD)
  moreover have "sorted_wrt (<) (?c # map cursor ?page)"
    using sorted_from [OF stream_cursors_increase [OF inv, of sid], of v "nat n"] by (simp add: S_def take_map drop_map)
  ultimately have read: "read_stream_page sid (take v S) v ?c ?page
      = Inr (take v S @ ?page, v + length ?page, last (?c # map cursor ?page))"
    by (intro read_stream_page_all)
  show ?case
  proof (cases "v = length S")
    case True
    then show ?thesis using page by (subst stream_loop.simps) simp
  next
    case False
    then have ne: "?page \<noteq> []" and lt: "length S - (v + length ?page) < length S - v" and le: "v + length ?page \<le> length S"
      using less.prems n by auto
    have grow: "take v S @ ?page = take (v + length ?page) S"
      by (metis append_take_drop_id append_eq_conv_conj length_take length_drop take_add take_take min.idem)
    have "last (?c # map cursor ?page) = last (0 # map cursor (take (v + length ?page) S))"
      using ne unfolding grow [symmetric] by simp
    then show ?thesis
      using less.hyps [OF lt le] ne read grow by (subst stream_loop.simps) (simp add: page)
  qed
qed

section \<open>Reading a Kernel\<close>

lemma init_audit_Inr: "init_audit k n = Inr A \<longleftrightarrow> 0 < n \<and> A = \<lparr>audit_kernel = k, page_size = n\<rparr>"
  by (auto simp: init_audit_def)

lemma audit_reads:
  assumes "init_audit k n = Inr A" and "ledger_inv (k_ledger k)"
  shows "audit_events A = Some (Inr (l_events (k_ledger k)))"
    and "audit_stream A sid = Some (Inr (stream_of (k_ledger k) sid))"
  using assms events_loop_all [of "k_ledger k" n 0] stream_loop_all [of "k_ledger k" n 0 sid]
  by (simp_all add: init_audit_Inr audit_events_def audit_stream_def audit_ledger_def)

section \<open>Sorting the events\<close>

definition tells_of :: "string \<Rightarrow> kstored \<Rightarrow> bool" where
  "tells_of nid s \<longleftrightarrow> event_type (stored s) = ''agent_notification_delivered'' \<and> stream_id (stored s) = nid"

definition promotes :: "string \<Rightarrow> kstored \<Rightarrow> bool" where
  "promotes nid s \<longleftrightarrow> event_type (stored s) = ''agent_notification_promoted'' \<and> stream_id (stored s) = nid"

lemma stored_typed: "s \<in> set (l_events L) \<Longrightarrow> event_type (stored s) = ty \<Longrightarrow> stored s \<in> set (typed ty L)"
  by (auto simp: typed_def ledger_events_def)

lemma sort_notification_all:
  assumes m: "machine_inv k" and t: "trace_inv k"
  shows "set ss \<subseteq> set (l_events (k_ledger k)) \<Longrightarrow>
    sort_notification_events nid ss (ds, ps) = Inr (ds @ filter (tells_of nid) ss, ps @ filter (promotes nid) ss)"
proof (induction ss arbitrary: ds ps)
  case (Cons s ss)
  then have s: "s \<in> set (l_events (k_ledger k))" and IH: "\<And>ds ps. sort_notification_events nid ss (ds, ps)
      = Inr (ds @ filter (tells_of nid) ss, ps @ filter (promotes nid) ss)" by simp_all
  have nl: "notifications_logged k" using t by (simp add: trace_inv_def)
  consider "event_type (stored s) = ''agent_notification_delivered''" | "event_type (stored s) = ''agent_notification_promoted''"
    | "event_type (stored s) \<notin> {''agent_notification_delivered'', ''agent_notification_promoted''}" by blast
  then show ?case
  proof cases
    case 1
    with stored_typed [OF s] nl have "delivered_as k (stored s)" by (simp add: notifications_logged_def)
    then obtain n n' where n: "payload (stored s) = [(''notification'', PNotification n)]"
      "dict_get (k_notifications k) (stream_id (stored s)) = Some n'"
      "n'\<lparr>promoted_work_item_id := None\<rparr> = n\<lparr>promoted_work_item_id := None\<rparr>"
      unfolding delivered_as_def by blast
    from keyed_get [OF machine_invD(3) [OF m] n(2)] arg_cong [OF n(3), of notification_id]
    have "notification_id n = stream_id (stored s)" by simp
    with 1 n(1) IH show ?thesis by (simp add: tells_of_def [of nid s] promotes_def [of nid s])
  next
    case 2
    with stored_typed [OF s] nl have "promoted_as k (stored s)" by (simp add: notifications_logged_def)
    with 2 IH show ?thesis by (auto simp: promoted_as_def tells_of_def [of nid s] promotes_def [of nid s])
  qed (use IH in \<open>simp_all add: tells_of_def [of nid s] promotes_def [of nid s]\<close>)
qed simp

lemma stream_of_set: "ledger_inv L \<Longrightarrow> set (stream_of L sid) \<subseteq> set (l_events L)"
  by (auto simp: ledger_inv_streams)

lemma filter_stream:
  assumes "ledger_inv L" and "\<And>s. p s \<Longrightarrow> stream_id (stored s) = sid"
  shows "filter p (stream_of L sid) = filter p (l_events L)"
  using assms(2) by (auto simp: ledger_inv_streams [OF assms(1)] intro: filter_cong)

lemma notification_paths:
  assumes m: "machine_inv k" and t: "trace_inv k"
  shows "validate_notification_trace k nid n (stream_of (k_ledger k) nid)
    = validate_notification_trace k nid n (l_events (k_ledger k))"
proof -
  note L = machine_invD(1) [OF m]
  have "filter (tells_of nid) (stream_of (k_ledger k) nid) = filter (tells_of nid) (l_events (k_ledger k))"
    "filter (promotes nid) (stream_of (k_ledger k) nid) = filter (promotes nid) (l_events (k_ledger k))"
    by (rule filter_stream [OF L]; simp add: tells_of_def promotes_def)+
  then show ?thesis
    unfolding validate_notification_trace_def sort_notification_all [OF m t stream_of_set [OF L]]
      sort_notification_all [OF m t subset_refl] by simp
qed

definition assigns :: "string \<Rightarrow> kstored \<Rightarrow> bool" where
  "assigns eid s \<longleftrightarrow> is_assignment s \<and> (\<exists>a. payload (stored s) = [(''assignment'', PAssignment a)] \<and> assignment_execution_id a = eid)"

definition receives :: "string \<Rightarrow> kstored \<Rightarrow> bool" where
  "receives eid s \<longleftrightarrow> is_receipt s \<and> stream_id (stored s) = eid"

lemma assignment_event:
  assumes m: "machine_inv k" and t: "trace_inv k" and s: "s \<in> set (l_events (k_ledger k))" "is_assignment s"
  obtains a where "payload (stored s) = [(''assignment'', PAssignment a)]" "stream_id (stored s) = assignment_id a"
    "a \<in> set (dict_values (k_assignments k))"
proof -
  let ?f = "\<lambda>e. (stream_id e, payload e)"
  have "stored s \<in> set (typed ''agent_name_assigned'' (k_ledger k))"
    using stored_typed [OF s(1)] s(2) by (simp add: is_assignment_def)
  then have "?f (stored s) \<in> set (map ?f (typed ''agent_name_assigned'' (k_ledger k)))" by simp
  also have "\<dots> = set (map (\<lambda>(i, a). (i, [(''assignment'', PAssignment a)])) (k_assignments k))"
    using t unfolding trace_inv_def assignments_logged_def by presburger
  finally obtain i a where a: "(i, a) \<in> set (k_assignments k)" "stream_id (stored s) = i"
    "payload (stored s) = [(''assignment'', PAssignment a)]" by auto
  moreover have "i = assignment_id a" "a \<in> set (dict_values (k_assignments k))"
    using a(1) machine_invD(4) [OF m] by (force simp: keyed_def dict_values_def)+
  ultimately show thesis by (intro that) simp_all
qed

lemma sort_execution_all:
  assumes m: "machine_inv k" and t: "trace_inv k"
  shows "set ss \<subseteq> set (l_events (k_ledger k)) \<Longrightarrow>
    sort_execution_events eid ss (as, rs) = Inr (as @ filter (assigns eid) ss, rs @ filter (receives eid) ss)"
proof (induction ss arbitrary: as rs)
  case (Cons s ss)
  then have s: "s \<in> set (l_events (k_ledger k))" and IH: "\<And>as rs. sort_execution_events eid ss (as, rs)
      = Inr (as @ filter (assigns eid) ss, rs @ filter (receives eid) ss)" by simp_all
  consider "is_assignment s" | "is_receipt s" | "\<not> is_assignment s" "\<not> is_receipt s" by blast
  then show ?case
  proof cases
    case 1
    then obtain a where "payload (stored s) = [(''assignment'', PAssignment a)]"
      using assignment_event [OF m t s] by blast
    with 1 IH show ?thesis
      by (simp add: assigns_def [of eid s] receives_def [of eid s] is_assignment_def is_receipt_def)
  next
    case 2
    then have "received_as k (stored s)"
      using stored_typed [OF s] t by (simp add: is_receipt_def trace_inv_def receipts_logged_def)
    with 2 IH show ?thesis
      by (auto simp: received_as_def assigns_def [of eid s] receives_def [of eid s] is_assignment_def is_receipt_def)
  next
    case 3
    with IH show ?thesis
      by (simp add: assigns_def [of eid s] receives_def [of eid s] is_assignment_def is_receipt_def)
  qed
qed simp

text \<open>The assignments of the view and the assignment events of the ledger.\<close>

lemma assigned_events:
  assumes m: "machine_inv k" and t: "trace_inv k"
    and as: "filter (\<lambda>a. assignment_execution_id a = eid) (dict_values (k_assignments k)) = as"
  shows "filter (assigns eid) (l_events (k_ledger k))
    = (if length as = 1 then filter is_assignment (stream_of (k_ledger k) (assignment_id (hd as))) else [])"
    and "length as \<le> 1"
proof -
  note L = machine_invD(1) [OF m]
  have inj: "inj_on assignment_execution_id (set (dict_values (k_assignments k)))"
    using t by (simp add: trace_inv_def assignments_logged_def)
  have dist: "distinct (dict_values (k_assignments k))"
  proof -
    have "map assignment_id (dict_values (k_assignments k)) = map fst (k_assignments k)"
      using machine_invD(4) [OF m] by (auto simp: keyed_def dict_values_def)
    then show ?thesis using machine_invD(4) [OF m] by (metis keyed_def distinct_map)
  qed
  have one: "a = b" if "a \<in> set as" "b \<in> set as" for a b
    using that inj as by (auto simp: inj_on_def)
  have "distinct as" using as dist by (metis distinct_filter)
  then show "length as \<le> 1"
  proof (cases as)
    case (Cons a bs)
    then have "b = a" if "b \<in> set bs" for b using one [of b a] that by simp
    with \<open>distinct as\<close> Cons have "bs = []" by (cases bs) auto
    with Cons show ?thesis by simp
  qed simp
  show "filter (assigns eid) (l_events (k_ledger k))
    = (if length as = 1 then filter is_assignment (stream_of (k_ledger k) (assignment_id (hd as))) else [])"
  proof (cases "length as = 1")
    case True
    then obtain a where a: "as = [a]" by (auto simp: length_Suc_conv)
    have "assigns eid s \<longleftrightarrow> stream_id (stored s) = assignment_id a \<and> is_assignment s" if s: "s \<in> set (l_events (k_ledger k))" for s
    proof (cases "is_assignment s")
      case True
      then obtain b where b: "payload (stored s) = [(''assignment'', PAssignment b)]" "stream_id (stored s) = assignment_id b"
        "b \<in> set (dict_values (k_assignments k))" using assignment_event [OF m t s] by blast
      have "a \<in> set as" using a by simp
      then have "a \<in> set (dict_values (k_assignments k))" using as by auto
      then have same: "assignment_id b = assignment_id a \<longleftrightarrow> b = a"
        using b(3) keyed_values_get [OF machine_invD(4) [OF m]] by (metis option.inject)
      have "assignment_execution_id b = eid \<longleftrightarrow> b \<in> set as" using b(3) as by auto
      also have "\<dots> \<longleftrightarrow> assignment_id b = assignment_id a" using a same by simp
      finally show ?thesis using True b by (simp add: assigns_def)
    qed (simp add: assigns_def)
    then have "filter (assigns eid) (l_events (k_ledger k))
        = filter (\<lambda>s. stream_id (stored s) = assignment_id a \<and> is_assignment s) (l_events (k_ledger k))"
      by (intro filter_cong) simp_all
    then show ?thesis by (simp add: a ledger_inv_streams [OF L] conj_commute)
  next
    case False
    with \<open>length as \<le> 1\<close> have "as = []" by (cases as) auto
    then have "\<not> assigns eid s" if "s \<in> set (l_events (k_ledger k))" for s
      using that as assignment_event [OF m t that] by (fastforce simp: assigns_def filter_empty_conv)
    then show ?thesis using False by (simp add: filter_empty_conv)
  qed
qed

end
