(* ===== verification/Reply_Trace.thy ===== *)
theory Reply_Trace
  imports Audit_Trace Json
begin

text \<open>
  \<^verbatim>\<open>AuditTraceService.trace_reply\<close>: from the supplemental records LETHE returns, the chain
  reply draft, owner's approval, send record, and with a Kernel also the execution that
  wrote the draft.
\<close>

section \<open>Records\<close>

definition required_jstring :: "string \<Rightarrow> string \<Rightarrow> json \<Rightarrow> string result" where
  "required_jstring field ctx v =
     (case as_jstr v of
        None \<Rightarrow> raise_violation (ctx @ '' requires a non-empty '' @ field)
      | Some s \<Rightarrow> if s = [] then raise_violation (ctx @ '' requires a non-empty '' @ field) else Inr s)"

type_synonym jrecord = "(string, json) dict"

definition record_id :: "string \<Rightarrow> jrecord \<Rightarrow> string result" where
  "record_id ctx r =
     bind_result (required_jstring ''id'' ctx (jget r ''id'')) (\<lambda>v.
       case validate_id v of
         Inl (InvariantViolation _) \<Rightarrow> raise_violation (ctx @ '' id must be a valid sup: identifier'')
       | Inl e \<Rightarrow> Inl e
       | Inr v \<Rightarrow>
         if \<not> starts_with ''sup:'' v then raise_violation (ctx @ '' id must use the sup: namespace'') else Inr v)"

definition record_kind :: "string \<Rightarrow> jrecord \<Rightarrow> string result" where
  "record_kind ctx r = required_jstring ''kind'' ctx (jget r ''kind'')"

definition derived_supplementals :: "string \<Rightarrow> jrecord \<Rightarrow> string list result" where
  "derived_supplementals ctx r =
     (case as_jobj (jget r ''derived_from'') of
        None \<Rightarrow> raise_violation (ctx @ '' derived_from is malformed'')
      | Some d \<Rightarrow>
        (case Option.bind (as_jlist (jget d ''supplementals'')) jstrings of
           None \<Rightarrow> raise_violation (ctx @ '' derived_from.supplementals is malformed'')
         | Some ss \<Rightarrow>
           if [] \<in> set ss then raise_violation (ctx @ '' derived_from.supplementals is malformed'') else Inr ss))"

text \<open>The records by their id; two of the same id are refused.\<close>

fun index_records :: "(string, jrecord) dict \<Rightarrow> json list \<Rightarrow> (string, jrecord) dict result" where
  "index_records ix [] = Inr ix"
| "index_records ix (v # vs) =
     (case as_jobj v of
        None \<Rightarrow> raise_violation ''supplemental audit records must be mappings''
      | Some r \<Rightarrow>
        bind_result (record_id ''supplemental audit record'' r) (\<lambda>key.
          if dict_mem key ix then raise_violation (''duplicate supplemental audit record: '' @ key)
          else index_records (dict_set ix key r) vs))"

text \<open>The list comprehension over the records of one kind that are derived from the draft.\<close>

fun anchored :: "string \<Rightarrow> string \<Rightarrow> string \<Rightarrow> jrecord list \<Rightarrow> jrecord list result" where
  "anchored kd ctx draft_id [] = Inr []"
| "anchored kd ctx draft_id (r # rs) =
     bind_result (record_kind ''supplemental audit record'' r) (\<lambda>k.
       if k \<noteq> kd then anchored kd ctx draft_id rs
       else bind_result (derived_supplementals ctx r) (\<lambda>ss.
         bind_result (anchored kd ctx draft_id rs) (\<lambda>rest.
           Inr (if draft_id \<in> set ss then r # rest else rest))))"

section \<open>Lineage\<close>

definition is_name_char :: "char \<Rightarrow> bool" where
  "is_name_char c \<longleftrightarrow> is_lower c \<or> is_upper c \<or> is_digit c"

text \<open>The regular expression of the lineage; no group contains a slash.\<close>

definition lineage_match :: "string \<Rightarrow> (string \<times> string \<times> string) option" where
  "lineage_match s =
     (case split_on CHR ''/'' s of
        [a, b, wid, c, eid, d, name] \<Rightarrow>
          (if a = ''nanihold'' \<and> b = ''work-item'' \<and> c = ''execution'' \<and> d = ''agent'' \<and> wid \<noteq> [] \<and> eid \<noteq> []
              \<and> name \<noteq> [] \<and> is_name_char (hd name)
              \<and> list_all (\<lambda>x. is_name_char x \<or> x = CHR ''_'' \<or> x = CHR ''-'') (tl name)
           then Some (wid, eid, name) else None)
      | _ \<Rightarrow> None)"

section \<open>The trace\<close>

record reply_trace =
  rt_draft_id :: string
  rt_observation_id :: string
  rt_channel :: string
  rt_agent_name :: string
  rt_work_item_id :: string
  rt_execution_id :: string
  rt_approval_id :: string
  rt_send_record_id :: string
  rt_message_ref :: json
  rt_execution :: "execution_trace option"

text \<open>What the draft itself says: its author, its lineage, the observation it answers.\<close>

record reply_draft =
  rd_agent_name :: string
  rd_work_item_id :: string
  rd_execution_id :: string
  rd_observation_id :: string
  rd_channel :: string

definition read_draft :: "jrecord \<Rightarrow> reply_draft result" where
  "read_draft draft =
     bind_result (record_kind ''reply draft'' draft) (\<lambda>kd.
     if kd \<noteq> ''reply-draft@1'' then raise_violation ''trace subject is not a reply-draft@1 record''
     else bind_result (required_jstring ''created_by'' ''reply draft'' (jget draft ''created_by'')) (\<lambda>by.
     if \<not> starts_with ''agent:'' by then raise_violation ''reply draft created_by must identify an agent''
     else (let agent = drop 6 by in
       if agent = [] then raise_violation ''reply draft created_by has no agent name''
       else bind_result (required_jstring ''lineage'' ''reply draft'' (jget draft ''lineage'')) (\<lambda>lineage.
       case lineage_match lineage of
         None \<Rightarrow> raise_violation ''reply draft lineage does not match created_by''
       | Some (wid, eid, name) \<Rightarrow>
         (if name \<noteq> agent then raise_violation ''reply draft lineage does not match created_by''
          else bind_result (validate_id wid) (\<lambda>wid. bind_result (validate_id eid) (\<lambda>eid.
          case as_jobj (jget draft ''derived_from'') of
            None \<Rightarrow> raise_violation ''reply draft derived_from is malformed''
          | Some d \<Rightarrow>
            (case as_jlist (jget d ''observations'') of
               Some [obs] \<Rightarrow>
                 bind_result (required_jstring ''incoming observation id'' ''reply draft'' obs) (\<lambda>oid.
                 case as_jobj (jget draft ''payload'') of
                   None \<Rightarrow> raise_violation ''reply draft payload is malformed''
                 | Some p \<Rightarrow>
                   bind_result (required_jstring ''channel'' ''reply draft'' (jget p ''channel'')) (\<lambda>channel.
                     Inr \<lparr>rd_agent_name = agent, rd_work_item_id = wid, rd_execution_id = eid,
                          rd_observation_id = oid, rd_channel = channel\<rparr>))
             | _ \<Rightarrow> raise_violation ''reply draft must anchor exactly one incoming observation''))))))))"

text \<open>The one approval and the one send record: their ids and the send record's message.\<close>

definition read_delivery :: "jrecord list \<Rightarrow> string \<Rightarrow> string \<Rightarrow> (string \<times> string \<times> json) result" where
  "read_delivery rs draft_id channel =
     bind_result (anchored ''reply-approval@1'' ''reply approval'' draft_id rs) (\<lambda>approvals.
     case approvals of
       [approval] \<Rightarrow>
         bind_result (record_id ''reply approval'' approval) (\<lambda>aid.
         bind_result (anchored ''send-record@1'' ''send record'' draft_id rs) (\<lambda>sends.
         case sends of
           [send] \<Rightarrow>
             bind_result (record_id ''send record'' send) (\<lambda>sid.
             case as_jobj (jget send ''payload'') of
               None \<Rightarrow> raise_violation ''send record payload is malformed''
             | Some p \<Rightarrow>
               (if jget p ''approval_id'' \<noteq> JStr aid
                then raise_violation ''send record approval does not match draft approval''
                else if jget p ''mode'' \<noteq> JStr ''approved''
                then raise_violation ''send record was not produced by approved delivery''
                else if jget p ''channel'' \<noteq> JStr channel
                then raise_violation ''send record channel does not match reply draft''
                else Inr (aid, sid, jget p ''message_ref'')))
         | _ \<Rightarrow> raise_violation ''reply draft audit trace requires exactly one anchored send record''))
     | _ \<Rightarrow> raise_violation ''reply draft audit trace requires exactly one anchored approval'')"

definition read_reply :: "json list \<Rightarrow> string \<Rightarrow> (reply_draft \<times> string \<times> string \<times> json) result" where
  "read_reply records draft_id =
     bind_result (validate_id draft_id) (\<lambda>draft_id.
     bind_result (index_records [] records) (\<lambda>ix.
     case dict_get ix draft_id of
       None \<Rightarrow> raise_violation (''reply draft not found: '' @ draft_id)
     | Some draft \<Rightarrow>
       bind_result (read_draft draft) (\<lambda>d.
       bind_result (read_delivery (dict_values ix) draft_id (rd_channel d)) (\<lambda>(aid, sid, ref).
         Inr (d, aid, sid, ref)))))"

definition check_attribution :: "kernel \<Rightarrow> reply_draft \<Rightarrow> unit result" where
  "check_attribution k d =
     (case (dict_get (k_executions k) (rd_execution_id d), dict_get (k_work_items k) (rd_work_item_id d)) of
        (Some x, Some w) \<Rightarrow>
          (if exec_work_item_id x \<noteq> rd_work_item_id d
           then raise_violation ''reply draft lineage WorkItem and Execution do not match''
           else if exec_agent_name x \<noteq> Some (rd_agent_name d)
           then raise_violation ''reply draft agent name does not match Execution attribution''
           else Inr ())
      | _ \<Rightarrow> raise_violation ''reply draft lineage references an unknown WorkItem or Execution'')"

definition reply_trace_of ::
  "string \<Rightarrow> reply_draft \<times> string \<times> string \<times> json \<Rightarrow> execution_trace option \<Rightarrow> reply_trace" where
  "reply_trace_of draft_id x et = (case x of (d, aid, sid, ref) \<Rightarrow>
     \<lparr>rt_draft_id = draft_id, rt_observation_id = rd_observation_id d, rt_channel = rd_channel d,
      rt_agent_name = rd_agent_name d, rt_work_item_id = rd_work_item_id d, rt_execution_id = rd_execution_id d,
      rt_approval_id = aid, rt_send_record_id = sid, rt_message_ref = ref, rt_execution = et\<rparr>)"

definition trace_reply :: "json list \<Rightarrow> string \<Rightarrow> kernel option \<Rightarrow> reply_trace result option" where
  "trace_reply records draft_id owner_kernel =
     (case read_reply records draft_id of
        Inl err \<Rightarrow> Some (Inl err)
      | Inr x \<Rightarrow>
        (case owner_kernel of
           None \<Rightarrow> Some (Inr (reply_trace_of draft_id x None))
         | Some k \<Rightarrow>
           (case check_attribution k (fst x) of
              Inl err \<Rightarrow> Some (Inl err)
            | Inr _ \<Rightarrow>
              (case init_audit k 1000 of
                 Inl err \<Rightarrow> Some (Inl err)
               | Inr A \<Rightarrow> after_loop (trace_execution A (rd_execution_id (fst x)))
                   (\<lambda>et. Inr (reply_trace_of draft_id x (Some et)))))))"

end
