(* ===== verification/Audit_Run.thy ===== *)
theory Audit_Run
  imports Audit_Reads Reply_Trace Kernel_Properties Notification_Properties
begin

text \<open>
  A run for the traces: on the commissioned Kernel of \<open>Example_Run\<close> an Execution is
  requested, gets its name and its pilot's receipt; and the records of a reply to it.
\<close>

definition aud_execution :: execution where
  "aud_execution = ex_execution\<lparr>exec_state := Requested\<rparr>"

definition aud_assignment :: agent_name_assignment where
  "aud_assignment = \<lparr>assignment_id = ''assign:1'', assignment_data_space_id = ''ds:main'', assignment_work_item_id = ''work:1'',
     assignment_execution_id = ''exec:1'', assignment_node_id = ''node:1'', assignment_pilot_id = ''pilot:1'',
     assignment_agent_name = ''A'', assignment_base_name = ''A'', assignment_suffix = 1, assignment_name_column = English,
     assignment_scale = 1, assignment_provider = ''p'', assignment_candidate_key = ''c''\<rparr>"

definition aud_registry :: name_registry where
  "aud_registry = \<lparr>rows = [], next_index = [], used_names = [''A''], reg_assignments = [(''assign:1'', aud_assignment)],
     reg_registrations = []\<rparr>"

definition aud_receipt :: pilot_receipt where
  "aud_receipt = \<lparr>receipt_id = ''r'', receipt_status = ''failed'', requested_model = None, actual_model = None,
     receipt_session_id = None, receipt_usage = None, receipt_result = None, receipt_error = Some ''{}''\<rparr>"

definition aud_created :: kernel where
  "aud_created = run6\<lparr>k_ledger := pushed (k_ledger run6) (post_event ''exec:1'' 1 ''execution_created''
       [(''execution'', PExecution aud_execution)] Human ''work:1'' None (run_key 40)),
     k_versions := [(''graph:1'', 1), (''exec:1'', 1)], k_executions := [(''exec:1'', aud_execution)]\<rparr>"

definition aud_named :: kernel where
  "aud_named = aud_created\<lparr>k_ledger := pushed (k_ledger aud_created) (post_event ''assign:1'' 1 ''agent_name_assigned''
       [(''assignment'', PAssignment aud_assignment)] SystemActor ''work:1'' (Some ''exec:1'') (run_key 90)),
     k_versions := [(''graph:1'', 1), (''exec:1'', 1), (''assign:1'', 1)],
     k_assignments := [(''assign:1'', aud_assignment)],
     k_executions := [(''exec:1'', aud_execution\<lparr>exec_agent_name := Some ''A''\<rparr>)]\<rparr>"

definition aud_event :: kevent where
  "aud_event = post_event ''exec:1'' 2 ''pilot_execution_receipt_recorded''
     (receipt_payload aud_named (aud_execution\<lparr>exec_agent_name := Some ''A''\<rparr>) ''exec:1'' aud_receipt ExecFailed None)
     PilotActor ''work:1'' None (run_key 91)"

definition aud_received :: kernel where
  "aud_received = aud_named\<lparr>k_ledger := pushed (k_ledger aud_named) aud_event,
     k_versions := [(''graph:1'', 1), (''exec:1'', 2), (''assign:1'', 1)],
     k_executions := [(''exec:1'', aud_execution\<lparr>exec_agent_name := Some ''A'', exec_state := ExecFailed\<rparr>)]\<rparr>"

lemma aud_execution_sel [simp]:
  "execution_id aud_execution = ''exec:1''" "exec_data_space_id aud_execution = ''ds:main''"
  "exec_node_id aud_execution = ''node:1''" "exec_work_item_id aud_execution = ''work:1''"
  "exec_pilot_id aud_execution = ''pilot:1''" "exec_state aud_execution = Requested" "exec_agent_name aud_execution = None"
  by (simp_all add: aud_execution_def ex_execution_def)

lemma aud_valid: "valid_execution aud_execution" "valid_agent_name_assignment aud_assignment" "valid_identifier ''assign:1''"
proof -
  show "valid_execution aud_execution"
    using ex_execution_valid by (simp add: valid_execution_def aud_execution_def)
  show "valid_identifier ''assign:1''" by code_simp
  show "valid_agent_name_assignment aud_assignment" by code_simp
qed

lemma aud_types: "non_blank ''execution_created''" "non_blank ''agent_name_assigned''" "non_blank ''pilot_execution_receipt_recorded''"
  by (simp_all add: text_lengths)

lemma aud_created: "create_execution toy run6 0 aud_execution ''owner:me'' (run_key 40)
    = Inr (post_event ''exec:1'' 1 ''execution_created'' [(''execution'', PExecution aud_execution)] Human ''work:1'' None (run_key 40),
        aud_created)"
  by (simp add: create_execution_def require_active_def post_record aud_types version_of_def aud_created_def)

lemma aud_created_sel [simp]:
  "data_space_id (k_data_space aud_created) = ''ds:main''" "ledger_data_space_id (k_ledger aud_created) = ''ds:main''"
  "k_versions aud_created = [(''graph:1'', 1), (''exec:1'', 1)]" "k_executions aud_created = [(''exec:1'', aud_execution)]"
  "k_assignments aud_created = []" "k_registrations aud_created = []"
  "length (stream_of (k_ledger aud_created) sid) = (if sid = ''exec:1'' then 1 else length (stream_of (k_ledger run6) sid))"
  "dict_get (l_idempotency (k_ledger aud_created)) (run_key i) = None \<longleftrightarrow> i \<notin> {10, 20, 21, 22, 23, 24, 40}"
  "dict_get (l_event_ids (k_ledger aud_created)) (run_event_id n) = None \<longleftrightarrow> n \<notin> {80, 98, 99, 100, 101, 102, 109}"
  by (simp_all add: aud_created_def) (simp_all add: run6_def run5_def run4_def run3_def run2_def run1_def run0_def fresh_kernel_def, blast+)

lemma aud_named: "record_agent_name_assignment toy aud_created 0 aud_registry aud_assignment ''owner:me'' (run_key 90)
    = Inr (post_event ''assign:1'' 1 ''agent_name_assigned'' [(''assignment'', PAssignment aud_assignment)] SystemActor
        ''work:1'' (Some ''exec:1'') (run_key 90), aud_named)"
proof -
  have a: "assignment_id aud_assignment = ''assign:1''" "assignment_data_space_id aud_assignment = ''ds:main''"
    "assignment_work_item_id aud_assignment = ''work:1''" "assignment_execution_id aud_assignment = ''exec:1''"
    "assignment_node_id aud_assignment = ''node:1''" "assignment_pilot_id aud_assignment = ''pilot:1''"
    "assignment_agent_name aud_assignment = ''A''"
    by (simp_all add: aud_assignment_def)
  show ?thesis
    by (simp add: record_agent_name_assignment_def a aud_registry_def assignment_for_id_def post_record aud_types aud_valid
        version_of_def aud_named_def)
qed

lemma aud_named_sel [simp]:
  "data_space_id (k_data_space aud_named) = ''ds:main''" "ledger_data_space_id (k_ledger aud_named) = ''ds:main''"
  "k_versions aud_named = [(''graph:1'', 1), (''exec:1'', 1), (''assign:1'', 1)]"
  "k_executions aud_named = [(''exec:1'', aud_execution\<lparr>exec_agent_name := Some ''A''\<rparr>)]"
  "k_assignments aud_named = [(''assign:1'', aud_assignment)]"
  "length (stream_of (k_ledger aud_named) ''exec:1'') = 1"
  "dict_get (l_idempotency (k_ledger aud_named)) (run_key i) = None \<longleftrightarrow> i \<notin> {10, 20, 21, 22, 23, 24, 40, 90}"
  "dict_get (l_event_ids (k_ledger aud_named)) (run_event_id n) = None \<longleftrightarrow> n \<notin> {80, 98, 99, 100, 101, 102, 109, 161}"
  by (simp_all add: aud_named_def) blast+

lemma aud_received: "record_pilot_execution_receipt toy aud_named 0 ''exec:1'' aud_receipt ''owner:me'' (run_key 91)
    = Inr (aud_event, aud_received)"
proof -
  have "receipt_transition aud_receipt = Inr (ExecFailed, None)"
    by (simp add: receipt_transition_def aud_receipt_def)
  moreover have "receipt_session_id aud_receipt = None" by (simp add: aud_receipt_def)
  ultimately show ?thesis
    by (simp add: record_pilot_execution_receipt_def post_record aud_types version_of_def aud_event_def aud_received_def)
      (simp add: aud_execution_def ex_execution_def numeral_2_eq_2)
qed

lemma aud_reachable: "run_reachable aud_received"
proof -
  have "run_reachable aud_created"
    by (rule reachable_next [OF reachable_run6 in_execution [OF step_create_execution [OF aud_valid(1) aud_created]]])
  then have "run_reachable aud_named"
    by (rule reachable_next [OF _ in_execution [OF step_record_agent_name_assignment [OF aud_valid(2) aud_named]]])
  then show ?thesis
    by (rule reachable_next [OF _ in_execution [OF step_record_pilot_execution_receipt [OF aud_received]]])
qed

lemma hello_reachable: "run_reachable hello_sent"
  by (rule reachable_next [OF reachable_run7 in_execution [OF step_record_agent_notification [OF hello_valid(2) hello_recorded]]])

definition aud_records :: "json list" where
  "aud_records =
     [JObj [(''id'', JStr ''sup:draft''), (''kind'', JStr ''reply-draft@1''), (''created_by'', JStr ''agent:A''),
        (''lineage'', JStr ''nanihold/work-item/work:1/execution/exec:1/agent/A''),
        (''derived_from'', JObj [(''observations'', JList [JStr ''obs:1''])]), (''payload'', JObj [(''channel'', JStr ''c'')])],
      JObj [(''id'', JStr ''sup:ok''), (''kind'', JStr ''reply-approval@1''),
        (''derived_from'', JObj [(''supplementals'', JList [JStr ''sup:draft''])])],
      JObj [(''id'', JStr ''sup:sent''), (''kind'', JStr ''send-record@1''),
        (''derived_from'', JObj [(''supplementals'', JList [JStr ''sup:draft''])]),
        (''payload'', JObj [(''approval_id'', JStr ''sup:ok''), (''mode'', JStr ''approved''), (''channel'', JStr ''c'')])]]"

lemma aud_reply: "read_reply aud_records ''sup:draft'' = Inr (\<lparr>rd_agent_name = ''A'', rd_work_item_id = ''work:1'',
    rd_execution_id = ''exec:1'', rd_observation_id = ''obs:1'', rd_channel = ''c''\<rparr>, ''sup:ok'', ''sup:sent'', JNull)"
  by code_simp

end
