(* ===== verification/Audit_Properties.thy ===== *)
theory Audit_Properties
  imports Audit_Run
begin

text \<open>
  The properties of the traces: the fast paths agree with the canonical ones, when a
  notification and an execution can be traced, and what a verified reply trace rests on.
\<close>

section \<open>Both paths\<close>

lemma reachable_both:
  assumes "reachable h ds ap cp k"
  shows "machine_inv k" and "trace_inv k" and "ledger_inv (k_ledger k)"
  using reachable_inv [OF assms] reachable_trace [OF assms] machine_invD(1) by blast+

lemma audit_parts [simp]: "init_audit k n = Inr A \<Longrightarrow> audit_kernel A = k"
  by (auto simp: init_audit_Inr)

text \<open>
  C22: the fast trace of a notification is the canonical one. On the ledger of a reachable
  Kernel, for every page size, both return, with the same verdict, error messages included.
\<close>

theorem fast_notification_trace_is_canonical:
  assumes "reachable h ds ap cp k" and "init_audit k n = Inr A"
  shows "trace_notification A nid = trace_notification_canonical A nid \<and> trace_notification A nid \<noteq> None"
  using notification_paths [OF reachable_both(1,2) [OF assms(1)]] audit_reads [OF assms(2) reachable_both(3) [OF assms(1)]]
    assms(2)
  by (simp add: trace_notification_def trace_notification_canonical_def notification_trace_over_def after_loop_def
      split: option.split)

theorem fast_notification_trace_is_canonical_witness:
  "trace_notification \<lparr>audit_kernel = hello_sent, page_size = 2\<rparr> ''notification:272''
    = trace_notification_canonical \<lparr>audit_kernel = hello_sent, page_size = 2\<rparr> ''notification:272'' \<and>
   trace_notification \<lparr>audit_kernel = hello_sent, page_size = 2\<rparr> ''notification:272'' \<noteq> None"
  by (rule fast_notification_trace_is_canonical [OF hello_reachable, where n = 2]) (simp add: init_audit_def)

lemma receipts_filter:
  "ledger_inv L \<Longrightarrow> filter is_receipt (stream_of L eid) = filter (receives eid) (l_events L)"
  by (simp add: ledger_inv_streams receives_def [abs_def] conj_commute)

text \<open>What both paths compute on a reachable Kernel.\<close>

definition execution_verdict :: "kernel \<Rightarrow> string \<Rightarrow> execution_trace result" where
  "execution_verdict k eid = bind_result (traced_execution k eid) (\<lambda>(x, w).
     validate_execution_trace eid x w (filter (assigns eid) (l_events (k_ledger k)))
       (filter (receives eid) (l_events (k_ledger k))))"

lemma trace_execution_verdict:
  assumes "reachable h ds ap cp k" and "init_audit k n = Inr A"
  shows "trace_execution A eid = Some (execution_verdict k eid)"
proof -
  note m = reachable_both [OF assms(1)]
  note reads = audit_reads [OF assms(2) m(3)]
  let ?as = "filter (\<lambda>a. assignment_execution_id a = eid) (dict_values (k_assignments k))"
  have assigned: "(if length ?as = 1
      then after_loop (audit_stream A (assignment_id (hd ?as))) (\<lambda>es. Inr (filter is_assignment es)) else Some (Inr []))
    = Some (Inr (filter (assigns eid) (l_events (k_ledger k))))"
    unfolding assigned_events(1) [OF m(1,2) refl] by (simp add: reads after_loop_def)
  show ?thesis
    unfolding trace_execution_def Let_def audit_parts [OF assms(2)] assigned
    by (simp add: execution_verdict_def reads after_loop_def receipts_filter [OF m(3)] split: sum.split)
qed

lemma trace_execution_canonical_verdict:
  assumes "reachable h ds ap cp k" and "init_audit k n = Inr A"
  shows "trace_execution_canonical A eid = Some (execution_verdict k eid)"
  using sort_execution_all [OF reachable_both(1,2) [OF assms(1)] subset_refl, of eid "[]" "[]"]
    audit_reads(1) [OF assms(2) reachable_both(3) [OF assms(1)]] assms(2)
  by (simp add: trace_execution_canonical_def after_loop_def trace_execution_from_events_def execution_verdict_def
      case_prod_unfold)

text \<open>
  C23: the fast trace of an execution is the canonical one, likewise.
\<close>

theorem fast_execution_trace_is_canonical:
  assumes "reachable h ds ap cp k" and "init_audit k n = Inr A"
  shows "trace_execution A eid = trace_execution_canonical A eid \<and> trace_execution A eid \<noteq> None"
  by (simp add: trace_execution_verdict [OF assms] trace_execution_canonical_verdict [OF assms])

theorem fast_execution_trace_is_canonical_witness:
  "trace_execution \<lparr>audit_kernel = aud_received, page_size = 2\<rparr> ''exec:1''
    = trace_execution_canonical \<lparr>audit_kernel = aud_received, page_size = 2\<rparr> ''exec:1'' \<and>
   trace_execution \<lparr>audit_kernel = aud_received, page_size = 2\<rparr> ''exec:1'' \<noteq> None"
  by (rule fast_execution_trace_is_canonical [OF aud_reachable, where n = 2]) (simp add: init_audit_def)

section \<open>What can be traced\<close>

lemma filter_key_none: "a \<notin> f ` set xs \<Longrightarrow> filter (\<lambda>x. f x = a) xs = []"
  by (auto simp: filter_empty_conv)

lemma filter_key_le1: "distinct (map f xs) \<Longrightarrow> length (filter (\<lambda>x. f x = a) xs) \<le> 1"
  by (induction xs) (auto simp: filter_key_none)

lemma filter_key_one: "distinct (map f xs) \<Longrightarrow> a \<in> f ` set xs \<Longrightarrow> \<exists>x \<in> set xs. f x = a \<and> filter (\<lambda>x. f x = a) xs = [x]"
  by (induction xs) (auto simp: filter_key_none)

lemma stored_filter:
  "map stored (filter (\<lambda>s. event_type (stored s) = ty \<and> stream_id (stored s) = sid) (l_events L))
    = filter (\<lambda>e. stream_id e = sid) (typed ty L)"
  by (simp add: typed_def ledger_events_def filter_map comp_def conj_commute)

lemma delivery_event:
  assumes m: "machine_inv k" and t: "trace_inv k" and n: "dict_get (k_notifications k) nid = Some n"
  obtains s where "filter (tells_of nid) (l_events (k_ledger k)) = [s]" "delivered_as k (stored s)"
    "stored s \<in> set (ledger_events (k_ledger k))" "tells_of nid s"
    "\<And>e. e \<in> set (ledger_events (k_ledger k)) \<Longrightarrow> event_type e = ''agent_notification_delivered'' \<Longrightarrow> stream_id e = nid \<Longrightarrow>
      e = stored s"
proof -
  let ?T = "typed ''agent_notification_delivered'' (k_ledger k)"
  have nl: "map stream_id ?T = map fst (k_notifications k)" "\<forall>e \<in> set ?T. delivered_as k e"
    using t by (simp_all add: trace_inv_def notifications_logged_def)
  have "distinct (map stream_id ?T)" using nl(1) machine_invD(3) [OF m] by (simp add: keyed_def)
  moreover have "nid \<in> stream_id ` set ?T"
    using nl(1) dict_get_Some_mem [OF n] by (metis dict_mem_def set_map)
  ultimately obtain e where e: "e \<in> set ?T" "stream_id e = nid" "filter (\<lambda>x. stream_id x = nid) ?T = [e]"
    using filter_key_one [of stream_id ?T nid] by blast
  have "map stored (filter (tells_of nid) (l_events (k_ledger k))) = [e]"
    using stored_filter [of "''agent_notification_delivered''" nid "k_ledger k"] e(3) by (simp add: tells_of_def [abs_def])
  then obtain s where s: "filter (tells_of nid) (l_events (k_ledger k)) = [s]" "stored s = e" by auto
  have "x = e" if "x \<in> set (ledger_events (k_ledger k))" "event_type x = ''agent_notification_delivered''" "stream_id x = nid" for x
  proof -
    have "x \<in> set (filter (\<lambda>x. stream_id x = nid) ?T)" using that by (simp add: typed_def)
    then show ?thesis unfolding e(3) by simp
  qed
  note only = this
  have "s \<in> set (filter (tells_of nid) (l_events (k_ledger k)))" using s(1) by simp
  then have "tells_of nid s" by simp
  moreover have "delivered_as k (stored s)" using s(2) e(1) nl(2) by simp
  moreover have "stored s \<in> set (ledger_events (k_ledger k))" using s(2) e(1) by (simp add: typed_def)
  ultimately show thesis by (intro that [OF s(1)]) (simp_all only: s(2) only)
qed

lemma promotion_events:
  assumes t: "trace_inv k"
  obtains "filter (promotes nid) (l_events (k_ledger k)) = []"
      "nid \<notin> stream_id ` set (typed ''agent_notification_promoted'' (k_ledger k))"
  | p where "filter (promotes nid) (l_events (k_ledger k)) = [p]" "promoted_as k (stored p)" "stream_id (stored p) = nid"
      "nid \<in> stream_id ` set (typed ''agent_notification_promoted'' (k_ledger k))"
proof -
  let ?T = "typed ''agent_notification_promoted'' (k_ledger k)"
  have nl: "distinct (map stream_id ?T)" "\<forall>e \<in> set ?T. promoted_as k e"
    using t by (simp_all add: trace_inv_def notifications_logged_def)
  have map: "map stored (filter (promotes nid) (l_events (k_ledger k))) = filter (\<lambda>e. stream_id e = nid) ?T"
    using stored_filter [of "''agent_notification_promoted''" nid "k_ledger k"] by (simp add: promotes_def [abs_def])
  show thesis
  proof (cases "nid \<in> stream_id ` set ?T")
    case True
    from filter_key_one [OF nl(1) this] obtain e where e: "e \<in> set ?T" "stream_id e = nid" "filter (\<lambda>e. stream_id e = nid) ?T = [e]"
      by blast
    then obtain p where "filter (promotes nid) (l_events (k_ledger k)) = [p]" "stored p = e" using map by auto
    then show thesis using that(2) [of p] e nl(2) True by auto
  next
    case False
    then have "filter (\<lambda>e. stream_id e = nid) ?T = []" by (auto simp: filter_empty_conv)
    with map that(1) False show thesis by simp
  qed
qed

lemma same_but_promotion:
  fixes m n :: agent_notification
  assumes "m\<lparr>promoted_work_item_id := None\<rparr> = n\<lparr>promoted_work_item_id := None\<rparr>"
  shows "n = m\<lparr>promoted_work_item_id := None\<rparr> \<longleftrightarrow> promoted_work_item_id n = None"
proof
  assume "promoted_work_item_id n = None"
  then have "n\<lparr>promoted_work_item_id := None\<rparr> = n" by (cases n) simp
  with assms show "n = m\<lparr>promoted_work_item_id := None\<rparr>" by simp
qed (metis agent_notification.select_convs(17) agent_notification.surjective agent_notification.update_convs(17))

lemma trace_notification_verdict:
  assumes "reachable h ds ap cp k" and "init_audit k n = Inr A"
  shows "trace_notification A nid = (case dict_get (k_notifications k) nid of
      None \<Rightarrow> Some (raise_violation (''notification_id not found: '' @ nid))
    | Some m \<Rightarrow> Some (validate_notification_trace k nid m (l_events (k_ledger k))))"
  using notification_paths [OF reachable_both(1,2) [OF assms(1)]] audit_reads [OF assms(2) reachable_both(3) [OF assms(1)]]
    assms(2)
  by (simp add: trace_notification_def notification_trace_over_def after_loop_def split: option.split)

text \<open>
  C24: a delivered notification can be traced exactly when it was delivered without a
  promotion; its trace then names the WorkItem it was promoted to, if it was.
\<close>

theorem notification_trace_exact:
  assumes r: "reachable h ds ap cp k" and A: "init_audit k n = Inr A" and m: "dict_get (k_notifications k) nid = Some m"
  shows "(\<exists>t. trace_notification A nid = Some (Inr t) \<and> nt_work_item_id t = promoted_work_item_id m \<and>
        nt_delivery_kind t = (if promoted_work_item_id m = None then ''ledger_event'' else ''ledger_event+work_item''))
      \<longleftrightarrow> (\<exists>e \<in> set (ledger_events (k_ledger k)). event_type e = ''agent_notification_delivered'' \<and> stream_id e = nid \<and>
        payload e = [(''notification'', PNotification (m\<lparr>promoted_work_item_id := None\<rparr>))])"
    (is "?traced \<longleftrightarrow> ?delivered")
proof -
  note inv = reachable_both [OF r]
  obtain s where s: "filter (tells_of nid) (l_events (k_ledger k)) = [s]" "delivered_as k (stored s)"
    "stored s \<in> set (ledger_events (k_ledger k))" "tells_of nid s"
    "\<And>e. e \<in> set (ledger_events (k_ledger k)) \<Longrightarrow> event_type e = ''agent_notification_delivered'' \<Longrightarrow> stream_id e = nid \<Longrightarrow>
      e = stored s"
    using delivery_event [OF inv(1,2) m] by blast
  have sid: "stream_id (stored s) = nid" "event_type (stored s) = ''agent_notification_delivered''"
    using s(4) by (simp_all add: tells_of_def)
  obtain c where c: "payload (stored s) = [(''notification'', PNotification c)]" "valid_agent_notification c"
      "m\<lparr>promoted_work_item_id := None\<rparr> = c\<lparr>promoted_work_item_id := None\<rparr>"
      "if nid \<in> stream_id ` set (typed ''agent_notification_promoted'' (k_ledger k))
       then promoted_work_item_id c = None else promoted_work_item_id c = promoted_work_item_id m"
    using s(2) m unfolding delivered_as_def sid by auto
  have rhs: "?delivered \<longleftrightarrow> promoted_work_item_id c = None"
  proof
    assume ?delivered
    then obtain e where "e = stored s" "payload e = [(''notification'', PNotification (m\<lparr>promoted_work_item_id := None\<rparr>))]"
      using s(5) by blast
    then show "promoted_work_item_id c = None" using c(1) by simp
  next
    assume "promoted_work_item_id c = None"
    then have "c = m\<lparr>promoted_work_item_id := None\<rparr>" using same_but_promotion [OF c(3)] by blast
    then show ?delivered using s(3) sid c(1) by (intro bexI [of _ "stored s"]) simp_all
  qed
  have check: "check_delivery m s = Inr () \<longleftrightarrow> promoted_work_item_id c = None"
    using c(1,2) same_but_promotion [OF c(3)] by (auto simp: check_delivery_def)
  have sorted: "sort_notification_events nid (l_events (k_ledger k)) ([], [])
      = Inr ([s], filter (promotes nid) (l_events (k_ledger k)))"
    using sort_notification_all [OF inv(1,2) subset_refl, of nid "[]" "[]"] s(1) by simp
  have verdict: "trace_notification A nid = Some (validate_notification_trace k nid m (l_events (k_ledger k)))"
    by (simp add: trace_notification_verdict [OF r A] m)
  have "?traced \<longleftrightarrow> promoted_work_item_id c = None"
  proof (cases rule: promotion_events [OF inv(2), of nid])
    case 1
    then have "promoted_work_item_id c = promoted_work_item_id m" using c(4) by simp
    then show ?thesis unfolding verdict validate_notification_trace_def sorted 1(1) using check by auto
  next
    case (2 p)
    obtain w where w: "payload (stored p) = [(''notification_id'', PStr nid), (''work_item_id'', PStr w)]"
      "promoted_work_item_id m = Some w" "w \<noteq> []" "dict_mem w (k_work_items k)"
      using 2(2) m unfolding promoted_as_def 2(3) by auto
    then have "check_traced_promotion k m p = Inr ()" by (simp add: check_traced_promotion_def)
    then show ?thesis unfolding verdict validate_notification_trace_def sorted 2(1) using check w(2) by auto
  qed
  then show ?thesis by (rule trans [OF _ rhs [symmetric]])
qed

theorem notification_trace_exact_witness:
  "\<exists>t. trace_notification \<lparr>audit_kernel = hello_sent, page_size = 2\<rparr> ''notification:272'' = Some (Inr t) \<and>
    nt_work_item_id t = None \<and> nt_delivery_kind t = ''ledger_event''"
proof -
  have A: "init_audit hello_sent 2 = Inr \<lparr>audit_kernel = hello_sent, page_size = 2\<rparr>" by (simp add: init_audit_def)
  have n: "dict_get (k_notifications hello_sent) ''notification:272'' = Some hello" by (simp add: hello_sent_def)
  have "hello\<lparr>promoted_work_item_id := None\<rparr> = hello" by (simp add: hello_def agent_message_def)
  then have "\<exists>e \<in> set (ledger_events (k_ledger hello_sent)). event_type e = ''agent_notification_delivered'' \<and>
      stream_id e = ''notification:272'' \<and> payload e = [(''notification'', PNotification (hello\<lparr>promoted_work_item_id := None\<rparr>))]"
    by (simp add: hello_sent_def pushed_def ledger_events_def Let_def post_event_def)
  with notification_trace_exact [OF hello_reachable A n] show ?thesis by simp
qed





lemma required_string_Inr [simp]: "required_string f ctx (Some (PStr s)) = Inr r \<longleftrightarrow> r = s \<and> s \<noteq> []"
  by (auto simp: required_string_def)






section \<open>Replies\<close>


lemma as_jobj_Some [simp]: "as_jobj v = Some r \<longleftrightarrow> v = JObj r"
  by (cases v) auto

lemma as_jstr_Some [simp]: "as_jstr v = Some s \<longleftrightarrow> v = JStr s"
  by (cases v) auto

lemma as_jlist_Some [simp]: "as_jlist v = Some xs \<longleftrightarrow> v = JList xs"
  by (cases v) auto


lemma required_jstring_Inr [simp]: "required_jstring f ctx v = Inr s \<longleftrightarrow> v = JStr s \<and> s \<noteq> []"
  by (auto simp: required_jstring_def split: option.splits)









end
