(* ===== verification/Spec2Isabelle.thy ===== *)
theory Spec2Isabelle
  imports Kernel_Properties Service_Properties Naming_Properties Notification_Properties Routing_Properties Interface_Properties
    Dispatcher_Properties Audit_Properties
begin

text \<open>
  A model of Nanihold OS (\<^verbatim>\<open>src/vsm\<close>): a Kernel that keeps Nodes, WorkItems, Executions,
  effects and routes of one DataSpace, writes every change to an event ledger, and refuses
  to act before its owner has confirmed a reorientation over the imported history.

  \<^bold>\<open>How the parts interact.\<close> Every service owns a stream of the ledger and a version of it.
  An operation checks its guards, appends one event at the next version, and then changes
  the in-memory views; if the append fails nothing has changed. The Kernel
  (\<^verbatim>\<open>kernel/service.py\<close>), the activation service (\<^verbatim>\<open>activation/service.py\<close>) and the owner
  bootstrap (\<^verbatim>\<open>auth.py\<close>) share one ledger (\<^verbatim>\<open>kernel/ledger.py\<close>). After a restart the Projector
  (\<^verbatim>\<open>projection.py\<close>) rebuilds all of them from the events. Routing evidence, the token lab and
  the conversations write the same ledger; an owner's turn asks the pilot, validates its
  actions and calls the Kernel and the token lab. The audit traces (\<^verbatim>\<open>audit_trace.py\<close>) read
  a reply, a notification or an Execution back from the ledger's events alone.

  \<^bold>\<open>Theories.\<close> In the order they build on each other:
  \<^item> \<open>Prelude\<close>: \<^verbatim>\<open>errors.py\<close> as the type \<open>error\<close>; the result type, Python's ordered dictionaries
    as association lists (\<open>dict_set\<close> keeps the place of an existing key), strings as UTF-8
    bytes, and \<open>ensures\<close>, which states what holds when an operation succeeds.
  \<^item> \<open>Ids\<close>: \<^verbatim>\<open>ids.py\<close>, with the canonical JSON that is hashed into an event id.
  \<^item> \<open>Kernel_Models\<close>, \<open>Activation_Models\<close>, \<open>Agent_Models\<close>, \<open>Interface_Models\<close>, \<open>Evidence_Models\<close>: the
    pydantic models of \<^verbatim>\<open>kernel/models.py\<close>, \<^verbatim>\<open>activation/models.py\<close>, \<^verbatim>\<open>agent_naming.py\<close>,
    \<^verbatim>\<open>notifications.py\<close>, \<^verbatim>\<open>auth.py\<close>, \<^verbatim>\<open>interface/models.py\<close>, \<^verbatim>\<open>pilot/models.py\<close>,
    \<^verbatim>\<open>routing/bayesian.py\<close> and \<^verbatim>\<open>token_lab/lab.py\<close> as records, their validators as predicates \<open>valid_...\<close>. Field names carry
    the model's name where two classes use one name.
  \<^item> \<open>Ledger\<close>: \<^verbatim>\<open>InMemoryOperationalLedger\<close>; the abstract ledger, a list of events; the locale
    \<open>event_ledger\<close> with the laws a client relies on, interpreted on the model.
  \<^item> \<open>Events\<close>: payloads and \<open>append_event\<close>, the way every service's \<^verbatim>\<open>_record\<close> writes.
  \<^item> \<open>Activation_Service\<close>, \<open>Owner_Auth\<close>, \<open>History_Tools\<close>, \<open>Agent_Naming\<close>, \<open>Notification_Delivery\<close>: the
    services, one definition per method.
  \<^item> \<open>Kernel_State\<close>, \<open>Kernel_Work\<close>, \<open>Kernel_Exec\<close>, \<open>Kernel_Effects\<close>, \<open>Kernel_Routes\<close>: the class
    \<^verbatim>\<open>Kernel\<close>, its state and its operations by the entity they change.
  \<^item> \<open>Projection\<close>, \<open>Projection_Rebuild\<close>: the handlers of \<^verbatim>\<open>OperationalProjection\<close>, one definition per
    \<^verbatim>\<open>_on_...\<close> method, and \<^verbatim>\<open>apply\<close> and \<^verbatim>\<open>rebuild\<close>.
  \<^item> \<open>Replay\<close>: the locale \<open>event_sourced\<close>, the contract between a service that logs its steps and
    the handlers that replay them. \<open>Kernel_Step\<close>, \<open>Kernel_Replay\<close>, \<open>Service_Replay\<close>: each operation
    logs events whose replay gives the state the operation left.
  \<^item> \<open>Kernel_Machine\<close>: the step relation of the whole system and its reachable states;
    \<open>Kernel_Rebuild\<close> interprets \<open>event_sourced\<close> on it.
  \<^item> \<open>Kernel_Outcomes\<close>: what each operation leaves when it succeeds. \<open>Kernel_Invariants\<close>,
    \<open>Kernel_Authority\<close>, \<open>Kernel_Refs\<close>, \<open>Kernel_Published\<close>, \<open>Kernel_Lifecycles\<close>,
    \<open>Kernel_Dependencies\<close>, \<open>Kernel_Audit\<close>: one invariant or life cycle each, over all steps.
  \<^item> \<open>Service_Streams\<close>: what a service has to know of its streams for its appends to be new.
    \<open>Routing\<close> (\<^verbatim>\<open>routing/bayesian.py\<close>) and \<open>Token_Lab\<close> (\<^verbatim>\<open>token_lab/lab.py\<close>) with their handlers;
    \<open>Evidence_Replay\<close> interprets \<open>event_sourced\<close> on both, \<open>Routing_Choice\<close> and \<open>Evidence_Counts\<close> hold
    what a selection and a posterior mean.
  \<^item> \<open>Interface_Service\<close>, \<open>Interface_Turn\<close>: \<^verbatim>\<open>InterfaceService\<close> of \<^verbatim>\<open>interface/service.py\<close>, the owner's
    turn (\<^verbatim>\<open>perform_owner_action\<close> with \<^verbatim>\<open>_validate_actions\<close>, \<^verbatim>\<open>_complete_action\<close> and
    \<^verbatim>\<open>_apply_actions\<close>) in the second. \<open>Interface_Replay\<close>: its nine handlers. \<open>Interface_Steps\<close>,
    \<open>Interface_Turns\<close>, \<open>Interface_Outcome\<close>: each operation and each turn logs events whose replay
    gives what it left, unless the turn fails after its response. \<open>Interface_Machine\<close>: the step
    relation, the interpretation of \<open>event_sourced\<close>, and why a late failure is no step.
    \<open>Interface_Checks\<close>: the event delta and the search for cycles. \<open>Interface_Run\<close>: an example turn.
  \<^item> \<open>Dispatcher\<close>: \<^verbatim>\<open>dispatcher.py\<close>, planning, the creation of Executions, the event delta, the
    preflight and the recording of completions. \<open>Dispatcher_Plan\<close>: what planning and the
    preflight decide; \<open>Dispatcher_Runs\<close>: starting WorkItems as a run of the Kernel;
    \<open>Dispatcher_Machine\<close>: the delta, completions, the step relation beside the Kernel and its
    invariant; \<open>Dispatcher_Run\<close>: an example.
  \<^item> \<open>Json\<close>: JSON values as Python reads them from a payload. \<open>Audit_Trace\<close>, \<open>Reply_Trace\<close>:
    \<^verbatim>\<open>audit_trace.py\<close>, the canonical and the index path of each trace. \<open>Audit_Events\<close>,
    \<open>Audit_Steps\<close>: what the ledger holds of the traced events, an invariant over all steps.
    \<open>Audit_Reads\<close>: the page loops return, and both paths find the same events. \<open>Audit_Run\<close>: an example.
  \<^item> \<open>Example_Run\<close>: a run of fifteen calls from an empty ledger through commissioning to a
    completed WorkItem, at which the properties are applied; its digest is a toy function.
  \<^item> \<open>Kernel_Properties\<close>, \<open>Service_Properties\<close>, \<open>Naming_Properties\<close>,
    \<open>Notification_Properties\<close>, \<open>Routing_Properties\<close>, \<open>Interface_Properties\<close>,
    \<open>Dispatcher_Properties\<close>, \<open>Audit_Properties\<close> and this theory: the
    properties, each followed by its application to concrete data.

  \<^bold>\<open>State and operations.\<close> An operation of a class is a function from the state, the clock
  readings and the arguments to \<open>Inl\<close> the exception or \<open>Inr\<close> the event and the new state.
  Where the code raises after it has changed something (the CSV rotation index, a stored
  blob, a grant validated after its event), the function returns the new state beside the
  outcome. Random values (UUIDs, tokens), clock readings, SHA-256 and the digest of a work
  graph are arguments; a payload carries a model under a constructor of \<open>pval\<close>, so
  \<^verbatim>\<open>model_dump\<close> followed by \<^verbatim>\<open>model_validate\<close> is the identity on valid models. An agent-name
  registry guards itself with a lock: each of its methods is one step. The dispatcher's thread
  pool is the list of submissions whose completion is still to come; a completion is an
  operation of its own, so any order of dispatches, completions and other calls is a run.
  Dispatching has no lock around planning, hence planning and launching are separate
  definitions; apart from that an operation is taken to run alone.

  \<^bold>\<open>Loops.\<close> The dependency search, the search for a free name suffix, the event deltas of a turn
  and of a dispatch, and the search for cycles in a response are total functions with a measure. The rebuild, the scan of the session index and the page
  loops of the traces are \<open>partial_function (option)\<close>: not returning is \<^const>\<open>None\<close>, and all are
  shown to return (the scan when the reader's pages come to an end). No fuel is used.

  \<^bold>\<open>Not modelled.\<close> In \<open>Projection\<close> the handlers of interface, routing and token events are the
  parameter \<open>others\<close>, of which is assumed only that they leave the Kernel's ledger reference
  alone; they are modelled beside their services and replayed there over the whole log. The CSV reader of \<^verbatim>\<open>agent_naming.py\<close>, \<^verbatim>\<open>effect_plan_sha256\<close> and the loop of
  \<^verbatim>\<open>ReorientationService\<close> are left out, as are the HTTP client of LETHE, the pilots and their
  hosts, the command line and web front ends, configuration, the legacy migration and the
  deployment script: they do I/O around the core.
\<close>

section \<open>The Kernel and its ledger\<close>

text \<open>
  C1: rebuilding a fresh Kernel from the ledger of a running one, with any page size,
  returns, and gives back exactly the running Kernel: all views, stream versions, the
  activation service and the owner bootstrap.
\<close>

theorem rebuild_restores_kernel:
  assumes "reachable h ds ap cp k" and "0 < n" and "\<And>ty g. others ty = Some g \<Longrightarrow> keeps_ledger g"
  shows "rebuild others n (init_projection (fresh_kernel ds (k_ledger k) ap cp))
    = Some (Inr ((init_projection k)\<lparr>p_cursor := length (ledger_events (k_ledger k))\<rparr>))"
proof -
  let ?L = "k_ledger k" and ?p = "init_projection (fresh_kernel ds (k_ledger k) ap cp)"
  have "ledger_inv ?L"
    using reachable_inv [OF assms(1)] versions_invD(1) by (simp add: machine_inv_def)
  then have "rebuild_loop others n ?p = Some (fold_result (apply_next others) ?p (ledger_events ?L))"
    using rebuild_loop_fold [OF assms(3) _ assms(2), where L = ?L and p = ?p] by (simp add: init_projection_def fresh_kernel_def)
  moreover have "?p = view_at ?L (fresh_kernel ds (empty_ledger (data_space_id ds)) ap cp)"
    by (simp add: init_projection_def view_at_def fresh_kernel_def)
  ultimately show ?thesis
    using reachable_replay [OF assms(1), where others = others and L = ?L] assms(2)
    by (simp add: rebuild_def view_at_def init_projection_def)
qed

theorem rebuild_restores_kernel_witness:
  "rebuild (\<lambda>_. None) 2 (init_projection (fresh_kernel ex_space (k_ledger run15) ex_audit ex_control))
    = Some (Inr ((init_projection run15)\<lparr>p_cursor := length (ledger_events (k_ledger run15))\<rparr>))"
  by (rule rebuild_restores_kernel [OF reachable_run15]) simp_all



end
